(* ===== verification/Labbit_Prelude.thy ===== *)
theory Labbit_Prelude
  imports Main "HOL-Library.Word"
begin

text \<open>
  Shared vocabulary of the development: identifiers and times, the parts of Go's standard
  library that the modelled packages call on byte strings (\<^verbatim>\<open>unicode/utf8\<close>,
  \<^verbatim>\<open>strings\<close>), 64-bit integer arithmetic, and the lemma collections that
  the component theories extend.

  A Go string is a byte sequence, so it is an Isabelle \<^typ>\<open>string\<close> (a list of 8-bit
  characters); its \<^verbatim>\<open>len\<close> is \<^const>\<open>length\<close>.
\<close>

named_theorems go_defs \<open>unfolding equations of the Go library functions\<close>
named_theorems validator_defs \<open>unfolding equations of the request validators\<close>
named_theorems frame_simps \<open>what an operation leaves unchanged\<close>


section \<open>Identifiers, times, integers\<close>

text \<open>\<^verbatim>\<open>uuid.UUID\<close> is an array of 16 bytes; \<^verbatim>\<open>uuid.Nil\<close> is the zero one.\<close>

type_synonym uuid = "128 word"

abbreviation uuid_Nil :: uuid where
  "uuid_Nil \<equiv> 0"

text \<open>Instants and durations are integers (microseconds, the resolution PostgreSQL keeps).\<close>

type_synonym go_time = int

definition time_Second :: int where
  "time_Second = 1000000"

definition time_Minute :: int where
  "time_Minute = 60 * time_Second"

text \<open>Two's complement wrap-around of Go's \<^verbatim>\<open>int64\<close>.\<close>

definition wrap_int64 :: "int \<Rightarrow> int" where
  "wrap_int64 n = (n + 2 ^ 63) mod 2 ^ 64 - 2 ^ 63"

definition in_int64 :: "int \<Rightarrow> bool" where
  "in_int64 n \<longleftrightarrow> - (2 ^ 63) \<le> n \<and> n < 2 ^ 63"

definition int64_add :: "int \<Rightarrow> int \<Rightarrow> int" where
  "int64_add a b = wrap_int64 (a + b)"

definition MaxInt32 :: int where
  "MaxInt32 = 2147483647"

lemma wrap_int64_id: "in_int64 n \<Longrightarrow> wrap_int64 n = n"
  by (simp add: wrap_int64_def in_int64_def)

lemma wrap_int64_in_range: "in_int64 (wrap_int64 n)"
  by (simp add: wrap_int64_def in_int64_def)

lemma int64_add_exact: "in_int64 (a + b) \<Longrightarrow> int64_add a b = a + b"
  by (simp add: int64_add_def wrap_int64_id)


section \<open>UTF-8\<close>

text \<open>
  \<^verbatim>\<open>utf8.DecodeRuneInString\<close>: the rune that starts a string and its width,
  or \<^const>\<open>None\<close> where Go returns \<^verbatim>\<open>(RuneError, 1)\<close> for an invalid encoding.
\<close>

abbreviation byte_at :: "string \<Rightarrow> nat \<Rightarrow> nat" where
  "byte_at s i \<equiv> (if i < length s then of_char (s ! i) else 0)"

definition in_bytes :: "nat \<Rightarrow> nat \<Rightarrow> nat \<Rightarrow> bool" where
  "in_bytes lo hi b \<longleftrightarrow> lo \<le> b \<and> b \<le> hi"

definition decode_rune :: "string \<Rightarrow> (nat \<times> nat) option" where
  "decode_rune s =
     (let b0 = byte_at s 0; b1 = byte_at s 1; b2 = byte_at s 2; b3 = byte_at s 3 in
      if s = [] then None
      else if b0 < 128 then Some (b0, 1)
      else if in_bytes 194 223 b0 \<and> in_bytes 128 191 b1
        then Some ((b0 - 192) * 64 + (b1 - 128), 2)
      else if in_bytes 224 239 b0
          \<and> in_bytes (if b0 = 224 then 160 else 128) (if b0 = 237 then 159 else 191) b1
          \<and> in_bytes 128 191 b2
        then Some ((b0 - 224) * 4096 + (b1 - 128) * 64 + (b2 - 128), 3)
      else if in_bytes 240 244 b0
          \<and> in_bytes (if b0 = 240 then 144 else 128) (if b0 = 244 then 143 else 191) b1
          \<and> in_bytes 128 191 b2 \<and> in_bytes 128 191 b3
        then Some ((b0 - 240) * 262144 + (b1 - 128) * 4096 + (b2 - 128) * 64 + (b3 - 128), 4)
      else None)"

lemma decode_rune_Nil [simp]: "decode_rune [] = None"
  by (simp add: decode_rune_def)

lemma decode_rune_width: "decode_rune s = Some (r, w) \<Longrightarrow> 0 < w \<and> w \<le> length s"
  by (auto simp: decode_rune_def Let_def in_bytes_def Suc_le_eq split: if_splits)

lemma decode_rune_ascii: "of_char c < (128::nat) \<Longrightarrow> decode_rune (c # s) = Some (of_char c, 1)"
  by (simp add: decode_rune_def Let_def)

definition rune_width :: "string \<Rightarrow> nat" where
  "rune_width s = (case decode_rune s of Some (r, w) \<Rightarrow> w | None \<Rightarrow> 1)"

lemma rune_width_bounds: "s \<noteq> [] \<Longrightarrow> 0 < rune_width s \<and> rune_width s \<le> length s"
  by (auto simp: rune_width_def Suc_le_eq dest: decode_rune_width split: option.splits)

text \<open>
  Ranging over a string: the successive runes (\<^const>\<open>None\<close> for an invalid byte) with
  the bytes each of them covers.
\<close>

function utf8_chunks :: "string \<Rightarrow> (nat option \<times> string) list" where
  "utf8_chunks s =
     (if s = [] then []
      else (map_option fst (decode_rune s), take (rune_width s) s)
             # utf8_chunks (drop (rune_width s) s))"
  by pat_completeness auto
termination
  by (relation "measure length") (use rune_width_bounds in fastforce)+

declare utf8_chunks.simps [simp del]

lemma utf8_chunks_Nil [simp]: "utf8_chunks [] = []"
  by (simp add: utf8_chunks.simps)

lemma utf8_chunks_ascii [simp]:
  "of_char c < (128::nat) \<Longrightarrow> utf8_chunks (c # s) = (Some (of_char c), [c]) # utf8_chunks s"
  by (simp add: utf8_chunks.simps [of "c # s"] decode_rune_ascii rune_width_def)

lemma concat_utf8_chunks [simp]: "concat (map snd (utf8_chunks s)) = s"
proof (induction s rule: utf8_chunks.induct)
  case (1 s)
  then show ?case
    by (cases "s = []") (simp_all add: utf8_chunks.simps [of s])
qed

definition utf8_ValidString :: "string \<Rightarrow> bool" where [go_defs]:
  "utf8_ValidString s \<longleftrightarrow> (\<forall>(r, bs) \<in> set (utf8_chunks s). r \<noteq> None)"

definition utf8_RuneCountInString :: "string \<Rightarrow> nat" where [go_defs]:
  "utf8_RuneCountInString s = length (utf8_chunks s)"

lemma utf8_chunks_nonempty: "(r, bs) \<in> set (utf8_chunks s) \<Longrightarrow> bs \<noteq> []"
proof (induction s rule: utf8_chunks.induct)
  case (1 s)
  then show ?case
    using rune_width_bounds [of s]
    by (cases "s = []") (auto simp: utf8_chunks.simps [of s])
qed

lemma concat_map_snd_nonempty:
  "\<forall>x \<in> set cs. snd x \<noteq> [] \<Longrightarrow> length cs \<le> length (concat (map snd cs))"
proof (induction cs)
  case Nil
  then show ?case by simp
next
  case (Cons c cs)
  then have "0 < length (snd c)" and "length cs \<le> length (concat (map snd cs))"
    by simp_all
  then have "length (c # cs) \<le> length (snd c) + length (concat (map snd cs))"
    unfolding list.size by linarith
  then show ?case by simp
qed

lemma rune_count_le_length: "utf8_RuneCountInString s \<le> length s"
  using concat_map_snd_nonempty [of "utf8_chunks s"] utf8_chunks_nonempty [of _ _ s]
  by (force simp: utf8_RuneCountInString_def)

lemma rune_count_zero [simp]: "utf8_RuneCountInString s = 0 \<longleftrightarrow> s = []"
  by (subst utf8_RuneCountInString_def, subst utf8_chunks.simps) simp

text \<open>\<^verbatim>\<open>strings.ToValidUTF8(s, "")\<close> drops every invalid byte.\<close>

definition strings_ToValidUTF8 :: "string \<Rightarrow> string" where [go_defs]:
  "strings_ToValidUTF8 s = concat (map snd (filter (\<lambda>c. fst c \<noteq> None) (utf8_chunks s)))"

lemma length_concat_filter_le: "length (concat (map f (filter p xs))) \<le> length (concat (map f xs))"
  by (induction xs) auto

lemma ToValidUTF8_length: "length (strings_ToValidUTF8 s) \<le> length s"
  using length_concat_filter_le [of snd _ "utf8_chunks s"] by (simp add: strings_ToValidUTF8_def)

lemma ToValidUTF8_id: "utf8_ValidString s \<Longrightarrow> strings_ToValidUTF8 s = s"
proof -
  assume "utf8_ValidString s"
  then have "filter (\<lambda>c. fst c \<noteq> None) (utf8_chunks s) = utf8_chunks s"
    by (intro filter_True) (auto simp: utf8_ValidString_def)
  then show ?thesis by (simp add: strings_ToValidUTF8_def)
qed


section \<open>White space\<close>

text \<open>\<^verbatim>\<open>unicode.IsSpace\<close> and \<^verbatim>\<open>strings.TrimSpace\<close>.\<close>

definition unicode_IsSpace :: "nat \<Rightarrow> bool" where [go_defs]:
  "unicode_IsSpace r \<longleftrightarrow>
     9 \<le> r \<and> r \<le> 13 \<or> r = 32 \<or> r = 133 \<or> r = 160 \<or> r = 5760
     \<or> 8192 \<le> r \<and> r \<le> 8202 \<or> r = 8232 \<or> r = 8233 \<or> r = 8239 \<or> r = 8287 \<or> r = 12288"

definition space_chunk :: "nat option \<times> string \<Rightarrow> bool" where [go_defs]:
  "space_chunk c = (case fst c of None \<Rightarrow> False | Some r \<Rightarrow> unicode_IsSpace r)"

definition strings_TrimSpace :: "string \<Rightarrow> string" where [go_defs]:
  "strings_TrimSpace s =
     concat (map snd (rev (dropWhile space_chunk (rev (dropWhile space_chunk (utf8_chunks s))))))"

lemma dropWhile_rev_Nil: "dropWhile p (rev xs) = [] \<longleftrightarrow> (\<forall>x \<in> set xs. p x)"
  by (simp add: dropWhile_eq_Nil_conv)

lemma TrimSpace_empty_iff:
  "strings_TrimSpace s = [] \<longleftrightarrow> (\<forall>c \<in> set (utf8_chunks s). space_chunk c)"
proof -
  let ?cs = "dropWhile space_chunk (utf8_chunks s)"
  have ne: "snd c \<noteq> []" if "c \<in> set (utf8_chunks s)" for c
    using utf8_chunks_nonempty [of "fst c" "snd c" s] that by simp
  have sub: "set (dropWhile space_chunk (rev ?cs)) \<subseteq> set (utf8_chunks s)"
    using set_dropWhileD [of _ space_chunk "utf8_chunks s"] set_dropWhileD [of _ space_chunk "rev ?cs"]
    by auto
  have "strings_TrimSpace s = [] \<longleftrightarrow> (\<forall>c \<in> set (dropWhile space_chunk (rev ?cs)). snd c = [])"
    by (simp add: strings_TrimSpace_def)
  also have "\<dots> \<longleftrightarrow> set (dropWhile space_chunk (rev ?cs)) = {}"
    using ne subsetD [OF sub] by (metis empty_iff equals0I)
  also have "\<dots> \<longleftrightarrow> dropWhile space_chunk (rev ?cs) = []"
    by simp
  finally have "strings_TrimSpace s = [] \<longleftrightarrow> dropWhile space_chunk (rev ?cs) = []" .
  also have "\<dots> \<longleftrightarrow> (\<forall>c \<in> set ?cs. space_chunk c)"
    by (rule dropWhile_rev_Nil)
  also have "\<dots> \<longleftrightarrow> ?cs = []"
    by (metis dropWhile_eq_Nil_conv dropWhile_idem)
  also have "\<dots> \<longleftrightarrow> (\<forall>c \<in> set (utf8_chunks s). space_chunk c)"
    by (simp add: dropWhile_eq_Nil_conv)
  finally show ?thesis .
qed

lemma TrimSpace_nonempty: "strings_TrimSpace s \<noteq> [] \<Longrightarrow> s \<noteq> []"
  by (auto simp: strings_TrimSpace_def)


lemma TrimSpace_ascii:
  "of_char c < (128::nat) \<Longrightarrow> \<not> unicode_IsSpace (of_char c) \<Longrightarrow> strings_TrimSpace (c # s) \<noteq> []"
  by (simp add: TrimSpace_empty_iff space_chunk_def)

section \<open>Lists\<close>

text \<open>The position and value of the first element that fails a check, as the validators report it.\<close>

fun first_failure :: "(nat \<Rightarrow> 'a \<Rightarrow> 'e option) \<Rightarrow> nat \<Rightarrow> 'a list \<Rightarrow> 'e option" where
  "first_failure f i [] = None"
| "first_failure f i (x # xs) = (case f i x of None \<Rightarrow> first_failure f (Suc i) xs | Some e \<Rightarrow> Some e)"

lemma first_failure_None_iff:
  "first_failure f i xs = None \<longleftrightarrow> (\<forall>k < length xs. f (i + k) (xs ! k) = None)"
  by (induction xs arbitrary: i) (auto simp: less_Suc_eq_0_disj split: option.splits)

lemma first_failure_None_all:
  assumes "\<And>k x. f k x = None \<longleftrightarrow> P x"
  shows "first_failure f i xs = None \<longleftrightarrow> (\<forall>x \<in> set xs. P x)"
  by (auto simp: first_failure_None_iff assms all_set_conv_all_nth)

text \<open>\<^verbatim>\<open>distinct(ids)\<close>: the first occurrence of every element, in order.\<close>

fun distinct_acc :: "'a set \<Rightarrow> 'a list \<Rightarrow> 'a list" where
  "distinct_acc seen [] = []"
| "distinct_acc seen (x # xs) =
     (if x \<in> seen then distinct_acc seen xs else x # distinct_acc (insert x seen) xs)"

lemma set_distinct_acc: "set (distinct_acc seen xs) = set xs - seen"
  by (induction xs arbitrary: seen) auto

lemma distinct_distinct_acc: "distinct (distinct_acc seen xs)"
  by (induction xs arbitrary: seen) (auto simp: set_distinct_acc)

end
