(* ===== verification/Trace_Context.thy ===== *)
theory Trace_Context
  imports Labbit_Prelude
begin

text \<open>
  W3C trace metadata (\<^verbatim>\<open>internal/server/tracecontext\<close>). Validity and
  serialisation are decided by the OpenTelemetry propagator, a third-party package: it is a
  parameter of the model, the record \<open>otel\<close> below, whose \<open>otel_extract\<close> is
  \<^verbatim>\<open>propagator.Extract\<close> (the context's span before and after, \<^const>\<open>None\<close>
  where \<^verbatim>\<open>SpanContext.IsValid\<close> is false) and whose \<open>otel_inject\<close> is
  \<^verbatim>\<open>propagator.Inject\<close> of a valid span.
\<close>

record TraceContext =
  Traceparent :: string
  Tracestate :: string

record 'sp otel =
  otel_extract :: "'sp option \<Rightarrow> string \<Rightarrow> string \<Rightarrow> 'sp option"
  otel_inject :: "'sp \<Rightarrow> string \<times> string"

definition zero_trace :: TraceContext where
  "zero_trace = \<lparr>Traceparent = [], Tracestate = []\<rparr>"

definition MaxTraceparentLen :: nat where
  "MaxTraceparentLen = 512"

definition MaxTracestateLen :: nat where
  "MaxTracestateLen = 1024"

definition trace_Valid :: "TraceContext \<Rightarrow> bool" where
  "trace_Valid c \<longleftrightarrow> Traceparent c \<noteq> []"

definition trace_TraceID :: "TraceContext \<Rightarrow> string" where
  "trace_TraceID c =
     (if \<not> trace_Valid c \<or> length (Traceparent c) < 35 then []
      else take 32 (drop 3 (Traceparent c)))"

definition trace_FromContext :: "'sp otel \<Rightarrow> 'sp option \<Rightarrow> TraceContext" where
  "trace_FromContext P ctx =
     (case ctx of None \<Rightarrow> zero_trace
      | Some sp \<Rightarrow> \<lparr>Traceparent = fst (otel_inject P sp), Tracestate = snd (otel_inject P sp)\<rparr>)"

definition NormalizeTrace :: "'sp otel \<Rightarrow> string \<Rightarrow> string \<Rightarrow> TraceContext" where
  "NormalizeTrace P traceparent tracestate =
     (if traceparent = [] \<or> length traceparent > MaxTraceparentLen then zero_trace
      else trace_FromContext P
             (otel_extract P None traceparent
                (if tracestate \<noteq> [] \<and> length tracestate \<le> MaxTracestateLen then tracestate else [])))"

definition trace_NewContext :: "'sp otel \<Rightarrow> 'sp option \<Rightarrow> TraceContext \<Rightarrow> 'sp option" where
  "trace_NewContext P ctx c =
     (if \<not> trace_Valid c then ctx
      else otel_extract P ctx (Traceparent c) (if Tracestate c \<noteq> [] then Tracestate c else []))"

lemma NormalizeTrace_cases:
  "NormalizeTrace P tp ts = zero_trace
   \<or> (\<exists>sp. NormalizeTrace P tp ts = \<lparr>Traceparent = fst (otel_inject P sp), Tracestate = snd (otel_inject P sp)\<rparr>)"
  by (auto simp: NormalizeTrace_def trace_FromContext_def split: option.splits)

text \<open>
  What the code relies on of the propagator: the headers it writes for a span it has read are
  again readable, within the size limits, and name the same span.
\<close>

definition trace_wire_ok :: "string \<Rightarrow> string \<Rightarrow> bool" where
  "trace_wire_ok tp ts \<longleftrightarrow>
     tp \<noteq> [] \<and> length tp \<le> MaxTraceparentLen \<and> length ts \<le> MaxTracestateLen"

definition otel_stable :: "'sp otel \<Rightarrow> bool" where
  "otel_stable P \<longleftrightarrow>
     (\<forall>tp ts sp. otel_extract P None tp ts = Some sp \<and> length ts \<le> MaxTracestateLen \<longrightarrow>
        (let (tp', ts') = otel_inject P sp in
           trace_wire_ok tp' ts'
           \<and> (\<exists>sp'. otel_extract P None tp' ts' = Some sp' \<and> otel_inject P sp' = (tp', ts'))))"

lemma NormalizeTrace_wire:
  "trace_wire_ok tp ts \<Longrightarrow> NormalizeTrace P tp ts = trace_FromContext P (otel_extract P None tp ts)"
  by (auto simp: trace_wire_ok_def NormalizeTrace_def)

lemma NormalizeTrace_zero: "NormalizeTrace P [] ts = zero_trace"
  by (simp add: NormalizeTrace_def)

lemma NormalizeTrace_origin:
  assumes "NormalizeTrace P tp ts \<noteq> zero_trace"
  obtains ts' sp where "length ts' \<le> MaxTracestateLen" "otel_extract P None tp ts' = Some sp"
    "NormalizeTrace P tp ts = trace_FromContext P (Some sp)"
proof -
  define ts' where "ts' = (if ts \<noteq> [] \<and> length ts \<le> MaxTracestateLen then ts else [])"
  from assms have eq: "NormalizeTrace P tp ts = trace_FromContext P (otel_extract P None tp ts')"
    by (auto simp: NormalizeTrace_def ts'_def)
  from assms obtain sp where sp: "otel_extract P None tp ts' = Some sp"
    unfolding eq trace_FromContext_def by (auto split: option.splits)
  have "length ts' \<le> MaxTracestateLen" by (simp add: ts'_def)
  then show thesis
    using sp eq by (auto intro: that)
qed

lemma otel_stableD:
  assumes "otel_stable P" "otel_extract P None tp ts = Some sp" "length ts \<le> MaxTracestateLen"
    "otel_inject P sp = (tp1, ts1)"
  obtains sp' where "trace_wire_ok tp1 ts1" "otel_extract P None tp1 ts1 = Some sp'"
    "otel_inject P sp' = (tp1, ts1)"
  using assms(1) [unfolded otel_stable_def, rule_format, of tp ts sp] assms(2-4) by auto

lemma NormalizeTrace_idempotent:
  assumes "otel_stable P"
  shows "NormalizeTrace P (Traceparent (NormalizeTrace P tp ts)) (Tracestate (NormalizeTrace P tp ts))
           = NormalizeTrace P tp ts"
proof (cases "NormalizeTrace P tp ts = zero_trace")
  case True
  then show ?thesis by (simp add: zero_trace_def NormalizeTrace_zero)
next
  case False
  then obtain ts' sp where len: "length ts' \<le> MaxTracestateLen"
    and ex: "otel_extract P None tp ts' = Some sp"
    and eq: "NormalizeTrace P tp ts = trace_FromContext P (Some sp)"
    by (rule NormalizeTrace_origin)
  obtain tp1 ts1 where inj: "otel_inject P sp = (tp1, ts1)" by fastforce
  obtain sp' where "trace_wire_ok tp1 ts1" "otel_extract P None tp1 ts1 = Some sp'"
    "otel_inject P sp' = (tp1, ts1)"
    by (rule otel_stableD [OF assms ex len inj])
  then show ?thesis
    using inj by (simp add: eq trace_FromContext_def NormalizeTrace_wire)
qed

end
