(* ===== verification/Connector_Protocol.thy ===== *)
theory Connector_Protocol
  imports Trace_Context
begin

text \<open>
  The messages of the SaaS/Connector control channel that the server builds and receives
  (\<^verbatim>\<open>internal/connector/protocol/types.go\<close>) and the correlation values that
  tie a reply to its request (\<^verbatim>\<open>internal/server/connector/events.go\<close>).

  A Go pointer that may be nil is an \<^typ>\<open>'a option\<close>. A slice for which the code
  distinguishes nil from empty (\<open>ocp_ProviderResources\<close>, \<open>rrp_KnownResources\<close>)
  is an optional list; every other slice is a list.
\<close>

record SafeError =
  se_Code :: string
  se_Message :: string

record ProviderResourceRef =
  ref_ResourceType :: string
  ref_ProviderID :: string
  ref_Generation :: int
  ref_LogicalName :: string

record ProviderResourceResult = ProviderResourceRef +
  res_ObservedState :: string

record ResolvedFlavorSpec =
  fs_VCPUs :: int
  fs_RAMMiB :: int
  fs_DiskGiB :: int

record StartupScriptSnapshot =
  ss_Content :: string
  ss_SHA256 :: string

record ResolvedVmSpec =
  vm_VMKey :: string
  vm_Role :: string
  vm_InstanceIndex :: int
  vm_ImageID :: string
  vm_ImageRef :: string
  vm_FlavorID :: string
  vm_FlavorRef :: string
  vm_FlavorSpec :: "ResolvedFlavorSpec option"

record CreationSnapshot =
  cs_ProviderConnectionID :: string
  cs_VMs :: "ResolvedVmSpec list"
  cs_WorkspaceVMKey :: string
  cs_InternetOutbound :: bool
  cs_StartupScript :: "StartupScriptSnapshot option"

record OperationCommandPayload =
  ocp_MutationType :: string
  ocp_CreationSnapshot :: "CreationSnapshot option"
  ocp_ProviderResources :: "ProviderResourceRef list option"

record OperationAckPayload =
  ack_Accepted :: bool
  ack_Error :: "SafeError option"

record OperationProgressPayload =
  prog_Stage :: string

record Readiness =
  rd_WorkspaceVMKey :: string
  rd_ServerID :: string
  rd_Generation :: int

record OperationResultPayload =
  orp_Readiness :: "Readiness option"
  orp_Outcome :: string
  orp_ProviderResources :: "ProviderResourceResult list"
  orp_Error :: "SafeError option"

record ReconcileRequestPayload =
  rrp_KnownResources :: "ProviderResourceRef list option"
  rrp_DiscoverCandidates :: "bool option"

record WireObservation =
  wo_ResourceType :: string
  wo_ProviderID :: string
  wo_Generation :: int
  wo_Exists :: bool
  wo_ObservedState :: string
  wo_Source :: string
  wo_LogicalName :: string

record ReconcileResultPayload =
  rcp_Observations :: "WireObservation list"
  rcp_Error :: "SafeError option"

record BaseEnvelope =
  be_Type :: string
  be_MessageID :: string
  be_SentAt :: go_time
  be_RequestID :: string
  be_OperationID :: string
  be_LabInstanceID :: string
  be_Generation :: int
  be_TraceParent :: string
  be_TraceState :: string

record Correlation =
  OperationID :: string
  LabInstanceID :: string
  Generation :: int


section \<open>Protocol constants\<close>

definition MessageTypeOperationCommand :: string where
  "MessageTypeOperationCommand = ''OPERATION_COMMAND''"
definition MessageTypeOperationAck :: string where
  "MessageTypeOperationAck = ''OPERATION_ACK''"
definition MessageTypeOperationProgress :: string where
  "MessageTypeOperationProgress = ''OPERATION_PROGRESS''"
definition MessageTypeOperationResult :: string where
  "MessageTypeOperationResult = ''OPERATION_RESULT''"
definition MessageTypeReconcileRequest :: string where
  "MessageTypeReconcileRequest = ''RECONCILE_REQUEST''"
definition MessageTypeReconcileResult :: string where
  "MessageTypeReconcileResult = ''RECONCILE_RESULT''"
definition MessageTypeTerminalOpen :: string where
  "MessageTypeTerminalOpen = ''TERMINAL_OPEN''"
definition MessageTypeTerminalOpenResult :: string where
  "MessageTypeTerminalOpenResult = ''TERMINAL_OPEN_RESULT''"
definition MessageTypeTerminalClose :: string where
  "MessageTypeTerminalClose = ''TERMINAL_CLOSE''"
definition MessageTypeFileOpen :: string where
  "MessageTypeFileOpen = ''FILE_OPEN''"
definition MessageTypeFileOpenResult :: string where
  "MessageTypeFileOpenResult = ''FILE_OPEN_RESULT''"
definition MessageTypeFileClose :: string where
  "MessageTypeFileClose = ''FILE_CLOSE''"
definition MessageTypePreviewOpen :: string where
  "MessageTypePreviewOpen = ''PREVIEW_OPEN''"
definition MessageTypePreviewOpenResult :: string where
  "MessageTypePreviewOpenResult = ''PREVIEW_OPEN_RESULT''"
definition MessageTypePreviewClose :: string where
  "MessageTypePreviewClose = ''PREVIEW_CLOSE''"

definition MutationTypeProvision :: string where
  "MutationTypeProvision = ''PROVISION''"
definition MutationTypeReset :: string where
  "MutationTypeReset = ''RESET''"
definition MutationTypeCleanup :: string where
  "MutationTypeCleanup = ''CLEANUP''"

definition OutcomeSucceeded :: string where
  "OutcomeSucceeded = ''SUCCEEDED''"
definition OutcomeFailed :: string where
  "OutcomeFailed = ''FAILED''"
definition OutcomeUnknown :: string where
  "OutcomeUnknown = ''UNKNOWN''"

definition CapabilityFileV1 :: string where
  "CapabilityFileV1 = ''file-v1''"
definition CapabilityPreviewV1 :: string where
  "CapabilityPreviewV1 = ''preview-v1''"

definition MaxJSONMessageSize :: nat where
  "MaxJSONMessageSize = 1048576"

lemmas mutation_types = MutationTypeProvision_def MutationTypeReset_def MutationTypeCleanup_def
lemmas outcome_defs = OutcomeSucceeded_def OutcomeFailed_def OutcomeUnknown_def

end
