(* ===== verification/Connector_Command.thy ===== *)
theory Connector_Command
  imports Connector_Protocol
begin

text \<open>
  The contract checks that precede every outbound command
  (\<^verbatim>\<open>internal/server/connector/command.go\<close>). \<open>ErrInvalidCommand\<close> carries the
  reason as a value of \<open>invalid_reason\<close>, one constructor per message format of the
  source, with the index that the message reports. A validator returns \<^const>\<open>None\<close>
  where the Go function returns a nil error.
\<close>

record OperationCommand =
  oc_ConnectorID :: uuid
  oc_SessionID :: uuid
  oc_RequestID :: string
  oc_Correlation :: Correlation
  oc_Payload :: OperationCommandPayload
  oc_Trace :: TraceContext

record ReconcileRequest =
  rr_ConnectorID :: uuid
  rr_SessionID :: uuid
  rr_RequestID :: string
  rr_Correlation :: Correlation
  rr_Payload :: ReconcileRequestPayload
  rr_Trace :: TraceContext

datatype invalid_reason =
    NoOperationId | NoLabInstanceId | GenerationBelowOne
  | RefIncomplete string nat | RefGeneration string nat
  | CleanupNeedsResources | UnknownMutation | NeedsSnapshot string
  | ResetGeneration | ResetNeedsResources | ResetEmptyResources
  | ResetLogicalName nat | ResetRefGeneration nat int
  | SnapshotConnection | SnapshotNoVMs | SnapshotNoWorkspaceKey
  | VMIncomplete nat | VMInstanceIndex nat | VMNoImageOrFlavor nat | VMExtraRef nat
  | VMNoFlavorSpec nat | VMFlavorRange nat
  | WorkspaceNotFound | StartupDigest
  | IdRequired string | OpenTarget string | WindowSize | FileOperation | PortRange
  | ReasonRequired string | NotSerializable | MessageTooLarge

definition validateCorrelation :: "Correlation \<Rightarrow> invalid_reason option" where [validator_defs]:
  "validateCorrelation c =
     (if OperationID c = [] then Some NoOperationId
      else if LabInstanceID c = [] then Some NoLabInstanceId
      else if Generation c < 1 then Some GenerationBelowOne
      else None)"

definition validateResourceRef :: "string \<Rightarrow> nat \<Rightarrow> ProviderResourceRef \<Rightarrow> invalid_reason option" where
  "validateResourceRef what i ref =
     (if ref_ResourceType ref = [] \<or> ref_ProviderID ref = [] then Some (RefIncomplete what i)
      else if ref_Generation ref < 1 then Some (RefGeneration what i)
      else None)"

text \<open>Ranging over a nil slice runs no iteration, as over an empty one.\<close>

definition slice :: "'a list option \<Rightarrow> 'a list" where
  "slice s = (case s of None \<Rightarrow> [] | Some xs \<Rightarrow> xs)"

lemma slice_simps [simp]: "slice None = []" "slice (Some xs) = xs"
  by (simp_all add: slice_def)

definition validateResourceRefs :: "ProviderResourceRef list option \<Rightarrow> string \<Rightarrow> invalid_reason option" where
  "validateResourceRefs refs what = first_failure (validateResourceRef what) 0 (slice refs)"

definition is_hex :: "char \<Rightarrow> bool" where
  "is_hex c \<longleftrightarrow> (let b = of_char c :: nat in
     48 \<le> b \<and> b \<le> 57 \<or> 65 \<le> b \<and> b \<le> 70 \<or> 97 \<le> b \<and> b \<le> 102)"

text \<open>The regular expression \<^verbatim>\<open>^[A-Fa-f0-9]{64}$\<close>.\<close>

definition startupScriptDigest :: "string \<Rightarrow> bool" where
  "startupScriptDigest s \<longleftrightarrow> length s = 64 \<and> list_all is_hex s"

definition validateResolvedVm :: "nat \<Rightarrow> ResolvedVmSpec \<Rightarrow> invalid_reason option" where
  "validateResolvedVm i vm =
     (if vm_VMKey vm = [] \<or> vm_Role vm = [] then Some (VMIncomplete i)
      else if vm_InstanceIndex vm < 0 then Some (VMInstanceIndex i)
      else if vm_ImageID vm = [] \<or> vm_FlavorID vm = [] then Some (VMNoImageOrFlavor i)
      else if vm_ImageRef vm \<noteq> [] \<or> vm_FlavorRef vm \<noteq> [] then Some (VMExtraRef i)
      else case vm_FlavorSpec vm of
          None \<Rightarrow> Some (VMNoFlavorSpec i)
        | Some fs \<Rightarrow>
            if fs_VCPUs fs < 1 \<or> fs_RAMMiB fs < 1 \<or> fs_DiskGiB fs < 0 then Some (VMFlavorRange i)
            else None)"

text \<open>
  The loop over the VMs both checks each VM and looks for the workspace key; the key is only
  consulted after the loop, so the two are independent.
\<close>

definition validateCreationSnapshot :: "CreationSnapshot \<Rightarrow> invalid_reason option" where
  "validateCreationSnapshot s =
     (if cs_ProviderConnectionID s = [] then Some SnapshotConnection
      else if cs_VMs s = [] then Some SnapshotNoVMs
      else if cs_WorkspaceVMKey s = [] then Some SnapshotNoWorkspaceKey
      else case first_failure validateResolvedVm 0 (cs_VMs s) of
          Some e \<Rightarrow> Some e
        | None \<Rightarrow>
            if \<not> list_ex (\<lambda>vm. vm_VMKey vm = cs_WorkspaceVMKey s) (cs_VMs s) then Some WorkspaceNotFound
            else case cs_StartupScript s of
                None \<Rightarrow> None
              | Some ss \<Rightarrow> if \<not> startupScriptDigest (ss_SHA256 ss) then Some StartupDigest else None)"

definition requireCreationSnapshot :: "OperationCommandPayload \<Rightarrow> invalid_reason option" where
  "requireCreationSnapshot payload =
     (case ocp_CreationSnapshot payload of
        None \<Rightarrow> Some (NeedsSnapshot (ocp_MutationType payload))
      | Some s \<Rightarrow> validateCreationSnapshot s)"

definition validateResetRef :: "int \<Rightarrow> nat \<Rightarrow> ProviderResourceRef \<Rightarrow> invalid_reason option" where
  "validateResetRef previous i ref =
     (if ref_LogicalName ref = [] then Some (ResetLogicalName i)
      else if ref_Generation ref \<noteq> previous then Some (ResetRefGeneration i previous)
      else None)"

definition validateResetResources :: "ProviderResourceRef list option \<Rightarrow> int \<Rightarrow> invalid_reason option" where
  "validateResetResources refs generation =
     (if generation < 2 then Some ResetGeneration
      else case refs of
          None \<Rightarrow> Some ResetNeedsResources
        | Some [] \<Rightarrow> Some ResetEmptyResources
        | Some rs \<Rightarrow> first_failure (validateResetRef (generation - 1)) 0 rs)"

definition providerResources_field :: string where
  "providerResources_field = ''providerResources''"

definition knownResources_field :: string where
  "knownResources_field = ''knownResources''"

definition validateOperationCommand :: "OperationCommand \<Rightarrow> invalid_reason option" where
  "validateOperationCommand cmd =
     (let payload = oc_Payload cmd; refs = ocp_ProviderResources payload;
          rest = validateResourceRefs refs providerResources_field
      in case validateCorrelation (oc_Correlation cmd) of
          Some e \<Rightarrow> Some e
        | None \<Rightarrow>
            if ocp_MutationType payload = MutationTypeProvision then
              (case requireCreationSnapshot payload of Some e \<Rightarrow> Some e | None \<Rightarrow> rest)
            else if ocp_MutationType payload = MutationTypeReset then
              (case requireCreationSnapshot payload of
                 Some e \<Rightarrow> Some e
               | None \<Rightarrow>
                   (case validateResetResources refs (Generation (oc_Correlation cmd)) of
                      Some e \<Rightarrow> Some e
                    | None \<Rightarrow> rest))
            else if ocp_MutationType payload = MutationTypeCleanup then
              (if refs = None then Some CleanupNeedsResources else rest)
            else Some UnknownMutation)"

definition validateReconcileRequest :: "ReconcileRequest \<Rightarrow> invalid_reason option" where
  "validateReconcileRequest req =
     (case validateCorrelation (rr_Correlation req) of
        Some e \<Rightarrow> Some e
      | None \<Rightarrow> validateResourceRefs (rrp_KnownResources (rr_Payload req)) knownResources_field)"


section \<open>What a valid command is\<close>

text \<open>
  The contract as a predicate: the reading of \<^verbatim>\<open>connector.schema.json\<close> that
  the validators implement, without their order of checks.
\<close>

definition correlation_ok :: "Correlation \<Rightarrow> bool" where
  "correlation_ok c \<longleftrightarrow> OperationID c \<noteq> [] \<and> LabInstanceID c \<noteq> [] \<and> 1 \<le> Generation c"

definition ref_ok :: "ProviderResourceRef \<Rightarrow> bool" where
  "ref_ok ref \<longleftrightarrow> ref_ResourceType ref \<noteq> [] \<and> ref_ProviderID ref \<noteq> [] \<and> 1 \<le> ref_Generation ref"

definition flavor_ok :: "ResolvedFlavorSpec \<Rightarrow> bool" where
  "flavor_ok fs \<longleftrightarrow> 1 \<le> fs_VCPUs fs \<and> 1 \<le> fs_RAMMiB fs \<and> 0 \<le> fs_DiskGiB fs"

definition vm_ok :: "ResolvedVmSpec \<Rightarrow> bool" where
  "vm_ok vm \<longleftrightarrow> vm_VMKey vm \<noteq> [] \<and> vm_Role vm \<noteq> [] \<and> 0 \<le> vm_InstanceIndex vm
     \<and> vm_ImageID vm \<noteq> [] \<and> vm_FlavorID vm \<noteq> [] \<and> vm_ImageRef vm = [] \<and> vm_FlavorRef vm = []
     \<and> (\<exists>fs. vm_FlavorSpec vm = Some fs \<and> flavor_ok fs)"

definition snapshot_ok :: "CreationSnapshot \<Rightarrow> bool" where
  "snapshot_ok s \<longleftrightarrow>
     cs_ProviderConnectionID s \<noteq> [] \<and> cs_WorkspaceVMKey s \<noteq> []
     \<and> (\<forall>vm \<in> set (cs_VMs s). vm_ok vm)
     \<and> (\<exists>vm \<in> set (cs_VMs s). vm_VMKey vm = cs_WorkspaceVMKey s)
     \<and> (\<forall>ss. cs_StartupScript s = Some ss \<longrightarrow> startupScriptDigest (ss_SHA256 ss))"

definition reset_refs_ok :: "int \<Rightarrow> ProviderResourceRef list option \<Rightarrow> bool" where
  "reset_refs_ok g refs \<longleftrightarrow>
     2 \<le> g \<and> slice refs \<noteq> [] \<and> (\<forall>ref \<in> set (slice refs). ref_LogicalName ref \<noteq> [] \<and> ref_Generation ref = g - 1)"

definition command_ok :: "OperationCommand \<Rightarrow> bool" where
  "command_ok cmd \<longleftrightarrow>
     (let p = oc_Payload cmd; refs = ocp_ProviderResources p; snap = ocp_CreationSnapshot p in
      correlation_ok (oc_Correlation cmd)
      \<and> (\<forall>ref \<in> set (slice refs). ref_ok ref)
      \<and> (ocp_MutationType p = ''PROVISION'' \<and> (\<exists>s. snap = Some s \<and> snapshot_ok s)
         \<or> ocp_MutationType p = ''RESET'' \<and> (\<exists>s. snap = Some s \<and> snapshot_ok s)
             \<and> reset_refs_ok (Generation (oc_Correlation cmd)) refs
         \<or> ocp_MutationType p = ''CLEANUP'' \<and> refs \<noteq> None))"

named_theorems validator_iff \<open>a validator accepts exactly the values of its contract\<close>

lemma validateCorrelation_iff [validator_iff]: "validateCorrelation c = None \<longleftrightarrow> correlation_ok c"
  by (auto simp: validateCorrelation_def correlation_ok_def)

lemma validateResourceRefs_iff [validator_iff]:
  "validateResourceRefs refs what = None \<longleftrightarrow> (\<forall>ref \<in> set (slice refs). ref_ok ref)"
  unfolding validateResourceRefs_def
  by (rule first_failure_None_all) (auto simp: validateResourceRef_def ref_ok_def)

lemma validateResolvedVm_iff: "validateResolvedVm i vm = None \<longleftrightarrow> vm_ok vm"
  by (auto simp: validateResolvedVm_def vm_ok_def flavor_ok_def split: option.splits)

lemma validateCreationSnapshot_iff [validator_iff]:
  "validateCreationSnapshot s = None \<longleftrightarrow> snapshot_ok s"
proof -
  have vms: "first_failure validateResolvedVm 0 (cs_VMs s) = None \<longleftrightarrow> (\<forall>vm \<in> set (cs_VMs s). vm_ok vm)"
    by (rule first_failure_None_all) (rule validateResolvedVm_iff)
  show ?thesis
    using vms by (auto simp: validateCreationSnapshot_def snapshot_ok_def list_ex_iff split: option.splits)
qed

lemma requireCreationSnapshot_iff [validator_iff]:
  "requireCreationSnapshot p = None \<longleftrightarrow> (\<exists>s. ocp_CreationSnapshot p = Some s \<and> snapshot_ok s)"
  by (auto simp: requireCreationSnapshot_def validator_iff split: option.splits)

lemma validateResetResources_iff [validator_iff]:
  "validateResetResources refs g = None \<longleftrightarrow> reset_refs_ok g refs"
proof -
  have "first_failure (validateResetRef (g - 1)) 0 rs = None
          \<longleftrightarrow> (\<forall>ref \<in> set rs. ref_LogicalName ref \<noteq> [] \<and> ref_Generation ref = g - 1)" for rs
    by (rule first_failure_None_all) (auto simp: validateResetRef_def)
  then show ?thesis
    by (cases "slice refs")
      (auto simp: validateResetResources_def reset_refs_ok_def slice_def simp del: first_failure.simps
        split: option.splits)
qed

lemma option_case_None_iff:
  "(case v of Some e \<Rightarrow> Some e | None \<Rightarrow> r) = None \<longleftrightarrow> v = None \<and> r = None"
  by (cases v) auto

lemma validateOperationCommand_None: "validateOperationCommand cmd = None \<longleftrightarrow> command_ok cmd"
  by (auto simp: validateOperationCommand_def command_ok_def Let_def option_case_None_iff validator_iff
      mutation_types)

text \<open>
  an operation command is accepted exactly when it satisfies the command contract. In
  particular a RESET needs at least one previous resource and every one of them must belong to
  the generation before the one being created, and a CLEANUP needs an explicit resource list.
\<close>

lemma validateOperationCommand_iff: "validateOperationCommand cmd = None \<longleftrightarrow> command_ok cmd"
  by (rule validateOperationCommand_None)

lemma validateReconcileRequest_iff:
  "validateReconcileRequest req = None \<longleftrightarrow>
     correlation_ok (rr_Correlation req) \<and> (\<forall>ref \<in> set (slice (rrp_KnownResources (rr_Payload req))). ref_ok ref)"
  by (simp add: validateReconcileRequest_def option_case_None_iff validator_iff)

end
