(* ===== verification/Connector_Registry.thy ===== *)
theory Connector_Registry
  imports Connector_Command
begin

text \<open>
  The in-process registry of Control connections
  (\<^verbatim>\<open>internal/server/connector/registry.go\<close>): one current session per
  Connector, a per-session route that opens with \<open>MarkReady\<close> and is sealed when the
  session is replaced or revoked.

  The entries that the code holds by pointer are the list \<open>r_entries\<close>; a pointer is an
  index into it and a new entry is appended, so an entry outlives its removal from
  \<open>r_current\<close> exactly as long as some handle refers to it. A \<open>closeFn\<close> is present or
  nil, an observer is set or nil; the calls made on them are appended to \<open>r_log\<close>. A
  \<^verbatim>\<open>Route\<close> is identified by a number and its behaviour is given to the router.
\<close>

section \<open>Data\<close>

datatype CloseReason = CloseReplaced | CloseRevoked

type_synonym Route = nat

record Principal =
  pr_ConnectorID :: uuid
  pr_OrganizationID :: uuid
  pr_CredentialID :: uuid

record Session =
  sess_ID :: uuid
  sess_ConnectorID :: uuid
  sess_CredentialID :: uuid

record entry =
  e_session :: Session
  e_closeFn :: bool
  e_retired :: bool
  e_route :: "Route option"
  e_sealed :: bool
  e_capabilities :: "string set"

datatype notice =
    CloseCalled nat CloseReason
  | SessionRetired Session CloseReason
  | CredentialRevoked uuid
  | ConnectorRevoked uuid

record Registry =
  r_entries :: "entry list"
  r_current :: "uuid \<Rightarrow> nat option"
  r_observer :: bool
  r_sessions :: bool
  r_log :: "notice list"

text \<open>
  The sentinel errors of the package that sending can return. \<open>ErrConnectorUnavailable\<close> is the
  error that the first three wrap.
\<close>

datatype conn_error =
    ErrNotConnected | ErrNotReady | ErrConnectionClosing
  | ErrCapabilityUnsupported | ErrSendFailed | ErrDuplicateCorrelation
  | ErrInvalidCommand invalid_reason | ErrContext | ErrHook

definition is_ErrConnectorUnavailable :: "conn_error \<Rightarrow> bool" where
  "is_ErrConnectorUnavailable e \<longleftrightarrow> e \<in> {ErrNotConnected, ErrNotReady, ErrConnectionClosing}"

section \<open>Operations\<close>

definition NewRegistry :: Registry where
  "NewRegistry = \<lparr>r_entries = [], r_current = (\<lambda>_. None), r_observer = False, r_sessions = False, r_log = []\<rparr>"

definition r_entry :: "Registry \<Rightarrow> nat \<Rightarrow> entry" where
  "r_entry r e = r_entries r ! e"

definition update_entry :: "nat \<Rightarrow> (entry \<Rightarrow> entry) \<Rightarrow> Registry \<Rightarrow> Registry" where
  "update_entry e f r = r\<lparr>r_entries := (r_entries r)[e := f (r_entries r ! e)]\<rparr>"

definition emit_notice :: "notice \<Rightarrow> Registry \<Rightarrow> Registry" where
  "emit_notice n r = r\<lparr>r_log := r_log r @ [n]\<rparr>"

text \<open>The critical sections of \<^verbatim>\<open>entry.retire\<close> and what follows them.\<close>

definition mark_retired :: "nat \<Rightarrow> Registry \<Rightarrow> Registry" where
  "mark_retired e = update_entry e (\<lambda>x. x\<lparr>e_retired := True\<rparr>)"

definition seal_route :: "nat \<Rightarrow> Registry \<Rightarrow> Registry" where
  "seal_route e = update_entry e (\<lambda>x. x\<lparr>e_route := None, e_sealed := True\<rparr>)"

definition call_closeFn :: "nat \<Rightarrow> CloseReason \<Rightarrow> Registry \<Rightarrow> Registry" where
  "call_closeFn e reason r = (if e_closeFn (r_entry r e) then emit_notice (CloseCalled e reason) r else r)"

definition retire :: "nat \<Rightarrow> CloseReason \<Rightarrow> Registry \<Rightarrow> Registry" where
  "retire e reason r = call_closeFn e reason (seal_route e (mark_retired e r))"

definition sessionRetired :: "Session \<Rightarrow> CloseReason \<Rightarrow> Registry \<Rightarrow> Registry" where
  "sessionRetired s reason r = (if r_sessions r then emit_notice (SessionRetired s reason) r else r)"

definition SetRevokeObserver :: "bool \<Rightarrow> Registry \<Rightarrow> Registry" where
  "SetRevokeObserver obs r = r\<lparr>r_observer := obs\<rparr>"

definition SetSessionObserver :: "bool \<Rightarrow> Registry \<Rightarrow> Registry" where
  "SetSessionObserver obs r = r\<lparr>r_sessions := obs\<rparr>"

definition new_entry :: "uuid \<Rightarrow> Principal \<Rightarrow> bool \<Rightarrow> entry" where
  "new_entry sid p closeFn =
     \<lparr>e_session = \<lparr>sess_ID = sid, sess_ConnectorID = pr_ConnectorID p, sess_CredentialID = pr_CredentialID p\<rparr>,
      e_closeFn = closeFn, e_retired = False, e_route = None, e_sealed = False, e_capabilities = {}\<rparr>"

text \<open>The section of \<open>Register\<close> under \<^verbatim>\<open>r.mu\<close>: the new entry takes the Connector's place.\<close>

definition swap_current :: "uuid \<Rightarrow> Principal \<Rightarrow> bool \<Rightarrow> Registry \<Rightarrow> Registry" where
  "swap_current sid p closeFn r =
     r\<lparr>r_entries := r_entries r @ [new_entry sid p closeFn],
       r_current := (r_current r)(pr_ConnectorID p \<mapsto> length (r_entries r))\<rparr>"

definition retire_and_notify :: "CloseReason \<Rightarrow> nat \<Rightarrow> Registry \<Rightarrow> Registry" where
  "retire_and_notify reason e r = sessionRetired (e_session (r_entry r e)) reason (retire e reason r)"

text \<open>\<open>Register\<close>: the identifier that \<^verbatim>\<open>uuid.New\<close> returns is the argument \<open>sid\<close>.\<close>

definition Register :: "uuid \<Rightarrow> Principal \<Rightarrow> bool \<Rightarrow> Registry \<Rightarrow> nat \<times> Registry" where
  "Register sid p closeFn r =
     (let previous = r_current r (pr_ConnectorID p); r1 = swap_current sid p closeFn r in
      (length (r_entries r),
       case previous of None \<Rightarrow> r1 | Some e \<Rightarrow> retire_and_notify CloseReplaced e r1))"

definition Current :: "uuid \<Rightarrow> Registry \<Rightarrow> Session option" where
  "Current c r = map_option (\<lambda>e. e_session (r_entry r e)) (r_current r c)"

text \<open>
  \<open>RevokeCredential\<close> ranges over the map of current sessions, in an order Go does not fix: the
  argument \<open>order\<close> lists the Connectors in the order in which the iteration visits them.
\<close>

fun collect_credential :: "uuid \<Rightarrow> uuid list \<Rightarrow> Registry \<Rightarrow> nat list \<times> Registry" where
  "collect_credential cred [] r = ([], r)"
| "collect_credential cred (c # cs) r =
     (case r_current r c of
        None \<Rightarrow> collect_credential cred cs r
      | Some e \<Rightarrow>
          if sess_CredentialID (e_session (r_entry r e)) = cred
          then let (es, r') = collect_credential cred cs (r\<lparr>r_current := (r_current r)(c := None)\<rparr>)
               in (e # es, r')
          else collect_credential cred cs r)"

definition RevokeCredential :: "uuid list \<Rightarrow> uuid \<Rightarrow> Registry \<Rightarrow> nat \<times> Registry" where
  "RevokeCredential order cred r =
     (let (revoked, r1) = collect_credential cred order r;
          r2 = fold (retire_and_notify CloseRevoked) revoked r1
      in (length revoked, if r_observer r2 then emit_notice (CredentialRevoked cred) r2 else r2))"

definition RevokeConnector :: "uuid \<Rightarrow> Registry \<Rightarrow> bool \<times> Registry" where
  "RevokeConnector c r =
     (let previous = r_current r c;
          r1 = r\<lparr>r_current := (r_current r)(c := None)\<rparr>;
          r2 = (case previous of None \<Rightarrow> r1 | Some e \<Rightarrow> retire_and_notify CloseRevoked e r1)
      in (previous \<noteq> None, if r_observer r2 then emit_notice (ConnectorRevoked c) r2 else r2))"

definition IfCurrent :: "nat \<Rightarrow> Registry \<Rightarrow> (unit \<Rightarrow> 'a) \<Rightarrow> 'a option" where
  "IfCurrent e r fn = (if e_retired (r_entry r e) then None else Some (fn ()))"

definition SetCapabilities :: "nat \<Rightarrow> string list \<Rightarrow> Registry \<Rightarrow> Registry" where
  "SetCapabilities e caps r =
     (if e_sealed (r_entry r e) then r else update_entry e (\<lambda>x. x\<lparr>e_capabilities := set caps\<rparr>) r)"

definition MarkReady :: "nat \<Rightarrow> Route option \<Rightarrow> Registry \<Rightarrow> bool \<times> Registry" where
  "MarkReady e route r =
     (case route of
        None \<Rightarrow> (False, r)
      | Some rt \<Rightarrow>
          if e_sealed (r_entry r e) then (False, r)
          else (True, update_entry e (\<lambda>x. x\<lparr>e_route := Some rt\<rparr>) r))"

definition Release :: "nat \<Rightarrow> Registry \<Rightarrow> Registry" where
  "Release e r =
     (let c = sess_ConnectorID (e_session (r_entry r e)) in
      if r_current r c = Some e then r\<lparr>r_current := (r_current r)(c := None)\<rparr> else r)"

text \<open>
  \<open>withReadyRoute\<close>: the left values are the errors returned without calling \<open>fn\<close>, a right value
  is what \<open>fn\<close> returned for the session and its route.
\<close>

definition withReadyRoute :: "Registry \<Rightarrow> uuid \<Rightarrow> string \<Rightarrow> (Session \<Rightarrow> Route \<Rightarrow> 'a) \<Rightarrow> conn_error + 'a" where
  "withReadyRoute r c capability fn =
     (case r_current r c of
        None \<Rightarrow> Inl ErrNotConnected
      | Some e \<Rightarrow>
          case e_route (r_entry r e) of
            None \<Rightarrow> Inl ErrNotReady
          | Some route \<Rightarrow>
              if capability \<noteq> [] \<and> capability \<notin> e_capabilities (r_entry r e) then Inl ErrCapabilityUnsupported
              else Inr (fn (e_session (r_entry r e)) route))"

definition WithReadyRoute :: "Registry \<Rightarrow> uuid \<Rightarrow> (Session \<Rightarrow> Route \<Rightarrow> 'a) \<Rightarrow> conn_error + 'a" where
  "WithReadyRoute r c fn = withReadyRoute r c [] fn"

definition WithReadyRouteCapability ::
  "Registry \<Rightarrow> uuid \<Rightarrow> string \<Rightarrow> (Session \<Rightarrow> Route \<Rightarrow> 'a) \<Rightarrow> conn_error + 'a" where
  "WithReadyRouteCapability r c capability fn = withReadyRoute r c capability fn"


section \<open>Invariant and growth\<close>

text \<open>
  The invariant: a Connector's current entry exists, is that Connector's and has not been
  retired; a sealed entry is retired and has no route.
\<close>

definition entry_ok :: "entry \<Rightarrow> bool" where
  "entry_ok x \<longleftrightarrow> (e_sealed x \<longrightarrow> e_retired x \<and> e_route x = None)"

definition current_ok :: "Registry \<Rightarrow> uuid \<Rightarrow> nat \<Rightarrow> bool" where
  "current_ok r c e \<longleftrightarrow> e < length (r_entries r) \<and> sess_ConnectorID (e_session (r_entry r e)) = c
     \<and> \<not> e_retired (r_entry r e)"

definition reg_inv :: "Registry \<Rightarrow> bool" where
  "reg_inv r \<longleftrightarrow>
     (\<forall>x \<in> set (r_entries r). entry_ok x) \<and> (\<forall>c e. r_current r c = Some e \<longrightarrow> current_ok r c e)"

text \<open>
  What never happens to an entry: it does not disappear, change its session or its
  \<open>closeFn\<close>, or come back from being retired or sealed.
\<close>

definition entry_le :: "entry \<Rightarrow> entry \<Rightarrow> bool" where
  "entry_le x y \<longleftrightarrow> e_session y = e_session x \<and> e_closeFn y = e_closeFn x
     \<and> (e_retired x \<longrightarrow> e_retired y) \<and> (e_sealed x \<longrightarrow> e_sealed y)"

definition reg_le :: "Registry \<Rightarrow> Registry \<Rightarrow> bool" where
  "reg_le r r' \<longleftrightarrow> length (r_entries r) \<le> length (r_entries r')
     \<and> (\<forall>e < length (r_entries r). entry_le (r_entry r e) (r_entry r' e))"

lemma entry_le_refl [simp]: "entry_le x x"
  by (simp add: entry_le_def)

lemma entry_le_trans: "entry_le x y \<Longrightarrow> entry_le y z \<Longrightarrow> entry_le x z"
  by (simp add: entry_le_def)

lemma reg_le_refl [simp]: "reg_le r r"
  by (simp add: reg_le_def)

lemma reg_le_trans: "reg_le r s \<Longrightarrow> reg_le s t \<Longrightarrow> reg_le r t"
  by (auto simp: reg_le_def intro: entry_le_trans)

lemma reg_le_sealed: "reg_le r r' \<Longrightarrow> e < length (r_entries r) \<Longrightarrow> e_sealed (r_entry r e) \<Longrightarrow> e_sealed (r_entry r' e)"
  by (simp add: reg_le_def entry_le_def)

lemma reg_le_session: "reg_le r r' \<Longrightarrow> e < length (r_entries r) \<Longrightarrow> e_session (r_entry r' e) = e_session (r_entry r e)"
  by (simp add: reg_le_def entry_le_def)

lemma reg_inv_entry: "reg_inv r \<Longrightarrow> e < length (r_entries r) \<Longrightarrow> entry_ok (r_entry r e)"
  by (auto simp: reg_inv_def r_entry_def)

lemma reg_inv_current: "reg_inv r \<Longrightarrow> r_current r c = Some e \<Longrightarrow> current_ok r c e"
  by (simp add: reg_inv_def)

text \<open>The interface that every operation of the registry satisfies, and what follows from it alone.\<close>

locale registry_op =
  fixes op :: "Registry \<Rightarrow> Registry"
  assumes keeps_inv: "reg_inv r \<Longrightarrow> reg_inv (op r)"
    and grows: "reg_inv r \<Longrightarrow> reg_le r (op r)"
begin

lemma sealed_stays_out:
  assumes "reg_inv r" "e < length (r_entries r)" "e_sealed (r_entry r e)"
  shows "r_current (op r) c \<noteq> Some e" and "e_route (r_entry (op r) e) = None"
proof -
  have le: "reg_le r (op r)" and inv: "reg_inv (op r)" using assms keeps_inv grows by auto
  then have "e < length (r_entries (op r))" and "e_sealed (r_entry (op r) e)"
    using assms by (auto simp: reg_le_def entry_le_def)
  with inv have "entry_ok (r_entry (op r) e)" and "e_sealed (r_entry (op r) e)"
    by (auto intro: reg_inv_entry)
  then show "r_current (op r) c \<noteq> Some e" and "e_route (r_entry (op r) e) = None"
    using reg_inv_current [OF inv, of c e] by (auto simp: entry_ok_def current_ok_def)
qed

end

lemma registry_op_comp: "registry_op f \<Longrightarrow> registry_op g \<Longrightarrow> registry_op (\<lambda>r. g (f r))"
  by (auto simp: registry_op_def intro: reg_le_trans)

lemma registry_op_id: "registry_op (\<lambda>r. r)"
  by (simp add: registry_op_def)

lemma registry_op_fold: "(\<And>x. x \<in> set xs \<Longrightarrow> registry_op (f x)) \<Longrightarrow> registry_op (fold f xs)"
proof (induction xs)
  case Nil
  then show ?case by (simp add: registry_op_def)
next
  case (Cons x xs)
  then show ?case
    using registry_op_comp [of "f x" "fold f xs"] by (simp add: comp_def)
qed


section \<open>Elementary steps\<close>

lemma update_entry_fields [simp]:
  "length (r_entries (update_entry e f r)) = length (r_entries r)"
  "r_current (update_entry e f r) = r_current r"
  "r_observer (update_entry e f r) = r_observer r"
  "r_sessions (update_entry e f r) = r_sessions r"
  "r_log (update_entry e f r) = r_log r"
  by (simp_all add: update_entry_def)

lemma r_entry_update [simp]:
  "r_entry (update_entry e f r) k =
     (if k = e \<and> e < length (r_entries r) then f (r_entry r e) else r_entry r k)"
  by (cases "e < length (r_entries r)"; cases "k = e")
    (simp_all add: r_entry_def update_entry_def list_update_beyond)

lemma emit_notice_fields [simp]:
  "r_entries (emit_notice n r) = r_entries r"
  "r_current (emit_notice n r) = r_current r"
  "r_entry (emit_notice n r) = r_entry r"
  "r_sessions (emit_notice n r) = r_sessions r"
  "r_observer (emit_notice n r) = r_observer r"
  "r_log (emit_notice n r) = r_log r @ [n]"
  by (simp_all add: emit_notice_def r_entry_def fun_eq_iff)

lemma reg_inv_alt:
  "reg_inv r \<longleftrightarrow>
     (\<forall>e < length (r_entries r). entry_ok (r_entry r e)) \<and> (\<forall>c e. r_current r c = Some e \<longrightarrow> current_ok r c e)"
  by (simp add: reg_inv_def r_entry_def all_set_conv_all_nth)

text \<open>An update of an entry keeps the invariant when it keeps the entry's part of it.\<close>

lemma reg_inv_update_entry:
  assumes "reg_inv r"
    and "\<And>x. entry_ok x \<Longrightarrow> entry_ok (f x)"
    and "\<And>x. e_session (f x) = e_session x"
    and "\<And>x. e_retired (f x) = e_retired x \<or> (\<forall>c. r_current r c \<noteq> Some e)"
  shows "reg_inv (update_entry e f r)"
  using assms unfolding reg_inv_alt current_ok_def by (simp; metis)

lemma reg_le_update_entry: "(\<And>x. entry_le x (f x)) \<Longrightarrow> reg_le r (update_entry e f r)"
  by (simp add: reg_le_def)

lemma reg_inv_emit [simp]: "reg_inv (emit_notice n r) = reg_inv r"
  by (simp add: reg_inv_def current_ok_def)

lemma reg_le_emit [simp]: "reg_le r (emit_notice n r') = reg_le r r'"
  by (simp add: reg_le_def)

lemma reg_inv_drop_current:
  "reg_inv r \<Longrightarrow> reg_inv (r\<lparr>r_current := (r_current r)(c := None)\<rparr>)"
  by (auto simp: reg_inv_def current_ok_def r_entry_def)

lemma reg_le_current [simp]: "reg_le r (r'\<lparr>r_current := m\<rparr>) = reg_le r r'"
  by (simp add: reg_le_def r_entry_def)


section \<open>Retiring an entry\<close>

lemma retire_and_notify_fields [simp]:
  "length (r_entries (retire_and_notify reason e r)) = length (r_entries r)"
  "r_current (retire_and_notify reason e r) = r_current r"
  "r_observer (retire_and_notify reason e r) = r_observer r"
  "r_sessions (retire_and_notify reason e r) = r_sessions r"
  by (simp_all add: retire_and_notify_def retire_def sessionRetired_def call_closeFn_def seal_route_def mark_retired_def)

lemma r_entry_retire [simp]:
  "r_entry (retire_and_notify reason e r) k =
     (if k = e \<and> e < length (r_entries r)
      then (r_entry r e)\<lparr>e_retired := True, e_route := None, e_sealed := True\<rparr> else r_entry r k)"
  by (simp add: retire_and_notify_def retire_def sessionRetired_def call_closeFn_def seal_route_def mark_retired_def)

lemma retire_inv:
  "reg_inv r \<Longrightarrow> (\<forall>c. r_current r c \<noteq> Some e) \<Longrightarrow> reg_inv (retire_and_notify reason e r)"
  unfolding reg_inv_alt by (auto simp: entry_ok_def current_ok_def)

lemma retire_le: "reg_le r (retire_and_notify reason e r)"
  by (simp add: reg_le_def entry_le_def)

text \<open>
  What a retirement tells the outside: the close request and the observer's notice come after the
  entry is marked retired and its route sealed.
\<close>

lemma retire_log:
  "e < length (r_entries r) \<Longrightarrow>
   r_log (retire_and_notify reason e r) =
     r_log r @ (if e_closeFn (r_entry r e) then [CloseCalled e reason] else [])
       @ (if r_sessions r then [SessionRetired (e_session (r_entry r e)) reason] else [])"
  by (simp add: retire_and_notify_def retire_def sessionRetired_def call_closeFn_def seal_route_def mark_retired_def)

lemma fold_retire_fields [simp]:
  "length (r_entries (fold (retire_and_notify reason) es r)) = length (r_entries r)"
  "r_current (fold (retire_and_notify reason) es r) = r_current r"
  "r_observer (fold (retire_and_notify reason) es r) = r_observer r"
  by (induction es arbitrary: r) simp_all

lemma fold_retire_sealed:
  "e < length (r_entries r) \<Longrightarrow>
   e_sealed (r_entry (fold (retire_and_notify reason) es r) e) \<longleftrightarrow> e \<in> set es \<or> e_sealed (r_entry r e)"
  by (induction es arbitrary: r) auto

lemma fold_retire_inv:
  "reg_inv r \<Longrightarrow> (\<forall>e \<in> set es. \<forall>c. r_current r c \<noteq> Some e) \<Longrightarrow> reg_inv (fold (retire_and_notify reason) es r)"
  by (induction es arbitrary: r) (simp_all add: retire_inv)

lemma fold_retire_le: "reg_le r (fold (retire_and_notify reason) es r)"
  by (induction es arbitrary: r) (auto intro: reg_le_trans retire_le)

text \<open>The section of \<open>RevokeCredential\<close> under the registry's lock.\<close>

lemma collect_credential_fields:
  "collect_credential cred cs r = (es, r') \<Longrightarrow>
     r_entries r' = r_entries r \<and> r_observer r' = r_observer r \<and> r_sessions r' = r_sessions r
     \<and> r_log r' = r_log r"
  by (induction cs arbitrary: r es r') (auto simp: Let_def split: option.splits if_splits prod.splits)

lemma collect_credential_current:
  assumes "collect_credential cred cs r = (es, r')"
  shows "r_current r' c =
     (case r_current r c of
        None \<Rightarrow> None
      | Some e \<Rightarrow> if c \<in> set cs \<and> sess_CredentialID (e_session (r_entry r e)) = cred then None else Some e)"
  using assms
proof (induction cs arbitrary: r es r')
  case Nil
  then show ?case by (auto split: option.splits)
next
  case (Cons c1 cs)
  show ?case
  proof (cases "r_current r c1")
    case None
    with Cons show ?thesis by (auto split: option.splits)
  next
    case (Some e1)
    show ?thesis
    proof (cases "sess_CredentialID (e_session (r_entry r e1)) = cred")
      case True
      let ?r1 = "r\<lparr>r_current := (r_current r)(c1 := None)\<rparr>"
      obtain es1 where "collect_credential cred cs ?r1 = (es1, r')"
        using Cons.prems Some True by (auto split: prod.splits)
      from Cons.IH [OF this] Some True show ?thesis
        by (auto simp: r_entry_def split: option.splits)
    next
      case False
      with Cons Some show ?thesis by (auto split: option.splits)
    qed
  qed
qed

lemma collect_credential_set:
  assumes "collect_credential cred cs r = (es, r')"
  shows "set es = {e. \<exists>c \<in> set cs. r_current r c = Some e \<and> sess_CredentialID (e_session (r_entry r e)) = cred}"
  using assms
proof (induction cs arbitrary: r es r')
  case Nil
  then show ?case by simp
next
  case (Cons c1 cs)
  show ?case
  proof (cases "r_current r c1")
    case None
    with Cons show ?thesis by auto
  next
    case (Some e1)
    show ?thesis
    proof (cases "sess_CredentialID (e_session (r_entry r e1)) = cred")
      case True
      let ?r1 = "r\<lparr>r_current := (r_current r)(c1 := None)\<rparr>"
      obtain es1 where "collect_credential cred cs ?r1 = (es1, r')" and "es = e1 # es1"
        using Cons.prems Some True by (auto split: prod.splits)
      from Cons.IH [OF this(1)] this(2) Some True show ?thesis
        by (auto simp: r_entry_def split: if_splits) (metis option.inject)
    next
      case False
      with Cons Some show ?thesis by auto
    qed
  qed
qed


section \<open>Every operation keeps the invariant\<close>

lemma swap_current_fields [simp]:
  "r_entries (swap_current sid p f r) = r_entries r @ [new_entry sid p f]"
  "r_current (swap_current sid p f r) = (r_current r)(pr_ConnectorID p \<mapsto> length (r_entries r))"
  "r_observer (swap_current sid p f r) = r_observer r"
  "r_sessions (swap_current sid p f r) = r_sessions r"
  "r_log (swap_current sid p f r) = r_log r"
  by (simp_all add: swap_current_def)

lemma r_entry_swap [simp]:
  "e < length (r_entries r) \<Longrightarrow> r_entry (swap_current sid p f r) e = r_entry r e"
  "r_entry (swap_current sid p f r) (length (r_entries r)) = new_entry sid p f"
  by (simp_all add: r_entry_def nth_append)

lemma swap_current_inv: "reg_inv r \<Longrightarrow> reg_inv (swap_current sid p f r)"
  by (auto simp: reg_inv_alt less_Suc_eq current_ok_def new_entry_def entry_ok_def)

lemma swap_current_le: "reg_le r (swap_current sid p f r)"
  by (simp add: reg_le_def)

text \<open>An entry is current for at most one Connector, the one it was registered for.\<close>

lemma current_unique:
  "reg_inv r \<Longrightarrow> r_current r c = Some e \<Longrightarrow> r_current r c' = Some e \<Longrightarrow> c = c'"
  using reg_inv_current [of r c e] reg_inv_current [of r c' e] by (auto simp: current_ok_def)

lemma swap_not_current:
  "reg_inv r \<Longrightarrow> r_current r (pr_ConnectorID p) = Some e \<Longrightarrow> r_current (swap_current sid p f r) c \<noteq> Some e"
  using reg_inv_current [of r "pr_ConnectorID p" e] current_unique [of r "pr_ConnectorID p" e c]
  by (auto simp: current_ok_def)

interpretation register: registry_op "\<lambda>r. snd (Register sid p f r)" for sid p f
proof
  fix r assume inv: "reg_inv r"
  show "reg_inv (snd (Register sid p f r))"
    using swap_current_inv [OF inv] swap_not_current [OF inv]
    by (auto simp: Register_def Let_def intro!: retire_inv split: option.splits)
  show "reg_le r (snd (Register sid p f r))"
    by (auto simp: Register_def Let_def intro: swap_current_le reg_le_trans [OF swap_current_le retire_le]
        split: option.splits)
qed

lemma collect_credential_inv:
  "collect_credential cred cs r = (es, r') \<Longrightarrow> reg_inv r \<Longrightarrow> reg_inv r'"
  by (induction cs arbitrary: r es r')
    (auto simp: Let_def intro: reg_inv_drop_current split: option.splits if_splits prod.splits)

lemma collect_credential_dropped:
  assumes "collect_credential cred cs r = (es, r')" "reg_inv r" "e \<in> set es"
  shows "r_current r' c \<noteq> Some e"
proof
  assume cur: "r_current r' c = Some e"
  from assms obtain c0 where c0: "c0 \<in> set cs" "r_current r c0 = Some e"
    "sess_CredentialID (e_session (r_entry r e)) = cred"
    by (auto simp: collect_credential_set [OF assms(1)])
  from cur have "r_current r c = Some e"
    using collect_credential_current [OF assms(1), of c] by (auto split: option.splits if_splits)
  with c0 assms(2) have "c = c0" using current_unique by blast
  with cur c0 collect_credential_current [OF assms(1), of c] show False by simp
qed

interpretation revoke_credential: registry_op "\<lambda>r. snd (RevokeCredential order cred r)" for order cred
proof
  fix r assume inv: "reg_inv r"
  obtain es r1 where col: "collect_credential cred order r = (es, r1)" by fastforce
  have le1: "reg_le r r1"
    using collect_credential_fields [OF col] by (simp add: reg_le_def r_entry_def)
  show "reg_inv (snd (RevokeCredential order cred r))"
    using fold_retire_inv [OF collect_credential_inv [OF col inv]] collect_credential_dropped [OF col inv]
    by (simp add: RevokeCredential_def col Let_def)
  show "reg_le r (snd (RevokeCredential order cred r))"
    using reg_le_trans [OF le1 fold_retire_le] by (simp add: RevokeCredential_def col Let_def)
qed

interpretation revoke_connector: registry_op "\<lambda>r. snd (RevokeConnector c r)" for c
proof
  fix r assume inv: "reg_inv r"
  let ?r1 = "r\<lparr>r_current := (r_current r)(c := None)\<rparr>"
  have "r_current r c = Some e \<Longrightarrow> r_current ?r1 c' \<noteq> Some e" for e c'
    using current_unique [OF inv, of c e c'] by auto
  then show "reg_inv (snd (RevokeConnector c r))"
    using reg_inv_drop_current [OF inv, of c]
    by (auto simp: RevokeConnector_def Let_def intro!: retire_inv split: option.splits)
  have "reg_le r (retire_and_notify CloseRevoked e ?r1)" for e
    by (rule reg_le_trans [of r ?r1]) (simp_all add: retire_le)
  then show "reg_le r (snd (RevokeConnector c r))"
    by (auto simp: RevokeConnector_def Let_def split: option.splits)
qed

interpretation set_capabilities: registry_op "SetCapabilities e caps" for e caps
  by unfold_locales
    (auto simp: SetCapabilities_def entry_ok_def entry_le_def intro!: reg_inv_update_entry reg_le_update_entry)

interpretation release: registry_op "Release e" for e
  by unfold_locales (auto simp: Release_def Let_def intro: reg_inv_drop_current)

interpretation set_revoke_observer: registry_op "SetRevokeObserver obs" for obs
  by unfold_locales (auto simp: SetRevokeObserver_def reg_inv_def current_ok_def r_entry_def reg_le_def)

interpretation set_session_observer: registry_op "SetSessionObserver obs" for obs
  by unfold_locales (auto simp: SetSessionObserver_def reg_inv_def current_ok_def r_entry_def reg_le_def)

lemma MarkReady_inv: "reg_inv r \<Longrightarrow> reg_inv (snd (MarkReady e route r))"
  unfolding reg_inv_alt by (auto simp: MarkReady_def entry_ok_def current_ok_def split: option.splits)

interpretation mark_ready: registry_op "\<lambda>r. snd (MarkReady e route r)" for e route
  by unfold_locales
    (auto simp: MarkReady_inv, auto simp: MarkReady_def entry_le_def intro!: reg_le_update_entry split: option.splits)


section \<open>Sequences of calls\<close>

datatype reg_call =
    CRegister uuid Principal bool
  | CRevokeCredential "uuid list" uuid
  | CRevokeConnector uuid
  | CSetCapabilities nat "string list"
  | CMarkReady nat "Route option"
  | CRelease nat
  | CSetRevokeObserver bool
  | CSetSessionObserver bool

primrec reg_exec :: "reg_call \<Rightarrow> Registry \<Rightarrow> Registry" where
  "reg_exec (CRegister sid p f) r = snd (Register sid p f r)"
| "reg_exec (CRevokeCredential order cred) r = snd (RevokeCredential order cred r)"
| "reg_exec (CRevokeConnector c) r = snd (RevokeConnector c r)"
| "reg_exec (CSetCapabilities e caps) r = SetCapabilities e caps r"
| "reg_exec (CMarkReady e route) r = snd (MarkReady e route r)"
| "reg_exec (CRelease e) r = Release e r"
| "reg_exec (CSetRevokeObserver b) r = SetRevokeObserver b r"
| "reg_exec (CSetSessionObserver b) r = SetSessionObserver b r"

interpretation reg_exec: registry_op "reg_exec k" for k
  by (cases k; unfold_locales)
    (simp_all add: register.keeps_inv register.grows revoke_credential.keeps_inv revoke_credential.grows
      revoke_connector.keeps_inv revoke_connector.grows set_capabilities.keeps_inv set_capabilities.grows
      mark_ready.keeps_inv mark_ready.grows release.keeps_inv release.grows
      set_revoke_observer.keeps_inv set_revoke_observer.grows
      set_session_observer.keeps_inv set_session_observer.grows)

interpretation reg_run: registry_op "fold reg_exec ks" for ks
  by (rule registry_op_fold) unfold_locales

lemma NewRegistry_inv: "reg_inv NewRegistry"
  by (simp add: NewRegistry_def reg_inv_def)

lemma reachable_inv: "reg_inv (fold reg_exec ks NewRegistry)"
  by (rule reg_run.keeps_inv [OF NewRegistry_inv])

lemma withReadyRoute_Inr:
  "withReadyRoute r c cap fn = Inr x \<longleftrightarrow>
     (\<exists>e route. r_current r c = Some e \<and> e_route (r_entry r e) = Some route
        \<and> (cap = [] \<or> cap \<in> e_capabilities (r_entry r e)) \<and> x = fn (e_session (r_entry r e)) route)"
  by (auto simp: withReadyRoute_def split: option.splits)

lemma Register_previous:
  assumes "reg_inv r" "r_current r (pr_ConnectorID p) = Some e"
  shows "e < length (r_entries r)" and "e_sealed (r_entry (snd (Register sid p f r)) e)"
proof -
  show "e < length (r_entries r)" using reg_inv_current [OF assms] by (simp add: current_ok_def)
  then show "e_sealed (r_entry (snd (Register sid p f r)) e)"
    using assms by (simp add: Register_def)
qed

lemma fenced_after:
  assumes "reg_inv r" "e < length (r_entries r)" "e_sealed (r_entry r e)"
  shows "withReadyRoute (fold reg_exec ks r) c cap (\<lambda>s route. s) = Inr s \<Longrightarrow>
     \<exists>e'. e' \<noteq> e \<and> r_current (fold reg_exec ks r) c = Some e' \<and> s = e_session (r_entry (fold reg_exec ks r) e')"
  using reg_run.sealed_stays_out [OF assms] by (auto simp: withReadyRoute_Inr)

text \<open>
  replacing a Connector's session fences the old one. Once \<open>Register\<close> has returned, whatever
  calls follow, the old entry is no Connector's current session, has no route, and
  \<open>MarkReady\<close> on its handle is refused.
\<close>

lemma Register_fences_previous:
  fixes ks :: "reg_call list" and sid :: uuid and f :: bool
  assumes "reg_inv r" "r_current r (pr_ConnectorID p) = Some e"
  defines "r' \<equiv> fold reg_exec ks (snd (Register sid p f r))"
  shows "r_current r' c \<noteq> Some e \<and> e_route (r_entry r' e) = None \<and> MarkReady e (Some route) r' = (False, r')"
proof -
  let ?r1 = "snd (Register sid p f r)"
  have inv1: "reg_inv ?r1" by (rule register.keeps_inv [OF assms(1)])
  have len: "e < length (r_entries ?r1)" and sealed: "e_sealed (r_entry ?r1 e)"
    using Register_previous [OF assms(1,2)] register.grows [OF assms(1)]
    by (auto simp: reg_le_def intro: less_le_trans)
  have "e_sealed (r_entry r' e)"
    unfolding r'_def by (rule reg_le_sealed [OF reg_run.grows [OF inv1] len sealed])
  then show ?thesis
    using reg_run.sealed_stays_out [OF inv1 len sealed] by (simp add: MarkReady_def r'_def)
qed

text \<open>
  a session's late \<open>Release\<close> removes that session only: every Connector whose current session
  is another one keeps it, and after the call the released session is current nowhere.
\<close>

lemma Release_only_itself:
  assumes "reg_inv r"
  shows "(r_current r c = Some e' \<and> e' \<noteq> e \<longrightarrow> r_current (Release e r) c = Some e')
       \<and> r_current (Release e r) c \<noteq> Some e \<and> Release e (Release e r) = Release e r"
proof (cases "r_current r (sess_ConnectorID (e_session (r_entry r e))) = Some e")
  case True
  obtain c0 where c0: "sess_ConnectorID (e_session (r_entry r e)) = c0" by blast
  have rel: "Release e r = r\<lparr>r_current := (r_current r)(c0 := None)\<rparr>"
    using True c0 by (simp add: Release_def)
  have "Release e (Release e r) = Release e r"
    using c0 by (simp add: rel) (simp add: Release_def r_entry_def)
  moreover have "r_current (Release e r) c \<noteq> Some e"
    using reg_inv_current [OF assms, of c e] c0 by (auto simp: current_ok_def rel)
  moreover have "r_current (Release e r) c = Some e'" if "r_current r c = Some e' \<and> e' \<noteq> e"
    using that True c0 by (auto simp: rel)
  ultimately show ?thesis by blast
next
  case False
  then have "Release e r = r" and "r_current r c \<noteq> Some e"
    using reg_inv_current [OF assms, of c e] by (auto simp: Release_def current_ok_def)
  then show ?thesis by simp
qed

lemma RevokeCredential_parts:
  assumes "reg_inv r" "dom (r_current r) \<subseteq> set order" and r'_def: "r' = snd (RevokeCredential order cred r)"
  shows "r_current r' c = (case r_current r c of
            None \<Rightarrow> None
          | Some e \<Rightarrow> if sess_CredentialID (e_session (r_entry r e)) = cred then None else Some e)"
    and "r_current r c = Some e \<Longrightarrow> sess_CredentialID (e_session (r_entry r e)) = cred \<Longrightarrow>
           e_sealed (r_entry r' e)"
    and "r_observer r \<Longrightarrow> \<exists>l. r_log r' = l @ [CredentialRevoked cred]"
proof -
  obtain es r1 where col: "collect_credential cred order r = (es, r1)" by fastforce
  let ?r2 = "fold (retire_and_notify CloseRevoked) es r1"
  have r': "r' = (if r_observer r1 then emit_notice (CredentialRevoked cred) ?r2 else ?r2)"
    by (simp add: r'_def RevokeCredential_def col Let_def)
  show "r_current r' c = (case r_current r c of
            None \<Rightarrow> None
          | Some e \<Rightarrow> if sess_CredentialID (e_session (r_entry r e)) = cred then None else Some e)"
    using collect_credential_current [OF col, of c] assms(2) by (auto simp: r' split: option.splits)
  show "r_observer r \<Longrightarrow> \<exists>l. r_log r' = l @ [CredentialRevoked cred]"
    using collect_credential_fields [OF col] by (simp add: r')
  assume e: "r_current r c = Some e" "sess_CredentialID (e_session (r_entry r e)) = cred"
  then have "e \<in> set es" using assms(2) by (auto simp: collect_credential_set [OF col])
  moreover have len: "e < length (r_entries r1)"
    using reg_inv_current [OF assms(1) e(1)] collect_credential_fields [OF col] by (simp add: current_ok_def)
  ultimately show "e_sealed (r_entry r' e)" by (simp add: r' fold_retire_sealed)
qed

text \<open>
  \<open>RevokeCredential\<close>, when its iteration visits every Connector that has a session, removes
  exactly the sessions authenticated by that credential, seals the route of each of them, leaves
  the others current, and notifies the observer last, also when no session was found.
\<close>

lemma RevokeCredential_exact:
  assumes "reg_inv r" "dom (r_current r) \<subseteq> set order" "snd (RevokeCredential order cred r) = r'"
  shows "(\<forall>c. r_current r' c = (case r_current r c of
            None \<Rightarrow> None
          | Some e \<Rightarrow> if sess_CredentialID (e_session (r_entry r e)) = cred then None else Some e))
       \<and> (\<forall>c e. r_current r c = Some e \<and> sess_CredentialID (e_session (r_entry r e)) = cred \<longrightarrow>
            e_sealed (r_entry r' e))
       \<and> (r_observer r \<longrightarrow> (\<exists>l. r_log r' = l @ [CredentialRevoked cred]))"
  using RevokeCredential_parts [OF assms(1,2) assms(3) [symmetric]] by blast


section \<open>Concrete registries\<close>

definition demo_principal :: Principal where
  "demo_principal = \<lparr>pr_ConnectorID = 5, pr_OrganizationID = 6, pr_CredentialID = 8\<rparr>"

definition demo_one :: Registry where
  "demo_one = SetRevokeObserver True (snd (Register 1 demo_principal True NewRegistry))"

lemma demo_one_inv: "reg_inv demo_one"
  unfolding demo_one_def by (intro set_revoke_observer.keeps_inv register.keeps_inv NewRegistry_inv)

lemma demo_one_current:
  "r_current demo_one = (\<lambda>_. None)(5 \<mapsto> 0)"
  "sess_CredentialID (e_session (r_entry demo_one 0)) = 8" "r_observer demo_one"
  by (simp_all add: demo_one_def demo_principal_def Register_def NewRegistry_def SetRevokeObserver_def new_entry_def
      r_entry_def)

lemma Register_fences_previous_witness:
  "r_current demo_one (pr_ConnectorID demo_principal) = Some 0
   \<and> (let r' = fold reg_exec [CMarkReady 1 (Some 7), CMarkReady 0 (Some 9), CRelease 1]
                  (snd (Register 2 demo_principal True demo_one))
      in r_current r' 5 \<noteq> Some 0 \<and> e_route (r_entry r' 0) = None \<and> MarkReady 0 (Some 9) r' = (False, r'))"
proof -
  have "r_current demo_one (pr_ConnectorID demo_principal) = Some 0"
    by (simp add: demo_one_current demo_principal_def)
  with Register_fences_previous [OF demo_one_inv this,
      of "[CMarkReady 1 (Some 7), CMarkReady 0 (Some 9), CRelease 1]" 2 True 5 9]
  show ?thesis by (simp only: Let_def simp_thms)
qed

lemma Release_only_itself_witness:
  "reg_inv demo_one \<and> r_current (Release 3 demo_one) 5 = Some 0
   \<and> r_current (Release 0 demo_one) 5 \<noteq> Some 0"
  using Release_only_itself [OF demo_one_inv, of 5 0 3] Release_only_itself [OF demo_one_inv, of 5 0 0] demo_one_inv
  by (simp add: demo_one_current(1))

lemma RevokeCredential_exact_witness:
  "dom (r_current demo_one) \<subseteq> set [5]
   \<and> r_current (snd (RevokeCredential [5] 8 demo_one)) 5 = None
   \<and> e_sealed (r_entry (snd (RevokeCredential [5] 8 demo_one)) 0)
   \<and> (\<exists>l. r_log (snd (RevokeCredential [5] 8 demo_one)) = l @ [CredentialRevoked 8])"
proof -
  have "dom (r_current demo_one) \<subseteq> set [5]" by (simp add: demo_one_current)
  with RevokeCredential_exact [OF demo_one_inv this refl, of 8] demo_one_current show ?thesis by simp
qed

end
