(* ===== verification/Registry_Interleaving.thy ===== *)
theory Registry_Interleaving
  imports Connector_Registry
begin

text \<open>
  The registry under concurrent callers. Every goroutine that calls into
  \<^verbatim>\<open>registry.go\<close> is a thread; a step of the system is one critical section of
  one thread (the code between taking and releasing \<^verbatim>\<open>Registry.mu\<close>,
  \<^verbatim>\<open>entry.mu\<close> or \<^verbatim>\<open>entry.routeMu\<close>), and steps of different
  threads interleave freely. The locks are represented by what they exclude:
  \<^item> \<open>th_mu t = Some e\<close>: the thread runs the function of \<open>IfCurrent\<close> and holds
    \<^verbatim>\<open>e.mu\<close>, so nobody marks \<open>e\<close> retired meanwhile;
  \<^item> \<open>PInside e route\<close>: the thread runs the function of \<open>withReadyRoute\<close> and holds the read
    lock \<^verbatim>\<open>e.routeMu\<close>, so nobody seals \<open>e\<close> or changes its route meanwhile, while
    other readers may enter.
\<close>

section \<open>Threads\<close>

text \<open>What is left to do of a \<open>Register\<close> or \<open>Revoke\<close> call after its first critical section.\<close>

datatype atom =
    AMark nat | ASeal nat | AClose nat CloseReason | ANotify nat CloseReason
  | ACredential uuid | AConnector uuid

datatype phase =
    PIdle
  | PRun "atom list"
  | PLooked nat string
  | PInside nat Route

record thread =
  th_mu :: "nat option"
  th_phase :: phase

record cstate =
  c_reg :: Registry
  c_threads :: "nat \<Rightarrow> thread"

datatype label =
    Tau
  | Write nat Route
  | FnStart nat
  | Began nat
  | Returned nat

definition retire_atoms :: "CloseReason \<Rightarrow> nat \<Rightarrow> atom list" where
  "retire_atoms reason e = [AMark e, ASeal e, AClose e reason, ANotify e reason]"

fun atom_exec :: "atom \<Rightarrow> Registry \<Rightarrow> Registry" where
  "atom_exec (AMark e) r = mark_retired e r"
| "atom_exec (ASeal e) r = seal_route e r"
| "atom_exec (AClose e reason) r = call_closeFn e reason r"
| "atom_exec (ANotify e reason) r = sessionRetired (e_session (r_entry r e)) reason r"
| "atom_exec (ACredential cred) r = (if r_observer r then emit_notice (CredentialRevoked cred) r else r)"
| "atom_exec (AConnector c) r = (if r_observer r then emit_notice (ConnectorRevoked c) r else r)"

text \<open>The lock that the critical section of an atom needs is free.\<close>

fun atom_enabled :: "atom \<Rightarrow> cstate \<Rightarrow> bool" where
  "atom_enabled (AMark e) s \<longleftrightarrow> (\<forall>t. th_mu (c_threads s t) \<noteq> Some e)"
| "atom_enabled (ASeal e) s \<longleftrightarrow> (\<forall>t route. th_phase (c_threads s t) \<noteq> PInside e route)"
| "atom_enabled _ s \<longleftrightarrow> True"

definition set_phase :: "nat \<Rightarrow> phase \<Rightarrow> cstate \<Rightarrow> cstate" where
  "set_phase t p s = s\<lparr>c_threads := (c_threads s)(t := (c_threads s t)\<lparr>th_phase := p\<rparr>)\<rparr>"

definition set_mu :: "nat \<Rightarrow> nat option \<Rightarrow> cstate \<Rightarrow> cstate" where
  "set_mu t m s = s\<lparr>c_threads := (c_threads s)(t := (c_threads s t)\<lparr>th_mu := m\<rparr>)\<rparr>"

definition set_reg :: "Registry \<Rightarrow> cstate \<Rightarrow> cstate" where
  "set_reg r s = s\<lparr>c_reg := r\<rparr>"

abbreviation idle :: "cstate \<Rightarrow> nat \<Rightarrow> bool" where
  "idle s t \<equiv> th_phase (c_threads s t) = PIdle"

abbreviation no_reader :: "cstate \<Rightarrow> nat \<Rightarrow> bool" where
  "no_reader s e \<equiv> \<forall>t route. th_phase (c_threads s t) \<noteq> PInside e route"

definition after_register :: "uuid \<Rightarrow> Principal \<Rightarrow> Registry \<Rightarrow> atom list" where
  "after_register sid p r =
     (case r_current r (pr_ConnectorID p) of None \<Rightarrow> [] | Some e \<Rightarrow> retire_atoms CloseReplaced e)"

definition after_revoke_connector :: "uuid \<Rightarrow> Registry \<Rightarrow> atom list" where
  "after_revoke_connector c r =
     (case r_current r c of None \<Rightarrow> [] | Some e \<Rightarrow> retire_atoms CloseRevoked e) @ [AConnector c]"

inductive cstep :: "cstate \<Rightarrow> label \<Rightarrow> cstate \<Rightarrow> bool" where
  register: "idle s t \<Longrightarrow>
    cstep s (Began t)
      (set_phase t (PRun (after_register sid p (c_reg s))) (set_reg (swap_current sid p f (c_reg s)) s))"
| revoke_connector: "idle s t \<Longrightarrow>
    cstep s (Began t)
      (set_phase t (PRun (after_revoke_connector c (c_reg s)))
         (set_reg ((c_reg s)\<lparr>r_current := (r_current (c_reg s))(c := None)\<rparr>) s))"
| revoke_credential: "idle s t \<Longrightarrow> collect_credential cred order (c_reg s) = (es, r1) \<Longrightarrow>
    dom (r_current (c_reg s)) \<subseteq> set order \<Longrightarrow>
    cstep s (Began t)
      (set_phase t (PRun (concat (map (retire_atoms CloseRevoked) es) @ [ACredential cred])) (set_reg r1 s))"
| atom: "th_phase (c_threads s t) = PRun (a # as) \<Longrightarrow> atom_enabled a s \<Longrightarrow>
    cstep s Tau (set_phase t (PRun as) (set_reg (atom_exec a (c_reg s)) s))"
| return: "th_phase (c_threads s t) = PRun [] \<Longrightarrow> cstep s (Returned t) (set_phase t PIdle s)"
| look: "idle s t \<Longrightarrow> r_current (c_reg s) c = Some e \<Longrightarrow> cstep s Tau (set_phase t (PLooked e cap) s)"
| enter: "th_phase (c_threads s t) = PLooked e cap \<Longrightarrow> e_route (r_entry (c_reg s) e) = Some route \<Longrightarrow>
    cap = [] \<or> cap \<in> e_capabilities (r_entry (c_reg s) e) \<Longrightarrow> cstep s Tau (set_phase t (PInside e route) s)"
| refuse: "th_phase (c_threads s t) = PLooked e cap \<Longrightarrow>
    e_route (r_entry (c_reg s) e) = None \<or> cap \<noteq> [] \<and> cap \<notin> e_capabilities (r_entry (c_reg s) e) \<Longrightarrow>
    cstep s Tau (set_phase t PIdle s)"
| route_write: "th_phase (c_threads s t) = PInside e route \<Longrightarrow> cstep s (Write e route) s"
| leave: "th_phase (c_threads s t) = PInside e route \<Longrightarrow> cstep s Tau (set_phase t PIdle s)"
| if_current: "th_mu (c_threads s t) = None \<Longrightarrow> \<forall>t'. th_mu (c_threads s t') \<noteq> Some e \<Longrightarrow>
    e < length (r_entries (c_reg s)) \<Longrightarrow> \<not> e_retired (r_entry (c_reg s) e) \<Longrightarrow>
    cstep s (FnStart e) (set_mu t (Some e) s)"
| fn_return: "th_mu (c_threads s t) = Some e \<Longrightarrow> idle s t \<Longrightarrow> cstep s Tau (set_mu t None s)"
| set_capabilities: "no_reader s e \<Longrightarrow> cstep s Tau (set_reg (SetCapabilities e caps (c_reg s)) s)"
| mark_ready: "no_reader s e \<Longrightarrow> cstep s Tau (set_reg (snd (MarkReady e route (c_reg s))) s)"
| release: "cstep s Tau (set_reg (Release e (c_reg s)) s)"
| observers: "cstep s Tau (set_reg (SetSessionObserver b (SetRevokeObserver b' (c_reg s))) s)"

inductive_cases cstep_WriteE: "cstep s (Write e route) s'"
inductive_cases cstep_FnStartE: "cstep s (FnStart e) s'"
inductive_cases cstep_ReturnedE: "cstep s (Returned t) s'"

inductive crun :: "cstate \<Rightarrow> label list \<Rightarrow> cstate \<Rightarrow> bool" where
  nil: "crun s [] s"
| cons: "cstep s l s' \<Longrightarrow> crun s' ls s'' \<Longrightarrow> crun s (l # ls) s''"

inductive_simps crun_Nil [simp]: "crun s [] s'"
inductive_simps crun_Cons: "crun s (l # ls) s'"

definition c_init :: cstate where
  "c_init = \<lparr>c_reg = NewRegistry, c_threads = (\<lambda>_. \<lparr>th_mu = None, th_phase = PIdle\<rparr>)\<rparr>"

text \<open>Run one thread's call to its end with no other thread in between: the sequential operation.\<close>

lemma retire_atoms_exec:
  "fold atom_exec (retire_atoms reason e) r = retire_and_notify reason e r"
proof -
  have "e_session (r_entry (call_closeFn e reason (seal_route e (mark_retired e r))) e) = e_session (r_entry r e)"
    by (simp add: call_closeFn_def seal_route_def mark_retired_def)
  then show ?thesis by (simp add: retire_atoms_def retire_and_notify_def retire_def)
qed

lemma register_sequential:
  "fold atom_exec (after_register sid p r) (swap_current sid p f r) = snd (Register sid p f r)"
  by (auto simp: after_register_def Register_def Let_def retire_atoms_exec split: option.splits)

lemma revoke_connector_sequential:
  "fold atom_exec (after_revoke_connector c r) (r\<lparr>r_current := (r_current r)(c := None)\<rparr>)
     = snd (RevokeConnector c r)"
  by (auto simp: after_revoke_connector_def RevokeConnector_def Let_def retire_atoms_exec split: option.splits)

lemma fold_retire_atoms:
  "fold atom_exec (concat (map (retire_atoms reason) es)) r = fold (retire_and_notify reason) es r"
  by (induction es arbitrary: r) (simp_all add: retire_atoms_exec)

lemma revoke_credential_sequential:
  "collect_credential cred order r = (es, r1) \<Longrightarrow>
     fold atom_exec (concat (map (retire_atoms CloseRevoked) es) @ [ACredential cred]) r1
       = snd (RevokeCredential order cred r)"
  by (simp add: RevokeCredential_def Let_def fold_retire_atoms)


section \<open>The invariant of the interleaved registry\<close>

text \<open>
  The order inside a retirement: an entry is sealed only once it is marked (it is in \<open>R\<close>), and
  the close request and the notice only go out once it is sealed (it is in \<open>S\<close>).
\<close>

fun guarded :: "nat set \<Rightarrow> nat set \<Rightarrow> atom list \<Rightarrow> bool" where
  "guarded R S [] \<longleftrightarrow> True"
| "guarded R S (AMark e # as) \<longleftrightarrow> guarded (insert e R) S as"
| "guarded R S (ASeal e # as) \<longleftrightarrow> e \<in> R \<and> guarded R (insert e S) as"
| "guarded R S (AClose e reason # as) \<longleftrightarrow> e \<in> S \<and> guarded R S as"
| "guarded R S (ANotify e reason # as) \<longleftrightarrow> e \<in> S \<and> guarded R S as"
| "guarded R S (ACredential cred # as) \<longleftrightarrow> guarded R S as"
| "guarded R S (AConnector c # as) \<longleftrightarrow> guarded R S as"

fun atom_entry :: "atom \<Rightarrow> nat option" where
  "atom_entry (AMark e) = Some e"
| "atom_entry (ASeal e) = Some e"
| "atom_entry (AClose e reason) = Some e"
| "atom_entry (ANotify e reason) = Some e"
| "atom_entry (ACredential cred) = None"
| "atom_entry (AConnector c) = None"

definition displaced :: "Registry \<Rightarrow> nat \<Rightarrow> bool" where
  "displaced r e \<longleftrightarrow> e < length (r_entries r) \<and> (\<forall>c. r_current r c \<noteq> Some e)"

fun phase_ok :: "Registry \<Rightarrow> phase \<Rightarrow> bool" where
  "phase_ok r PIdle \<longleftrightarrow> True"
| "phase_ok r (PRun as) \<longleftrightarrow>
     (\<forall>a \<in> set as. \<forall>e. atom_entry a = Some e \<longrightarrow> displaced r e)
     \<and> guarded {e. e_retired (r_entry r e)} {e. e_sealed (r_entry r e)} as"
| "phase_ok r (PLooked e cap) \<longleftrightarrow> e < length (r_entries r)"
| "phase_ok r (PInside e route) \<longleftrightarrow> e < length (r_entries r) \<and> e_route (r_entry r e) = Some route"

definition mu_ok :: "Registry \<Rightarrow> nat option \<Rightarrow> bool" where
  "mu_ok r m \<longleftrightarrow> (\<forall>e. m = Some e \<longrightarrow> e < length (r_entries r) \<and> \<not> e_retired (r_entry r e))"

definition log_ok :: "Registry \<Rightarrow> bool" where
  "log_ok r \<longleftrightarrow>
     (\<forall>e reason. CloseCalled e reason \<in> set (r_log r) \<longrightarrow>
        e < length (r_entries r) \<and> e_sealed (r_entry r e))
     \<and> (\<forall>sess reason. SessionRetired sess reason \<in> set (r_log r) \<longrightarrow>
        (\<exists>e < length (r_entries r). e_session (r_entry r e) = sess \<and> e_sealed (r_entry r e)))"

definition cinv :: "cstate \<Rightarrow> bool" where
  "cinv s \<longleftrightarrow> reg_inv (c_reg s) \<and> log_ok (c_reg s)
     \<and> (\<forall>t. mu_ok (c_reg s) (th_mu (c_threads s t)) \<and> phase_ok (c_reg s) (th_phase (c_threads s t)))"

text \<open>What a change of the registry may do to the entries that other threads refer to.\<close>

definition reg_frame :: "Registry \<Rightarrow> Registry \<Rightarrow> bool" where
  "reg_frame r r' \<longleftrightarrow> reg_le r r' \<and> (\<forall>e. displaced r e \<longrightarrow> displaced r' e)"

lemma guarded_mono: "guarded R S as \<Longrightarrow> R \<subseteq> R' \<Longrightarrow> S \<subseteq> S' \<Longrightarrow> guarded R' S' as"
proof (induction R S as arbitrary: R' S' rule: guarded.induct)
  case (2 R S e as)
  from 2(1) [of "insert e R'" S'] 2(2-) show ?case by (simp add: subset_insertI2)
next
  case (3 R S e as)
  from 3(1) [of R' "insert e S'"] 3(2-) show ?case by (auto simp: subset_insertI2)
qed auto

lemma guarded_append: "guarded R S as \<Longrightarrow> guarded R S bs \<Longrightarrow> guarded R S (as @ bs)"
proof (induction R S as rule: guarded.induct)
  case (2 R S e as)
  then show ?case using guarded_mono [of R S bs "insert e R" S] by auto
next
  case (3 R S e as)
  then show ?case using guarded_mono [of R S bs R "insert e S"] by auto
qed auto

text \<open>
  Below, entries outside the list are irrelevant: an atom's entry exists, so only the flags of
  existing entries count.
\<close>

lemma guarded_restrict:
  "guarded R S as \<Longrightarrow> (\<And>a e. a \<in> set as \<Longrightarrow> atom_entry a = Some e \<Longrightarrow> e < n) \<Longrightarrow>
   {e \<in> R. e < n} \<subseteq> R' \<Longrightarrow> {e \<in> S. e < n} \<subseteq> S' \<Longrightarrow> guarded R' S' as"
proof (induction R S as arbitrary: R' S' rule: guarded.induct)
  case (2 R S e as)
  from 2(1)[of "insert e R'" S'] 2(2-) show ?case by (fastforce simp: subset_iff)
next
  case (3 R S e as)
  from 3(1)[of R' "insert e S'"] 3(2-) show ?case by (fastforce simp: subset_iff)
qed (fastforce simp: subset_iff)+

lemma phase_ok_frame:
  assumes "phase_ok r p" "reg_frame r r'"
    and "\<And>e route. p = PInside e route \<Longrightarrow> e_route (r_entry r' e) = e_route (r_entry r e)"
  shows "phase_ok r' p"
proof (cases p)
  case (PRun as)
  have "guarded {e. e_retired (r_entry r' e)} {e. e_sealed (r_entry r' e)} as"
    by (rule guarded_restrict [of "{e. e_retired (r_entry r e)}" "{e. e_sealed (r_entry r e)}" as "length (r_entries r)"])
      (use assms(1,2) PRun in \<open>auto simp: displaced_def reg_frame_def reg_le_def entry_le_def\<close>)
  with PRun assms(1,2) show ?thesis by (auto simp: reg_frame_def)
qed (use assms in \<open>auto simp: reg_frame_def reg_le_def\<close>)

lemma mu_ok_frame:
  assumes "mu_ok r m" "reg_frame r r'" "\<And>e. m = Some e \<Longrightarrow> e_retired (r_entry r' e) = e_retired (r_entry r e)"
  shows "mu_ok r' m"
  using assms by (auto simp: mu_ok_def reg_frame_def reg_le_def)

lemma log_ok_frame: "log_ok r \<Longrightarrow> reg_le r r' \<Longrightarrow> r_log r' = r_log r \<Longrightarrow> log_ok r'"
  unfolding log_ok_def reg_le_def entry_le_def by (metis less_le_trans)

lemma c_reg_set [simp]:
  "c_reg (set_phase t p s) = c_reg s" "c_reg (set_mu t m s) = c_reg s" "c_reg (set_reg r s) = r"
  by (simp_all add: set_phase_def set_mu_def set_reg_def)

lemma th_phase_set [simp]:
  "th_phase (c_threads (set_phase t p s) t') = (if t' = t then p else th_phase (c_threads s t'))"
  "th_phase (c_threads (set_mu t m s) t') = th_phase (c_threads s t')"
  "c_threads (set_reg r s) = c_threads s"
  by (simp_all add: set_phase_def set_mu_def set_reg_def)

lemma th_mu_set [simp]:
  "th_mu (c_threads (set_phase t p s) t') = th_mu (c_threads s t')"
  "th_mu (c_threads (set_mu t m s) t') = (if t' = t then m else th_mu (c_threads s t'))"
  by (simp_all add: set_phase_def set_mu_def)

lemma set_reg_id [simp]: "set_reg (c_reg s) s = s"
  by (simp add: set_reg_def)

lemma set_phase_id: "th_phase (c_threads s t) = p \<Longrightarrow> set_phase t p s = s"
proof -
  assume "th_phase (c_threads s t) = p"
  then have "(c_threads s t)\<lparr>th_phase := p\<rparr> = c_threads s t" by (cases "c_threads s t") simp
  then show ?thesis by (simp add: set_phase_def)
qed

lemma cinv_change:
  assumes "cinv s" "reg_inv r'" "reg_frame (c_reg s) r'" "log_ok r'"
    and "\<And>t e. th_mu (c_threads s t) = Some e \<Longrightarrow> e_retired (r_entry r' e) = e_retired (r_entry (c_reg s) e)"
    and "\<And>t e route. th_phase (c_threads s t) = PInside e route \<Longrightarrow>
           e_route (r_entry r' e) = e_route (r_entry (c_reg s) e)"
  shows "cinv (set_reg r' s)" and "phase_ok r' p \<Longrightarrow> cinv (set_phase t p (set_reg r' s))"
proof -
  have "mu_ok r' (th_mu (c_threads s t))" and "phase_ok r' (th_phase (c_threads s t))" for t
    using assms mu_ok_frame [of "c_reg s" _ r'] phase_ok_frame [of "c_reg s" _ r']
    unfolding cinv_def by blast+
  then show "cinv (set_reg r' s)" and "phase_ok r' p \<Longrightarrow> cinv (set_phase t p (set_reg r' s))"
    using assms(2,4) by (simp_all add: cinv_def)
qed


section \<open>Every step keeps the invariant\<close>

lemma reg_frame_same_current:
  "reg_le r r' \<Longrightarrow> r_current r' = r_current r \<Longrightarrow> reg_frame r r'"
  by (auto simp: reg_frame_def displaced_def reg_le_def)

lemma reg_frame_fewer_current:
  "r_entries r' = r_entries r \<Longrightarrow> (\<And>c e. r_current r' c = Some e \<Longrightarrow> r_current r c = Some e) \<Longrightarrow> reg_frame r r'"
  by (auto simp: reg_frame_def displaced_def reg_le_def r_entry_def)

lemma reg_frame_swap: "reg_frame r (swap_current sid p f r)"
  by (auto simp: reg_frame_def swap_current_le displaced_def)

lemma guarded_retire_atoms: "guarded R S (concat (map (retire_atoms reason) es))"
  by (induction es arbitrary: R S) (simp_all add: retire_atoms_def)

lemma atom_entry_retire: "a \<in> set (retire_atoms reason e) \<Longrightarrow> atom_entry a = Some e' \<Longrightarrow> e' = e"
  by (auto simp: retire_atoms_def)

lemma cinv_same_reg: "cinv s \<Longrightarrow> phase_ok (c_reg s) p \<Longrightarrow> cinv (set_phase t p s)"
  by (simp add: cinv_def)

lemma cinv_parts:
  assumes "cinv s"
  shows "reg_inv (c_reg s)" "log_ok (c_reg s)" "mu_ok (c_reg s) (th_mu (c_threads s t))"
    "phase_ok (c_reg s) (th_phase (c_threads s t))"
  using assms by (simp_all add: cinv_def)

lemma cinv_register:
  assumes "cinv s"
  shows "cinv (set_phase t (PRun (after_register sid p (c_reg s))) (set_reg (swap_current sid p f (c_reg s)) s))"
proof (rule cinv_change(2) [OF assms swap_current_inv reg_frame_swap])
  let ?r = "c_reg s"
  note inv = cinv_parts [OF assms]
  show "reg_inv ?r" by (rule inv)
  show "log_ok (swap_current sid p f ?r)" by (rule log_ok_frame [OF inv(2) swap_current_le]) simp
  fix t e route
  show "th_mu (c_threads s t) = Some e \<Longrightarrow>
      e_retired (r_entry (swap_current sid p f ?r) e) = e_retired (r_entry ?r e)"
    using inv(3) [of t] by (simp add: mu_ok_def)
  show "th_phase (c_threads s t) = PInside e route \<Longrightarrow>
      e_route (r_entry (swap_current sid p f ?r) e) = e_route (r_entry ?r e)"
    using inv(4) [of t] by simp
next
  let ?r = "c_reg s"
  have inv: "reg_inv ?r" by (rule cinv_parts [OF assms])
  have "displaced (swap_current sid p f ?r) e" if "r_current ?r (pr_ConnectorID p) = Some e" for e
    using swap_not_current [OF inv that] reg_inv_current [OF inv that] by (auto simp: displaced_def current_ok_def)
  then show "phase_ok (swap_current sid p f ?r) (PRun (after_register sid p ?r))"
    by (auto simp: after_register_def retire_atoms_def split: option.splits)
qed

text \<open>Removing sessions from the current ones, and what the two \<open>Revoke\<close> calls do first.\<close>

lemma cinv_drop:
  assumes "cinv s" "reg_inv r1" "r_entries r1 = r_entries (c_reg s)" "r_log r1 = r_log (c_reg s)"
    and "\<And>c e. r_current r1 c = Some e \<Longrightarrow> r_current (c_reg s) c = Some e"
  shows "cinv (set_reg r1 s)" and "phase_ok r1 p \<Longrightarrow> cinv (set_phase t p (set_reg r1 s))"
proof -
  have frame: "reg_frame (c_reg s) r1" using assms(3,5) by (rule reg_frame_fewer_current)
  then have log: "log_ok r1"
    using cinv_parts(2) [OF assms(1)] assms(4) by (auto simp: reg_frame_def intro: log_ok_frame)
  have "r_entry r1 e = r_entry (c_reg s) e" for e using assms(3) by (simp add: r_entry_def)
  then show "cinv (set_reg r1 s)" and "phase_ok r1 p \<Longrightarrow> cinv (set_phase t p (set_reg r1 s))"
    using cinv_change [OF assms(1,2) frame log] by auto
qed

lemma cinv_revoke_connector:
  assumes "cinv s"
  shows "cinv (set_phase t (PRun (after_revoke_connector c (c_reg s)))
     (set_reg ((c_reg s)\<lparr>r_current := (r_current (c_reg s))(c := None)\<rparr>) s))" (is "cinv (set_phase t (PRun ?as) (set_reg ?r1 s))")
proof (rule cinv_drop(2) [OF assms])
  have inv: "reg_inv (c_reg s)" by (rule cinv_parts [OF assms])
  then show "reg_inv ?r1" by (rule reg_inv_drop_current)
  have "displaced ?r1 e" if "r_current (c_reg s) c = Some e" for e
    using reg_inv_current [OF inv that] current_unique [OF inv that]
    by (auto simp: displaced_def current_ok_def)
  then show "phase_ok ?r1 (PRun ?as)"
    by (auto simp: after_revoke_connector_def retire_atoms_def split: option.splits)
qed (auto split: if_splits)

lemma cinv_revoke_credential:
  assumes "cinv s" "collect_credential cred order (c_reg s) = (es, r1)"
  shows "cinv (set_phase t (PRun (concat (map (retire_atoms CloseRevoked) es) @ [ACredential cred])) (set_reg r1 s))"
proof (rule cinv_drop(2) [OF assms(1)])
  have inv: "reg_inv (c_reg s)" by (rule cinv_parts [OF assms(1)])
  show "reg_inv r1" by (rule collect_credential_inv [OF assms(2) inv])
  show "r_entries r1 = r_entries (c_reg s)" "r_log r1 = r_log (c_reg s)"
    using collect_credential_fields [OF assms(2)] by auto
  show "r_current r1 c = Some e \<Longrightarrow> r_current (c_reg s) c = Some e" for c e
    using collect_credential_current [OF assms(2), of c] by (auto split: option.splits if_splits)
  have "displaced r1 e" if "e \<in> set es" for e
    using that collect_credential_dropped [OF assms(2) inv that] collect_credential_fields [OF assms(2)]
      reg_inv_current [OF inv] by (auto simp: displaced_def collect_credential_set [OF assms(2)] current_ok_def)
  then show "phase_ok r1 (PRun (concat (map (retire_atoms CloseRevoked) es) @ [ACredential cred]))"
    by (auto dest: atom_entry_retire intro!: guarded_append guarded_retire_atoms)
qed


lemma guarded_flags:
  "guarded R S as \<Longrightarrow> (\<And>x. x \<in> R \<Longrightarrow> x \<in> R') \<Longrightarrow> (\<And>x. x \<in> S \<Longrightarrow> x \<in> S') \<Longrightarrow> guarded R' S' as"
  by (rule guarded_mono) auto

lemma cinv_mark:
  assumes "cinv s" "th_phase (c_threads s t) = PRun (AMark e # as)" "atom_enabled (AMark e) s"
  shows "cinv (set_phase t (PRun as) (set_reg (mark_retired e (c_reg s)) s))"
proof (rule cinv_change(2) [OF assms(1)])
  let ?r = "c_reg s" and ?r' = "mark_retired e (c_reg s)"
  note inv = cinv_parts [OF assms(1)]
  from inv(4) [of t] assms(2) have disp: "displaced ?r e" and
    g: "guarded (insert e {e. e_retired (r_entry ?r e)}) {e. e_sealed (r_entry ?r e)} as" and
    rest: "\<forall>a \<in> set as. \<forall>e. atom_entry a = Some e \<longrightarrow> displaced ?r e" by auto
  show "reg_inv ?r'"
    using inv(1) disp unfolding mark_retired_def
    by (intro reg_inv_update_entry) (auto simp: entry_ok_def displaced_def)
  have le: "reg_le ?r ?r'" unfolding mark_retired_def by (rule reg_le_update_entry) (simp add: entry_le_def)
  then show "reg_frame ?r ?r'" by (rule reg_frame_same_current) (simp add: mark_retired_def)
  show "log_ok ?r'" by (rule log_ok_frame [OF inv(2) le]) (simp add: mark_retired_def)
  show "th_mu (c_threads s t') = Some e' \<Longrightarrow> e_retired (r_entry ?r' e') = e_retired (r_entry ?r e')" for t' e'
    using assms(3) by (auto simp: mark_retired_def)
  show "e_route (r_entry ?r' e') = e_route (r_entry ?r e')" for e' by (simp add: mark_retired_def)
  have "guarded {e. e_retired (r_entry ?r' e)} {e. e_sealed (r_entry ?r' e)} as"
    by (rule guarded_flags [OF g]) (use disp in \<open>auto simp: mark_retired_def displaced_def\<close>)
  with rest show "phase_ok ?r' (PRun as)" by (simp add: displaced_def mark_retired_def)
qed

lemma cinv_seal:
  assumes "cinv s" "th_phase (c_threads s t) = PRun (ASeal e # as)" "atom_enabled (ASeal e) s"
  shows "cinv (set_phase t (PRun as) (set_reg (seal_route e (c_reg s)) s))"
proof (rule cinv_change(2) [OF assms(1)])
  let ?r = "c_reg s" and ?r' = "seal_route e (c_reg s)"
  note inv = cinv_parts [OF assms(1)]
  from inv(4) [of t] assms(2) have disp: "displaced ?r e" and ret: "e_retired (r_entry ?r e)" and
    g: "guarded {e. e_retired (r_entry ?r e)} (insert e {e. e_sealed (r_entry ?r e)}) as" and
    rest: "\<forall>a \<in> set as. \<forall>e. atom_entry a = Some e \<longrightarrow> displaced ?r e" by auto
  show "reg_inv ?r'"
    using inv(1) ret unfolding reg_inv_alt by (auto simp: seal_route_def entry_ok_def current_ok_def)
  have le: "reg_le ?r ?r'" unfolding seal_route_def by (rule reg_le_update_entry) (simp add: entry_le_def)
  then show "reg_frame ?r ?r'" by (rule reg_frame_same_current) (simp add: seal_route_def)
  show "log_ok ?r'" by (rule log_ok_frame [OF inv(2) le]) (simp add: seal_route_def)
  show "e_retired (r_entry ?r' e') = e_retired (r_entry ?r e')" for e' by (simp add: seal_route_def)
  show "th_phase (c_threads s t') = PInside e' route \<Longrightarrow> e_route (r_entry ?r' e') = e_route (r_entry ?r e')"
    for t' e' route
    using assms(3) by (auto simp: seal_route_def)
  have "guarded {e. e_retired (r_entry ?r' e)} {e. e_sealed (r_entry ?r' e)} as"
    by (rule guarded_flags [OF g]) (use disp in \<open>auto simp: seal_route_def displaced_def\<close>)
  with rest show "phase_ok ?r' (PRun as)" by (simp add: displaced_def seal_route_def)
qed

lemma phase_ok_emit [simp]: "phase_ok (emit_notice n r) p = phase_ok r p"
  by (cases p) (simp_all add: displaced_def)

lemma cinv_emit:
  assumes "cinv s" "log_ok (emit_notice n (c_reg s))" "phase_ok (c_reg s) p"
  shows "cinv (set_phase t p (set_reg (emit_notice n (c_reg s)) s))"
  using assms by (simp add: cinv_def mu_ok_def)

lemma log_ok_emit [simp]:
  "log_ok (emit_notice (CloseCalled e reason) r) \<longleftrightarrow> log_ok r \<and> e < length (r_entries r) \<and> e_sealed (r_entry r e)"
  "log_ok (emit_notice (CredentialRevoked cred) r) \<longleftrightarrow> log_ok r"
  "log_ok (emit_notice (ConnectorRevoked c) r) \<longleftrightarrow> log_ok r"
  by (auto simp: log_ok_def)

lemma log_ok_emit_session:
  "log_ok r \<Longrightarrow> e < length (r_entries r) \<Longrightarrow> e_sealed (r_entry r e) \<Longrightarrow>
     log_ok (emit_notice (SessionRetired (e_session (r_entry r e)) reason) r)"
  by (auto simp: log_ok_def)

lemma cinv_atom:
  assumes "cinv s" "th_phase (c_threads s t) = PRun (a # as)" "atom_enabled a s"
  shows "cinv (set_phase t (PRun as) (set_reg (atom_exec a (c_reg s)) s))"
proof -
  let ?r = "c_reg s"
  have log: "log_ok ?r" and ph: "phase_ok ?r (PRun (a # as))"
    using cinv_parts(2) [OF assms(1)] cinv_parts(4) [OF assms(1), of t] assms(2) by simp_all
  show ?thesis
  proof (cases a)
    case (AMark e)
    with assms show ?thesis by (simp add: cinv_mark)
  next
    case (ASeal e)
    with assms show ?thesis by (simp add: cinv_seal)
  next
    case (AClose e reason)
    with ph have "phase_ok ?r (PRun as)" "e < length (r_entries ?r)" "e_sealed (r_entry ?r e)"
      by (auto simp: displaced_def)
    with AClose log assms(1) show ?thesis by (simp add: call_closeFn_def cinv_emit cinv_same_reg)
  next
    case (ANotify e reason)
    with ph have "phase_ok ?r (PRun as)" "e < length (r_entries ?r)" "e_sealed (r_entry ?r e)"
      by (auto simp: displaced_def)
    with ANotify log assms(1) show ?thesis
      by (simp add: sessionRetired_def cinv_emit log_ok_emit_session cinv_same_reg)
  qed (use assms(1) log ph in \<open>simp_all add: cinv_emit cinv_same_reg\<close>)
qed

lemma cinv_route_change:
  assumes "cinv s" "reg_inv r'" "reg_le (c_reg s) r'" "r_current r' = r_current (c_reg s)"
    "r_log r' = r_log (c_reg s)" "no_reader s e"
    "\<And>e'. e_retired (r_entry r' e') = e_retired (r_entry (c_reg s) e')"
    "\<And>e'. e' \<noteq> e \<Longrightarrow> e_route (r_entry r' e') = e_route (r_entry (c_reg s) e')"
  shows "cinv (set_reg r' s)"
proof (rule cinv_change(1) [OF assms(1,2) reg_frame_same_current [OF assms(3,4)]])
  show "log_ok r'" by (rule log_ok_frame [OF cinv_parts(2) [OF assms(1)] assms(3,5)])
  show "th_phase (c_threads s t) = PInside e' route \<Longrightarrow>
      e_route (r_entry r' e') = e_route (r_entry (c_reg s) e')" for t e' route
    using assms(6,8) by metis
qed (simp add: assms(7))

lemma cstep_cinv: "cstep s l s' \<Longrightarrow> cinv s \<Longrightarrow> cinv s'"
proof (induction rule: cstep.induct)
  case (set_capabilities s e caps)
  then show ?case
    by (intro cinv_route_change [of s _ e] set_capabilities.keeps_inv set_capabilities.grows cinv_parts)
      (auto simp: SetCapabilities_def)
next
  case (mark_ready s e route)
  then show ?case
    by (intro cinv_route_change [of s _ e] mark_ready.keeps_inv mark_ready.grows cinv_parts)
      (auto simp: MarkReady_def split: option.splits)
next
  case (release s e)
  then show ?case
    by (intro cinv_drop release.keeps_inv cinv_parts) (auto simp: Release_def Let_def split: if_splits)
next
  case (observers s b b')
  then show ?case
    by (intro cinv_drop set_session_observer.keeps_inv set_revoke_observer.keeps_inv cinv_parts)
      (auto simp: SetSessionObserver_def SetRevokeObserver_def)
next
  case (look s t c e cap)
  then show ?case
    using reg_inv_current [OF cinv_parts(1)] by (auto simp: current_ok_def intro!: cinv_same_reg)
next
  case (enter s t e cap route)
  then show ?case using cinv_parts(4) [of s t] by (auto intro!: cinv_same_reg)
next
  case (if_current s t e)
  then show ?case by (simp add: cinv_def mu_ok_def)
next
  case (fn_return s t e)
  then show ?case by (simp add: cinv_def mu_ok_def)
qed (simp_all add: cinv_register cinv_revoke_connector cinv_revoke_credential cinv_atom cinv_same_reg)


section \<open>Runs\<close>

lemma crun_cinv: "crun s ls s' \<Longrightarrow> cinv s \<Longrightarrow> cinv s'"
  by (induction rule: crun.induct) (auto intro: cstep_cinv)

lemma c_init_cinv: "cinv c_init"
  by (simp add: c_init_def cinv_def NewRegistry_inv mu_ok_def log_ok_def) (simp add: NewRegistry_def)

lemma atom_exec_le: "reg_le r (atom_exec a r)"
  by (cases a) (auto simp: mark_retired_def seal_route_def call_closeFn_def sessionRetired_def entry_le_def
      intro!: reg_le_update_entry)

lemma cstep_le: "cstep s l s' \<Longrightarrow> cinv s \<Longrightarrow> reg_le (c_reg s) (c_reg s')"
proof (induction rule: cstep.induct)
  case (revoke_credential s t cred order es r1)
  then show ?case using collect_credential_fields [of cred order "c_reg s" es r1] by (simp add: reg_le_def r_entry_def)
next
  case (observers s b b')
  then show ?case by (simp add: SetSessionObserver_def SetRevokeObserver_def reg_le_def r_entry_def)
qed (auto simp: swap_current_le atom_exec_le set_capabilities.grows mark_ready.grows release.grows cinv_def)

lemma crun_le: "crun s ls s' \<Longrightarrow> cinv s \<Longrightarrow> reg_le (c_reg s) (c_reg s')"
  by (induction rule: crun.induct) (auto intro: reg_le_trans cstep_le cstep_cinv)

definition fenced :: "cstate \<Rightarrow> nat \<Rightarrow> bool" where
  "fenced s e \<longleftrightarrow> e < length (r_entries (c_reg s)) \<and> e_retired (r_entry (c_reg s) e) \<and> e_sealed (r_entry (c_reg s) e)"

lemma fenced_mono: "reg_le (c_reg s) (c_reg s') \<Longrightarrow> fenced s e \<Longrightarrow> fenced s' e"
  by (auto simp: fenced_def reg_le_def entry_le_def)

lemma fenced_step:
  assumes "cstep s l s'" "cinv s" "fenced s e"
  shows "l \<noteq> Write e route \<and> l \<noteq> FnStart e \<and> fenced s' e"
proof -
  have "entry_ok (r_entry (c_reg s) e)"
    using assms(3) cinv_parts(1) [OF assms(2)] by (auto simp: fenced_def intro: reg_inv_entry)
  then have none: "e_route (r_entry (c_reg s) e) = None"
    using assms(3) by (simp add: entry_ok_def fenced_def)
  have "l \<noteq> Write e route"
  proof
    assume "l = Write e route"
    with assms(1) obtain t where "th_phase (c_threads s t) = PInside e route" by (auto elim: cstep_WriteE)
    with cinv_parts(4) [OF assms(2), of t] none show False by simp
  qed
  moreover have "l \<noteq> FnStart e"
    using assms(1,3) by (auto simp: fenced_def elim: cstep_FnStartE)
  moreover have "fenced s' e" by (rule fenced_mono [OF cstep_le [OF assms(1,2)] assms(3)])
  ultimately show ?thesis by simp
qed

lemma fenced_run:
  "crun s ls s' \<Longrightarrow> cinv s \<Longrightarrow> fenced s e \<Longrightarrow> Write e route \<notin> set ls \<and> FnStart e \<notin> set ls \<and> fenced s' e"
proof (induction rule: crun.induct)
  case (nil s)
  then show ?case by simp
next
  case (cons s l s1 ls s2)
  then show ?case
    using fenced_step [OF cons(1,4,5), of route] cstep_cinv [OF cons(1,4)] by auto
qed

text \<open>The call of thread \<open>t\<close> that displaced entry \<open>e\<close> has fenced it or still will.\<close>

definition fencing :: "cstate \<Rightarrow> nat \<Rightarrow> nat \<Rightarrow> bool" where
  "fencing s t e \<longleftrightarrow> fenced s e \<or>
     e < length (r_entries (c_reg s)) \<and>
     (\<exists>as. th_phase (c_threads s t) = PRun as
       \<and> (AMark e \<in> set as \<or> e_retired (r_entry (c_reg s) e))
       \<and> (ASeal e \<in> set as \<or> e_sealed (r_entry (c_reg s) e)))"

lemma fencing_mono:
  assumes "reg_le (c_reg s) (c_reg s')" "fencing s t e" "th_phase (c_threads s' t) = th_phase (c_threads s t)"
  shows "fencing s' t e"
proof (cases "fenced s e")
  case True
  then show ?thesis using fenced_mono [OF assms(1)] by (simp add: fencing_def)
next
  case False
  with assms(2) obtain as where "e < length (r_entries (c_reg s))" "th_phase (c_threads s t) = PRun as"
    "AMark e \<in> set as \<or> e_retired (r_entry (c_reg s) e)" "ASeal e \<in> set as \<or> e_sealed (r_entry (c_reg s) e)"
    by (auto simp: fencing_def)
  then show ?thesis
    using assms(1,3) by (auto simp: fencing_def reg_le_def entry_le_def)
qed

lemma fencing_atom:
  assumes "fencing s t e" "th_phase (c_threads s t') = PRun (a # as)"
  shows "fencing (set_phase t' (PRun as) (set_reg (atom_exec a (c_reg s)) s)) t e"
proof (cases "t' = t")
  case False
  show ?thesis by (rule fencing_mono [OF _ assms(1)]) (use False in \<open>simp_all add: atom_exec_le\<close>)
next
  case True
  let ?s' = "set_phase t (PRun as) (set_reg (atom_exec a (c_reg s)) s)"
  have le: "reg_le (c_reg s) (c_reg ?s')" by (simp add: atom_exec_le)
  show ?thesis
  proof (cases "fenced s e")
    case True
    then show ?thesis using fenced_mono [OF le] \<open>t' = t\<close> by (simp add: fencing_def)
  next
    case False
    with assms \<open>t' = t\<close> have len: "e < length (r_entries (c_reg s))"
      and m: "AMark e \<in> set (a # as) \<or> e_retired (r_entry (c_reg s) e)"
      and sl: "ASeal e \<in> set (a # as) \<or> e_sealed (r_entry (c_reg s) e)"
      by (auto simp: fencing_def)
    have "AMark e \<in> set as \<or> e_retired (r_entry (c_reg ?s') e)"
      using m len le by (auto simp: mark_retired_def reg_le_def entry_le_def)
    moreover have "ASeal e \<in> set as \<or> e_sealed (r_entry (c_reg ?s') e)"
      using sl len le by (auto simp: seal_route_def reg_le_def entry_le_def)
    ultimately show ?thesis
      using len le \<open>t' = t\<close> by (auto simp: fencing_def reg_le_def)
  qed
qed

text \<open>What a step does to a thread in the middle of a call.\<close>

lemma cstep_running:
  assumes "cstep s l s'" "th_phase (c_threads s t) = PRun as"
  shows "th_phase (c_threads s' t) = PRun as \<and> l \<noteq> Returned t
       \<or> (\<exists>a as'. as = a # as' \<and> l = Tau \<and> s' = set_phase t (PRun as') (set_reg (atom_exec a (c_reg s)) s))
       \<or> as = [] \<and> l = Returned t \<and> s' = set_phase t PIdle s"
  using assms by (cases rule: cstep.cases) auto

lemma fencing_step:
  assumes "cstep s l s'" "cinv s" "fencing s t e"
  shows "fencing s' t e \<and> (l = Returned t \<longrightarrow> fenced s' e)"
proof (cases "fenced s e")
  case True
  then have "fenced s' e" by (rule fenced_mono [OF cstep_le [OF assms(1,2)]])
  then show ?thesis by (simp add: fencing_def)
next
  case False
  then obtain as where as: "th_phase (c_threads s t) = PRun as" using assms(3) by (auto simp: fencing_def)
  from cstep_running [OF assms(1) as] consider
      (same) "th_phase (c_threads s' t) = PRun as" "l \<noteq> Returned t"
    | (atom) a as' where "as = a # as'" "l = Tau" "s' = set_phase t (PRun as') (set_reg (atom_exec a (c_reg s)) s)"
    | (ret) "as = []" "s' = set_phase t PIdle s"
    by blast
  then show ?thesis
  proof cases
    case same
    then show ?thesis using fencing_mono [OF cstep_le [OF assms(1,2)] assms(3)] as by simp
  next
    case atom
    then show ?thesis using fencing_atom [OF assms(3), of t a as'] as by simp
  next
    case ret
    then show ?thesis using assms(3) as False by (auto simp: fencing_def fenced_def)
  qed
qed

lemma fencing_run:
  "crun s ls s' \<Longrightarrow> cinv s \<Longrightarrow> fencing s t e \<Longrightarrow> fencing s' t e \<and> (Returned t \<in> set ls \<longrightarrow> fenced s' e)"
proof (induction rule: crun.induct)
  case (nil s)
  then show ?case by simp
next
  case (cons s l s1 ls s2)
  have inv: "cinv s1" by (rule cstep_cinv [OF cons(1,4)])
  have st: "fencing s1 t e" "l = Returned t \<Longrightarrow> fenced s1 e"
    using fencing_step [OF cons(1,4,5)] by auto
  show ?case
    using cons.IH [OF inv st(1)] st(2) fenced_run [OF cons(2) inv] by auto
qed

lemma began_fencing:
  assumes "cstep s (Began t) s1" "cinv s" "r_current (c_reg s) c = Some e" "r_current (c_reg s1) c \<noteq> Some e"
  shows "fencing s1 t e"
proof -
  have len: "e < length (r_entries (c_reg s))"
    using reg_inv_current [OF cinv_parts(1) [OF assms(2)] assms(3)] by (simp add: current_ok_def)
  then have len1: "e < length (r_entries (c_reg s1))"
    using cstep_le [OF assms(1,2)] by (simp add: reg_le_def)
  from assms(1) show ?thesis
  proof (cases rule: cstep.cases)
    case (register sid p f)
    with assms(3,4) have "c = pr_ConnectorID p" by (auto split: if_splits)
    then show ?thesis using register assms(3) len1
      by (simp add: fencing_def after_register_def retire_atoms_def)
  next
    case (revoke_connector c')
    with assms(3,4) have "c = c'" by (auto split: if_splits)
    then show ?thesis using revoke_connector assms(3) len1
      by (simp add: fencing_def after_revoke_connector_def retire_atoms_def)
  next
    case (revoke_credential cred order es r1)
    have "e \<in> set es"
      using revoke_credential assms(3,4) collect_credential_current [OF revoke_credential(3), of c]
      by (auto simp: collect_credential_set [OF revoke_credential(3)] split: if_splits)
    then show ?thesis using revoke_credential len1
      by (auto simp: fencing_def retire_atoms_def intro!: bexI [of _ e])
  qed
qed


text \<open>A call finishes: with no reader and no \<open>IfCurrent\<close> in the way, its atoms run to the end.\<close>

definition quiet :: "cstate \<Rightarrow> nat \<Rightarrow> bool" where
  "quiet s t \<longleftrightarrow> (\<forall>t'. th_mu (c_threads s t') = None \<and> (t' \<noteq> t \<longrightarrow> idle s t'))"

lemma quiet_enabled: "quiet s t \<Longrightarrow> th_phase (c_threads s t) = PRun as \<Longrightarrow> atom_enabled a s"
  by (cases a) (auto simp: quiet_def, metis phase.distinct)

lemma quiet_run:
  "quiet s t \<Longrightarrow> th_phase (c_threads s t) = PRun as \<Longrightarrow>
     crun s (replicate (length as) Tau @ [Returned t]) (set_phase t PIdle (set_reg (fold atom_exec as (c_reg s)) s))"
proof (induction as arbitrary: s)
  case Nil
  show ?case using crun.cons [OF cstep.return [OF Nil(2)] crun.nil] by simp
next
  case (Cons a as)
  let ?s1 = "set_phase t (PRun as) (set_reg (atom_exec a (c_reg s)) s)"
  have st: "cstep s Tau ?s1"
    by (rule cstep.atom) (use Cons.prems quiet_enabled in auto)
  have "quiet ?s1 t" using Cons.prems(1) by (simp add: quiet_def)
  then have "crun ?s1 (replicate (length as) Tau @ [Returned t])
      (set_phase t PIdle (set_reg (fold atom_exec as (c_reg ?s1)) ?s1))"
    by (rule Cons.IH) simp
  moreover have "set_phase t PIdle (set_reg (fold atom_exec as (c_reg ?s1)) ?s1)
      = set_phase t PIdle (set_reg (fold atom_exec (a # as) (c_reg s)) s)"
    by (simp add: set_phase_def set_reg_def)
  ultimately show ?case using crun.cons [OF st] by simp
qed

lemma register_call:
  fixes sid :: uuid and p :: Principal and f :: bool
  assumes "quiet s t" "idle s t"
  defines "as \<equiv> after_register sid p (c_reg s)"
  defines "s1 \<equiv> set_phase t (PRun as) (set_reg (swap_current sid p f (c_reg s)) s)"
  shows "cstep s (Began t) s1"
    and "crun s1 (replicate (length as) Tau @ [Returned t]) (set_reg (snd (Register sid p f (c_reg s))) s)"
proof -
  show "cstep s (Began t) s1" unfolding s1_def as_def by (rule cstep.register [OF assms(2)])
  have "crun s1 (replicate (length as) Tau @ [Returned t])
      (set_phase t PIdle (set_reg (fold atom_exec as (c_reg s1)) s1))"
    by (rule quiet_run) (use assms(1) in \<open>simp_all add: quiet_def s1_def\<close>)
  moreover have "set_phase t PIdle (set_reg (fold atom_exec as (c_reg s1)) s1)
      = set_reg (snd (Register sid p f (c_reg s))) s"
    using set_phase_id [of "set_reg (snd (Register sid p f (c_reg s))) s" t PIdle] assms(2)
    by (simp add: register_sequential s1_def as_def) (simp add: set_phase_def set_reg_def)
  ultimately show "crun s1 (replicate (length as) Tau @ [Returned t]) (set_reg (snd (Register sid p f (c_reg s))) s)"
    by simp
qed

lemma quiet_set_reg [simp]: "quiet (set_reg r s) t = quiet s t"
  by (simp add: quiet_def)

lemma quiet_c_init: "quiet c_init t" "idle c_init t"
  by (simp_all add: quiet_def c_init_def)

lemma crun_append: "crun s ls s' \<Longrightarrow> crun s' ls' s'' \<Longrightarrow> crun s (ls @ ls') s''"
  by (induction rule: crun.induct) (auto intro: crun.intros)

text \<open>
  C4: the fence holds under every interleaving. Whichever \<open>Register\<close>, \<open>RevokeConnector\<close> or
  \<open>RevokeCredential\<close> call of a thread \<open>t\<close> takes an entry out of the current sessions, once that call
  has returned, no thread writes to that entry's route and no \<open>IfCurrent\<close> function starts for it,
  however long the system runs on.
\<close>

theorem displaced_session_fenced:
  assumes "crun c_init ls0 s" "cstep s (Began t) s1"
    and "r_current (c_reg s) c = Some e" "r_current (c_reg s1) c \<noteq> Some e"
    and "crun s1 ls1 s2" "Returned t \<in> set ls1" "crun s2 ls2 s3"
  shows "Write e route \<notin> set ls2 \<and> FnStart e \<notin> set ls2"
proof -
  have inv: "cinv s" by (rule crun_cinv [OF assms(1) c_init_cinv])
  have inv1: "cinv s1" by (rule cstep_cinv [OF assms(2) inv])
  have inv2: "cinv s2" by (rule crun_cinv [OF assms(5) inv1])
  have "fenced s2 e"
    using fencing_run [OF assms(5) inv1 began_fencing [OF assms(2) inv assms(3,4)]] assms(6) by simp
  then show ?thesis using fenced_run [OF assms(7) inv2] by simp
qed

text \<open>
  the observer and the connection's owner hear of a retirement only after the fence is up. At
  every reachable state a \<open>SessionRetired\<close> notice that has been delivered is about an entry to
  which no write starts from then on.
\<close>

lemma notice_after_fence:
  assumes "crun c_init ls s" "SessionRetired sess reason \<in> set (r_log (c_reg s))" "crun s ls' s'"
  shows "\<exists>e < length (r_entries (c_reg s)). e_session (r_entry (c_reg s) e) = sess
           \<and> (\<forall>route. Write e route \<notin> set ls')"
proof -
  have inv: "cinv s" by (rule crun_cinv [OF assms(1) c_init_cinv])
  then obtain e where e: "e < length (r_entries (c_reg s))" "e_session (r_entry (c_reg s) e) = sess"
    "e_sealed (r_entry (c_reg s) e)"
    using assms(2) by (auto simp: cinv_def log_ok_def)
  then have "fenced s e"
    using reg_inv_entry [OF cinv_parts(1) [OF inv]] by (auto simp: fenced_def entry_ok_def)
  then show ?thesis using fenced_run [OF assms(3) inv] e by blast
qed


section \<open>A concrete run\<close>

text \<open>
  Thread 0 registers Connector 5 twice, with an observer set; the second session becomes ready
  on route 7 and is written to.
\<close>

definition demo_s0 :: cstate where
  "demo_s0 = set_reg (SetSessionObserver True (SetRevokeObserver True NewRegistry)) c_init"

definition demo_s :: cstate where
  "demo_s = set_reg (snd (Register 1 demo_principal True (c_reg demo_s0))) demo_s0"

definition demo_s1 :: cstate where
  "demo_s1 = set_phase 0 (PRun (after_register 2 demo_principal (c_reg demo_s)))
     (set_reg (swap_current 2 demo_principal True (c_reg demo_s)) demo_s)"

definition demo_s2 :: cstate where
  "demo_s2 = set_reg (snd (Register 2 demo_principal True (c_reg demo_s))) demo_s"

definition demo_s3 :: cstate where
  "demo_s3 = set_phase 0 (PInside 1 7) (set_phase 0 (PLooked 1 []) (set_reg (snd (MarkReady 1 (Some 7) (c_reg demo_s2))) demo_s2))"

lemmas demo_defs = demo_s0_def demo_s_def demo_s1_def demo_s2_def demo_s3_def

lemma demo_quiet: "quiet demo_s 0" "idle demo_s 0" "quiet demo_s0 0" "idle demo_s0 0" "idle demo_s2 t"
  by (simp_all add: demo_defs quiet_c_init)

lemma demo_c_init_reg: "c_reg c_init = NewRegistry"
  by (simp add: c_init_def)

lemma demo_prefix: "\<exists>ls. crun c_init ls demo_s"
proof -
  have "cstep c_init Tau demo_s0"
    using cstep.observers [of c_init True True] by (simp add: demo_s0_def demo_c_init_reg)
  moreover have "\<exists>ls. crun demo_s0 ls demo_s"
    using crun.cons [OF register_call [OF demo_quiet(3,4)]] unfolding demo_s_def by blast
  ultimately show ?thesis using crun.cons by blast
qed

lemma demo_register: "cstep demo_s (Began 0) demo_s1" "\<exists>ls. crun demo_s1 (ls @ [Returned 0]) demo_s2"
  using register_call [OF demo_quiet(1,2)] unfolding demo_s1_def demo_s2_def by blast+

lemma demo_regs:
  "r_current (c_reg demo_s) 5 = Some 0" "r_current (c_reg demo_s1) 5 = Some 1"
  "r_current (c_reg demo_s2) 5 = Some 1" "e_sealed (r_entry (c_reg demo_s2) (Suc 0)) = False"
  "length (r_entries (c_reg demo_s2)) = 2"
  "e_session (r_entry (c_reg demo_s2) 0) = \<lparr>sess_ID = 1, sess_ConnectorID = 5, sess_CredentialID = 8\<rparr>"
  "SessionRetired \<lparr>sess_ID = 1, sess_ConnectorID = 5, sess_CredentialID = 8\<rparr> CloseReplaced \<in> set (r_log (c_reg demo_s2))"
  by (simp_all add: demo_defs Register_def demo_principal_def new_entry_def NewRegistry_def
      SetSessionObserver_def SetRevokeObserver_def r_entry_def retire_and_notify_def retire_def sessionRetired_def
      call_closeFn_def seal_route_def mark_retired_def update_entry_def emit_notice_def)

lemma demo_write: "crun demo_s2 [Tau, Tau, Tau, Write 1 7] demo_s3"
proof -
  let ?r = "snd (MarkReady 1 (Some 7) (c_reg demo_s2))"
  have r: "e_route (r_entry ?r 1) = Some 7" "r_current ?r 5 = Some 1"
    by (simp_all add: MarkReady_def demo_regs)
  let ?a = "set_reg ?r demo_s2" and ?b = "set_phase 0 (PLooked 1 []) (set_reg ?r demo_s2)"
  have "cstep demo_s2 Tau ?a" by (rule cstep.mark_ready) (simp add: demo_quiet)
  moreover have "cstep ?a Tau ?b" by (rule cstep.look [where c = 5]) (simp_all only: th_phase_set demo_quiet c_reg_set r)
  moreover have "cstep ?b Tau demo_s3"
    unfolding demo_s3_def by (rule cstep.enter, simp, simp only: c_reg_set r, simp)
  moreover have "cstep demo_s3 (Write 1 7) demo_s3"
    by (rule cstep.route_write [where t = 0]) (simp add: demo_s3_def)
  ultimately show ?thesis by (auto intro!: crun.intros)
qed

theorem displaced_session_fenced_witness:
  "\<exists>ls0 s s1 ls1 s2 ls2 s3. crun c_init ls0 s \<and> cstep s (Began 0) s1
     \<and> r_current (c_reg s) 5 = Some 0 \<and> r_current (c_reg s1) 5 \<noteq> Some 0
     \<and> crun s1 ls1 s2 \<and> Returned 0 \<in> set ls1 \<and> crun s2 ls2 s3
     \<and> Write 1 7 \<in> set ls2 \<and> Write 0 7 \<notin> set ls2 \<and> FnStart 0 \<notin> set ls2"
proof -
  obtain ls0 where pre: "crun c_init ls0 demo_s" using demo_prefix by blast
  obtain ls1 where call: "crun demo_s1 (ls1 @ [Returned 0]) demo_s2" using demo_register(2) by blast
  have "r_current (c_reg demo_s1) 5 \<noteq> Some 0" by (simp add: demo_regs)
  with displaced_session_fenced [OF pre demo_register(1) demo_regs(1) this call _ demo_write]
  have "Write 0 7 \<notin> set [Tau, Tau, Tau, Write 1 7] \<and> FnStart 0 \<notin> set [Tau, Tau, Tau, Write 1 7]"
    and "r_current (c_reg demo_s1) 5 \<noteq> Some 0" by simp_all
  then show ?thesis
    using pre demo_register(1) demo_regs(1) call demo_write
    by (intro exI [of _ ls0] exI [of _ demo_s] exI [of _ demo_s1] exI [of _ "ls1 @ [Returned 0]"]
        exI [of _ demo_s2] exI [of _ "[Tau, Tau, Tau, Write 1 7]"] exI [of _ demo_s3]) simp
qed

lemma notice_after_fence_witness:
  "\<exists>ls s ls' s'. crun c_init ls s \<and> crun s ls' s' \<and> ls' \<noteq> []
     \<and> SessionRetired \<lparr>sess_ID = 1, sess_ConnectorID = 5, sess_CredentialID = 8\<rparr> CloseReplaced \<in> set (r_log (c_reg s))
     \<and> (\<exists>e < 2. e_session (r_entry (c_reg s) e) = \<lparr>sess_ID = 1, sess_ConnectorID = 5, sess_CredentialID = 8\<rparr>
          \<and> (\<forall>route. Write e route \<notin> set ls'))"
proof -
  obtain ls0 where pre: "crun c_init ls0 demo_s" using demo_prefix by blast
  obtain ls1 where "crun demo_s1 (ls1 @ [Returned 0]) demo_s2" using demo_register(2) by blast
  then have run: "crun c_init (ls0 @ Began 0 # ls1 @ [Returned 0]) demo_s2"
    using crun_append [OF pre crun.cons [OF demo_register(1)]] by simp
  from notice_after_fence [OF run demo_regs(7) demo_write] run demo_write demo_regs(5,7) show ?thesis
    by (intro exI [of _ "ls0 @ Began 0 # ls1 @ [Returned 0]"] exI [of _ demo_s2]
        exI [of _ "[Tau, Tau, Tau, Write 1 7]"] exI [of _ demo_s3]) (simp only: simp_thms list.distinct)
qed

end
