(* ===== verification/Connector_Router.thy ===== *)
theory Connector_Router
  imports Registry_Interleaving
begin

text \<open>
  The command/result correlation boundary between the Backend and its Connectors
  (\<^verbatim>\<open>internal/server/connector/router.go\<close>, \<^verbatim>\<open>events.go\<close>).

  The router's maps are functions to options, its sinks are present or nil, and the events it
  hands to a sink are appended to a log. What a call needs of its surroundings is the record
  \<open>env\<close>: the trace propagator, JSON serialisation and validation, the current time, the
  identifier that \<^verbatim>\<open>uuid.NewString\<close> returns, and the behaviour of the transport's
  route. A call gets its own \<open>env\<close>, so all of them may differ from call to call.
\<close>

section \<open>Messages\<close>

record sessionEnvelope =
  sv_Type :: string
  sv_MessageID :: string
  sv_SentAt :: go_time
  sv_RequestID :: string
  sv_OperationID :: string
  sv_SessionID :: string
  sv_LabInstanceID :: string
  sv_Generation :: int
  sv_TraceParent :: string
  sv_TraceState :: string

datatype outbound =
    OutOperationCommand BaseEnvelope OperationCommandPayload
  | OutReconcileRequest BaseEnvelope ReconcileRequestPayload
  | OutTerminalOpen sessionEnvelope string string string string
  | OutTerminalClose sessionEnvelope string
  | OutFileOpen sessionEnvelope string string string
  | OutFileClose sessionEnvelope string
  | OutPreviewOpen sessionEnvelope string string int
  | OutPreviewClose sessionEnvelope string

datatype route_err = RouteClosed | RouteFailed

record 'sp env =
  env_otel :: "'sp otel"
  env_marshal :: "outbound \<Rightarrow> string option"
  env_json_Valid :: "string \<Rightarrow> bool"
  env_now :: go_time
  env_newID :: string
  env_route :: "Route \<Rightarrow> string \<Rightarrow> route_err option"

record ctx =
  ctx_err :: bool
  ctx_request_id :: string

section \<open>Events\<close>

datatype UnmatchedReason =
  ReasonNoPending | ReasonReplyMismatch | ReasonCorrelationMismatch | ReasonUnrepresentable

record Routed =
  rd_ConnectorID :: uuid
  rd_Correlation :: Correlation
  rd_RequestMessageID :: string
  rd_MessageID :: string
  rd_RequestID :: string
  rd_Trace :: TraceContext

record Unmatched =
  um_ConnectorID :: uuid
  um_MessageType :: string
  um_Reason :: UnmatchedReason
  um_OperationID :: string
  um_LabInstanceID :: string
  um_Generation :: int

datatype Event =
    OperationAckEvent Routed OperationAckPayload
  | OperationProgressEvent Routed OperationProgressPayload
  | OperationResultEvent Routed OperationResultPayload
  | ReconcileResultEvent Routed ReconcileResultPayload
  | UnmatchedEvent Unmatched

text \<open>
  The events of the three kinds of session that Control opens on a Connector: \<open>'p\<close> is the
  payload of the open result.
\<close>

record SessionCorrelation =
  sc_SessionID :: string
  sc_LabInstanceID :: string
  sc_Generation :: int

record OpenResultPayload =
  op_Outcome :: string
  op_Error :: "SafeError option"

record TerminalEndedPayload =
  te_Reason :: string
  te_ExitCode :: "int option"
  te_Error :: "SafeError option"

record SessionUnmatched =
  su_ConnectorID :: uuid
  su_MessageType :: string
  su_Reason :: UnmatchedReason
  su_SessionID :: string
  su_LabInstanceID :: string
  su_Generation :: int

record OpenResult =
  or_ConnectorID :: uuid
  or_Correlation :: SessionCorrelation
  or_RequestMessageID :: string
  or_MessageID :: string
  or_RequestID :: string
  or_Payload :: OpenResultPayload
  or_Trace :: TraceContext

datatype SessionEvent =
    OpenResultEvent OpenResult
  | TerminalEndedEvent uuid SessionCorrelation string TerminalEndedPayload TraceContext
  | SessionUnmatchedEvent SessionUnmatched

section \<open>State\<close>

record Inbound =
  in_MessageID :: string
  in_ReplyToMessageID :: string
  in_OperationID :: string
  in_LabInstanceID :: string
  in_Generation :: int
  in_Trace :: TraceContext

record operationKey =
  ok_connectorID :: uuid
  ok_operationID :: string
  ok_labInstanceID :: string
  ok_generation :: int

record pendingOperation =
  po_messageID :: string
  po_requestID :: string

record reconcileKey =
  rk_connectorID :: uuid
  rk_messageID :: string

record pendingReconcile =
  pr_correlation :: Correlation
  pr_requestID :: string

text \<open>\<open>terminalKey\<close>, \<open>fileKey\<close> and \<open>previewKey\<close>, and their pending opens, have the same fields.\<close>

record sessionKey =
  sk_connectorID :: uuid
  sk_sessionID :: string

record pendingOpen =
  pe_messageID :: string
  pe_requestID :: string
  pe_labInstanceID :: string
  pe_generation :: int

record Router =
  rt_sink :: bool
  rt_terminalSink :: bool
  rt_fileSink :: bool
  rt_previewSink :: bool
  rt_operations :: "operationKey \<Rightarrow> pendingOperation option"
  rt_reconciles :: "reconcileKey \<Rightarrow> pendingReconcile option"
  rt_terminals :: "sessionKey \<Rightarrow> pendingOpen option"
  rt_files :: "sessionKey \<Rightarrow> pendingOpen option"
  rt_previews :: "sessionKey \<Rightarrow> pendingOpen option"
  rt_wire :: "(Route \<times> string) list"
  rt_events :: "Event list"
  rt_terminalEvents :: "SessionEvent list"
  rt_fileEvents :: "SessionEvent list"
  rt_previewEvents :: "SessionEvent list"

definition NewRouter :: "bool \<Rightarrow> bool \<Rightarrow> bool \<Rightarrow> bool \<Rightarrow> Router" where
  "NewRouter sink terminalSink fileSink previewSink =
     \<lparr>rt_sink = sink, rt_terminalSink = terminalSink, rt_fileSink = fileSink, rt_previewSink = previewSink,
      rt_operations = (\<lambda>_. None), rt_reconciles = (\<lambda>_. None), rt_terminals = (\<lambda>_. None),
      rt_files = (\<lambda>_. None), rt_previews = (\<lambda>_. None), rt_wire = [], rt_events = [],
      rt_terminalEvents = [], rt_fileEvents = [], rt_previewEvents = []\<rparr>"

section \<open>Outbound\<close>

definition outboundEnvelope ::
  "'sp env \<Rightarrow> string \<Rightarrow> string \<Rightarrow> string \<Rightarrow> Correlation \<Rightarrow> TraceContext \<Rightarrow> BaseEnvelope" where
  "outboundEnvelope E kind messageID requestID c t =
     (let trace = NormalizeTrace (env_otel E) (Traceparent t) (Tracestate t) in
      \<lparr>be_Type = kind, be_MessageID = messageID, be_SentAt = env_now E, be_RequestID = requestID,
       be_OperationID = OperationID c, be_LabInstanceID = LabInstanceID c, be_Generation = Generation c,
       be_TraceParent = Traceparent trace, be_TraceState = Tracestate trace\<rparr>)"

definition marshalOutbound :: "'sp env \<Rightarrow> outbound \<Rightarrow> conn_error + string" where
  "marshalOutbound E message =
     (case env_marshal E message of
        None \<Rightarrow> Inl (ErrInvalidCommand NotSerializable)
      | Some data \<Rightarrow>
          if length data > MaxJSONMessageSize then Inl (ErrInvalidCommand MessageTooLarge) else Inr data)"

text \<open>
  \<open>write\<close>: a route that is already closing writes nothing, any other call puts the message (or a
  part of it, when it fails) on the wire.
\<close>

definition write_route :: "'sp env \<Rightarrow> Route \<Rightarrow> string \<Rightarrow> (Router \<Rightarrow> Router) \<Rightarrow> Router \<Rightarrow> conn_error option \<times> Router" where
  "write_route E route data rollback r =
     (case env_route E route data of
        None \<Rightarrow> (None, r\<lparr>rt_wire := rt_wire r @ [(route, data)]\<rparr>)
      | Some RouteClosed \<Rightarrow> (Some ErrConnectionClosing, rollback r)
      | Some RouteFailed \<Rightarrow> (Some ErrSendFailed, rollback (r\<lparr>rt_wire := rt_wire r @ [(route, data)]\<rparr>)))"

definition operation_key :: "uuid \<Rightarrow> Correlation \<Rightarrow> operationKey" where
  "operation_key connectorID c =
     \<lparr>ok_connectorID = connectorID, ok_operationID = OperationID c, ok_labInstanceID = LabInstanceID c,
      ok_generation = Generation c\<rparr>"

definition removeOperation :: "operationKey \<Rightarrow> string \<Rightarrow> Router \<Rightarrow> Router" where
  "removeOperation key messageID r =
     (case rt_operations r key of
        Some p \<Rightarrow> if po_messageID p = messageID then r\<lparr>rt_operations := (rt_operations r)(key := None)\<rparr> else r
      | None \<Rightarrow> r)"

definition removeReconcile :: "reconcileKey \<Rightarrow> Router \<Rightarrow> Router" where
  "removeReconcile key r = r\<lparr>rt_reconciles := (rt_reconciles r)(key := None)\<rparr>"

text \<open>What the caller of \<open>WithReadyRoute\<close> makes of its result.\<close>

definition finish_send :: "string \<Rightarrow> Router \<Rightarrow> conn_error + (conn_error option \<times> Router) \<Rightarrow> (conn_error + string) \<times> Router" where
  "finish_send messageID r res =
     (case res of
        Inl e \<Rightarrow> (Inl e, r)
      | Inr (Some e, r') \<Rightarrow> (Inl e, r')
      | Inr (None, r') \<Rightarrow> (Inr messageID, r'))"

definition SendOperationCommand ::
  "'sp env \<Rightarrow> ctx \<Rightarrow> Registry \<Rightarrow> OperationCommand \<Rightarrow> Router \<Rightarrow> (conn_error + string) \<times> Router" where
  "SendOperationCommand E ctx reg cmd r =
     (if ctx_err ctx then (Inl ErrContext, r)
      else case validateOperationCommand cmd of
        Some e \<Rightarrow> (Inl (ErrInvalidCommand e), r)
      | None \<Rightarrow>
          (let messageID = env_newID E in
           case marshalOutbound E (OutOperationCommand
                  (outboundEnvelope E MessageTypeOperationCommand messageID (oc_RequestID cmd) (oc_Correlation cmd) (oc_Trace cmd))
                  (oc_Payload cmd)) of
             Inl e \<Rightarrow> (Inl e, r)
           | Inr data \<Rightarrow>
               (let key = operation_key (oc_ConnectorID cmd) (oc_Correlation cmd) in
                finish_send messageID r
                  (WithReadyRoute reg (oc_ConnectorID cmd) (\<lambda>session route.
                     if oc_SessionID cmd \<noteq> uuid_Nil \<and> oc_SessionID cmd \<noteq> sess_ID session then (Some ErrNotReady, r)
                     else if rt_operations r key \<noteq> None then (Some ErrDuplicateCorrelation, r)
                     else write_route E route data (removeOperation key messageID)
                            (r\<lparr>rt_operations := (rt_operations r)
                                (key \<mapsto> \<lparr>po_messageID = messageID, po_requestID = oc_RequestID cmd\<rparr>)\<rparr>))))))"

definition SendReconcileRequest ::
  "'sp env \<Rightarrow> ctx \<Rightarrow> Registry \<Rightarrow> ReconcileRequest \<Rightarrow> Router \<Rightarrow> (conn_error + string) \<times> Router" where
  "SendReconcileRequest E ctx reg req r =
     (if ctx_err ctx then (Inl ErrContext, r)
      else case validateReconcileRequest req of
        Some e \<Rightarrow> (Inl (ErrInvalidCommand e), r)
      | None \<Rightarrow>
          (let payload = (rr_Payload req)\<lparr>rrp_KnownResources := Some (slice (rrp_KnownResources (rr_Payload req)))\<rparr>;
               messageID = env_newID E in
           case marshalOutbound E (OutReconcileRequest
                  (outboundEnvelope E MessageTypeReconcileRequest messageID (rr_RequestID req) (rr_Correlation req) (rr_Trace req))
                  payload) of
             Inl e \<Rightarrow> (Inl e, r)
           | Inr data \<Rightarrow>
               (let key = \<lparr>rk_connectorID = rr_ConnectorID req, rk_messageID = messageID\<rparr> in
                finish_send messageID r
                  (WithReadyRoute reg (rr_ConnectorID req) (\<lambda>session route.
                     if rr_SessionID req \<noteq> uuid_Nil \<and> rr_SessionID req \<noteq> sess_ID session then (Some ErrNotReady, r)
                     else write_route E route data (removeReconcile key)
                            (r\<lparr>rt_reconciles := (rt_reconciles r)
                                (key \<mapsto> \<lparr>pr_correlation = rr_Correlation req, pr_requestID = rr_RequestID req\<rparr>)\<rparr>))))))"

definition ForgetOperation :: "uuid \<Rightarrow> Correlation \<Rightarrow> Router \<Rightarrow> bool \<times> Router" where
  "ForgetOperation connectorID c r =
     (let key = operation_key connectorID c in
      (rt_operations r key \<noteq> None, r\<lparr>rt_operations := (rt_operations r)(key := None)\<rparr>))"

definition ForgetReconcile :: "uuid \<Rightarrow> string \<Rightarrow> Router \<Rightarrow> bool \<times> Router" where
  "ForgetReconcile connectorID requestMessageID r =
     (let key = \<lparr>rk_connectorID = connectorID, rk_messageID = requestMessageID\<rparr> in
      (rt_reconciles r key \<noteq> None, r\<lparr>rt_reconciles := (rt_reconciles r)(key := None)\<rparr>))"

definition PendingCount :: "uuid \<Rightarrow> Router \<Rightarrow> nat \<times> nat" where
  "PendingCount connectorID r =
     (card {key \<in> dom (rt_operations r). ok_connectorID key = connectorID},
      card {key \<in> dom (rt_reconciles r). rk_connectorID key = connectorID})"


definition sendFailureReason :: "conn_error \<Rightarrow> string" where
  "sendFailureReason err =
     (case err of
        ErrNotConnected \<Rightarrow> ''not_connected''
      | ErrNotReady \<Rightarrow> ''not_ready''
      | ErrConnectionClosing \<Rightarrow> ''connection_closing''
      | ErrCapabilityUnsupported \<Rightarrow> ''capability_unsupported''
      | ErrDuplicateCorrelation \<Rightarrow> ''duplicate_correlation''
      | ErrInvalidCommand reason \<Rightarrow> ''invalid_command''
      | _ \<Rightarrow> ''write_failed'')"

section \<open>Inbound\<close>

definition maxLoggedIDLen :: nat where
  "maxLoggedIDLen = 128"

definition boundID :: "string \<Rightarrow> string" where
  "boundID ident =
     (if length ident \<le> maxLoggedIDLen then ident else strings_ToValidUTF8 (take maxLoggedIDLen ident))"

definition emit :: "Event \<Rightarrow> Router \<Rightarrow> Router" where
  "emit e r = (if rt_sink r then r\<lparr>rt_events := rt_events r @ [e]\<rparr> else r)"

definition unmatched :: "uuid \<Rightarrow> string \<Rightarrow> Inbound \<Rightarrow> UnmatchedReason \<Rightarrow> Router \<Rightarrow> Router" where
  "unmatched connectorID messageType inb reason r =
     emit (UnmatchedEvent
       \<lparr>um_ConnectorID = connectorID, um_MessageType = messageType, um_Reason = reason,
        um_OperationID = boundID (in_OperationID inb), um_LabInstanceID = boundID (in_LabInstanceID inb),
        um_Generation = in_Generation inb\<rparr>) r"

definition inbound_correlation :: "Inbound \<Rightarrow> Correlation" where
  "inbound_correlation inb =
     \<lparr>OperationID = in_OperationID inb, LabInstanceID = in_LabInstanceID inb, Generation = in_Generation inb\<rparr>"

definition matchOperation ::
  "uuid \<Rightarrow> Inbound \<Rightarrow> bool \<Rightarrow> bool \<Rightarrow> Router \<Rightarrow> (UnmatchedReason + Routed) \<times> Router" where
  "matchOperation connectorID inb requireReply terminal r =
     (if in_Generation inb < 1 then (Inl ReasonUnrepresentable, r)
      else
        (let key = operation_key connectorID (inbound_correlation inb) in
         case rt_operations r key of
           None \<Rightarrow> (Inl ReasonNoPending, r)
         | Some pending \<Rightarrow>
             if (requireReply \<or> in_ReplyToMessageID inb \<noteq> []) \<and> in_ReplyToMessageID inb \<noteq> po_messageID pending
             then (Inl ReasonReplyMismatch, r)
             else
               (Inr \<lparr>rd_ConnectorID = connectorID, rd_Correlation = inbound_correlation inb,
                     rd_RequestMessageID = po_messageID pending, rd_MessageID = in_MessageID inb,
                     rd_RequestID = po_requestID pending, rd_Trace = in_Trace inb\<rparr>,
                if terminal then r\<lparr>rt_operations := (rt_operations r)(key := None)\<rparr> else r)))"

definition matchReconcile :: "uuid \<Rightarrow> Inbound \<Rightarrow> Router \<Rightarrow> (UnmatchedReason + Routed) \<times> Router" where
  "matchReconcile connectorID inb r =
     (if in_ReplyToMessageID inb = [] then (Inl ReasonNoPending, r)
      else
        (let key = \<lparr>rk_connectorID = connectorID, rk_messageID = in_ReplyToMessageID inb\<rparr>;
             got = inbound_correlation inb in
         case rt_reconciles r key of
           None \<Rightarrow> (Inl ReasonNoPending, r)
         | Some pending \<Rightarrow>
             if pr_correlation pending \<noteq> got then (Inl ReasonCorrelationMismatch, r)
             else
               (Inr \<lparr>rd_ConnectorID = connectorID, rd_Correlation = got,
                     rd_RequestMessageID = in_ReplyToMessageID inb, rd_MessageID = in_MessageID inb,
                     rd_RequestID = pr_requestID pending, rd_Trace = in_Trace inb\<rparr>,
                r\<lparr>rt_reconciles := (rt_reconciles r)(key := None)\<rparr>)))"

definition RouteOperationAck :: "uuid \<Rightarrow> Inbound \<Rightarrow> OperationAckPayload \<Rightarrow> Router \<Rightarrow> bool \<times> Router" where
  "RouteOperationAck connectorID inb payload r =
     (case matchOperation connectorID inb True (\<not> ack_Accepted payload) r of
        (Inl reason, r') \<Rightarrow> (False, unmatched connectorID MessageTypeOperationAck inb reason r')
      | (Inr routed, r') \<Rightarrow> (True, emit (OperationAckEvent routed payload) r'))"

definition RouteOperationProgress :: "uuid \<Rightarrow> Inbound \<Rightarrow> OperationProgressPayload \<Rightarrow> Router \<Rightarrow> bool \<times> Router" where
  "RouteOperationProgress connectorID inb payload r =
     (case matchOperation connectorID inb False False r of
        (Inl reason, r') \<Rightarrow> (False, unmatched connectorID MessageTypeOperationProgress inb reason r')
      | (Inr routed, r') \<Rightarrow> (True, emit (OperationProgressEvent routed payload) r'))"

definition RouteOperationResult :: "uuid \<Rightarrow> Inbound \<Rightarrow> OperationResultPayload \<Rightarrow> Router \<Rightarrow> bool \<times> Router" where
  "RouteOperationResult connectorID inb payload r =
     (case matchOperation connectorID inb False True r of
        (Inl reason, r') \<Rightarrow> (False, unmatched connectorID MessageTypeOperationResult inb reason r')
      | (Inr routed, r') \<Rightarrow> (True, emit (OperationResultEvent routed payload) r'))"

definition RouteReconcileResult :: "uuid \<Rightarrow> Inbound \<Rightarrow> ReconcileResultPayload \<Rightarrow> Router \<Rightarrow> bool \<times> Router" where
  "RouteReconcileResult connectorID inb payload r =
     (case matchReconcile connectorID inb r of
        (Inl reason, r') \<Rightarrow> (False, unmatched connectorID MessageTypeReconcileResult inb reason r')
      | (Inr routed, r') \<Rightarrow> (True, emit (ReconcileResultEvent routed payload) r'))"

definition RouteUnrepresentable :: "uuid \<Rightarrow> string \<Rightarrow> Inbound \<Rightarrow> Router \<Rightarrow> Router" where
  "RouteUnrepresentable connectorID messageType inb r = unmatched connectorID messageType inb ReasonUnrepresentable r"

section \<open>Sending\<close>

lemma boundID_length: "length (boundID i) \<le> maxLoggedIDLen"
  using ToValidUTF8_length [of "take maxLoggedIDLen i"] by (simp add: boundID_def)

lemma marshalOutbound_size: "marshalOutbound E m = Inr data \<Longrightarrow> length data \<le> MaxJSONMessageSize"
  by (auto simp: marshalOutbound_def split: option.splits if_splits)

text \<open>The pending tables, the part of the router that correlation depends on.\<close>

definition same_pending :: "Router \<Rightarrow> Router \<Rightarrow> bool" where
  "same_pending r r' \<longleftrightarrow> rt_operations r' = rt_operations r \<and> rt_reconciles r' = rt_reconciles r
     \<and> rt_terminals r' = rt_terminals r \<and> rt_files r' = rt_files r \<and> rt_previews r' = rt_previews r"

lemma removeOperation_undo:
  "rt_operations r key = None \<Longrightarrow>
   removeOperation key mid (r\<lparr>rt_operations := (rt_operations r)(key \<mapsto> p)\<rparr>) = (if po_messageID p = mid then r else r\<lparr>rt_operations := (rt_operations r)(key \<mapsto> p)\<rparr>)"
  by (simp add: removeOperation_def fun_upd_idem)

lemma wire_update_commute:
  "r\<lparr>rt_operations := ops, rt_wire := w\<rparr> = r\<lparr>rt_wire := w, rt_operations := ops\<rparr>"
  "r\<lparr>rt_reconciles := recs, rt_wire := w\<rparr> = r\<lparr>rt_wire := w, rt_reconciles := recs\<rparr>"
  by simp_all

text \<open>The errors that promise that nothing was put on the wire.\<close>

definition no_write_error :: "conn_error \<Rightarrow> bool" where
  "no_write_error e \<longleftrightarrow> e \<noteq> ErrSendFailed"

lemma SendOperationCommand_cases:
  fixes E :: "'sp env"
  assumes "SendOperationCommand E ctx reg cmd r = (res, r')"
  defines "key \<equiv> operation_key (oc_ConnectorID cmd) (oc_Correlation cmd)"
  obtains (error) e where "res = Inl e" "r' = r" "no_write_error e"
  | (failed) route data where "res = Inl ErrSendFailed" "r' = r\<lparr>rt_wire := rt_wire r @ [(route, data)]\<rparr>"
      "rt_operations r key = None"
  | (sent) e route data where "res = Inr (env_newID E)" "validateOperationCommand cmd = None"
      "length data \<le> MaxJSONMessageSize"
      "r_current reg (oc_ConnectorID cmd) = Some e" "e_route (r_entry reg e) = Some route"
      "oc_SessionID cmd = uuid_Nil \<or> oc_SessionID cmd = sess_ID (e_session (r_entry reg e))"
      "rt_operations r key = None"
      "r' = r\<lparr>rt_operations := (rt_operations r)(key \<mapsto> \<lparr>po_messageID = env_newID E, po_requestID = oc_RequestID cmd\<rparr>),
              rt_wire := rt_wire r @ [(route, data)]\<rparr>"
proof (cases "\<exists>e. res = Inl e \<and> r' = r \<and> no_write_error e")
  case True
  then show ?thesis using that(1) by blast
next
  case False
  let ?p = "\<lparr>po_messageID = env_newID E, po_requestID = oc_RequestID cmd\<rparr>"
  from False assms(1) obtain data where valid: "\<not> ctx_err ctx" "validateOperationCommand cmd = None"
    and m: "marshalOutbound E (OutOperationCommand
       (outboundEnvelope E MessageTypeOperationCommand (env_newID E) (oc_RequestID cmd) (oc_Correlation cmd) (oc_Trace cmd))
       (oc_Payload cmd)) = Inr data"
    by (auto simp: SendOperationCommand_def Let_def marshalOutbound_def no_write_error_def
        split: if_splits option.splits sum.splits)
  from False assms(1) valid m obtain e route where cur: "r_current reg (oc_ConnectorID cmd) = Some e"
      "e_route (r_entry reg e) = Some route"
      "oc_SessionID cmd = uuid_Nil \<or> oc_SessionID cmd = sess_ID (e_session (r_entry reg e))"
      "rt_operations r key = None"
    and fin: "(res, r') = finish_send (env_newID E) r (Inr (write_route E route data (removeOperation key (env_newID E))
        (r\<lparr>rt_operations := (rt_operations r)(key \<mapsto> ?p)\<rparr>)))"
    by (auto simp: SendOperationCommand_def Let_def WithReadyRoute_def withReadyRoute_def finish_send_def
        no_write_error_def key_def split: option.splits if_splits)
  note size = marshalOutbound_size [OF m]
  have undo: "removeOperation key (env_newID E) (r\<lparr>rt_operations := (rt_operations r)(key \<mapsto> ?p), rt_wire := w\<rparr>)
      = r\<lparr>rt_wire := w\<rparr>" for w
    using cur(4) removeOperation_undo [of "r\<lparr>rt_wire := w\<rparr>" key "env_newID E" ?p]
    by (simp add: wire_update_commute)
  show ?thesis
  proof (cases "env_route E route data")
    case None
    with fin show ?thesis
      by (intro that(3) [of data e route]) (use size cur valid in \<open>auto simp: finish_send_def write_route_def\<close>)
  next
    case (Some x)
    with fin cur(4) False show ?thesis
      by (cases x)
        (auto simp: finish_send_def write_route_def undo removeOperation_undo no_write_error_def intro: that(2))
  qed
qed


text \<open>
  what \<open>SendOperationCommand\<close> does on every path. An error leaves every pending table as it
  was, and only \<open>ErrSendFailed\<close> may have put bytes on the wire. Success means that a valid command
  was written exactly once, within the size limit, to the route of the Connector's current session
  (the requested one, when one was requested), for a correlation that had no command in progress,
  and that its pending entry carries the message identifier that was returned.
\<close>

lemma SendOperationCommand_outcome:
  assumes "SendOperationCommand E ctx reg cmd r = (res, r')"
  shows "case res of
      Inl e \<Rightarrow> same_pending r r' \<and> (e \<noteq> ErrSendFailed \<longrightarrow> r' = r)
    | Inr mid \<Rightarrow> mid = env_newID E \<and> command_ok cmd \<and>
        (\<exists>e route data.
           r_current reg (oc_ConnectorID cmd) = Some e \<and> e_route (r_entry reg e) = Some route
         \<and> (oc_SessionID cmd = uuid_Nil \<or> oc_SessionID cmd = sess_ID (e_session (r_entry reg e)))
         \<and> length data \<le> MaxJSONMessageSize \<and> rt_wire r' = rt_wire r @ [(route, data)]
         \<and> rt_operations r (operation_key (oc_ConnectorID cmd) (oc_Correlation cmd)) = None
         \<and> rt_operations r' = (rt_operations r)(operation_key (oc_ConnectorID cmd) (oc_Correlation cmd)
              \<mapsto> \<lparr>po_messageID = mid, po_requestID = oc_RequestID cmd\<rparr>))"
  using assms
proof (cases rule: SendOperationCommand_cases)
  case (error e)
  then show ?thesis by (simp add: same_pending_def)
next
  case (failed route data)
  then show ?thesis by (simp add: same_pending_def)
next
  case (sent e route data)
  then have "command_ok cmd" by (simp add: validateOperationCommand_None)
  then show ?thesis
    unfolding sent(1) sum.case
    by (intro conjI exI [of _ e] exI [of _ route] exI [of _ data] refl) (use sent in simp_all)
qed

lemma SendReconcileRequest_cases:
  fixes E :: "'sp env"
  assumes "SendReconcileRequest E ctx reg req r = (res, r')"
  defines "key \<equiv> \<lparr>rk_connectorID = rr_ConnectorID req, rk_messageID = env_newID E\<rparr>"
  obtains (error) e where "res = Inl e" "r' = r" "no_write_error e"
  | (closing) "res = Inl ErrConnectionClosing" "r' = removeReconcile key r"
  | (failed) route data where "res = Inl ErrSendFailed"
      "r' = removeReconcile key (r\<lparr>rt_wire := rt_wire r @ [(route, data)]\<rparr>)"
  | (sent) e route data where "res = Inr (env_newID E)" "validateReconcileRequest req = None"
      "length data \<le> MaxJSONMessageSize"
      "r_current reg (rr_ConnectorID req) = Some e" "e_route (r_entry reg e) = Some route"
      "rr_SessionID req = uuid_Nil \<or> rr_SessionID req = sess_ID (e_session (r_entry reg e))"
      "r' = r\<lparr>rt_reconciles := (rt_reconciles r)(key \<mapsto> \<lparr>pr_correlation = rr_Correlation req, pr_requestID = rr_RequestID req\<rparr>),
              rt_wire := rt_wire r @ [(route, data)]\<rparr>"
proof (cases "\<exists>e. res = Inl e \<and> r' = r \<and> no_write_error e")
  case True
  then show ?thesis using that(1) by blast
next
  case False
  let ?p = "\<lparr>pr_correlation = rr_Correlation req, pr_requestID = rr_RequestID req\<rparr>"
  from False assms(1) obtain data where valid: "\<not> ctx_err ctx" "validateReconcileRequest req = None"
    and m: "marshalOutbound E (OutReconcileRequest
       (outboundEnvelope E MessageTypeReconcileRequest (env_newID E) (rr_RequestID req) (rr_Correlation req) (rr_Trace req))
       ((rr_Payload req)\<lparr>rrp_KnownResources := Some (slice (rrp_KnownResources (rr_Payload req)))\<rparr>)) = Inr data"
    by (auto simp: SendReconcileRequest_def Let_def marshalOutbound_def no_write_error_def
        split: if_splits option.splits sum.splits)
  from False assms(1) valid m obtain e route where cur: "r_current reg (rr_ConnectorID req) = Some e"
      "e_route (r_entry reg e) = Some route"
      "rr_SessionID req = uuid_Nil \<or> rr_SessionID req = sess_ID (e_session (r_entry reg e))"
    and fin: "(res, r') = finish_send (env_newID E) r (Inr (write_route E route data (removeReconcile key)
        (r\<lparr>rt_reconciles := (rt_reconciles r)(key \<mapsto> ?p)\<rparr>)))"
    by (auto simp: SendReconcileRequest_def Let_def WithReadyRoute_def withReadyRoute_def finish_send_def
        no_write_error_def key_def split: option.splits if_splits)
  note size = marshalOutbound_size [OF m]
  have undo: "removeReconcile key (r\<lparr>rt_reconciles := (rt_reconciles r)(key \<mapsto> ?p)\<rparr>) = removeReconcile key r"
    and undo_w: "removeReconcile key (r\<lparr>rt_reconciles := (rt_reconciles r)(key \<mapsto> ?p), rt_wire := w\<rparr>)
      = removeReconcile key (r\<lparr>rt_wire := w\<rparr>)" for w
    by (simp_all add: removeReconcile_def wire_update_commute)
  show ?thesis
  proof (cases "env_route E route data")
    case None
    with fin show ?thesis
      by (intro that(4) [of data e route]) (use size cur valid in \<open>auto simp: finish_send_def write_route_def\<close>)
  next
    case (Some x)
    with fin show ?thesis
      by (cases x) (auto simp: finish_send_def write_route_def undo undo_w intro: that(2,3))
  qed
qed

section \<open>Matching\<close>

lemma emit_fields [simp]:
  "rt_operations (emit e r) = rt_operations r" "rt_reconciles (emit e r) = rt_reconciles r"
  "rt_terminals (emit e r) = rt_terminals r" "rt_files (emit e r) = rt_files r"
  "rt_previews (emit e r) = rt_previews r" "rt_wire (emit e r) = rt_wire r" "rt_sink (emit e r) = rt_sink r"
  "rt_events (emit e r) = rt_events r @ (if rt_sink r then [e] else [])"
  by (simp_all add: emit_def)

lemma unmatched_fields [simp]:
  "rt_operations (unmatched c ty inb reason r) = rt_operations r"
  "rt_reconciles (unmatched c ty inb reason r) = rt_reconciles r"
  "rt_sink (unmatched c ty inb reason r) = rt_sink r"
  "rt_wire (unmatched c ty inb reason r) = rt_wire r"
  by (simp_all add: unmatched_def)

definition reply_matches :: "bool \<Rightarrow> Inbound \<Rightarrow> pendingOperation \<Rightarrow> bool" where
  "reply_matches requireReply inb p \<longleftrightarrow>
     in_ReplyToMessageID inb = po_messageID p \<or> \<not> requireReply \<and> in_ReplyToMessageID inb = []"

lemma matchOperation_Inr:
  "matchOperation c inb requireReply terminal r = (Inr routed, r') \<longleftrightarrow>
     1 \<le> in_Generation inb \<and>
     (\<exists>p. rt_operations r (operation_key c (inbound_correlation inb)) = Some p \<and> reply_matches requireReply inb p
        \<and> routed = \<lparr>rd_ConnectorID = c, rd_Correlation = inbound_correlation inb,
                    rd_RequestMessageID = po_messageID p, rd_MessageID = in_MessageID inb,
                    rd_RequestID = po_requestID p, rd_Trace = in_Trace inb\<rparr>
        \<and> r' = (if terminal then r\<lparr>rt_operations := (rt_operations r)(operation_key c (inbound_correlation inb) := None)\<rparr> else r))"
  by (auto simp: matchOperation_def reply_matches_def Let_def split: option.splits)

lemma matchOperation_Inl:
  "matchOperation c inb requireReply terminal r = (Inl reason, r') \<Longrightarrow> r' = r \<and>
     (1 \<le> in_Generation inb \<longrightarrow>
        (\<forall>p. rt_operations r (operation_key c (inbound_correlation inb)) = Some p \<longrightarrow> \<not> reply_matches requireReply inb p))"
  by (auto simp: matchOperation_def reply_matches_def Let_def split: option.splits if_splits)

lemma matchReconcile_Inr:
  "matchReconcile c inb r = (Inr routed, r') \<longleftrightarrow>
     in_ReplyToMessageID inb \<noteq> [] \<and>
     (\<exists>p. rt_reconciles r \<lparr>rk_connectorID = c, rk_messageID = in_ReplyToMessageID inb\<rparr> = Some p
        \<and> pr_correlation p = inbound_correlation inb
        \<and> routed = \<lparr>rd_ConnectorID = c, rd_Correlation = inbound_correlation inb,
                    rd_RequestMessageID = in_ReplyToMessageID inb, rd_MessageID = in_MessageID inb,
                    rd_RequestID = pr_requestID p, rd_Trace = in_Trace inb\<rparr>
        \<and> r' = removeReconcile \<lparr>rk_connectorID = c, rk_messageID = in_ReplyToMessageID inb\<rparr> r)"
  by (auto simp: matchReconcile_def removeReconcile_def Let_def split: option.splits)

lemma matchReconcile_Inl: "matchReconcile c inb r = (Inl reason, r') \<Longrightarrow> r' = r"
  by (auto simp: matchReconcile_def Let_def split: option.splits if_splits)

text \<open>
  \<open>OPERATION_RESULT\<close> is accepted exactly when the authenticated Connector has a command in
  progress for that operation, lab instance and generation and the message, if it names the
  message it replies to, names that command. Acceptance ends that command and no other; otherwise
  every pending entry stays.
\<close>

lemma RouteOperationResult_matches:
  "(fst (RouteOperationResult c inb payload r) \<longleftrightarrow>
      1 \<le> in_Generation inb \<and>
      (\<exists>p. rt_operations r (operation_key c (inbound_correlation inb)) = Some p
         \<and> (in_ReplyToMessageID inb = [] \<or> in_ReplyToMessageID inb = po_messageID p)))
   \<and> rt_operations (snd (RouteOperationResult c inb payload r)) =
      (if fst (RouteOperationResult c inb payload r)
       then (rt_operations r)(operation_key c (inbound_correlation inb) := None) else rt_operations r)
   \<and> rt_reconciles (snd (RouteOperationResult c inb payload r)) = rt_reconciles r"
proof (cases "matchOperation c inb False True r")
  case (Pair m r1)
  show ?thesis
  proof (cases m)
    case (Inl reason)
    then show ?thesis
      using Pair matchOperation_Inl [of c inb False True r reason r1]
      by (auto simp: RouteOperationResult_def reply_matches_def)
  next
    case (Inr routed)
    with Pair have "matchOperation c inb False True r = (Inr routed, r1)" by simp
    then show ?thesis
      by (auto simp: RouteOperationResult_def, auto simp: matchOperation_Inr reply_matches_def)
  qed
qed


section \<open>A concrete exchange\<close>

text \<open>Connector 5 is ready on route 7 and is sent a clean-up of nothing, which it completes.\<close>

definition demo_ctx :: ctx where
  "demo_ctx = \<lparr>ctx_err = False, ctx_request_id = []\<rparr>"

definition demo_env :: "unit env" where
  "demo_env = \<lparr>env_otel = \<lparr>otel_extract = (\<lambda>_ _ _. None), otel_inject = (\<lambda>_. ([], []))\<rparr>,
     env_marshal = (\<lambda>_. Some ''json''), env_json_Valid = (\<lambda>_. True), env_now = 0, env_newID = ''m1'',
     env_route = (\<lambda>_ _. None)\<rparr>"

definition demo_reg :: Registry where
  "demo_reg = SetCapabilities 0 [''file-v1'', ''preview-v1'']
     (snd (MarkReady 0 (Some 7) (snd (Register 1 demo_principal True NewRegistry))))"

definition demo_corr :: Correlation where
  "demo_corr = \<lparr>OperationID = ''op'', LabInstanceID = ''lab'', Generation = 1\<rparr>"

definition demo_cmd :: OperationCommand where
  "demo_cmd = \<lparr>oc_ConnectorID = 5, oc_SessionID = 0, oc_RequestID = ''req'', oc_Correlation = demo_corr,
     oc_Payload = \<lparr>ocp_MutationType = ''CLEANUP'', ocp_CreationSnapshot = None, ocp_ProviderResources = Some []\<rparr>,
     oc_Trace = zero_trace\<rparr>"

definition demo_inbound :: Inbound where
  "demo_inbound = \<lparr>in_MessageID = ''c1'', in_ReplyToMessageID = ''m1'', in_OperationID = ''op'',
     in_LabInstanceID = ''lab'', in_Generation = 1, in_Trace = zero_trace\<rparr>"

definition demo_result :: OperationResultPayload where
  "demo_result = \<lparr>orp_Readiness = None, orp_Outcome = ''SUCCEEDED'', orp_ProviderResources = [], orp_Error = None\<rparr>"

lemma demo_reg_ready: "withReadyRoute demo_reg 5 [] fn = Inr (fn \<lparr>sess_ID = 1, sess_ConnectorID = 5, sess_CredentialID = 8\<rparr> 7)"
  by (simp add: demo_reg_def withReadyRoute_def Register_def MarkReady_def SetCapabilities_def NewRegistry_def
      demo_principal_def new_entry_def r_entry_def update_entry_def)

lemma demo_send:
  "fst (SendOperationCommand demo_env demo_ctx demo_reg demo_cmd (NewRouter s1 s2 s3 s4)) = Inr ''m1''"
  by (simp add: SendOperationCommand_def demo_ctx_def demo_cmd_def demo_env_def demo_corr_def
      validateOperationCommand_def validateCorrelation_def mutation_types validateResourceRefs_def
      marshalOutbound_def MaxJSONMessageSize_def WithReadyRoute_def demo_reg_ready finish_send_def write_route_def
      NewRouter_def Let_def)

lemma SendOperationCommand_outcome_witness:
  "\<exists>r'. SendOperationCommand demo_env demo_ctx demo_reg demo_cmd (NewRouter True True True True) = (Inr ''m1'', r')
     \<and> command_ok demo_cmd \<and> (\<exists>route data. rt_wire r' = [(route, data)])
     \<and> rt_operations r' = (\<lambda>_. None)(operation_key 5 demo_corr \<mapsto> \<lparr>po_messageID = ''m1'', po_requestID = ''req''\<rparr>)"
proof -
  obtain r' where r': "SendOperationCommand demo_env demo_ctx demo_reg demo_cmd (NewRouter True True True True) = (Inr ''m1'', r')"
    using demo_send by (metis prod.collapse)
  from SendOperationCommand_outcome [OF this] r' show ?thesis
    by (auto simp: NewRouter_def demo_cmd_def)
qed

end
