(* ===== verification/Router_Correlation.thy ===== *)
theory Router_Correlation
  imports Connector_Router
begin

text \<open>
  Correlation under concurrency. A send registers its pending entry in one critical section of
  \<^verbatim>\<open>Router.mu\<close>, then writes without the lock, and on a failed write removes the entry
  in a second critical section; meanwhile the read loops of other Connectors, and of the same one,
  route inbound messages. The relation \<open>rstep\<close> interleaves these sections. The log \<open>rs_log\<close>
  of what has happened is a ghost: no step reads it except to state that
  \<^verbatim>\<open>uuid.NewString\<close> returns a new identifier. The function \<open>outstanding\<close> says from the log alone which
  requests may be answered; it is what the router's tables are compared with.
\<close>

datatype sent =
    SentOp uuid Correlation string string
  | SentRec uuid Correlation string string

fun sent_mid :: "sent \<Rightarrow> string" where
  "sent_mid (SentOp c corr mid req) = mid"
| "sent_mid (SentRec c corr mid req) = mid"

text \<open>The two critical sections of a send, and the write between them.\<close>

fun put_pending :: "sent \<Rightarrow> Router \<Rightarrow> Router" where
  "put_pending (SentOp c corr mid req) r =
     r\<lparr>rt_operations := (rt_operations r)(operation_key c corr \<mapsto> \<lparr>po_messageID = mid, po_requestID = req\<rparr>)\<rparr>"
| "put_pending (SentRec c corr mid req) r =
     r\<lparr>rt_reconciles := (rt_reconciles r)(\<lparr>rk_connectorID = c, rk_messageID = mid\<rparr>
         \<mapsto> \<lparr>pr_correlation = corr, pr_requestID = req\<rparr>)\<rparr>"

fun may_register :: "sent \<Rightarrow> Router \<Rightarrow> bool" where
  "may_register (SentOp c corr mid req) r \<longleftrightarrow> rt_operations r (operation_key c corr) = None"
| "may_register (SentRec c corr mid req) r \<longleftrightarrow> True"

fun rollback :: "sent \<Rightarrow> Router \<Rightarrow> Router" where
  "rollback (SentOp c corr mid req) r = removeOperation (operation_key c corr) mid r"
| "rollback (SentRec c corr mid req) r = removeReconcile \<lparr>rk_connectorID = c, rk_messageID = mid\<rparr> r"

datatype inbound_msg =
    InAck OperationAckPayload
  | InProgress OperationProgressPayload
  | InResult OperationResultPayload
  | InReconcile ReconcileResultPayload
  | InUnrepresentable string

datatype raction =
    Put sent
  | Wrote sent "Route \<times> string"
  | Refused sent
  | Broke sent "Route \<times> string"
  | Got inbound_msg uuid Inbound
  | ForgotOp uuid Correlation
  | ForgotRec uuid string

record rstate =
  rs_router :: Router
  rs_log :: "raction list"
  rs_flight :: "sent set"

definition log_registered :: "raction list \<Rightarrow> sent set" where
  "log_registered l = {m. Put m \<in> set l}"

fun route_inbound :: "inbound_msg \<Rightarrow> uuid \<Rightarrow> Inbound \<Rightarrow> Router \<Rightarrow> Router" where
  "route_inbound (InAck p) c inb r = snd (RouteOperationAck c inb p r)"
| "route_inbound (InProgress p) c inb r = snd (RouteOperationProgress c inb p r)"
| "route_inbound (InResult p) c inb r = snd (RouteOperationResult c inb p r)"
| "route_inbound (InReconcile p) c inb r = snd (RouteReconcileResult c inb p r)"
| "route_inbound (InUnrepresentable ty) c inb r = RouteUnrepresentable c ty inb r"

inductive rstep :: "rstate \<Rightarrow> rstate \<Rightarrow> bool" where
  put: "may_register m (rs_router s) \<Longrightarrow> sent_mid m \<notin> sent_mid ` log_registered (rs_log s) \<Longrightarrow>
    rstep s (s\<lparr>rs_router := put_pending m (rs_router s), rs_log := rs_log s @ [Put m],
               rs_flight := insert m (rs_flight s)\<rparr>)"
| written: "m \<in> rs_flight s \<Longrightarrow>
    rstep s (s\<lparr>rs_router := (rs_router s)\<lparr>rt_wire := rt_wire (rs_router s) @ [w]\<rparr>, rs_log := rs_log s @ [Wrote m w],
               rs_flight := rs_flight s - {m}\<rparr>)"
| refused: "m \<in> rs_flight s \<Longrightarrow>
    rstep s (s\<lparr>rs_router := rollback m (rs_router s), rs_log := rs_log s @ [Refused m], rs_flight := rs_flight s - {m}\<rparr>)"
| broken: "m \<in> rs_flight s \<Longrightarrow>
    rstep s (s\<lparr>rs_router := rollback m ((rs_router s)\<lparr>rt_wire := rt_wire (rs_router s) @ [w]\<rparr>),
               rs_log := rs_log s @ [Broke m w], rs_flight := rs_flight s - {m}\<rparr>)"
| inbound: "rstep s (s\<lparr>rs_router := route_inbound msg c inb (rs_router s), rs_log := rs_log s @ [Got msg c inb]\<rparr>)"
| forget_op: "rstep s (s\<lparr>rs_router := snd (ForgetOperation c corr (rs_router s)), rs_log := rs_log s @ [ForgotOp c corr]\<rparr>)"
| forget_rec: "rstep s (s\<lparr>rs_router := snd (ForgetReconcile c mid (rs_router s)), rs_log := rs_log s @ [ForgotRec c mid]\<rparr>)"

inductive rreach :: "rstate \<Rightarrow> rstate \<Rightarrow> bool" where
  refl: "rreach s s"
| step: "rreach s s' \<Longrightarrow> rstep s' s'' \<Longrightarrow> rreach s s''"

definition r_init :: "bool \<Rightarrow> rstate" where
  "r_init sink = \<lparr>rs_router = NewRouter sink False False False, rs_log = [], rs_flight = {}\<rparr>"

section \<open>Which requests may be answered\<close>

text \<open>
  An inbound message takes a request of the same Connector and correlation. An acknowledgement and a reconcile result
  must name the message they answer; a progress or a result may leave the name out, but does not carry another.
\<close>

fun takes_request :: "inbound_msg \<Rightarrow> uuid \<Rightarrow> Inbound \<Rightarrow> sent \<Rightarrow> bool" where
  "takes_request msg c inb (SentOp c' corr mid req) \<longleftrightarrow>
     c' = c \<and> corr = inbound_correlation inb \<and> 1 \<le> in_Generation inb
     \<and> (case msg of
          InAck p \<Rightarrow> in_ReplyToMessageID inb = mid
        | InProgress p \<Rightarrow> in_ReplyToMessageID inb = [] \<or> in_ReplyToMessageID inb = mid
        | InResult p \<Rightarrow> in_ReplyToMessageID inb = [] \<or> in_ReplyToMessageID inb = mid
        | _ \<Rightarrow> False)"
| "takes_request msg c inb (SentRec c' corr mid req) \<longleftrightarrow>
     c' = c \<and> corr = inbound_correlation inb \<and> mid \<noteq> [] \<and> in_ReplyToMessageID inb = mid
     \<and> (case msg of InReconcile p \<Rightarrow> True | _ \<Rightarrow> False)"

text \<open>The messages that end a request: a result, and an acknowledgement that refuses the command.\<close>

fun ends_request :: "inbound_msg \<Rightarrow> bool" where
  "ends_request (InAck p) \<longleftrightarrow> \<not> ack_Accepted p"
| "ends_request (InProgress p) \<longleftrightarrow> False"
| "ends_request (InResult p) \<longleftrightarrow> True"
| "ends_request (InReconcile p) \<longleftrightarrow> True"
| "ends_request (InUnrepresentable ty) \<longleftrightarrow> False"

fun log_effect :: "raction \<Rightarrow> sent set \<Rightarrow> sent set" where
  "log_effect (Put m) S = insert m S"
| "log_effect (Wrote m w) S = S"
| "log_effect (Refused m) S = S - {m}"
| "log_effect (Broke m w) S = S - {m}"
| "log_effect (Got msg c inb) S = S - {m. ends_request msg \<and> takes_request msg c inb m}"
| "log_effect (ForgotOp c corr) S = S - {m. \<exists>mid req. m = SentOp c corr mid req}"
| "log_effect (ForgotRec c mid) S = S - {m. \<exists>corr req. m = SentRec c corr mid req}"

definition outstanding :: "raction list \<Rightarrow> sent set" where
  "outstanding l = fold log_effect l {}"

section \<open>What an event answers\<close>

definition routed_op :: "Routed \<Rightarrow> sent" where
  "routed_op rd = SentOp (rd_ConnectorID rd) (rd_Correlation rd) (rd_RequestMessageID rd) (rd_RequestID rd)"

definition routed_rec :: "Routed \<Rightarrow> sent" where
  "routed_rec rd = SentRec (rd_ConnectorID rd) (rd_Correlation rd) (rd_RequestMessageID rd) (rd_RequestID rd)"

fun answers :: "Event \<Rightarrow> sent option" where
  "answers (OperationAckEvent rd p) = Some (routed_op rd)"
| "answers (OperationProgressEvent rd p) = Some (routed_op rd)"
| "answers (OperationResultEvent rd p) = Some (routed_op rd)"
| "answers (ReconcileResultEvent rd p) = Some (routed_rec rd)"
| "answers (UnmatchedEvent u) = None"

text \<open>The event holds what the Connector's message said.\<close>

fun event_carries :: "inbound_msg \<Rightarrow> uuid \<Rightarrow> Inbound \<Rightarrow> Event \<Rightarrow> bool" where
  "event_carries msg c inb (OperationAckEvent rd p) \<longleftrightarrow> msg = InAck p \<and> rd_MessageID rd = in_MessageID inb \<and> rd_Trace rd = in_Trace inb"
| "event_carries msg c inb (OperationProgressEvent rd p) \<longleftrightarrow> msg = InProgress p \<and> rd_MessageID rd = in_MessageID inb \<and> rd_Trace rd = in_Trace inb"
| "event_carries msg c inb (OperationResultEvent rd p) \<longleftrightarrow> msg = InResult p \<and> rd_MessageID rd = in_MessageID inb \<and> rd_Trace rd = in_Trace inb"
| "event_carries msg c inb (ReconcileResultEvent rd p) \<longleftrightarrow> msg = InReconcile p \<and> rd_MessageID rd = in_MessageID inb \<and> rd_Trace rd = in_Trace inb"
| "event_carries msg c inb (UnmatchedEvent u) \<longleftrightarrow> um_ConnectorID u = c \<and> um_OperationID u = boundID (in_OperationID inb)"

definition pending_set :: "Router \<Rightarrow> sent set" where
  "pending_set r =
     {SentOp c corr mid req | c corr mid req. rt_operations r (operation_key c corr) = Some \<lparr>po_messageID = mid, po_requestID = req\<rparr>}
     \<union> {SentRec c corr mid req | c corr mid req.
          rt_reconciles r \<lparr>rk_connectorID = c, rk_messageID = mid\<rparr> = Some \<lparr>pr_correlation = corr, pr_requestID = req\<rparr>}"

lemma pending_set_Op [simp]:
  "SentOp c corr mid req \<in> pending_set r \<longleftrightarrow>
     rt_operations r (operation_key c corr) = Some \<lparr>po_messageID = mid, po_requestID = req\<rparr>"
  by (simp add: pending_set_def)

lemma pending_set_Rec [simp]:
  "SentRec c corr mid req \<in> pending_set r \<longleftrightarrow>
     rt_reconciles r \<lparr>rk_connectorID = c, rk_messageID = mid\<rparr> = Some \<lparr>pr_correlation = corr, pr_requestID = req\<rparr>"
  by (simp add: pending_set_def)

lemma operation_key_inject [simp]: "operation_key c corr = operation_key c' corr' \<longleftrightarrow> c = c' \<and> corr = corr'"
  by (cases corr; cases corr') (auto simp: operation_key_def)


section \<open>Effect of the steps on the pending requests\<close>

lemma pending_set_cong:
  "rt_operations r' = rt_operations r \<Longrightarrow> rt_reconciles r' = rt_reconciles r \<Longrightarrow> pending_set r' = pending_set r"
  by (simp add: pending_set_def)

lemma pending_set_emit [simp]: "pending_set (emit e r) = pending_set r"
  by (rule pending_set_cong) simp_all

lemma pending_set_unmatched [simp]: "pending_set (unmatched c ty inb reason r) = pending_set r"
  by (rule pending_set_cong) simp_all

lemma pending_set_wire [simp]: "pending_set (r\<lparr>rt_wire := w\<rparr>) = pending_set r"
  by (rule pending_set_cong) simp_all

lemma pending_del_op:
  "pending_set (r\<lparr>rt_operations := (rt_operations r)(key := None)\<rparr>) = pending_set r - {m. \<exists>c corr mid req. m = SentOp c corr mid req \<and> key = operation_key c corr}"
  by (rule set_eqI, rename_tac m, case_tac m) auto

lemma pending_del_rec:
  "pending_set (removeReconcile key r) = pending_set r - {m. \<exists>c corr mid req. m = SentRec c corr mid req \<and> key = \<lparr>rk_connectorID = c, rk_messageID = mid\<rparr>}"
  by (rule set_eqI, rename_tac m, case_tac m) (auto simp: removeReconcile_def)

text \<open>The requests of one set carry different message identifiers.\<close>

lemma pending_put:
  assumes "may_register m r" "sent_mid m \<notin> sent_mid ` pending_set r"
  shows "pending_set (put_pending m r) = insert m (pending_set r)"
proof (cases m)
  case (SentOp c corr mid req)
  with assms(1) show ?thesis by (intro set_eqI, rename_tac x, case_tac x) auto
next
  case (SentRec c corr mid req)
  have "SentRec c' corr' mid req' \<notin> pending_set r" for c' corr' req'
    using assms(2) SentRec by (metis image_eqI sent_mid.simps(2))
  then have "rt_reconciles r \<lparr>rk_connectorID = c, rk_messageID = mid\<rparr> = None"
    by (metis (full_types) not_None_eq pendingReconcile.surjective old.unit.exhaust pending_set_Rec)
  with SentRec show ?thesis by (intro set_eqI, rename_tac x, case_tac x) auto
qed

lemma pending_rollback:
  assumes "inj_on sent_mid (insert m (pending_set r))"
  shows "pending_set (rollback m r) = pending_set r - {m}"
proof -
  have same: "x \<in> pending_set r \<Longrightarrow> sent_mid x = sent_mid m \<Longrightarrow> x = m" for x using assms by (auto simp: inj_on_def)
  show ?thesis
  proof (cases m)
    case (SentOp c corr mid req)
    show ?thesis
    proof (cases "rt_operations r (operation_key c corr)")
      case None
      with SentOp have "m \<notin> pending_set r" by simp
      with None SentOp show ?thesis by (simp add: removeOperation_def)
    next
      case (Some p)
      then have p: "SentOp c corr (po_messageID p) (po_requestID p) \<in> pending_set r" by simp
      show ?thesis
      proof (cases "po_messageID p = mid")
        case True
        with p same [OF p] SentOp have "po_requestID p = req" by simp
        with Some True SentOp show ?thesis by (auto simp: removeOperation_def pending_del_op)
      next
        case False
        with Some SentOp show ?thesis by (auto simp: removeOperation_def)
      qed
    qed
  next
    case (SentRec c corr mid req)
    have "x = m" if "x \<in> pending_set r" "\<exists>corr req. x = SentRec c corr mid req" for x
      by (rule same [OF that(1)]) (use that(2) SentRec in auto)
    moreover have "pending_set (rollback m r) = pending_set r - {x. \<exists>corr req. x = SentRec c corr mid req}"
      using SentRec by (auto simp: pending_del_rec)
    ultimately show ?thesis using SentRec by blast
  qed
qed

lemma pending_forget:
  "pending_set (snd (ForgetOperation c corr r)) = log_effect (ForgotOp c corr) (pending_set r)"
  "pending_set (snd (ForgetReconcile c mid r)) = log_effect (ForgotRec c mid) (pending_set r)"
  using pending_del_rec [of "\<lparr>rk_connectorID = c, rk_messageID = mid\<rparr>" r]
  by (auto simp: ForgetOperation_def ForgetReconcile_def Let_def pending_del_op removeReconcile_def)

definition router_frame :: "Router \<Rightarrow> Router \<Rightarrow> bool" where
  "router_frame r r' \<longleftrightarrow> rt_events r' = rt_events r \<and> rt_sink r' = rt_sink r \<and> rt_wire r' = rt_wire r"

lemma router_frames [simp]:
  "router_frame r (put_pending m r)" "router_frame r (rollback m r)"
  "router_frame r (snd (ForgetOperation c corr r))" "router_frame r (snd (ForgetReconcile c mid r))"
  by (cases m; simp add: router_frame_def removeOperation_def removeReconcile_def ForgetOperation_def ForgetReconcile_def Let_def
      split: option.splits)+

text \<open>What \<open>matchOperation\<close> and \<open>matchReconcile\<close> find among the pending requests.\<close>

lemma matchOperation_found:
  assumes "matchOperation c inb requireReply terminal r = (res, r1)"
  defines "fits \<equiv> \<lambda>m. \<exists>mid req. m = SentOp c (inbound_correlation inb) mid req \<and> 1 \<le> in_Generation inb
      \<and> (\<not> requireReply \<and> in_ReplyToMessageID inb = [] \<or> in_ReplyToMessageID inb = mid)"
  shows "case res of
      Inl reason \<Rightarrow> r1 = r \<and> (\<forall>m. \<not> (m \<in> pending_set r \<and> fits m))
    | Inr rd \<Rightarrow> rd_MessageID rd = in_MessageID inb \<and> rd_Trace rd = in_Trace inb \<and> router_frame r r1
        \<and> (\<forall>m. m \<in> pending_set r \<and> fits m \<longleftrightarrow> m = routed_op rd)
        \<and> pending_set r1 = pending_set r - {m. terminal \<and> m = routed_op rd}"
proof (cases "rt_operations r (operation_key c (inbound_correlation inb))")
  case None
  then have "\<not> (m \<in> pending_set r \<and> fits m)" for m by (auto simp: fits_def)
  with None assms(1) show ?thesis by (auto simp: matchOperation_def Let_def split: if_splits)
next
  case (Some p)
  have only: "m \<in> pending_set r \<and> (\<exists>mid req. m = SentOp c (inbound_correlation inb) mid req) \<longleftrightarrow>
      m = SentOp c (inbound_correlation inb) (po_messageID p) (po_requestID p)" for m
    using Some by (cases p) auto
  show ?thesis
  proof (cases res)
    case (Inl reason)
    with Some assms(1) have "r1 = r" "in_Generation inb < 1
        \<or> (requireReply \<or> in_ReplyToMessageID inb \<noteq> []) \<and> in_ReplyToMessageID inb \<noteq> po_messageID p"
      by (auto simp: matchOperation_def Let_def split: if_splits)
    moreover from this have "\<not> (m \<in> pending_set r \<and> fits m)" for m using only [of m] by (auto simp: fits_def)
    ultimately show ?thesis using Inl by simp
  next
    case (Inr rd)
    with Some assms(1) have g: "1 \<le> in_Generation inb"
      "\<not> requireReply \<and> in_ReplyToMessageID inb = [] \<or> in_ReplyToMessageID inb = po_messageID p"
      and rd: "routed_op rd = SentOp c (inbound_correlation inb) (po_messageID p) (po_requestID p)"
        "rd_MessageID rd = in_MessageID inb" "rd_Trace rd = in_Trace inb"
      and r1: "r1 = (if terminal then r\<lparr>rt_operations := (rt_operations r)(operation_key c (inbound_correlation inb) := None)\<rparr> else r)"
      by (auto simp: matchOperation_def Let_def routed_op_def split: if_splits)
    have "m \<in> pending_set r \<and> fits m \<longleftrightarrow> m = routed_op rd" for m
      using only [of m] g rd(1) by (auto simp: fits_def)
    moreover have "pending_set r1 = pending_set r - {m. terminal \<and> m = routed_op rd}"
    proof -
      have "pending_set r1 = pending_set r - {m. terminal \<and> (\<exists>mid req. m = SentOp c (inbound_correlation inb) mid req)}"
        by (simp add: r1 pending_del_op)
      also have "\<dots> = pending_set r - {m. terminal \<and> m = routed_op rd}"
        unfolding rd(1) using Some by (cases p) auto
      finally show ?thesis .
    qed
    ultimately show ?thesis using Inr rd r1 by (simp add: router_frame_def)
  qed
qed

lemma matchReconcile_found:
  assumes "matchReconcile c inb r = (res, r1)"
  defines "fits \<equiv> \<lambda>m. \<exists>mid req. m = SentRec c (inbound_correlation inb) mid req \<and> mid \<noteq> [] \<and> in_ReplyToMessageID inb = mid"
  shows "case res of
      Inl reason \<Rightarrow> r1 = r \<and> (\<forall>m. \<not> (m \<in> pending_set r \<and> fits m))
    | Inr rd \<Rightarrow> rd_MessageID rd = in_MessageID inb \<and> rd_Trace rd = in_Trace inb \<and> router_frame r r1
        \<and> (\<forall>m. m \<in> pending_set r \<and> fits m \<longleftrightarrow> m = routed_rec rd) \<and> pending_set r1 = pending_set r - {routed_rec rd}"
proof (cases "rt_reconciles r \<lparr>rk_connectorID = c, rk_messageID = in_ReplyToMessageID inb\<rparr>")
  case None
  then have "\<not> (m \<in> pending_set r \<and> fits m)" for m by (auto simp: fits_def)
  with None assms(1) show ?thesis by (auto simp: matchReconcile_def Let_def split: if_splits)
next
  case (Some p)
  have only: "m \<in> pending_set r \<and> (\<exists>corr req. m = SentRec c corr (in_ReplyToMessageID inb) req) \<longleftrightarrow>
      m = SentRec c (pr_correlation p) (in_ReplyToMessageID inb) (pr_requestID p)" for m
    using Some by (cases p) auto
  show ?thesis
  proof (cases res)
    case (Inl reason)
    with Some assms(1) have "r1 = r" "in_ReplyToMessageID inb = [] \<or> pr_correlation p \<noteq> inbound_correlation inb"
      by (auto simp: matchReconcile_def Let_def split: if_splits)
    moreover from this have "\<not> (m \<in> pending_set r \<and> fits m)" for m using only [of m] by (auto simp: fits_def)
    ultimately show ?thesis using Inl by simp
  next
    case (Inr rd)
    with Some assms(1) have g: "in_ReplyToMessageID inb \<noteq> []" "pr_correlation p = inbound_correlation inb"
      and rd: "routed_rec rd = SentRec c (pr_correlation p) (in_ReplyToMessageID inb) (pr_requestID p)"
        "rd_MessageID rd = in_MessageID inb" "rd_Trace rd = in_Trace inb"
      and r1: "r1 = removeReconcile \<lparr>rk_connectorID = c, rk_messageID = in_ReplyToMessageID inb\<rparr> r"
      by (auto simp: matchReconcile_def Let_def routed_rec_def removeReconcile_def split: if_splits)
    have "fits m \<longleftrightarrow> (\<exists>req. m = SentRec c (pr_correlation p) (in_ReplyToMessageID inb) req)" for m
      unfolding fits_def g(2) using g(1) by metis
    then have "m \<in> pending_set r \<and> fits m \<longleftrightarrow> m = routed_rec rd" for m
      unfolding rd(1) using Some by (cases p) auto
    moreover have "pending_set r1 = pending_set r - {m. \<exists>corr req. m = SentRec c corr (in_ReplyToMessageID inb) req}"
      by (simp add: r1 pending_del_rec)
    then have "pending_set r1 = pending_set r - {routed_rec rd}" unfolding rd(1) using Some by (cases p) auto
    ultimately show ?thesis using Inr rd r1 by (simp add: router_frame_def removeReconcile_def)
  qed
qed

text \<open>
  What routing one message does: one event, which answers the outstanding request that the message takes if there is one, and
  the message ends this request if it is one that ends requests.
\<close>

definition routed_as :: "inbound_msg \<Rightarrow> uuid \<Rightarrow> Inbound \<Rightarrow> Router \<Rightarrow> Event \<Rightarrow> Router \<Rightarrow> bool" where
  "routed_as msg c inb r e r' \<longleftrightarrow>
     rt_events r' = rt_events r @ (if rt_sink r then [e] else []) \<and> rt_sink r' = rt_sink r \<and> rt_wire r' = rt_wire r
     \<and> event_carries msg c inb e \<and> (\<forall>m. answers e = Some m \<longleftrightarrow> m \<in> pending_set r \<and> takes_request msg c inb m)
     \<and> pending_set r' = log_effect (Got msg c inb) (pending_set r)"

lemma routed_unmatched:
  assumes "\<And>m. \<not> (m \<in> pending_set r \<and> takes_request msg c inb m)"
  shows "\<exists>e. routed_as msg c inb r e (unmatched c ty inb reason r)"
proof -
  have "pending_set r = log_effect (Got msg c inb) (pending_set r)" using assms by auto
  moreover have "\<forall>m. \<not> (m \<in> pending_set r \<and> takes_request msg c inb m)" using assms by blast
  ultimately show ?thesis
    by (intro exI [of _ "UnmatchedEvent \<lparr>um_ConnectorID = c, um_MessageType = ty, um_Reason = reason,
        um_OperationID = boundID (in_OperationID inb), um_LabInstanceID = boundID (in_LabInstanceID inb),
        um_Generation = in_Generation inb\<rparr>"]) (simp add: routed_as_def unmatched_def del: log_effect.simps)
qed

lemma routed_emit:
  assumes "router_frame r r1" "event_carries msg c inb e" "\<And>m. m \<in> pending_set r \<and> takes_request msg c inb m \<longleftrightarrow> m = m0" "answers e = Some m0"
    "pending_set r1 = pending_set r - {m. ends_request msg \<and> m = m0}"
  shows "routed_as msg c inb r e (emit e r1)"
proof -
  have "pending_set r - {m. ends_request msg \<and> m = m0} = log_effect (Got msg c inb) (pending_set r)" using assms(3) by auto
  with assms show ?thesis by (auto simp: routed_as_def router_frame_def simp del: log_effect.simps)
qed

lemma routed_op_case:
  assumes match: "matchOperation c inb requireReply (ends_request msg) r = (res, r1)"
    and takes: "\<And>m. takes_request msg c inb m \<longleftrightarrow> (\<exists>mid req. m = SentOp c (inbound_correlation inb) mid req \<and> 1 \<le> in_Generation inb
      \<and> (\<not> requireReply \<and> in_ReplyToMessageID inb = [] \<or> in_ReplyToMessageID inb = mid))"
    and ev: "\<And>rd. answers (ev rd) = Some (routed_op rd)"
      "\<And>rd. rd_MessageID rd = in_MessageID inb \<Longrightarrow> rd_Trace rd = in_Trace inb \<Longrightarrow> event_carries msg c inb (ev rd)"
  shows "\<exists>e. routed_as msg c inb r e (case res of Inl reason \<Rightarrow> unmatched c ty inb reason r1 | Inr rd \<Rightarrow> emit (ev rd) r1)"
proof (cases res)
  case (Inl reason)
  with matchOperation_found [OF match] have "r1 = r" "\<And>m. \<not> (m \<in> pending_set r \<and> takes_request msg c inb m)"
    unfolding takes by simp_all
  with routed_unmatched Inl show ?thesis by simp
next
  case (Inr rd)
  with matchOperation_found [OF match] have "rd_MessageID rd = in_MessageID inb" "rd_Trace rd = in_Trace inb" "router_frame r r1"
    "\<And>m. m \<in> pending_set r \<and> takes_request msg c inb m \<longleftrightarrow> m = routed_op rd"
    "pending_set r1 = pending_set r - {m. ends_request msg \<and> m = routed_op rd}"
    unfolding takes by simp_all
  with routed_emit [of r r1 msg c inb "ev rd" "routed_op rd"] ev Inr show ?thesis by auto
qed

lemma route_inbound_answers: "\<exists>e. routed_as msg c inb r e (route_inbound msg c inb r)"
proof (cases msg)
  case (InAck p)
  have "takes_request (InAck p) c inb m \<longleftrightarrow> (\<exists>mid req. m = SentOp c (inbound_correlation inb) mid req \<and> 1 \<le> in_Generation inb
      \<and> (\<not> True \<and> in_ReplyToMessageID inb = [] \<or> in_ReplyToMessageID inb = mid))" for m by (cases m) auto
  from routed_op_case [OF prod.collapse [symmetric] this, where r = r and ev = "\<lambda>rd. OperationAckEvent rd p" and ty = MessageTypeOperationAck] InAck
  show ?thesis by (auto simp: RouteOperationAck_def split: prod.split sum.split)
next
  case (InProgress p)
  have "takes_request (InProgress p) c inb m \<longleftrightarrow> (\<exists>mid req. m = SentOp c (inbound_correlation inb) mid req \<and> 1 \<le> in_Generation inb
      \<and> (\<not> False \<and> in_ReplyToMessageID inb = [] \<or> in_ReplyToMessageID inb = mid))" for m by (cases m) auto
  from routed_op_case [OF prod.collapse [symmetric] this, where r = r and ev = "\<lambda>rd. OperationProgressEvent rd p" and ty = MessageTypeOperationProgress] InProgress
  show ?thesis by (auto simp: RouteOperationProgress_def split: prod.split sum.split)
next
  case (InResult p)
  have "takes_request (InResult p) c inb m \<longleftrightarrow> (\<exists>mid req. m = SentOp c (inbound_correlation inb) mid req \<and> 1 \<le> in_Generation inb
      \<and> (\<not> False \<and> in_ReplyToMessageID inb = [] \<or> in_ReplyToMessageID inb = mid))" for m by (cases m) auto
  from routed_op_case [OF prod.collapse [symmetric] this, where r = r and ev = "\<lambda>rd. OperationResultEvent rd p" and ty = MessageTypeOperationResult] InResult
  show ?thesis by (auto simp: RouteOperationResult_def split: prod.split sum.split)
next
  case (InReconcile p)
  have takes: "takes_request msg c inb m \<longleftrightarrow> (\<exists>mid req. m = SentRec c (inbound_correlation inb) mid req \<and> mid \<noteq> [] \<and> in_ReplyToMessageID inb = mid)"
    for m using InReconcile by (cases m) auto
  obtain res r1 where match: "matchReconcile c inb r = (res, r1)" by fastforce
  show ?thesis
  proof (cases res)
    case (Inl reason)
    with matchReconcile_found [OF match] have "r1 = r" "\<And>m. \<not> (m \<in> pending_set r \<and> takes_request msg c inb m)"
      unfolding takes by simp_all
    with routed_unmatched [of r msg c inb] match Inl InReconcile show ?thesis by (simp add: RouteReconcileResult_def)
  next
    case (Inr rd)
    with matchReconcile_found [OF match] have f: "rd_MessageID rd = in_MessageID inb" "rd_Trace rd = in_Trace inb" "router_frame r r1"
      "\<And>m. m \<in> pending_set r \<and> takes_request msg c inb m \<longleftrightarrow> m = routed_rec rd" "pending_set r1 = pending_set r - {routed_rec rd}"
      unfolding takes by simp_all
    have "routed_as msg c inb r (ReconcileResultEvent rd p) (emit (ReconcileResultEvent rd p) r1)"
      by (rule routed_emit [OF f(3) _ f(4)]) (use f InReconcile in simp_all)
    with match Inr InReconcile show ?thesis by (auto simp: RouteReconcileResult_def)
  qed
next
  case (InUnrepresentable ty)
  have "\<not> takes_request msg c inb m" for m using InUnrepresentable by (cases m) auto
  with routed_unmatched [of r msg c inb ty] InUnrepresentable show ?thesis by (simp add: RouteUnrepresentable_def)
qed

section \<open>The invariant\<close>

fun is_got :: "raction \<Rightarrow> bool" where
  "is_got (Got msg c inb) \<longleftrightarrow> True"
| "is_got _ \<longleftrightarrow> False"

definition inbound_count :: "raction list \<Rightarrow> nat" where
  "inbound_count l = length (filter is_got l)"

fun written_by :: "raction \<Rightarrow> (Route \<times> string) list" where
  "written_by (Wrote m w) = [w]"
| "written_by (Broke m w) = [w]"
| "written_by _ = []"

text \<open>Each inbound message of the log has its event.\<close>

definition events_of :: "raction list \<Rightarrow> Event list \<Rightarrow> bool" where
  "events_of l es \<longleftrightarrow> length es = inbound_count l \<and>
     (\<forall>pre msg c inb post. l = pre @ Got msg c inb # post \<longrightarrow>
        event_carries msg c inb (es ! inbound_count pre)
        \<and> (\<forall>m. answers (es ! inbound_count pre) = Some m \<longleftrightarrow> m \<in> outstanding pre \<and> takes_request msg c inb m))"

text \<open>A message identifier is registered once.\<close>

definition fresh_puts :: "raction list \<Rightarrow> bool" where
  "fresh_puts l \<longleftrightarrow> (\<forall>pre m post. l = pre @ Put m # post \<longrightarrow> sent_mid m \<notin> sent_mid ` log_registered pre)"

definition corr_inv :: "rstate \<Rightarrow> bool" where
  "corr_inv s \<longleftrightarrow>
     pending_set (rs_router s) = outstanding (rs_log s) \<and> rs_flight s \<subseteq> log_registered (rs_log s)
     \<and> inj_on sent_mid (log_registered (rs_log s)) \<and> fresh_puts (rs_log s)
     \<and> rt_wire (rs_router s) = concat (map written_by (rs_log s))
     \<and> (rt_sink (rs_router s) \<longrightarrow> events_of (rs_log s) (rt_events (rs_router s)))"

lemma outstanding_simps [simp]: "outstanding [] = {}" "outstanding (l @ [a]) = log_effect a (outstanding l)"
  by (simp_all add: outstanding_def)

lemma log_registered_simps [simp]:
  "log_registered [] = {}" "log_registered (l @ [Put m]) = insert m (log_registered l)"
  "(\<forall>m. a \<noteq> Put m) \<Longrightarrow> log_registered (l @ [a]) = log_registered l"
  by (auto simp: log_registered_def)

lemma outstanding_registered: "outstanding l \<subseteq> log_registered l"
proof (induction l rule: rev_induct)
  case (snoc a l)
  then show ?case by (cases a) auto
qed simp

lemma inbound_count_simps [simp]: "inbound_count [] = 0" "inbound_count (l @ l') = inbound_count l + inbound_count l'" "inbound_count (a # l) = (if is_got a then Suc (inbound_count l) else inbound_count l)"
  by (simp_all add: inbound_count_def)

lemma snoc_split: "l @ [a] = pre @ b # post \<longleftrightarrow> post = [] \<and> pre = l \<and> a = b \<or> (\<exists>post'. post = post' @ [a] \<and> l = pre @ b # post')"
  by (cases post rule: rev_cases) auto

lemma fresh_puts_snoc:
  "fresh_puts (l @ [a]) \<longleftrightarrow> fresh_puts l \<and> (\<forall>m. a = Put m \<longrightarrow> sent_mid m \<notin> sent_mid ` log_registered l)"
  unfolding fresh_puts_def snoc_split by blast

lemma events_of_quiet: "\<not> is_got a \<Longrightarrow> events_of l es \<Longrightarrow> events_of (l @ [a]) es"
  by (auto simp: events_of_def snoc_split)

lemma events_of_got:
  assumes "events_of l es" "event_carries msg c inb e" "\<And>m. answers e = Some m \<longleftrightarrow> m \<in> outstanding l \<and> takes_request msg c inb m"
  shows "events_of (l @ [Got msg c inb]) (es @ [e])"
proof -
  have "inbound_count pre < length es" if "l = pre @ Got msg' c' inb' # post" for pre msg' c' inb' post
    using assms(1) that by (simp add: events_of_def)
  with assms show ?thesis by (auto simp: events_of_def snoc_split nth_append)
qed

lemma sent_mid_new: "sent_mid m \<notin> sent_mid ` log_registered l \<Longrightarrow> m \<notin> log_registered l"
  by blast

lemma corr_inv_put:
  assumes inv: "corr_inv s" and m: "may_register m (rs_router s)" "sent_mid m \<notin> sent_mid ` log_registered (rs_log s)"
  shows "corr_inv (s\<lparr>rs_router := put_pending m (rs_router s), rs_log := rs_log s @ [Put m], rs_flight := insert m (rs_flight s)\<rparr>)"
proof -
  have "sent_mid m \<notin> sent_mid ` pending_set (rs_router s)"
    using inv m(2) outstanding_registered [of "rs_log s"] by (auto simp: corr_inv_def)
  with pending_put [OF m(1)] have "pending_set (put_pending m (rs_router s)) = outstanding (rs_log s @ [Put m])"
    using inv by (simp add: corr_inv_def)
  moreover have "router_frame (rs_router s) (put_pending m (rs_router s))" by (rule router_frames)
  ultimately show ?thesis
    using inv m(2) by (auto simp: corr_inv_def router_frame_def fresh_puts_snoc events_of_quiet)
qed

text \<open>The steps that register and deliver nothing.\<close>

lemma corr_inv_quiet:
  assumes inv: "corr_inv s" and a: "\<not> is_got a" "\<forall>m. a \<noteq> Put m" and fl: "fl \<subseteq> rs_flight s"
    and r: "pending_set r' = log_effect a (pending_set (rs_router s))" "rt_wire r' = rt_wire (rs_router s) @ written_by a"
      "rt_events r' = rt_events (rs_router s)" "rt_sink r' = rt_sink (rs_router s)"
  shows "corr_inv (s\<lparr>rs_router := r', rs_log := rs_log s @ [a], rs_flight := fl\<rparr>)"
  using assms by (auto simp: corr_inv_def fresh_puts_snoc events_of_quiet)

lemma flight_rollback:
  assumes "corr_inv s" "m \<in> rs_flight s"
  shows "pending_set (rollback m (rs_router s)) = pending_set (rs_router s) - {m}"
proof (rule pending_rollback)
  have "insert m (pending_set (rs_router s)) \<subseteq> log_registered (rs_log s)"
    using assms outstanding_registered [of "rs_log s"] by (auto simp: corr_inv_def)
  then show "inj_on sent_mid (insert m (pending_set (rs_router s)))"
    using assms(1) inj_on_subset unfolding corr_inv_def by blast
qed

lemma rollback_wire: "rollback m (r\<lparr>rt_wire := w\<rparr>) = (rollback m r)\<lparr>rt_wire := w\<rparr>"
  by (cases m) (simp_all add: removeOperation_def removeReconcile_def split: option.split)

lemma corr_inv_step: "rstep s s' \<Longrightarrow> corr_inv s \<Longrightarrow> corr_inv s'"
proof (induction rule: rstep.induct)
  case (put m s)
  then show ?case using corr_inv_put by blast
next
  case (written m s w)
  then show ?case by (intro corr_inv_quiet) simp_all
next
  case (refused m s)
  then show ?case using router_frames(2) [of "rs_router s" m]
    by (intro corr_inv_quiet) (simp_all add: flight_rollback router_frame_def)
next
  case (broken m s w)
  then show ?case using router_frames(2) [of "rs_router s" m]
    by (intro corr_inv_quiet) (simp_all add: flight_rollback router_frame_def rollback_wire)
next
  case (inbound s msg c inb)
  obtain e where e: "routed_as msg c inb (rs_router s) e (route_inbound msg c inb (rs_router s))"
    using route_inbound_answers by blast
  have "events_of (rs_log s @ [Got msg c inb]) (rt_events (rs_router s) @ [e])" if "rt_sink (rs_router s)"
    by (rule events_of_got) (use that e inbound in \<open>auto simp: routed_as_def corr_inv_def\<close>)
  with e inbound show ?case by (auto simp: routed_as_def corr_inv_def fresh_puts_snoc)
next
  case (forget_op s c corr)
  then show ?case using router_frames(3) [of "rs_router s" c corr]
      corr_inv_quiet [of s "ForgotOp c corr" "rs_flight s" "snd (ForgetOperation c corr (rs_router s))"]
    by (simp add: pending_forget router_frame_def)
next
  case (forget_rec s c mid)
  then show ?case using router_frames(4) [of "rs_router s" c mid]
      corr_inv_quiet [of s "ForgotRec c mid" "rs_flight s" "snd (ForgetReconcile c mid (rs_router s))"]
    by (simp add: pending_forget router_frame_def)
qed

lemma r_init_inv: "corr_inv (r_init sink)"
  by (simp add: corr_inv_def r_init_def NewRouter_def pending_set_def fresh_puts_def events_of_def)

lemma reach_inv: "rreach s s' \<Longrightarrow> corr_inv s \<Longrightarrow> corr_inv s'"
  by (induction rule: rreach.induct) (auto intro: corr_inv_step)

lemma rstep_sink: "rstep s s' \<Longrightarrow> rt_sink (rs_router s') = rt_sink (rs_router s)"
proof (induction rule: rstep.induct)
  case (inbound s msg c inb)
  obtain e where "routed_as msg c inb (rs_router s) e (route_inbound msg c inb (rs_router s))"
    using route_inbound_answers by blast
  then show ?case by (simp add: routed_as_def)
qed (use router_frames in \<open>auto simp: router_frame_def rollback_wire\<close>)

lemma rreach_sink: "rreach s s' \<Longrightarrow> rt_sink (rs_router s') = rt_sink (rs_router s)"
  by (induction rule: rreach.induct) (simp_all add: rstep_sink)

section \<open>Events answer outstanding requests\<close>

text \<open>A request that was registered and is no longer outstanding does not come back.\<close>

lemma outstanding_once:
  "fresh_puts (l @ l') \<Longrightarrow> m \<in> log_registered l \<Longrightarrow> m \<notin> outstanding l \<Longrightarrow> m \<notin> outstanding (l @ l')"
proof (induction l' rule: rev_induct)
  case (snoc a l')
  then have f: "fresh_puts (l @ l')" "\<And>m. a = Put m \<Longrightarrow> sent_mid m \<notin> sent_mid ` log_registered (l @ l')"
    using fresh_puts_snoc [of "l @ l'" a] by simp_all
  have "m \<in> log_registered (l @ l')" using snoc.prems(2) by (simp add: log_registered_def)
  with snoc.IH [OF f(1) snoc.prems(2,3)] f(2) show ?case
    unfolding append_assoc [symmetric] outstanding_simps by (cases a) auto
qed simp

lemma nth_got: "j < inbound_count l \<Longrightarrow> \<exists>pre msg c inb post. l = pre @ Got msg c inb # post \<and> inbound_count pre = j"
proof (induction l arbitrary: j)
  case (Cons a l)
  show ?case
  proof (cases "is_got a \<and> j = 0")
    case True
    then show ?thesis by (cases a) (auto intro: exI [of _ "[]"])
  next
    case False
    then obtain j' where j': "j = (if is_got a then Suc j' else j')" by (cases "is_got a"; cases j) auto
    with Cons.prems have "j' < inbound_count l" by (auto split: if_splits)
    from Cons.IH [OF this] obtain pre msg c inb post where "l = pre @ Got msg c inb # post" "inbound_count pre = j'" by blast
    with j' show ?thesis by (intro exI [of _ "a # pre"]) auto
  qed
qed simp

text \<open>
  C5: Under every interleaving of sends, writes, inbound messages and cancellations the events are exactly the answers to
  outstanding requests. Each inbound message makes one event, with what the message said. The event answers a
  request exactly when the request is outstanding at that moment, that is registered for its write, and not refused, broken off,
  withdrawn or ended since, and the message takes it: same Connector and correlation, and the
  message names the request's message where it must, or names none where it may. No other request is answered, and after a
  message that ends a request no event answers it again. The bytes on the wires are those of the writes.
\<close>

theorem events_answer_outstanding:
  assumes "rreach (r_init True) s"
  shows "length (rt_events (rs_router s)) = inbound_count (rs_log s)
    \<and> (\<forall>pre msg c inb post. rs_log s = pre @ Got msg c inb # post \<longrightarrow>
        (let e = rt_events (rs_router s) ! inbound_count pre in
         event_carries msg c inb e
         \<and> (\<forall>m. answers e = Some m \<longleftrightarrow> m \<in> outstanding pre \<and> takes_request msg c inb m)
         \<and> (\<forall>m j. ends_request msg \<and> answers e = Some m \<and> inbound_count pre < j \<and> j < length (rt_events (rs_router s))
              \<longrightarrow> answers (rt_events (rs_router s) ! j) \<noteq> Some m)))
    \<and> rt_wire (rs_router s) = concat (map written_by (rs_log s))"
proof -
  let ?es = "rt_events (rs_router s)"
  have inv: "corr_inv s" by (rule reach_inv [OF assms r_init_inv])
  have "rt_sink (rs_router s)" using rreach_sink [OF assms] by (simp add: r_init_def NewRouter_def)
  with inv have ev: "events_of (rs_log s) ?es" and fr: "fresh_puts (rs_log s)" by (simp_all add: corr_inv_def)
  have "answers (?es ! j) \<noteq> Some m"
    if l: "rs_log s = pre @ Got msg c inb # post" and m: "ends_request msg" "answers (?es ! inbound_count pre) = Some m"
      and j: "inbound_count pre < j" "j < length ?es" for pre msg c inb post m j
  proof -
    from ev l m(2) have o1: "m \<in> outstanding pre" "takes_request msg c inb m" by (simp_all add: events_of_def)
    let ?l = "pre @ [Got msg c inb]"
    have gone: "m \<in> log_registered ?l" "m \<notin> outstanding ?l" using o1 m(1) outstanding_registered [of pre] by auto
    have "j - Suc (inbound_count pre) < inbound_count post" using j ev l by (auto simp: events_of_def)
    from nth_got [OF this] obtain p2 msg2 c2 inb2 q2
      where p2: "post = p2 @ Got msg2 c2 inb2 # q2" "inbound_count p2 = j - Suc (inbound_count pre)" by blast
    have l2: "rs_log s = (?l @ p2) @ Got msg2 c2 inb2 # q2" using l p2(1) by simp
    have "inbound_count (?l @ p2) = j" using p2(2) j(1) by simp
    with ev l2 have ans: "answers (?es ! j) = Some m \<longleftrightarrow> m \<in> outstanding (?l @ p2) \<and> takes_request msg2 c2 inb2 m"
      unfolding events_of_def by blast
    have "fresh_puts (?l @ p2)" using fr unfolding fresh_puts_def l2 by (metis append.assoc append_Cons)
    from outstanding_once [OF this gone] ans show ?thesis by blast
  qed
  moreover have "rt_wire (rs_router s) = concat (map written_by (rs_log s))" using inv by (simp add: corr_inv_def)
  ultimately show ?thesis using ev unfolding events_of_def Let_def by blast
qed

section \<open>Whole sends are runs of the steps\<close>

lemma rreach_two: "rstep s s' \<Longrightarrow> rstep s' s'' \<Longrightarrow> rreach s s''"
  by (meson rreach.intros)

text \<open>
  C6: A call of \<open>SendOperationCommand\<close> with a new message identifier is a run of the interleaved steps, and exactly this one:
  a call that succeeds registers its request, which was not pending, and writes one message to the route of the Connector's current session,
  so that the request is pending afterwards; a call that fails with \<open>ErrSendFailed\<close> registers, writes and
  takes the request back; every other failing call makes no step. A call for a correlation that is already pending fails and changes nothing.
\<close>

theorem SendOperationCommand_refines_steps:
  fixes E :: "'sp env"
  assumes send: "SendOperationCommand E ctx reg cmd (rs_router s) = (res, r')"
    and fresh: "env_newID E \<notin> sent_mid ` log_registered (rs_log s)"
    and m: "m = SentOp (oc_ConnectorID cmd) (oc_Correlation cmd) (env_newID E) (oc_RequestID cmd)"
  shows "(\<exists>s'. rreach s s' \<and> rs_router s' = r' \<and> rs_flight s' = rs_flight s - (if rs_log s' = rs_log s then {} else {m})
       \<and> (case res of
            Inr mid \<Rightarrow> mid = env_newID E \<and> m \<in> pending_set r'
              \<and> (\<exists>e route data. r_current reg (oc_ConnectorID cmd) = Some e \<and> e_route (r_entry reg e) = Some route
                   \<and> rs_log s' = rs_log s @ [Put m, Wrote m (route, data)] \<and> rt_wire r' = rt_wire (rs_router s) @ [(route, data)])
          | Inl err \<Rightarrow> pending_set r' = pending_set (rs_router s)
              \<and> (if err = ErrSendFailed then \<exists>w. rs_log s' = rs_log s @ [Put m, Broke m w] \<and> rt_wire r' = rt_wire (rs_router s) @ [w]
                 else rs_log s' = rs_log s)))
    \<and> (\<not> may_register m (rs_router s) \<longrightarrow> (\<exists>err. res = Inl err \<and> err \<noteq> ErrSendFailed) \<and> r' = rs_router s)"
  using send
proof (cases rule: SendOperationCommand_cases)
  case (error e)
  then show ?thesis by (auto simp: no_write_error_def intro!: exI [of _ s] rreach.refl)
next
  case (failed route data)
  let ?s1 = "s\<lparr>rs_router := put_pending m (rs_router s), rs_log := rs_log s @ [Put m], rs_flight := insert m (rs_flight s)\<rparr>"
  let ?r2 = "rollback m ((rs_router ?s1)\<lparr>rt_wire := rt_wire (rs_router ?s1) @ [(route, data)]\<rparr>)"
  let ?s2 = "?s1\<lparr>rs_router := ?r2, rs_log := rs_log ?s1 @ [Broke m (route, data)], rs_flight := rs_flight ?s1 - {m}\<rparr>"
  have may: "may_register m (rs_router s)" using failed m by simp
  have 1: "rstep s ?s1" by (rule rstep.put) (use may fresh m in simp_all)
  have 2: "rstep ?s1 ?s2" by (rule rstep.broken) simp
  have r2: "?r2 = r'"
    using failed m removeOperation_undo [of "(rs_router s)\<lparr>rt_wire := rt_wire (rs_router s) @ [(route, data)]\<rparr>"]
    by (simp add: wire_update_commute)
  from rreach_two [OF 1 2] r2 failed(1,2) may show ?thesis
    by (intro conjI exI [of _ ?s2]) auto
next
  case (sent e route data)
  let ?s1 = "s\<lparr>rs_router := put_pending m (rs_router s), rs_log := rs_log s @ [Put m], rs_flight := insert m (rs_flight s)\<rparr>"
  let ?s2 = "?s1\<lparr>rs_router := (rs_router ?s1)\<lparr>rt_wire := rt_wire (rs_router ?s1) @ [(route, data)]\<rparr>,
      rs_log := rs_log ?s1 @ [Wrote m (route, data)], rs_flight := rs_flight ?s1 - {m}\<rparr>"
  have may: "may_register m (rs_router s)" using sent m by simp
  have 1: "rstep s ?s1" by (rule rstep.put) (use may fresh m in simp_all)
  have 2: "rstep ?s1 ?s2" by (rule rstep.written) simp
  have "rs_router ?s2 = r'" "m \<in> pending_set r'" "rt_wire r' = rt_wire (rs_router s) @ [(route, data)]"
    using sent(8) m by simp_all
  with rreach_two [OF 1 2] sent(1,4,5) may show ?thesis
    by (intro conjI exI [of _ ?s2]) auto
qed

section \<open>The concrete exchange again\<close>

abbreviation demo_request :: sent where
  "demo_request \<equiv> SentOp 5 demo_corr ''m1'' ''req''"

definition demo_log :: "raction list" where
  "demo_log = [Put demo_request, Got (InResult demo_result) 5 demo_inbound, Got (InResult demo_result) 5 demo_inbound]"

definition demo_done :: rstate where
  "demo_done =
     \<lparr>rs_router = route_inbound (InResult demo_result) 5 demo_inbound
        (route_inbound (InResult demo_result) 5 demo_inbound (put_pending demo_request (NewRouter True False False False))),
      rs_log = demo_log, rs_flight = {demo_request}\<rparr>"

lemma demo_done_reach: "rreach (r_init True) demo_done"
proof -
  let ?s1 = "(r_init True)\<lparr>rs_router := put_pending demo_request (rs_router (r_init True)),
     rs_log := rs_log (r_init True) @ [Put demo_request], rs_flight := insert demo_request (rs_flight (r_init True))\<rparr>"
  let ?in = "\<lambda>s. s\<lparr>rs_router := route_inbound (InResult demo_result) 5 demo_inbound (rs_router s),
     rs_log := rs_log s @ [Got (InResult demo_result) 5 demo_inbound]\<rparr>"
  have 1: "rstep (r_init True) ?s1" by (rule rstep.put) (simp_all add: r_init_def NewRouter_def)
  have 2: "rstep ?s1 (?in ?s1)" by (rule rstep.inbound)
  have 3: "rstep (?in ?s1) (?in (?in ?s1))" by (rule rstep.inbound)
  have "?in (?in ?s1) = demo_done" by (simp add: demo_done_def demo_log_def r_init_def)
  then show ?thesis using rreach.step [OF rreach_two [OF 1 2] 3] by simp
qed

theorem events_answer_outstanding_witness:
  "rreach (r_init True) demo_done \<and> length (rt_events (rs_router demo_done)) = 2
   \<and> answers (rt_events (rs_router demo_done) ! 0) = Some demo_request \<and> answers (rt_events (rs_router demo_done) ! 1) \<noteq> Some demo_request"
proof -
  let ?got = "Got (InResult demo_result) 5 demo_inbound"
  have log: "rs_log demo_done = [Put demo_request] @ ?got # [?got]" "inbound_count [Put demo_request] = 0" "inbound_count (rs_log demo_done) = 2"
    by (simp_all add: demo_done_def demo_log_def)
  have t: "demo_request \<in> outstanding [Put demo_request]" "takes_request (InResult demo_result) 5 demo_inbound demo_request" "ends_request (InResult demo_result)"
    by (simp_all add: outstanding_def demo_inbound_def demo_corr_def inbound_correlation_def)
  note th = events_answer_outstanding [OF demo_done_reach, unfolded Let_def]
  have len: "length (rt_events (rs_router demo_done)) = 2" using th log(3) by simp
  from th log(1) have "(\<forall>m. answers (rt_events (rs_router demo_done) ! inbound_count [Put demo_request]) = Some m
        \<longleftrightarrow> m \<in> outstanding [Put demo_request] \<and> takes_request (InResult demo_result) 5 demo_inbound m)
    \<and> (\<forall>m j. ends_request (InResult demo_result) \<and> answers (rt_events (rs_router demo_done) ! inbound_count [Put demo_request]) = Some m
          \<and> inbound_count [Put demo_request] < j \<and> j < length (rt_events (rs_router demo_done))
          \<longrightarrow> answers (rt_events (rs_router demo_done) ! j) \<noteq> Some m)" by blast
  then show ?thesis using t len log(2) demo_done_reach by simp
qed

theorem SendOperationCommand_refines_steps_witness:
  "\<exists>r' s' w. SendOperationCommand demo_env demo_ctx demo_reg demo_cmd (rs_router (r_init True)) = (Inr ''m1'', r')
     \<and> rreach (r_init True) s' \<and> rs_router s' = r' \<and> rs_log s' = [Put demo_request, Wrote demo_request w] \<and> demo_request \<in> pending_set r'"
proof -
  obtain res r' where r': "SendOperationCommand demo_env demo_ctx demo_reg demo_cmd (rs_router (r_init True)) = (res, r')"
    by fastforce
  moreover have "rs_router (r_init True) = NewRouter True False False False" by (simp add: r_init_def)
  ultimately have res: "res = Inr ''m1''" using demo_send by (metis fst_conv)
  have m: "demo_request = SentOp (oc_ConnectorID demo_cmd) (oc_Correlation demo_cmd) (env_newID demo_env) (oc_RequestID demo_cmd)"
    and l: "rs_log (r_init True) = []" by (simp_all add: demo_cmd_def demo_env_def r_init_def)
  have "env_newID demo_env \<notin> sent_mid ` log_registered (rs_log (r_init True))" by (simp add: l)
  from SendOperationCommand_refines_steps [OF r' this m] r' res show ?thesis by (auto simp: l)
qed

end
