(* ===== verification/Connector_Sessions.thy ===== *)
theory Connector_Sessions
  imports Router_Correlation
begin

text \<open>
  The lifecycle messages of terminal, workspace-file and preview sessions
  (\<^verbatim>\<open>internal/server/connector/terminal.go\<close>, \<^verbatim>\<open>file.go\<close>,
  \<^verbatim>\<open>preview.go\<close>). The three files repeat the same correlation code over three
  tables of the router; the model writes that code once over a \<open>table\<close>, the pair of accessors
  of the pending map together with the sink it reports to, and the operations of each file
  instantiate it with their own messages, checks and capabilities.
\<close>

record table =
  tb_get :: "Router \<Rightarrow> sessionKey \<Rightarrow> pendingOpen option"
  tb_put :: "(sessionKey \<Rightarrow> pendingOpen option) \<Rightarrow> Router \<Rightarrow> Router"
  tb_emit :: "SessionEvent \<Rightarrow> Router \<Rightarrow> Router"

definition emitTerminal :: "SessionEvent \<Rightarrow> Router \<Rightarrow> Router" where
  "emitTerminal e r = (if rt_terminalSink r then r\<lparr>rt_terminalEvents := rt_terminalEvents r @ [e]\<rparr> else r)"

definition emitFile :: "SessionEvent \<Rightarrow> Router \<Rightarrow> Router" where
  "emitFile e r = (if rt_fileSink r then r\<lparr>rt_fileEvents := rt_fileEvents r @ [e]\<rparr> else r)"

definition emitPreview :: "SessionEvent \<Rightarrow> Router \<Rightarrow> Router" where
  "emitPreview e r = (if rt_previewSink r then r\<lparr>rt_previewEvents := rt_previewEvents r @ [e]\<rparr> else r)"

definition terminals_table :: table where
  "terminals_table = \<lparr>tb_get = rt_terminals, tb_put = (\<lambda>m r. r\<lparr>rt_terminals := m\<rparr>), tb_emit = emitTerminal\<rparr>"

definition files_table :: table where
  "files_table = \<lparr>tb_get = rt_files, tb_put = (\<lambda>m r. r\<lparr>rt_files := m\<rparr>), tb_emit = emitFile\<rparr>"

definition previews_table :: table where
  "previews_table = \<lparr>tb_get = rt_previews, tb_put = (\<lambda>m r. r\<lparr>rt_previews := m\<rparr>), tb_emit = emitPreview\<rparr>"

section \<open>Correlation over a table\<close>

definition session_key :: "uuid \<Rightarrow> SessionCorrelation \<Rightarrow> sessionKey" where
  "session_key connectorID c = \<lparr>sk_connectorID = connectorID, sk_sessionID = sc_SessionID c\<rparr>"

definition pending_open :: "string \<Rightarrow> string \<Rightarrow> SessionCorrelation \<Rightarrow> pendingOpen" where
  "pending_open messageID requestID c =
     \<lparr>pe_messageID = messageID, pe_requestID = requestID, pe_labInstanceID = sc_LabInstanceID c,
      pe_generation = sc_Generation c\<rparr>"

text \<open>\<open>removeTerminalOpen\<close>, \<open>removeFileOpen\<close>, \<open>removePreviewOpen\<close>.\<close>

definition removeOpen :: "table \<Rightarrow> sessionKey \<Rightarrow> string \<Rightarrow> Router \<Rightarrow> Router" where
  "removeOpen T key messageID r =
     (case tb_get T r key of
        Some p \<Rightarrow> if pe_messageID p = messageID then tb_put T ((tb_get T r)(key := None)) r else r
      | None \<Rightarrow> r)"

text \<open>
  The function that \<open>SendTerminalOpen\<close>, \<open>SendFileOpen\<close> and \<open>SendPreviewOpen\<close> run inside
  \<open>withReadyRoute\<close>; \<open>hook\<close> is \<open>OnRoute\<close>, which only previews have.
\<close>

definition open_on_route ::
  "table \<Rightarrow> 'sp env \<Rightarrow> sessionKey \<Rightarrow> pendingOpen \<Rightarrow> string \<Rightarrow> (Session \<Rightarrow> conn_error option)
     \<Rightarrow> Session \<Rightarrow> Route \<Rightarrow> Router \<Rightarrow> conn_error option \<times> Router" where
  "open_on_route T E key p data hook session route r =
     (if tb_get T r key \<noteq> None then (Some ErrDuplicateCorrelation, r)
      else
        (let r1 = tb_put T ((tb_get T r)(key \<mapsto> p)) r in
         case hook session of
           Some err \<Rightarrow> (Some err, removeOpen T key (pe_messageID p) r1)
         | None \<Rightarrow> write_route E route data (removeOpen T key (pe_messageID p)) r1))"

record SessionInbound =
  si_MessageID :: string
  si_ReplyToMessageID :: string
  si_Correlation :: SessionCorrelation
  si_Trace :: TraceContext

text \<open>\<open>matchTerminalOpen\<close>, \<open>matchFileOpen\<close>, \<open>matchPreviewOpen\<close>.\<close>

definition matchOpen :: "table \<Rightarrow> uuid \<Rightarrow> SessionInbound \<Rightarrow> Router \<Rightarrow> (UnmatchedReason + pendingOpen) \<times> Router" where
  "matchOpen T connectorID inb r =
     (let c = si_Correlation inb; key = session_key connectorID c in
      if sc_Generation c < 1 then (Inl ReasonUnrepresentable, r)
      else case tb_get T r key of
          None \<Rightarrow> (Inl ReasonNoPending, r)
        | Some pending \<Rightarrow>
            if si_ReplyToMessageID inb \<noteq> pe_messageID pending then (Inl ReasonReplyMismatch, r)
            else if sc_LabInstanceID c \<noteq> pe_labInstanceID pending \<or> sc_Generation c \<noteq> pe_generation pending
              then (Inl ReasonCorrelationMismatch, r)
            else (Inr pending, tb_put T ((tb_get T r)(key := None)) r))"

text \<open>\<open>terminalUnmatched\<close>, \<open>fileUnmatched\<close>, \<open>previewUnmatched\<close>.\<close>

definition sessionUnmatched :: "table \<Rightarrow> uuid \<Rightarrow> string \<Rightarrow> SessionInbound \<Rightarrow> UnmatchedReason \<Rightarrow> Router \<Rightarrow> Router" where
  "sessionUnmatched T connectorID messageType inb reason r =
     tb_emit T (SessionUnmatchedEvent
       \<lparr>su_ConnectorID = connectorID, su_MessageType = messageType, su_Reason = reason,
        su_SessionID = boundID (sc_SessionID (si_Correlation inb)),
        su_LabInstanceID = boundID (sc_LabInstanceID (si_Correlation inb)),
        su_Generation = sc_Generation (si_Correlation inb)\<rparr>) r"

definition route_open_result ::
  "table \<Rightarrow> string \<Rightarrow> uuid \<Rightarrow> SessionInbound \<Rightarrow> OpenResultPayload \<Rightarrow> Router \<Rightarrow> bool \<times> Router" where
  "route_open_result T messageType connectorID inb payload r =
     (case matchOpen T connectorID inb r of
        (Inl reason, r') \<Rightarrow> (False, sessionUnmatched T connectorID messageType inb reason r')
      | (Inr pending, r') \<Rightarrow>
          (True, tb_emit T (OpenResultEvent
             \<lparr>or_ConnectorID = connectorID, or_Correlation = si_Correlation inb,
              or_RequestMessageID = pe_messageID pending, or_MessageID = si_MessageID inb,
              or_RequestID = pe_requestID pending, or_Payload = payload, or_Trace = si_Trace inb\<rparr>) r'))"

definition forget_open :: "table \<Rightarrow> uuid \<Rightarrow> string \<Rightarrow> Router \<Rightarrow> bool \<times> Router" where
  "forget_open T connectorID sessionID r =
     (let key = \<lparr>sk_connectorID = connectorID, sk_sessionID = sessionID\<rparr> in
      (tb_get T r key \<noteq> None, tb_put T ((tb_get T r)(key := None)) r))"

definition pending_opens :: "table \<Rightarrow> uuid \<Rightarrow> Router \<Rightarrow> nat" where
  "pending_opens T connectorID r = card {key \<in> dom (tb_get T r). sk_connectorID key = connectorID}"

definition session_envelope ::
  "'sp env \<Rightarrow> string \<Rightarrow> string \<Rightarrow> string \<Rightarrow> string \<Rightarrow> SessionCorrelation \<Rightarrow> TraceContext \<Rightarrow> sessionEnvelope" where
  "session_envelope E kind messageID requestID operationID c t =
     (let trace = NormalizeTrace (env_otel E) (Traceparent t) (Tracestate t) in
      \<lparr>sv_Type = kind, sv_MessageID = messageID, sv_SentAt = env_now E, sv_RequestID = requestID,
       sv_OperationID = operationID, sv_SessionID = sc_SessionID c, sv_LabInstanceID = sc_LabInstanceID c,
       sv_Generation = sc_Generation c, sv_TraceParent = Traceparent trace, sv_TraceState = Tracestate trace\<rparr>)"

definition validate_session_correlation :: "string \<Rightarrow> SessionCorrelation \<Rightarrow> invalid_reason option" where
  "validate_session_correlation idField c =
     (if sc_SessionID c = [] then Some (IdRequired idField)
      else if sc_LabInstanceID c = [] then Some NoLabInstanceId
      else if sc_Generation c < 1 then Some GenerationBelowOne
      else None)"

section \<open>Terminal\<close>

record TerminalOpen =
  to_ConnectorID :: uuid
  to_RequestID :: string
  to_Correlation :: SessionCorrelation
  to_TargetVMKey :: string
  to_ProviderServerID :: string
  to_Cols :: string
  to_Rows :: string
  to_Trace :: TraceContext

record TerminalClose =
  tc_ConnectorID :: uuid
  tc_RequestID :: string
  tc_OperationID :: string
  tc_Correlation :: SessionCorrelation
  tc_Reason :: string
  tc_Trace :: TraceContext

definition newTerminalEnvelope ::
  "'sp env \<Rightarrow> string \<Rightarrow> string \<Rightarrow> string \<Rightarrow> string \<Rightarrow> SessionCorrelation \<Rightarrow> TraceContext \<Rightarrow> sessionEnvelope" where
  "newTerminalEnvelope E kind messageID requestID operationID c t = session_envelope E kind messageID requestID operationID c t"

definition validateTerminalCorrelation :: "SessionCorrelation \<Rightarrow> invalid_reason option" where
  "validateTerminalCorrelation c = validate_session_correlation ''terminalSessionId'' c"

definition validateTerminalOpen :: "'sp env \<Rightarrow> TerminalOpen \<Rightarrow> invalid_reason option" where
  "validateTerminalOpen E opn =
     (case validateTerminalCorrelation (to_Correlation opn) of
        Some e \<Rightarrow> Some e
      | None \<Rightarrow>
          if to_TargetVMKey opn = [] \<or> to_ProviderServerID opn = [] then Some (OpenTarget ''TERMINAL_OPEN'')
          else if \<not> env_json_Valid E (to_Cols opn) \<or> \<not> env_json_Valid E (to_Rows opn) then Some WindowSize
          else None)"

definition SendTerminalOpen ::
  "'sp env \<Rightarrow> ctx \<Rightarrow> Registry \<Rightarrow> TerminalOpen \<Rightarrow> Router \<Rightarrow> (conn_error + string) \<times> Router" where
  "SendTerminalOpen E ctx reg opn r =
     (if ctx_err ctx then (Inl ErrContext, r)
      else case validateTerminalOpen E opn of
        Some e \<Rightarrow> (Inl (ErrInvalidCommand e), r)
      | None \<Rightarrow>
          (let messageID = env_newID E in
           case marshalOutbound E (OutTerminalOpen
                  (newTerminalEnvelope E MessageTypeTerminalOpen messageID (to_RequestID opn) [] (to_Correlation opn) (to_Trace opn))
                  (to_TargetVMKey opn) (to_ProviderServerID opn) (to_Cols opn) (to_Rows opn)) of
             Inl e \<Rightarrow> (Inl e, r)
           | Inr data \<Rightarrow>
               finish_send messageID r
                 (WithReadyRoute reg (to_ConnectorID opn) (\<lambda>session route.
                    open_on_route terminals_table E (session_key (to_ConnectorID opn) (to_Correlation opn))
                      (pending_open messageID (to_RequestID opn) (to_Correlation opn)) data (\<lambda>_. None) session route r))))"

definition SendTerminalClose ::
  "'sp env \<Rightarrow> ctx \<Rightarrow> Registry \<Rightarrow> TerminalClose \<Rightarrow> Router \<Rightarrow> (conn_error + string) \<times> Router" where
  "SendTerminalClose E ctx reg cl r =
     (if ctx_err ctx then (Inl ErrContext, r)
      else case validateTerminalCorrelation (tc_Correlation cl) of
        Some e \<Rightarrow> (Inl (ErrInvalidCommand e), r)
      | None \<Rightarrow>
          if tc_Reason cl = [] then (Inl (ErrInvalidCommand (ReasonRequired ''TERMINAL_CLOSE'')), r)
          else
            (let requestID = (if tc_RequestID cl = [] then ctx_request_id ctx else tc_RequestID cl);
                 messageID = env_newID E in
             case marshalOutbound E (OutTerminalClose
                    (newTerminalEnvelope E MessageTypeTerminalClose messageID requestID (tc_OperationID cl) (tc_Correlation cl) (tc_Trace cl))
                    (tc_Reason cl)) of
               Inl e \<Rightarrow> (Inl e, r)
             | Inr data \<Rightarrow>
                 finish_send messageID r
                   (WithReadyRoute reg (tc_ConnectorID cl) (\<lambda>session route. write_route E route data (\<lambda>x. x) r))))"

definition ForgetTerminalOpen :: "uuid \<Rightarrow> string \<Rightarrow> Router \<Rightarrow> bool \<times> Router" where
  "ForgetTerminalOpen connectorID sessionID r = forget_open terminals_table connectorID sessionID r"

definition PendingTerminalOpens :: "uuid \<Rightarrow> Router \<Rightarrow> nat" where
  "PendingTerminalOpens connectorID r = pending_opens terminals_table connectorID r"

definition RouteTerminalOpenResult :: "uuid \<Rightarrow> SessionInbound \<Rightarrow> OpenResultPayload \<Rightarrow> Router \<Rightarrow> bool \<times> Router" where
  "RouteTerminalOpenResult connectorID inb payload r =
     route_open_result terminals_table MessageTypeTerminalOpenResult connectorID inb payload r"

definition RouteTerminalEnded :: "uuid \<Rightarrow> SessionInbound \<Rightarrow> TerminalEndedPayload \<Rightarrow> Router \<Rightarrow> Router" where
  "RouteTerminalEnded connectorID inb payload r =
     emitTerminal (TerminalEndedEvent connectorID (si_Correlation inb) (si_MessageID inb) payload (si_Trace inb)) r"

definition RouteTerminalUnrepresentable :: "uuid \<Rightarrow> string \<Rightarrow> SessionInbound \<Rightarrow> Router \<Rightarrow> Router" where
  "RouteTerminalUnrepresentable connectorID messageType inb r =
     sessionUnmatched terminals_table connectorID messageType inb ReasonUnrepresentable r"


section \<open>Workspace files\<close>

record FileOpen =
  fo_ConnectorID :: uuid
  fo_RequestID :: string
  fo_Correlation :: SessionCorrelation
  fo_Operation :: string
  fo_TargetVMKey :: string
  fo_ProviderServerID :: string
  fo_Trace :: TraceContext

record FileClose =
  fc_ConnectorID :: uuid
  fc_RequestID :: string
  fc_Correlation :: SessionCorrelation
  fc_Reason :: string
  fc_Trace :: TraceContext

definition newFileEnvelope ::
  "'sp env \<Rightarrow> string \<Rightarrow> string \<Rightarrow> string \<Rightarrow> SessionCorrelation \<Rightarrow> TraceContext \<Rightarrow> sessionEnvelope" where
  "newFileEnvelope E kind messageID requestID c t = session_envelope E kind messageID requestID [] c t"

definition validateFileCorrelation :: "SessionCorrelation \<Rightarrow> invalid_reason option" where
  "validateFileCorrelation c = validate_session_correlation ''fileRequestId'' c"

definition validateFileOpen :: "FileOpen \<Rightarrow> invalid_reason option" where
  "validateFileOpen opn =
     (case validateFileCorrelation (fo_Correlation opn) of
        Some e \<Rightarrow> Some e
      | None \<Rightarrow>
          if fo_Operation opn \<notin> {''TREE'', ''READ'', ''SAVE''} then Some FileOperation
          else if fo_TargetVMKey opn = [] \<or> fo_ProviderServerID opn = [] then Some (OpenTarget ''FILE_OPEN'')
          else None)"

definition SendFileOpen ::
  "'sp env \<Rightarrow> ctx \<Rightarrow> Registry \<Rightarrow> FileOpen \<Rightarrow> Router \<Rightarrow> (conn_error + string) \<times> Router" where
  "SendFileOpen E ctx reg opn r =
     (if ctx_err ctx then (Inl ErrContext, r)
      else case validateFileOpen opn of
        Some e \<Rightarrow> (Inl (ErrInvalidCommand e), r)
      | None \<Rightarrow>
          (let messageID = env_newID E in
           case marshalOutbound E (OutFileOpen
                  (newFileEnvelope E MessageTypeFileOpen messageID (fo_RequestID opn) (fo_Correlation opn) (fo_Trace opn))
                  (fo_Operation opn) (fo_TargetVMKey opn) (fo_ProviderServerID opn)) of
             Inl e \<Rightarrow> (Inl e, r)
           | Inr data \<Rightarrow>
               finish_send messageID r
                 (WithReadyRouteCapability reg (fo_ConnectorID opn) CapabilityFileV1 (\<lambda>session route.
                    open_on_route files_table E (session_key (fo_ConnectorID opn) (fo_Correlation opn))
                      (pending_open messageID (fo_RequestID opn) (fo_Correlation opn)) data (\<lambda>_. None) session route r))))"

definition SendFileClose ::
  "'sp env \<Rightarrow> ctx \<Rightarrow> Registry \<Rightarrow> FileClose \<Rightarrow> Router \<Rightarrow> (conn_error + string) \<times> Router" where
  "SendFileClose E ctx reg cl r =
     (if ctx_err ctx then (Inl ErrContext, r)
      else case validateFileCorrelation (fc_Correlation cl) of
        Some e \<Rightarrow> (Inl (ErrInvalidCommand e), r)
      | None \<Rightarrow>
          if fc_Reason cl = [] then (Inl (ErrInvalidCommand (ReasonRequired ''FILE_CLOSE'')), r)
          else
            (let messageID = env_newID E in
             case marshalOutbound E (OutFileClose
                    (newFileEnvelope E MessageTypeFileClose messageID (fc_RequestID cl) (fc_Correlation cl) (fc_Trace cl))
                    (fc_Reason cl)) of
               Inl e \<Rightarrow> (Inl e, r)
             | Inr data \<Rightarrow>
                 finish_send messageID r
                   (WithReadyRouteCapability reg (fc_ConnectorID cl) CapabilityFileV1
                      (\<lambda>session route. write_route E route data (\<lambda>x. x) r))))"

definition ForgetFileOpen :: "uuid \<Rightarrow> string \<Rightarrow> Router \<Rightarrow> bool \<times> Router" where
  "ForgetFileOpen connectorID fileRequestID r = forget_open files_table connectorID fileRequestID r"

definition PendingFileOpens :: "uuid \<Rightarrow> Router \<Rightarrow> nat" where
  "PendingFileOpens connectorID r = pending_opens files_table connectorID r"

definition RouteFileOpenResult :: "uuid \<Rightarrow> SessionInbound \<Rightarrow> OpenResultPayload \<Rightarrow> Router \<Rightarrow> bool \<times> Router" where
  "RouteFileOpenResult connectorID inb payload r =
     route_open_result files_table MessageTypeFileOpenResult connectorID inb payload r"

definition RouteFileUnrepresentable :: "uuid \<Rightarrow> string \<Rightarrow> SessionInbound \<Rightarrow> Router \<Rightarrow> Router" where
  "RouteFileUnrepresentable connectorID messageType inb r =
     sessionUnmatched files_table connectorID messageType inb ReasonUnrepresentable r"

section \<open>Previews\<close>

text \<open>\<open>OnRoute\<close> is absent or a function of the session that may fail.\<close>

record PreviewOpen =
  pv_MessageID :: string
  pv_ConnectorID :: uuid
  pv_RequestID :: string
  pv_Correlation :: SessionCorrelation
  pv_TargetVMKey :: string
  pv_ProviderServerID :: string
  pv_TargetPort :: int
  pv_Trace :: TraceContext
  pv_OnRoute :: "(Session \<Rightarrow> conn_error option) option"

record PreviewClose =
  pc_ConnectorID :: uuid
  pc_RequestID :: string
  pc_Correlation :: SessionCorrelation
  pc_Reason :: string
  pc_Trace :: TraceContext

definition newPreviewEnvelope ::
  "'sp env \<Rightarrow> string \<Rightarrow> string \<Rightarrow> string \<Rightarrow> SessionCorrelation \<Rightarrow> TraceContext \<Rightarrow> sessionEnvelope" where
  "newPreviewEnvelope E kind messageID requestID c t = session_envelope E kind messageID requestID [] c t"

definition validatePreviewCorrelation :: "SessionCorrelation \<Rightarrow> invalid_reason option" where
  "validatePreviewCorrelation c = validate_session_correlation ''previewSessionId'' c"

definition validatePreviewOpen :: "PreviewOpen \<Rightarrow> invalid_reason option" where
  "validatePreviewOpen opn =
     (case validatePreviewCorrelation (pv_Correlation opn) of
        Some e \<Rightarrow> Some e
      | None \<Rightarrow>
          if pv_TargetVMKey opn = [] \<or> pv_ProviderServerID opn = [] then Some (OpenTarget ''PREVIEW_OPEN'')
          else if pv_TargetPort opn < 1 \<or> pv_TargetPort opn > 65535 then Some PortRange
          else None)"

definition SendPreviewOpen ::
  "'sp env \<Rightarrow> ctx \<Rightarrow> Registry \<Rightarrow> PreviewOpen \<Rightarrow> Router \<Rightarrow> (conn_error + string) \<times> Router" where
  "SendPreviewOpen E ctx reg opn r =
     (if ctx_err ctx then (Inl ErrContext, r)
      else case validatePreviewOpen opn of
        Some e \<Rightarrow> (Inl (ErrInvalidCommand e), r)
      | None \<Rightarrow>
          (let messageID = (if pv_MessageID opn = [] then env_newID E else pv_MessageID opn) in
           case marshalOutbound E (OutPreviewOpen
                  (newPreviewEnvelope E MessageTypePreviewOpen messageID (pv_RequestID opn) (pv_Correlation opn) (pv_Trace opn))
                  (pv_TargetVMKey opn) (pv_ProviderServerID opn) (pv_TargetPort opn)) of
             Inl e \<Rightarrow> (Inl e, r)
           | Inr data \<Rightarrow>
               finish_send messageID r
                 (WithReadyRouteCapability reg (pv_ConnectorID opn) CapabilityPreviewV1 (\<lambda>session route.
                    open_on_route previews_table E (session_key (pv_ConnectorID opn) (pv_Correlation opn))
                      (pending_open messageID (pv_RequestID opn) (pv_Correlation opn)) data
                      (\<lambda>s. case pv_OnRoute opn of None \<Rightarrow> None | Some f \<Rightarrow> f s) session route r))))"

definition SendPreviewClose ::
  "'sp env \<Rightarrow> ctx \<Rightarrow> Registry \<Rightarrow> PreviewClose \<Rightarrow> Router \<Rightarrow> (conn_error + string) \<times> Router" where
  "SendPreviewClose E ctx reg cl r =
     (if ctx_err ctx then (Inl ErrContext, r)
      else case validatePreviewCorrelation (pc_Correlation cl) of
        Some e \<Rightarrow> (Inl (ErrInvalidCommand e), r)
      | None \<Rightarrow>
          if pc_Reason cl = [] then (Inl (ErrInvalidCommand (ReasonRequired ''PREVIEW_CLOSE'')), r)
          else
            (let messageID = env_newID E in
             case marshalOutbound E (OutPreviewClose
                    (newPreviewEnvelope E MessageTypePreviewClose messageID (pc_RequestID cl) (pc_Correlation cl) (pc_Trace cl))
                    (pc_Reason cl)) of
               Inl e \<Rightarrow> (Inl e, r)
             | Inr data \<Rightarrow>
                 finish_send messageID r
                   (WithReadyRouteCapability reg (pc_ConnectorID cl) CapabilityPreviewV1
                      (\<lambda>session route. write_route E route data (\<lambda>x. x) r))))"

definition ForgetPreviewOpen :: "uuid \<Rightarrow> string \<Rightarrow> Router \<Rightarrow> bool \<times> Router" where
  "ForgetPreviewOpen connectorID previewSessionID r = forget_open previews_table connectorID previewSessionID r"

definition PendingPreviewOpens :: "uuid \<Rightarrow> Router \<Rightarrow> nat" where
  "PendingPreviewOpens connectorID r = pending_opens previews_table connectorID r"

definition RoutePreviewOpenResult :: "uuid \<Rightarrow> SessionInbound \<Rightarrow> OpenResultPayload \<Rightarrow> Router \<Rightarrow> bool \<times> Router" where
  "RoutePreviewOpenResult connectorID inb payload r =
     route_open_result previews_table MessageTypePreviewOpenResult connectorID inb payload r"

definition RoutePreviewUnrepresentable :: "uuid \<Rightarrow> string \<Rightarrow> SessionInbound \<Rightarrow> Router \<Rightarrow> Router" where
  "RoutePreviewUnrepresentable connectorID messageType inb r =
     sessionUnmatched previews_table connectorID messageType inb ReasonUnrepresentable r"

section \<open>The contract of a pending table\<close>

abbreviation on_wire :: "Route \<Rightarrow> string \<Rightarrow> Router \<Rightarrow> Router" where
  "on_wire route data r \<equiv> r\<lparr>rt_wire := rt_wire r @ [(route, data)]\<rparr>"

locale pending_table =
  fixes T :: table
  assumes get_put: "tb_get T (tb_put T m r) = m"
    and put_put: "tb_put T m (tb_put T m' r) = tb_put T m r"
    and put_get: "tb_put T (tb_get T r) r = r"
    and get_emit: "tb_get T (tb_emit T e r) = tb_get T r"
    and wire_put: "on_wire route data (tb_put T m r) = tb_put T m (on_wire route data r)"
    and get_wire: "tb_get T (on_wire route data r) = tb_get T r"
begin

lemma remove_put:
  assumes "tb_get T r key = None"
  shows "removeOpen T key (pe_messageID p) (tb_put T ((tb_get T r)(key \<mapsto> p)) r) = r"
proof -
  have "(tb_get T r)(key := None) = tb_get T r" using assms by (simp add: fun_upd_idem)
  then show ?thesis by (simp add: removeOpen_def get_put put_put put_get)
qed

lemma open_on_route_cases:
  fixes E :: "'sp env"
  assumes "open_on_route T E key p data hook session route r = (err, r')"
  obtains (dup) "err = Some ErrDuplicateCorrelation" "r' = r" "tb_get T r key \<noteq> None"
  | (hooked) e where "tb_get T r key = None" "hook session = Some e" "err = Some e" "r' = r"
  | (closing) "err = Some ErrConnectionClosing" "r' = r"
  | (failed) "err = Some ErrSendFailed" "r' = on_wire route data r"
  | (sent) "err = None" "tb_get T r key = None" "hook session = None"
      "r' = tb_put T ((tb_get T r)(key \<mapsto> p)) (on_wire route data r)"
proof (cases "tb_get T r key")
  case (Some q)
  then show ?thesis using assms that(1) by (simp add: open_on_route_def)
next
  case None
  have undo: "removeOpen T key (pe_messageID p) (tb_put T ((tb_get T r)(key \<mapsto> p)) r) = r"
    by (rule remove_put [OF None])
  have undo_wire: "removeOpen T key (pe_messageID p) (tb_put T ((tb_get T r)(key \<mapsto> p)) (on_wire route data r)) = on_wire route data r"
    using remove_put [of "on_wire route data r" key p] None by (simp add: get_wire)
  show ?thesis
  proof (cases "hook session")
    case (Some e)
    with assms None undo show ?thesis by (intro that(2) [of e]) (simp_all add: open_on_route_def)
  next
    case no_hook: None
    show ?thesis
      using assms None no_hook undo undo_wire that(3,4,5)
      by (auto simp: open_on_route_def write_route_def wire_put Let_def split: option.splits route_err.splits)
  qed
qed

lemma matchOpen_Inr:
  "matchOpen T c inb r = (Inr p, r') \<longleftrightarrow>
     1 \<le> sc_Generation (si_Correlation inb)
   \<and> tb_get T r (session_key c (si_Correlation inb)) = Some p
   \<and> si_ReplyToMessageID inb = pe_messageID p \<and> sc_LabInstanceID (si_Correlation inb) = pe_labInstanceID p
   \<and> sc_Generation (si_Correlation inb) = pe_generation p
   \<and> r' = tb_put T ((tb_get T r)(session_key c (si_Correlation inb) := None)) r"
  by (auto simp: matchOpen_def Let_def split: option.splits)

lemma matchOpen_Inl:
  "matchOpen T c inb r = (Inl reason, r') \<Longrightarrow>
     r' = r \<and> (\<nexists>p. 1 \<le> sc_Generation (si_Correlation inb) \<and> tb_get T r (session_key c (si_Correlation inb)) = Some p
        \<and> si_ReplyToMessageID inb = pe_messageID p \<and> sc_LabInstanceID (si_Correlation inb) = pe_labInstanceID p
        \<and> sc_Generation (si_Correlation inb) = pe_generation p)"
  by (auto simp: matchOpen_def Let_def split: option.splits if_splits)

text \<open>An open result is accepted exactly when it answers the open in progress, and then ends it.\<close>

lemma open_result_iff:
  "fst (route_open_result T ty c inb payload r) \<longleftrightarrow>
     (\<exists>p. 1 \<le> sc_Generation (si_Correlation inb) \<and> tb_get T r (session_key c (si_Correlation inb)) = Some p
        \<and> si_ReplyToMessageID inb = pe_messageID p \<and> sc_LabInstanceID (si_Correlation inb) = pe_labInstanceID p
        \<and> sc_Generation (si_Correlation inb) = pe_generation p)"
proof (cases "matchOpen T c inb r")
  case (Pair res r1)
  show ?thesis
  proof (cases res)
    case (Inl reason)
    then show ?thesis using Pair matchOpen_Inl [of c inb r reason r1] by (simp add: route_open_result_def)
  next
    case (Inr p)
    then have "matchOpen T c inb r = (Inr p, r1)" using Pair by simp
    then show ?thesis by (simp add: route_open_result_def) (auto simp: matchOpen_Inr)
  qed
qed

lemma open_result_table:
  "tb_get T (snd (route_open_result T ty c inb payload r)) =
     (if fst (route_open_result T ty c inb payload r)
      then (tb_get T r)(session_key c (si_Correlation inb) := None) else tb_get T r)"
proof (cases "matchOpen T c inb r")
  case (Pair res r1)
  show ?thesis
  proof (cases res)
    case (Inl reason)
    then show ?thesis
      using Pair matchOpen_Inl [of c inb r reason r1]
      by (simp add: route_open_result_def sessionUnmatched_def get_emit)
  next
    case (Inr p)
    then have "matchOpen T c inb r = (Inr p, r1)" using Pair by simp
    then show ?thesis by (simp add: route_open_result_def get_emit) (simp add: matchOpen_Inr get_put)
  qed
qed

lemma open_result_once:
  "\<not> fst (route_open_result T ty c inb payload' (snd (route_open_result T ty c inb payload r)))"
  by (cases "fst (route_open_result T ty c inb payload r)")
    (auto simp: open_result_iff [of ty c inb payload'] open_result_table, auto simp: open_result_iff)

lemma forget_then_unmatched:
  "\<not> fst (route_open_result T ty c inb payload (snd (forget_open T c (sc_SessionID (si_Correlation inb)) r)))"
  by (simp add: open_result_iff forget_open_def Let_def get_put session_key_def)

end

interpretation terminals: pending_table terminals_table
  by unfold_locales (simp_all add: terminals_table_def emitTerminal_def)

interpretation files: pending_table files_table
  by unfold_locales (simp_all add: files_table_def emitFile_def)

interpretation previews: pending_table previews_table
  by unfold_locales (simp_all add: previews_table_def emitPreview_def)


section \<open>Opening a session\<close>

text \<open>What a send returns comes from the function that ran on the ready route, or nothing happened.\<close>

lemma finish_send_ready:
  assumes "finish_send mid r (withReadyRoute reg c cap fn) = (res, r')"
  obtains (refused) e where "res = Inl e" "r' = r"
  | (ran) e route err where "r_current reg c = Some e" "e_route (r_entry reg e) = Some route"
      "cap = [] \<or> cap \<in> e_capabilities (r_entry reg e)"
      "fn (e_session (r_entry reg e)) route = (err, r')" "res = (case err of Some x \<Rightarrow> Inl x | None \<Rightarrow> Inr mid)"
proof (cases "withReadyRoute reg c cap fn")
  case (Inl e)
  then show ?thesis using assms by (auto simp: finish_send_def intro: refused)
next
  case (Inr x)
  then obtain e route where ready: "r_current reg c = Some e" "e_route (r_entry reg e) = Some route"
    "cap = [] \<or> cap \<in> e_capabilities (r_entry reg e)" and x: "fn (e_session (r_entry reg e)) route = x"
    by (auto simp: withReadyRoute_Inr)
  obtain err r1 where pair: "x = (err, r1)" by fastforce
  with assms Inr have "r1 = r'" "res = (case err of Some x \<Rightarrow> Inl x | None \<Rightarrow> Inr mid)"
    by (auto simp: finish_send_def split: option.splits)
  with ready x pair show ?thesis by (intro ran) auto
qed

text \<open>
  a preview open that fails for any reason leaves the pending opens as they were, including
  when \<open>OnRoute\<close> refuses after the entry was registered; only \<open>ErrSendFailed\<close> may have used the
  wire. When it succeeds, the Connector's current session had declared the preview capability,
  \<open>OnRoute\<close> had accepted exactly that session, and the message was written once to its route.
\<close>

lemma SendPreviewOpen_outcome:
  fixes E :: "'sp env"
  assumes send: "SendPreviewOpen E ctx reg opn r = (res, r')"
  shows "case res of
      Inl e \<Rightarrow> rt_previews r' = rt_previews r \<and> (e \<noteq> ErrSendFailed \<longrightarrow> r' = r)
    | Inr mid \<Rightarrow> (\<exists>e route data.
        r_current reg (pv_ConnectorID opn) = Some e \<and> e_route (r_entry reg e) = Some route
      \<and> CapabilityPreviewV1 \<in> e_capabilities (r_entry reg e)
      \<and> (\<forall>f. pv_OnRoute opn = Some f \<longrightarrow> f (e_session (r_entry reg e)) = None)
      \<and> rt_wire r' = rt_wire r @ [(route, data)]
      \<and> rt_previews r (session_key (pv_ConnectorID opn) (pv_Correlation opn)) = None
      \<and> rt_previews r' = (rt_previews r)(session_key (pv_ConnectorID opn) (pv_Correlation opn)
           \<mapsto> pending_open mid (pv_RequestID opn) (pv_Correlation opn)))"
proof (cases "\<exists>e. res = Inl e \<and> r' = r")
  case True
  then show ?thesis by auto
next
  case False
  obtain mid where mid: "mid = (if pv_MessageID opn = [] then env_newID E else pv_MessageID opn)" by blast
  let ?hook = "\<lambda>s. case pv_OnRoute opn of None \<Rightarrow> None | Some f \<Rightarrow> f s"
  let ?key = "session_key (pv_ConnectorID opn) (pv_Correlation opn)"
  let ?p = "pending_open mid (pv_RequestID opn) (pv_Correlation opn)"
  have cap: "CapabilityPreviewV1 \<noteq> []" by (simp add: CapabilityPreviewV1_def)
  obtain M where M: "M = marshalOutbound E (OutPreviewOpen
      (newPreviewEnvelope E MessageTypePreviewOpen mid (pv_RequestID opn) (pv_Correlation opn) (pv_Trace opn))
      (pv_TargetVMKey opn) (pv_ProviderServerID opn) (pv_TargetPort opn))" by blast
  from send False obtain data where fin: "finish_send mid r
      (withReadyRoute reg (pv_ConnectorID opn) CapabilityPreviewV1
         (\<lambda>session route. open_on_route previews_table E ?key ?p data ?hook session route r)) = (res, r')"
    unfolding SendPreviewOpen_def Let_def mid [symmetric] M [symmetric] WithReadyRouteCapability_def
    by (cases M) (auto split: if_splits option.splits)
  from fin show ?thesis
  proof (cases rule: finish_send_ready)
    case (ran e route err)
    from ran(4) show ?thesis
    proof (cases rule: previews.open_on_route_cases)
      case sent
      then show ?thesis
        using ran cap by (auto simp: previews_table_def split: option.splits)
    qed (use ran False in \<open>auto simp: previews_table_def\<close>)
  qed (use False in auto)
qed

text \<open>
  a file open is only ever written to a session that declared the file capability.
\<close>

lemma SendFileOpen_needs_capability:
  fixes E :: "'sp env"
  assumes "SendFileOpen E ctx reg opn r = (res, r')" "rt_wire r' \<noteq> rt_wire r"
  shows "\<exists>e route. r_current reg (fo_ConnectorID opn) = Some e \<and> e_route (r_entry reg e) = Some route
           \<and> CapabilityFileV1 \<in> e_capabilities (r_entry reg e)"
proof -
  have "CapabilityFileV1 \<noteq> []" by (simp add: CapabilityFileV1_def)
  with assms show ?thesis
    by (auto simp: SendFileOpen_def Let_def WithReadyRouteCapability_def withReadyRoute_def finish_send_def
        split: if_splits option.splits sum.splits prod.splits)
qed

text \<open>
  a terminal's open result is accepted exactly when the authenticated Connector has that open
  in progress and the reply, lab instance and generation all match; it ends that open only, a
  repetition of it is not accepted, and after \<open>ForgetTerminalOpen\<close> no result for it is.
\<close>

lemma RouteTerminalOpenResult_once:
  "(fst (RouteTerminalOpenResult c inb payload r) \<longleftrightarrow>
      (\<exists>p. 1 \<le> sc_Generation (si_Correlation inb) \<and> rt_terminals r (session_key c (si_Correlation inb)) = Some p
        \<and> si_ReplyToMessageID inb = pe_messageID p \<and> sc_LabInstanceID (si_Correlation inb) = pe_labInstanceID p
        \<and> sc_Generation (si_Correlation inb) = pe_generation p))
   \<and> rt_terminals (snd (RouteTerminalOpenResult c inb payload r)) =
       (if fst (RouteTerminalOpenResult c inb payload r)
        then (rt_terminals r)(session_key c (si_Correlation inb) := None) else rt_terminals r)
   \<and> \<not> fst (RouteTerminalOpenResult c inb payload' (snd (RouteTerminalOpenResult c inb payload r)))
   \<and> \<not> fst (RouteTerminalOpenResult c inb payload' (snd (ForgetTerminalOpen c (sc_SessionID (si_Correlation inb)) r)))"
proof -
  have get: "tb_get terminals_table = rt_terminals" by (simp add: terminals_table_def)
  show ?thesis
    using terminals.open_result_iff [of MessageTypeTerminalOpenResult c inb payload r, unfolded get]
      terminals.open_result_table [of MessageTypeTerminalOpenResult c inb payload r, unfolded get]
      terminals.open_result_once [of MessageTypeTerminalOpenResult c inb payload' payload r]
      terminals.forget_then_unmatched [of MessageTypeTerminalOpenResult c inb payload' r]
    unfolding RouteTerminalOpenResult_def ForgetTerminalOpen_def by blast
qed

section \<open>Concrete opens\<close>

definition demo_preview :: PreviewOpen where
  "demo_preview = \<lparr>pv_MessageID = ''p1'', pv_ConnectorID = 5, pv_RequestID = [],
     pv_Correlation = \<lparr>sc_SessionID = ''s'', sc_LabInstanceID = ''lab'', sc_Generation = 1\<rparr>,
     pv_TargetVMKey = ''vm'', pv_ProviderServerID = ''srv'', pv_TargetPort = 8080, pv_Trace = zero_trace,
     pv_OnRoute = Some (\<lambda>s. None)\<rparr>"

definition demo_file :: FileOpen where
  "demo_file = \<lparr>fo_ConnectorID = 5, fo_RequestID = [],
     fo_Correlation = \<lparr>sc_SessionID = ''s'', sc_LabInstanceID = ''lab'', sc_Generation = 1\<rparr>,
     fo_Operation = ''READ'', fo_TargetVMKey = ''vm'', fo_ProviderServerID = ''srv'', fo_Trace = zero_trace\<rparr>"

lemma demo_reg_capable:
  "cap \<in> {''file-v1'', ''preview-v1''} \<Longrightarrow>
   withReadyRoute demo_reg 5 cap fn = Inr (fn \<lparr>sess_ID = 1, sess_ConnectorID = 5, sess_CredentialID = 8\<rparr> 7)"
  by (auto simp: demo_reg_def withReadyRoute_def Register_def MarkReady_def SetCapabilities_def NewRegistry_def
      demo_principal_def new_entry_def r_entry_def update_entry_def)

lemma SendPreviewOpen_outcome_witness:
  "\<exists>r'. SendPreviewOpen demo_env demo_ctx demo_reg demo_preview (NewRouter True True True True) = (Inr ''p1'', r')
     \<and> (\<exists>route data. rt_wire r' = [(route, data)])"
proof -
  obtain res r' where r': "SendPreviewOpen demo_env demo_ctx demo_reg demo_preview (NewRouter True True True True) = (res, r')"
    by fastforce
  then have res: "res = Inr ''p1''"
    by (simp add: SendPreviewOpen_def demo_ctx_def demo_preview_def demo_env_def validatePreviewOpen_def
        validatePreviewCorrelation_def validate_session_correlation_def marshalOutbound_def MaxJSONMessageSize_def
        WithReadyRouteCapability_def CapabilityPreviewV1_def demo_reg_capable finish_send_def open_on_route_def
        previews_table_def write_route_def NewRouter_def Let_def)
  from SendPreviewOpen_outcome [OF r'] r' res show ?thesis by (auto simp: NewRouter_def)
qed

lemma SendFileOpen_needs_capability_witness:
  "\<exists>res r'. SendFileOpen demo_env demo_ctx demo_reg demo_file (NewRouter True True True True) = (res, r')
     \<and> rt_wire r' \<noteq> [] \<and> (\<exists>e. CapabilityFileV1 \<in> e_capabilities (r_entry demo_reg e))"
proof -
  obtain res r' where r': "SendFileOpen demo_env demo_ctx demo_reg demo_file (NewRouter True True True True) = (res, r')"
    by fastforce
  then have "rt_wire r' = [(7, ''json'')]"
    by (auto simp: SendFileOpen_def demo_ctx_def demo_file_def demo_env_def validateFileOpen_def
        validateFileCorrelation_def validate_session_correlation_def marshalOutbound_def MaxJSONMessageSize_def
        WithReadyRouteCapability_def CapabilityFileV1_def demo_reg_capable finish_send_def open_on_route_def
        files_table_def write_route_def NewRouter_def Let_def)
  then have "rt_wire r' \<noteq> rt_wire (NewRouter True True True True)" by (simp add: NewRouter_def)
  from SendFileOpen_needs_capability [OF r' this] r' this show ?thesis by (auto simp: NewRouter_def)
qed

end
