(* ===== verification/Store_Model.thy ===== *)
theory Store_Model
  imports Connector_Command "HOL-Library.Product_Lexorder" "HOL-Library.Option_ord"
begin

text \<open>
  The part of the PostgreSQL schema that the modelled services use
  (\<^verbatim>\<open>db/migrations\<close>) and the transactions of \<^verbatim>\<open>internal/postgres\<close>.

  A table is the list of its rows. A nullable text column that the code only writes through
  \<^verbatim>\<open>NULLIF(x,'')\<close> and only reads through \<^verbatim>\<open>COALESCE(x,'')\<close> is a string,
  empty for NULL; any other nullable column is an option. A transaction is a function on the whole
  database that returns an error or a value: the code takes row locks before it reads what it will
  write, so the transactions that touch the same rows run one after the other. Failures of the
  database itself are covered by \<open>inTransaction\<close>, which keeps the database of before.

  The \<^verbatim>\<open>jsonb\<close> snapshot column holds what \<^verbatim>\<open>json.Unmarshal\<close> makes of it
  (\<^const>\<open>None\<close> where it fails); the trigger of migration 4 makes it immutable.
\<close>

section \<open>Rows\<close>

record class_row =
  cl_id :: uuid
  cl_organization :: uuid
  cl_name :: string

record membership_row =
  mb_organization :: uuid
  mb_class :: uuid
  mb_user :: uuid
  mb_role :: string

record User =
  us_ID :: uuid
  us_OrganizationID :: uuid
  us_OrganizationRole :: string

record LabSpecVMRole =
  vr_ID :: uuid
  vr_Role :: string
  vr_DisplayName :: "string option"
  vr_ImageMappingID :: uuid
  vr_FlavorMappingID :: uuid
  vr_VMCount :: int

record LabSpec =
  ls_ID :: uuid
  ls_OrganizationID :: uuid
  ls_OwnerUserID :: uuid
  ls_Name :: string
  ls_Description :: "string option"
  ls_Revision :: int
  ls_InternetOutbound :: bool
  ls_StartupScript :: "string option"
  ls_WorkspaceRole :: string
  ls_WorkspaceInstanceIndex :: int
  ls_VMRoles :: "LabSpecVMRole list"

record ResolvedImageMapping =
  im_ID :: uuid
  im_OrganizationID :: uuid
  im_ProviderConnectionID :: uuid
  im_Active :: bool
  im_ProviderImageID :: string

record ResolvedFlavorMapping =
  fm_ID :: uuid
  fm_OrganizationID :: uuid
  fm_ProviderConnectionID :: uuid
  fm_Active :: bool
  fm_ProviderFlavorID :: string
  fm_VCPUs :: int
  fm_RAMMiB :: int
  fm_DiskGiB :: int

record connector_row =
  co_id :: uuid
  co_organization :: uuid
  co_name :: string
  co_created_at :: go_time
  co_revoked_at :: "go_time option"
  co_last_seen_at :: "go_time option"
  co_last_version :: "string option"
  co_last_runtime :: "string option"

record connection_row =
  cn_id :: uuid
  cn_organization :: uuid
  cn_connector :: uuid

record execution_row =
  le_id :: uuid
  le_organization :: uuid
  le_class :: uuid
  le_lab_spec :: uuid
  le_instructor :: uuid
  le_status :: string
  le_started_at :: go_time
  le_finished_at :: "go_time option"
  le_updated_at :: go_time

record snapshot_row =
  sn_id :: uuid
  sn_organization :: uuid
  sn_execution :: uuid
  sn_lab_spec :: uuid
  sn_revision :: int
  sn_connection :: uuid
  sn_schema_version :: int
  sn_snapshot :: "CreationSnapshot option"

record instance_row =
  li_id :: uuid
  li_organization :: uuid
  li_execution :: uuid
  li_user :: uuid
  li_role :: string
  li_status :: string
  li_generation :: int
  li_updated_at :: go_time

record operation_row =
  op_id :: uuid
  op_organization :: uuid
  op_type :: string
  op_user :: uuid
  op_request_id :: string
  op_execution :: "uuid option"
  op_instance :: "uuid option"
  op_key_hash :: string
  op_fingerprint :: string
  op_status :: string
  op_stage :: string
  op_error_code :: string
  op_error_message :: string
  op_created_at :: go_time
  op_updated_at :: go_time
  op_started_at :: "go_time option"
  op_finished_at :: "go_time option"
  op_traceparent :: string
  op_tracestate :: string

record item_row =
  it_id :: uuid
  it_organization :: uuid
  it_operation :: uuid
  it_instance :: uuid
  it_generation :: int
  it_status :: string
  it_stage :: string
  it_lease_owner :: "uuid option"
  it_lease_expires_at :: "go_time option"
  it_error_code :: string
  it_error_message :: string
  it_created_at :: go_time
  it_started_at :: "go_time option"
  it_finished_at :: "go_time option"
  it_dispatch_not_before :: "go_time option"
  it_previous_status :: "string option"

record resource_row =
  rc_organization :: uuid
  rc_instance :: uuid
  rc_connection :: uuid
  rc_generation :: int
  rc_type :: string
  rc_logical_name :: string
  rc_provider_id :: string
  rc_lifecycle :: string
  rc_observed_state :: string
  rc_created_by :: "uuid option"
  rc_last_observed_at :: "go_time option"
  rc_deleted_at :: "go_time option"
  rc_cleanup_error :: string

record user_row =
  ur_id :: uuid
  ur_organization :: uuid
  ur_role :: string
  ur_disabled_at :: "go_time option"

record account_row =
  la_user :: uuid
  la_username :: string
  la_password_hash :: string
  la_password_changed_at :: "go_time option"

record auth_session_row =
  as_id :: uuid
  as_user :: uuid
  as_token_hash :: string
  as_created_at :: go_time
  as_expires_at :: go_time
  as_revoked_at :: "go_time option"

record credential_row =
  cc_id :: uuid
  cc_connector :: uuid
  cc_hash :: string
  cc_created_at :: go_time
  cc_revoked_at :: "go_time option"

record enrollment_row =
  et_id :: uuid
  et_token_hash :: string
  et_organization :: uuid
  et_name :: string
  et_issued_by :: uuid
  et_created_at :: go_time
  et_expires_at :: go_time
  et_consumed_at :: "go_time option"
  et_revoked_at :: "go_time option"
  et_connector :: "uuid option"

record terminal_row =
  ts_id :: uuid
  ts_organization :: uuid
  ts_instance :: uuid
  ts_user :: uuid
  ts_generation :: int
  ts_status :: string
  ts_token_hash :: string
  ts_token_expires_at :: go_time
  ts_created_at :: go_time
  ts_attached_at :: "go_time option"
  ts_detached_at :: "go_time option"
  ts_grace_expires_at :: "go_time option"
  ts_ended_at :: "go_time option"
  ts_end_reason :: string

record live_row =
  lv_id :: uuid
  lv_organization :: uuid
  lv_class :: uuid
  lv_source :: uuid
  lv_instructor :: uuid
  lv_created_at :: go_time
  lv_ended_at :: "go_time option"
  lv_end_reason :: string

record db =
  db_classes :: "class_row list"
  db_memberships :: "membership_row list"
  db_connectors :: "connector_row list"
  db_connections :: "connection_row list"
  db_executions :: "execution_row list"
  db_snapshots :: "snapshot_row list"
  db_instances :: "instance_row list"
  db_operations :: "operation_row list"
  db_items :: "item_row list"
  db_resources :: "resource_row list"
  db_lab_specs :: "LabSpec list"
  db_image_mappings :: "ResolvedImageMapping list"
  db_flavor_mappings :: "ResolvedFlavorMapping list"
  db_users :: "user_row list"
  db_accounts :: "account_row list"
  db_auth_sessions :: "auth_session_row list"
  db_credentials :: "credential_row list"
  db_enrollments :: "enrollment_row list"
  db_terminals :: "terminal_row list"
  db_lives :: "live_row list"

section \<open>Errors and transactions\<close>

datatype repo_error =
    KindNotFound | KindConflict | KindConstraintViolation | KindInternal
  | ErrOperationLeaseLost

type_synonym 'a tx = "db \<Rightarrow> (repo_error + 'a) \<times> db"

definition inTransaction :: "(db \<Rightarrow> ('e + 'a) \<times> db) \<Rightarrow> db \<Rightarrow> ('e + 'a) \<times> db" where
  "inTransaction fn d = (case fn d of (Inl e, d') \<Rightarrow> (Inl e, d) | (Inr x, d') \<Rightarrow> (Inr x, d'))"

lemma inTransaction_error: "inTransaction fn d = (Inl e, d') \<Longrightarrow> d' = d"
  by (auto simp: inTransaction_def split: prod.splits sum.splits)

lemma inTransaction_ok: "inTransaction fn d = (Inr x, d') \<longleftrightarrow> fn d = (Inr x, d')"
  by (auto simp: inTransaction_def split: prod.splits sum.splits)

section \<open>Rows by key\<close>

definition row_by :: "('r \<Rightarrow> 'k) \<Rightarrow> 'k \<Rightarrow> 'r list \<Rightarrow> 'r option" where
  "row_by key k rows = find (\<lambda>r. key r = k) rows"

definition update_rows :: "('r \<Rightarrow> bool) \<Rightarrow> ('r \<Rightarrow> 'r) \<Rightarrow> 'r list \<Rightarrow> 'r list" where
  "update_rows P f rows = map (\<lambda>r. if P r then f r else r) rows"

abbreviation item_of :: "uuid \<Rightarrow> db \<Rightarrow> item_row option" where
  "item_of i d \<equiv> row_by it_id i (db_items d)"

abbreviation operation_of :: "uuid \<Rightarrow> db \<Rightarrow> operation_row option" where
  "operation_of i d \<equiv> row_by op_id i (db_operations d)"

abbreviation instance_of :: "uuid \<Rightarrow> db \<Rightarrow> instance_row option" where
  "instance_of i d \<equiv> row_by li_id i (db_instances d)"

abbreviation execution_of :: "uuid \<Rightarrow> db \<Rightarrow> execution_row option" where
  "execution_of i d \<equiv> row_by le_id i (db_executions d)"

definition update_item :: "uuid \<Rightarrow> (item_row \<Rightarrow> item_row) \<Rightarrow> db \<Rightarrow> db" where
  "update_item i f d = d\<lparr>db_items := update_rows (\<lambda>r. it_id r = i) f (db_items d)\<rparr>"

definition update_operation :: "uuid \<Rightarrow> (operation_row \<Rightarrow> operation_row) \<Rightarrow> db \<Rightarrow> db" where
  "update_operation i f d = d\<lparr>db_operations := update_rows (\<lambda>r. op_id r = i) f (db_operations d)\<rparr>"

definition update_instance :: "uuid \<Rightarrow> (instance_row \<Rightarrow> instance_row) \<Rightarrow> db \<Rightarrow> db" where
  "update_instance i f d = d\<lparr>db_instances := update_rows (\<lambda>r. li_id r = i) f (db_instances d)\<rparr>"

definition update_execution :: "uuid \<Rightarrow> (execution_row \<Rightarrow> execution_row) \<Rightarrow> db \<Rightarrow> db" where
  "update_execution i f d = d\<lparr>db_executions := update_rows (\<lambda>r. le_id r = i) f (db_executions d)\<rparr>"

named_theorems db_simps \<open>what the elementary updates leave unchanged and how they change a row\<close>

lemma db_update_fields [db_simps, simp]:
  "db_operations (update_item i f d) = db_operations d" "db_instances (update_item i f d) = db_instances d"
  "db_executions (update_item i f d) = db_executions d" "db_resources (update_item i f d) = db_resources d"
  "db_snapshots (update_item i f d) = db_snapshots d" "db_connections (update_item i f d) = db_connections d"
  "db_connectors (update_item i f d) = db_connectors d"
  "db_items (update_operation i g d) = db_items d" "db_instances (update_operation i g d) = db_instances d"
  "db_executions (update_operation i g d) = db_executions d" "db_resources (update_operation i g d) = db_resources d"
  "db_snapshots (update_operation i g d) = db_snapshots d"
  "db_items (update_instance i h d) = db_items d" "db_operations (update_instance i h d) = db_operations d"
  "db_executions (update_instance i h d) = db_executions d" "db_resources (update_instance i h d) = db_resources d"
  "db_snapshots (update_instance i h d) = db_snapshots d"
  "db_items (update_execution i k d) = db_items d" "db_operations (update_execution i k d) = db_operations d"
  "db_instances (update_execution i k d) = db_instances d" "db_resources (update_execution i k d) = db_resources d"
  "db_snapshots (update_execution i k d) = db_snapshots d"
  by (simp_all add: update_item_def update_operation_def update_instance_def update_execution_def)

lemma row_by_update:
  assumes "\<And>r. key (f r) = key r"
  shows "row_by key k (update_rows (\<lambda>r. key r = i) f rows) =
           (if k = i then map_option f (row_by key k rows) else row_by key k rows)"
  unfolding row_by_def update_rows_def by (induction rows) (auto simp: assms)

lemma item_of_update [simp]:
  "(\<And>r. it_id (f r) = it_id r) \<Longrightarrow>
   item_of k (update_item i f d) = (if k = i then map_option f (item_of k d) else item_of k d)"
  by (simp add: update_item_def row_by_update)

lemma operation_of_update [simp]:
  "(\<And>r. op_id (f r) = op_id r) \<Longrightarrow>
   operation_of k (update_operation i f d) = (if k = i then map_option f (operation_of k d) else operation_of k d)"
  by (simp add: update_operation_def row_by_update)

lemma instance_of_update [simp]:
  "(\<And>r. li_id (f r) = li_id r) \<Longrightarrow>
   instance_of k (update_instance i f d) = (if k = i then map_option f (instance_of k d) else instance_of k d)"
  by (simp add: update_instance_def row_by_update)

lemma execution_of_update [simp]:
  "(\<And>r. le_id (f r) = le_id r) \<Longrightarrow>
   execution_of k (update_execution i f d) = (if k = i then map_option f (execution_of k d) else execution_of k d)"
  by (simp add: update_execution_def row_by_update)

lemma row_by_key: "row_by key k rows = Some r \<Longrightarrow> key r = k \<and> r \<in> set rows"
  by (auto simp: row_by_def find_Some_iff)

lemma row_by_append: "row_by key k (rows @ rows') = (case row_by key k rows of Some r \<Rightarrow> Some r | None \<Rightarrow> row_by key k rows')"
  unfolding row_by_def by (induction rows) auto

lemma row_by_None: "row_by key k rows = None \<longleftrightarrow> (\<forall>r \<in> set rows. key r \<noteq> k)"
  by (auto simp: row_by_def find_None_iff)

lemma row_by_distinct:
  "distinct (map key rows) \<Longrightarrow> r \<in> set rows \<Longrightarrow> row_by key (key r) rows = Some r"
  unfolding row_by_def by (induction rows) auto

lemma set_update_rows: "set (update_rows P f rows) = {if P r then f r else r | r. r \<in> set rows}"
  by (auto simp: update_rows_def)

lemma update_rows_keys [simp]: "(\<And>r. key (f r) = key r) \<Longrightarrow> map key (update_rows P f rows) = map key rows"
  by (simp add: update_rows_def)

lemma item_ids_update [simp]:
  "(\<And>r. it_id (f r) = it_id r) \<Longrightarrow> map it_id (db_items (update_item i f d)) = map it_id (db_items d)"
  by (simp add: update_item_def)

lemma length_update_rows [simp]: "length (update_rows P f rows) = length rows"
  by (simp add: update_rows_def)

lemma in_update_rows:
  assumes "y \<in> set (update_rows P f rows)"
  obtains x where "x \<in> set rows" "y = (if P x then f x else x)"
  using assms unfolding update_rows_def by auto

end
