(* ===== verification/Worker_Lease.thy ===== *)
theory Worker_Lease
  imports Store_Model
begin

text \<open>
  Leases on operation items: claiming, renewing, and the row locks with which every later write of
  a worker proves that it still owns its item (\<^verbatim>\<open>internal/postgres/operation_worker.go\<close>,
  the lock functions of \<^verbatim>\<open>provision_worker.go\<close>, \<^verbatim>\<open>mutation_worker.go\<close> and
  \<^verbatim>\<open>reconciliation.go\<close>).

  \<^verbatim>\<open>clock_timestamp()\<close> is read several times in a transaction; the \<open>n\<close>-th reading is
  \<open>clk n\<close>. \<^verbatim>\<open>FOR UPDATE SKIP LOCKED\<close> passes over rows that other transactions hold: the
  argument \<open>skip\<close> says which.
\<close>

type_synonym clock = "nat \<Rightarrow> go_time"

record OperationItemLease =
  ls_ItemID :: uuid
  ls_Owner :: uuid

record OperationItemClaim =
  clm_Operation :: operation_row
  clm_Item :: item_row
  clm_Lease :: OperationItemLease
  clm_ExpiresAt :: go_time

section \<open>Claim and renewal\<close>

definition claim_eligible :: "go_time \<Rightarrow> string \<Rightarrow> db \<Rightarrow> item_row \<Rightarrow> bool" where
  "claim_eligible now operationType d i \<longleftrightarrow>
     it_status i = ''PENDING'' \<and> it_finished_at i = None
   \<and> (case it_dispatch_not_before i of None \<Rightarrow> True | Some t \<Rightarrow> t \<le> now)
   \<and> (case operation_of (it_operation i) d of
        None \<Rightarrow> False
      | Some o' \<Rightarrow> op_organization o' = it_organization i \<and> (operationType = [] \<or> op_type o' = operationType)
          \<and> op_status o' \<in> {''PENDING'', ''RUNNING''} \<and> op_finished_at o' = None)"

definition claim_candidate :: "(uuid \<Rightarrow> bool) \<Rightarrow> (item_row \<Rightarrow> bool) \<Rightarrow> (item_row \<Rightarrow> 'k::linorder) \<Rightarrow> db \<Rightarrow> item_row option" where
  "claim_candidate skip P key d =
     (case sort_key key (filter (\<lambda>i. P i \<and> \<not> skip (it_id i)) (db_items d)) of [] \<Rightarrow> None | i # _ \<Rightarrow> Some i)"

definition take_lease :: "uuid \<Rightarrow> go_time \<Rightarrow> int \<Rightarrow> item_row \<Rightarrow> item_row" where
  "take_lease owner at duration i =
     i\<lparr>it_status := ''RUNNING'', it_lease_owner := Some owner, it_dispatch_not_before := None,
       it_lease_expires_at := Some (at + duration),
       it_started_at := (case it_started_at i of None \<Rightarrow> Some at | Some t \<Rightarrow> Some t)\<rparr>"

definition start_operation :: "go_time \<Rightarrow> operation_row \<Rightarrow> operation_row" where
  "start_operation at o' =
     o'\<lparr>op_status := ''RUNNING'', op_updated_at := at,
        op_started_at := (case op_started_at o' of None \<Rightarrow> Some at | Some t \<Rightarrow> Some t)\<rparr>"

definition claimOperationItem ::
  "clock \<Rightarrow> (uuid \<Rightarrow> bool) \<Rightarrow> uuid \<Rightarrow> int \<Rightarrow> string \<Rightarrow> OperationItemClaim tx" where
  "claimOperationItem clk skip owner duration operationType d =
     (if owner = uuid_Nil \<or> duration < 1 then (Inl KindConstraintViolation, d)
      else inTransaction (\<lambda>d.
        case claim_candidate skip (claim_eligible (clk 0) operationType d) (\<lambda>i. (it_created_at i, it_id i)) d of
          None \<Rightarrow> (Inl KindNotFound, d)
        | Some i \<Rightarrow>
            (let d1 = update_item (it_id i) (take_lease owner (clk 1) duration) d;
                 d2 = update_operation (it_operation i) (start_operation (clk 1)) d1
             in case operation_of (it_operation i) d2 of
                  None \<Rightarrow> (Inl KindNotFound, d2)
                | Some o' \<Rightarrow>
                    (Inr \<lparr>clm_Operation = o', clm_Item = take_lease owner (clk 1) duration i,
                          clm_Lease = \<lparr>ls_ItemID = it_id i, ls_Owner = owner\<rparr>, clm_ExpiresAt = clk 1 + duration\<rparr>, d2))) d)"

definition ClaimOperationItem :: "clock \<Rightarrow> (uuid \<Rightarrow> bool) \<Rightarrow> uuid \<Rightarrow> int \<Rightarrow> OperationItemClaim tx" where
  "ClaimOperationItem clk skip owner duration = claimOperationItem clk skip owner duration []"

definition ClaimProvisionOperationItem :: "clock \<Rightarrow> (uuid \<Rightarrow> bool) \<Rightarrow> uuid \<Rightarrow> int \<Rightarrow> OperationItemClaim tx" where
  "ClaimProvisionOperationItem clk skip owner duration = claimOperationItem clk skip owner duration ''PROVISION''"

definition RenewOperationItemLease :: "clock \<Rightarrow> OperationItemLease \<Rightarrow> int \<Rightarrow> go_time tx" where
  "RenewOperationItemLease clk lease duration d =
     (if ls_ItemID lease = uuid_Nil \<or> ls_Owner lease = uuid_Nil \<or> duration < 1 then (Inl KindConstraintViolation, d)
      else inTransaction (\<lambda>d.
        case item_of (ls_ItemID lease) d of
          None \<Rightarrow> (Inl ErrOperationLeaseLost, d)
        | Some i \<Rightarrow>
            (case operation_of (it_operation i) d of
               None \<Rightarrow> (Inl ErrOperationLeaseLost, d)
             | Some o' \<Rightarrow>
                 if op_organization o' = it_organization i \<and> it_lease_owner i = Some (ls_Owner lease)
                    \<and> it_status i = ''RUNNING'' \<and> it_finished_at i = None
                    \<and> op_status o' = ''RUNNING'' \<and> op_finished_at o' = None
                    \<and> (case it_lease_expires_at i of None \<Rightarrow> False | Some t \<Rightarrow> clk 0 < t)
                 then (Inr (clk 1 + duration),
                       update_item (ls_ItemID lease) (\<lambda>x. x\<lparr>it_lease_expires_at := Some (clk 1 + duration)\<rparr>) d)
                 else (Inl ErrOperationLeaseLost, d))) d)"

section \<open>Dispatches and the locked product rows\<close>

record ProvisionResource =
  px_Type :: string
  px_ProviderID :: string
  px_LogicalName :: string
  px_ObservedState :: string
  px_Generation :: int

record ProvisionDispatch =
  pd_Lease :: OperationItemLease
  pd_OrganizationID :: uuid
  pd_OperationID :: uuid
  pd_LabInstanceID :: uuid
  pd_LabExecutionID :: uuid
  pd_ProviderConnectionID :: uuid
  pd_ConnectorID :: uuid
  pd_Generation :: int
  pd_Snapshot :: "CreationSnapshot option"
  pd_MutationType :: string
  pd_PreviousStatus :: string
  pd_Resources :: "ProvisionResource list"

record ProvisionUpdate =
  pu_Readiness :: "Readiness option"
  pu_Dispatch :: ProvisionDispatch
  pu_Status :: string
  pu_Stage :: string
  pu_ErrorCode :: string
  pu_ErrorMessage :: string
  pu_Resources :: "ProvisionResource list"

record locked_rows =
  lk_item :: item_row
  lk_operation :: operation_row
  lk_instance :: instance_row
  lk_execution :: execution_row
  lk_snapshot :: snapshot_row
  lk_connection :: connection_row
  lk_connector :: connector_row

text \<open>The join that the three lock queries share: the item with its operation, instance, execution,
  snapshot, connection and Connector, all of one organization.\<close>

definition join_rows :: "uuid \<Rightarrow> db \<Rightarrow> locked_rows option" where
  "join_rows itemID d =
     (case item_of itemID d of None \<Rightarrow> None | Some i \<Rightarrow>
     (case operation_of (it_operation i) d of None \<Rightarrow> None | Some o' \<Rightarrow>
     (case instance_of (it_instance i) d of None \<Rightarrow> None | Some li \<Rightarrow>
     (case execution_of (li_execution li) d of None \<Rightarrow> None | Some e \<Rightarrow>
     (case row_by sn_execution (le_id e) (db_snapshots d) of None \<Rightarrow> None | Some s \<Rightarrow>
     (case row_by cn_id (sn_connection s) (db_connections d) of None \<Rightarrow> None | Some p \<Rightarrow>
     (case row_by co_id (cn_connector p) (db_connectors d) of None \<Rightarrow> None | Some c \<Rightarrow>
       if op_organization o' = it_organization i \<and> li_organization li = it_organization i
          \<and> le_organization e = it_organization i \<and> sn_organization s = le_organization e \<and> sn_schema_version s = 1
          \<and> cn_organization p = sn_organization s \<and> co_organization c = cn_organization p
       then Some \<lparr>lk_item = i, lk_operation = o', lk_instance = li, lk_execution = e, lk_snapshot = s,
                  lk_connection = p, lk_connector = c\<rparr>
       else None)))))))"

text \<open>The conditions that the three lock queries share.\<close>

definition owned_rows :: "OperationItemLease \<Rightarrow> string \<Rightarrow> string set \<Rightarrow> locked_rows \<Rightarrow> bool" where
  "owned_rows lease itemStatus opStatus k \<longleftrightarrow>
     it_lease_owner (lk_item k) = Some (ls_Owner lease) \<and> it_status (lk_item k) = itemStatus
   \<and> it_finished_at (lk_item k) = None
   \<and> op_status (lk_operation k) \<in> opStatus \<and> op_finished_at (lk_operation k) = None
   \<and> le_finished_at (lk_execution k) = None \<and> co_revoked_at (lk_connector k) = None"

definition dispatch_of :: "OperationItemLease \<Rightarrow> string \<Rightarrow> string \<Rightarrow> locked_rows \<Rightarrow> ProvisionDispatch" where
  "dispatch_of lease mutation previous k =
     \<lparr>pd_Lease = lease, pd_OrganizationID = it_organization (lk_item k), pd_OperationID = it_operation (lk_item k),
      pd_LabInstanceID = it_instance (lk_item k), pd_LabExecutionID = li_execution (lk_instance k),
      pd_ProviderConnectionID = sn_connection (lk_snapshot k), pd_ConnectorID = cn_connector (lk_connection k),
      pd_Generation = it_generation (lk_item k), pd_Snapshot = sn_snapshot (lk_snapshot k),
      pd_MutationType = mutation, pd_PreviousStatus = previous, pd_Resources = []\<rparr>"

text \<open>What follows the query in each of the three: the lease is still live, and the snapshot is for
  the connection. \<open>uS\<close> is \<^verbatim>\<open>uuid.UUID.String\<close>.\<close>

definition check_locked :: "(uuid \<Rightarrow> string) \<Rightarrow> go_time \<Rightarrow> locked_rows \<Rightarrow> repo_error option" where
  "check_locked uS now k =
     (case it_lease_expires_at (lk_item k) of
        None \<Rightarrow> Some KindInternal
      | Some t \<Rightarrow>
          if \<not> now < t then Some ErrOperationLeaseLost
          else case sn_snapshot (lk_snapshot k) of
              None \<Rightarrow> Some KindConstraintViolation
            | Some s \<Rightarrow> if cs_ProviderConnectionID s \<noteq> uS (sn_connection (lk_snapshot k))
                then Some KindConstraintViolation else None)"

definition lockProvision :: "(uuid \<Rightarrow> string) \<Rightarrow> go_time \<Rightarrow> OperationItemLease \<Rightarrow> db \<Rightarrow> repo_error + locked_rows" where
  "lockProvision uS now lease d =
     (if ls_ItemID lease = uuid_Nil \<or> ls_Owner lease = uuid_Nil then Inl ErrOperationLeaseLost
      else case join_rows (ls_ItemID lease) d of
          None \<Rightarrow> Inl ErrOperationLeaseLost
        | Some k \<Rightarrow>
            if owned_rows lease ''RUNNING'' {''RUNNING''} k
               \<and> li_generation (lk_instance k) = it_generation (lk_item k)
               \<and> op_execution (lk_operation k) = Some (le_id (lk_execution k))
               \<and> op_type (lk_operation k) = ''PROVISION''
            then (case check_locked uS now k of Some e \<Rightarrow> Inl e | None \<Rightarrow> Inr k)
            else Inl ErrOperationLeaseLost)"

definition lockMutation :: "(uuid \<Rightarrow> string) \<Rightarrow> go_time \<Rightarrow> OperationItemLease \<Rightarrow> db \<Rightarrow> repo_error + locked_rows" where
  "lockMutation uS now lease d =
     (if ls_ItemID lease = uuid_Nil \<or> ls_Owner lease = uuid_Nil then Inl ErrOperationLeaseLost
      else case join_rows (ls_ItemID lease) d of
          None \<Rightarrow> Inl ErrOperationLeaseLost
        | Some k \<Rightarrow>
            if owned_rows lease ''RUNNING'' {''RUNNING''} k
               \<and> (op_type (lk_operation k) = ''RESET'' \<and> op_instance (lk_operation k) = Some (li_id (lk_instance k))
                    \<and> it_generation (lk_item k) = li_generation (lk_instance k) + 1
                  \<or> op_type (lk_operation k) = ''CLEANUP'' \<and> op_execution (lk_operation k) = Some (le_id (lk_execution k))
                    \<and> it_generation (lk_item k) = li_generation (lk_instance k))
            then (case check_locked uS now k of Some e \<Rightarrow> Inl e | None \<Rightarrow> Inr k)
            else Inl ErrOperationLeaseLost)"

definition lockReconciliation :: "(uuid \<Rightarrow> string) \<Rightarrow> go_time \<Rightarrow> OperationItemLease \<Rightarrow> db \<Rightarrow> repo_error + locked_rows" where
  "lockReconciliation uS now lease d =
     (if ls_ItemID lease = uuid_Nil \<or> ls_Owner lease = uuid_Nil then Inl ErrOperationLeaseLost
      else case join_rows (ls_ItemID lease) d of
          None \<Rightarrow> Inl ErrOperationLeaseLost
        | Some k \<Rightarrow>
            if owned_rows lease ''RECONCILING'' {''RUNNING'', ''RECONCILING''} k
               \<and> (op_type (lk_operation k) = ''PROVISION'' \<and> op_execution (lk_operation k) = Some (le_id (lk_execution k))
                    \<and> li_generation (lk_instance k) = it_generation (lk_item k)
                  \<or> op_type (lk_operation k) = ''RESET'' \<and> op_instance (lk_operation k) = Some (li_id (lk_instance k))
                    \<and> it_generation (lk_item k) = li_generation (lk_instance k) + 1
                  \<or> op_type (lk_operation k) = ''CLEANUP'' \<and> op_execution (lk_operation k) = Some (le_id (lk_execution k))
                    \<and> it_generation (lk_item k) = li_generation (lk_instance k))
            then (case check_locked uS now k of Some e \<Rightarrow> Inl e | None \<Rightarrow> Inr k)
            else Inl ErrOperationLeaseLost)"

text \<open>The previous instance status that the mutation query returns beside the rows.\<close>

definition mutation_previous :: "locked_rows \<Rightarrow> string" where
  "mutation_previous k =
     (if it_stage (lk_item k) \<in> {[], ''DEFERRED''} then li_status (lk_instance k)
      else case it_previous_status (lk_item k) of None \<Rightarrow> li_status (lk_instance k) | Some p \<Rightarrow> p)"

section \<open>A concrete database\<close>

text \<open>One operation of the given type in flight on one instance: its item 9 is leased to worker 7
  until 1000.\<close>

definition demo_snapshot :: CreationSnapshot where
  "demo_snapshot =
     \<lparr>cs_ProviderConnectionID = ''conn'',
      cs_VMs = [\<lparr>vm_VMKey = ''vm-1'', vm_Role = ''workspace'', vm_InstanceIndex = 1, vm_ImageID = ''i'', vm_ImageRef = ''ir'',
                vm_FlavorID = ''f'', vm_FlavorRef = ''fr'', vm_FlavorSpec = None\<rparr>],
      cs_WorkspaceVMKey = ''vm-1'', cs_InternetOutbound = False, cs_StartupScript = None\<rparr>"

definition demo_item :: "int \<Rightarrow> string \<Rightarrow> item_row" where
  "demo_item generation stage =
     \<lparr>it_id = 9, it_organization = 1, it_operation = 8, it_instance = 6, it_generation = generation,
      it_status = ''RUNNING'', it_stage = stage, it_lease_owner = Some 7, it_lease_expires_at = Some 1000,
      it_error_code = [], it_error_message = [], it_created_at = 10, it_started_at = Some 20, it_finished_at = None,
      it_dispatch_not_before = None, it_previous_status = Some ''READY''\<rparr>"

definition demo_db :: "string \<Rightarrow> item_row list \<Rightarrow> resource_row list \<Rightarrow> string \<Rightarrow> db" where
  "demo_db kind items resources status =
     \<lparr>db_classes = [\<lparr>cl_id = 2, cl_organization = 1, cl_name = ''c''\<rparr>], db_memberships = [],
      db_connectors = [\<lparr>co_id = 3, co_organization = 1, co_name = ''k'', co_created_at = 1, co_revoked_at = None,
                        co_last_seen_at = None, co_last_version = None, co_last_runtime = None\<rparr>],
      db_connections = [\<lparr>cn_id = 4, cn_organization = 1, cn_connector = 3\<rparr>],
      db_executions = [\<lparr>le_id = 5, le_organization = 1, le_class = 2, le_lab_spec = 12, le_instructor = 11,
                        le_status = ''PROVISIONING'', le_started_at = 10, le_finished_at = None, le_updated_at = 10\<rparr>],
      db_snapshots = [\<lparr>sn_id = 13, sn_organization = 1, sn_execution = 5, sn_lab_spec = 12, sn_revision = 1,
                       sn_connection = 4, sn_schema_version = 1, sn_snapshot = Some demo_snapshot\<rparr>],
      db_instances = [\<lparr>li_id = 6, li_organization = 1, li_execution = 5, li_user = 11, li_role = ''INSTRUCTOR'',
                       li_status = status, li_generation = 1, li_updated_at = 10\<rparr>],
      db_operations = [\<lparr>op_id = 8, op_organization = 1, op_type = kind, op_user = 11, op_request_id = ''r'',
                        op_execution = (if kind = ''RESET'' then None else Some 5),
                        op_instance = (if kind = ''RESET'' then Some 6 else None), op_key_hash = ''h'',
                        op_fingerprint = ''f'', op_status = ''RUNNING'', op_stage = [], op_error_code = [],
                        op_error_message = [], op_created_at = 10, op_updated_at = 20, op_started_at = Some 20,
                        op_finished_at = None, op_traceparent = [], op_tracestate = []\<rparr>],
      db_items = items, db_resources = resources, db_lab_specs = [], db_image_mappings = [],
      db_flavor_mappings = [], db_users = [], db_accounts = [], db_auth_sessions = [], db_credentials = [],
      db_enrollments = [], db_terminals = [], db_lives = []\<rparr>"

text \<open>A clock that ticks once at every reading, and a \<^verbatim>\<open>String\<close> that names the connection.\<close>

definition demo_clock :: "go_time \<Rightarrow> clock" where
  "demo_clock start n = start + int n"

definition demo_uS :: "uuid \<Rightarrow> string" where
  "demo_uS u = (if u = 4 then ''conn'' else ''other'')"

lemmas demo_defs = demo_snapshot_def demo_item_def demo_db_def demo_clock_def demo_uS_def

end
