(* ===== verification/Worker_Provision.thy ===== *)
theory Worker_Provision
  imports Worker_Lease
begin

text \<open>
  What a worker writes for a PROVISION item (\<^verbatim>\<open>internal/postgres/provision_worker.go\<close>,
  \<^verbatim>\<open>readiness.go\<close>): preparing the dispatch, putting back an unsent one, recording
  progress and results, and the aggregation of item and instance states into their operation and
  execution.
\<close>

definition absent :: "string \<Rightarrow> bool" where
  "absent state \<longleftrightarrow> state \<in> {''DELETED'', ''ABSENT'', ''MISSING''}"

text \<open>The loop of \<open>resetVMsPresent\<close> over the resources; \<open>req\<close> counts the servers per required key.\<close>

fun count_servers :: "(string \<Rightarrow> nat option) \<Rightarrow> int \<Rightarrow> ProvisionResource list \<Rightarrow> (string \<Rightarrow> nat option) option" where
  "count_servers req g [] = Some req"
| "count_servers req g (r # rs) =
     (if px_Generation r \<noteq> g then count_servers req g rs
      else if absent (px_ObservedState r) \<or> px_ObservedState r \<in> {[], ''UNKNOWN'', ''DELETE_NOT_ATTEMPTED''} then None
      else if px_Type r \<noteq> ''SERVER'' then count_servers req g rs
      else case req (px_LogicalName r) of
          None \<Rightarrow> None
        | Some n \<Rightarrow>
            if n \<noteq> 0 \<or> px_ObservedState r \<noteq> ''ACTIVE'' then None
            else count_servers (req(px_LogicalName r \<mapsto> n + 1)) g rs)"

fun required_keys :: "(string \<Rightarrow> nat option) \<Rightarrow> string list \<Rightarrow> (string \<Rightarrow> nat option) option" where
  "required_keys req [] = Some req"
| "required_keys req (k # ks) =
     (if strings_TrimSpace k = [] then None
      else if req k \<noteq> None then None
      else required_keys (req(k \<mapsto> 0)) ks)"

definition resetVMsPresent :: "CreationSnapshot option \<Rightarrow> ProvisionResource list \<Rightarrow> int \<Rightarrow> bool" where
  "resetVMsPresent snapshot resources generation =
     (case snapshot of
        None \<Rightarrow> False
      | Some spec \<Rightarrow>
          (let keys = map vm_VMKey (cs_VMs spec) in
           if keys = [] then False
           else case required_keys (\<lambda>_. None) keys of
               None \<Rightarrow> False
             | Some required \<Rightarrow>
                 (case count_servers required generation resources of
                    None \<Rightarrow> False
                  | Some counted \<Rightarrow> list_all (\<lambda>k. counted k = Some 1) keys)))"

definition validReadiness :: "ProvisionDispatch \<Rightarrow> ProvisionUpdate \<Rightarrow> bool" where
  "validReadiness d u =
     (case pu_Readiness u of
        None \<Rightarrow> False
      | Some r \<Rightarrow>
          if pu_Status u \<noteq> ''SUCCEEDED'' \<or> rd_Generation r \<noteq> pd_Generation d \<or> rd_ServerID r = []
             \<or> \<not> resetVMsPresent (pd_Snapshot d) (pu_Resources u) (pd_Generation d)
          then False
          else case pd_Snapshot d of
              None \<Rightarrow> False
            | Some s \<Rightarrow>
                if cs_WorkspaceVMKey s = [] \<or> cs_WorkspaceVMKey s \<noteq> rd_WorkspaceVMKey r then False
                else length (filter (\<lambda>x. px_Generation x = pd_Generation d \<and> px_Type x = ''SERVER''
                        \<and> px_LogicalName x = rd_WorkspaceVMKey r \<and> px_ProviderID x = rd_ServerID r
                        \<and> px_ObservedState x = ''ACTIVE'') (pu_Resources u)) = 1)"

section \<open>Aggregation\<close>

definition items_of_operation :: "uuid \<Rightarrow> db \<Rightarrow> item_row list" where
  "items_of_operation i d = filter (\<lambda>r. it_operation r = i) (db_items d)"

definition aggregate_status :: "item_row list \<Rightarrow> string" where
  "aggregate_status items =
     (if items \<noteq> [] \<and> list_all (\<lambda>r. it_status r = ''PENDING'') items then ''PENDING''
      else if list_ex (\<lambda>r. it_status r \<in> {''PENDING'', ''RUNNING''}) items then ''RUNNING''
      else if list_ex (\<lambda>r. it_status r = ''RECONCILING'') items then ''RECONCILING''
      else if list_ex (\<lambda>r. it_status r = ''FAILED'') items then ''FAILED''
      else ''SUCCEEDED'')"

definition aggregate_failure :: "item_row list \<Rightarrow> item_row option" where
  "aggregate_failure items =
     (case sort_key (\<lambda>r. (it_created_at r, it_id r)) (filter (\<lambda>r. it_status r \<in> {''FAILED'', ''RECONCILING''}) items) of
        [] \<Rightarrow> None | r # _ \<Rightarrow> Some r)"

definition aggregateProvision :: "uuid \<Rightarrow> go_time \<Rightarrow> db \<Rightarrow> db" where
  "aggregateProvision i at d =
     (let items = items_of_operation i d; st = aggregate_status items in
      update_operation i (\<lambda>o'. o'\<lparr>op_status := st, op_updated_at := at,
        op_finished_at := (if st \<in> {''SUCCEEDED'', ''FAILED''} then Some at else None),
        op_stage := (if st = ''SUCCEEDED''
                       then (if list_all (\<lambda>r. it_stage r = ''READY'') items then ''READY'' else ''VERIFYING_READINESS'')
                     else if st = ''PENDING'' then ''DEFERRED''
                     else if st = ''RECONCILING'' then ''RECONCILING''
                     else if st = ''FAILED'' then ''FAILED''
                     else ''PROVISIONING''),
        op_error_code := (case aggregate_failure items of None \<Rightarrow> [] | Some r \<Rightarrow> it_error_code r),
        op_error_message := (case aggregate_failure items of None \<Rightarrow> [] | Some r \<Rightarrow> it_error_message r)\<rparr>) d)"

definition instances_of_execution :: "uuid \<Rightarrow> db \<Rightarrow> instance_row list" where
  "instances_of_execution e d = filter (\<lambda>li. li_execution li = e) (db_instances d)"

definition aggregateReadiness :: "uuid \<Rightarrow> go_time \<Rightarrow> db \<Rightarrow> db" where
  "aggregateReadiness e at d =
     (let lis = instances_of_execution e d in
      update_execution e (\<lambda>x. x\<lparr>le_status :=
          (if list_ex (\<lambda>li. li_status li = ''ERROR'') lis then ''ERROR''
           else if list_all (\<lambda>li. li_status li = ''READY'') lis then ''ACTIVE''
           else ''PROVISIONING''),
        le_updated_at := at\<rparr>) d)"

section \<open>Prepare, defer, write\<close>

definition sameProvisionDispatch :: "ProvisionDispatch \<Rightarrow> ProvisionDispatch \<Rightarrow> bool" where
  "sameProvisionDispatch a b \<longleftrightarrow>
     pd_OrganizationID a = pd_OrganizationID b \<and> pd_OperationID a = pd_OperationID b
   \<and> pd_LabInstanceID a = pd_LabInstanceID b \<and> pd_LabExecutionID a = pd_LabExecutionID b
   \<and> pd_Generation a = pd_Generation b \<and> pd_ConnectorID a = pd_ConnectorID b
   \<and> pd_ProviderConnectionID a = pd_ProviderConnectionID b"

definition has_resources :: "uuid \<Rightarrow> db \<Rightarrow> bool" where
  "has_resources li d = list_ex (\<lambda>r. rc_instance r = li) (db_resources d)"

definition set_instance_status :: "uuid \<Rightarrow> string \<Rightarrow> go_time \<Rightarrow> db \<Rightarrow> db" where
  "set_instance_status li st at = update_instance li (\<lambda>x. x\<lparr>li_status := st, li_updated_at := at\<rparr>)"

definition PrepareProvision :: "(uuid \<Rightarrow> string) \<Rightarrow> clock \<Rightarrow> OperationItemLease \<Rightarrow> ProvisionDispatch tx" where
  "PrepareProvision uS clk lease =
     inTransaction (\<lambda>d.
       case lockProvision uS (clk 0) lease d of
         Inl e \<Rightarrow> (Inl e, d)
       | Inr k \<Rightarrow>
           (let stage = it_stage (lk_item k) in
            if stage \<noteq> [] \<and> stage \<noteq> ''DEFERRED'' \<or> it_generation (lk_item k) \<noteq> 1 then (Inl KindConstraintViolation, d)
            else if li_status (lk_instance k) \<noteq> ''PENDING'' \<or> has_resources (it_instance (lk_item k)) d
              then (Inl KindConstraintViolation, d)
            else (Inr (dispatch_of lease [] [] k),
                  set_instance_status (it_instance (lk_item k)) ''PROVISIONING'' (clk 1)
                    (update_item (ls_ItemID lease) (\<lambda>x. x\<lparr>it_stage := ''DISPATCHING''\<rparr>) d))))"

text \<open>Whether the lease is still live at the statement that changes the item.\<close>

definition lease_live :: "go_time \<Rightarrow> OperationItemLease \<Rightarrow> db \<Rightarrow> bool" where
  "lease_live now lease d =
     (case item_of (ls_ItemID lease) d of
        None \<Rightarrow> False
      | Some i \<Rightarrow> (case it_lease_expires_at i of None \<Rightarrow> False | Some t \<Rightarrow> now < t))"

definition DeferUnsentProvision :: "(uuid \<Rightarrow> string) \<Rightarrow> clock \<Rightarrow> ProvisionDispatch \<Rightarrow> int \<Rightarrow> unit tx" where
  "DeferUnsentProvision uS clk expected delay d =
     (if delay < 1 then (Inl KindConstraintViolation, d)
      else inTransaction (\<lambda>d.
        case lockProvision uS (clk 0) (pd_Lease expected) d of
          Inl e \<Rightarrow> (Inl e, d)
        | Inr k \<Rightarrow>
            (let lease = pd_Lease expected; disp = dispatch_of lease [] [] k; li = it_instance (lk_item k) in
             if it_stage (lk_item k) \<noteq> ''DISPATCHING'' \<or> \<not> sameProvisionDispatch disp expected
               then (Inl KindConstraintViolation, d)
             else if li_status (lk_instance k) \<noteq> ''PROVISIONING'' \<or> has_resources li d
               then (Inl KindConstraintViolation, d)
             else if \<not> lease_live (clk 1) lease d then (Inl ErrOperationLeaseLost, d)
             else (Inr (),
               aggregateProvision (it_operation (lk_item k)) (clk 1)
                 (set_instance_status li ''PENDING'' (clk 1)
                   (update_item (ls_ItemID lease) (\<lambda>x. x\<lparr>it_status := ''PENDING'', it_stage := ''DEFERRED'',
                      it_lease_owner := None, it_lease_expires_at := None,
                      it_dispatch_not_before := Some (clk 1 + delay), it_error_code := [], it_error_message := []\<rparr>) d))))) d)"

definition lifecycle_of :: "string \<Rightarrow> string" where
  "lifecycle_of observed =
     (if observed = ''DELETED'' then ''DELETED''
      else if observed \<in> {''MISSING'', ''ABSENT''} then ''MISSING'' else ''PRESENT'')"

text \<open>
  The upsert of one observed resource: an identifier that another instance, generation, item or
  name already owns is refused.
\<close>

definition resource_matches :: "uuid \<Rightarrow> ProvisionResource \<Rightarrow> resource_row \<Rightarrow> bool" where
  "resource_matches conn r row \<longleftrightarrow>
     rc_connection row = conn \<and> rc_type row = px_Type r \<and> rc_provider_id row = px_ProviderID r"

definition new_resource :: "ProvisionDispatch \<Rightarrow> go_time \<Rightarrow> string \<Rightarrow> ProvisionResource \<Rightarrow> resource_row" where
  "new_resource disp at lifecycle r =
     \<lparr>rc_organization = pd_OrganizationID disp, rc_instance = pd_LabInstanceID disp,
      rc_connection = pd_ProviderConnectionID disp, rc_generation = px_Generation r, rc_type = px_Type r,
      rc_logical_name = px_LogicalName r, rc_provider_id = px_ProviderID r, rc_lifecycle = lifecycle,
      rc_observed_state = px_ObservedState r, rc_created_by = Some (ls_ItemID (pd_Lease disp)),
      rc_last_observed_at = Some at, rc_deleted_at = (if lifecycle = ''DELETED'' then Some at else None),
      rc_cleanup_error = []\<rparr>"

definition upsert_resource :: "ProvisionDispatch \<Rightarrow> go_time \<Rightarrow> ProvisionResource \<Rightarrow> db \<Rightarrow> db option" where
  "upsert_resource disp at r d =
     (let new = new_resource disp at (lifecycle_of (px_ObservedState r)) r in
      case find (resource_matches (pd_ProviderConnectionID disp) r) (db_resources d) of
        None \<Rightarrow> Some (d\<lparr>db_resources := db_resources d @ [new]\<rparr>)
      | Some old \<Rightarrow>
          if rc_organization old = rc_organization new \<and> rc_instance old = rc_instance new
             \<and> rc_generation old = rc_generation new \<and> rc_created_by old = rc_created_by new
             \<and> rc_logical_name old = rc_logical_name new
          then Some (d\<lparr>db_resources := update_rows (resource_matches (pd_ProviderConnectionID disp) r)
                 (\<lambda>x. x\<lparr>rc_lifecycle := rc_lifecycle new, rc_observed_state := rc_observed_state new,
                        rc_last_observed_at := Some at, rc_deleted_at := rc_deleted_at new\<rparr>) (db_resources d)\<rparr>)
          else None)"

fun record_resources ::
  "ProvisionDispatch \<Rightarrow> go_time \<Rightarrow> (string \<times> string) set \<Rightarrow> ProvisionResource list \<Rightarrow> db \<Rightarrow> db option" where
  "record_resources disp at seen [] d = Some d"
| "record_resources disp at seen (r # rs) d =
     (if px_Generation r \<noteq> pd_Generation disp \<or> strings_TrimSpace (px_Type r) = []
         \<or> strings_TrimSpace (px_ProviderID r) = [] \<or> (px_Type r, px_ProviderID r) \<in> seen then None
      else case upsert_resource disp at r d of
          None \<Rightarrow> None
        | Some d' \<Rightarrow> record_resources disp at (insert (px_Type r, px_ProviderID r) seen) rs d')"

definition finish_item :: "ProvisionUpdate \<Rightarrow> go_time \<Rightarrow> item_row \<Rightarrow> item_row" where
  "finish_item u at x =
     x\<lparr>it_status := pu_Status u, it_stage := pu_Stage u, it_error_code := pu_ErrorCode u,
       it_error_message := pu_ErrorMessage u,
       it_finished_at := (if pu_Status u \<in> {''SUCCEEDED'', ''FAILED''} then Some at else None),
       it_lease_owner := (if pu_Status u = ''RUNNING'' then it_lease_owner x else None),
       it_lease_expires_at := (if pu_Status u = ''RUNNING'' then it_lease_expires_at x else None)\<rparr>"

definition readiness_invalid :: "ProvisionUpdate \<Rightarrow> ProvisionUpdate" where
  "readiness_invalid u = u\<lparr>pu_Status := ''RECONCILING'', pu_Stage := ''RECONCILING'',
     pu_ErrorCode := ''readiness_attestation_invalid'',
     pu_ErrorMessage := ''Workspace readiness requires reconciliation''\<rparr>"

definition valid_update_status :: "string \<Rightarrow> bool" where
  "valid_update_status s \<longleftrightarrow> s \<in> {''RUNNING'', ''SUCCEEDED'', ''FAILED'', ''RECONCILING''}"

text \<open>The update that is stored, given whether the readiness attestation holds, and the instance's status.\<close>

definition settle_provision :: "ProvisionUpdate \<Rightarrow> bool \<Rightarrow> ProvisionUpdate" where
  "settle_provision u ready =
     (let u1 = (if pu_Readiness u \<noteq> None \<and> \<not> ready then readiness_invalid u else u)
      in if ready then u1\<lparr>pu_Stage := ''READY''\<rparr> else u1)"

definition provision_instance :: "uuid \<Rightarrow> ProvisionUpdate \<Rightarrow> bool \<Rightarrow> go_time \<Rightarrow> db \<Rightarrow> db" where
  "provision_instance li u ready at d =
     (let d1 = (if pu_Status u = ''FAILED'' then set_instance_status li ''ERROR'' at d else d)
      in if ready then set_instance_status li ''READY'' at d1 else d1)"

text \<open>The transaction after the lock, and the whole operation.\<close>

definition record_provision :: "clock \<Rightarrow> ProvisionUpdate \<Rightarrow> locked_rows \<Rightarrow> unit tx" where
  "record_provision clk u k d =
     (let lease = pd_Lease (pu_Dispatch u); disp = dispatch_of lease [] [] k; at = clk 1 in
      if it_stage (lk_item k) = [] \<or> \<not> sameProvisionDispatch disp (pu_Dispatch u)
        then (Inl KindConstraintViolation, d)
      else case record_resources disp at {} (pu_Resources u) d of
          None \<Rightarrow> (Inl KindConstraintViolation, d)
        | Some d1 \<Rightarrow>
            (let ready = validReadiness disp u; u' = settle_provision u ready
             in if \<not> lease_live (clk 2) lease d1 then (Inl ErrOperationLeaseLost, d1)
                else
                  (let d2 = update_item (ls_ItemID lease) (finish_item u' at) d1;
                       d3 = provision_instance (pd_LabInstanceID disp) u' ready at d2;
                       d4 = aggregateReadiness (pd_LabExecutionID disp) at d3
                   in (Inr (), aggregateProvision (pd_OperationID disp) at d4))))"

definition WriteProvision :: "(uuid \<Rightarrow> string) \<Rightarrow> clock \<Rightarrow> ProvisionUpdate \<Rightarrow> unit tx" where
  "WriteProvision uS clk u d =
     (if \<not> valid_update_status (pu_Status u) then (Inl KindConstraintViolation, d)
      else inTransaction (\<lambda>d.
        case lockProvision uS (clk 0) (pd_Lease (pu_Dispatch u)) d of
          Inl e \<Rightarrow> (Inl e, d)
        | Inr k \<Rightarrow> record_provision clk u k d) d)"

end
