(* ===== verification/Worker_Mutation.thy ===== *)
theory Worker_Mutation
  imports Worker_Provision
begin

text \<open>
  What a worker writes for a RESET or CLEANUP item
  (\<^verbatim>\<open>internal/postgres/mutation_worker.go\<close>). A RESET item carries the generation after
  the instance's; the instance moves to it only when the old resources are confirmed absent and
  the replacement is confirmed complete. A CLEANUP ends its execution only when every resource of
  every instance is confirmed absent.
\<close>

definition gone :: "resource_row \<Rightarrow> bool" where
  "gone r \<longleftrightarrow> rc_lifecycle r \<in> {''DELETED'', ''MISSING''}"

text \<open>\<open>ORDER BY resource_type, provider_id\<close> in the column's collation, here the order of the bytes.\<close>

definition text_key :: "string \<Rightarrow> nat list" where
  "text_key s = map of_char s"

fun lex_le :: "nat list \<Rightarrow> nat list \<Rightarrow> bool" where
  "lex_le [] ys \<longleftrightarrow> True"
| "lex_le (x # xs) [] \<longleftrightarrow> False"
| "lex_le (x # xs) (y # ys) \<longleftrightarrow> x < y \<or> x = y \<and> lex_le xs ys"

definition resource_le :: "resource_row \<Rightarrow> resource_row \<Rightarrow> bool" where
  "resource_le a b \<longleftrightarrow>
     (if rc_type a = rc_type b then lex_le (text_key (rc_provider_id a)) (text_key (rc_provider_id b))
      else lex_le (text_key (rc_type a)) (text_key (rc_type b)))"

fun insert_resource :: "resource_row \<Rightarrow> resource_row list \<Rightarrow> resource_row list" where
  "insert_resource r [] = [r]"
| "insert_resource r (x # xs) = (if resource_le r x then r # x # xs else x # insert_resource r xs)"

definition order_resources :: "resource_row list \<Rightarrow> resource_row list" where
  "order_resources rs = foldr insert_resource rs []"

lemma set_insert_resource [simp]: "set (insert_resource r xs) = insert r (set xs)"
  by (induction xs) auto

lemma set_order_resources [simp]: "set (order_resources rs) = set rs"
  unfolding order_resources_def by (induction rs) auto

definition resource_ref :: "resource_row \<Rightarrow> ProvisionResource" where
  "resource_ref r = \<lparr>px_Type = rc_type r, px_ProviderID = rc_provider_id r, px_LogicalName = rc_logical_name r,
     px_ObservedState = rc_observed_state r, px_Generation = rc_generation r\<rparr>"

definition tracked_row :: "ProvisionDispatch \<Rightarrow> resource_row \<Rightarrow> bool" where
  "tracked_row disp r \<longleftrightarrow>
     rc_instance r = pd_LabInstanceID disp \<and> rc_organization r = pd_OrganizationID disp
   \<and> rc_connection r = pd_ProviderConnectionID disp
   \<and> (pd_MutationType disp = ''RESET'' \<and> rc_generation r = pd_Generation disp - 1
      \<or> pd_MutationType disp = ''CLEANUP'' \<and> \<not> gone r)"

definition mutationResources :: "ProvisionDispatch \<Rightarrow> db \<Rightarrow> ProvisionResource list" where
  "mutationResources disp d = map resource_ref (order_resources (filter (tracked_row disp) (db_resources d)))"

definition mutation_dispatch :: "OperationItemLease \<Rightarrow> locked_rows \<Rightarrow> ProvisionDispatch" where
  "mutation_dispatch lease k = dispatch_of lease (op_type (lk_operation k)) (mutation_previous k) k"

definition PrepareMutation :: "(uuid \<Rightarrow> string) \<Rightarrow> clock \<Rightarrow> OperationItemLease \<Rightarrow> ProvisionDispatch tx" where
  "PrepareMutation uS clk lease =
     inTransaction (\<lambda>d.
       case lockMutation uS (clk 0) lease d of
         Inl e \<Rightarrow> (Inl e, d)
       | Inr k \<Rightarrow>
           (let stage = it_stage (lk_item k); disp0 = mutation_dispatch lease k; refs = mutationResources disp0 d;
                disp = disp0\<lparr>pd_Resources := refs\<rparr>; li = pd_LabInstanceID disp;
                reset = (pd_MutationType disp = ''RESET'')
            in
            if stage \<noteq> [] \<and> stage \<noteq> ''DEFERRED'' then (Inl KindConstraintViolation, d)
            else if reset \<and> (refs = [] \<or> list_ex (\<lambda>r. strings_TrimSpace (px_LogicalName r) = []) refs)
              then (Inl KindConstraintViolation, d)
            else if list_ex (\<lambda>r. rc_instance r = li \<and> \<not> gone r
                      \<and> (rc_connection r \<noteq> pd_ProviderConnectionID disp \<or> rc_generation r > pd_Generation disp
                         \<or> reset \<and> rc_generation r \<noteq> pd_Generation disp - 1)) (db_resources d)
              then (Inl KindConstraintViolation, d)
            else if \<not> lease_live (clk 1) lease d then (Inl ErrOperationLeaseLost, d)
            else
              (let d1 = update_item (ls_ItemID lease)
                     (\<lambda>x. x\<lparr>it_stage := ''DISPATCHING'', it_previous_status := Some (pd_PreviousStatus disp)\<rparr>) d;
                   d2 = set_instance_status li (if pd_MutationType disp = ''CLEANUP'' then ''CLEANING_UP'' else ''RESETTING'') (clk 2) d1;
                   d3 = (if pd_MutationType disp = ''CLEANUP''
                         then update_execution (pd_LabExecutionID disp)
                                (\<lambda>x. x\<lparr>le_status := ''CLEANING_UP'', le_updated_at := clk 3\<rparr>) d2
                         else d2)
               in (Inr disp, d3))))"

section \<open>Aggregation\<close>

definition cleanup_done :: "uuid \<Rightarrow> uuid \<Rightarrow> db \<Rightarrow> bool" where
  "cleanup_done opId e d \<longleftrightarrow>
     list_all (\<lambda>r. it_status r = ''SUCCEEDED'') (items_of_operation opId d)
   \<and> list_all (\<lambda>li. list_ex (\<lambda>r. it_instance r = li_id li) (items_of_operation opId d)) (instances_of_execution e d)
   \<and> list_all (\<lambda>r. list_ex (\<lambda>li. li_id li = rc_instance r) (instances_of_execution e d) \<longrightarrow> gone r) (db_resources d)"

definition mutation_stage :: "operation_row \<Rightarrow> string" where
  "mutation_stage o' =
     (if op_status o' = ''SUCCEEDED'' \<and> op_type o' = ''CLEANUP'' then ''COMPLETED''
      else if op_status o' = ''RUNNING'' then (if op_type o' = ''RESET'' then ''RESETTING'' else ''CLEANING_UP'')
      else op_stage o')"

definition finish_execution :: "uuid \<Rightarrow> uuid \<Rightarrow> go_time \<Rightarrow> db \<Rightarrow> db" where
  "finish_execution opId e at d =
     (let done = cleanup_done opId e d;
          failed = list_ex (\<lambda>r. it_status r = ''FAILED'') (items_of_operation opId d)
      in update_execution e (\<lambda>x. x\<lparr>
           le_status := (if done then ''COMPLETED'' else if failed then ''ERROR'' else ''CLEANING_UP''),
           le_finished_at := (if done then Some at else None), le_updated_at := at\<rparr>) d)"

definition aggregateMutation :: "ProvisionDispatch \<Rightarrow> go_time \<Rightarrow> db \<Rightarrow> db" where
  "aggregateMutation disp at d =
     (let d1 = aggregateProvision (pd_OperationID disp) at d;
          d2 = update_operation (pd_OperationID disp) (\<lambda>o'. o'\<lparr>op_stage := mutation_stage o'\<rparr>) d1
      in if pd_MutationType disp = ''RESET'' then aggregateReadiness (pd_LabExecutionID disp) at d2
         else if pd_MutationType disp = ''CLEANUP''
           then finish_execution (pd_OperationID disp) (pd_LabExecutionID disp) at d2
         else d2)"

definition DeferUnsentMutation :: "(uuid \<Rightarrow> string) \<Rightarrow> clock \<Rightarrow> ProvisionDispatch \<Rightarrow> int \<Rightarrow> unit tx" where
  "DeferUnsentMutation uS clk expected delay d =
     (if delay < 1 then (Inl KindConstraintViolation, d)
      else inTransaction (\<lambda>d.
        let lease = pd_Lease expected in
        case lockMutation uS (clk 0) lease d of
          Inl e \<Rightarrow> (Inl e, d)
        | Inr k \<Rightarrow>
            (let disp = mutation_dispatch lease k in
             if it_stage (lk_item k) \<noteq> ''DISPATCHING'' \<or> \<not> sameProvisionDispatch disp expected
                \<or> pd_MutationType disp \<noteq> pd_MutationType expected
               then (Inl KindConstraintViolation, d)
             else if \<not> lease_live (clk 1) lease d then (Inl ErrOperationLeaseLost, d)
             else
               (let d1 = update_item (ls_ItemID lease) (\<lambda>x. x\<lparr>it_status := ''PENDING'', it_stage := ''DEFERRED'',
                      it_lease_owner := None, it_lease_expires_at := None,
                      it_dispatch_not_before := Some (clk 1 + delay)\<rparr>) d;
                    d2 = set_instance_status (pd_LabInstanceID disp) (pd_PreviousStatus disp) (clk 2) d1
                in (Inr (), aggregateMutation disp (clk 3) d2)))) d)"

section \<open>Results\<close>

record mutation_scan =
  ms_seen :: "(string \<times> string) set"
  ms_allAbsent :: bool
  ms_unchanged :: bool
  ms_replacement :: bool

definition observe_tracked :: "ProvisionDispatch \<Rightarrow> go_time \<Rightarrow> string \<Rightarrow> ProvisionResource \<Rightarrow> db \<Rightarrow> db" where
  "observe_tracked disp at errorCode r d =
     d\<lparr>db_resources := update_rows
         (\<lambda>x. rc_instance x = pd_LabInstanceID disp \<and> resource_matches (pd_ProviderConnectionID disp) r x)
         (\<lambda>x. x\<lparr>rc_lifecycle := lifecycle_of (px_ObservedState r), rc_observed_state := px_ObservedState r,
                rc_last_observed_at := Some at,
                rc_deleted_at := (if px_ObservedState r = ''DELETED'' then Some at else None),
                rc_cleanup_error := errorCode\<rparr>) (db_resources d)\<rparr>"

fun scan_resources ::
  "ProvisionDispatch \<Rightarrow> go_time \<Rightarrow> string \<Rightarrow> ProvisionResource list \<Rightarrow> ProvisionResource list
     \<Rightarrow> mutation_scan \<Rightarrow> db \<Rightarrow> (mutation_scan \<times> db) option" where
  "scan_resources disp at errorCode tracked [] sc d = Some (sc, d)"
| "scan_resources disp at errorCode tracked (r # rs) sc d =
     (let key = (px_Type r, px_ProviderID r); sc1 = sc\<lparr>ms_seen := insert key (ms_seen sc)\<rparr> in
      if strings_TrimSpace (px_Type r) = [] \<or> strings_TrimSpace (px_ProviderID r) = [] \<or> key \<in> ms_seen sc then None
      else case find (\<lambda>t. (px_Type t, px_ProviderID t) = key) tracked of
          Some old \<Rightarrow>
            if px_Generation r \<noteq> px_Generation old \<or> px_LogicalName r \<noteq> px_LogicalName old then None
            else
              (let sc2 = (if absent (px_ObservedState r) then sc1 else sc1\<lparr>ms_allAbsent := False\<rparr>) in
               if px_ObservedState r = ''DELETE_NOT_ATTEMPTED'' then scan_resources disp at errorCode tracked rs sc2 d
               else scan_resources disp at errorCode tracked rs (sc2\<lparr>ms_unchanged := False\<rparr>)
                      (observe_tracked disp at errorCode r d))
        | None \<Rightarrow>
            if pd_MutationType disp \<noteq> ''RESET'' \<or> px_Generation r \<noteq> pd_Generation disp then None
            else if list_ex (resource_matches (pd_ProviderConnectionID disp) r) (db_resources d) then None
            else scan_resources disp at errorCode tracked rs (sc1\<lparr>ms_unchanged := False, ms_replacement := True\<rparr>)
                   (d\<lparr>db_resources := db_resources d @ [new_resource disp at (lifecycle_of (px_ObservedState r)) r]\<rparr>))"

definition mutation_incomplete :: "ProvisionUpdate \<Rightarrow> ProvisionUpdate" where
  "mutation_incomplete u = u\<lparr>pu_Status := ''RECONCILING'', pu_Stage := ''RECONCILING'',
     pu_ErrorCode := ''mutation_result_incomplete'',
     pu_ErrorMessage := ''Resource confirmation requires reconciliation''\<rparr>"

text \<open>Old-resource absence and replacement existence are separate proofs.\<close>

definition result_incomplete :: "ProvisionDispatch \<Rightarrow> ProvisionUpdate \<Rightarrow> bool \<Rightarrow> bool \<Rightarrow> bool \<Rightarrow> bool" where
  "result_incomplete disp u allAbsent hasReplacement complete \<longleftrightarrow>
     pu_Status u = ''SUCCEEDED'' \<and> (\<not> allAbsent \<or> pd_MutationType disp = ''RESET'' \<and> \<not> complete)
   \<or> pd_MutationType disp = ''RESET'' \<and> (hasReplacement \<and> (\<not> allAbsent \<or> \<not> complete)
        \<or> pu_Status u = ''FAILED'' \<and> allAbsent \<and> \<not> complete)"

text \<open>The decisions after the loop: what the item's update becomes, and whether the instance is ready.\<close>

definition settle_mutation :: "ProvisionDispatch \<Rightarrow> ProvisionUpdate \<Rightarrow> bool \<Rightarrow> ProvisionUpdate" where
  "settle_mutation disp u ready =
     (let u2 = (if pu_Readiness u \<noteq> None \<and> \<not> ready then readiness_invalid u else u);
          u3 = (if ready then u2\<lparr>pu_Stage := ''READY''\<rparr> else u2)
      in if pd_MutationType disp = ''CLEANUP'' \<and> pu_Status u3 = ''SUCCEEDED'' then u3\<lparr>pu_Stage := ''COMPLETED''\<rparr> else u3)"

definition decide_mutation ::
  "ProvisionDispatch \<Rightarrow> ProvisionUpdate \<Rightarrow> bool \<Rightarrow> bool \<Rightarrow> ProvisionUpdate \<times> bool \<times> bool" where
  "decide_mutation disp u allAbsent hasReplacement =
     (let reset = (pd_MutationType disp = ''RESET'');
          complete = (reset \<and> resetVMsPresent (pd_Snapshot disp) (pu_Resources u) (pd_Generation disp));
          u1 = (if result_incomplete disp u allAbsent hasReplacement complete then mutation_incomplete u else u);
          ready = (reset \<and> allAbsent \<and> complete \<and> validReadiness disp u1)
      in (settle_mutation disp u1 ready, complete, ready))"

text \<open>The instance's next status and generation.\<close>

definition next_instance :: "ProvisionDispatch \<Rightarrow> ProvisionUpdate \<Rightarrow> bool \<Rightarrow> bool \<Rightarrow> bool \<Rightarrow> bool \<Rightarrow> string \<times> int" where
  "next_instance disp u allAbsent complete ready unchanged =
     (if pd_MutationType disp = ''RESET'' then
        (if pu_Status u = ''RUNNING'' \<or> pu_Status u = ''RECONCILING'' then (''RESETTING'', pd_Generation disp - 1)
         else if pu_Stage u = ''REJECTED'' \<or> pu_Status u = ''FAILED'' \<and> unchanged
           then (pd_PreviousStatus disp, pd_Generation disp - 1)
         else if allAbsent \<and> complete then
           ((if pu_Status u = ''FAILED'' then ''ERROR'' else if ready then ''READY'' else ''PROVISIONING''), pd_Generation disp)
         else (''ERROR'', pd_Generation disp - 1))
      else if pu_Status u = ''SUCCEEDED'' then (''COMPLETED'', pd_Generation disp)
      else if pu_Status u = ''RUNNING'' \<or> pu_Status u = ''RECONCILING'' then (''CLEANING_UP'', pd_Generation disp)
      else (''ERROR'', pd_Generation disp))"

text \<open>The transaction after the lock, and the whole operation.\<close>

definition mutation_unsafe :: "ProvisionDispatch \<Rightarrow> resource_row \<Rightarrow> bool" where
  "mutation_unsafe disp r \<longleftrightarrow> rc_instance r = pd_LabInstanceID disp \<and> \<not> gone r
     \<and> (rc_connection r \<noteq> pd_ProviderConnectionID disp \<or> rc_generation r > pd_Generation disp)"

definition record_mutation :: "clock \<Rightarrow> ProvisionUpdate \<Rightarrow> locked_rows \<Rightarrow> unit tx" where
  "record_mutation clk u k d =
     (let lease = pd_Lease (pu_Dispatch u); disp = mutation_dispatch lease k; stage = it_stage (lk_item k); at = clk 1;
          tracked = mutationResources disp d
      in
      if stage = [] \<or> stage = ''DEFERRED'' \<or> \<not> sameProvisionDispatch disp (pu_Dispatch u)
         \<or> pd_MutationType disp \<noteq> pd_MutationType (pu_Dispatch u)
        then (Inl KindConstraintViolation, d)
      else if list_ex (mutation_unsafe disp) (db_resources d) then (Inl KindConstraintViolation, d)
      else case scan_resources disp at (pu_ErrorCode u) tracked (pu_Resources u)
                  \<lparr>ms_seen = {}, ms_allAbsent = True, ms_unchanged = True, ms_replacement = False\<rparr> d of
          None \<Rightarrow> (Inl KindConstraintViolation, d)
        | Some (sc, d1) \<Rightarrow>
            (let allAbsent = (ms_allAbsent sc \<and> list_all (\<lambda>t. (px_Type t, px_ProviderID t) \<in> ms_seen sc) tracked);
                 (u', complete, ready) = decide_mutation disp u allAbsent (ms_replacement sc)
             in if \<not> lease_live (clk 2) lease d1 then (Inl ErrOperationLeaseLost, d1)
                else
                  (let d2 = update_item (ls_ItemID lease) (finish_item u' at) d1;
                       (st, g) = next_instance disp u' allAbsent complete ready (ms_unchanged sc);
                       d3 = update_instance (pd_LabInstanceID disp)
                              (\<lambda>x. x\<lparr>li_status := st, li_generation := g, li_updated_at := at\<rparr>) d2
                   in (Inr (), aggregateMutation disp at d3))))"

definition WriteMutation :: "(uuid \<Rightarrow> string) \<Rightarrow> clock \<Rightarrow> ProvisionUpdate \<Rightarrow> unit tx" where
  "WriteMutation uS clk u d =
     (if \<not> valid_update_status (pu_Status u) then (Inl KindConstraintViolation, d)
      else inTransaction (\<lambda>d.
        case lockMutation uS (clk 0) (pd_Lease (pu_Dispatch u)) d of
          Inl e \<Rightarrow> (Inl e, d)
        | Inr k \<Rightarrow> record_mutation clk u k d) d)"

end
