(* ===== verification/Worker_Reconciliation.thy ===== *)
theory Worker_Reconciliation
  imports Worker_Mutation
begin

text \<open>
  Reconciliation of items whose outcome is unknown
  (\<^verbatim>\<open>internal/postgres/reconciliation.go\<close>): an item without a live lease is claimed
  for observation only, its known resources are compared with what the Connector observed, and
  only a CLEANUP whose resources are all observed absent ends without a further mutation.
\<close>

record ResourceObservation = ProvisionResource +
  ob_Exists :: bool
  ob_Source :: string

record ReconciliationUpdate =
  ru_Dispatch :: ProvisionDispatch
  ru_Observations :: "ResourceObservation list"
  ru_QueryFailed :: bool
  ru_RetryDelay :: int

definition reconcile_eligible :: "go_time \<Rightarrow> db \<Rightarrow> item_row \<Rightarrow> bool" where
  "reconcile_eligible now d i \<longleftrightarrow>
     it_status i \<in> {''RUNNING'', ''RECONCILING''} \<and> it_finished_at i = None
   \<and> (case it_lease_expires_at i of None \<Rightarrow> True | Some t \<Rightarrow> t \<le> now)
   \<and> (case operation_of (it_operation i) d of
        None \<Rightarrow> False
      | Some o' \<Rightarrow> op_organization o' = it_organization i \<and> op_status o' \<in> {''RUNNING'', ''RECONCILING''}
          \<and> op_finished_at o' = None \<and> op_type o' \<in> {''PROVISION'', ''RESET'', ''CLEANUP''})"

definition take_reconcile_lease :: "uuid \<Rightarrow> go_time \<Rightarrow> item_row \<Rightarrow> item_row" where
  "take_reconcile_lease owner until i =
     i\<lparr>it_status := ''RECONCILING'', it_stage := ''RECONCILING'', it_lease_owner := Some owner,
       it_lease_expires_at := Some until\<rparr>"

text \<open>The claim of a reconciliation names only the item, its operation and its status; every other
  field of the returned item has its zero value.\<close>

definition claimed_item :: "item_row \<Rightarrow> item_row" where
  "claimed_item i =
     \<lparr>it_id = it_id i, it_organization = uuid_Nil, it_operation = it_operation i, it_instance = uuid_Nil,
      it_generation = 0, it_status = ''RECONCILING'', it_stage = [], it_lease_owner = None,
      it_lease_expires_at = None, it_error_code = [], it_error_message = [], it_created_at = 0,
      it_started_at = None, it_finished_at = None, it_dispatch_not_before = None, it_previous_status = None\<rparr>"

definition ClaimReconciliation :: "clock \<Rightarrow> (uuid \<Rightarrow> bool) \<Rightarrow> uuid \<Rightarrow> int \<Rightarrow> OperationItemClaim tx" where
  "ClaimReconciliation clk skip owner duration d =
     (if owner = uuid_Nil \<or> duration < 1 then (Inl KindConstraintViolation, d)
      else inTransaction (\<lambda>d.
        case claim_candidate skip (reconcile_eligible (clk 0) d)
               (\<lambda>i. (it_lease_expires_at i, it_created_at i, it_id i)) d of
          None \<Rightarrow> (Inl KindNotFound, d)
        | Some i \<Rightarrow>
            (let d1 = update_item (it_id i) (take_reconcile_lease owner (clk 1 + duration)) d;
                 d2 = aggregateProvision (it_operation i) (clk 2) d1
             in case operation_of (it_operation i) d2 of
                  None \<Rightarrow> (Inl KindNotFound, d2)
                | Some o' \<Rightarrow>
                    (Inr \<lparr>clm_Operation = o', clm_Item = claimed_item i,
                          clm_Lease = \<lparr>ls_ItemID = it_id i, ls_Owner = owner\<rparr>, clm_ExpiresAt = clk 1 + duration\<rparr>, d2))) d)"

definition RenewReconciliation :: "(uuid \<Rightarrow> string) \<Rightarrow> clock \<Rightarrow> OperationItemLease \<Rightarrow> int \<Rightarrow> go_time tx" where
  "RenewReconciliation uS clk lease duration d =
     (if duration < 1 then (Inl KindConstraintViolation, d)
      else inTransaction (\<lambda>d.
        case lockReconciliation uS (clk 0) lease d of
          Inl e \<Rightarrow> (Inl e, d)
        | Inr k \<Rightarrow>
            if \<not> lease_live (clk 1) lease d then (Inl ErrOperationLeaseLost, d)
            else (Inr (clk 1 + duration),
                  update_item (ls_ItemID lease) (\<lambda>x. x\<lparr>it_lease_expires_at := Some (clk 1 + duration)\<rparr>) d)) d)"

definition reconciliation_row :: "ProvisionDispatch \<Rightarrow> resource_row \<Rightarrow> bool" where
  "reconciliation_row disp r \<longleftrightarrow>
     rc_organization r = pd_OrganizationID disp \<and> rc_instance r = pd_LabInstanceID disp
   \<and> rc_connection r = pd_ProviderConnectionID disp"

definition reconciliationResources :: "ProvisionDispatch \<Rightarrow> db \<Rightarrow> ProvisionResource list" where
  "reconciliationResources disp d = map resource_ref (order_resources (filter (reconciliation_row disp) (db_resources d)))"

definition reconcile_dispatch :: "OperationItemLease \<Rightarrow> locked_rows \<Rightarrow> ProvisionDispatch" where
  "reconcile_dispatch lease k = dispatch_of lease (op_type (lk_operation k)) [] k"

definition PrepareReconciliation :: "(uuid \<Rightarrow> string) \<Rightarrow> clock \<Rightarrow> OperationItemLease \<Rightarrow> ProvisionDispatch tx" where
  "PrepareReconciliation uS clk lease =
     inTransaction (\<lambda>d.
       case lockReconciliation uS (clk 0) lease d of
         Inl e \<Rightarrow> (Inl e, d)
       | Inr k \<Rightarrow>
           (let disp = reconcile_dispatch lease k in
            (Inr (disp\<lparr>pd_Resources := reconciliationResources disp d\<rparr>), d)))"

section \<open>Observations\<close>

definition contradictory :: "ResourceObservation \<Rightarrow> ProvisionResource \<Rightarrow> bool" where
  "contradictory ob r \<longleftrightarrow>
     px_Generation ob \<noteq> px_Generation r \<or> px_LogicalName ob \<noteq> px_LogicalName r
   \<or> ob_Exists ob \<and> (px_ObservedState ob \<in> {[], ''UNKNOWN''} \<or> absent (px_ObservedState ob))
   \<or> \<not> ob_Exists ob \<and> px_ObservedState ob \<noteq> [] \<and> \<not> absent (px_ObservedState ob)"

text \<open>The validation of the batch: the keys seen, the accepted observations, and whether it is complete so far.\<close>

fun scan_observations ::
  "ProvisionResource list \<Rightarrow> ResourceObservation list \<Rightarrow> (string \<times> string) set \<Rightarrow> bool
     \<Rightarrow> ((string \<times> string) set \<times> ResourceObservation list \<times> bool) option" where
  "scan_observations tracked [] seen complete = Some (seen, [], complete)"
| "scan_observations tracked (ob # obs) seen complete =
     (let key = (px_Type ob, px_ProviderID ob) in
      case find (\<lambda>t. (px_Type t, px_ProviderID t) = key) tracked of
        None \<Rightarrow> scan_observations tracked obs seen False
      | Some r \<Rightarrow>
          if ob_Source ob \<noteq> ''KNOWN_RESOURCE'' then scan_observations tracked obs seen False
          else if key \<in> seen \<or> contradictory ob r then None
          else
            (case scan_observations tracked obs (insert key seen) (complete \<and> \<not> ob_Exists ob) of
               None \<Rightarrow> None
             | Some (seen', valid, complete') \<Rightarrow> Some (seen', ob # valid, complete')))"

definition observe_resource :: "ProvisionDispatch \<Rightarrow> go_time \<Rightarrow> ResourceObservation \<Rightarrow> db \<Rightarrow> db" where
  "observe_resource disp at ob d =
     d\<lparr>db_resources := update_rows
         (\<lambda>x. reconciliation_row disp x \<and> rc_type x = px_Type ob \<and> rc_provider_id x = px_ProviderID ob)
         (\<lambda>x. x\<lparr>rc_lifecycle := (if ob_Exists ob then ''PRESENT'' else ''MISSING''),
                rc_observed_state := (if ob_Exists ob then px_ObservedState ob else ''MISSING''),
                rc_last_observed_at := Some at,
                rc_deleted_at := (if ob_Exists ob then None else rc_deleted_at x)\<rparr>) (db_resources d)\<rparr>"

definition hold_item :: "bool \<Rightarrow> go_time \<Rightarrow> go_time \<Rightarrow> item_row \<Rightarrow> item_row" where
  "hold_item finished at retryAt x =
     (if finished
      then x\<lparr>it_status := ''SUCCEEDED'', it_stage := ''COMPLETED'', it_finished_at := Some at, it_lease_owner := None,
             it_lease_expires_at := None, it_error_code := [], it_error_message := []\<rparr>
      else x\<lparr>it_status := ''RECONCILING'', it_stage := ''HOLD'', it_finished_at := None, it_lease_owner := None,
             it_lease_expires_at := Some retryAt, it_error_code := ''reconciliation_hold'',
             it_error_message := ''Operation outcome requires reconciliation''\<rparr>)"

text \<open>The transaction after the lock, and the whole operation.\<close>

definition reconcile_unsafe :: "ProvisionDispatch \<Rightarrow> resource_row \<Rightarrow> bool" where
  "reconcile_unsafe disp r \<longleftrightarrow> rc_instance r = pd_LabInstanceID disp
     \<and> (rc_organization r \<noteq> pd_OrganizationID disp \<or> rc_connection r \<noteq> pd_ProviderConnectionID disp
        \<or> rc_generation r > pd_Generation disp)"

definition record_reconciliation :: "clock \<Rightarrow> ReconciliationUpdate \<Rightarrow> locked_rows \<Rightarrow> unit tx" where
  "record_reconciliation clk u k d =
     (let lease = pd_Lease (ru_Dispatch u); disp = reconcile_dispatch lease k; refs = reconciliationResources disp d;
          at = clk 1; unsafe = list_ex (reconcile_unsafe disp) (db_resources d)
      in
      if \<not> sameProvisionDispatch disp (ru_Dispatch u) \<or> pd_MutationType disp \<noteq> pd_MutationType (ru_Dispatch u)
        then (Inl KindConstraintViolation, d)
      else if refs \<noteq> pd_Resources (ru_Dispatch u) then (Inl KindConstraintViolation, d)
      else case scan_observations refs (ru_Observations u) {} (\<not> ru_QueryFailed u \<and> \<not> unsafe) of
          None \<Rightarrow> (Inl KindConstraintViolation, d)
        | Some (seen, valid, complete0) \<Rightarrow>
            (let complete = (complete0 \<and> list_all (\<lambda>t. (px_Type t, px_ProviderID t) \<in> seen) refs);
                 d1 = (if \<not> ru_QueryFailed u \<and> \<not> unsafe then fold (observe_resource disp at) valid d else d);
                 finished = (complete \<and> pd_MutationType disp = ''CLEANUP'')
             in if \<not> lease_live (clk 2) lease d1 then (Inl ErrOperationLeaseLost, d1)
                else
                  (let d2 = update_item (ls_ItemID lease) (hold_item finished at (clk 2 + ru_RetryDelay u)) d1;
                       d3 = (if finished then set_instance_status (pd_LabInstanceID disp) ''COMPLETED'' at d2 else d2)
                   in (Inr (), if pd_MutationType disp = ''CLEANUP'' then aggregateMutation disp at d3
                               else aggregateProvision (pd_OperationID disp) at d3))))"

definition WriteReconciliation :: "(uuid \<Rightarrow> string) \<Rightarrow> clock \<Rightarrow> ReconciliationUpdate \<Rightarrow> unit tx" where
  "WriteReconciliation uS clk u d =
     (if ru_RetryDelay u < 1 then (Inl KindConstraintViolation, d)
      else inTransaction (\<lambda>d.
        case lockReconciliation uS (clk 0) (pd_Lease (ru_Dispatch u)) d of
          Inl e \<Rightarrow> (Inl e, d)
        | Inr k \<Rightarrow> record_reconciliation clk u k d) d)"

end
