(* ===== verification/Worker_Fencing.thy ===== *)
theory Worker_Fencing
  imports Worker_Reconciliation
begin

text \<open>
  The lease as a fence. Every transaction of a worker carries its lease; the locale
  \<open>fenced_tx\<close> states what each of them promises, and the system of all worker transactions
  shows that while a lease is live nobody but its owner changes the item.
\<close>

section \<open>The contract of a fenced transaction\<close>

definition holds_lease :: "go_time \<Rightarrow> OperationItemLease \<Rightarrow> db \<Rightarrow> bool" where
  "holds_lease now lease d \<longleftrightarrow>
     (\<exists>i t. item_of (ls_ItemID lease) d = Some i \<and> it_lease_owner i = Some (ls_Owner lease)
        \<and> it_status i \<in> {''RUNNING'', ''RECONCILING''} \<and> it_finished_at i = None
        \<and> it_lease_expires_at i = Some t \<and> now < t)"

locale fenced_tx =
  fixes run :: "clock \<Rightarrow> 'a tx" and lease :: OperationItemLease
  assumes needs_lease: "run clk d = (Inr x, d') \<Longrightarrow> holds_lease (clk 0) lease d"
    and keeps_others: "run clk d = (Inr x, d') \<Longrightarrow> k \<noteq> ls_ItemID lease \<Longrightarrow> item_of k d' = item_of k d"
    and keeps_ids: "run clk d = (Inr x, d') \<Longrightarrow> map it_id (db_items d') = map it_id (db_items d)"
    and rolls_back: "run clk d = (Inl e, d') \<Longrightarrow> d' = d"
begin

lemma stale_lease_changes_nothing:
  assumes "\<not> holds_lease (clk 0) lease d"
  shows "snd (run clk d) = d \<and> isl (fst (run clk d))"
proof (cases "run clk d")
  case (Pair res d')
  then show ?thesis using assms needs_lease rolls_back by (cases res) auto
qed

lemma same_ids: "map it_id (db_items (snd (run clk d))) = map it_id (db_items d)"
proof (cases "run clk d")
  case (Pair res d')
  then show ?thesis by (cases res) (auto dest: keeps_ids rolls_back)
qed

text \<open>Another owner's live lease on the item stops the transaction.\<close>

lemma foreign_lease_untouched:
  assumes "item_of k d = Some i" "it_lease_owner i = Some owner" "owner \<noteq> ls_Owner lease"
  shows "item_of k (snd (run clk d)) = Some i"
proof (cases "run clk d")
  case (Pair res d')
  show ?thesis
  proof (cases res)
    case (Inl e)
    then show ?thesis using Pair rolls_back assms by auto
  next
    case (Inr x)
    then have "holds_lease (clk 0) lease d" using Pair needs_lease by blast
    then have "k \<noteq> ls_ItemID lease" using assms by (auto simp: holds_lease_def)
    then show ?thesis using Pair Inr keeps_others assms by auto
  qed
qed

end

lemma inTransaction_rolls_back: "inTransaction fn d = (Inl e, d') \<Longrightarrow> d' = d"
  by (rule inTransaction_error)

section \<open>The locks prove ownership\<close>

lemma join_rows_item: "join_rows i d = Some k \<Longrightarrow> item_of i d = Some (lk_item k)"
  by (auto simp: join_rows_def split: option.splits if_splits)

lemma join_rows_instance:
  "join_rows i d = Some k \<Longrightarrow> instance_of (it_instance (lk_item k)) d = Some (lk_instance k)
     \<and> execution_of (li_execution (lk_instance k)) d = Some (lk_execution k)
     \<and> operation_of (it_operation (lk_item k)) d = Some (lk_operation k)"
  by (auto simp: join_rows_def split: option.splits if_splits)

lemma owned_holds:
  assumes "join_rows (ls_ItemID lease) d = Some k" "owned_rows lease st ops k" "check_locked uS now k = None"
    "st \<in> {''RUNNING'', ''RECONCILING''}"
  shows "holds_lease now lease d"
  using assms join_rows_item [OF assms(1)]
  by (auto simp: holds_lease_def owned_rows_def check_locked_def split: option.splits if_splits)

lemma lockProvision_rows:
  "lockProvision uS now lease d = Inr k \<Longrightarrow>
     holds_lease now lease d \<and> join_rows (ls_ItemID lease) d = Some k
     \<and> li_generation (lk_instance k) = it_generation (lk_item k) \<and> owned_rows lease ''RUNNING'' {''RUNNING''} k"
  unfolding lockProvision_def by (auto split: if_splits option.splits intro: owned_holds)

lemma lockMutation_rows:
  "lockMutation uS now lease d = Inr k \<Longrightarrow>
     holds_lease now lease d \<and> join_rows (ls_ItemID lease) d = Some k \<and> owned_rows lease ''RUNNING'' {''RUNNING''} k
     \<and> (op_type (lk_operation k) = ''RESET'' \<and> it_generation (lk_item k) = li_generation (lk_instance k) + 1
        \<or> op_type (lk_operation k) = ''CLEANUP'' \<and> it_generation (lk_item k) = li_generation (lk_instance k))"
  unfolding lockMutation_def by (auto split: if_splits option.splits intro: owned_holds)

lemma lockReconciliation_rows:
  "lockReconciliation uS now lease d = Inr k \<Longrightarrow>
     holds_lease now lease d \<and> join_rows (ls_ItemID lease) d = Some k
     \<and> owned_rows lease ''RECONCILING'' {''RUNNING'', ''RECONCILING''} k"
  unfolding lockReconciliation_def by (auto split: if_splits option.splits intro: owned_holds)

section \<open>What the writes leave alone\<close>

named_theorems items_same \<open>operations that do not touch the item table\<close>

lemma set_instance_status_items [items_same, simp]: "db_items (set_instance_status li st at d) = db_items d"
  by (simp add: set_instance_status_def)

lemma provision_instance_items [items_same, simp]: "db_items (provision_instance li u ready at d) = db_items d"
  by (simp add: provision_instance_def Let_def)

lemma aggregate_items [items_same, simp]:
  "db_items (aggregateProvision o' at d) = db_items d" "db_items (aggregateReadiness e at d) = db_items d"
  "db_items (finish_execution o' e at d) = db_items d"
  by (simp_all add: aggregateProvision_def aggregateReadiness_def finish_execution_def Let_def)

lemma aggregateMutation_items [items_same, simp]: "db_items (aggregateMutation disp at d) = db_items d"
  by (simp add: aggregateMutation_def Let_def)

lemma upsert_items: "upsert_resource disp at r d = Some d' \<Longrightarrow> db_items d' = db_items d"
  by (auto simp: upsert_resource_def Let_def split: option.splits if_splits)

lemma record_resources_items: "record_resources disp at seen rs d = Some d' \<Longrightarrow> db_items d' = db_items d"
  by (induction rs arbitrary: seen d) (auto split: if_splits option.splits dest: upsert_items)

lemma scan_resources_items:
  "scan_resources disp at ec tracked rs sc d = Some (sc', d') \<Longrightarrow> db_items d' = db_items d"
proof (induction rs arbitrary: sc d)
  case Nil
  then show ?case by simp
next
  case (Cons r rs)
  have "db_items (observe_tracked disp at ec r d) = db_items d" by (simp add: observe_tracked_def)
  with Cons show ?case
    by (auto simp: Let_def split: if_splits option.splits)
qed

lemma observe_fold_items [simp]: "db_items (fold (observe_resource disp at) obs d) = db_items d"
  by (induction obs arbitrary: d) (simp_all add: observe_resource_def)

lemma item_of_cong: "db_items d' = db_items d \<Longrightarrow> item_of k d' = item_of k d"
  by simp

section \<open>Every worker transaction is fenced\<close>

interpretation renew: fenced_tx "\<lambda>clk. RenewOperationItemLease clk lease duration" lease for lease duration
  by unfold_locales
    (auto simp: RenewOperationItemLease_def inTransaction_def holds_lease_def
      split: if_splits option.splits)

interpretation prepare_provision: fenced_tx "\<lambda>clk. PrepareProvision uS clk lease" lease for uS lease
  by unfold_locales
    (auto simp: PrepareProvision_def inTransaction_def Let_def dest: lockProvision_rows
      split: if_splits sum.splits)

interpretation defer_provision: fenced_tx "\<lambda>clk. DeferUnsentProvision uS clk expected delay" "pd_Lease expected"
  for uS expected delay
  by unfold_locales
    (auto simp: DeferUnsentProvision_def inTransaction_def Let_def dest: lockProvision_rows
      split: if_splits sum.splits)

interpretation write_provision: fenced_tx "\<lambda>clk. WriteProvision uS clk u" "pd_Lease (pu_Dispatch u)" for uS u
  by unfold_locales
    (auto simp: WriteProvision_def record_provision_def inTransaction_def Let_def finish_item_def dest!: lockProvision_rows record_resources_items
      split: if_splits sum.splits option.splits)

interpretation prepare_mutation: fenced_tx "\<lambda>clk. PrepareMutation uS clk lease" lease for uS lease
  by unfold_locales
    (auto simp: PrepareMutation_def inTransaction_def Let_def dest: lockMutation_rows
      split: if_splits sum.splits)

interpretation defer_mutation: fenced_tx "\<lambda>clk. DeferUnsentMutation uS clk expected delay" "pd_Lease expected"
  for uS expected delay
  by unfold_locales
    (auto simp: DeferUnsentMutation_def inTransaction_def Let_def dest: lockMutation_rows
      split: if_splits sum.splits)

interpretation write_mutation: fenced_tx "\<lambda>clk. WriteMutation uS clk u" "pd_Lease (pu_Dispatch u)" for uS u
  by unfold_locales
    (auto simp: WriteMutation_def record_mutation_def inTransaction_def Let_def finish_item_def dest!: lockMutation_rows scan_resources_items
      split: if_splits sum.splits option.splits prod.splits)

interpretation renew_reconciliation: fenced_tx "\<lambda>clk. RenewReconciliation uS clk lease duration" lease for uS lease duration
  by unfold_locales
    (auto simp: RenewReconciliation_def inTransaction_def dest: lockReconciliation_rows
      split: if_splits sum.splits)

interpretation prepare_reconciliation: fenced_tx "\<lambda>clk. PrepareReconciliation uS clk lease" lease for uS lease
  by unfold_locales
    (auto simp: PrepareReconciliation_def inTransaction_def Let_def dest: lockReconciliation_rows
      split: if_splits sum.splits)

interpretation write_reconciliation: fenced_tx "\<lambda>clk. WriteReconciliation uS clk u" "pd_Lease (ru_Dispatch u)" for uS u
  by unfold_locales
    (auto simp: WriteReconciliation_def record_reconciliation_def inTransaction_def Let_def hold_item_def dest!: lockReconciliation_rows
      split: if_splits sum.splits option.splits prod.splits)

section \<open>The system of all workers\<close>

text \<open>
  Every transaction with which any worker of any process reaches the item table. A schedule is the
  sequence in which they commit, each with its own clock readings.
\<close>

datatype worker_tx =
    ClaimTx "uuid \<Rightarrow> bool" uuid int string
  | RenewTx OperationItemLease int
  | PrepareProvisionTx OperationItemLease
  | DeferProvisionTx ProvisionDispatch int
  | WriteProvisionTx ProvisionUpdate
  | PrepareMutationTx OperationItemLease
  | DeferMutationTx ProvisionDispatch int
  | WriteMutationTx ProvisionUpdate
  | ClaimReconciliationTx "uuid \<Rightarrow> bool" uuid int
  | RenewReconciliationTx OperationItemLease int
  | PrepareReconciliationTx OperationItemLease
  | WriteReconciliationTx ReconciliationUpdate

definition refused :: "(repo_error + 'a) \<times> db \<Rightarrow> repo_error option \<times> db" where
  "refused r = (case fst r of Inl e \<Rightarrow> Some e | Inr _ \<Rightarrow> None, snd r)"

primrec worker_exec :: "(uuid \<Rightarrow> string) \<Rightarrow> clock \<Rightarrow> worker_tx \<Rightarrow> db \<Rightarrow> repo_error option \<times> db" where
  "worker_exec uS clk (ClaimTx skip owner dur ty) d = refused (claimOperationItem clk skip owner dur ty d)"
| "worker_exec uS clk (RenewTx lease dur) d = refused (RenewOperationItemLease clk lease dur d)"
| "worker_exec uS clk (PrepareProvisionTx lease) d = refused (PrepareProvision uS clk lease d)"
| "worker_exec uS clk (DeferProvisionTx disp delay) d = refused (DeferUnsentProvision uS clk disp delay d)"
| "worker_exec uS clk (WriteProvisionTx u) d = refused (WriteProvision uS clk u d)"
| "worker_exec uS clk (PrepareMutationTx lease) d = refused (PrepareMutation uS clk lease d)"
| "worker_exec uS clk (DeferMutationTx disp delay) d = refused (DeferUnsentMutation uS clk disp delay d)"
| "worker_exec uS clk (WriteMutationTx u) d = refused (WriteMutation uS clk u d)"
| "worker_exec uS clk (ClaimReconciliationTx skip owner dur) d = refused (ClaimReconciliation clk skip owner dur d)"
| "worker_exec uS clk (RenewReconciliationTx lease dur) d = refused (RenewReconciliation uS clk lease dur d)"
| "worker_exec uS clk (PrepareReconciliationTx lease) d = refused (PrepareReconciliation uS clk lease d)"
| "worker_exec uS clk (WriteReconciliationTx u) d = refused (WriteReconciliation uS clk u d)"

text \<open>The lease a transaction presents; a claim presents none.\<close>

primrec worker_lease :: "worker_tx \<Rightarrow> OperationItemLease option" where
  "worker_lease (ClaimTx skip owner dur ty) = None"
| "worker_lease (RenewTx lease dur) = Some lease"
| "worker_lease (PrepareProvisionTx lease) = Some lease"
| "worker_lease (DeferProvisionTx disp delay) = Some (pd_Lease disp)"
| "worker_lease (WriteProvisionTx u) = Some (pd_Lease (pu_Dispatch u))"
| "worker_lease (PrepareMutationTx lease) = Some lease"
| "worker_lease (DeferMutationTx disp delay) = Some (pd_Lease disp)"
| "worker_lease (WriteMutationTx u) = Some (pd_Lease (pu_Dispatch u))"
| "worker_lease (ClaimReconciliationTx skip owner dur) = None"
| "worker_lease (RenewReconciliationTx lease dur) = Some lease"
| "worker_lease (PrepareReconciliationTx lease) = Some lease"
| "worker_lease (WriteReconciliationTx u) = Some (pd_Lease (ru_Dispatch u))"

definition worker_run :: "(uuid \<Rightarrow> string) \<Rightarrow> (clock \<times> worker_tx) list \<Rightarrow> db \<Rightarrow> db" where
  "worker_run uS sched d = fold (\<lambda>(clk, w) d. snd (worker_exec uS clk w d)) sched d"

lemma refused_simps [simp]: "snd (refused r) = snd r" "(fst (refused r) = None) = (\<not> isl (fst r))"
  by (auto simp: refused_def split: sum.splits)

section \<open>Claims\<close>

lemma claim_candidate_eligible:
  "claim_candidate skip P key d = Some i \<Longrightarrow> i \<in> set (db_items d) \<and> P i \<and> \<not> skip (it_id i)"
proof -
  assume "claim_candidate skip P key d = Some i"
  then obtain rest where "sort_key key (filter (\<lambda>i. P i \<and> \<not> skip (it_id i)) (db_items d)) = i # rest"
    by (auto simp: claim_candidate_def split: list.splits)
  then have "i \<in> set (filter (\<lambda>i. P i \<and> \<not> skip (it_id i)) (db_items d))"
    by (metis list.set_intros(1) set_sort)
  then show ?thesis by simp
qed

lemma claim_candidate_least:
  assumes "claim_candidate skip P key d = Some i" "j \<in> set (db_items d)" "P j" "\<not> skip (it_id j)"
  shows "key i \<le> key j"
proof -
  let ?xs = "filter (\<lambda>i. P i \<and> \<not> skip (it_id i)) (db_items d)"
  obtain rest where s: "sort_key key ?xs = i # rest"
    using assms(1) by (auto simp: claim_candidate_def split: list.splits)
  have "sorted (map key (i # rest))" using s by (metis sorted_sort_key)
  moreover have "j \<in> set (i # rest)"
  proof -
    have "j \<in> set ?xs" using assms by simp
    then show ?thesis using s by (metis set_sort)
  qed
  ultimately show ?thesis by auto
qed

lemma claim_candidate_None:
  "claim_candidate skip P key d = None \<Longrightarrow> j \<in> set (db_items d) \<Longrightarrow> P j \<Longrightarrow> skip (it_id j)"
proof (rule ccontr)
  assume a: "claim_candidate skip P key d = None" "j \<in> set (db_items d)" "P j" "\<not> skip (it_id j)"
  then have "sort_key key (filter (\<lambda>i. P i \<and> \<not> skip (it_id i)) (db_items d)) = []"
    by (auto simp: claim_candidate_def split: list.splits)
  then have "set (filter (\<lambda>i. P i \<and> \<not> skip (it_id i)) (db_items d)) = {}" by (metis set_empty2 set_sort)
  then show False using a by auto
qed

lemma claimOperationItem_items:
  assumes "claimOperationItem clk skip owner dur ty d = (r, d')"
  shows "db_items d' = db_items d \<or>
    (\<exists>i. i \<in> set (db_items d) \<and> it_status i = ''PENDING''
       \<and> db_items d' = db_items (update_item (it_id i) (take_lease owner (clk 1) dur) d))"
  using assms
  by (auto simp: claimOperationItem_def inTransaction_def Let_def claim_eligible_def
      dest!: claim_candidate_eligible split: if_splits option.splits)

lemma ClaimReconciliation_items:
  assumes "ClaimReconciliation clk skip owner dur d = (r, d')"
  shows "db_items d' = db_items d \<or>
    (\<exists>i. i \<in> set (db_items d) \<and> (\<forall>t. it_lease_expires_at i = Some t \<longrightarrow> t \<le> clk 0)
       \<and> db_items d' = db_items (update_item (it_id i) (take_reconcile_lease owner (clk 1 + dur)) d))"
  using assms
  by (auto simp: ClaimReconciliation_def inTransaction_def Let_def reconcile_eligible_def
      dest!: claim_candidate_eligible split: if_splits option.splits)

lemma claim_keeps_leased:
  assumes "distinct (map it_id (db_items d))" "item_of k d = Some i" "j \<in> set (db_items d)"
    "i \<noteq> j" "db_items d' = db_items (update_item (it_id j) f d)" "\<And>r. it_id (f r) = it_id r"
  shows "item_of k d' = Some i"
proof -
  have "it_id j \<noteq> k" using assms row_by_distinct by fastforce
  then show ?thesis using assms by simp
qed

lemma leases_keep_ids [simp]:
  "it_id (take_lease o' at dur r) = it_id r" "it_id (take_reconcile_lease o' until r) = it_id r"
  by (simp_all add: take_lease_def take_reconcile_lease_def)

lemma worker_exec_ids: "map it_id (db_items (snd (worker_exec uS clk w d))) = map it_id (db_items d)"
proof (cases w)
  case (ClaimTx skip owner dur ty)
  obtain r d' where "claimOperationItem clk skip owner dur ty d = (r, d')" by fastforce
  then show ?thesis using claimOperationItem_items [of clk skip owner dur ty d r d'] ClaimTx by auto
next
  case (ClaimReconciliationTx skip owner dur)
  obtain r d' where "ClaimReconciliation clk skip owner dur d = (r, d')" by fastforce
  then show ?thesis using ClaimReconciliation_items [of clk skip owner dur d r d'] ClaimReconciliationTx by auto
qed (simp_all add: renew.same_ids prepare_provision.same_ids defer_provision.same_ids write_provision.same_ids
    prepare_mutation.same_ids defer_mutation.same_ids write_mutation.same_ids renew_reconciliation.same_ids
    prepare_reconciliation.same_ids write_reconciliation.same_ids)

lemmas fenced_foreign =
  renew.foreign_lease_untouched prepare_provision.foreign_lease_untouched defer_provision.foreign_lease_untouched
  write_provision.foreign_lease_untouched prepare_mutation.foreign_lease_untouched
  defer_mutation.foreign_lease_untouched write_mutation.foreign_lease_untouched
  renew_reconciliation.foreign_lease_untouched prepare_reconciliation.foreign_lease_untouched
  write_reconciliation.foreign_lease_untouched

lemmas fenced_stale =
  renew.stale_lease_changes_nothing prepare_provision.stale_lease_changes_nothing
  defer_provision.stale_lease_changes_nothing write_provision.stale_lease_changes_nothing
  prepare_mutation.stale_lease_changes_nothing defer_mutation.stale_lease_changes_nothing
  write_mutation.stale_lease_changes_nothing renew_reconciliation.stale_lease_changes_nothing
  prepare_reconciliation.stale_lease_changes_nothing write_reconciliation.stale_lease_changes_nothing

definition leased_to :: "uuid \<Rightarrow> go_time \<Rightarrow> item_row \<Rightarrow> bool" where
  "leased_to owner t i \<longleftrightarrow>
     it_lease_owner i = Some owner \<and> it_status i \<in> {''RUNNING'', ''RECONCILING''} \<and> it_lease_expires_at i = Some t"

lemma worker_exec_foreign:
  assumes ids: "distinct (map it_id (db_items d))" and i: "item_of k d = Some i" and l: "leased_to owner t i"
    and now: "clk 0 < t" and w: "\<And>lease. worker_lease w = Some lease \<Longrightarrow> ls_Owner lease \<noteq> owner"
  shows "item_of k (snd (worker_exec uS clk w d)) = Some i"
proof (cases w)
  case (ClaimTx skip owner' dur ty)
  obtain r d' where c: "claimOperationItem clk skip owner' dur ty d = (r, d')" by fastforce
  then have "item_of k d' = Some i"
    using claimOperationItem_items [OF c]
  proof (elim disjE exE conjE)
    fix j
    assume j: "j \<in> set (db_items d)" "it_status j = ''PENDING''"
      "db_items d' = db_items (update_item (it_id j) (take_lease owner' (clk 1) dur) d)"
    moreover have "i \<noteq> j" using l j by (auto simp: leased_to_def)
    ultimately show ?thesis
      using claim_keeps_leased [OF ids i, of j d' "take_lease owner' (clk 1) dur"] leases_keep_ids by blast
  qed (use i in simp)
  then show ?thesis using ClaimTx c by simp
next
  case (ClaimReconciliationTx skip owner' dur)
  obtain r d' where c: "ClaimReconciliation clk skip owner' dur d = (r, d')" by fastforce
  then have "item_of k d' = Some i"
    using ClaimReconciliation_items [OF c]
  proof (elim disjE exE conjE)
    fix j
    assume j: "j \<in> set (db_items d)" "\<forall>t. it_lease_expires_at j = Some t \<longrightarrow> t \<le> clk 0"
      "db_items d' = db_items (update_item (it_id j) (take_reconcile_lease owner' (clk 1 + dur)) d)"
    moreover have "i \<noteq> j" using l now j by (auto simp: leased_to_def)
    ultimately show ?thesis
      using claim_keeps_leased [OF ids i, of j d' "take_reconcile_lease owner' (clk 1 + dur)"] leases_keep_ids by blast
  qed (use i in simp)
  then show ?thesis using ClaimReconciliationTx c by simp
qed (use i l w in \<open>auto simp: leased_to_def intro!: fenced_foreign\<close>)

section \<open>The guarantees\<close>

lemma worker_run_ids: "map it_id (db_items (worker_run uS sched d)) = map it_id (db_items d)"
  unfolding worker_run_def by (induction sched arbitrary: d) (auto simp: worker_exec_ids)

text \<open>
  C1: Mutual exclusion by lease. Take an item that is leased to a worker until \<open>t\<close>. In every
  schedule of worker transactions that commits before \<open>t\<close> and holds no transaction under that
  worker's lease, whoever else claims, renews, prepares, defers, writes or reconciles, and with
  whatever arguments, the item's row stays exactly as it is.
\<close>

theorem live_lease_exclusive:
  assumes "distinct (map it_id (db_items d))" and "item_of k d = Some i" and "leased_to owner t i"
    and "\<forall>(clk, w) \<in> set sched. clk 0 < t \<and> (\<forall>lease. worker_lease w = Some lease \<longrightarrow> ls_Owner lease \<noteq> owner)"
  shows "item_of k (worker_run uS sched d) = Some i"
  using assms
proof (induction sched arbitrary: d)
  case Nil
  then show ?case by (simp add: worker_run_def)
next
  case (Cons cw sched)
  obtain clk w where cw: "cw = (clk, w)" by fastforce
  let ?d = "snd (worker_exec uS clk w d)"
  have "item_of k ?d = Some i"
    using Cons.prems cw by (intro worker_exec_foreign) auto
  moreover have "distinct (map it_id (db_items ?d))" using Cons.prems by (simp only: worker_exec_ids)
  ultimately have "item_of k (worker_run uS sched ?d) = Some i" using Cons.IH Cons.prems by simp
  then show ?case by (simp add: worker_run_def cw)
qed

definition demo_intruders :: "(clock \<times> worker_tx) list" where
  "demo_intruders =
     [(demo_clock 100, ClaimTx (\<lambda>_. False) 77 60 []),
      (demo_clock 200, ClaimReconciliationTx (\<lambda>_. False) 77 60),
      (demo_clock 300, RenewTx \<lparr>ls_ItemID = 9, ls_Owner = 77\<rparr> 60),
      (demo_clock 400, PrepareProvisionTx \<lparr>ls_ItemID = 9, ls_Owner = 77\<rparr>)]"

theorem live_lease_exclusive_witness:
  "item_of 9 (worker_run demo_uS demo_intruders (demo_db ''PROVISION'' [demo_item 1 []] [] ''PENDING''))
     = Some (demo_item 1 [])"
  by (rule live_lease_exclusive [where t = 1000 and owner = 7])
     (simp_all add: demo_defs demo_intruders_def leased_to_def row_by_def)

text \<open>
  C7: A worker without a live lease can do nothing. Whatever transaction a worker commits with a lease
  that it does not hold (another owner took the item, the item ended, it was put back, or the lease
  ran out before the row locks were taken), the transaction is refused and the database is the one
  of before.
\<close>

theorem stale_lease_refused:
  assumes "worker_lease w = Some lease" and "\<not> holds_lease (clk 0) lease d"
  shows "fst (worker_exec uS clk w d) \<noteq> None \<and> snd (worker_exec uS clk w d) = d"
  using assms by (cases w) (simp_all add: fenced_stale)

theorem stale_lease_refused_witness:
  "\<not> holds_lease (demo_clock 2000 0) \<lparr>ls_ItemID = 9, ls_Owner = 7\<rparr> (demo_db ''PROVISION'' [demo_item 1 []] [] ''PENDING'')
   \<and> snd (worker_exec demo_uS (demo_clock 2000) (PrepareProvisionTx \<lparr>ls_ItemID = 9, ls_Owner = 7\<rparr>)
            (demo_db ''PROVISION'' [demo_item 1 []] [] ''PENDING''))
       = demo_db ''PROVISION'' [demo_item 1 []] [] ''PENDING''"
proof -
  have "\<not> holds_lease (demo_clock 2000 0) \<lparr>ls_ItemID = 9, ls_Owner = 7\<rparr> (demo_db ''PROVISION'' [demo_item 1 []] [] ''PENDING'')"
    by (simp add: holds_lease_def demo_defs row_by_def)
  then show ?thesis
    using stale_lease_refused [of "PrepareProvisionTx \<lparr>ls_ItemID = 9, ls_Owner = 7\<rparr>"] by simp
qed

text \<open>
  What a claim does. A claim that succeeds returns the item that was created first (ties by
  identifier) among the items that are due, whose operation is open and has the wanted type, and that
  no other transaction holds; it was PENDING, is now RUNNING and leased to the caller until the stated
  time, its operation runs, and no other item changes. A claim fails only when its arguments are
  invalid or no such item exists, and then it changes nothing.
\<close>

lemma claimOperationItem_spec:
  assumes "distinct (map it_id (db_items d))"
  shows "case claimOperationItem clk skip owner duration ty d of
      (Inr c, d') \<Rightarrow>
        (\<exists>i. item_of (it_id i) d = Some i \<and> claim_eligible (clk 0) ty d i \<and> \<not> skip (it_id i)
           \<and> (\<forall>j \<in> set (db_items d). claim_eligible (clk 0) ty d j \<and> \<not> skip (it_id j)
                \<longrightarrow> (it_created_at i, it_id i) \<le> (it_created_at j, it_id j))
           \<and> clm_Lease c = \<lparr>ls_ItemID = it_id i, ls_Owner = owner\<rparr>
           \<and> item_of (it_id i) d' = Some (clm_Item c) \<and> leased_to owner (clm_ExpiresAt c) (clm_Item c)
           \<and> clm_ExpiresAt c = clk 1 + duration
           \<and> operation_of (it_operation i) d' = Some (clm_Operation c) \<and> op_status (clm_Operation c) = ''RUNNING''
           \<and> (\<forall>k. k \<noteq> it_id i \<longrightarrow> item_of k d' = item_of k d))
    | (Inl e, d') \<Rightarrow> d' = d \<and> (owner = uuid_Nil \<or> duration < 1
           \<or> (\<forall>j \<in> set (db_items d). claim_eligible (clk 0) ty d j \<longrightarrow> skip (it_id j)))"
proof -
  let ?key = "\<lambda>i. (it_created_at i, it_id i)"
  show ?thesis
  proof (cases "owner = uuid_Nil \<or> duration < 1")
    case True
    then show ?thesis by (auto simp: claimOperationItem_def)
  next
    case False
    show ?thesis
    proof (cases "claim_candidate skip (claim_eligible (clk 0) ty d) ?key d")
      case None
      then show ?thesis using False claim_candidate_None [OF None]
        by (auto simp: claimOperationItem_def inTransaction_def)
    next
      case (Some i)
      note el = claim_candidate_eligible [OF Some]
      have item: "item_of (it_id i) d = Some i" using el assms by (intro row_by_distinct) auto
      obtain o' where o': "operation_of (it_operation i) d = Some o'"
        using el by (auto simp: claim_eligible_def split: option.splits)
      show ?thesis
        using False Some el item o' claim_candidate_least [OF Some]
        by (auto simp: claimOperationItem_def inTransaction_def Let_def start_operation_def leased_to_def take_lease_def
            intro!: exI [of _ i])
    qed
  qed
qed

lemma claimOperationItem_spec_witness:
  "\<exists>c. fst (claimOperationItem (demo_clock 100) (\<lambda>_. False) 77 60 []
         (demo_db ''PROVISION'' [(demo_item 1 [])\<lparr>it_status := ''PENDING''\<rparr>] [] ''PENDING'')) = Inr c"
proof -
  let ?i = "(demo_item 1 [])\<lparr>it_status := ''PENDING''\<rparr>" and ?skip = "\<lambda>_. False"
  let ?d = "demo_db ''PROVISION'' [?i] [] ''PENDING''" and ?clk = "demo_clock 100"
  let ?r = "claimOperationItem ?clk ?skip 77 60 [] ?d"
  have el: "claim_eligible (?clk 0) [] ?d ?i" "?i \<in> set (db_items ?d)" "distinct (map it_id (db_items ?d))"
    by (simp_all add: demo_defs claim_eligible_def row_by_def)
  show ?thesis
  proof (cases "fst ?r")
    case (Inl e)
    then have "\<forall>j \<in> set (db_items ?d). \<not> claim_eligible (?clk 0) [] ?d j"
      using claimOperationItem_spec [OF el(3), where clk = ?clk and skip = ?skip and owner = 77 and duration = 60 and ty = "[]"]
      by (simp add: case_prod_beta)
    then show ?thesis using el by blast
  qed blast
qed

end
