(* ===== verification/Worker_Outcomes.thy ===== *)
theory Worker_Outcomes
  imports Worker_Fencing
begin

text \<open>
  What a recorded result means. A RESET reaches its new generation only over evidence that the old
  resources are gone and the new ones are the snapshot's, and an execution is released only when a
  cleanup has confirmed every resource of every instance absent. The evidence is what
  \<^verbatim>\<open>WriteMutation\<close> stores while it scans the reported resources.
\<close>

section \<open>The replacement of a RESET\<close>

abbreviation good_state :: "ProvisionResource \<Rightarrow> bool" where
  "good_state r \<equiv> \<not> absent (px_ObservedState r) \<and> px_ObservedState r \<notin> {[], ''UNKNOWN'', ''DELETE_NOT_ATTEMPTED''}"

abbreviation servers :: "int \<Rightarrow> ProvisionResource list \<Rightarrow> ProvisionResource list" where
  "servers g rs \<equiv> filter (\<lambda>r. px_Generation r = g \<and> px_Type r = ''SERVER'') rs"

lemma required_keys_Some:
  "required_keys req ks = Some req' \<longleftrightarrow>
     (\<forall>k \<in> set ks. strings_TrimSpace k \<noteq> [] \<and> req k = None) \<and> distinct ks
     \<and> req' = (\<lambda>k. if k \<in> set ks then Some 0 else req k)"
  by (induction ks arbitrary: req) auto

lemma fresh_key:
  "(\<forall>x \<in> A. P x \<and> ((req :: string \<Rightarrow> nat option)(n \<mapsto> 1)) (f x) = Some 0) \<longleftrightarrow> (\<forall>x \<in> A. P x \<and> req (f x) = Some 0) \<and> n \<notin> f ` A"
  by (auto split: if_splits)

lemma count_servers_Some:
  "count_servers req g rs = Some req' \<longleftrightarrow>
     (\<forall>r \<in> set rs. px_Generation r = g \<longrightarrow> good_state r)
     \<and> (\<forall>r \<in> set (servers g rs). px_ObservedState r = ''ACTIVE'' \<and> req (px_LogicalName r) = Some 0)
     \<and> distinct (map px_LogicalName (servers g rs))
     \<and> req' = (\<lambda>k. if k \<in> px_LogicalName ` set (servers g rs) then Some 1 else req k)"
proof (induction rs arbitrary: req)
  case Nil
  then show ?case by auto
next
  case (Cons r rs)
  show ?case
  proof (cases "px_Generation r = g \<and> good_state r \<and> px_Type r = ''SERVER'' \<and> req (px_LogicalName r) = Some 0
      \<and> px_ObservedState r = ''ACTIVE''")
    case True
    let ?n = "px_LogicalName r" and ?S = "servers g rs"
    have step: "count_servers req g (r # rs) = count_servers (req(?n \<mapsto> 1)) g rs"
      and cons: "servers g (r # rs) = r # ?S" using True by (simp_all add: absent_def)
    have upd: "(\<lambda>k. if k \<in> px_LogicalName ` set ?S then Some 1 else (req(?n \<mapsto> 1)) k)
        = (\<lambda>k. if k \<in> px_LogicalName ` set (r # ?S) then Some 1 else req k)" by auto
    have free: "(\<forall>x \<in> set ?S. px_ObservedState x = ''ACTIVE'' \<and> (req(?n \<mapsto> 1)) (px_LogicalName x) = Some 0) \<longleftrightarrow>
        (\<forall>x \<in> set ?S. px_ObservedState x = ''ACTIVE'' \<and> req (px_LogicalName x) = Some 0)
        \<and> ?n \<notin> px_LogicalName ` set ?S" by (rule fresh_key)
    show ?thesis unfolding step Cons.IH upd free cons using True by (auto simp: absent_def)
  next
    case False
    then consider "px_Generation r \<noteq> g" | "px_Generation r = g" "\<not> good_state r"
      | "px_Generation r = g" "good_state r" "px_Type r \<noteq> ''SERVER''"
      | "px_Generation r = g" "good_state r" "px_Type r = ''SERVER''" "req (px_LogicalName r) \<noteq> Some 0 \<or> px_ObservedState r \<noteq> ''ACTIVE''"
      by blast
    then show ?thesis
    proof cases
      case 2
      then have none: "count_servers req g (r # rs) = None" by simp
      have bad: "\<not> (\<forall>x \<in> set (r # rs). px_Generation x = g \<longrightarrow> good_state x)"
        using 2 bspec [of "set (r # rs)" _ r] by fastforce
      show ?thesis unfolding none by (intro iffI) (simp, use bad in blast)
    next
      case 4
      then have "count_servers req g (r # rs) = None" by (simp split: option.split, blast)
      then show ?thesis using 4 by auto
    qed (simp_all add: Cons.IH)
  qed
qed

text \<open>
  C8: What counts as a complete replacement. \<open>resetVMsPresent\<close> accepts a reported resource list for a
  generation exactly when the stored snapshot names at least one VM, its VM keys are distinct and not
  blank, no resource of that generation is reported absent, unknown or untouched, and the servers of
  that generation are, one to one, the VMs of the snapshot, all of them ACTIVE.
\<close>

theorem resetVMsPresent_iff:
  "resetVMsPresent snapshot rs g \<longleftrightarrow>
     (case snapshot of None \<Rightarrow> False | Some spec \<Rightarrow>
        cs_VMs spec \<noteq> [] \<and> distinct (map vm_VMKey (cs_VMs spec))
        \<and> list_all (\<lambda>vm. strings_TrimSpace (vm_VMKey vm) \<noteq> []) (cs_VMs spec)
        \<and> list_all good_state (filter (\<lambda>r. px_Generation r = g) rs)
        \<and> list_all (\<lambda>r. px_ObservedState r = ''ACTIVE'') (servers g rs)
        \<and> distinct (map px_LogicalName (servers g rs))
        \<and> px_LogicalName ` set (servers g rs) = vm_VMKey ` set (cs_VMs spec))"
proof (cases snapshot)
  case (Some spec)
  let ?keys = "map vm_VMKey (cs_VMs spec)" and ?zero = "\<lambda>k. if k \<in> set (map vm_VMKey (cs_VMs spec)) then Some 0 else None"
  have "resetVMsPresent snapshot rs g \<longleftrightarrow>
      ?keys \<noteq> [] \<and> required_keys (\<lambda>_. None) ?keys = Some ?zero
      \<and> (\<exists>counted. count_servers ?zero g rs = Some counted \<and> list_all (\<lambda>k. counted k = Some 1) ?keys)"
  proof (cases "required_keys (\<lambda>_. None) ?keys")
    case None
    then show ?thesis by (simp add: resetVMsPresent_def Some Let_def)
  next
    case (Some req)
    then have "req = ?zero" using required_keys_Some [of "\<lambda>_. None" ?keys req] by simp
    then show ?thesis using Some
      by (auto simp: resetVMsPresent_def \<open>snapshot = Some spec\<close> Let_def split: option.splits)
  qed
  then show ?thesis
    unfolding Some required_keys_Some count_servers_Some
    by (auto simp: list_all_iff split: if_splits)
qed (simp add: resetVMsPresent_def)

section \<open>Recorded observations\<close>

abbreviation rkey :: "ProvisionResource \<Rightarrow> string \<times> string" where
  "rkey r \<equiv> (px_Type r, px_ProviderID r)"

abbreviation row_key :: "resource_row \<Rightarrow> string \<times> string" where
  "row_key x \<equiv> (rc_type x, rc_provider_id x)"

abbreviation on_connection :: "ProvisionDispatch \<Rightarrow> resource_row \<Rightarrow> bool" where
  "on_connection disp x \<equiv> rc_instance x = pd_LabInstanceID disp \<and> rc_connection x = pd_ProviderConnectionID disp"

definition same_identity :: "resource_row \<Rightarrow> resource_row \<Rightarrow> bool" where
  "same_identity a b \<longleftrightarrow>
     rc_organization a = rc_organization b \<and> rc_instance a = rc_instance b \<and> rc_connection a = rc_connection b
   \<and> rc_generation a = rc_generation b \<and> rc_type a = rc_type b \<and> rc_provider_id a = rc_provider_id b
   \<and> rc_created_by a = rc_created_by b \<and> rc_logical_name a = rc_logical_name b"

text \<open>While all tracked resources seen so far were absent, their rows are recorded as gone.\<close>

definition scan_inv :: "ProvisionDispatch \<Rightarrow> ProvisionResource list \<Rightarrow> mutation_scan \<Rightarrow> db \<Rightarrow> bool" where
  "scan_inv disp tracked sc d \<longleftrightarrow>
     (ms_allAbsent sc \<longrightarrow>
        (\<forall>x \<in> set (db_resources d). on_connection disp x \<and> row_key x \<in> ms_seen sc \<inter> rkey ` set tracked \<longrightarrow> gone x))"

lemma gone_lifecycle: "gone (x\<lparr>rc_lifecycle := lifecycle_of s, rc_observed_state := s, rc_last_observed_at := a,
    rc_deleted_at := b, rc_cleanup_error := c\<rparr>) \<longleftrightarrow> absent s"
  by (auto simp: gone_def lifecycle_of_def absent_def)

lemma observe_tracked_row:
  assumes "y \<in> set (db_resources (observe_tracked disp at ec r d))"
  shows "\<exists>x \<in> set (db_resources d). same_identity x y
    \<and> (if on_connection disp x \<and> row_key x = rkey r then gone y = absent (px_ObservedState r) else y = x)"
proof -
  obtain x where x: "x \<in> set (db_resources d)"
    "y = (if rc_instance x = pd_LabInstanceID disp \<and> resource_matches (pd_ProviderConnectionID disp) r x
          then x\<lparr>rc_lifecycle := lifecycle_of (px_ObservedState r), rc_observed_state := px_ObservedState r,
                 rc_last_observed_at := Some at,
                 rc_deleted_at := (if px_ObservedState r = ''DELETED'' then Some at else None), rc_cleanup_error := ec\<rparr>
          else x)"
    using assms by (auto simp: observe_tracked_def elim: in_update_rows)
  then show ?thesis
    by (intro bexI [of _ x]) (auto simp: same_identity_def gone_lifecycle resource_matches_def)
qed

lemma observe_tracked_inv:
  assumes "scan_inv disp tracked sc d" "rkey r \<notin> ms_seen sc"
    "ms_seen sc' = insert (rkey r) (ms_seen sc)" "ms_allAbsent sc' = (ms_allAbsent sc \<and> absent (px_ObservedState r))"
  shows "scan_inv disp tracked sc' (observe_tracked disp at ec r d)"
  unfolding scan_inv_def
proof (intro impI ballI)
  fix y
  assume all: "ms_allAbsent sc'" and y: "y \<in> set (db_resources (observe_tracked disp at ec r d))"
    and key: "on_connection disp y \<and> row_key y \<in> ms_seen sc' \<inter> rkey ` set tracked"
  obtain x where x: "x \<in> set (db_resources d)"
    "if on_connection disp x \<and> row_key x = rkey r then gone y = absent (px_ObservedState r) else y = x"
    using observe_tracked_row [OF y] by blast
  show "gone y"
  proof (cases "on_connection disp x \<and> row_key x = rkey r")
    case True
    then show ?thesis using x(2) all assms(4) by simp
  next
    case False
    then have "y = x" using x(2) by simp
    with False key assms x(1) all show ?thesis unfolding scan_inv_def by auto
  qed
qed

lemma find_key_Some: "find (\<lambda>t. rkey t = key) tracked = Some old \<Longrightarrow> key \<in> rkey ` set tracked"
  by (induction tracked) (auto split: if_splits)

lemma find_key_None: "find (\<lambda>t. rkey t = key) tracked = None \<Longrightarrow> key \<notin> rkey ` set tracked"
  by (auto simp: find_None_iff)

lemma scan_resources_inv:
  "scan_resources disp at ec tracked rs sc d = Some (sc', d') \<Longrightarrow> scan_inv disp tracked sc d \<Longrightarrow> scan_inv disp tracked sc' d'"
proof (induction rs arbitrary: sc d)
  case Nil
  then show ?case by simp
next
  case (Cons r rs)
  let ?sc = "sc\<lparr>ms_seen := insert (rkey r) (ms_seen sc)\<rparr>"
  have fresh: "rkey r \<notin> ms_seen sc" using Cons.prems(1) by (auto simp: Let_def split: if_splits)
  show ?case
  proof (cases "find (\<lambda>t. rkey t = rkey r) tracked")
    case None
    have "scan_inv disp tracked (?sc\<lparr>ms_unchanged := False, ms_replacement := True\<rparr>)
        (d\<lparr>db_resources := db_resources d @ [new_resource disp at (lifecycle_of (px_ObservedState r)) r]\<rparr>)"
      using Cons.prems(2) find_key_None [OF None] by (auto simp: scan_inv_def new_resource_def)
    then show ?thesis using Cons.IH Cons.prems(1) None by (auto simp: Let_def split: if_splits)
  next
    case (Some old)
    let ?sc2 = "if absent (px_ObservedState r) then ?sc else ?sc\<lparr>ms_allAbsent := False\<rparr>"
    have a: "scan_inv disp tracked (?sc2\<lparr>ms_unchanged := False\<rparr>) (observe_tracked disp at ec r d)"
      by (rule observe_tracked_inv [OF Cons.prems(2) fresh]) auto
    have b: "scan_inv disp tracked ?sc2 d" if "px_ObservedState r = ''DELETE_NOT_ATTEMPTED''"
      using that by (auto simp: scan_inv_def absent_def)
    show ?thesis using Cons.IH [OF _ a] Cons.IH [OF _ b] Cons.prems(1) Some
      by (auto simp: Let_def split: if_splits)
  qed
qed

text \<open>A row after the scan is a row of before with the same identity, or new and of the item's generation.\<close>

lemma scan_resources_rows:
  "scan_resources disp at ec tracked rs sc d = Some (sc', d') \<Longrightarrow> x' \<in> set (db_resources d') \<Longrightarrow>
     (\<exists>x \<in> set (db_resources d). same_identity x x' \<and> (rc_lifecycle x' = rc_lifecycle x \<or> row_key x \<in> rkey ` set tracked \<and> on_connection disp x))
     \<or> pd_MutationType disp = ''RESET'' \<and> rc_generation x' = pd_Generation disp"
proof (induction rs arbitrary: sc d)
  case Nil
  then show ?case by (auto simp: same_identity_def)
next
  case (Cons r rs)
  let ?d1 = "observe_tracked disp at ec r d"
    and ?d2 = "d\<lparr>db_resources := db_resources d @ [new_resource disp at (lifecycle_of (px_ObservedState r)) r]\<rparr>"
  show ?case
  proof (cases "find (\<lambda>t. rkey t = rkey r) tracked")
    case None
    then obtain sc1 where "scan_resources disp at ec tracked rs sc1 ?d2 = Some (sc', d')"
      and r: "pd_MutationType disp = ''RESET''" "px_Generation r = pd_Generation disp"
      using Cons.prems(1) by (auto simp: Let_def split: if_splits)
    note ih = Cons.IH [OF this(1) Cons.prems(2)]
    have "rc_generation x' = pd_Generation disp"
      if "same_identity (new_resource disp at (lifecycle_of (px_ObservedState r)) r) x'"
      using that r by (simp add: new_resource_def same_identity_def)
    then show ?thesis using ih r(1) by auto
  next
    case (Some old)
    then have key: "rkey r \<in> rkey ` set tracked"
      by (rule find_key_Some)
    obtain sc1 d1 where "scan_resources disp at ec tracked rs sc1 d1 = Some (sc', d')" and d1: "d1 = d \<or> d1 = ?d1"
      using Cons.prems(1) Some by (auto simp: Let_def split: if_splits)
    note ih = Cons.IH [OF this(1) Cons.prems(2)]
    have obs: "\<exists>y \<in> set (db_resources d). same_identity y x
        \<and> (rc_lifecycle x = rc_lifecycle y \<or> row_key y \<in> rkey ` set tracked \<and> on_connection disp y)"
      if x: "x \<in> set (db_resources d1)" for x
      using d1
    proof
      assume "d1 = ?d1"
      then obtain y where y: "y \<in> set (db_resources d)" "same_identity y x"
        "if on_connection disp y \<and> row_key y = rkey r then gone x = absent (px_ObservedState r) else x = y"
        using observe_tracked_row x by blast
      then show ?thesis using key by (intro bexI [of _ y]) (auto split: if_splits)
    qed (use x in \<open>auto simp: same_identity_def\<close>)
    show ?thesis using ih
    proof
      assume "\<exists>x \<in> set (db_resources d1). same_identity x x'
        \<and> (rc_lifecycle x' = rc_lifecycle x \<or> row_key x \<in> rkey ` set tracked \<and> on_connection disp x)"
      then obtain x where x: "x \<in> set (db_resources d1)" "same_identity x x'"
        "rc_lifecycle x' = rc_lifecycle x \<or> row_key x \<in> rkey ` set tracked \<and> on_connection disp x" by blast
      from obs [OF x(1)] obtain y where "y \<in> set (db_resources d)" "same_identity y x"
        "rc_lifecycle x = rc_lifecycle y \<or> row_key y \<in> rkey ` set tracked \<and> on_connection disp y" by blast
      with x(2,3) show ?thesis by (auto simp: same_identity_def)
    qed blast
  qed
qed

section \<open>A successful result write\<close>

abbreviation scan_start :: mutation_scan where
  "scan_start \<equiv> \<lparr>ms_seen = {}, ms_allAbsent = True, ms_unchanged = True, ms_replacement = False\<rparr>"

lemma WriteMutation_ok:
  assumes "WriteMutation uS clk u d = (Inr x, d')"
  obtains k disp sc d1 allAbsent u' complete ready where
    "lockMutation uS (clk 0) (pd_Lease (pu_Dispatch u)) d = Inr k" "disp = mutation_dispatch (pd_Lease (pu_Dispatch u)) k"
    "scan_resources disp (clk 1) (pu_ErrorCode u) (mutationResources disp d) (pu_Resources u) scan_start d = Some (sc, d1)"
    "allAbsent = (ms_allAbsent sc \<and> list_all (\<lambda>t. rkey t \<in> ms_seen sc) (mutationResources disp d))"
    "decide_mutation disp u allAbsent (ms_replacement sc) = (u', complete, ready)"
    "\<forall>r \<in> set (db_resources d). \<not> mutation_unsafe disp r"
    "sameProvisionDispatch disp (pu_Dispatch u)" "pd_MutationType disp = pd_MutationType (pu_Dispatch u)"
    "d' = aggregateMutation disp (clk 1) (update_instance (pd_LabInstanceID disp)
       (\<lambda>x. x\<lparr>li_status := fst (next_instance disp u' allAbsent complete ready (ms_unchanged sc)),
              li_generation := snd (next_instance disp u' allAbsent complete ready (ms_unchanged sc)),
              li_updated_at := clk 1\<rparr>)
       (update_item (ls_ItemID (pd_Lease (pu_Dispatch u))) (finish_item u' (clk 1)) d1))"
proof -
  let ?lease = "pd_Lease (pu_Dispatch u)"
  obtain k where k: "lockMutation uS (clk 0) ?lease d = Inr k" and run: "record_mutation clk u k d = (Inr x, d')"
    using assms by (auto simp: WriteMutation_def inTransaction_ok split: if_splits sum.splits)
  let ?disp = "mutation_dispatch ?lease k"
  from run obtain sc d1 where
    sc: "scan_resources ?disp (clk 1) (pu_ErrorCode u) (mutationResources ?disp d) (pu_Resources u) scan_start d = Some (sc, d1)"
    by (auto simp: record_mutation_def Let_def split: if_splits option.splits prod.splits)
  define allAbsent where "allAbsent = (ms_allAbsent sc \<and> list_all (\<lambda>t. rkey t \<in> ms_seen sc) (mutationResources ?disp d))"
  obtain u' complete ready where dec: "decide_mutation ?disp u allAbsent (ms_replacement sc) = (u', complete, ready)"
    by (metis prod_cases3)
  show thesis
    by (rule that [OF k refl sc allAbsent_def dec])
       (use run sc dec in \<open>auto simp: record_mutation_def Let_def allAbsent_def [symmetric] list_ex_iff case_prod_beta
          split: if_splits\<close>)
qed

lemma absence_recorded:
  assumes scan: "scan_resources disp at ec (mutationResources disp d) rs scan_start d = Some (sc, d1)"
    and all: "ms_allAbsent sc" "list_all (\<lambda>t. rkey t \<in> ms_seen sc) (mutationResources disp d)"
    and y: "y \<in> set (db_resources d1)" and x: "x \<in> set (db_resources d)" "same_identity x y" "tracked_row disp x"
  shows "gone y"
proof -
  have tracked: "rkey (resource_ref x) \<in> rkey ` set (mutationResources disp d)"
    using x by (auto simp: mutationResources_def)
  then have "rkey (resource_ref x) \<in> ms_seen sc" using all(2) by (auto simp: list_all_iff)
  moreover have "on_connection disp y" "row_key y = rkey (resource_ref x)"
    using x by (auto simp: same_identity_def tracked_row_def resource_ref_def)
  moreover have "scan_inv disp (mutationResources disp d) sc d1"
    by (rule scan_resources_inv [OF scan]) (simp add: scan_inv_def)
  ultimately show ?thesis using y all(1) tracked unfolding scan_inv_def by auto
qed

lemma incomplete_not_ready: "\<not> validReadiness disp (mutation_incomplete u)"
  by (simp add: validReadiness_def mutation_incomplete_def split: option.splits)

lemma decide_mutation_complete:
  assumes "decide_mutation disp u allAbsent hasRep = (u', complete, ready)"
  shows "complete \<longleftrightarrow> pd_MutationType disp = ''RESET'' \<and> resetVMsPresent (pd_Snapshot disp) (pu_Resources u) (pd_Generation disp)"
    and "ready \<Longrightarrow> pd_MutationType disp = ''RESET'' \<and> allAbsent \<and> complete \<and> validReadiness disp u"
    and "u' = settle_mutation disp (if result_incomplete disp u allAbsent hasRep complete then mutation_incomplete u else u) ready"
  using assms incomplete_not_ready [of disp u] by (auto simp: decide_mutation_def Let_def split: if_splits)

lemma settle_mutation_status: "pu_Status (settle_mutation disp u ready) \<in> {pu_Status u, ''RECONCILING''}"
  by (simp add: settle_mutation_def Let_def readiness_invalid_def)

lemma decide_mutation_status:
  assumes "decide_mutation disp u allAbsent hasRep = (u', complete, ready)" "pu_Status u' = ''SUCCEEDED''"
  shows "allAbsent \<and> (pd_MutationType disp = ''RESET'' \<longrightarrow> complete)"
proof -
  let ?u1 = "if result_incomplete disp u allAbsent hasRep complete then mutation_incomplete u else u"
  have "pu_Status ?u1 = ''SUCCEEDED''"
    using settle_mutation_status [of disp ?u1 ready] decide_mutation_complete(3) [OF assms(1)] assms(2) by auto
  then have "\<not> result_incomplete disp u allAbsent hasRep complete" "pu_Status u = ''SUCCEEDED''"
    by (auto simp: mutation_incomplete_def split: if_splits)
  then show ?thesis by (auto simp: result_incomplete_def)
qed

lemma next_instance_generation:
  assumes "snd (next_instance disp u allAbsent complete ready unchanged)
      \<noteq> (if pd_MutationType disp = ''RESET'' then pd_Generation disp - 1 else pd_Generation disp)"
  shows "pd_MutationType disp = ''RESET'' \<and> allAbsent \<and> complete
    \<and> snd (next_instance disp u allAbsent complete ready unchanged) = pd_Generation disp"
  using assms by (simp add: next_instance_def split: if_splits)

lemma aggregateMutation_fields [simp]:
  "db_instances (aggregateMutation disp at d) = db_instances d" "db_resources (aggregateMutation disp at d) = db_resources d"
  by (simp_all add: aggregateMutation_def aggregateProvision_def aggregateReadiness_def finish_execution_def Let_def)

lemma scan_resources_instances:
  "scan_resources disp at ec tracked rs sc d = Some (sc', d') \<Longrightarrow> db_instances d' = db_instances d \<and> db_executions d' = db_executions d"
proof (induction rs arbitrary: sc d)
  case (Cons r rs)
  have "db_instances (observe_tracked disp at ec r d) = db_instances d" "db_executions (observe_tracked disp at ec r d) = db_executions d"
    by (simp_all add: observe_tracked_def)
  with Cons show ?case by (auto simp: Let_def split: if_splits option.splits)
qed simp

lemma dispatch_fields [simp]:
  "pd_LabInstanceID (mutation_dispatch lease k) = it_instance (lk_item k)"
  "pd_OrganizationID (mutation_dispatch lease k) = it_organization (lk_item k)"
  "pd_OperationID (mutation_dispatch lease k) = it_operation (lk_item k)"
  "pd_LabExecutionID (mutation_dispatch lease k) = li_execution (lk_instance k)"
  "pd_Generation (mutation_dispatch lease k) = it_generation (lk_item k)"
  "pd_Snapshot (mutation_dispatch lease k) = sn_snapshot (lk_snapshot k)"
  "pd_MutationType (mutation_dispatch lease k) = op_type (lk_operation k)"
  by (simp_all add: mutation_dispatch_def dispatch_of_def)

lemma join_rows_organization:
  "join_rows i d = Some k \<Longrightarrow> li_organization (lk_instance k) = it_organization (lk_item k) \<and> li_id (lk_instance k) = it_instance (lk_item k)"
  by (auto simp: join_rows_def split: option.splits if_splits dest: row_by_key)

text \<open>
  C3: A RESET moves to its new generation only over confirmed evidence. If recording a result changes
  the generation of the instance, then the operation is a RESET, the new generation is the old one
  plus one and the one the item was registered for, the reported resources of the new generation are
  exactly the snapshot's VMs, all running, and every resource recorded for the old generation on that
  connection is confirmed deleted or missing.
\<close>

theorem reset_generation_confirmed:
  assumes "WriteMutation uS clk u d = (Inr x, d')"
    and "instance_of (pd_LabInstanceID (pu_Dispatch u)) d = Some li"
    and "instance_of (pd_LabInstanceID (pu_Dispatch u)) d' = Some li'"
    and "li_generation li' \<noteq> li_generation li"
  shows "pd_MutationType (pu_Dispatch u) = ''RESET''
    \<and> li_generation li' = li_generation li + 1 \<and> li_generation li' = pd_Generation (pu_Dispatch u)
    \<and> (\<exists>k. lockMutation uS (clk 0) (pd_Lease (pu_Dispatch u)) d = Inr k
          \<and> resetVMsPresent (sn_snapshot (lk_snapshot k)) (pu_Resources u) (li_generation li'))
    \<and> (\<forall>r \<in> set (db_resources d'). rc_instance r = li_id li \<and> rc_organization r = li_organization li
          \<and> rc_connection r = pd_ProviderConnectionID (pu_Dispatch u) \<and> rc_generation r = li_generation li \<longrightarrow> gone r)"
  using assms(1)
proof (rule WriteMutation_ok)
  fix k disp sc d1 allAbsent u' complete ready
  assume k: "lockMutation uS (clk 0) (pd_Lease (pu_Dispatch u)) d = Inr k"
    and disp: "disp = mutation_dispatch (pd_Lease (pu_Dispatch u)) k"
    and scan: "scan_resources disp (clk 1) (pu_ErrorCode u) (mutationResources disp d) (pu_Resources u) scan_start d = Some (sc, d1)"
    and all: "allAbsent = (ms_allAbsent sc \<and> list_all (\<lambda>t. rkey t \<in> ms_seen sc) (mutationResources disp d))"
    and dec: "decide_mutation disp u allAbsent (ms_replacement sc) = (u', complete, ready)"
    and same: "sameProvisionDispatch disp (pu_Dispatch u)" "pd_MutationType disp = pd_MutationType (pu_Dispatch u)"
    and d': "d' = aggregateMutation disp (clk 1) (update_instance (pd_LabInstanceID disp)
       (\<lambda>x. x\<lparr>li_status := fst (next_instance disp u' allAbsent complete ready (ms_unchanged sc)),
              li_generation := snd (next_instance disp u' allAbsent complete ready (ms_unchanged sc)),
              li_updated_at := clk 1\<rparr>)
       (update_item (ls_ItemID (pd_Lease (pu_Dispatch u))) (finish_item u' (clk 1)) d1))"
  let ?next = "next_instance disp u' allAbsent complete ready (ms_unchanged sc)"
  have rows: "join_rows (ls_ItemID (pd_Lease (pu_Dispatch u))) d = Some k"
    and gen: "op_type (lk_operation k) = ''RESET'' \<and> it_generation (lk_item k) = li_generation (lk_instance k) + 1
        \<or> op_type (lk_operation k) = ''CLEANUP'' \<and> it_generation (lk_item k) = li_generation (lk_instance k)"
    using lockMutation_rows [OF k] by auto
  have id: "pd_LabInstanceID (pu_Dispatch u) = it_instance (lk_item k)" "pd_Generation (pu_Dispatch u) = it_generation (lk_item k)"
    "pd_ProviderConnectionID (pu_Dispatch u) = pd_ProviderConnectionID disp"
    using same(1) disp by (auto simp: sameProvisionDispatch_def)
  have li: "li = lk_instance k" using join_rows_instance [OF rows] assms(2) id by simp
  have "instance_of (it_instance (lk_item k)) d1 = Some li"
    using assms(2) id(1) scan_resources_instances [OF scan] by simp
  then have "li_generation li' = snd ?next"
    using assms(3) id(1) disp by (auto simp: d')
  then have "snd ?next \<noteq> (if pd_MutationType disp = ''RESET'' then pd_Generation disp - 1 else pd_Generation disp)"
    using assms(4) gen li disp by (auto split: if_splits)
  note nx = next_instance_generation [OF this]
  have bump: "pd_MutationType disp = ''RESET''" "allAbsent" "complete" "li_generation li' = pd_Generation disp"
    using nx trans [OF \<open>li_generation li' = snd ?next\<close>] by blast+
  have "gone r" if r: "r \<in> set (db_resources d')" "rc_instance r = li_id li \<and> rc_organization r = li_organization li
      \<and> rc_connection r = pd_ProviderConnectionID disp \<and> rc_generation r = li_generation li" for r
  proof -
    have r1: "r \<in> set (db_resources d1)" using r(1) d' by simp
    moreover have "rc_generation r \<noteq> pd_Generation disp" using r(2) assms(4) bump(4) by auto
    ultimately obtain x where x: "x \<in> set (db_resources d)" "same_identity x r"
      using scan_resources_rows [OF scan r1] by blast
    then have "tracked_row disp x"
      using r(2) bump(1) gen join_rows_organization [OF rows] disp li by (auto simp: tracked_row_def same_identity_def)
    then show ?thesis using absence_recorded [OF scan _ _ r1 x] bump(2) all by blast
  qed
  then have gone: "\<forall>r \<in> set (db_resources d'). rc_instance r = li_id li \<and> rc_organization r = li_organization li
      \<and> rc_connection r = pd_ProviderConnectionID (pu_Dispatch u) \<and> rc_generation r = li_generation li \<longrightarrow> gone r"
    using id(3) by simp
  have "resetVMsPresent (sn_snapshot (lk_snapshot k)) (pu_Resources u) (li_generation li')"
    using decide_mutation_complete(1) [OF dec] bump(3,4) disp by simp
  moreover have "li_generation li' = li_generation li + 1" "li_generation li' = pd_Generation (pu_Dispatch u)"
    using bump(1,4) gen li id(2) disp by auto
  ultimately show ?thesis using gone k bump(1) same(2) by auto
qed

section \<open>Releasing an execution\<close>

definition execution_finished :: "uuid \<Rightarrow> db \<Rightarrow> bool" where
  "execution_finished e d = (case execution_of e d of None \<Rightarrow> False | Some x \<Rightarrow> le_finished_at x \<noteq> None)"

lemma finished_update_execution [simp]:
  "(\<And>x. le_id (f x) = le_id x) \<Longrightarrow> (\<And>x. le_finished_at (f x) = le_finished_at x) \<Longrightarrow>
   execution_finished e (update_execution i f d) = execution_finished e d"
  by (simp add: execution_finished_def split: option.splits)

lemma finished_frame [simp]:
  "execution_finished e (update_item i f d) = execution_finished e d"
  "execution_finished e (update_operation i g d) = execution_finished e d"
  "execution_finished e (update_instance i h d) = execution_finished e d"
  "execution_finished e (set_instance_status li st at d) = execution_finished e d"
  "execution_finished e (provision_instance li u ready at d) = execution_finished e d"
  "execution_finished e (aggregateProvision o' at d) = execution_finished e d"
  "execution_finished e (aggregateReadiness x at d) = execution_finished e d"
  by (simp_all add: execution_finished_def set_instance_status_def provision_instance_def aggregateProvision_def aggregateReadiness_def Let_def split: option.splits)

lemma cleanup_done_frame:
  "db_items d' = db_items d \<Longrightarrow> db_instances d' = db_instances d \<Longrightarrow> db_resources d' = db_resources d \<Longrightarrow>
   cleanup_done o' e d' = cleanup_done o' e d"
  by (simp add: cleanup_done_def items_of_operation_def instances_of_execution_def)

lemma finish_execution_finished:
  "execution_finished e (finish_execution o' x at d) \<Longrightarrow> execution_finished e d \<or> e = x \<and> cleanup_done o' x d"
  by (auto simp: finish_execution_def Let_def execution_finished_def split: if_splits option.splits)

lemma aggregateMutation_finished:
  assumes "execution_finished e (aggregateMutation disp at d)"
  shows "execution_finished e d
    \<or> pd_MutationType disp = ''CLEANUP'' \<and> e = pd_LabExecutionID disp
      \<and> cleanup_done (pd_OperationID disp) e (aggregateMutation disp at d)"
proof -
  let ?mid = "update_operation (pd_OperationID disp) (\<lambda>o'. o'\<lparr>op_stage := mutation_stage o'\<rparr>)
      (aggregateProvision (pd_OperationID disp) at d)"
  have mid: "cleanup_done (pd_OperationID disp) e (aggregateMutation disp at d) = cleanup_done (pd_OperationID disp) e ?mid"
    by (rule cleanup_done_frame) (simp_all, simp_all add: aggregateProvision_def Let_def)
  have "pd_MutationType disp = ''CLEANUP''
      \<and> execution_finished e (finish_execution (pd_OperationID disp) (pd_LabExecutionID disp) at ?mid) \<or> execution_finished e d"
    using assms by (simp add: aggregateMutation_def Let_def split: if_splits)
  then show ?thesis unfolding mid by (auto dest: finish_execution_finished)
qed

text \<open>After a cleanup is complete its operation has succeeded.\<close>

lemma aggregate_status_done: "list_all (\<lambda>r. it_status r = ''SUCCEEDED'') items \<Longrightarrow> aggregate_status items = ''SUCCEEDED''"
  by (cases items) (auto simp: aggregate_status_def list_all_iff list_ex_iff)

lemma aggregateMutation_succeeded:
  assumes "operation_of (pd_OperationID disp) d = Some o'" "cleanup_done (pd_OperationID disp) e (aggregateMutation disp at d)"
  shows "\<exists>o2. operation_of (pd_OperationID disp) (aggregateMutation disp at d) = Some o2 \<and> op_status o2 = ''SUCCEEDED''
    \<and> op_finished_at o2 = Some at"
proof -
  have "list_all (\<lambda>r. it_status r = ''SUCCEEDED'') (items_of_operation (pd_OperationID disp) d)"
    using assms(2) by (simp add: cleanup_done_def items_of_operation_def)
  note st = aggregate_status_done [OF this]
  let ?d1 = "aggregateProvision (pd_OperationID disp) at d"
  let ?d2 = "update_operation (pd_OperationID disp) (\<lambda>o'. o'\<lparr>op_stage := mutation_stage o'\<rparr>) ?d1"
  have "db_operations (aggregateMutation disp at d) = db_operations ?d2"
    by (simp add: aggregateMutation_def aggregateReadiness_def finish_execution_def update_execution_def Let_def)
  moreover have "\<exists>o2. operation_of (pd_OperationID disp) ?d2 = Some o2 \<and> op_status o2 = ''SUCCEEDED'' \<and> op_finished_at o2 = Some at"
    using assms(1) st by (simp add: aggregateProvision_def Let_def update_operation_def row_by_update)
  ultimately show ?thesis by simp
qed

lemma scan_resources_finished:
  "scan_resources disp at ec tracked rs sc d = Some (sc', d') \<Longrightarrow> execution_finished e d' = execution_finished e d"
  by (simp add: scan_resources_instances execution_finished_def)

lemma record_resources_executions: "record_resources disp at seen rs d = Some d' \<Longrightarrow> db_executions d' = db_executions d"
proof (induction rs arbitrary: seen d)
  case (Cons r rs)
  have "upsert_resource disp at r d = Some d1 \<Longrightarrow> db_executions d1 = db_executions d" for d1
    by (auto simp: upsert_resource_def Let_def split: option.splits if_splits)
  with Cons show ?case by (auto split: if_splits option.splits)
qed simp

lemma record_resources_finished:
  "record_resources disp at seen rs d = Some d' \<Longrightarrow> execution_finished e d' = execution_finished e d"
  by (simp add: record_resources_executions execution_finished_def)

lemma observe_fold_finished [simp]:
  "execution_finished e (fold (observe_resource disp at) obs d) = execution_finished e d"
  by (induction obs arbitrary: d) (simp_all add: observe_resource_def execution_finished_def)

text \<open>
  A step finishes an execution only when its cleanup is complete: it is one under a lease on an item of an operation that
  is a CLEANUP of this execution.
\<close>

definition cleaned_up :: "uuid \<Rightarrow> OperationItemLease option \<Rightarrow> db \<Rightarrow> db \<Rightarrow> bool" where
  "cleaned_up e l d d' \<longleftrightarrow>
     (\<exists>lease it before after. l = Some lease \<and> item_of (ls_ItemID lease) d = Some it
        \<and> operation_of (it_operation it) d = Some before \<and> op_type before = ''CLEANUP'' \<and> op_execution before = Some e
        \<and> operation_of (it_operation it) d' = Some after \<and> op_status after = ''SUCCEEDED'' \<and> op_finished_at after \<noteq> None
        \<and> cleanup_done (it_operation it) e d')"

definition clean_step :: "OperationItemLease option \<Rightarrow> db \<Rightarrow> db \<Rightarrow> bool" where
  "clean_step l d d' \<longleftrightarrow> (\<forall>e. execution_finished e d' \<longrightarrow> execution_finished e d \<or> cleaned_up e l d d')"

lemma clean_step_refl [simp]: "clean_step l d d"
  by (simp add: clean_step_def)

lemma clean_step_same: "(\<And>e. execution_finished e d' = execution_finished e d) \<Longrightarrow> clean_step l d d'"
  by (simp add: clean_step_def)

lemma clean_step_mutation:
  assumes "\<And>e. execution_finished e d1 = execution_finished e d" "db_operations d1 = db_operations d"
    and "join_rows (ls_ItemID lease) d = Some k" "pd_OperationID disp = it_operation (lk_item k)" "pd_MutationType disp = op_type (lk_operation k)"
    "pd_LabExecutionID disp = li_execution (lk_instance k)"
    "op_type (lk_operation k) = ''CLEANUP'' \<Longrightarrow> op_execution (lk_operation k) = Some (le_id (lk_execution k))"
  shows "clean_step (Some lease) d (aggregateMutation disp at d1)"
  unfolding clean_step_def
proof (intro allI impI)
  fix e
  assume "execution_finished e (aggregateMutation disp at d1)"
  from aggregateMutation_finished [OF this] assms(1) show "execution_finished e d \<or> cleaned_up e (Some lease) d (aggregateMutation disp at d1)"
  proof (elim disjE conjE)
    assume c: "pd_MutationType disp = ''CLEANUP''" "e = pd_LabExecutionID disp"
      "cleanup_done (pd_OperationID disp) e (aggregateMutation disp at d1)"
    have rows: "operation_of (it_operation (lk_item k)) d = Some (lk_operation k)"
      "execution_of (li_execution (lk_instance k)) d = Some (lk_execution k)"
      using join_rows_instance [OF assms(3)] by simp_all
    from rows(2) have "le_id (lk_execution k) = e" using c(2) assms(6) by (auto simp: row_by_def find_Some_iff)
    moreover have "operation_of (pd_OperationID disp) d1 = Some (lk_operation k)" using rows(1) assms(2,4) by simp
    ultimately show ?thesis
      using aggregateMutation_succeeded [OF _ c(3)] rows(1) assms(4,5,7) c(1,3) join_rows_item [OF assms(3)]
      unfolding cleaned_up_def by auto
  qed simp
qed

lemma locked_cleanup:
  "lockMutation uS now lease d = Inr k \<Longrightarrow> op_type (lk_operation k) = ''CLEANUP'' \<Longrightarrow>
     op_execution (lk_operation k) = Some (le_id (lk_execution k))"
  "lockReconciliation uS now lease d = Inr k \<Longrightarrow> op_type (lk_operation k) = ''CLEANUP'' \<Longrightarrow>
     op_execution (lk_operation k) = Some (le_id (lk_execution k))"
  by (auto simp: lockMutation_def lockReconciliation_def split: if_splits option.splits)

lemma operations_same [simp]:
  "db_operations (update_item i f d) = db_operations d" "db_operations (update_instance i h d) = db_operations d"
  "db_operations (set_instance_status li st at d) = db_operations d"
  by (simp_all add: update_item_def update_instance_def set_instance_status_def)

lemma scan_resources_operations: "scan_resources disp at ec tracked rs sc d = Some (sc', d') \<Longrightarrow> db_operations d' = db_operations d"
  by (induction disp at ec tracked rs sc d rule: scan_resources.induct)
    (auto simp: Let_def observe_tracked_def split: if_splits option.splits)

lemma observe_fold_operations [simp]: "db_operations (fold (observe_resource disp at) obs d) = db_operations d"
  by (induction obs arbitrary: d) (simp_all add: observe_resource_def)

text \<open>The dispatch of a locked item names what was locked.\<close>

lemma clean_step_locked_mutation:
  assumes "lockMutation uS now lease d = Inr k" "\<And>e. execution_finished e d1 = execution_finished e d"
    "db_operations d1 = db_operations d"
  shows "clean_step (Some lease) d (aggregateMutation (mutation_dispatch lease k) at d1)"
  by (rule clean_step_mutation [OF assms(2,3) conjunct1 [OF conjunct2 [OF lockMutation_rows [OF assms(1)]]]])
    (use locked_cleanup(1) [OF assms(1)] in \<open>simp_all add: mutation_dispatch_def dispatch_of_def\<close>)

lemma clean_step_locked_reconciliation:
  assumes "lockReconciliation uS now lease d = Inr k" "\<And>e. execution_finished e d1 = execution_finished e d"
    "db_operations d1 = db_operations d"
  shows "clean_step (Some lease) d (aggregateMutation (reconcile_dispatch lease k) at d1)"
  by (rule clean_step_mutation [OF assms(2,3) conjunct1 [OF conjunct2 [OF lockReconciliation_rows [OF assms(1)]]]])
    (use locked_cleanup(2) [OF assms(1)] in \<open>simp_all add: reconcile_dispatch_def dispatch_of_def\<close>)

lemma clean_step_worker: "clean_step (worker_lease w) d (snd (worker_exec uS clk w d))"
proof (cases w)
  case (ClaimTx skip owner dur ty)
  then show ?thesis
    by (simp add: claimOperationItem_def inTransaction_def Let_def clean_step_same split: option.split sum.split)
next
  case (RenewTx lease dur)
  then show ?thesis
    by (simp add: RenewOperationItemLease_def inTransaction_def Let_def clean_step_same split: option.split sum.split)
next
  case (PrepareProvisionTx lease)
  then show ?thesis
    by (simp add: PrepareProvision_def inTransaction_def Let_def clean_step_same split: option.split sum.split)
next
  case (DeferProvisionTx disp delay)
  then show ?thesis
    by (simp add: DeferUnsentProvision_def inTransaction_def Let_def clean_step_same split: option.split sum.split)
next
  case (WriteProvisionTx u)
  have "clean_step (Some (pd_Lease (pu_Dispatch u))) d (snd (WriteProvision uS clk u d))"
    by (simp add: WriteProvision_def record_provision_def inTransaction_def Let_def split: option.split sum.split)
       (auto intro!: clean_step_same simp: record_resources_finished)
  then show ?thesis using WriteProvisionTx by simp
next
  case (PrepareMutationTx lease)
  then show ?thesis
    by (simp add: PrepareMutation_def inTransaction_def Let_def clean_step_same split: option.split sum.split)
next
  case (DeferMutationTx disp delay)
  then show ?thesis
    by (simp add: DeferUnsentMutation_def inTransaction_def Let_def clean_step_locked_mutation split: option.split sum.split)
next
  case (WriteMutationTx u)
  show ?thesis
  proof (cases "WriteMutation uS clk u d")
    case (Pair r d')
    show ?thesis
    proof (cases r)
      case (Inl e)
      then show ?thesis using Pair WriteMutationTx by (auto dest: write_mutation.rolls_back)
    next
      case (Inr x)
      then have "WriteMutation uS clk u d = (Inr x, d')" using Pair by simp
      then have "clean_step (Some (pd_Lease (pu_Dispatch u))) d d'"
        by (elim WriteMutation_ok)
          (simp add: clean_step_locked_mutation scan_resources_finished scan_resources_operations)
      then show ?thesis using Pair WriteMutationTx by simp
    qed
  qed
next
  case (ClaimReconciliationTx skip owner dur)
  then show ?thesis
    by (simp add: ClaimReconciliation_def inTransaction_def Let_def clean_step_same split: option.split sum.split)
next
  case (RenewReconciliationTx lease dur)
  then show ?thesis
    by (simp add: RenewReconciliation_def inTransaction_def Let_def clean_step_same split: option.split sum.split)
next
  case (PrepareReconciliationTx lease)
  then show ?thesis
    by (simp add: PrepareReconciliation_def inTransaction_def Let_def clean_step_same split: option.split sum.split)
next
  case (WriteReconciliationTx u)
  then show ?thesis
    by (simp add: WriteReconciliation_def record_reconciliation_def inTransaction_def Let_def clean_step_same
        clean_step_locked_reconciliation split: option.split sum.split prod.split)
qed

text \<open>
  C2: An execution is released only when nothing of it is left. Whatever transaction any worker commits,
  an execution that had no end and has one afterwards is the target of a CLEANUP operation, which has succeeded and
  is finished with this commit: all of its items succeeded, it has an item for every instance of the execution, and every resource ever
  recorded for any of its instances, in any generation and on any connection, is confirmed deleted or missing. No
  other kind of operation releases an execution.
\<close>

theorem execution_released_clean:
  assumes "execution_finished e (snd (worker_exec uS clk w d))" and "\<not> execution_finished e d"
  shows "\<exists>o' before after. operation_of o' d = Some before \<and> op_type before = ''CLEANUP'' \<and> op_execution before = Some e
    \<and> operation_of o' (snd (worker_exec uS clk w d)) = Some after \<and> op_status after = ''SUCCEEDED'' \<and> op_finished_at after \<noteq> None
    \<and> (\<forall>i \<in> set (db_items (snd (worker_exec uS clk w d))). it_operation i = o' \<longrightarrow> it_status i = ''SUCCEEDED'')
    \<and> (\<forall>li \<in> set (db_instances (snd (worker_exec uS clk w d))). li_execution li = e \<longrightarrow>
         (\<exists>i \<in> set (db_items (snd (worker_exec uS clk w d))). it_operation i = o' \<and> it_instance i = li_id li)
         \<and> (\<forall>r \<in> set (db_resources (snd (worker_exec uS clk w d))). rc_instance r = li_id li \<longrightarrow> gone r))"
proof -
  from clean_step_worker [of w d uS clk] assms obtain o' before after
    where o': "operation_of o' d = Some before" "op_type before = ''CLEANUP''" "op_execution before = Some e"
      "operation_of o' (snd (worker_exec uS clk w d)) = Some after" "op_status after = ''SUCCEEDED''" "op_finished_at after \<noteq> None"
      "cleanup_done o' e (snd (worker_exec uS clk w d))"
    unfolding clean_step_def cleaned_up_def by blast
  from o'(7) have "(\<forall>i \<in> set (db_items (snd (worker_exec uS clk w d))). it_operation i = o' \<longrightarrow> it_status i = ''SUCCEEDED'')
    \<and> (\<forall>li \<in> set (db_instances (snd (worker_exec uS clk w d))). li_execution li = e \<longrightarrow>
         (\<exists>i \<in> set (db_items (snd (worker_exec uS clk w d))). it_operation i = o' \<and> it_instance i = li_id li)
         \<and> (\<forall>r \<in> set (db_resources (snd (worker_exec uS clk w d))). rc_instance r = li_id li \<longrightarrow> gone r))"
    by (simp add: cleanup_done_def items_of_operation_def instances_of_execution_def list_all_iff list_ex_iff) fastforce
  with o' show ?thesis by blast
qed

definition demo_resource :: "int \<Rightarrow> string \<Rightarrow> resource_row" where
  "demo_resource g provider =
     \<lparr>rc_organization = 1, rc_instance = 6, rc_connection = 4, rc_generation = g, rc_type = ''SERVER'',
      rc_logical_name = ''vm-1'', rc_provider_id = provider, rc_lifecycle = ''PRESENT'', rc_observed_state = ''ACTIVE'',
      rc_created_by = Some 9, rc_last_observed_at = Some 30, rc_deleted_at = None, rc_cleanup_error = []\<rparr>"

definition demo_report :: "int \<Rightarrow> string \<Rightarrow> string \<Rightarrow> ProvisionResource" where
  "demo_report g provider state =
     \<lparr>px_Type = ''SERVER'', px_ProviderID = provider, px_LogicalName = ''vm-1'', px_ObservedState = state, px_Generation = g\<rparr>"

definition demo_update :: "string \<Rightarrow> int \<Rightarrow> ProvisionResource list \<Rightarrow> ProvisionUpdate" where
  "demo_update kind g rs =
     \<lparr>pu_Readiness = None,
      pu_Dispatch = \<lparr>pd_Lease = \<lparr>ls_ItemID = 9, ls_Owner = 7\<rparr>, pd_OrganizationID = 1, pd_OperationID = 8, pd_LabInstanceID = 6,
        pd_LabExecutionID = 5, pd_ProviderConnectionID = 4, pd_ConnectorID = 3, pd_Generation = g, pd_Snapshot = None,
        pd_MutationType = kind, pd_PreviousStatus = ''READY'', pd_Resources = []\<rparr>,
      pu_Status = ''SUCCEEDED'', pu_Stage = ''DONE'', pu_ErrorCode = [], pu_ErrorMessage = [], pu_Resources = rs\<rparr>"

definition demo_cleanup_db :: db where
  "demo_cleanup_db = demo_db ''CLEANUP'' [demo_item 1 ''DISPATCHING''] [demo_resource 1 ''a''] ''CLEANING_UP''"

definition demo_reset_db :: db where
  "demo_reset_db = demo_db ''RESET'' [demo_item 2 ''DISPATCHING''] [demo_resource 1 ''a''] ''RESETTING''"

section \<open>Concrete runs\<close>

lemma demo_trim: "strings_TrimSpace (CHR ''S'' # s) \<noteq> []" "strings_TrimSpace (CHR ''a'' # s) \<noteq> []"
  "strings_TrimSpace (CHR ''b'' # s) \<noteq> []" "strings_TrimSpace (CHR ''v'' # s) \<noteq> []"
  by (simp_all add: TrimSpace_ascii unicode_IsSpace_def)

lemmas demo_eval = demo_defs demo_resource_def demo_report_def demo_update_def demo_cleanup_db_def demo_reset_db_def demo_trim
  lockMutation_def join_rows_def owned_rows_def check_locked_def row_by_def

lemmas demo_run = WriteMutation_def record_mutation_def inTransaction_def Let_def sameProvisionDispatch_def
  mutation_unsafe_def mutationResources_def order_resources_def tracked_row_def gone_def resource_ref_def absent_def
  observe_tracked_def update_rows_def resource_matches_def lifecycle_of_def new_resource_def decide_mutation_def
  settle_mutation_def result_incomplete_def lease_live_def next_instance_def finish_item_def valid_update_status_def
  mutation_dispatch_def dispatch_of_def mutation_previous_def validReadiness_def

lemmas demo_aggregate = aggregateMutation_def aggregateProvision_def aggregateReadiness_def finish_execution_def
  cleanup_done_def items_of_operation_def instances_of_execution_def update_item_def update_operation_def
  update_instance_def update_execution_def execution_finished_def aggregate_status_def aggregate_failure_def

theorem execution_released_clean_witness:
  "\<exists>o' before. operation_of o' demo_cleanup_db = Some before \<and> op_type before = ''CLEANUP'' \<and> op_execution before = Some 5
   \<and> (\<exists>i \<in> set (db_items (snd (worker_exec demo_uS (demo_clock 100)
        (WriteMutationTx (demo_update ''CLEANUP'' 1 [demo_report 1 ''a'' ''DELETED''])) demo_cleanup_db))).
        it_operation i = o' \<and> it_status i = ''SUCCEEDED'')"
proof -
  let ?w = "WriteMutationTx (demo_update ''CLEANUP'' 1 [demo_report 1 ''a'' ''DELETED''])"
  let ?d = "snd (worker_exec demo_uS (demo_clock 100) ?w demo_cleanup_db)"
  have ended: "execution_finished 5 ?d"
    by (simp add: demo_eval demo_run) (simp add: demo_aggregate Let_def row_by_def update_rows_def gone_def finish_item_def)
  have was_open: "\<not> execution_finished 5 demo_cleanup_db"
    by (simp add: execution_finished_def demo_eval)
  have "\<exists>li \<in> set (db_instances ?d). li_execution li = 5"
    by (simp add: demo_eval demo_run) (simp add: demo_aggregate Let_def row_by_def update_rows_def)
  then obtain li where li: "li \<in> set (db_instances ?d)" "li_execution li = 5" by blast
  from execution_released_clean [OF ended was_open] obtain o' before
    where o': "operation_of o' demo_cleanup_db = Some before" "op_type before = ''CLEANUP''" "op_execution before = Some 5"
      "\<forall>i \<in> set (db_items ?d). it_operation i = o' \<longrightarrow> it_status i = ''SUCCEEDED''"
      "\<forall>li \<in> set (db_instances ?d). li_execution li = 5 \<longrightarrow> (\<exists>i \<in> set (db_items ?d). it_operation i = o' \<and> it_instance i = li_id li)"
    by blast
  with li show ?thesis by blast
qed

theorem reset_generation_confirmed_witness:
  "\<exists>li'. instance_of 6 (snd (WriteMutation demo_uS (demo_clock 100)
      (demo_update ''RESET'' 2 [demo_report 1 ''a'' ''DELETED'', demo_report 2 ''b'' ''ACTIVE'']) demo_reset_db)) = Some li'
    \<and> li_generation li' = 2"
proof -
  let ?u = "demo_update ''RESET'' 2 [demo_report 1 ''a'' ''DELETED'', demo_report 2 ''b'' ''ACTIVE'']"
  let ?r = "WriteMutation demo_uS (demo_clock 100) ?u demo_reset_db"
  obtain li where li: "instance_of 6 demo_reset_db = Some li" "li_generation li = 1"
    by (simp add: demo_eval)
  have run: "fst ?r = Inr ()" 
    by (simp add: demo_eval demo_run resetVMsPresent_def)
  obtain li' where li': "instance_of 6 (snd ?r) = Some li'" "li_generation li' \<noteq> 1"
    by (simp add: demo_eval demo_run resetVMsPresent_def) (simp add: demo_aggregate Let_def row_by_def update_rows_def)
  have ok: "?r = (Inr (), snd ?r)" using run by (metis prod.collapse)
  have id: "pd_LabInstanceID (pu_Dispatch ?u) = 6" by (simp add: demo_update_def)
  show ?thesis
    using reset_generation_confirmed [OF ok, unfolded id, OF li(1) li'(1)] li li' by auto
qed

end
