(* ===== verification/Worker_Identity.thy ===== *)
theory Worker_Identity
  imports Worker_Outcomes
begin

text \<open>
  What the worker transactions never do: they keep the identity of every row, they never reopen a
  finished item, and they never write to a finished execution, so that an item that is still open when its
  execution ends can no longer be settled.
\<close>

section \<open>What no worker changes\<close>

text \<open>
  The columns that are written once, when the row is inserted, and the tables that only the
  application writes.
\<close>

definition item_identity :: "item_row \<Rightarrow> uuid \<times> uuid \<times> uuid \<times> uuid \<times> int \<times> go_time" where
  "item_identity i = (it_id i, it_organization i, it_operation i, it_instance i, it_generation i, it_created_at i)"

definition operation_identity ::
  "operation_row \<Rightarrow> uuid \<times> uuid \<times> string \<times> uuid \<times> string \<times> uuid option \<times> uuid option \<times> string \<times> string" where
  "operation_identity o' =
     (op_id o', op_organization o', op_type o', op_user o', op_request_id o', op_execution o', op_instance o',
      op_key_hash o', op_fingerprint o')"

definition instance_identity :: "instance_row \<Rightarrow> uuid \<times> uuid \<times> uuid \<times> uuid \<times> string" where
  "instance_identity li = (li_id li, li_organization li, li_execution li, li_user li, li_role li)"

definition execution_identity :: "execution_row \<Rightarrow> uuid \<times> uuid \<times> uuid \<times> uuid \<times> uuid" where
  "execution_identity e = (le_id e, le_organization e, le_class e, le_lab_spec e, le_instructor e)"

lemmas identity_defs = item_identity_def operation_identity_def instance_identity_def execution_identity_def

definition same_rows :: "db \<Rightarrow> db \<Rightarrow> bool" where
  "same_rows d d' \<longleftrightarrow>
     map item_identity (db_items d') = map item_identity (db_items d)
   \<and> map operation_identity (db_operations d') = map operation_identity (db_operations d)
   \<and> map instance_identity (db_instances d') = map instance_identity (db_instances d)
   \<and> map execution_identity (db_executions d') = map execution_identity (db_executions d)
   \<and> db_snapshots d' = db_snapshots d \<and> db_classes d' = db_classes d \<and> db_memberships d' = db_memberships d
   \<and> db_connectors d' = db_connectors d \<and> db_connections d' = db_connections d"

lemma same_rows_refl [simp]: "same_rows d d"
  by (simp add: same_rows_def)

lemma same_rows_trans: "same_rows d1 d2 \<Longrightarrow> same_rows d2 d3 \<Longrightarrow> same_rows d1 d3"
  by (simp add: same_rows_def)

lemma same_rows_update [simp]:
  "(\<And>r. item_identity (f r) = item_identity r) \<Longrightarrow> same_rows d (update_item i f d') = same_rows d d'"
  "(\<And>r. operation_identity (g r) = operation_identity r) \<Longrightarrow> same_rows d (update_operation i g d') = same_rows d d'"
  "(\<And>r. instance_identity (h r) = instance_identity r) \<Longrightarrow> same_rows d (update_instance i h d') = same_rows d d'"
  "(\<And>r. execution_identity (k r) = execution_identity r) \<Longrightarrow> same_rows d (update_execution i k d') = same_rows d d'"
  "same_rows d (d'\<lparr>db_resources := rs\<rparr>) = same_rows d d'"
  by (simp_all add: same_rows_def update_item_def update_operation_def update_instance_def update_execution_def)

lemma identity_writes [simp]:
  "item_identity (finish_item u at x) = item_identity x"
  "item_identity (hold_item fin at retryAt x) = item_identity x"
  "item_identity (take_lease owner t at x) = item_identity x"
  by (simp_all add: finish_item_def hold_item_def take_lease_def item_identity_def)

lemma same_rows_writes [simp]:
  "same_rows d (set_instance_status li st at d') = same_rows d d'"
  "same_rows d (provision_instance li u ready at d') = same_rows d d'"
  "same_rows d (aggregateProvision o' at d') = same_rows d d'"
  "same_rows d (aggregateReadiness e at d') = same_rows d d'"
  "same_rows d (finish_execution o' e at d') = same_rows d d'"
  by (simp_all add: set_instance_status_def provision_instance_def aggregateProvision_def aggregateReadiness_def
      finish_execution_def Let_def identity_defs)

lemma same_rows_aggregateMutation [simp]: "same_rows d (aggregateMutation disp at d') = same_rows d d'"
  by (simp add: aggregateMutation_def Let_def identity_defs)

lemma same_rows_resources:
  "record_resources disp at seen rs d = Some d' \<Longrightarrow> same_rows d0 d' = same_rows d0 d"
proof (induction rs arbitrary: seen d)
  case (Cons r rs)
  have "upsert_resource disp at r d = Some d1 \<Longrightarrow> same_rows d0 d1 = same_rows d0 d" for d1
    by (auto simp: upsert_resource_def Let_def split: option.splits if_splits)
  with Cons show ?case by (auto split: if_splits option.splits)
qed simp

lemma same_rows_scan:
  "scan_resources disp at ec tracked rs sc d = Some (sc', d') \<Longrightarrow> same_rows d0 d' = same_rows d0 d"
proof (induction rs arbitrary: sc d)
  case (Cons r rs)
  have "same_rows d0 (observe_tracked disp at ec r d) = same_rows d0 d" by (simp add: observe_tracked_def)
  with Cons show ?case by (auto simp: Let_def split: if_splits option.splits)
qed simp

lemma same_rows_observe [simp]:
  "same_rows d0 (fold (observe_resource disp at) obs d) = same_rows d0 d"
  by (induction obs arbitrary: d) (simp_all add: observe_resource_def)

lemma identity_reconcile_lease [simp]: "item_identity (take_reconcile_lease owner until x) = item_identity x"
  by (simp add: take_reconcile_lease_def item_identity_def)

lemma identity_start [simp]: "operation_identity (start_operation at o') = operation_identity o'"
  by (simp add: start_operation_def operation_identity_def)

text \<open>Every worker transaction keeps the identity of every row.\<close>

lemma worker_exec_rows: "same_rows d (snd (worker_exec uS clk w d))"
proof (cases w)
  case (ClaimTx skip owner dur ty)
  then show ?thesis
    by (simp add: claimOperationItem_def inTransaction_def Let_def split: option.split)
next
  case (RenewTx lease dur)
  then show ?thesis
    by (simp add: RenewOperationItemLease_def inTransaction_def Let_def item_identity_def split: option.split)
next
  case (PrepareProvisionTx lease)
  then show ?thesis
    by (simp add: PrepareProvision_def inTransaction_def Let_def identity_defs split: sum.split)
next
  case (DeferProvisionTx disp delay)
  then show ?thesis
    by (simp add: DeferUnsentProvision_def inTransaction_def Let_def identity_defs split: sum.split)
next
  case (WriteProvisionTx u)
  have "same_rows d (snd (WriteProvision uS clk u d))"
    by (simp add: WriteProvision_def record_provision_def inTransaction_def Let_def split: option.split sum.split)
       (auto simp: same_rows_resources)
  then show ?thesis using WriteProvisionTx by simp
next
  case (PrepareMutationTx lease)
  then show ?thesis
    by (simp add: PrepareMutation_def inTransaction_def Let_def identity_defs split: sum.split)
next
  case (DeferMutationTx disp delay)
  then show ?thesis
    by (simp add: DeferUnsentMutation_def inTransaction_def Let_def identity_defs split: sum.split)
next
  case (WriteMutationTx u)
  show ?thesis
  proof (cases "WriteMutation uS clk u d")
    case (Pair r d')
    show ?thesis
    proof (cases r)
      case (Inl e)
      then show ?thesis using Pair WriteMutationTx write_mutation.rolls_back by fastforce
    next
      case (Inr x)
      then have "WriteMutation uS clk u d = (Inr (), d')" using Pair by simp
      then have "same_rows d d'"
        by (elim WriteMutation_ok) (simp add: same_rows_scan instance_identity_def)
      then show ?thesis using Pair WriteMutationTx by simp
    qed
  qed
next
  case (ClaimReconciliationTx skip owner dur)
  then show ?thesis
    by (simp add: ClaimReconciliation_def inTransaction_def Let_def split: option.split)
next
  case (RenewReconciliationTx lease dur)
  then show ?thesis
    by (simp add: RenewReconciliation_def inTransaction_def Let_def item_identity_def split: sum.split)
next
  case (PrepareReconciliationTx lease)
  then show ?thesis
    by (simp add: PrepareReconciliation_def inTransaction_def Let_def identity_defs split: sum.split)
next
  case (WriteReconciliationTx u)
  then show ?thesis
    by (simp add: WriteReconciliation_def record_reconciliation_def inTransaction_def Let_def
        instance_identity_def split: option.split sum.split prod.split)
qed

section \<open>Finished items are final\<close>

definition active_item :: "item_row \<Rightarrow> bool" where
  "active_item i \<longleftrightarrow> it_status i \<in> {''PENDING'', ''RUNNING'', ''RECONCILING''}"

context fenced_tx
begin

lemma inactive_untouched:
  assumes "item_of k d = Some i" "\<not> active_item i"
  shows "item_of k (snd (run clk d)) = Some i"
proof (cases "run clk d")
  case (Pair res d')
  show ?thesis
  proof (cases res)
    case (Inl e)
    then show ?thesis using Pair rolls_back assms by auto
  next
    case (Inr x)
    then have "holds_lease (clk 0) lease d" using Pair needs_lease by blast
    then have "k \<noteq> ls_ItemID lease" using assms by (auto simp: holds_lease_def active_item_def)
    then show ?thesis using Pair Inr keeps_others assms by auto
  qed
qed

end

lemmas fenced_inactive =
  renew.inactive_untouched prepare_provision.inactive_untouched defer_provision.inactive_untouched
  write_provision.inactive_untouched prepare_mutation.inactive_untouched
  defer_mutation.inactive_untouched write_mutation.inactive_untouched
  renew_reconciliation.inactive_untouched prepare_reconciliation.inactive_untouched
  write_reconciliation.inactive_untouched

lemma ClaimReconciliation_active:
  assumes "ClaimReconciliation clk skip owner dur d = (r, d')"
  shows "db_items d' = db_items d \<or>
    (\<exists>i. i \<in> set (db_items d) \<and> active_item i
       \<and> db_items d' = db_items (update_item (it_id i) (take_reconcile_lease owner (clk 1 + dur)) d))"
  using assms
  by (auto simp: ClaimReconciliation_def inTransaction_def Let_def reconcile_eligible_def active_item_def
      dest!: claim_candidate_eligible split: if_splits option.splits)

lemma worker_exec_inactive:
  assumes ids: "distinct (map it_id (db_items d))" and i: "item_of k d = Some i" "\<not> active_item i"
  shows "item_of k (snd (worker_exec uS clk w d)) = Some i"
proof (cases w)
  case (ClaimTx skip owner dur ty)
  obtain r d' where c: "claimOperationItem clk skip owner dur ty d = (r, d')" by fastforce
  have "item_of k d' = Some i"
    using claimOperationItem_items [OF c]
  proof (elim disjE exE conjE)
    fix j
    assume j: "j \<in> set (db_items d)" "it_status j = ''PENDING''"
      "db_items d' = db_items (update_item (it_id j) (take_lease owner (clk 1) dur) d)"
    then have "i \<noteq> j" using i by (auto simp: active_item_def)
    then show ?thesis
      using claim_keeps_leased [OF ids i(1), of j d' "take_lease owner (clk 1) dur"] j leases_keep_ids by blast
  qed (use i in simp)
  then show ?thesis using ClaimTx c by simp
next
  case (ClaimReconciliationTx skip owner dur)
  obtain r d' where c: "ClaimReconciliation clk skip owner dur d = (r, d')" by fastforce
  have "item_of k d' = Some i"
    using ClaimReconciliation_active [OF c]
  proof (elim disjE exE conjE)
    fix j
    assume j: "j \<in> set (db_items d)" "active_item j"
      "db_items d' = db_items (update_item (it_id j) (take_reconcile_lease owner (clk 1 + dur)) d)"
    then have "i \<noteq> j" using i by auto
    then show ?thesis
      using claim_keeps_leased [OF ids i(1), of j d' "take_reconcile_lease owner (clk 1 + dur)"] j leases_keep_ids by blast
  qed (use i in simp)
  then show ?thesis using ClaimReconciliationTx c by simp
qed (use i in \<open>auto intro!: fenced_inactive\<close>)


section \<open>Finished executions are final\<close>

lemma locked_open:
  assumes "join_rows i d = Some k" "owned_rows lease st ops k"
  shows "\<not> execution_finished (li_execution (lk_instance k)) d"
  using join_rows_instance [OF assms(1)] assms(2) by (simp add: execution_finished_def owned_rows_def)

lemma locks_open:
  "lockProvision uS now lease d = Inr k \<Longrightarrow> \<not> execution_finished (li_execution (lk_instance k)) d"
  "lockMutation uS now lease d = Inr k \<Longrightarrow> \<not> execution_finished (li_execution (lk_instance k)) d"
  "lockReconciliation uS now lease d = Inr k \<Longrightarrow> \<not> execution_finished (li_execution (lk_instance k)) d"
  by (auto dest!: lockProvision_rows lockMutation_rows lockReconciliation_rows dest: locked_open)

lemma execution_of_writes [simp]:
  "execution_of e (set_instance_status li st at d) = execution_of e d"
  "execution_of e (provision_instance li u ready at d) = execution_of e d"
  "execution_of e (aggregateProvision o' at d) = execution_of e d"
  "e \<noteq> x \<Longrightarrow> execution_of e (aggregateReadiness x at d) = execution_of e d"
  "e \<noteq> x \<Longrightarrow> execution_of e (finish_execution o' x at d) = execution_of e d"
  "e \<noteq> pd_LabExecutionID disp \<Longrightarrow> execution_of e (aggregateMutation disp at d) = execution_of e d"
  by (simp_all add: set_instance_status_def provision_instance_def aggregateProvision_def aggregateReadiness_def
      finish_execution_def aggregateMutation_def Let_def)

lemma execution_of_observed [simp]:
  "execution_of e (fold (observe_resource disp at) obs d) = execution_of e d"
  by (induction obs arbitrary: d) (simp_all add: observe_resource_def)

lemma reconcile_dispatch_execution [simp]:
  "pd_LabExecutionID (reconcile_dispatch lease k) = li_execution (lk_instance k)"
  by (simp add: reconcile_dispatch_def dispatch_of_def)

lemma worker_exec_finished:
  assumes fin: "execution_finished e d"
  shows "execution_of e (snd (worker_exec uS clk w d)) = execution_of e d"
proof -
  have p: "lockProvision uS (clk 0) lease d = Inr k \<Longrightarrow> e \<noteq> li_execution (lk_instance k)" for lease k
    using fin locks_open(1) by blast
  have m: "lockMutation uS (clk 0) lease d = Inr k \<Longrightarrow> e \<noteq> li_execution (lk_instance k)" for lease k
    using fin locks_open(2) by blast
  have r: "lockReconciliation uS (clk 0) lease d = Inr k \<Longrightarrow> e \<noteq> li_execution (lk_instance k)" for lease k
    using fin locks_open(3) by blast
  show ?thesis
  proof (cases w)
    case (ClaimTx skip owner dur ty)
    then show ?thesis by (simp add: claimOperationItem_def inTransaction_def Let_def split: option.split)
  next
    case (RenewTx lease dur)
    then show ?thesis by (simp add: RenewOperationItemLease_def inTransaction_def Let_def split: option.split)
  next
    case (PrepareProvisionTx lease)
    then show ?thesis by (simp add: PrepareProvision_def inTransaction_def Let_def split: sum.split)
  next
    case (DeferProvisionTx disp delay)
    then show ?thesis
      by (simp add: DeferUnsentProvision_def inTransaction_def Let_def p split: sum.split)
  next
    case (WriteProvisionTx u)
    have "execution_of e (snd (WriteProvision uS clk u d)) = execution_of e d"
      by (simp add: WriteProvision_def record_provision_def inTransaction_def Let_def p split: option.split sum.split)
         (auto simp: dispatch_of_def p record_resources_executions)
    then show ?thesis using WriteProvisionTx by simp
  next
    case (PrepareMutationTx lease)
    then show ?thesis by (simp add: PrepareMutation_def inTransaction_def Let_def m split: sum.split)
  next
    case (DeferMutationTx disp delay)
    then show ?thesis by (simp add: DeferUnsentMutation_def inTransaction_def Let_def m split: sum.split)
  next
    case (WriteMutationTx u)
    show ?thesis
    proof (cases "WriteMutation uS clk u d")
      case (Pair res d')
      show ?thesis
      proof (cases res)
        case (Inl x)
        then show ?thesis using Pair WriteMutationTx write_mutation.rolls_back by fastforce
      next
        case (Inr x)
        then have "WriteMutation uS clk u d = (Inr (), d')" using Pair by simp
        then have "execution_of e d' = execution_of e d"
          by (elim WriteMutation_ok) (simp add: m scan_resources_instances)
        then show ?thesis using Pair WriteMutationTx by simp
      qed
    qed
  next
    case (ClaimReconciliationTx skip owner dur)
    then show ?thesis by (simp add: ClaimReconciliation_def inTransaction_def Let_def split: option.split)
  next
    case (RenewReconciliationTx lease dur)
    then show ?thesis by (simp add: RenewReconciliation_def inTransaction_def Let_def split: sum.split)
  next
    case (PrepareReconciliationTx lease)
    then show ?thesis by (simp add: PrepareReconciliation_def inTransaction_def Let_def r split: sum.split)
  next
    case (WriteReconciliationTx u)
    then show ?thesis
      by (simp add: WriteReconciliation_def record_reconciliation_def inTransaction_def Let_def r
          split: option.split sum.split prod.split)
  qed
qed

text \<open>
  What is finished stays finished. In every schedule of worker transactions, an item that has SUCCEEDED or FAILED keeps
  its row exactly as it is, and so does an execution that has an end: no claim, late result,
  deferral or reconciliation reopens or rewrites it.
\<close>

lemma finished_rows_final:
  assumes "distinct (map it_id (db_items d))"
  shows "(item_of k d = Some i \<and> \<not> active_item i \<longrightarrow> item_of k (worker_run uS sched d) = Some i)
       \<and> (execution_finished e d \<longrightarrow> execution_of e (worker_run uS sched d) = execution_of e d)"
  using assms
proof (induction sched arbitrary: d)
  case Nil
  then show ?case by (simp add: worker_run_def)
next
  case (Cons cw sched)
  obtain clk w where cw: "cw = (clk, w)" by fastforce
  let ?d = "snd (worker_exec uS clk w d)"
  have "distinct (map it_id (db_items ?d))" using Cons.prems by (simp only: worker_exec_ids)
  from Cons.IH [OF this] show ?case
    using worker_exec_inactive [OF Cons.prems, of k i uS clk w] worker_exec_finished [of e d uS clk w]
    by (auto simp: worker_run_def cw execution_finished_def)
qed

lemma finished_rows_final_witness:
  "item_of 9 (worker_run demo_uS demo_intruders (demo_db ''PROVISION'' [(demo_item 1 [])\<lparr>it_status := ''FAILED''\<rparr>] [] ''ERROR''))
     = Some ((demo_item 1 [])\<lparr>it_status := ''FAILED''\<rparr>)"
proof -
  let ?i = "(demo_item 1 [])\<lparr>it_status := ''FAILED''\<rparr>"
  let ?d = "demo_db ''PROVISION'' [?i] [] ''ERROR''"
  have "item_of 9 ?d = Some ?i" "\<not> active_item ?i" "distinct (map it_id (db_items ?d))"
    by (simp_all add: demo_defs row_by_def active_item_def)
  then show ?thesis using finished_rows_final [of ?d 9 ?i demo_uS demo_intruders] by blast
qed

section \<open>Open items of finished executions\<close>

context fenced_tx
begin

lemma others_same: "k \<noteq> ls_ItemID lease \<Longrightarrow> item_of k (snd (run clk d)) = item_of k d"
proof (cases "run clk d")
  case (Pair res d')
  then show "k \<noteq> ls_ItemID lease \<Longrightarrow> ?thesis" by (cases res) (auto dest: keeps_others rolls_back)
qed

end

lemmas fenced_others =
  renew.others_same prepare_provision.others_same defer_provision.others_same write_provision.others_same
  prepare_mutation.others_same defer_mutation.others_same write_mutation.others_same
  renew_reconciliation.others_same prepare_reconciliation.others_same write_reconciliation.others_same

lemma worker_exec_others:
  "worker_lease w = Some lease \<Longrightarrow> k \<noteq> ls_ItemID lease \<Longrightarrow> item_of k (snd (worker_exec uS clk w d)) = item_of k d"
  by (cases w) (auto simp: fenced_others)

text \<open>A commit that ends an execution leaves every item of an operation that is no CLEANUP as it was.\<close>

lemma ending_commit_frame:
  assumes "execution_finished e (snd (worker_exec uS clk w d))" "\<not> execution_finished e d"
    and "item_of k d = Some i" "operation_of (it_operation i) d = Some o'" "op_type o' \<noteq> ''CLEANUP''"
  shows "item_of k (snd (worker_exec uS clk w d)) = Some i"
proof -
  from clean_step_worker [of w d uS clk] assms(1,2) obtain lease it before where
    "worker_lease w = Some lease" "item_of (ls_ItemID lease) d = Some it" "operation_of (it_operation it) d = Some before"
    "op_type before = ''CLEANUP''"
    unfolding clean_step_def cleaned_up_def by blast
  with assms(3-5) have "worker_lease w = Some lease" "k \<noteq> ls_ItemID lease" by auto
  with worker_exec_others assms(3) show ?thesis by metis
qed

text \<open>No lock is granted on an item whose execution has ended.\<close>

lemma lock_of_finished:
  assumes "item_of (ls_ItemID lease) d = Some i" "instance_of (it_instance i) d = Some li" "execution_finished (li_execution li) d"
  shows "\<exists>e. lockProvision uS now lease d = Inl e" "\<exists>e. lockMutation uS now lease d = Inl e"
    "\<exists>e. lockReconciliation uS now lease d = Inl e"
proof -
  have no: "\<not> join_rows (ls_ItemID lease) d = Some k" if "\<not> execution_finished (li_execution (lk_instance k)) d" for k
    using join_rows_item join_rows_instance assms that by fastforce
  show "\<exists>e. lockProvision uS now lease d = Inl e"
    using no locks_open(1) lockProvision_rows by (cases "lockProvision uS now lease d") blast+
  show "\<exists>e. lockMutation uS now lease d = Inl e"
    using no locks_open(2) lockMutation_rows by (cases "lockMutation uS now lease d") blast+
  show "\<exists>e. lockReconciliation uS now lease d = Inl e"
    using no locks_open(3) lockReconciliation_rows by (cases "lockReconciliation uS now lease d") blast+
qed

text \<open>An open item whose execution has ended: nothing can settle it.\<close>

definition stranded :: "uuid \<Rightarrow> uuid \<Rightarrow> db \<Rightarrow> bool" where
  "stranded k e d \<longleftrightarrow> (case item_of k d of None \<Rightarrow> False | Some i \<Rightarrow> active_item i
     \<and> (case instance_of (it_instance i) d of None \<Rightarrow> False | Some li \<Rightarrow> li_execution li = e \<and> execution_finished e d))"

lemma stranded_iff:
  "stranded k e d \<longleftrightarrow> (\<exists>i li. item_of k d = Some i \<and> active_item i \<and> instance_of (it_instance i) d = Some li
     \<and> li_execution li = e \<and> execution_finished e d)"
  by (auto simp: stranded_def split: option.splits)

lemma stranded_refused:
  assumes "stranded k e d" "worker_lease w = Some lease" "ls_ItemID lease = k" "\<And>l dur. w \<noteq> RenewTx l dur"
  shows "fst (worker_exec uS clk w d) \<noteq> None \<and> snd (worker_exec uS clk w d) = d"
proof -
  from assms(1) obtain i li where i: "item_of (ls_ItemID lease) d = Some i" "instance_of (it_instance i) d = Some li"
    "execution_finished (li_execution li) d"
    unfolding stranded_iff assms(3) by blast
  note none = lock_of_finished [OF i]
  obtain e1 e2 e3 where l: "lockProvision uS (clk 0) lease d = Inl e1" "lockMutation uS (clk 0) lease d = Inl e2"
    "lockReconciliation uS (clk 0) lease d = Inl e3" using none by metis
  show ?thesis
    using assms(2,4) l
    by (cases w) (auto simp: PrepareProvision_def DeferUnsentProvision_def WriteProvision_def PrepareMutation_def DeferUnsentMutation_def
        WriteMutation_def RenewReconciliation_def PrepareReconciliation_def WriteReconciliation_def inTransaction_def Let_def refused_def)
qed

lemma row_by_identity:
  assumes "map f ys = map f xs" "\<And>x. key x = g (f x)" "row_by key k xs = Some x"
  shows "\<exists>y. row_by key k ys = Some y \<and> f y = f x"
  using assms(1,3)
proof (induction xs arbitrary: ys)
  case (Cons a xs)
  from Cons.prems(1) obtain y ys' where ys: "ys = y # ys'" "f y = f a" "map f ys' = map f xs" by (cases ys) auto
  then have "key y = key a" by (simp add: assms(2))
  with Cons.IH [OF ys(3)] Cons.prems(2) ys show ?case by (auto simp: row_by_def split: if_splits)
qed (simp add: row_by_def)

lemma worker_exec_item:
  assumes "item_of k d = Some i" "active_item i" "\<And>lease. worker_lease w = Some lease \<Longrightarrow> ls_ItemID lease \<noteq> k"
  shows "\<exists>i'. item_of k (snd (worker_exec uS clk w d)) = Some i' \<and> active_item i' \<and> it_instance i' = it_instance i"
proof (cases "worker_lease w")
  case (Some lease)
  with worker_exec_others [OF this, of k] assms show ?thesis by auto
next
  case None
  define item_changes where "item_changes d' \<longleftrightarrow> db_items d' = db_items d \<or> (\<exists>j f. db_items d' = db_items (update_item j f d)
        \<and> (\<forall>r. it_id (f r) = it_id r \<and> active_item (f r) \<and> it_instance (f r) = it_instance r))" for d' :: db
  have same: "\<exists>i'. item_of k d' = Some i' \<and> active_item i' \<and> it_instance i' = it_instance i"
    if "item_changes d'" for d'
    using that unfolding item_changes_def
  proof (elim disjE exE conjE)
    fix j f
    assume f: "db_items d' = db_items (update_item j f d)" "\<forall>r. it_id (f r) = it_id r \<and> active_item (f r) \<and> it_instance (f r) = it_instance r"
    then have "item_of k d' = (if k = j then map_option f (item_of k d) else item_of k d)"
      by (simp add: update_item_def row_by_update)
    with f(2) assms(1,2) show ?thesis by (cases "k = j") auto
  qed (use assms in simp)
  have leases: "it_id (take_lease owner at dur r) = it_id r \<and> active_item (take_lease owner at dur r) \<and> it_instance (take_lease owner at dur r) = it_instance r"
    "it_id (take_reconcile_lease owner until r) = it_id r \<and> active_item (take_reconcile_lease owner until r)
      \<and> it_instance (take_reconcile_lease owner until r) = it_instance r" for owner at dur until r
    by (simp_all add: take_lease_def take_reconcile_lease_def active_item_def)
  from None show ?thesis
  proof (cases w)
    case (ClaimTx skip owner dur ty)
    obtain r d' where c: "claimOperationItem clk skip owner dur ty d = (r, d')" by fastforce
    have "item_changes d'" unfolding item_changes_def using claimOperationItem_items [OF c] leases(1) by blast
    from same [OF this] show ?thesis using ClaimTx c by simp
  next
    case (ClaimReconciliationTx skip owner dur)
    obtain r d' where c: "ClaimReconciliation clk skip owner dur d = (r, d')" by fastforce
    have "item_changes d'" unfolding item_changes_def using ClaimReconciliation_items [OF c] leases(2) by blast
    from same [OF this] show ?thesis using ClaimReconciliationTx c by simp
  qed simp_all
qed

lemma stranded_worker_exec:
  assumes "stranded k e d"
  shows "stranded k e (snd (worker_exec uS clk w d))"
proof -
  let ?d = "snd (worker_exec uS clk w d)"
  from assms obtain i li where i: "item_of k d = Some i" "active_item i" "instance_of (it_instance i) d = Some li"
    "li_execution li = e" "execution_finished e d"
    unfolding stranded_iff by blast
  have fin: "execution_finished e ?d" using worker_exec_finished [OF i(5), of uS clk w] i(5) by (simp add: execution_finished_def)
  have rows: "map instance_identity (db_instances ?d) = map instance_identity (db_instances d)"
    using worker_exec_rows [of d uS clk w] by (simp add: same_rows_def)
  obtain li' where li': "instance_of (it_instance i) ?d = Some li'" "instance_identity li' = instance_identity li"
    using row_by_identity [where key = li_id and f = instance_identity and g = fst, OF rows _ i(3)]
    by (auto simp: instance_identity_def)
  then have e: "li_execution li' = e" using i(4) by (simp add: instance_identity_def)
  have "\<exists>i'. item_of k ?d = Some i' \<and> active_item i' \<and> it_instance i' = it_instance i"
  proof (cases "\<exists>lease. worker_lease w = Some lease \<and> ls_ItemID lease = k")
    case False
    then show ?thesis using worker_exec_item [OF i(1,2), of w uS clk] by blast
  next
    case own: True
    show ?thesis
    proof (cases "\<exists>l dur. w = RenewTx l dur")
      case False
      with own stranded_refused [OF assms, of w _ uS clk] i(1,2) show ?thesis by auto
    next
      case True
      then obtain lease dur where w: "w = RenewTx lease dur" "ls_ItemID lease = k" using own by auto
      then show ?thesis using i(1,2)
        by (auto simp: RenewOperationItemLease_def inTransaction_def active_item_def split: option.splits if_splits)
    qed
  qed
  with li'(1) e fin show ?thesis unfolding stranded_iff by auto
qed

end
