(* ===== verification/Operation_Register.thy ===== *)
theory Operation_Register
  imports Worker_Identity
begin

text \<open>
  Durable registration of operations (\<^verbatim>\<open>internal/server/operation/register.go\<close>), the reads
  of an operation (\<^verbatim>\<open>service.go\<close>) and the statements they use
  (\<^verbatim>\<open>internal/postgres/operation.go\<close>, \<^verbatim>\<open>class.go\<close>).

  The digest is a parameter, so the theorems hold for every digest function, SHA-256 among them;
  \<open>re_newID n\<close> is the \<open>n\<close>-th identifier that a call draws. The unique indexes and the foreign keys of
  the inserted rows are written out in the statements.
\<close>

section \<open>Rows in, rows out\<close>

datatype op_error =
    OpConflict | OpInvalid | OpNotFound | OpForbidden | OpInconsistentData
  | OpRepo repo_error

record 'sp reg_env =
  re_otel :: "'sp otel"
  re_span :: "'sp option"
  re_sha256 :: "string \<Rightarrow> string"
  re_newID :: "nat \<Rightarrow> uuid"

record NewOperation =
  no_ID :: uuid
  no_OrganizationID :: uuid
  no_RequestedByUserID :: uuid
  no_Type :: string
  no_LabExecutionID :: "uuid option"
  no_LabInstanceID :: "uuid option"
  no_RequestID :: string
  no_IdempotencyKeyHash :: string
  no_RequestFingerprint :: string
  no_CreatedAt :: go_time
  no_Traceparent :: string
  no_Tracestate :: string

record NewOperationItem =
  ni_ID :: uuid
  ni_OrganizationID :: uuid
  ni_OperationID :: uuid
  ni_LabInstanceID :: uuid
  ni_Generation :: int
  ni_CreatedAt :: go_time

definition operation_of_new :: "NewOperation \<Rightarrow> operation_row" where
  "operation_of_new o' =
     \<lparr>op_id = no_ID o', op_organization = no_OrganizationID o', op_type = no_Type o', op_user = no_RequestedByUserID o',
      op_request_id = no_RequestID o', op_execution = no_LabExecutionID o', op_instance = no_LabInstanceID o',
      op_key_hash = no_IdempotencyKeyHash o', op_fingerprint = no_RequestFingerprint o', op_status = ''PENDING'',
      op_stage = [], op_error_code = [], op_error_message = [], op_created_at = no_CreatedAt o',
      op_updated_at = no_CreatedAt o', op_started_at = None, op_finished_at = None,
      op_traceparent = no_Traceparent o', op_tracestate = no_Tracestate o'\<rparr>"

definition item_of_new :: "NewOperationItem \<Rightarrow> item_row" where
  "item_of_new i =
     \<lparr>it_id = ni_ID i, it_organization = ni_OrganizationID i, it_operation = ni_OperationID i,
      it_instance = ni_LabInstanceID i, it_generation = ni_Generation i, it_status = ''PENDING'', it_stage = [],
      it_lease_owner = None, it_lease_expires_at = None, it_error_code = [], it_error_message = [],
      it_created_at = ni_CreatedAt i, it_started_at = None, it_finished_at = None, it_dispatch_not_before = None,
      it_previous_status = None\<rparr>"

section \<open>Statements\<close>

definition OperationByID :: "uuid \<Rightarrow> db \<Rightarrow> repo_error + operation_row" where
  "OperationByID i d = (case operation_of i d of None \<Rightarrow> Inl KindNotFound | Some o' \<Rightarrow> Inr o')"

definition same_key :: "uuid \<Rightarrow> string \<Rightarrow> string \<Rightarrow> operation_row \<Rightarrow> bool" where
  "same_key user kind hash o' \<longleftrightarrow> op_user o' = user \<and> op_type o' = kind \<and> op_key_hash o' = hash"

definition OperationByIdempotency :: "uuid \<Rightarrow> string \<Rightarrow> string \<Rightarrow> db \<Rightarrow> repo_error + operation_row" where
  "OperationByIdempotency user kind hash d =
     (case find (same_key user kind hash) (db_operations d) of None \<Rightarrow> Inl KindNotFound | Some o' \<Rightarrow> Inr o')"

text \<open>The foreign keys of an operation: its targets exist in its organization.\<close>

definition targets_exist :: "NewOperation \<Rightarrow> db \<Rightarrow> bool" where
  "targets_exist o' d \<longleftrightarrow>
     (case no_LabExecutionID o' of None \<Rightarrow> True | Some e \<Rightarrow>
        list_ex (\<lambda>x. le_id x = e \<and> le_organization x = no_OrganizationID o') (db_executions d))
   \<and> (case no_LabInstanceID o' of None \<Rightarrow> True | Some li \<Rightarrow>
        list_ex (\<lambda>x. li_id x = li \<and> li_organization x = no_OrganizationID o') (db_instances d))"

definition InsertOperation :: "NewOperation \<Rightarrow> bool tx" where
  "InsertOperation o' d =
     (if list_ex (same_key (no_RequestedByUserID o') (no_Type o') (no_IdempotencyKeyHash o')) (db_operations d)
        then (Inr False, d)
      else if operation_of (no_ID o') d \<noteq> None then (Inl KindConflict, d)
      else if \<not> targets_exist o' d then (Inl KindConstraintViolation, d)
      else (Inr True, d\<lparr>db_operations := db_operations d @ [operation_of_new o']\<rparr>))"

definition item_target :: "NewOperationItem \<Rightarrow> db \<Rightarrow> bool" where
  "item_target i d \<longleftrightarrow>
     (case operation_of (ni_OperationID i) d of None \<Rightarrow> False | Some o' \<Rightarrow>
     (case instance_of (ni_LabInstanceID i) d of None \<Rightarrow> False | Some li \<Rightarrow>
        op_organization o' = ni_OrganizationID i \<and> li_organization li = op_organization o'
      \<and> (op_type o' = ''RESET'' \<and> op_instance o' = Some (li_id li)
         \<or> op_type o' \<in> {''PROVISION'', ''CLEANUP''} \<and> op_execution o' = Some (li_execution li))
      \<and> ni_Generation i = (if op_type o' = ''RESET'' then li_generation li + 1 else li_generation li)))"

definition CreateOperationItem :: "NewOperationItem \<Rightarrow> unit tx" where
  "CreateOperationItem i d =
     (if \<not> item_target i d then (Inl KindConstraintViolation, d)
      else if ni_Generation i > MaxInt32 then (Inl KindInternal, d)
      else if ni_Generation i < 1 then (Inl KindConstraintViolation, d)
      else if item_of (ni_ID i) d \<noteq> None
           \<or> list_ex (\<lambda>x. it_operation x = ni_OperationID i \<and> it_instance x = ni_LabInstanceID i) (db_items d)
           \<or> list_ex (\<lambda>x. active_item x \<and> it_instance x = ni_LabInstanceID i) (db_items d)
        then (Inl KindConflict, d)
      else (Inr (), d\<lparr>db_items := db_items d @ [item_of_new i]\<rparr>))"

definition OperationItems :: "uuid \<Rightarrow> db \<Rightarrow> item_row list" where
  "OperationItems i d = sort_key it_instance (filter (\<lambda>x. it_operation x = i) (db_items d))"

record OperationTarget =
  ot_OrganizationID :: uuid
  ot_ClassID :: uuid
  ot_OwnerUserID :: "uuid option"

definition execution_target :: "uuid \<Rightarrow> uuid \<Rightarrow> db \<Rightarrow> execution_row option" where
  "execution_target e org d = find (\<lambda>x. le_id x = e \<and> le_organization x = org) (db_executions d)"

definition OperationTarget_of :: "operation_row \<Rightarrow> db \<Rightarrow> repo_error + OperationTarget" where
  "OperationTarget_of o' d =
     (if op_type o' = ''RESET'' then
        (case op_instance o' of None \<Rightarrow> Inl KindNotFound | Some i \<Rightarrow>
        (case find (\<lambda>li. li_id li = i \<and> li_organization li = op_organization o') (db_instances d) of
           None \<Rightarrow> Inl KindNotFound
         | Some li \<Rightarrow>
             (case execution_target (li_execution li) (li_organization li) d of
                None \<Rightarrow> Inl KindNotFound
              | Some e \<Rightarrow> Inr \<lparr>ot_OrganizationID = li_organization li, ot_ClassID = le_class e, ot_OwnerUserID = Some (li_user li)\<rparr>)))
      else
        (case op_execution o' of None \<Rightarrow> Inl KindNotFound | Some i \<Rightarrow>
        (case execution_target i (op_organization o') d of
           None \<Rightarrow> Inl KindNotFound
         | Some e \<Rightarrow> Inr \<lparr>ot_OrganizationID = le_organization e, ot_ClassID = le_class e, ot_OwnerUserID = None\<rparr>)))"

definition ClassByID :: "uuid \<Rightarrow> db \<Rightarrow> repo_error + class_row" where
  "ClassByID i d = (case row_by cl_id i (db_classes d) of None \<Rightarrow> Inl KindNotFound | Some c \<Rightarrow> Inr c)"

definition ClassMembership :: "uuid \<Rightarrow> uuid \<Rightarrow> db \<Rightarrow> repo_error + membership_row" where
  "ClassMembership class user d =
     (case find (\<lambda>m. mb_class m = class \<and> mb_user m = user) (db_memberships d) of
        None \<Rightarrow> Inl KindNotFound | Some m \<Rightarrow> Inr m)"

definition ClassRole_Valid :: "string \<Rightarrow> bool" where
  "ClassRole_Valid r \<longleftrightarrow> r \<in> {''INSTRUCTOR'', ''STUDENT''}"

section \<open>Registration\<close>

definition HashKey :: "(string \<Rightarrow> string) \<Rightarrow> string \<Rightarrow> op_error + string" where
  "HashKey sha key =
     (if \<not> utf8_ValidString key then Inl OpInvalid
      else if utf8_RuneCountInString key < 1 \<or> utf8_RuneCountInString key > 255 then Inl OpInvalid
      else Inr (sha key))"

record reg_item =
  ri_LabInstanceID :: uuid
  ri_Generation :: int

record Registration =
  rg_OrganizationID :: uuid
  rg_RequestedByUserID :: uuid
  rg_Type :: string
  rg_IdempotencyKey :: string
  rg_Fingerprint :: string
  rg_LabExecutionID :: "uuid option"
  rg_LabInstanceID :: "uuid option"
  rg_RequestID :: string
  rg_Items :: "reg_item list"

record reg_result =
  rr_Operation :: operation_row
  rr_Replayed :: bool

definition Replay :: "(string \<Rightarrow> string) \<Rightarrow> uuid \<Rightarrow> string \<Rightarrow> string \<Rightarrow> string \<Rightarrow> db \<Rightarrow> op_error + reg_result" where
  "Replay sha user kind key fp d =
     (case HashKey sha key of
        Inl e \<Rightarrow> Inl e
      | Inr hash \<Rightarrow>
          (case OperationByIdempotency user kind hash d of
             Inl e \<Rightarrow> Inl (OpRepo e)
           | Inr o' \<Rightarrow> if op_fingerprint o' \<noteq> fp then Inl OpConflict
                        else Inr \<lparr>rr_Operation = o', rr_Replayed = True\<rparr>))"

definition target_valid :: "uuid option \<Rightarrow> bool" where
  "target_valid p = (case p of None \<Rightarrow> False | Some u \<Rightarrow> u \<noteq> uuid_Nil)"

definition zero_fingerprint :: string where
  "zero_fingerprint = replicate 32 (char_of (0 :: nat))"

fun valid_items :: "string \<Rightarrow> uuid option \<Rightarrow> nat \<Rightarrow> uuid set \<Rightarrow> reg_item list \<Rightarrow> bool" where
  "valid_items kind target n seen [] = True"
| "valid_items kind target n seen (i # is) =
     (if ri_LabInstanceID i = uuid_Nil \<or> ri_Generation i < 1 \<or> ri_LabInstanceID i \<in> seen then False
      else if kind = ''RESET'' \<and> (Some (ri_LabInstanceID i) \<noteq> target \<or> n \<noteq> 1) then False
      else valid_items kind target n (insert (ri_LabInstanceID i) seen) is)"

definition valid_registration :: "Registration \<Rightarrow> go_time \<Rightarrow> bool" where
  "valid_registration inp createdAt \<longleftrightarrow>
     rg_OrganizationID inp \<noteq> uuid_Nil \<and> rg_RequestedByUserID inp \<noteq> uuid_Nil \<and> createdAt \<noteq> 0
   \<and> rg_Fingerprint inp \<noteq> zero_fingerprint \<and> rg_Items inp \<noteq> []
   \<and> (if rg_Type inp \<in> {''PROVISION'', ''CLEANUP''}
        then target_valid (rg_LabExecutionID inp) \<and> rg_LabInstanceID inp = None
      else if rg_Type inp = ''RESET'' then target_valid (rg_LabInstanceID inp) \<and> rg_LabExecutionID inp = None
      else False)
   \<and> valid_items (rg_Type inp) (rg_LabInstanceID inp) (length (rg_Items inp)) {} (rg_Items inp)"

definition new_operation :: "'sp reg_env \<Rightarrow> Registration \<Rightarrow> string \<Rightarrow> go_time \<Rightarrow> NewOperation" where
  "new_operation E inp hash createdAt =
     (let tc0 = trace_FromContext (re_otel E) (re_span E);
          tc = NormalizeTrace (re_otel E) (Traceparent tc0) (Tracestate tc0)
      in \<lparr>no_ID = re_newID E 0, no_OrganizationID = rg_OrganizationID inp, no_RequestedByUserID = rg_RequestedByUserID inp,
          no_Type = rg_Type inp, no_LabExecutionID = rg_LabExecutionID inp, no_LabInstanceID = rg_LabInstanceID inp,
          no_RequestID = rg_RequestID inp, no_IdempotencyKeyHash = hash, no_RequestFingerprint = rg_Fingerprint inp,
          no_CreatedAt = createdAt, no_Traceparent = Traceparent tc, no_Tracestate = Tracestate tc\<rparr>)"

definition new_item :: "'sp reg_env \<Rightarrow> Registration \<Rightarrow> go_time \<Rightarrow> nat \<Rightarrow> reg_item \<Rightarrow> NewOperationItem" where
  "new_item E inp createdAt n i =
     \<lparr>ni_ID = re_newID E n, ni_OrganizationID = rg_OrganizationID inp, ni_OperationID = re_newID E 0,
      ni_LabInstanceID = ri_LabInstanceID i, ni_Generation = ri_Generation i, ni_CreatedAt = createdAt\<rparr>"

fun create_items :: "'sp reg_env \<Rightarrow> Registration \<Rightarrow> go_time \<Rightarrow> nat \<Rightarrow> reg_item list \<Rightarrow> unit tx" where
  "create_items E inp createdAt n [] d = (Inr (), d)"
| "create_items E inp createdAt n (i # is) d =
     (case CreateOperationItem (new_item E inp createdAt n i) d of
        (Inl e, d') \<Rightarrow> (Inl e, d')
      | (Inr _, d') \<Rightarrow> create_items E inp createdAt (Suc n) is d')"

definition Register :: "'sp reg_env \<Rightarrow> Registration \<Rightarrow> go_time \<Rightarrow> db \<Rightarrow> (op_error + reg_result) \<times> db" where
  "Register E inp createdAt d =
     (case HashKey (re_sha256 E) (rg_IdempotencyKey inp) of
        Inl e \<Rightarrow> (Inl e, d)
      | Inr hash \<Rightarrow>
          if \<not> valid_registration inp createdAt then (Inl OpInvalid, d)
          else case InsertOperation (new_operation E inp hash createdAt) d of
              (Inl e, d1) \<Rightarrow> (Inl (OpRepo e), d1)
            | (Inr inserted, d1) \<Rightarrow>
                if \<not> inserted then
                  (case Replay (re_sha256 E) (rg_RequestedByUserID inp) (rg_Type inp) (rg_IdempotencyKey inp) (rg_Fingerprint inp) d1 of
                     Inl e \<Rightarrow> (Inl e, d1)
                   | Inr r \<Rightarrow> if op_organization (rr_Operation r) \<noteq> rg_OrganizationID inp then (Inl OpConflict, d1) else (Inr r, d1))
                else (case create_items E inp createdAt 1 (rg_Items inp) d1 of
                     (Inl e, d2) \<Rightarrow> (Inl (OpRepo e), d2)
                   | (Inr _, d2) \<Rightarrow>
                       (case OperationByID (re_newID E 0) d2 of
                          Inl e \<Rightarrow> (Inl (OpRepo e), d2)
                        | Inr o' \<Rightarrow> (Inr \<lparr>rr_Operation = o', rr_Replayed = False\<rparr>, d2))))"


section \<open>Reads\<close>

record Target =
  tg_Type :: string
  tg_ID :: uuid

record OperationView =
  ov_ID :: uuid
  ov_Type :: string
  ov_Status :: string
  ov_Stage :: string
  ov_Target :: Target
  ov_Error :: "(string \<times> string) option"
  ov_CreatedAt :: go_time
  ov_UpdatedAt :: go_time
  ov_StartedAt :: "go_time option"
  ov_FinishedAt :: "go_time option"

text \<open>The one error a reader is shown; its Korean text is given by its UTF-8 bytes.\<close>

definition failed_summary :: "string \<times> string" where
  "failed_summary =
     (''operation_failed'',
      map char_of
        [236 :: nat, 158, 145, 236, 151, 133, 236, 157, 132, 32, 236, 153, 132, 235, 163, 140, 237, 149, 152, 236, 167, 128,
         32, 235, 170, 187, 237, 150, 136, 236, 138, 181, 235, 139, 136, 235, 139, 164, 46])"

definition view_of :: "operation_row \<Rightarrow> Target \<Rightarrow> OperationView" where
  "view_of o' t =
     \<lparr>ov_ID = op_id o', ov_Type = op_type o', ov_Status = op_status o', ov_Stage = op_stage o', ov_Target = t,
      ov_Error = (if op_status o' = ''FAILED'' then Some failed_summary else None),
      ov_CreatedAt = op_created_at o', ov_UpdatedAt = op_updated_at o',
      ov_StartedAt = op_started_at o', ov_FinishedAt = op_finished_at o'\<rparr>"

definition target_of_operation :: "operation_row \<Rightarrow> Target option" where
  "target_of_operation o' =
     (if op_type o' = ''RESET'' then
        (case op_instance o' of None \<Rightarrow> None
         | Some i \<Rightarrow> if i = uuid_Nil then None else Some \<lparr>tg_Type = ''LAB_INSTANCE'', tg_ID = i\<rparr>)
      else if op_type o' \<in> {''PROVISION'', ''CLEANUP''} then
        (case op_execution o' of None \<Rightarrow> None
         | Some i \<Rightarrow> if i = uuid_Nil then None else Some \<lparr>tg_Type = ''LAB_EXECUTION'', tg_ID = i\<rparr>)
      else None)"

definition may_read :: "User \<Rightarrow> OperationTarget \<Rightarrow> membership_row \<Rightarrow> bool" where
  "may_read user t m \<longleftrightarrow> mb_role m = ''INSTRUCTOR'' \<or> ot_OwnerUserID t = Some (us_ID user)"

text \<open>
  The three reads are separate statements, so each of them sees its own state of the database:
  \<open>D n\<close> is what the \<open>n\<close>-th statement sees. \<open>parse\<close> and \<open>uS\<close> are \<^verbatim>\<open>uuid.Parse\<close> and
  \<^verbatim>\<open>UUID.String\<close>.
\<close>

definition Get :: "(string \<Rightarrow> uuid option) \<Rightarrow> (uuid \<Rightarrow> string) \<Rightarrow> (nat \<Rightarrow> db) \<Rightarrow> User \<Rightarrow> string \<Rightarrow> op_error + OperationView" where
  "Get parse uS D user i =
     (case parse i of None \<Rightarrow> Inl OpNotFound | Some parsed \<Rightarrow>
        if parsed = uuid_Nil \<or> uS parsed \<noteq> i then Inl OpNotFound
        else case OperationByID parsed (D 0) of
            Inl e \<Rightarrow> if e = KindNotFound then Inl OpNotFound else Inl (OpRepo e)
          | Inr o' \<Rightarrow>
              if us_ID user = uuid_Nil \<or> us_OrganizationID user \<noteq> op_organization o' then Inl OpForbidden
              else case OperationTarget_of o' (D 1) of
                  Inl e \<Rightarrow> if e = KindNotFound then Inl OpInconsistentData else Inl (OpRepo e)
                | Inr t \<Rightarrow>
                    if ot_OrganizationID t \<noteq> op_organization o' then Inl OpInconsistentData
                    else case ClassMembership (ot_ClassID t) (us_ID user) (D 2) of
                        Inl e \<Rightarrow> if e = KindNotFound then Inl OpForbidden else Inl (OpRepo e)
                      | Inr m \<Rightarrow>
                          if mb_organization m \<noteq> us_OrganizationID user \<or> mb_class m \<noteq> ot_ClassID t
                             \<or> mb_user m \<noteq> us_ID user \<or> \<not> ClassRole_Valid (mb_role m) then Inl OpInconsistentData
                          else if \<not> may_read user t m then Inl OpForbidden
                          else case target_of_operation o' of
                              None \<Rightarrow> Inl OpInconsistentData
                            | Some tg \<Rightarrow> Inr (view_of o' tg))"

section \<open>What a registration writes\<close>

text \<open>The rows that a registration adds when it is not a replay.\<close>

definition registered_items :: "'sp reg_env \<Rightarrow> Registration \<Rightarrow> go_time \<Rightarrow> item_row list" where
  "registered_items E inp createdAt =
     map (\<lambda>(n, i). item_of_new (new_item E inp createdAt n i)) (enumerate 1 (rg_Items inp))"

lemma CreateOperationItem_ok:
  "CreateOperationItem i d = (Inr u, d') \<Longrightarrow> d' = d\<lparr>db_items := db_items d @ [item_of_new i]\<rparr> \<and> item_target i d
     \<and> 1 \<le> ni_Generation i \<and> ni_Generation i \<le> MaxInt32
     \<and> item_of (ni_ID i) d = None \<and> \<not> list_ex (\<lambda>x. active_item x \<and> it_instance x = ni_LabInstanceID i) (db_items d)"
  by (auto simp: CreateOperationItem_def split: if_splits)

lemma create_items_ok:
  "create_items E inp t n is d = (Inr u, d') \<Longrightarrow>
     d' = d\<lparr>db_items := db_items d @ map (\<lambda>(n, i). item_of_new (new_item E inp t n i)) (enumerate n is)\<rparr>"
proof (induction "is" arbitrary: n d)
  case (Cons i "is")
  then obtain d1 where d1: "CreateOperationItem (new_item E inp t n i) d = (Inr (), d1)"
      and rest: "create_items E inp t (Suc n) is d1 = (Inr u, d')"
    by (auto split: prod.splits sum.splits)
  from CreateOperationItem_ok [OF d1] Cons.IH [OF rest] show ?case by simp
qed simp

lemma find_same_key:
  "find (same_key u k h) ops = Some o' \<Longrightarrow> o' \<in> set ops \<and> op_user o' = u \<and> op_type o' = k \<and> op_key_hash o' = h"
  by (auto simp: find_Some_iff same_key_def)

lemma operation_of_new_sel [simp]:
  "op_id (operation_of_new o') = no_ID o'" "op_user (operation_of_new o') = no_RequestedByUserID o'"
  "op_type (operation_of_new o') = no_Type o'" "op_key_hash (operation_of_new o') = no_IdempotencyKeyHash o'"
  "op_fingerprint (operation_of_new o') = no_RequestFingerprint o'" "op_organization (operation_of_new o') = no_OrganizationID o'"
  "op_status (operation_of_new o') = ''PENDING''" "op_execution (operation_of_new o') = no_LabExecutionID o'"
  "op_instance (operation_of_new o') = no_LabInstanceID o'"
  by (simp_all add: operation_of_new_def)

lemma new_operation_sel [simp]:
  "no_ID (new_operation E inp h t) = re_newID E 0" "no_RequestedByUserID (new_operation E inp h t) = rg_RequestedByUserID inp"
  "no_Type (new_operation E inp h t) = rg_Type inp" "no_IdempotencyKeyHash (new_operation E inp h t) = h"
  "no_RequestFingerprint (new_operation E inp h t) = rg_Fingerprint inp"
  "no_OrganizationID (new_operation E inp h t) = rg_OrganizationID inp"
  "no_LabExecutionID (new_operation E inp h t) = rg_LabExecutionID inp"
  "no_LabInstanceID (new_operation E inp h t) = rg_LabInstanceID inp"
  by (simp_all add: new_operation_def Let_def)

text \<open>A successful registration is a replay that writes nothing, or adds exactly its rows.\<close>

lemma Register_ok:
  assumes "Register E inp t d = (Inr r, d')"
  obtains (replay) hash where "HashKey (re_sha256 E) (rg_IdempotencyKey inp) = Inr hash" "valid_registration inp t"
      "rr_Replayed r" "d' = d"
      "find (same_key (rg_RequestedByUserID inp) (rg_Type inp) hash) (db_operations d) = Some (rr_Operation r)"
      "op_fingerprint (rr_Operation r) = rg_Fingerprint inp" "op_organization (rr_Operation r) = rg_OrganizationID inp"
  | (fresh) hash where "HashKey (re_sha256 E) (rg_IdempotencyKey inp) = Inr hash" "valid_registration inp t"
      "\<not> rr_Replayed r" "rr_Operation r = operation_of_new (new_operation E inp hash t)"
      "operation_of (re_newID E 0) d = None"
      "\<not> list_ex (same_key (rg_RequestedByUserID inp) (rg_Type inp) hash) (db_operations d)"
      "targets_exist (new_operation E inp hash t) d"
      "d' = d\<lparr>db_operations := db_operations d @ [rr_Operation r], db_items := db_items d @ registered_items E inp t\<rparr>"
      "create_items E inp t 1 (rg_Items inp) (d\<lparr>db_operations := db_operations d @ [rr_Operation r]\<rparr>) = (Inr (), d')"
proof -
  from assms obtain hash where hash: "HashKey (re_sha256 E) (rg_IdempotencyKey inp) = Inr hash" and v: "valid_registration inp t"
    by (auto simp: Register_def split: sum.splits if_splits)
  let ?o = "new_operation E inp hash t"
  show thesis
  proof (cases "list_ex (same_key (rg_RequestedByUserID inp) (rg_Type inp) hash) (db_operations d)")
    case True
    then show thesis using assms hash v
      by (intro replay) (auto simp: Register_def InsertOperation_def Replay_def OperationByIdempotency_def
          split: sum.splits if_splits option.splits)
  next
    case False
    let ?d1 = "d\<lparr>db_operations := db_operations d @ [operation_of_new ?o]\<rparr>"
    from False assms hash v have ins: "InsertOperation ?o d = (Inr True, ?d1)"
      by (auto simp: Register_def InsertOperation_def split: if_splits)
    then have none: "operation_of (re_newID E 0) d = None" and tg: "targets_exist ?o d"
      using False by (auto simp: InsertOperation_def split: if_splits)
    from assms hash v ins obtain d2 where d2: "create_items E inp t 1 (rg_Items inp) ?d1 = (Inr (), d2)"
      and r: "OperationByID (re_newID E 0) d2 = Inr (rr_Operation r)" "\<not> rr_Replayed r" "d' = d2"
      by (auto simp: Register_def split: sum.splits if_splits prod.splits)
    have rows: "d2 = ?d1\<lparr>db_items := db_items d @ registered_items E inp t\<rparr>"
      using create_items_ok [OF d2] by (simp add: registered_items_def)
    have op: "rr_Operation r = operation_of_new ?o"
      using r(1) none by (simp add: rows OperationByID_def row_by_append) (simp add: row_by_def)
    show thesis by (rule fresh [OF hash v r(2) op none False tg]) (use d2 in \<open>simp_all add: r rows op\<close>)
  qed
qed

section \<open>Registrations and workers together\<close>

text \<open>A commit of a worker, or of a transaction that registers an operation.\<close>

type_synonym 'sp op_commit = "(clock \<times> worker_tx) + ('sp reg_env \<times> Registration \<times> go_time)"

definition op_step :: "(uuid \<Rightarrow> string) \<Rightarrow> 'sp op_commit \<Rightarrow> db \<Rightarrow> db" where
  "op_step uS c d =
     (case c of Inl (clk, w) \<Rightarrow> snd (worker_exec uS clk w d)
      | Inr (E, inp, t) \<Rightarrow> snd (inTransaction (Register E inp t) d))"

definition op_run :: "(uuid \<Rightarrow> string) \<Rightarrow> 'sp op_commit list \<Rightarrow> db \<Rightarrow> db" where
  "op_run uS cs d = fold (op_step uS) cs d"

definition operation_key :: "operation_row \<Rightarrow> uuid \<times> string \<times> string" where
  "operation_key o' = (op_user o', op_type o', op_key_hash o')"

text \<open>Ids and idempotency keys are unique, and an instance has at most one open item.\<close>

definition operations_inv :: "db \<Rightarrow> bool" where
  "operations_inv d \<longleftrightarrow>
     distinct (map op_id (db_operations d)) \<and> distinct (map operation_key (db_operations d))
   \<and> distinct (map it_id (db_items d)) \<and> distinct (map it_instance (filter active_item (db_items d)))"

lemma Register_commit:
  obtains (nothing) "snd (inTransaction (Register E inp t) d) = d"
  | (fresh) hash o' where "snd (inTransaction (Register E inp t) d)
        = d\<lparr>db_operations := db_operations d @ [o'], db_items := db_items d @ registered_items E inp t\<rparr>"
      "o' = operation_of_new (new_operation E inp hash t)" "operation_of (op_id o') d = None"
      "\<not> list_ex (same_key (op_user o') (op_type o') (op_key_hash o')) (db_operations d)"
      "create_items E inp t 1 (rg_Items inp) (d\<lparr>db_operations := db_operations d @ [o']\<rparr>)
         = (Inr (), snd (inTransaction (Register E inp t) d))"
proof (cases "Register E inp t d")
  case (Pair res d')
  show thesis
  proof (cases res)
    case (Inl e)
    then have "snd (inTransaction (Register E inp t) d) = d" using Pair by (simp add: inTransaction_def)
    then show thesis by (rule nothing)
  next
    case (Inr r)
    then have ok: "Register E inp t d = (Inr r, d')" using Pair by simp
    then have snd: "snd (inTransaction (Register E inp t) d) = d'" by (simp add: inTransaction_def)
    from ok show thesis
    proof (cases rule: Register_ok)
      case replay
      show thesis by (rule nothing) (simp add: snd replay)
    next
      case (fresh hash)
      show thesis by (rule that(2) [of "rr_Operation r" hash]) (use fresh snd in simp_all)
    qed
  qed
qed

lemma map_eq_find:
  assumes "map f xs = map f ys" "\<And>x. P x = Q (f x)"
  shows "map_option f (find P xs) = map_option f (find P ys)"
  using assms(1)
proof (induction xs arbitrary: ys)
  case (Cons x xs)
  then obtain y ys' where "ys = y # ys'" "f x = f y" "map f xs = map f ys'" by auto
  then show ?case using Cons.IH assms(2) by auto
qed simp

lemma find_append: "find P (xs @ ys) = (case find P xs of None \<Rightarrow> find P ys | Some x \<Rightarrow> Some x)"
  by (induction xs) auto

lemma op_step_find:
  assumes "find (same_key u k h) (db_operations d) = Some o1"
  shows "map_option operation_identity (find (same_key u k h) (db_operations (op_step uS c d))) = Some (operation_identity o1)"
proof (cases c)
  case (Inl cw)
  obtain clk w where cw: "cw = (clk, w)" by fastforce
  have "map operation_identity (db_operations (snd (worker_exec uS clk w d))) = map operation_identity (db_operations d)"
    using worker_exec_rows [of d uS clk w] by (simp add: same_rows_def)
  then have "map_option operation_identity (find (same_key u k h) (db_operations (snd (worker_exec uS clk w d))))
      = map_option operation_identity (find (same_key u k h) (db_operations d))"
    by (rule map_eq_find [where Q = "\<lambda>(_, _, ty, us, _, _, _, kh, _). us = u \<and> ty = k \<and> kh = h"])
       (simp add: same_key_def operation_identity_def)
  then show ?thesis using Inl cw assms by (simp add: op_step_def)
next
  case (Inr r)
  obtain E inp t where r: "r = (E, inp, t)" by (metis prod_cases3)
  show ?thesis
    by (rule Register_commit [of E inp t d]) (simp_all add: Inr r op_step_def assms find_append)
qed

lemma op_run_find:
  assumes "find (same_key u k h) (db_operations d) = Some o1"
  shows "\<exists>o2. find (same_key u k h) (db_operations (op_run uS cs d)) = Some o2 \<and> operation_identity o2 = operation_identity o1"
  using assms
proof (induction cs arbitrary: d o1)
  case Nil
  then show ?case by (simp add: op_run_def)
next
  case (Cons c cs)
  from op_step_find [OF Cons.prems, of uS c] obtain o' where
    o': "find (same_key u k h) (db_operations (op_step uS c d)) = Some o'" "operation_identity o' = operation_identity o1"
    by auto
  from Cons.IH [OF o'(1)] o'(2) show ?case by (simp add: op_run_def)
qed

text \<open>
  C13: A request is registered once. Take an operation that a committed registration returned (a new one or
  a replay), and let any transactions of workers and any other registrations commit after it. A
  later registration by the same user, with the same type and the same key, finds that operation:
  with the same fingerprint and organization it returns it, marked as replayed, and with another
  fingerprint or organization it is refused as a conflict. In both cases it writes nothing, whatever its
  items, its time and its identifiers are.
\<close>

theorem registration_idempotent:
  assumes "inTransaction (Register E inp t) d = (Inr r, d1)"
    and "valid_registration inp' t'" and "re_sha256 E' = re_sha256 E"
    and "rg_RequestedByUserID inp' = rg_RequestedByUserID inp" "rg_Type inp' = rg_Type inp"
      "rg_IdempotencyKey inp' = rg_IdempotencyKey inp"
  shows "if rg_Fingerprint inp' = rg_Fingerprint inp \<and> rg_OrganizationID inp' = rg_OrganizationID inp
    then \<exists>r'. Register E' inp' t' (op_run uS cs d1) = (Inr r', op_run uS cs d1) \<and> rr_Replayed r'
           \<and> operation_identity (rr_Operation r') = operation_identity (rr_Operation r)
    else Register E' inp' t' (op_run uS cs d1) = (Inl OpConflict, op_run uS cs d1)"
proof -
  have ok: "Register E inp t d = (Inr r, d1)" using assms(1) by (simp add: inTransaction_ok)
  from ok obtain hash where hash: "HashKey (re_sha256 E) (rg_IdempotencyKey inp) = Inr hash"
      and found: "find (same_key (rg_RequestedByUserID inp) (rg_Type inp) hash) (db_operations d1) = Some (rr_Operation r)"
      and same: "op_fingerprint (rr_Operation r) = rg_Fingerprint inp" "op_organization (rr_Operation r) = rg_OrganizationID inp"
  proof (cases rule: Register_ok)
    case (fresh hash)
    from fresh(6) have "find (same_key (rg_RequestedByUserID inp) (rg_Type inp) hash) (db_operations d) = None"
      by (auto simp: find_None_iff list_ex_iff)
    with fresh show ?thesis by (intro that [of hash]) (simp_all add: find_append, simp_all add: same_key_def)
  qed (use that in blast)
  from op_run_find [OF found, of uS cs] obtain o2 where
    o2: "find (same_key (rg_RequestedByUserID inp) (rg_Type inp) hash) (db_operations (op_run uS cs d1)) = Some o2"
      "operation_identity o2 = operation_identity (rr_Operation r)" by blast
  then have mem: "list_ex (same_key (rg_RequestedByUserID inp) (rg_Type inp) hash) (db_operations (op_run uS cs d1))"
    by (auto simp: list_ex_iff find_Some_iff)
  have id2: "op_fingerprint o2 = rg_Fingerprint inp" "op_organization o2 = rg_OrganizationID inp"
    using o2(2) same by (simp_all add: operation_identity_def)
  show ?thesis
    using assms(2-) hash mem o2 id2
    by (auto simp: Register_def InsertOperation_def Replay_def OperationByIdempotency_def)
qed


section \<open>The invariant\<close>

lemma map_eq_all2: "map f xs = map f ys \<longleftrightarrow> list_all2 (\<lambda>x y. f x = f y) xs ys"
  by (simp add: list_all2_eq list_all2_map1 list_all2_map2)

lemma filter_shrinks:
  "list_all2 (\<lambda>x y. g x = g y \<and> (P y \<longrightarrow> P x)) xs ys \<Longrightarrow> distinct (map g (filter P xs)) \<Longrightarrow> distinct (map g (filter P ys))"
proof -
  have "list_all2 (\<lambda>x y. g x = g y \<and> (P y \<longrightarrow> P x)) xs ys \<Longrightarrow> set (map g (filter P ys)) \<subseteq> set (map g (filter P xs))" for xs ys
    by (induction rule: list_all2_induct) auto
  note sub = this
  show "list_all2 (\<lambda>x y. g x = g y \<and> (P y \<longrightarrow> P x)) xs ys \<Longrightarrow> distinct (map g (filter P xs)) \<Longrightarrow> distinct (map g (filter P ys))"
  proof (induction rule: list_all2_induct)
    case (Cons x xs y ys)
    then show ?case using sub [OF Cons.hyps(2)] by (auto split: if_splits)
  qed simp
qed

lemma same_ids_distinct: "map f xs = map f ys \<Longrightarrow> (\<And>x. g x = h (f x)) \<Longrightarrow> map g xs = map g ys"
proof (induction xs arbitrary: ys)
  case (Cons x xs)
  from Cons.prems(1) obtain y ys' where "ys = y # ys'" "f x = f y" "map f xs = map f ys'" by auto
  with Cons.IH [of ys'] Cons.prems(2) show ?case by simp
qed simp

text \<open>Where ids are unique, a fact about every id is a fact about every position.\<close>

lemma positions_by_id:
  assumes "map key xs = map key ys" "distinct (map key xs)"
    "\<And>k x y. row_by key k xs = Some x \<Longrightarrow> row_by key k ys = Some y \<Longrightarrow> R x y"
  shows "list_all2 R xs ys"
  using assms(1,2,3)
proof (induction xs arbitrary: ys)
  case (Cons x xs)
  then obtain y ys' where ys: "ys = y # ys'" "key x = key y" "map key xs = map key ys'" by auto
  have "R x y" using Cons.prems(3) [of "key x" x y] ys by (simp add: row_by_def)
  moreover have "list_all2 R xs ys'"
  proof (rule Cons.IH [OF ys(3)])
    show "distinct (map key xs)" using Cons.prems(2) by simp
    fix k a b
    assume a: "row_by key k xs = Some a" "row_by key k ys' = Some b"
    then have "k \<noteq> key x" using Cons.prems(2) row_by_key [OF a(1)] by (auto simp: image_iff)
    then show "R a b" using Cons.prems(3) [of k a b] a ys by (simp add: row_by_def)
  qed
  ultimately show ?case using ys by simp
qed simp

lemma worker_active_shrinks:
  assumes "distinct (map it_id (db_items d))"
  shows "list_all2 (\<lambda>i i'. it_instance i = it_instance i' \<and> (active_item i' \<longrightarrow> active_item i))
           (db_items d) (db_items (snd (worker_exec uS clk w d)))"
proof -
  let ?d = "snd (worker_exec uS clk w d)"
  have id: "map item_identity (db_items d) = map item_identity (db_items ?d)"
    using worker_exec_rows [of d uS clk w] by (simp add: same_rows_def)
  have "list_all2 (\<lambda>i i'. active_item i' \<longrightarrow> active_item i) (db_items d) (db_items ?d)"
  proof (rule positions_by_id)
    show "map it_id (db_items d) = map it_id (db_items ?d)" by (simp add: worker_exec_ids)
    fix k i i'
    assume "item_of k d = Some i" "item_of k ?d = Some i'"
    then show "active_item i' \<longrightarrow> active_item i" using worker_exec_inactive [OF assms] by fastforce
  qed fact
  moreover have "list_all2 (\<lambda>i i'. it_instance i = it_instance i') (db_items d) (db_items ?d)"
    using id unfolding map_eq_all2 by (rule list_all2_mono) (simp add: item_identity_def)
  ultimately show ?thesis by (simp add: list_all2_conv_all_nth)
qed

lemma worker_operations_inv:
  assumes "operations_inv d"
  shows "operations_inv (snd (worker_exec uS clk w d))"
proof -
  let ?d = "snd (worker_exec uS clk w d)"
  have id: "map operation_identity (db_operations ?d) = map operation_identity (db_operations d)"
    using worker_exec_rows [of d uS clk w] by (simp add: same_rows_def)
  have "map op_id (db_operations ?d) = map op_id (db_operations d)"
    by (rule same_ids_distinct [OF id, where h = fst]) (simp add: operation_identity_def)
  moreover have "map operation_key (db_operations ?d) = map operation_key (db_operations d)"
    by (rule same_ids_distinct [OF id, where h = "\<lambda>(_, _, ty, us, _, _, _, kh, _). (us, ty, kh)"])
       (simp add: operation_identity_def operation_key_def)
  moreover have "distinct (map it_instance (filter active_item (db_items ?d)))"
    by (rule filter_shrinks [OF worker_active_shrinks]) (use assms in \<open>simp_all add: operations_inv_def\<close>)
  ultimately show ?thesis using assms by (simp add: operations_inv_def worker_exec_ids)
qed

lemma create_items_inv:
  "create_items E inp t n is d = (Inr u, d') \<Longrightarrow>
   distinct (map it_id (db_items d)) \<and> distinct (map it_instance (filter active_item (db_items d))) \<Longrightarrow>
   distinct (map it_id (db_items d')) \<and> distinct (map it_instance (filter active_item (db_items d')))"
proof (induction "is" arbitrary: n d)
  case (Cons i "is")
  then obtain d1 where d1: "CreateOperationItem (new_item E inp t n i) d = (Inr (), d1)"
      and rest: "create_items E inp t (Suc n) is d1 = (Inr u, d')"
    by (auto split: prod.splits sum.splits)
  note ok = CreateOperationItem_ok [OF d1]
  have "distinct (map it_id (db_items d1)) \<and> distinct (map it_instance (filter active_item (db_items d1)))"
    using ok Cons.prems(2) by (auto simp: item_of_new_def new_item_def row_by_None list_ex_iff)
  then show ?case using Cons.IH [OF rest] by blast
qed simp


lemma register_operations_inv:
  assumes "operations_inv d"
  shows "operations_inv (snd (inTransaction (Register E inp t) d))"
proof (cases rule: Register_commit [of E inp t d])
  case (fresh hash o')
  have "distinct (map it_id (db_items (snd (inTransaction (Register E inp t) d)))) \<and>
        distinct (map it_instance (filter active_item (db_items (snd (inTransaction (Register E inp t) d)))))"
    by (rule create_items_inv [OF fresh(5)]) (use assms in \<open>simp add: operations_inv_def\<close>)
  moreover have "db_operations (snd (inTransaction (Register E inp t) d)) = db_operations d @ [o']"
    by (simp add: fresh(1))
  moreover have "op_id o' \<notin> set (map op_id (db_operations d))" using fresh(3) by (auto simp: row_by_None)
  moreover have "operation_key o' \<notin> set (map operation_key (db_operations d))"
    using fresh(4) by (auto simp: operation_key_def list_ex_iff same_key_def)
  ultimately show ?thesis using assms by (simp add: operations_inv_def)
qed (use assms in simp)

text \<open>
  The operation tables stay consistent under concurrency. In every sequence in which transactions
  of workers and registrations commit, whatever their arguments, and whether they succeed or not: ids stay unique,
  no two operations have the same user, type and key, and no instance ever has two items that are PENDING, RUNNING or
  RECONCILING.
\<close>

lemma operations_inv_run:
  assumes "operations_inv d"
  shows "operations_inv (op_run uS cs d)"
  using assms
proof (induction cs arbitrary: d)
  case Nil
  then show ?case by (simp add: op_run_def)
next
  case (Cons c cs)
  have "operations_inv (op_step uS c d)"
    using Cons.prems by (auto simp: op_step_def worker_operations_inv register_operations_inv split: sum.splits)
  from Cons.IH [OF this] show ?case by (simp add: op_run_def)
qed

section \<open>Outcomes\<close>

text \<open>
  Every outcome of a registration that its transaction commits or rolls back. A success is either a replay, which
  returns the stored operation with that user, type, key, fingerprint and organization and writes nothing, or it adds exactly
  one PENDING operation under an unused identifier and key, and one PENDING item without a lease
  for each instance that was asked for, in order, and changes no other row. A failure changes nothing.
\<close>

lemma Register_outcome:
  "case inTransaction (Register E inp t) d of
     (Inl e, d') \<Rightarrow> d' = d
   | (Inr r, d') \<Rightarrow> valid_registration inp t \<and> (\<exists>hash. HashKey (re_sha256 E) (rg_IdempotencyKey inp) = Inr hash \<and>
       (if rr_Replayed r
        then d' = d \<and> rr_Operation r \<in> set (db_operations d)
           \<and> operation_key (rr_Operation r) = (rg_RequestedByUserID inp, rg_Type inp, hash)
           \<and> op_fingerprint (rr_Operation r) = rg_Fingerprint inp \<and> op_organization (rr_Operation r) = rg_OrganizationID inp
        else rr_Operation r = operation_of_new (new_operation E inp hash t)
           \<and> operation_of (re_newID E 0) d = None
           \<and> (rg_RequestedByUserID inp, rg_Type inp, hash) \<notin> set (map operation_key (db_operations d))
           \<and> d' = d\<lparr>db_operations := db_operations d @ [rr_Operation r],
                   db_items := db_items d @ registered_items E inp t\<rparr>))"
proof (cases "inTransaction (Register E inp t) d")
  case (Pair res d')
  show ?thesis
  proof (cases res)
    case (Inl e)
    then show ?thesis using Pair inTransaction_error by fastforce
  next
    case (Inr r)
    then have ok: "Register E inp t d = (Inr r, d')" using Pair by (simp add: inTransaction_ok)
    from ok show ?thesis
    proof (cases rule: Register_ok)
      case (replay hash)
      with find_same_key [OF replay(5)] show ?thesis using Pair Inr by (simp add: operation_key_def)
    next
      case (fresh hash)
      have "(rg_RequestedByUserID inp, rg_Type inp, hash) \<notin> set (map operation_key (db_operations d))"
        using fresh(6) by (auto simp: operation_key_def list_ex_iff same_key_def)
      then show ?thesis using Pair Inr fresh by simp
    qed
  qed
qed

lemma create_items_target:
  assumes "create_items E inp t n is d = (Inr u, d')" "i \<in> set is"
  shows "\<exists>li. instance_of (ri_LabInstanceID i) d = Some li \<and> 1 \<le> ri_Generation i \<and> ri_Generation i \<le> MaxInt32
     \<and> (\<exists>o'. operation_of (re_newID E 0) d = Some o' \<and>
          ri_Generation i = (if op_type o' = ''RESET'' then li_generation li + 1 else li_generation li))"
  using assms
proof (induction "is" arbitrary: n d)
  case (Cons j "is")
  then obtain d1 where d1: "CreateOperationItem (new_item E inp t n j) d = (Inr (), d1)"
      and rest: "create_items E inp t (Suc n) is d1 = (Inr u, d')"
    by (auto split: prod.splits sum.splits)
  note ok = CreateOperationItem_ok [OF d1]
  show ?case
  proof (cases "i = j")
    case True
    then show ?thesis using ok by (auto simp: item_target_def new_item_def split: option.splits)
  next
    case False
    then show ?thesis using Cons.IH [OF rest] Cons.prems(2) ok by simp
  qed
qed simp

text \<open>
  C14: The generation of a registered item. Each item of a new registration names an instance that exists; a RESET asks for
  the instance's generation plus one, a PROVISION or CLEANUP for its current generation, and the value is between 1
  and the largest 32-bit integer, so it fits the column.
\<close>

theorem registered_generation:
  assumes "Register E inp t d = (Inr r, d')" and "\<not> rr_Replayed r" and "i \<in> set (rg_Items inp)"
  shows "\<exists>li. instance_of (ri_LabInstanceID i) d = Some li
     \<and> ri_Generation i = (if rg_Type inp = ''RESET'' then li_generation li + 1 else li_generation li)
     \<and> 1 \<le> ri_Generation i \<and> ri_Generation i \<le> 2147483647"
  using assms(1)
proof (cases rule: Register_ok)
  case (fresh hash)
  let ?d1 = "d\<lparr>db_operations := db_operations d @ [rr_Operation r]\<rparr>"
  have op: "operation_of (re_newID E 0) ?d1 = Some (rr_Operation r)"
    using fresh(4,5) by (simp add: row_by_append) (simp add: row_by_def)
  have ty: "op_type (rr_Operation r) = rg_Type inp" using fresh(4) by simp
  from create_items_target [OF fresh(9) assms(3)] op ty
  obtain li where "instance_of (ri_LabInstanceID i) d = Some li" "1 \<le> ri_Generation i" "ri_Generation i \<le> MaxInt32"
    "ri_Generation i = (if rg_Type inp = ''RESET'' then li_generation li + 1 else li_generation li)"
    by auto
  then show ?thesis by (intro exI [of _ li]) (simp add: MaxInt32_def)
qed (use assms(2) in simp)

text \<open>
  C15: Who reads an operation. Whatever commits between the three reads, an operation is shown only to a user
  of its organization who has a membership of the target's class at the third read, and who is an
  instructor there or, for a RESET, the owner of the instance. What is shown is the operation's state, its target, and
  for a failure the fixed summary, never the stored error text.
\<close>

theorem Get_authorized:
  assumes "Get parse uS D user i = Inr v"
  shows "\<exists>o' tg m. operation_of (ov_ID v) (D 0) = Some o' \<and> uS (ov_ID v) = i
     \<and> op_organization o' = us_OrganizationID user
     \<and> OperationTarget_of o' (D 1) = Inr tg
     \<and> m \<in> set (db_memberships (D 2)) \<and> mb_class m = ot_ClassID tg \<and> mb_user m = us_ID user
     \<and> mb_organization m = us_OrganizationID user
     \<and> (mb_role m = ''INSTRUCTOR'' \<or> op_type o' = ''RESET'' \<and> ot_OwnerUserID tg = Some (us_ID user))
     \<and> ov_Status v = op_status o' \<and> ov_Type v = op_type o'
     \<and> (case ov_Error v of None \<Rightarrow> True | Some e \<Rightarrow> op_status o' = ''FAILED'' \<and> e = failed_summary)"
proof -
  from assms obtain parsed o' tg m t where
      p: "parse i = Some parsed" "uS parsed = i" "OperationByID parsed (D 0) = Inr o'"
        "us_OrganizationID user = op_organization o'" "OperationTarget_of o' (D 1) = Inr tg"
    and m: "ClassMembership (ot_ClassID tg) (us_ID user) (D 2) = Inr m" "mb_organization m = us_OrganizationID user"
        "may_read user tg m"
    and v: "v = view_of o' t"
    by (auto simp: Get_def split: option.splits sum.splits if_splits)
  have o': "operation_of parsed (D 0) = Some o'" "op_id o' = parsed"
    using p(3) row_by_key [of op_id parsed "db_operations (D 0)" o'] by (auto simp: OperationByID_def split: option.splits)
  have mem: "m \<in> set (db_memberships (D 2))" "mb_class m = ot_ClassID tg" "mb_user m = us_ID user"
    using m(1) by (auto simp: ClassMembership_def find_Some_iff split: option.splits)
  have owner: "ot_OwnerUserID tg = Some x \<Longrightarrow> op_type o' = ''RESET''" for x
    using p(5) by (auto simp: OperationTarget_of_def split: if_splits option.splits)
  have "ov_ID v = parsed" "ov_Status v = op_status o'" "ov_Type v = op_type o'"
    "case ov_Error v of None \<Rightarrow> True | Some e \<Rightarrow> op_status o' = ''FAILED'' \<and> e = failed_summary"
    using v o' by (auto simp: view_of_def)
  then show ?thesis using o' p m mem owner unfolding may_read_def
    by (intro exI [of _ o'] exI [of _ tg] exI [of _ m]) auto
qed

section \<open>Witnesses\<close>

definition demo_reg_env :: "unit reg_env" where
  "demo_reg_env =
     \<lparr>re_otel = \<lparr>otel_extract = (\<lambda>_ _ _. None), otel_inject = (\<lambda>_. ([], []))\<rparr>, re_span = None,
      re_sha256 = (\<lambda>s. ''#'' @ s), re_newID = (\<lambda>n. 100 + of_nat n)\<rparr>"

definition demo_registration :: "string \<Rightarrow> Registration" where
  "demo_registration fp =
     \<lparr>rg_OrganizationID = 1, rg_RequestedByUserID = 11, rg_Type = ''CLEANUP'', rg_IdempotencyKey = ''k'', rg_Fingerprint = fp,
      rg_LabExecutionID = Some 5, rg_LabInstanceID = None, rg_RequestID = ''req'',
      rg_Items = [\<lparr>ri_LabInstanceID = 6, ri_Generation = 1\<rparr>]\<rparr>"

definition demo_member_db :: db where
  "demo_member_db = (demo_db ''PROVISION'' [] [] ''READY'')
     \<lparr>db_memberships := [\<lparr>mb_organization = 1, mb_class = 2, mb_user = 11, mb_role = ''INSTRUCTOR''\<rparr>]\<rparr>"

lemmas demo_reg = demo_reg_env_def demo_registration_def demo_member_db_def demo_defs

lemma demo_hash: "HashKey sha ''k'' = Inr (sha ''k'')"
  by (simp add: HashKey_def go_defs)

lemma short_fingerprint: "length fp \<noteq> 32 \<Longrightarrow> fp \<noteq> zero_fingerprint"
  by (auto simp: zero_fingerprint_def)

lemma demo_registered: "\<exists>r d'. Register demo_reg_env (demo_registration ''fp'') 50 demo_member_db = (Inr r, d') \<and> \<not> rr_Replayed r"
  by (simp add: Register_def demo_reg demo_hash valid_registration_def target_valid_def short_fingerprint
      InsertOperation_def same_key_def new_operation_def operation_of_new_def row_by_def targets_exist_def Let_def
      CreateOperationItem_def item_target_def new_item_def item_of_new_def MaxInt32_def OperationByID_def)


theorem registered_generation_witness:
  "\<exists>li. instance_of 6 demo_member_db = Some li \<and> li_generation li = 1"
proof -
  from demo_registered obtain r d' where r: "Register demo_reg_env (demo_registration ''fp'') 50 demo_member_db = (Inr r, d')"
    "\<not> rr_Replayed r" by blast
  show ?thesis
    using registered_generation [OF r, of "\<lparr>ri_LabInstanceID = 6, ri_Generation = 1\<rparr>"]
    by (auto simp: demo_registration_def)
qed

theorem registration_idempotent_witness:
  "fst (Register demo_reg_env (demo_registration ''other'') 70
         (snd (Register demo_reg_env (demo_registration ''fp'') 50 demo_member_db))) = Inl OpConflict"
proof -
  from demo_registered obtain r d' where r: "Register demo_reg_env (demo_registration ''fp'') 50 demo_member_db = (Inr r, d')"
    by blast
  have v: "valid_registration (demo_registration ''other'') 70"
    by (simp add: valid_registration_def demo_registration_def target_valid_def short_fingerprint)
  have "Register demo_reg_env (demo_registration ''other'') 70 (op_run demo_uS ([] :: unit op_commit list) d')
      = (Inl OpConflict, op_run demo_uS ([] :: unit op_commit list) d')"
    using registration_idempotent [of demo_reg_env "demo_registration ''fp''" 50 demo_member_db r d'
        "demo_registration ''other''" 70 demo_reg_env demo_uS "[] :: unit op_commit list"] r v
    by (simp add: inTransaction_ok) (simp add: demo_registration_def)
  then show ?thesis by (simp add: r op_run_def)
qed

definition demo_commits :: "unit op_commit list" where
  "demo_commits =
     [Inr (demo_reg_env, demo_registration ''fp'', 50),
      Inl (demo_clock 100, ClaimTx (\<lambda>_. False) 77 60 []),
      Inr (demo_reg_env, demo_registration ''other'', 70)]"

lemma operations_inv_run_witness:
  "operations_inv demo_member_db \<and> operations_inv (op_run demo_uS demo_commits demo_member_db)"
proof -
  have "operations_inv demo_member_db" by (simp add: operations_inv_def demo_reg)
  then show ?thesis using operations_inv_run by blast
qed

theorem Get_authorized_witness:
  "\<exists>v. Get (\<lambda>s. if s = ''op8'' then Some 8 else None) (\<lambda>_. ''op8'') (\<lambda>_. demo_member_db)
         \<lparr>us_ID = 11, us_OrganizationID = 1, us_OrganizationRole = ''MEMBER''\<rparr> ''op8'' = Inr v \<and> ov_ID v = 8 \<and> ov_Error v = None"
proof -
  let ?get = "Get (\<lambda>s. if s = ''op8'' then Some 8 else None) (\<lambda>_. ''op8'') (\<lambda>_. demo_member_db)
         \<lparr>us_ID = 11, us_OrganizationID = 1, us_OrganizationRole = ''MEMBER''\<rparr> ''op8''"
  obtain v where v: "?get = Inr v" "ov_ID v = 8"
    by (auto simp: Get_def OperationByID_def row_by_def demo_reg OperationTarget_of_def execution_target_def
        ClassMembership_def ClassRole_Valid_def may_read_def target_of_operation_def view_of_def)
  from Get_authorized [OF v(1)] have "ov_Error v = None"
    by (auto simp: v(2) demo_reg row_by_def split: option.splits)
  with v show ?thesis by auto
qed

end
