(* ===== verification/Lab_Snapshot.thy ===== *)
theory Lab_Snapshot
  imports Operation_Register "HOL-Library.List_Lexorder" "HOL-Library.Multiset"
begin

text \<open>
  Resolution of a LabSpec into the immutable creation snapshot
  (\<^verbatim>\<open>internal/server/labexecution/snapshot.go\<close>) and the two locking reads it uses
  (\<^verbatim>\<open>internal/postgres/labexecution.go\<close>).

  \<open>uS\<close> is \<^verbatim>\<open>UUID.String\<close> and \<open>sha256hex\<close> the hexadecimal SHA-256 of a text. The JSON text that
  the code stores is represented by the value that \<^verbatim>\<open>json.Unmarshal\<close> reads back into the
  protocol's \<^verbatim>\<open>CreationSnapshot\<close>: both types have the same field names. The role names of a
  spec are distinct (\<^verbatim>\<open>uq_lab_spec_vm_roles_role\<close>), so the unstable \<^verbatim>\<open>sort.Slice\<close> has
  one possible result.
\<close>

section \<open>Errors of the package\<close>

text \<open>
  The last but two are signals that only roll a transaction back; the signal of a replay carries the
  operation that the code keeps in a variable outside the transaction.
\<close>

datatype lab_error =
    LabNotFound | LabForbidden | LabInvalidRequest | LabInvalidTargets | LabSpecNotProvisionable
  | LabActiveExecution | LabIdempotencyConflict | LabInconsistentData
  | LabMutationInProgress | LabExecutionFinished | LabInvalidResetTarget
  | LabReplayed operation_row | LabActiveConflict | LabRepo repo_error | LabOp op_error

definition maxSnapshotVMs :: int where
  "maxSnapshotVMs = 64"

section \<open>Keys\<close>

text \<open>Decimal digits of a natural number, as \<^verbatim>\<open>%d\<close> prints them.\<close>

fun decimal :: "nat \<Rightarrow> string" where
  "decimal n = (if n < 10 then [char_of (48 + n)] else decimal (n div 10) @ [char_of (48 + n mod 10)])"

declare decimal.simps [simp del]

definition vm_key :: "nat \<Rightarrow> string" where
  "vm_key n = ''vm-'' @ decimal n"

section \<open>Reads\<close>

definition ResolvedImageMappingsForShare :: "uuid \<Rightarrow> uuid list \<Rightarrow> db \<Rightarrow> ResolvedImageMapping list" where
  "ResolvedImageMappingsForShare org ids d =
     sort_key im_ID (filter (\<lambda>m. im_OrganizationID m = org \<and> im_ID m \<in> set ids) (db_image_mappings d))"

definition ResolvedFlavorMappingsForShare :: "uuid \<Rightarrow> uuid list \<Rightarrow> db \<Rightarrow> ResolvedFlavorMapping list" where
  "ResolvedFlavorMappingsForShare org ids d =
     sort_key fm_ID (filter (\<lambda>m. fm_OrganizationID m = org \<and> fm_ID m \<in> set ids) (db_flavor_mappings d))"

section \<open>Resolution\<close>

fun distinct_ids :: "uuid set \<Rightarrow> uuid list \<Rightarrow> uuid list" where
  "distinct_ids seen [] = []"
| "distinct_ids seen (x # xs) =
     (if x \<in> seen then distinct_ids seen xs else x # distinct_ids (insert x seen) xs)"

text \<open>The rows of a mapping table by id; \<open>org\<close> and \<open>key\<close> read the organization and the id of a row.\<close>

fun index_rows :: "('m \<Rightarrow> uuid) \<Rightarrow> ('m \<Rightarrow> uuid) \<Rightarrow> uuid \<Rightarrow> (uuid \<rightharpoonup> 'm) \<Rightarrow> 'm list \<Rightarrow> (uuid \<rightharpoonup> 'm) option" where
  "index_rows org key o' acc [] = Some acc"
| "index_rows org key o' acc (m # ms) =
     (if org m \<noteq> o' \<or> (case acc (key m) of None \<Rightarrow> False | Some m' \<Rightarrow> key m' \<noteq> uuid_Nil) then None
      else index_rows org key o' (acc(key m \<mapsto> m)) ms)"

fun check_counts :: "int \<Rightarrow> LabSpecVMRole list \<Rightarrow> lab_error option" where
  "check_counts tot [] = None"
| "check_counts tot (r # rs) =
     (if vr_VMCount r < 1 then Some LabInconsistentData
      else let tot' = int64_add tot (vr_VMCount r) in
        if tot' > maxSnapshotVMs then Some LabSpecNotProvisionable else check_counts tot' rs)"

text \<open>The closure \<^verbatim>\<open>sameConnection\<close>: its answer and the connection it remembers.\<close>

definition sameConnection :: "uuid \<Rightarrow> uuid \<Rightarrow> bool \<times> uuid" where
  "sameConnection i connection =
     (let c = (if connection = uuid_Nil then i else connection) in (i \<noteq> uuid_Nil \<and> i = c, c))"

definition resolved_vm :: "string \<Rightarrow> LabSpecVMRole \<Rightarrow> ResolvedImageMapping \<Rightarrow> ResolvedFlavorMapping \<Rightarrow> int \<Rightarrow> ResolvedVmSpec" where
  "resolved_vm key r img flavor index =
     \<lparr>vm_VMKey = key, vm_Role = vr_Role r, vm_InstanceIndex = index, vm_ImageID = im_ProviderImageID img, vm_ImageRef = [],
      vm_FlavorID = fm_ProviderFlavorID flavor, vm_FlavorRef = [],
      vm_FlavorSpec = Some \<lparr>fs_VCPUs = fm_VCPUs flavor, fs_RAMMiB = fm_RAMMiB flavor, fs_DiskGiB = fm_DiskGiB flavor\<rparr>\<rparr>"

definition add_vm ::
  "LabSpec \<Rightarrow> LabSpecVMRole \<Rightarrow> ResolvedImageMapping \<Rightarrow> ResolvedFlavorMapping \<Rightarrow> int
   \<Rightarrow> ResolvedVmSpec list \<times> string \<Rightarrow> ResolvedVmSpec list \<times> string" where
  "add_vm spec r img flavor index st =
     (let key = vm_key (length (fst st) + 1)
      in (fst st @ [resolved_vm key r img flavor index],
          if vr_Role r = ls_WorkspaceRole spec \<and> index = ls_WorkspaceInstanceIndex spec then key else snd st))"

fun resolve_roles ::
  "LabSpec \<Rightarrow> (uuid \<rightharpoonup> ResolvedImageMapping) \<Rightarrow> (uuid \<rightharpoonup> ResolvedFlavorMapping) \<Rightarrow> LabSpecVMRole list
   \<Rightarrow> uuid \<Rightarrow> ResolvedVmSpec list \<times> string \<Rightarrow> lab_error + uuid \<times> ResolvedVmSpec list \<times> string" where
  "resolve_roles spec images flavors [] connection st = Inr (connection, st)"
| "resolve_roles spec images flavors (r # rs) connection st =
     (case images (vr_ImageMappingID r) of None \<Rightarrow> Inl LabSpecNotProvisionable | Some img \<Rightarrow>
      if \<not> im_Active img \<or> im_ProviderImageID img = [] then Inl LabSpecNotProvisionable
      else (case sameConnection (im_ProviderConnectionID img) connection of (ok, connection1) \<Rightarrow>
        if \<not> ok then Inl LabSpecNotProvisionable
        else (case flavors (vr_FlavorMappingID r) of None \<Rightarrow> Inl LabSpecNotProvisionable | Some flavor \<Rightarrow>
          if \<not> fm_Active flavor \<or> fm_ProviderFlavorID flavor = [] then Inl LabSpecNotProvisionable
          else (case sameConnection (fm_ProviderConnectionID flavor) connection1 of (ok2, connection2) \<Rightarrow>
            if \<not> ok2 then Inl LabSpecNotProvisionable
            else if fm_VCPUs flavor < 1 \<or> fm_RAMMiB flavor < 1 \<or> fm_DiskGiB flavor < 0 then Inl LabInconsistentData
            else resolve_roles spec images flavors rs connection2
                   (fold (add_vm spec r img flavor) [0..vr_VMCount r - 1] st)))))"

definition sorted_roles :: "LabSpec \<Rightarrow> LabSpecVMRole list" where
  "sorted_roles spec = sort_key (\<lambda>r. map (of_char :: char \<Rightarrow> nat) (vr_Role r)) (ls_VMRoles spec)"

definition resolveSnapshot ::
  "(uuid \<Rightarrow> string) \<Rightarrow> (string \<Rightarrow> string) \<Rightarrow> uuid \<Rightarrow> LabSpec \<Rightarrow> db \<Rightarrow> lab_error + CreationSnapshot \<times> uuid" where
  "resolveSnapshot uS sha256hex organizationID spec d =
     (if ls_Revision spec < 1 \<or> ls_VMRoles spec = [] then Inl LabInconsistentData
      else let roles = sorted_roles spec in
        case check_counts 0 roles of Some e \<Rightarrow> Inl e | None \<Rightarrow>
        (case index_rows im_OrganizationID im_ID organizationID Map.empty
                (ResolvedImageMappingsForShare organizationID (distinct_ids {} (map vr_ImageMappingID roles)) d) of
           None \<Rightarrow> Inl LabInconsistentData
         | Some images \<Rightarrow>
        (case index_rows fm_OrganizationID fm_ID organizationID Map.empty
                (ResolvedFlavorMappingsForShare organizationID (distinct_ids {} (map vr_FlavorMappingID roles)) d) of
           None \<Rightarrow> Inl LabInconsistentData
         | Some flavors \<Rightarrow>
        (case resolve_roles spec images flavors roles uuid_Nil ([], []) of
           Inl e \<Rightarrow> Inl e
         | Inr (connection, vms, workspaceKey) \<Rightarrow>
             if workspaceKey = [] then Inl LabInconsistentData
             else Inr (\<lparr>cs_ProviderConnectionID = uS connection, cs_VMs = vms, cs_WorkspaceVMKey = workspaceKey,
                        cs_InternetOutbound = ls_InternetOutbound spec,
                        cs_StartupScript = map_option (\<lambda>s. \<lparr>ss_Content = s, ss_SHA256 = sha256hex s\<rparr>) (ls_StartupScript spec)\<rparr>,
                       connection)))))"

section \<open>Lemmas\<close>

lemma decimal_digits: "set (decimal n) \<subseteq> char_of ` {48 ..< 58 :: nat} \<and> decimal n \<noteq> []"
proof (induction n rule: decimal.induct)
  case (1 n)
  then show ?case by (auto simp: decimal.simps [of n])
qed

lemma decimal_value: "foldl (\<lambda>a c. 10 * a + (of_char c - 48)) (0 :: nat) (decimal n) = n"
proof (induction n rule: decimal.induct)
  case (1 n)
  have "48 + n mod 10 < 256" "n < 10 \<Longrightarrow> 48 + n < 256" by auto
  with 1 show ?case by (auto simp: decimal.simps [of n])
qed

lemma decimal_inj: "decimal m = decimal n \<longleftrightarrow> m = n"
  by (metis decimal_value)

lemma vm_key_inj [simp]: "vm_key m = vm_key n \<longleftrightarrow> m = n"
  by (simp add: vm_key_def decimal_inj)

lemma vm_key_nonempty [simp]: "vm_key n \<noteq> []"
  by (simp add: vm_key_def)

lemma set_distinct_ids [simp]: "set (distinct_ids seen xs) = set xs - seen"
  by (induction xs arbitrary: seen) auto

lemma distinct_distinct_ids: "distinct (distinct_ids seen xs)"
  by (induction xs arbitrary: seen) auto

lemma index_rows_Some:
  "index_rows org key o' acc ms = Some f \<Longrightarrow> f k = Some m \<Longrightarrow> acc k = Some m \<or> m \<in> set ms \<and> org m = o' \<and> key m = k"
proof (induction ms arbitrary: acc)
  case (Cons a ms)
  then have o': "org a = o'" and rest: "index_rows org key o' (acc(key a \<mapsto> a)) ms = Some f" by (auto split: if_splits)
  from Cons.IH [OF rest Cons.prems(2)] o' show ?case by (auto split: if_splits)
qed simp

text \<open>The number of VMs that a list of roles asks for.\<close>

lemma check_counts_None:
  "check_counts tot rs = None \<Longrightarrow> 0 \<le> tot \<Longrightarrow> tot \<le> 64 \<Longrightarrow> (\<forall>r \<in> set rs. vr_VMCount r \<le> MaxInt32) \<Longrightarrow>
   (\<forall>r \<in> set rs. 1 \<le> vr_VMCount r) \<and> tot + sum_list (map vr_VMCount rs) \<le> 64"
proof (induction rs arbitrary: tot)
  case (Cons r rs)
  have "in_int64 (tot + vr_VMCount r)" using Cons.prems by (auto simp: in_int64_def MaxInt32_def split: if_splits)
  then have add: "int64_add tot (vr_VMCount r) = tot + vr_VMCount r" by (rule int64_add_exact)
  with Cons.prems have "1 \<le> vr_VMCount r" "tot + vr_VMCount r \<le> 64" "check_counts (tot + vr_VMCount r) rs = None"
    by (auto simp: Let_def maxSnapshotVMs_def split: if_splits)
  with Cons.IH [of "tot + vr_VMCount r"] Cons.prems show ?case by auto
qed simp


text \<open>The places of the VMs: each role in turn, each of its indexes in turn.\<close>

definition role_slots :: "LabSpecVMRole list \<Rightarrow> (LabSpecVMRole \<times> int) list" where
  "role_slots rs = concat (map (\<lambda>r. map (Pair r) [0..vr_VMCount r - 1]) rs)"

definition slot_vm ::
  "(uuid \<rightharpoonup> ResolvedImageMapping) \<Rightarrow> (uuid \<rightharpoonup> ResolvedFlavorMapping) \<Rightarrow> nat \<times> LabSpecVMRole \<times> int \<Rightarrow> ResolvedVmSpec" where
  "slot_vm images flavors = (\<lambda>(n, r, i).
     resolved_vm (vm_key n) r (the (images (vr_ImageMappingID r))) (the (flavors (vr_FlavorMappingID r))) i)"

lemma role_slots_simps [simp]:
  "role_slots [] = []" "role_slots (r # rs) = map (Pair r) [0..vr_VMCount r - 1] @ role_slots rs"
  by (simp_all add: role_slots_def)

lemma length_role_slots: "\<forall>r \<in> set rs. 1 \<le> vr_VMCount r \<Longrightarrow> int (length (role_slots rs)) = sum_list (map vr_VMCount rs)"
  by (induction rs) auto

lemma add_vm_fold:
  "fst (fold (add_vm spec r img flavor) is st)
     = fst st @ map (\<lambda>(n, i). resolved_vm (vm_key n) r img flavor i) (enumerate (Suc (length (fst st))) is)"
  by (induction "is" arbitrary: st) (simp_all add: add_vm_def Let_def)

lemma add_vm_workspace:
  "snd st = [] \<or> snd st \<in> vm_VMKey ` set (fst st) \<Longrightarrow>
   snd (fold (add_vm spec r img flavor) is st) = [] \<or>
   snd (fold (add_vm spec r img flavor) is st) \<in> vm_VMKey ` set (fst (fold (add_vm spec r img flavor) is st))"
proof (induction "is" arbitrary: st)
  case (Cons i "is")
  have "snd (add_vm spec r img flavor i st) = [] \<or>
        snd (add_vm spec r img flavor i st) \<in> vm_VMKey ` set (fst (add_vm spec r img flavor i st))"
    using Cons.prems by (auto simp: add_vm_def Let_def resolved_vm_def)
  from Cons.IH [OF this] show ?case by simp
qed simp

lemma sameConnection_True:
  "sameConnection i c = (True, c') \<longleftrightarrow> i \<noteq> uuid_Nil \<and> c' = i \<and> (c = uuid_Nil \<or> c = i)"
  by (auto simp: sameConnection_def Let_def)

text \<open>What the loop has checked of a role.\<close>

definition role_resolved ::
  "(uuid \<rightharpoonup> ResolvedImageMapping) \<Rightarrow> (uuid \<rightharpoonup> ResolvedFlavorMapping) \<Rightarrow> uuid \<Rightarrow> LabSpecVMRole \<Rightarrow> bool" where
  "role_resolved images flavors c r \<longleftrightarrow>
     (case images (vr_ImageMappingID r) of None \<Rightarrow> False
      | Some m \<Rightarrow> im_Active m \<and> im_ProviderImageID m \<noteq> [] \<and> im_ProviderConnectionID m = c)
   \<and> (case flavors (vr_FlavorMappingID r) of None \<Rightarrow> False
      | Some m \<Rightarrow> fm_Active m \<and> fm_ProviderFlavorID m \<noteq> [] \<and> fm_ProviderConnectionID m = c
          \<and> 1 \<le> fm_VCPUs m \<and> 1 \<le> fm_RAMMiB m \<and> 0 \<le> fm_DiskGiB m)"

lemma resolve_roles_Cons:
  assumes "resolve_roles spec images flavors (r # rs) c st = Inr res"
  obtains img flavor c1 where "images (vr_ImageMappingID r) = Some img" "flavors (vr_FlavorMappingID r) = Some flavor"
    "role_resolved images flavors c1 r" "c1 \<noteq> uuid_Nil" "c = uuid_Nil \<or> c = c1"
    "resolve_roles spec images flavors rs c1 (fold (add_vm spec r img flavor) [0..vr_VMCount r - 1] st) = Inr res"
proof -
  from assms obtain img flavor where i: "images (vr_ImageMappingID r) = Some img" "flavors (vr_FlavorMappingID r) = Some flavor"
    by (auto split: option.splits if_splits prod.splits)
  obtain ok1 c1 ok2 c2 where s: "sameConnection (im_ProviderConnectionID img) c = (ok1, c1)"
    "sameConnection (fm_ProviderConnectionID flavor) c1 = (ok2, c2)" by (metis surj_pair)
  with assms i have ok: "ok1" "ok2" by (auto split: if_splits)
  with s have c: "im_ProviderConnectionID img \<noteq> uuid_Nil" "c1 = im_ProviderConnectionID img" "c = uuid_Nil \<or> c = c1"
    "c2 = fm_ProviderConnectionID flavor" "c1 = c2"
    by (auto simp: sameConnection_True)
  show thesis
    by (rule that [OF i, of c2])
       (use assms i s ok c in \<open>auto simp: role_resolved_def split: if_splits\<close>)
qed

lemma resolve_roles_Inr:
  assumes "resolve_roles spec images flavors rs c st = Inr (c', vms, ws)"
  shows "vms = fst st @ map (slot_vm images flavors) (enumerate (Suc (length (fst st))) (role_slots rs))
     \<and> (\<forall>r \<in> set rs. role_resolved images flavors c' r) \<and> (c = uuid_Nil \<or> c' = c) \<and> (c' = uuid_Nil \<longrightarrow> c = uuid_Nil \<and> rs = [])
     \<and> (snd st = [] \<or> snd st \<in> vm_VMKey ` set (fst st) \<longrightarrow> ws = [] \<or> ws \<in> vm_VMKey ` set vms)"
  using assms
proof (induction rs arbitrary: c st)
  case (Cons r rs)
  from Cons.prems obtain img flavor c1 where
    i: "images (vr_ImageMappingID r) = Some img" "flavors (vr_FlavorMappingID r) = Some flavor" and
    r: "role_resolved images flavors c1 r" "c1 \<noteq> uuid_Nil" "c = uuid_Nil \<or> c = c1" and
    rest: "resolve_roles spec images flavors rs c1 (fold (add_vm spec r img flavor) [0..vr_VMCount r - 1] st) = Inr (c', vms, ws)"
    by (rule resolve_roles_Cons)
  let ?st = "fold (add_vm spec r img flavor) [0..vr_VMCount r - 1] st"
  let ?new = "map (\<lambda>(n, i). resolved_vm (vm_key n) r img flavor i) (enumerate (Suc (length (fst st))) [0..vr_VMCount r - 1])"
  have new: "fst ?st = fst st @ ?new" by (rule add_vm_fold)
  have slots: "map (slot_vm images flavors) (enumerate n (map (Pair r) is)) = map (\<lambda>(n, i). resolved_vm (vm_key n) r img flavor i) (enumerate n is)"
    for n "is" by (induction "is" arbitrary: n) (simp_all add: slot_vm_def i)
  note IH = Cons.IH [OF rest]
  have "vms = fst st @ map (slot_vm images flavors) (enumerate (Suc (length (fst st))) (role_slots (r # rs)))"
    using IH new by (simp add: enumerate_append_eq slots)
  moreover have "ws = [] \<or> ws \<in> vm_VMKey ` set vms" if "snd st = [] \<or> snd st \<in> vm_VMKey ` set (fst st)"
    using IH add_vm_workspace [OF that] by blast
  moreover have "c' = c1" using IH r(2) by blast
  ultimately show ?case using IH r by auto
qed simp


section \<open>What a resolved snapshot is\<close>

lemma set_sorted_roles [simp]: "set (sorted_roles spec) = set (ls_VMRoles spec)"
  by (simp add: sorted_roles_def)

lemma sum_sorted_roles: "sum_list (map f (sorted_roles spec)) = sum_list (map f (ls_VMRoles spec))" for f :: "_ \<Rightarrow> int"
proof -
  have "mset (map f (sorted_roles spec)) = mset (map f (ls_VMRoles spec))" by (simp add: sorted_roles_def)
  then show ?thesis by (metis sum_mset_sum_list)
qed

lemma resolveSnapshot_Inr:
  assumes "resolveSnapshot uS hex org spec d = Inr (s, c)"
  obtains images flavors where
    "index_rows im_OrganizationID im_ID org Map.empty
       (ResolvedImageMappingsForShare org (distinct_ids {} (map vr_ImageMappingID (sorted_roles spec))) d) = Some images"
    "index_rows fm_OrganizationID fm_ID org Map.empty
       (ResolvedFlavorMappingsForShare org (distinct_ids {} (map vr_FlavorMappingID (sorted_roles spec))) d) = Some flavors"
    "check_counts 0 (sorted_roles spec) = None" "ls_VMRoles spec \<noteq> []"
    "resolve_roles spec images flavors (sorted_roles spec) uuid_Nil ([], []) = Inr (c, cs_VMs s, cs_WorkspaceVMKey s)"
    "cs_WorkspaceVMKey s \<noteq> []" "cs_ProviderConnectionID s = uS c"
    "cs_StartupScript s = map_option (\<lambda>x. \<lparr>ss_Content = x, ss_SHA256 = hex x\<rparr>) (ls_StartupScript spec)"
  using assms
  by (auto simp: resolveSnapshot_def Let_def split: if_splits option.splits sum.splits prod.splits)

lemma resolved_vm_sel [simp]:
  "vm_VMKey (resolved_vm key r img flavor i) = key" "vm_Role (resolved_vm key r img flavor i) = vr_Role r"
  "vm_InstanceIndex (resolved_vm key r img flavor i) = i" "vm_ImageID (resolved_vm key r img flavor i) = im_ProviderImageID img"
  "vm_FlavorID (resolved_vm key r img flavor i) = fm_ProviderFlavorID flavor"
  "vm_ImageRef (resolved_vm key r img flavor i) = []" "vm_FlavorRef (resolved_vm key r img flavor i) = []"
  "vm_FlavorSpec (resolved_vm key r img flavor i)
     = Some \<lparr>fs_VCPUs = fm_VCPUs flavor, fs_RAMMiB = fm_RAMMiB flavor, fs_DiskGiB = fm_DiskGiB flavor\<rparr>"
  by (simp_all add: resolved_vm_def)

lemma slot_keys: "map vm_VMKey (map (slot_vm images flavors) (enumerate n xs)) = map vm_key [n..<n + length xs]"
  by (induction xs arbitrary: n) (simp_all add: slot_vm_def case_prod_beta upt_conv_Cons del: upt_Suc)

lemma slot_places:
  "map (\<lambda>vm. (vm_Role vm, vm_InstanceIndex vm)) (map (slot_vm images flavors) (enumerate n xs)) = map (\<lambda>(r, i). (vr_Role r, i)) xs"
  by (induction xs arbitrary: n) (simp_all add: slot_vm_def case_prod_beta)

lemma role_slots_set: "(r, i) \<in> set (role_slots rs) \<Longrightarrow> r \<in> set rs \<and> 0 \<le> i"
  by (auto simp: role_slots_def)

lemma slot_vm_in:
  assumes "vm \<in> set (map (slot_vm images flavors) (enumerate n (role_slots rs)))"
  obtains r i k where "r \<in> set rs" "0 \<le> i"
    "vm = resolved_vm (vm_key k) r (the (images (vr_ImageMappingID r))) (the (flavors (vr_FlavorMappingID r))) i"
proof -
  from assms obtain x where x: "x \<in> set (enumerate n (role_slots rs))" "vm = slot_vm images flavors x" by auto
  obtain k r i where kri: "x = (k, r, i)" by (metis surj_pair)
  have "snd x \<in> set (map snd (enumerate n (role_slots rs)))" using x(1) by (metis image_eqI set_map)
  then have "(r, i) \<in> set (role_slots rs)" by (simp only: map_snd_enumerate kri snd_conv)
  from role_slots_set [OF this] that [of r i k] show thesis by (simp add: x(2) kri slot_vm_def)
qed

text \<open>
  C12: The snapshot that a Provision fixes. Whatever is stored, a snapshot that resolution returns passes the
  validation of the commands that will carry it, and names a real connection. It has between 1 and 64 VMs, one
  for every index of every role, in the order of the role names; their keys are \<^verbatim>\<open>vm-1\<close>, \<^verbatim>\<open>vm-2\<close>, and so on, so
  they are distinct. Every image and flavor in it comes from an active mapping of the same organization and
  the same connection. (The role names are nonempty and the counts 32-bit by their columns; an id's text
  and a digest have their documented forms.)
\<close>

theorem resolveSnapshot_sound:
  assumes "resolveSnapshot uS hex org spec d = Inr (s, c)"
    and "\<forall>r \<in> set (ls_VMRoles spec). vr_Role r \<noteq> [] \<and> vr_VMCount r \<le> 2147483647"
    and "\<forall>u. uS u \<noteq> []" and "\<forall>x. startupScriptDigest (hex x)"
  shows "validateCreationSnapshot s = None \<and> c \<noteq> uuid_Nil \<and> cs_ProviderConnectionID s = uS c
    \<and> 1 \<le> length (cs_VMs s) \<and> length (cs_VMs s) \<le> 64
    \<and> int (length (cs_VMs s)) = sum_list (map vr_VMCount (ls_VMRoles spec))
    \<and> map vm_VMKey (cs_VMs s) = map vm_key [1..<Suc (length (cs_VMs s))] \<and> distinct (map vm_VMKey (cs_VMs s))
    \<and> map (\<lambda>vm. (vm_Role vm, vm_InstanceIndex vm)) (cs_VMs s) = map (\<lambda>(r, i). (vr_Role r, i)) (role_slots (sorted_roles spec))
    \<and> (\<forall>vm \<in> set (cs_VMs s).
         (\<exists>m \<in> set (db_image_mappings d). im_OrganizationID m = org \<and> im_Active m \<and> im_ProviderConnectionID m = c
            \<and> vm_ImageID vm = im_ProviderImageID m)
       \<and> (\<exists>m \<in> set (db_flavor_mappings d). fm_OrganizationID m = org \<and> fm_Active m \<and> fm_ProviderConnectionID m = c
            \<and> vm_FlavorID vm = fm_ProviderFlavorID m))"
proof -
  from assms(1) obtain images flavors where
    im: "index_rows im_OrganizationID im_ID org Map.empty
       (ResolvedImageMappingsForShare org (distinct_ids {} (map vr_ImageMappingID (sorted_roles spec))) d) = Some images" and
    fl: "index_rows fm_OrganizationID fm_ID org Map.empty
       (ResolvedFlavorMappingsForShare org (distinct_ids {} (map vr_FlavorMappingID (sorted_roles spec))) d) = Some flavors" and
    counts: "check_counts 0 (sorted_roles spec) = None" and ne: "ls_VMRoles spec \<noteq> []" and
    res: "resolve_roles spec images flavors (sorted_roles spec) uuid_Nil ([], []) = Inr (c, cs_VMs s, cs_WorkspaceVMKey s)" and
    ws: "cs_WorkspaceVMKey s \<noteq> []" and conn: "cs_ProviderConnectionID s = uS c" and
    script: "cs_StartupScript s = map_option (\<lambda>x. \<lparr>ss_Content = x, ss_SHA256 = hex x\<rparr>) (ls_StartupScript spec)"
    by (rule resolveSnapshot_Inr)
  let ?slots = "role_slots (sorted_roles spec)"
  note R = resolve_roles_Inr [OF res, simplified]
  have vms: "cs_VMs s = map (slot_vm images flavors) (enumerate (Suc 0) ?slots)" using R by blast
  have len: "length (cs_VMs s) = length ?slots" by (simp add: vms)
  have n: "(\<forall>r \<in> set (sorted_roles spec). 1 \<le> vr_VMCount r) \<and> 0 + sum_list (map vr_VMCount (sorted_roles spec)) \<le> 64"
    by (rule check_counts_None [OF counts]) (use assms(2) in \<open>simp_all add: MaxInt32_def\<close>)
  then have total: "int (length ?slots) = sum_list (map vr_VMCount (ls_VMRoles spec))"
    by (simp add: length_role_slots sum_sorted_roles)
  have bound: "length ?slots \<le> 64" using n total by (simp add: sum_sorted_roles)
  have "?slots \<noteq> []"
  proof -
    obtain r rs where "sorted_roles spec = r # rs" using ne set_sorted_roles [of spec] by (cases "sorted_roles spec") auto
    then show ?thesis using n by (simp add: upto.simps)
  qed
  have c: "c \<noteq> uuid_Nil" using R ne set_sorted_roles [of spec] by (metis set_empty)
  have keys: "map vm_VMKey (cs_VMs s) = map vm_key [1..<Suc (length (cs_VMs s))]"
    unfolding vms slot_keys by (simp del: upt_Suc)
  have vm: "vm_ok v \<and>
      (\<exists>m \<in> set (db_image_mappings d). im_OrganizationID m = org \<and> im_Active m \<and> im_ProviderConnectionID m = c
            \<and> vm_ImageID v = im_ProviderImageID m)
       \<and> (\<exists>m \<in> set (db_flavor_mappings d). fm_OrganizationID m = org \<and> fm_Active m \<and> fm_ProviderConnectionID m = c
            \<and> vm_FlavorID v = fm_ProviderFlavorID m)" if "v \<in> set (cs_VMs s)" for v
  proof -
    from that [unfolded vms] obtain r i k where r: "r \<in> set (sorted_roles spec)" "0 \<le> i"
      and v: "v = resolved_vm (vm_key k) r (the (images (vr_ImageMappingID r))) (the (flavors (vr_FlavorMappingID r))) i"
      by (rule slot_vm_in)
    from R r(1) have rr: "role_resolved images flavors c r" by simp
    then obtain img flavor where i: "images (vr_ImageMappingID r) = Some img" "flavors (vr_FlavorMappingID r) = Some flavor"
      by (auto simp: role_resolved_def split: option.splits)
    from index_rows_Some [OF im i(1)] have img: "img \<in> set (db_image_mappings d)" "im_OrganizationID img = org"
      by (auto simp: ResolvedImageMappingsForShare_def)
    from index_rows_Some [OF fl i(2)] have flavor: "flavor \<in> set (db_flavor_mappings d)" "fm_OrganizationID flavor = org"
      by (auto simp: ResolvedFlavorMappingsForShare_def)
    have "vr_Role r \<noteq> []" using assms(2) r(1) by simp
    then show ?thesis using rr i img flavor r(2) by (auto simp: v role_resolved_def vm_ok_def flavor_ok_def)
  qed
  have "snapshot_ok s"
    unfolding snapshot_ok_def using vm ws conn script assms(3,4) R by auto
  moreover have "distinct (map vm_VMKey (cs_VMs s))" unfolding keys by (simp add: distinct_map inj_on_def)
  moreover have "map (\<lambda>vm. (vm_Role vm, vm_InstanceIndex vm)) (cs_VMs s) = map (\<lambda>(r, i). (vr_Role r, i)) ?slots"
    unfolding vms by (rule slot_places)
  ultimately show ?thesis using c conn len total bound keys vm \<open>?slots \<noteq> []\<close>
    by (simp add: validator_iff Suc_le_eq del: upt_Suc)
qed


definition demo_spec :: LabSpec where
  "demo_spec =
     \<lparr>ls_ID = 12, ls_OrganizationID = 1, ls_OwnerUserID = 11, ls_Name = ''lab'',
      ls_Description = None, ls_Revision = 3, ls_InternetOutbound = True,
      ls_StartupScript = Some ''echo'', ls_WorkspaceRole = ''web'', ls_WorkspaceInstanceIndex = 1,
      ls_VMRoles = [\<lparr>vr_ID = 31, vr_Role = ''web'', vr_DisplayName = None, vr_ImageMappingID = 21, vr_FlavorMappingID = 22, vr_VMCount = 2\<rparr>]\<rparr>"

definition demo_lab_db :: db where
  "demo_lab_db = (demo_db ''PROVISION'' [] [] ''READY'')
     \<lparr>db_executions := [], db_snapshots := [], db_instances := [], db_operations := [],
      db_memberships :=
        [\<lparr>mb_organization = 1, mb_class = 2, mb_user = 11, mb_role = ''INSTRUCTOR''\<rparr>,
         \<lparr>mb_organization = 1, mb_class = 2, mb_user = 14, mb_role = ''STUDENT''\<rparr>],
      db_lab_specs := [demo_spec],
      db_image_mappings :=
        [\<lparr>im_ID = 21, im_OrganizationID = 1, im_ProviderConnectionID = 4, im_Active = True, im_ProviderImageID = ''img''\<rparr>],
      db_flavor_mappings :=
        [\<lparr>fm_ID = 22, fm_OrganizationID = 1, fm_ProviderConnectionID = 4, fm_Active = True, fm_ProviderFlavorID = ''flv'',
          fm_VCPUs = 2, fm_RAMMiB = 4096, fm_DiskGiB = 20\<rparr>]\<rparr>"

definition demo_hex :: "string \<Rightarrow> string" where
  "demo_hex s = replicate 64 (CHR ''0'')"

lemma demo_hex_digest: "startupScriptDigest (demo_hex s)"
  by (simp add: startupScriptDigest_def demo_hex_def is_hex_def Let_def list_all_iff)

lemma demo_resolved:
  "\<exists>s. resolveSnapshot demo_uS demo_hex 1 demo_spec demo_lab_db = Inr (s, 4) \<and> cs_WorkspaceVMKey s = ''vm-2''"
  by (simp add: resolveSnapshot_def demo_spec_def demo_lab_db_def demo_db_def sorted_roles_def int64_add_def wrap_int64_def
      maxSnapshotVMs_def ResolvedImageMappingsForShare_def ResolvedFlavorMappingsForShare_def sameConnection_def
      upto.simps add_vm_def vm_key_def decimal.simps resolved_vm_def Let_def char_of_eq_iff)

theorem resolveSnapshot_sound_witness:
  "\<exists>s. fst (the (case resolveSnapshot demo_uS demo_hex 1 demo_spec demo_lab_db of Inr x \<Rightarrow> Some x | Inl _ \<Rightarrow> None)) = s
     \<and> validateCreationSnapshot s = None \<and> length (cs_VMs s) = 2"
proof -
  from demo_resolved obtain s where s: "resolveSnapshot demo_uS demo_hex 1 demo_spec demo_lab_db = Inr (s, 4)" by blast
  have "\<forall>r \<in> set (ls_VMRoles demo_spec). vr_Role r \<noteq> [] \<and> vr_VMCount r \<le> 2147483647" "\<forall>u. demo_uS u \<noteq> []"
    by (simp_all add: demo_spec_def demo_uS_def)
  from resolveSnapshot_sound [OF s this] demo_hex_digest s show ?thesis by (auto simp: demo_spec_def)
qed

end
