(* ===== verification/Lab_Execution.thy ===== *)
theory Lab_Execution
  imports Lab_Snapshot
begin

text \<open>
  Acceptance of Provision, Reset and Cleanup and the reads of executions and instances
  (\<^verbatim>\<open>internal/server/labexecution\<close>: \<^verbatim>\<open>service.go\<close>, \<^verbatim>\<open>mutation.go\<close>,
  \<^verbatim>\<open>read.go\<close>) with their statements (\<^verbatim>\<open>internal/postgres/labexecution.go\<close>,
  \<^verbatim>\<open>terminal.go\<close>).

  A use case reads with single statements, runs one transaction, and may read again. \<open>D n\<close> is the
  database that the \<open>n\<close>-th read outside the transaction sees and \<open>d\<close> the one the transaction runs on, so
  anything may commit in between. The result is the answer and the database after the transaction.
  A transaction reads rows \<^verbatim>\<open>FOR SHARE\<close> before it relies on them, and the unique indexes decide
  the remaining races, so the transaction itself is one step.
\<close>

section \<open>Environment and data\<close>

text \<open>
  \<open>lx_parse\<close> and \<open>lx_uS\<close> are \<^verbatim>\<open>uuid.Parse\<close> and \<^verbatim>\<open>UUID.String\<close>, \<open>lx_sha256hex\<close> the hexadecimal digest,
  \<open>lx_newID n\<close> the \<open>n\<close>-th identifier that a call draws, \<open>lx_now\<close> its time, and \<open>lx_reg\<close> what
  the registration of an operation uses.
\<close>

record 'sp lab_env =
  lx_parse :: "string \<Rightarrow> uuid option"
  lx_uS :: "uuid \<Rightarrow> string"
  lx_sha256hex :: "string \<Rightarrow> string"
  lx_newID :: "nat \<Rightarrow> uuid"
  lx_now :: go_time
  lx_reg :: "'sp reg_env"

record ProvisionInput =
  pi_ClassID :: string
  pi_LabSpecID :: string
  pi_TargetStudentIDs :: "string list"
  pi_IdempotencyKey :: string
  pi_RequestID :: string

record Accepted =
  ac_OperationID :: uuid
  ac_LabExecutionID :: uuid
  ac_Replayed :: bool

record NewLabExecution =
  ne_ID :: uuid
  ne_OrganizationID :: uuid
  ne_ClassID :: uuid
  ne_LabSpecID :: uuid
  ne_InstructorUserID :: uuid
  ne_Status :: string
  ne_CreatedAt :: go_time

record NewCreationSnapshot =
  nc_ID :: uuid
  nc_OrganizationID :: uuid
  nc_LabExecutionID :: uuid
  nc_SourceLabSpecID :: uuid
  nc_SourceLabSpecRevision :: int
  nc_ProviderConnectionID :: uuid
  nc_Snapshot :: CreationSnapshot

record NewLabInstance =
  nl_ID :: uuid
  nl_OrganizationID :: uuid
  nl_LabExecutionID :: uuid
  nl_UserID :: uuid
  nl_ParticipantRole :: string
  nl_Status :: string
  nl_CreatedAt :: go_time

record participant =
  pt_userID :: uuid
  pt_role :: string

section \<open>Statements\<close>

definition LabSpecForShare :: "uuid \<Rightarrow> db \<Rightarrow> repo_error + LabSpec" where
  "LabSpecForShare i d = (case row_by ls_ID i (db_lab_specs d) of None \<Rightarrow> Inl KindNotFound | Some s \<Rightarrow> Inr s)"

definition ClassMembershipsForShare :: "uuid \<Rightarrow> uuid list \<Rightarrow> db \<Rightarrow> membership_row list" where
  "ClassMembershipsForShare class users d =
     sort_key mb_user (filter (\<lambda>m. mb_class m = class \<and> mb_user m \<in> set users) (db_memberships d))"

definition active_execution :: "uuid \<Rightarrow> execution_row \<Rightarrow> bool" where
  "active_execution class e \<longleftrightarrow> le_class e = class \<and> le_finished_at e = None"

definition ActiveLabExecutionByClass :: "uuid \<Rightarrow> db \<Rightarrow> repo_error + uuid \<times> string" where
  "ActiveLabExecutionByClass class d =
     (case find (active_execution class) (db_executions d) of
        None \<Rightarrow> Inl KindNotFound | Some e \<Rightarrow> Inr (le_id e, le_status e))"

text \<open>An insert fails on a unique index before its foreign keys are looked at.\<close>

definition execution_of_new :: "NewLabExecution \<Rightarrow> execution_row" where
  "execution_of_new e =
     \<lparr>le_id = ne_ID e, le_organization = ne_OrganizationID e, le_class = ne_ClassID e, le_lab_spec = ne_LabSpecID e,
      le_instructor = ne_InstructorUserID e, le_status = ne_Status e, le_started_at = ne_CreatedAt e,
      le_finished_at = None, le_updated_at = ne_CreatedAt e\<rparr>"

definition CreateLabExecution :: "NewLabExecution \<Rightarrow> unit tx" where
  "CreateLabExecution e d =
     (if execution_of (ne_ID e) d \<noteq> None \<or> list_ex (active_execution (ne_ClassID e)) (db_executions d) then (Inl KindConflict, d)
      else if \<not> list_ex (\<lambda>c. cl_id c = ne_ClassID e \<and> cl_organization c = ne_OrganizationID e) (db_classes d)
           \<or> \<not> list_ex (\<lambda>s. ls_ID s = ne_LabSpecID e \<and> ls_OrganizationID s = ne_OrganizationID e) (db_lab_specs d)
        then (Inl KindConstraintViolation, d)
      else (Inr (), d\<lparr>db_executions := db_executions d @ [execution_of_new e]\<rparr>))"

definition snapshot_of_new :: "NewCreationSnapshot \<Rightarrow> snapshot_row" where
  "snapshot_of_new s =
     \<lparr>sn_id = nc_ID s, sn_organization = nc_OrganizationID s, sn_execution = nc_LabExecutionID s,
      sn_lab_spec = nc_SourceLabSpecID s, sn_revision = nc_SourceLabSpecRevision s, sn_connection = nc_ProviderConnectionID s,
      sn_schema_version = 1, sn_snapshot = Some (nc_Snapshot s)\<rparr>"

definition CreateCreationSnapshot :: "NewCreationSnapshot \<Rightarrow> unit tx" where
  "CreateCreationSnapshot s d =
     (if nc_SourceLabSpecRevision s < 1 then (Inl KindConstraintViolation, d)
      else if list_ex (\<lambda>x. sn_id x = nc_ID s \<or> sn_execution x = nc_LabExecutionID s) (db_snapshots d) then (Inl KindConflict, d)
      else if \<not> list_ex (\<lambda>e. le_id e = nc_LabExecutionID s \<and> le_organization e = nc_OrganizationID s) (db_executions d)
           \<or> \<not> list_ex (\<lambda>l. ls_ID l = nc_SourceLabSpecID s \<and> ls_OrganizationID l = nc_OrganizationID s) (db_lab_specs d)
           \<or> \<not> list_ex (\<lambda>c. cn_id c = nc_ProviderConnectionID s \<and> cn_organization c = nc_OrganizationID s) (db_connections d)
        then (Inl KindConstraintViolation, d)
      else (Inr (), d\<lparr>db_snapshots := db_snapshots d @ [snapshot_of_new s]\<rparr>))"

definition instance_of_new :: "NewLabInstance \<Rightarrow> instance_row" where
  "instance_of_new i =
     \<lparr>li_id = nl_ID i, li_organization = nl_OrganizationID i, li_execution = nl_LabExecutionID i, li_user = nl_UserID i,
      li_role = nl_ParticipantRole i, li_status = nl_Status i, li_generation = 1, li_updated_at = nl_CreatedAt i\<rparr>"

definition CreateLabInstance :: "NewLabInstance \<Rightarrow> unit tx" where
  "CreateLabInstance i d =
     (if \<not> ClassRole_Valid (nl_ParticipantRole i) then (Inl KindConstraintViolation, d)
      else if instance_of (nl_ID i) d \<noteq> None
           \<or> list_ex (\<lambda>x. li_execution x = nl_LabExecutionID i \<and>
                (li_user x = nl_UserID i \<or> li_role x = ''INSTRUCTOR'' \<and> nl_ParticipantRole i = ''INSTRUCTOR'')) (db_instances d)
        then (Inl KindConflict, d)
      else if \<not> list_ex (\<lambda>e. le_id e = nl_LabExecutionID i \<and> le_organization e = nl_OrganizationID i) (db_executions d)
        then (Inl KindConstraintViolation, d)
      else (Inr (), d\<lparr>db_instances := db_instances d @ [instance_of_new i]\<rparr>))"

record LabInstanceRef =
  ln_ID :: uuid
  ln_OrganizationID :: uuid
  ln_LabExecutionID :: uuid
  ln_ClassID :: uuid
  ln_UserID :: uuid
  ln_Status :: string
  ln_Generation :: int

definition LabInstanceByID :: "uuid \<Rightarrow> db \<Rightarrow> repo_error + LabInstanceRef" where
  "LabInstanceByID i d =
     (case instance_of i d of None \<Rightarrow> Inl KindNotFound | Some li \<Rightarrow>
     (case execution_target (li_execution li) (li_organization li) d of None \<Rightarrow> Inl KindNotFound | Some e \<Rightarrow>
        Inr \<lparr>ln_ID = li_id li, ln_OrganizationID = li_organization li, ln_LabExecutionID = li_execution li,
             ln_ClassID = le_class e, ln_UserID = li_user li, ln_Status = li_status li, ln_Generation = li_generation li\<rparr>))"

text \<open>A \<^verbatim>\<open>LabExecution\<close> with its instances; the summary of an instance is its row.\<close>

record LabExecutionRef =
  lr_execution :: execution_row
  lr_LabInstances :: "instance_row list"
  lr_HasCreationSnapshot :: bool

definition role_rank :: "string \<Rightarrow> nat" where
  "role_rank r = (if r = ''INSTRUCTOR'' then 0 else 1)"

definition LabExecutionByID :: "uuid \<Rightarrow> db \<Rightarrow> repo_error + LabExecutionRef" where
  "LabExecutionByID i d =
     (case execution_of i d of None \<Rightarrow> Inl KindNotFound | Some e \<Rightarrow>
        Inr \<lparr>lr_execution = e,
             lr_LabInstances = sort_key (\<lambda>li. (role_rank (li_role li), li_user li))
               (filter (\<lambda>li. li_execution li = le_id e \<and> li_organization li = le_organization e) (db_instances d)),
             lr_HasCreationSnapshot = False\<rparr>)"

definition LabExecutionForShare :: "uuid \<Rightarrow> db \<Rightarrow> repo_error + LabExecutionRef" where
  "LabExecutionForShare i d =
     (case execution_of i d of None \<Rightarrow> Inl KindNotFound | Some e \<Rightarrow>
        Inr \<lparr>lr_execution = e,
             lr_LabInstances = sort_key li_id (filter (\<lambda>li. li_execution li = i) (db_instances d)),
             lr_HasCreationSnapshot =
               list_ex (\<lambda>s. sn_execution s = le_id e \<and> sn_organization s = le_organization e) (db_snapshots d)\<rparr>)"

section \<open>Checks\<close>

definition parseID :: "'sp lab_env \<Rightarrow> string \<Rightarrow> uuid option" where
  "parseID E raw =
     (case lx_parse E raw of None \<Rightarrow> None
      | Some i \<Rightarrow> if i = uuid_Nil \<or> lx_uS E i \<noteq> raw then None else Some i)"

definition requireMembership :: "User \<Rightarrow> uuid \<Rightarrow> uuid \<Rightarrow> (membership_row \<Rightarrow> bool) \<Rightarrow> db \<Rightarrow> lab_error option" where
  "requireMembership user classID organizationID allowed d =
     (case ClassMembership classID (us_ID user) d of
        Inl e \<Rightarrow> if e = KindNotFound then Some LabForbidden else Some (LabRepo e)
      | Inr m \<Rightarrow>
          if mb_class m \<noteq> classID \<or> mb_user m \<noteq> us_ID user \<or> mb_organization m \<noteq> organizationID \<or> \<not> ClassRole_Valid (mb_role m)
            then Some LabInconsistentData
          else if \<not> allowed m then Some LabForbidden else None)"

definition isInstructor :: "membership_row \<Rightarrow> bool" where
  "isInstructor m \<longleftrightarrow> mb_role m = ''INSTRUCTOR''"

definition requireClassRole ::
  "'sp lab_env \<Rightarrow> User \<Rightarrow> string \<Rightarrow> (membership_row \<Rightarrow> bool) \<Rightarrow> db \<Rightarrow> db \<Rightarrow> lab_error + class_row" where
  "requireClassRole E user rawClassID allowed d0 d1 =
     (case parseID E rawClassID of None \<Rightarrow> Inl LabNotFound | Some classID \<Rightarrow>
     (case ClassByID classID d0 of
        Inl e \<Rightarrow> if e = KindNotFound then Inl LabNotFound else Inl (LabRepo e)
      | Inr class \<Rightarrow>
          if us_ID user = uuid_Nil \<or> cl_organization class \<noteq> us_OrganizationID user then Inl LabForbidden
          else case requireMembership user (cl_id class) (cl_organization class) allowed d1 of
              Some e \<Rightarrow> Inl e | None \<Rightarrow> Inr class))"

definition requireInstructorForShare :: "uuid \<Rightarrow> uuid \<Rightarrow> User \<Rightarrow> db \<Rightarrow> lab_error option" where
  "requireInstructorForShare classID organizationID user d =
     (case ClassMembershipsForShare classID [us_ID user] d of
        [] \<Rightarrow> Some LabForbidden
      | [m] \<Rightarrow>
          if mb_class m \<noteq> classID \<or> mb_user m \<noteq> us_ID user \<or> mb_organization m \<noteq> organizationID
             \<or> mb_organization m \<noteq> us_OrganizationID user \<or> \<not> ClassRole_Valid (mb_role m) then Some LabInconsistentData
          else if mb_role m \<noteq> ''INSTRUCTOR'' then Some LabForbidden else None
      | _ \<Rightarrow> Some LabInconsistentData)"

fun parse_students :: "'sp lab_env \<Rightarrow> string set \<Rightarrow> string list \<Rightarrow> lab_error + uuid list" where
  "parse_students E seen [] = Inr []"
| "parse_students E seen (v # vs) =
     (if v = [] \<or> v \<in> seen then Inl LabInvalidRequest
      else case parseID E v of None \<Rightarrow> Inl LabInvalidTargets
      | Some i \<Rightarrow> (case parse_students E (insert v seen) vs of Inl e \<Rightarrow> Inl e | Inr is \<Rightarrow> Inr (i # is)))"

definition parseStudents :: "'sp lab_env \<Rightarrow> string list \<Rightarrow> lab_error + uuid list" where
  "parseStudents E raw = (if raw = [] then Inl LabInvalidRequest else parse_students E {} raw)"

definition requireStudents :: "class_row \<Rightarrow> uuid list \<Rightarrow> db \<Rightarrow> lab_error option" where
  "requireStudents class students d =
     (let ms = ClassMembershipsForShare (cl_id class) students d;
          roles = fold (\<lambda>m f. f(mb_user m := mb_role m)) ms (\<lambda>_. [])
      in if list_ex (\<lambda>m. mb_class m \<noteq> cl_id class \<or> mb_organization m \<noteq> cl_organization class \<or> \<not> ClassRole_Valid (mb_role m)) ms
           then Some LabInconsistentData
         else if list_ex (\<lambda>i. roles i \<noteq> ''STUDENT'') students then Some LabInvalidTargets else None)"

definition studentParticipants :: "uuid list \<Rightarrow> participant list" where
  "studentParticipants students = map (\<lambda>i. \<lparr>pt_userID = i, pt_role = ''STUDENT''\<rparr>) students"

section \<open>Fingerprints\<close>

text \<open>
  The canonical JSON. The strings in it are fixed words and ids, in which nothing is escaped.
\<close>

definition json_string :: "string \<Rightarrow> string" where
  "json_string s = [CHR 34] @ s @ [CHR 34]"

fun join_comma :: "string list \<Rightarrow> string" where
  "join_comma [] = []"
| "join_comma [x] = x"
| "join_comma (x # y # zs) = x @ '','' @ join_comma (y # zs)"

definition sort_Strings :: "string list \<Rightarrow> string list" where
  "sort_Strings = sort_key (map (of_char :: char \<Rightarrow> nat))"

definition provision_canonical :: "(uuid \<Rightarrow> string) \<Rightarrow> uuid \<Rightarrow> uuid \<Rightarrow> uuid list \<Rightarrow> string" where
  "provision_canonical uS classID labSpecID students =
     ''{'' @ json_string ''operation'' @ '':'' @ json_string ''provision/v1'' @ '','' @ json_string ''classId'' @ '':''
     @ json_string (uS classID) @ '','' @ json_string ''labSpecId'' @ '':'' @ json_string (uS labSpecID) @ '',''
     @ json_string ''targetStudentIds'' @ '':['' @ join_comma (map json_string (sort_Strings (map uS students))) @ '']}''"

definition provisionFingerprint :: "'sp lab_env \<Rightarrow> uuid \<Rightarrow> uuid \<Rightarrow> uuid list \<Rightarrow> string" where
  "provisionFingerprint E classID labSpecID students =
     re_sha256 (lx_reg E) (provision_canonical (lx_uS E) classID labSpecID students)"

definition mutationFingerprint :: "'sp lab_env \<Rightarrow> string \<Rightarrow> uuid \<Rightarrow> string" where
  "mutationFingerprint E kind target =
     re_sha256 (lx_reg E) (''{'' @ json_string ''operation'' @ '':'' @ json_string kind @ '','' @ json_string ''targetId'' @ '':''
       @ json_string (lx_uS E target) @ ''}'')"


section \<open>Provision\<close>

definition acceptedFromReplay :: "operation_row \<Rightarrow> lab_error + Accepted" where
  "acceptedFromReplay o' =
     (case op_execution o' of None \<Rightarrow> Inl LabInconsistentData
      | Some e \<Rightarrow> if op_type o' \<noteq> ''PROVISION'' \<or> e = uuid_Nil then Inl LabInconsistentData
                  else Inr \<lparr>ac_OperationID = op_id o', ac_LabExecutionID = e, ac_Replayed = True\<rparr>)"

text \<open>The replay of a committed operation; \<^const>\<open>None\<close> where the code goes on (\<^verbatim>\<open>done\<close> is false).\<close>

definition replay_lookup ::
  "'sp lab_env \<Rightarrow> User \<Rightarrow> string \<Rightarrow> string \<Rightarrow> string \<Rightarrow> (operation_row \<Rightarrow> lab_error + 'a) \<Rightarrow> db \<Rightarrow> (lab_error + 'a) option" where
  "replay_lookup E user kind key fingerprint answer d =
     (case Replay (re_sha256 (lx_reg E)) (us_ID user) kind key fingerprint d of
        Inl (OpRepo KindNotFound) \<Rightarrow> None
      | Inl OpConflict \<Rightarrow> Some (Inl LabIdempotencyConflict)
      | Inl e \<Rightarrow> Some (Inl (LabOp e))
      | Inr r \<Rightarrow> Some (if op_organization (rr_Operation r) \<noteq> us_OrganizationID user then Inl LabInconsistentData
                       else answer (rr_Operation r)))"

definition committedReplay :: "'sp lab_env \<Rightarrow> User \<Rightarrow> string \<Rightarrow> string \<Rightarrow> db \<Rightarrow> (lab_error + Accepted) option" where
  "committedReplay E user key fingerprint d = replay_lookup E user ''PROVISION'' key fingerprint acceptedFromReplay d"

fun create_instances :: "'sp lab_env \<Rightarrow> User \<Rightarrow> nat \<Rightarrow> participant list \<Rightarrow> reg_item list tx" where
  "create_instances E user n [] d = (Inr [], d)"
| "create_instances E user n (p # ps) d =
     (case CreateLabInstance \<lparr>nl_ID = lx_newID E n, nl_OrganizationID = us_OrganizationID user, nl_LabExecutionID = lx_newID E 0,
              nl_UserID = pt_userID p, nl_ParticipantRole = pt_role p, nl_Status = ''PENDING'', nl_CreatedAt = lx_now E\<rparr> d of
        (Inl e, d1) \<Rightarrow> (Inl e, d1)
      | (Inr _, d1) \<Rightarrow>
          (case create_instances E user (Suc n) ps d1 of
             (Inl e, d2) \<Rightarrow> (Inl e, d2)
           | (Inr items, d2) \<Rightarrow> (Inr (\<lparr>ri_LabInstanceID = lx_newID E n, ri_Generation = 1\<rparr> # items), d2)))"

text \<open>A transaction of the package: it fails with an error of the package.\<close>

type_synonym 'a lab_tx = "db \<Rightarrow> (lab_error + 'a) \<times> db"

text \<open>
  The body of Provision's transaction, in two parts: what it checks, and the rows it then creates. A
  replay found by \<^verbatim>\<open>Register\<close> is the error \<open>LabReplayed\<close>, which rolls back.
\<close>

definition provision_checks :: "'sp lab_env \<Rightarrow> User \<Rightarrow> class_row \<Rightarrow> uuid \<Rightarrow> uuid list \<Rightarrow> db \<Rightarrow> lab_error + LabSpec \<times> CreationSnapshot \<times> uuid" where
  "provision_checks E user class labSpecID students d =
     (case requireInstructorForShare (cl_id class) (cl_organization class) user d of Some e \<Rightarrow> Inl e | None \<Rightarrow>
     (case ActiveLabExecutionByClass (cl_id class) d of
        Inr _ \<Rightarrow> Inl LabActiveConflict
      | Inl e \<Rightarrow> if e \<noteq> KindNotFound then Inl (LabRepo e) else
     (case LabSpecForShare labSpecID d of
        Inl e \<Rightarrow> if e = KindNotFound then Inl LabNotFound else Inl (LabRepo e)
      | Inr spec \<Rightarrow>
          if ls_OrganizationID spec \<noteq> us_OrganizationID user then Inl LabNotFound
          else if ls_OwnerUserID spec \<noteq> us_ID user then Inl LabForbidden
          else case requireStudents class students d of Some e \<Rightarrow> Inl e | None \<Rightarrow>
          (case resolveSnapshot (lx_uS E) (lx_sha256hex E) (us_OrganizationID user) spec d of
             Inl e \<Rightarrow> Inl e
           | Inr (snapshot, connectionID) \<Rightarrow> Inr (spec, snapshot, connectionID)))))"

definition provision_registration :: "'sp lab_env \<Rightarrow> User \<Rightarrow> ProvisionInput \<Rightarrow> string \<Rightarrow> reg_item list \<Rightarrow> Registration" where
  "provision_registration E user inp fingerprint items =
     \<lparr>rg_OrganizationID = us_OrganizationID user, rg_RequestedByUserID = us_ID user, rg_Type = ''PROVISION'',
      rg_IdempotencyKey = pi_IdempotencyKey inp, rg_Fingerprint = fingerprint, rg_LabExecutionID = Some (lx_newID E 0),
      rg_LabInstanceID = None, rg_RequestID = pi_RequestID inp, rg_Items = items\<rparr>"

definition provision_rows ::
  "'sp lab_env \<Rightarrow> User \<Rightarrow> ProvisionInput \<Rightarrow> class_row \<Rightarrow> uuid list \<Rightarrow> string \<Rightarrow> LabSpec \<Rightarrow> CreationSnapshot \<Rightarrow> uuid
   \<Rightarrow> reg_result lab_tx" where
  "provision_rows E user inp class students fingerprint spec snapshot connectionID d =
     (case CreateLabExecution \<lparr>ne_ID = lx_newID E 0, ne_OrganizationID = us_OrganizationID user, ne_ClassID = cl_id class,
              ne_LabSpecID = ls_ID spec, ne_InstructorUserID = us_ID user, ne_Status = ''PROVISIONING'', ne_CreatedAt = lx_now E\<rparr> d of
        (Inl e, d1) \<Rightarrow> (Inl (if e = KindConflict then LabActiveConflict else LabRepo e), d1)
      | (Inr _, d1) \<Rightarrow>
     (case CreateCreationSnapshot \<lparr>nc_ID = lx_newID E 1, nc_OrganizationID = us_OrganizationID user, nc_LabExecutionID = lx_newID E 0,
              nc_SourceLabSpecID = ls_ID spec, nc_SourceLabSpecRevision = ls_Revision spec,
              nc_ProviderConnectionID = connectionID, nc_Snapshot = snapshot\<rparr> d1 of
        (Inl e, d2) \<Rightarrow> (Inl (LabRepo e), d2)
      | (Inr _, d2) \<Rightarrow>
     (case create_instances E user 2 (\<lparr>pt_userID = us_ID user, pt_role = ''INSTRUCTOR''\<rparr> # studentParticipants students) d2 of
        (Inl e, d3) \<Rightarrow> (Inl (LabRepo e), d3)
      | (Inr items, d3) \<Rightarrow>
     (case Register (lx_reg E) (provision_registration E user inp fingerprint items) (lx_now E) d3 of
        (Inl e, d4) \<Rightarrow> (Inl (LabOp e), d4)
      | (Inr r, d4) \<Rightarrow> if rr_Replayed r then (Inl (LabReplayed (rr_Operation r)), d4) else (Inr r, d4)))))"

definition provision_tx ::
  "'sp lab_env \<Rightarrow> User \<Rightarrow> ProvisionInput \<Rightarrow> class_row \<Rightarrow> uuid \<Rightarrow> uuid list \<Rightarrow> string \<Rightarrow> reg_result lab_tx" where
  "provision_tx E user inp class labSpecID students fingerprint d =
     (case provision_checks E user class labSpecID students d of
        Inl e \<Rightarrow> (Inl e, d)
      | Inr (spec, snapshot, connectionID) \<Rightarrow>
          provision_rows E user inp class students fingerprint spec snapshot connectionID d)"

definition provision_result ::
  "'sp lab_env \<Rightarrow> User \<Rightarrow> ProvisionInput \<Rightarrow> string \<Rightarrow> db \<Rightarrow> lab_error + reg_result \<Rightarrow> lab_error + Accepted" where
  "provision_result E user inp fingerprint after res =
     (case res of
        Inr r \<Rightarrow> Inr \<lparr>ac_OperationID = op_id (rr_Operation r), ac_LabExecutionID = lx_newID E 0, ac_Replayed = False\<rparr>
      | Inl (LabReplayed o') \<Rightarrow> acceptedFromReplay o'
      | Inl LabActiveConflict \<Rightarrow>
          (case committedReplay E user (pi_IdempotencyKey inp) fingerprint after of
             Some answer \<Rightarrow> answer | None \<Rightarrow> Inl LabActiveExecution)
      | Inl (LabOp OpConflict) \<Rightarrow> Inl LabIdempotencyConflict
      | Inl e \<Rightarrow> Inl e)"

definition Provision :: "'sp lab_env \<Rightarrow> (nat \<Rightarrow> db) \<Rightarrow> User \<Rightarrow> ProvisionInput \<Rightarrow> Accepted lab_tx" where
  "Provision E D user inp d =
     (case HashKey (re_sha256 (lx_reg E)) (pi_IdempotencyKey inp) of Inl _ \<Rightarrow> (Inl LabInvalidRequest, d) | Inr _ \<Rightarrow>
     (case requireClassRole E user (pi_ClassID inp) isInstructor (D 0) (D 1) of Inl e \<Rightarrow> (Inl e, d) | Inr class \<Rightarrow>
     (case parseID E (pi_LabSpecID inp) of None \<Rightarrow> (Inl LabNotFound, d) | Some labSpecID \<Rightarrow>
     (case parseStudents E (pi_TargetStudentIDs inp) of Inl e \<Rightarrow> (Inl e, d) | Inr students \<Rightarrow>
       let fingerprint = provisionFingerprint E (cl_id class) labSpecID students in
       case committedReplay E user (pi_IdempotencyKey inp) fingerprint (D 2) of
         Some answer \<Rightarrow> (answer, d)
       | None \<Rightarrow>
           (case inTransaction (provision_tx E user inp class labSpecID students fingerprint) d of (res, d') \<Rightarrow>
              (provision_result E user inp fingerprint (D 3) res, d'))))))"

section \<open>Reset and Cleanup\<close>

record ResetInput =
  rs_LabInstanceID :: string
  rs_IdempotencyKey :: string
  rs_RequestID :: string

record CleanupInput =
  ci_LabExecutionID :: string
  ci_IdempotencyKey :: string
  ci_RequestID :: string

record MutationAccepted =
  ma_OperationID :: uuid
  ma_TargetID :: uuid
  ma_Replayed :: bool

definition instance_invalid :: "execution_row \<Rightarrow> instance_row \<Rightarrow> bool" where
  "instance_invalid e i \<longleftrightarrow>
     li_organization i \<noteq> le_organization e \<or> li_execution i \<noteq> le_id e \<or> li_generation i < 1
   \<or> (if li_role i = ''INSTRUCTOR'' then li_user i \<noteq> le_instructor e else li_role i \<noteq> ''STUDENT'')"

definition instructor_count :: "instance_row list \<Rightarrow> nat" where
  "instructor_count is = length (filter (\<lambda>i. li_role i = ''INSTRUCTOR'') is)"

definition lockExecution :: "uuid \<Rightarrow> uuid \<Rightarrow> uuid \<Rightarrow> db \<Rightarrow> lab_error + LabExecutionRef" where
  "lockExecution i organizationID classID d =
     (case LabExecutionForShare i d of
        Inl e \<Rightarrow> if e = KindNotFound then Inl LabNotFound else Inl (LabRepo e)
      | Inr l \<Rightarrow>
          if le_id (lr_execution l) \<noteq> i \<or> le_organization (lr_execution l) \<noteq> organizationID \<or> le_class (lr_execution l) \<noteq> classID
            then Inl LabInconsistentData
          else if list_ex (instance_invalid (lr_execution l)) (lr_LabInstances l) then Inl LabInconsistentData
          else if instructor_count (lr_LabInstances l) \<noteq> 1 then Inl LabInconsistentData
          else Inr l)"

definition replaySignal :: "(op_error + reg_result) \<times> db \<Rightarrow> (lab_error + reg_result) \<times> db" where
  "replaySignal res =
     (case res of (Inl e, d) \<Rightarrow> (Inl (LabOp e), d)
      | (Inr r, d) \<Rightarrow> if rr_Replayed r then (Inl (LabReplayed (rr_Operation r)), d) else (Inr r, d))"

definition mutationFromReplay :: "string \<Rightarrow> uuid \<Rightarrow> operation_row \<Rightarrow> lab_error + MutationAccepted" where
  "mutationFromReplay kind target o' =
     (let stored = (if kind = ''RESET'' then op_instance o' else if kind = ''CLEANUP'' then op_execution o' else None)
      in if op_type o' \<noteq> kind \<or> stored \<noteq> Some target then Inl LabInconsistentData
         else Inr \<lparr>ma_OperationID = op_id o', ma_TargetID = target, ma_Replayed = True\<rparr>)"

definition committedMutationReplay ::
  "'sp lab_env \<Rightarrow> User \<Rightarrow> string \<Rightarrow> string \<Rightarrow> string \<Rightarrow> uuid \<Rightarrow> db \<Rightarrow> (lab_error + MutationAccepted) option" where
  "committedMutationReplay E user kind key fingerprint target d =
     replay_lookup E user kind key fingerprint (mutationFromReplay kind target) d"

definition is_conflict :: "lab_error \<Rightarrow> bool" where
  "is_conflict e \<longleftrightarrow> e = LabRepo KindConflict \<or> e = LabOp (OpRepo KindConflict)"

definition mutationResult :: "string \<Rightarrow> uuid \<Rightarrow> lab_error + reg_result \<Rightarrow> lab_error + MutationAccepted" where
  "mutationResult kind target res =
     (case res of
        Inr r \<Rightarrow> Inr \<lparr>ma_OperationID = op_id (rr_Operation r), ma_TargetID = target, ma_Replayed = False\<rparr>
      | Inl (LabReplayed o') \<Rightarrow> mutationFromReplay kind target o'
      | Inl e \<Rightarrow>
          if e = LabOp OpConflict then Inl LabIdempotencyConflict
          else if is_conflict e then Inl LabMutationInProgress
          else Inl e)"

definition reset_registration :: "LabInstanceRef \<Rightarrow> User \<Rightarrow> ResetInput \<Rightarrow> uuid \<Rightarrow> string \<Rightarrow> int \<Rightarrow> Registration" where
  "reset_registration li user inp i fingerprint generation =
     \<lparr>rg_OrganizationID = ln_OrganizationID li, rg_RequestedByUserID = us_ID user, rg_Type = ''RESET'',
      rg_IdempotencyKey = rs_IdempotencyKey inp, rg_Fingerprint = fingerprint, rg_LabExecutionID = None, rg_LabInstanceID = Some i,
      rg_RequestID = rs_RequestID inp, rg_Items = [\<lparr>ri_LabInstanceID = i, ri_Generation = int64_add generation 1\<rparr>]\<rparr>"

definition reset_tx :: "'sp lab_env \<Rightarrow> User \<Rightarrow> ResetInput \<Rightarrow> uuid \<Rightarrow> LabInstanceRef \<Rightarrow> string \<Rightarrow> reg_result lab_tx" where
  "reset_tx E user inp i li fingerprint d =
     (case requireInstructorForShare (ln_ClassID li) (ln_OrganizationID li) user d of Some e \<Rightarrow> (Inl e, d) | None \<Rightarrow>
     (case lockExecution (ln_LabExecutionID li) (ln_OrganizationID li) (ln_ClassID li) d of Inl e \<Rightarrow> (Inl e, d) | Inr l \<Rightarrow>
     (case find (\<lambda>x. li_id x = i) (rev (lr_LabInstances l)) of
        None \<Rightarrow> (Inl LabInconsistentData, d)
      | Some target \<Rightarrow>
          if li_user target \<noteq> ln_UserID li then (Inl LabInconsistentData, d)
          else if li_role target \<noteq> ''STUDENT'' then (Inl LabInvalidResetTarget, d)
          else if le_finished_at (lr_execution l) \<noteq> None then (Inl LabExecutionFinished, d)
          else if \<not> lr_HasCreationSnapshot l then (Inl LabInconsistentData, d)
          else replaySignal (Register (lx_reg E) (reset_registration li user inp i fingerprint (li_generation target)) (lx_now E) d))))"

text \<open>What Reset does before its transaction: its final answer, or the target.\<close>

definition reset_precheck ::
  "'sp lab_env \<Rightarrow> (nat \<Rightarrow> db) \<Rightarrow> User \<Rightarrow> ResetInput \<Rightarrow> (lab_error + MutationAccepted) + uuid \<times> LabInstanceRef" where
  "reset_precheck E D user inp =
     (case HashKey (re_sha256 (lx_reg E)) (rs_IdempotencyKey inp) of Inl _ \<Rightarrow> Inl (Inl LabInvalidRequest) | Inr _ \<Rightarrow>
     (case parseID E (rs_LabInstanceID inp) of None \<Rightarrow> Inl (Inl LabNotFound) | Some i \<Rightarrow>
     (case LabInstanceByID i (D 0) of
        Inl e \<Rightarrow> Inl (Inl (if e = KindNotFound then LabNotFound else LabRepo e))
      | Inr li \<Rightarrow>
          if us_ID user = uuid_Nil \<or> ln_OrganizationID li \<noteq> us_OrganizationID user then Inl (Inl LabForbidden)
          else case requireMembership user (ln_ClassID li) (ln_OrganizationID li) isInstructor (D 1) of
              Some e \<Rightarrow> Inl (Inl e)
            | None \<Rightarrow>
                (case committedMutationReplay E user ''RESET'' (rs_IdempotencyKey inp)
                        (mutationFingerprint E ''reset/v1'' i) i (D 2) of
                   Some answer \<Rightarrow> Inl answer
                 | None \<Rightarrow> Inr (i, li)))))"

definition Reset :: "'sp lab_env \<Rightarrow> (nat \<Rightarrow> db) \<Rightarrow> User \<Rightarrow> ResetInput \<Rightarrow> MutationAccepted lab_tx" where
  "Reset E D user inp d =
     (case reset_precheck E D user inp of
        Inl answer \<Rightarrow> (answer, d)
      | Inr (i, li) \<Rightarrow>
          (case inTransaction (reset_tx E user inp i li (mutationFingerprint E ''reset/v1'' i)) d of (res, d') \<Rightarrow>
             (mutationResult ''RESET'' i res, d')))"

definition cleanup_registration :: "execution_row \<Rightarrow> User \<Rightarrow> CleanupInput \<Rightarrow> uuid \<Rightarrow> string \<Rightarrow> instance_row list \<Rightarrow> Registration" where
  "cleanup_registration e user inp i fingerprint is =
     \<lparr>rg_OrganizationID = le_organization e, rg_RequestedByUserID = us_ID user, rg_Type = ''CLEANUP'',
      rg_IdempotencyKey = ci_IdempotencyKey inp, rg_Fingerprint = fingerprint, rg_LabExecutionID = Some i, rg_LabInstanceID = None,
      rg_RequestID = ci_RequestID inp,
      rg_Items = map (\<lambda>x. \<lparr>ri_LabInstanceID = li_id x, ri_Generation = li_generation x\<rparr>) is\<rparr>"

definition cleanup_tx :: "'sp lab_env \<Rightarrow> User \<Rightarrow> CleanupInput \<Rightarrow> uuid \<Rightarrow> execution_row \<Rightarrow> string \<Rightarrow> reg_result lab_tx" where
  "cleanup_tx E user inp i e fingerprint d =
     (case requireInstructorForShare (le_class e) (le_organization e) user d of Some err \<Rightarrow> (Inl err, d) | None \<Rightarrow>
     (case lockExecution i (le_organization e) (le_class e) d of Inl err \<Rightarrow> (Inl err, d) | Inr l \<Rightarrow>
        if le_finished_at (lr_execution l) \<noteq> None then (Inl LabExecutionFinished, d)
        else replaySignal (Register (lx_reg E) (cleanup_registration e user inp i fingerprint (lr_LabInstances l)) (lx_now E) d)))"

definition cleanup_precheck ::
  "'sp lab_env \<Rightarrow> (nat \<Rightarrow> db) \<Rightarrow> User \<Rightarrow> CleanupInput \<Rightarrow> (lab_error + MutationAccepted) + uuid \<times> execution_row" where
  "cleanup_precheck E D user inp =
     (case HashKey (re_sha256 (lx_reg E)) (ci_IdempotencyKey inp) of Inl _ \<Rightarrow> Inl (Inl LabInvalidRequest) | Inr _ \<Rightarrow>
     (case parseID E (ci_LabExecutionID inp) of None \<Rightarrow> Inl (Inl LabNotFound) | Some i \<Rightarrow>
     (case LabExecutionByID i (D 0) of
        Inl e \<Rightarrow> Inl (Inl (if e = KindNotFound then LabNotFound else LabRepo e))
      | Inr l \<Rightarrow>
          let e = lr_execution l in
          if us_ID user = uuid_Nil \<or> le_organization e \<noteq> us_OrganizationID user then Inl (Inl LabForbidden)
          else case requireMembership user (le_class e) (le_organization e) isInstructor (D 1) of
              Some err \<Rightarrow> Inl (Inl err)
            | None \<Rightarrow>
                (case committedMutationReplay E user ''CLEANUP'' (ci_IdempotencyKey inp)
                        (mutationFingerprint E ''cleanup/v1'' i) i (D 2) of
                   Some answer \<Rightarrow> Inl answer
                 | None \<Rightarrow> Inr (i, e)))))"

definition Cleanup :: "'sp lab_env \<Rightarrow> (nat \<Rightarrow> db) \<Rightarrow> User \<Rightarrow> CleanupInput \<Rightarrow> MutationAccepted lab_tx" where
  "Cleanup E D user inp d =
     (case cleanup_precheck E D user inp of
        Inl answer \<Rightarrow> (answer, d)
      | Inr (i, e) \<Rightarrow>
          (case inTransaction (cleanup_tx E user inp i e (mutationFingerprint E ''cleanup/v1'' i)) d of (res, d') \<Rightarrow>
             (mutationResult ''CLEANUP'' i res, d')))"

section \<open>Reads\<close>

record InstanceView =
  iv_ID :: uuid
  iv_UserID :: uuid
  iv_LabExecutionID :: uuid
  iv_Status :: string
  iv_Generation :: int

record ExecutionView =
  ev_ID :: uuid
  ev_ClassID :: uuid
  ev_LabSpecID :: uuid
  ev_InstructorUserID :: uuid
  ev_TargetUserIDs :: "uuid list"
  ev_Status :: string
  ev_LabInstances :: "InstanceView list"

definition instanceView :: "uuid \<Rightarrow> uuid \<Rightarrow> uuid \<Rightarrow> string \<Rightarrow> int \<Rightarrow> InstanceView" where
  "instanceView i user execution status generation =
     \<lparr>iv_ID = i, iv_UserID = user, iv_LabExecutionID = execution, iv_Status = status, iv_Generation = generation\<rparr>"

definition execution_view :: "execution_row \<Rightarrow> instance_row list \<Rightarrow> ExecutionView" where
  "execution_view e is =
     \<lparr>ev_ID = le_id e, ev_ClassID = le_class e, ev_LabSpecID = le_lab_spec e, ev_InstructorUserID = le_instructor e,
      ev_TargetUserIDs = map li_user (filter (\<lambda>i. li_role i = ''STUDENT'') is), ev_Status = le_status e,
      ev_LabInstances = map (\<lambda>i. instanceView (li_id i) (li_user i) (li_execution i) (li_status i) (li_generation i)) is\<rparr>"

definition Execution :: "'sp lab_env \<Rightarrow> (nat \<Rightarrow> db) \<Rightarrow> User \<Rightarrow> string \<Rightarrow> lab_error + ExecutionView" where
  "Execution E D user raw =
     (case parseID E raw of None \<Rightarrow> Inl LabNotFound | Some i \<Rightarrow>
     (case LabExecutionByID i (D 0) of
        Inl e \<Rightarrow> Inl (if e = KindNotFound then LabNotFound else LabRepo e)
      | Inr l \<Rightarrow>
          let e = lr_execution l in
          if us_ID user = uuid_Nil \<or> le_organization e \<noteq> us_OrganizationID user then Inl LabForbidden
          else case requireMembership user (le_class e) (le_organization e) isInstructor (D 1) of
              Some err \<Rightarrow> Inl err
            | None \<Rightarrow>
                if list_ex (instance_invalid e) (lr_LabInstances l) then Inl LabInconsistentData
                else if instructor_count (lr_LabInstances l) \<noteq> 1 then Inl LabInconsistentData
                else Inr (execution_view e (lr_LabInstances l))))"

definition Instance :: "'sp lab_env \<Rightarrow> (nat \<Rightarrow> db) \<Rightarrow> User \<Rightarrow> string \<Rightarrow> lab_error + InstanceView" where
  "Instance E D user raw =
     (case parseID E raw of None \<Rightarrow> Inl LabNotFound | Some i \<Rightarrow>
     (case LabInstanceByID i (D 0) of
        Inl e \<Rightarrow> Inl (if e = KindNotFound then LabNotFound else LabRepo e)
      | Inr li \<Rightarrow>
          if us_ID user = uuid_Nil \<or> ln_OrganizationID li \<noteq> us_OrganizationID user then Inl LabForbidden
          else case requireMembership user (ln_ClassID li) (ln_OrganizationID li)
                      (\<lambda>m. ln_UserID li = us_ID user \<or> mb_role m = ''INSTRUCTOR'') (D 1) of
              Some err \<Rightarrow> Inl err
            | None \<Rightarrow>
                if ln_Generation li < 1 then Inl LabInconsistentData
                else Inr (instanceView (ln_ID li) (ln_UserID li) (ln_LabExecutionID li) (ln_Status li) (ln_Generation li))))"

end
