(* ===== verification/Lab_Acceptance.thy ===== *)
theory Lab_Acceptance
  imports Lab_Execution
begin

text \<open>
  What an accepted Provision, Reset or Cleanup has written, and the invariant that all of them and all
  worker transactions keep.
\<close>

section \<open>Provision\<close>

definition provisioned_execution :: "'sp lab_env \<Rightarrow> User \<Rightarrow> class_row \<Rightarrow> LabSpec \<Rightarrow> execution_row" where
  "provisioned_execution E user cls spec =
     \<lparr>le_id = lx_newID E 0, le_organization = us_OrganizationID user, le_class = cl_id cls, le_lab_spec = ls_ID spec,
      le_instructor = us_ID user, le_status = ''PROVISIONING'', le_started_at = lx_now E, le_finished_at = None, le_updated_at = lx_now E\<rparr>"

definition provisioned_snapshot :: "'sp lab_env \<Rightarrow> User \<Rightarrow> LabSpec \<Rightarrow> CreationSnapshot \<Rightarrow> uuid \<Rightarrow> snapshot_row" where
  "provisioned_snapshot E user spec snapshot connection =
     \<lparr>sn_id = lx_newID E 1, sn_organization = us_OrganizationID user, sn_execution = lx_newID E 0, sn_lab_spec = ls_ID spec,
      sn_revision = ls_Revision spec, sn_connection = connection, sn_schema_version = 1, sn_snapshot = Some snapshot\<rparr>"

definition provisioned_instance :: "'sp lab_env \<Rightarrow> User \<Rightarrow> nat \<times> participant \<Rightarrow> instance_row" where
  "provisioned_instance E user = (\<lambda>(n, p).
     \<lparr>li_id = lx_newID E n, li_organization = us_OrganizationID user, li_execution = lx_newID E 0, li_user = pt_userID p,
      li_role = pt_role p, li_status = ''PENDING'', li_generation = 1, li_updated_at = lx_now E\<rparr>)"

definition participants :: "User \<Rightarrow> uuid list \<Rightarrow> participant list" where
  "participants user students = \<lparr>pt_userID = us_ID user, pt_role = ''INSTRUCTOR''\<rparr> # studentParticipants students"

definition provisioned_instances :: "'sp lab_env \<Rightarrow> User \<Rightarrow> uuid list \<Rightarrow> instance_row list" where
  "provisioned_instances E user students =
     map (provisioned_instance E user) (enumerate 2 (participants user students))"

lemma CreateLabExecution_ok:
  "CreateLabExecution e d = (Inr u, d') \<Longrightarrow> d' = d\<lparr>db_executions := db_executions d @ [execution_of_new e]\<rparr>
     \<and> execution_of (ne_ID e) d = None \<and> \<not> list_ex (active_execution (ne_ClassID e)) (db_executions d)"
  by (auto simp: CreateLabExecution_def split: if_splits)

lemma CreateCreationSnapshot_ok:
  "CreateCreationSnapshot s d = (Inr u, d') \<Longrightarrow> d' = d\<lparr>db_snapshots := db_snapshots d @ [snapshot_of_new s]\<rparr>
     \<and> \<not> list_ex (\<lambda>x. sn_id x = nc_ID s \<or> sn_execution x = nc_LabExecutionID s) (db_snapshots d)"
  by (auto simp: CreateCreationSnapshot_def split: if_splits)

lemma CreateLabInstance_ok:
  "CreateLabInstance i d = (Inr u, d') \<Longrightarrow> d' = d\<lparr>db_instances := db_instances d @ [instance_of_new i]\<rparr>
     \<and> instance_of (nl_ID i) d = None
     \<and> \<not> list_ex (\<lambda>x. li_execution x = nl_LabExecutionID i \<and>
          (li_user x = nl_UserID i \<or> li_role x = ''INSTRUCTOR'' \<and> nl_ParticipantRole i = ''INSTRUCTOR'')) (db_instances d)"
  by (auto simp: CreateLabInstance_def split: if_splits)

text \<open>The unique keys of the instance table.\<close>

definition instances_inv :: "instance_row list \<Rightarrow> bool" where
  "instances_inv is \<longleftrightarrow> distinct (map li_id is) \<and> distinct (map (\<lambda>i. (li_execution i, li_user i)) is)
     \<and> distinct (map li_execution (filter (\<lambda>i. li_role i = ''INSTRUCTOR'') is))"

lemma CreateLabInstance_inv:
  assumes "CreateLabInstance i d = (Inr u, d')" "instances_inv (db_instances d)"
  shows "instances_inv (db_instances d')"
  using CreateLabInstance_ok [OF assms(1)] assms(2)
  by (auto simp: instances_inv_def instance_of_new_def row_by_None list_ex_iff)

lemma create_instances_ok:
  "create_instances E user n ps d = (Inr items, d') \<Longrightarrow>
     d' = d\<lparr>db_instances := db_instances d @ map (provisioned_instance E user) (enumerate n ps)\<rparr>
   \<and> items = map (\<lambda>(k, p). \<lparr>ri_LabInstanceID = lx_newID E k, ri_Generation = 1\<rparr>) (enumerate n ps)
   \<and> (instances_inv (db_instances d) \<longrightarrow> instances_inv (db_instances d'))"
proof (induction ps arbitrary: n d items)
  case (Cons p ps)
  let ?new = "\<lparr>nl_ID = lx_newID E n, nl_OrganizationID = us_OrganizationID user, nl_LabExecutionID = lx_newID E 0,
    nl_UserID = pt_userID p, nl_ParticipantRole = pt_role p, nl_Status = ''PENDING'', nl_CreatedAt = lx_now E\<rparr>"
  from Cons.prems obtain d1 items' where d1: "CreateLabInstance ?new d = (Inr (), d1)"
    and rest: "create_instances E user (Suc n) ps d1 = (Inr items', d')"
    and items: "items = \<lparr>ri_LabInstanceID = lx_newID E n, ri_Generation = 1\<rparr> # items'"
    by (auto split: prod.splits sum.splits)
  note ok = CreateLabInstance_ok [OF d1] and IH = Cons.IH [OF rest]
  have row: "instance_of_new ?new = provisioned_instance E user (n, p)"
    by (simp add: instance_of_new_def provisioned_instance_def)
  show ?case using ok IH CreateLabInstance_inv [OF d1] by (auto simp: items row)
qed simp

text \<open>The transaction of a Provision that commits.\<close>

lemma provision_rows_ok:
  assumes "provision_rows E user inp cls students fp spec snapshot c d = (Inr r, d')"
  obtains "execution_of (lx_newID E 0) d = None" "\<not> list_ex (active_execution (cl_id cls)) (db_executions d)"
    "\<not> list_ex (\<lambda>x. sn_execution x = lx_newID E 0) (db_snapshots d)"
    "instances_inv (db_instances d) \<longrightarrow> instances_inv (db_instances d')"
    "\<exists>d3. Register (lx_reg E) (provision_registration E user inp fp
        (map (\<lambda>(k, p). \<lparr>ri_LabInstanceID = lx_newID E k, ri_Generation = 1\<rparr>) (enumerate 2 (participants user students)))) (lx_now E) d3 = (Inr r, d')
        \<and> db_operations d3 = db_operations d \<and> db_items d3 = db_items d"
    "\<not> rr_Replayed r"
    "d' = d\<lparr>db_executions := db_executions d @ [provisioned_execution E user cls spec],
            db_snapshots := db_snapshots d @ [provisioned_snapshot E user spec snapshot c],
            db_instances := db_instances d @ provisioned_instances E user students,
            db_operations := db_operations d @ [rr_Operation r],
            db_items := db_items d @ registered_items (lx_reg E) (provision_registration E user inp fp
               (map (\<lambda>(k, p). \<lparr>ri_LabInstanceID = lx_newID E k, ri_Generation = 1\<rparr>) (enumerate 2 (participants user students)))) (lx_now E)\<rparr>"
proof -
  let ?e = "\<lparr>ne_ID = lx_newID E 0, ne_OrganizationID = us_OrganizationID user, ne_ClassID = cl_id cls,
              ne_LabSpecID = ls_ID spec, ne_InstructorUserID = us_ID user, ne_Status = ''PROVISIONING'', ne_CreatedAt = lx_now E\<rparr>"
  let ?s = "\<lparr>nc_ID = lx_newID E 1, nc_OrganizationID = us_OrganizationID user, nc_LabExecutionID = lx_newID E 0,
              nc_SourceLabSpecID = ls_ID spec, nc_SourceLabSpecRevision = ls_Revision spec,
              nc_ProviderConnectionID = c, nc_Snapshot = snapshot\<rparr>"
  let ?items = "map (\<lambda>(k, p). \<lparr>ri_LabInstanceID = lx_newID E k, ri_Generation = 1\<rparr>) (enumerate 2 (participants user students))"
  let ?inp = "provision_registration E user inp fp ?items"
  from assms obtain d1 where d1: "CreateLabExecution ?e d = (Inr (), d1)"
    by (auto simp: provision_rows_def split: prod.splits sum.splits)
  with assms obtain d2 where d2: "CreateCreationSnapshot ?s d1 = (Inr (), d2)"
    by (auto simp: provision_rows_def split: prod.splits sum.splits)
  with assms d1 obtain items d3 where d3: "create_instances E user 2 (participants user students) d2 = (Inr items, d3)"
    by (auto simp: provision_rows_def participants_def split: prod.splits sum.splits)
  note ok1 = CreateLabExecution_ok [OF d1] and ok2 = CreateCreationSnapshot_ok [OF d2] and ok3 = create_instances_ok [OF d3]
  have items: "items = ?items" using ok3 by blast
  from assms d1 d2 d3 items have reg: "Register (lx_reg E) ?inp (lx_now E) d3 = (Inr r, d')" "\<not> rr_Replayed r"
    by (auto simp: provision_rows_def participants_def split: prod.splits sum.splits if_splits)
  have e: "execution_of_new ?e = provisioned_execution E user cls spec" "snapshot_of_new ?s = provisioned_snapshot E user spec snapshot c"
    by (simp_all add: execution_of_new_def provisioned_execution_def snapshot_of_new_def provisioned_snapshot_def)
  from reg(1) show thesis
  proof (cases rule: Register_ok)
    case (fresh hash)
    show thesis
      by (rule that) (use fresh(8) reg ok1 ok2 ok3 e in \<open>auto simp: provisioned_instances_def list_ex_iff\<close>)
  qed (use reg(2) in simp)
qed


lemma requireInstructorForShare_None:
  "requireInstructorForShare cls org user d = None \<Longrightarrow>
   \<exists>m \<in> set (db_memberships d). mb_class m = cls \<and> mb_user m = us_ID user \<and> mb_organization m = org \<and> mb_role m = ''INSTRUCTOR''"
proof -
  assume a: "requireInstructorForShare cls org user d = None"
  then obtain m where m: "ClassMembershipsForShare cls [us_ID user] d = [m]"
    by (auto simp: requireInstructorForShare_def split: list.splits)
  then have "m \<in> set (ClassMembershipsForShare cls [us_ID user] d)" by simp
  then have "m \<in> set (db_memberships d)" by (simp add: ClassMembershipsForShare_def)
  then show ?thesis using a m by (intro bexI [of _ m]) (auto simp: requireInstructorForShare_def split: if_splits)
qed

lemma roles_fold:
  "fold (\<lambda>m f. f(mb_user m := mb_role m)) ms f i = s \<Longrightarrow> f i = s \<or> (\<exists>m \<in> set ms. mb_user m = i \<and> mb_role m = s)"
proof (induction ms arbitrary: f)
  case (Cons m ms)
  from Cons.prems have "fold (\<lambda>m f. f(mb_user m := mb_role m)) ms (f(mb_user m := mb_role m)) i = s" by (simp only: fold_simps)
  from Cons.IH [OF this] show ?case by (auto split: if_splits)
qed simp

lemma requireStudents_None:
  assumes "requireStudents cls students d = None" "i \<in> set students"
  shows "\<exists>m \<in> set (db_memberships d). mb_class m = cl_id cls \<and> mb_user m = i \<and> mb_role m = ''STUDENT''"
proof -
  let ?ms = "ClassMembershipsForShare (cl_id cls) students d"
  have "fold (\<lambda>m f. f(mb_user m := mb_role m)) ?ms (\<lambda>_. []) i = ''STUDENT''"
    using assms by (auto simp: requireStudents_def Let_def list_ex_iff split: if_splits)
  from roles_fold [OF this] obtain m where "m \<in> set ?ms" "mb_user m = i" "mb_role m = ''STUDENT''" by auto
  then show ?thesis by (auto simp: ClassMembershipsForShare_def)
qed

lemma requireClassRole_Inr:
  "requireClassRole E user raw allowed d0 d1 = Inr cls \<Longrightarrow>
   parseID E raw = Some (cl_id cls) \<and> cl_organization cls = us_OrganizationID user \<and> us_ID user \<noteq> uuid_Nil
   \<and> cls \<in> set (db_classes d0)
   \<and> (\<exists>m \<in> set (db_memberships d1). mb_class m = cl_id cls \<and> mb_user m = us_ID user \<and> allowed m)"
  by (auto simp: requireClassRole_def ClassByID_def requireMembership_def ClassMembership_def find_Some_iff
      dest!: row_by_key split: option.splits sum.splits if_splits)

lemma provision_checks_Inr:
  assumes "provision_checks E user cls labSpecID students d = Inr (spec, snapshot, c)"
  shows "row_by ls_ID labSpecID (db_lab_specs d) = Some spec \<and> ls_OrganizationID spec = us_OrganizationID user
     \<and> ls_OwnerUserID spec = us_ID user \<and> requireInstructorForShare (cl_id cls) (cl_organization cls) user d = None
     \<and> requireStudents cls students d = None
     \<and> resolveSnapshot (lx_uS E) (lx_sha256hex E) (us_OrganizationID user) spec d = Inr (snapshot, c)"
  using assms
  by (auto simp: provision_checks_def LabSpecForShare_def split: option.splits sum.splits if_splits)

text \<open>A stored operation that answers a request.\<close>

definition stored_answer :: "'sp lab_env \<Rightarrow> User \<Rightarrow> string \<Rightarrow> string \<Rightarrow> string \<Rightarrow> operation_row \<Rightarrow> db \<Rightarrow> bool" where
  "stored_answer E user kind key fp o' d \<longleftrightarrow>
     o' \<in> set (db_operations d) \<and> op_user o' = us_ID user \<and> op_type o' = kind \<and> op_fingerprint o' = fp
   \<and> HashKey (re_sha256 (lx_reg E)) key = Inr (op_key_hash o')"

lemma replay_lookup_Some:
  assumes "replay_lookup E user kind key fp answer d = Some (Inr a)"
  shows "\<exists>o'. stored_answer E user kind key fp o' d \<and> answer o' = Inr a"
  using assms
  by (auto simp: replay_lookup_def Replay_def OperationByIdempotency_def stored_answer_def dest!: find_same_key
      split: sum.splits op_error.splits repo_error.splits option.splits if_splits)

lemma acceptedFromReplay_Inr:
  "acceptedFromReplay o' = Inr a \<Longrightarrow> a = \<lparr>ac_OperationID = op_id o', ac_LabExecutionID = the (op_execution o'), ac_Replayed = True\<rparr>
     \<and> op_execution o' \<noteq> None"
  by (auto simp: acceptedFromReplay_def split: option.splits if_splits)

lemma Register_replayed:
  assumes "Register E inp t d = (Inr r, d')" "rr_Replayed r"
  shows "rr_Operation r \<in> set (db_operations d) \<and> op_user (rr_Operation r) = rg_RequestedByUserID inp
     \<and> op_type (rr_Operation r) = rg_Type inp \<and> op_fingerprint (rr_Operation r) = rg_Fingerprint inp
     \<and> HashKey (re_sha256 E) (rg_IdempotencyKey inp) = Inr (op_key_hash (rr_Operation r))"
  using assms(1)
proof (cases rule: Register_ok)
  case (replay hash)
  with find_same_key [OF replay(5)] show ?thesis by simp
qed (use assms(2) in simp)

lemma provision_rows_replay:
  assumes "provision_rows E user inp cls students fp spec snapshot c d = (Inl (LabReplayed o'), d')"
  shows "stored_answer E user ''PROVISION'' (pi_IdempotencyKey inp) fp o' d"
proof -
  from assms obtain d1 d2 d3 d4 items r e s where steps: "CreateLabExecution e d = (Inr (), d1)" "CreateCreationSnapshot s d1 = (Inr (), d2)"
      "create_instances E user 2 (participants user students) d2 = (Inr items, d3)"
      and r: "Register (lx_reg E) (provision_registration E user inp fp items) (lx_now E) d3 = (Inr r, d4)"
      "rr_Replayed r" "o' = rr_Operation r"
    by (auto simp: provision_rows_def participants_def split: prod.splits sum.splits if_splits)
  have "db_operations d3 = db_operations d"
    using CreateLabExecution_ok [OF steps(1)] CreateCreationSnapshot_ok [OF steps(2)] create_instances_ok [OF steps(3)] by simp
  then show ?thesis using Register_replayed [OF r(1,2)] r(3) by (simp add: stored_answer_def provision_registration_def)
qed


lemma provision_result_Inr:
  assumes "provision_result E user inp fp after res = Inr a" "\<not> ac_Replayed a"
  shows "\<exists>r. res = Inr r \<and> a = \<lparr>ac_OperationID = op_id (rr_Operation r), ac_LabExecutionID = lx_newID E 0, ac_Replayed = False\<rparr>"
proof (cases res)
  case (Inl e)
  then show ?thesis using assms
    by (cases e)
       (auto simp: provision_result_def committedReplay_def split: option.splits op_error.splits
         dest!: acceptedFromReplay_Inr replay_lookup_Some)
qed (use assms in \<open>simp add: provision_result_def\<close>)

lemma Provision_accepted:
  assumes "Provision E D user inp d = (Inr a, d')" "\<not> ac_Replayed a"
  obtains cls labSpecID students spec snapshot c r fp where
    "requireClassRole E user (pi_ClassID inp) isInstructor (D 0) (D 1) = Inr cls"
    "parseID E (pi_LabSpecID inp) = Some labSpecID" "parseStudents E (pi_TargetStudentIDs inp) = Inr students"
    "fp = provisionFingerprint E (cl_id cls) labSpecID students"
    "provision_checks E user cls labSpecID students d = Inr (spec, snapshot, c)"
    "provision_rows E user inp cls students fp spec snapshot c d = (Inr r, d')"
    "a = \<lparr>ac_OperationID = op_id (rr_Operation r), ac_LabExecutionID = lx_newID E 0, ac_Replayed = False\<rparr>"
proof -
  from assms(1) obtain cls labSpecID students where
    s: "requireClassRole E user (pi_ClassID inp) isInstructor (D 0) (D 1) = Inr cls"
      "parseID E (pi_LabSpecID inp) = Some labSpecID" "parseStudents E (pi_TargetStudentIDs inp) = Inr students"
    by (auto simp: Provision_def split: sum.splits option.splits)
  let ?fp = "provisionFingerprint E (cl_id cls) labSpecID students"
  obtain res d1 where tx: "inTransaction (provision_tx E user inp cls labSpecID students ?fp) d = (res, d1)" by fastforce
  have cr: "committedReplay E user (pi_IdempotencyKey inp) ?fp (D 2) = None"
  proof (cases "committedReplay E user (pi_IdempotencyKey inp) ?fp (D 2)")
    case (Some answer)
    with assms(1) s have "answer = Inr a" by (auto simp: Provision_def Let_def split: sum.splits)
    with Some assms(2) show ?thesis
      by (auto simp: committedReplay_def dest!: replay_lookup_Some acceptedFromReplay_Inr)
  qed
  with assms(1) s tx have res: "provision_result E user inp ?fp (D 3) res = Inr a" "d' = d1"
    by (auto simp: Provision_def Let_def split: sum.splits)
  from provision_result_Inr [OF res(1) assms(2)] obtain r where r: "res = Inr r"
    "a = \<lparr>ac_OperationID = op_id (rr_Operation r), ac_LabExecutionID = lx_newID E 0, ac_Replayed = False\<rparr>" by blast
  from tx r(1) have "provision_tx E user inp cls labSpecID students ?fp d = (Inr r, d1)" by (simp add: inTransaction_ok)
  then obtain spec snapshot c where "provision_checks E user cls labSpecID students d = Inr (spec, snapshot, c)"
    "provision_rows E user inp cls students ?fp spec snapshot c d = (Inr r, d1)"
    by (auto simp: provision_tx_def split: sum.splits)
  then show thesis using that [OF s refl] r(2) res(2) by blast
qed

text \<open>An answer that is no acceptance leaves the database as it is.\<close>

lemma Provision_unchanged:
  assumes "Provision E D user inp d = (res, d')" "\<And>a. res = Inr a \<Longrightarrow> ac_Replayed a"
  shows "d' = d"
proof (rule ccontr)
  assume ne: "d' \<noteq> d"
  with assms(1) obtain cls labSpecID students fp tres where
    tx: "inTransaction (provision_tx E user inp cls labSpecID students fp) d = (tres, d')"
    and res: "res = provision_result E user inp fp (D 3) tres"
    by (auto simp: Provision_def Let_def split: sum.splits option.splits prod.splits)
  from tx ne obtain r where "tres = Inr r" by (cases tres) (auto dest: inTransaction_error)
  with res assms(2) show False by (simp add: provision_result_def)
qed

lemma resolve_roles_error:
  "resolve_roles spec images flavors rs c st = Inl e \<Longrightarrow> e \<in> {LabSpecNotProvisionable, LabInconsistentData}"
  by (induction rs arbitrary: c st) (auto split: option.splits if_splits prod.splits)

lemma check_counts_error: "check_counts n rs = Some e \<Longrightarrow> e \<in> {LabSpecNotProvisionable, LabInconsistentData}"
  by (induction rs arbitrary: n) (auto simp: Let_def split: if_splits)

lemma resolveSnapshot_error:
  "resolveSnapshot uS hex org spec d = Inl e \<Longrightarrow> e \<in> {LabSpecNotProvisionable, LabInconsistentData}"
  using check_counts_error resolve_roles_error
  by (fastforce simp: resolveSnapshot_def Let_def split: if_splits option.splits sum.splits prod.splits)

lemma provision_checks_signal: "provision_checks E user cls labSpecID students d \<noteq> Inl (LabReplayed o')"
  by (auto simp: provision_checks_def requireInstructorForShare_def requireStudents_def Let_def
      dest!: resolveSnapshot_error split: sum.splits option.splits if_splits list.splits)

lemma Provision_replayed:
  assumes "Provision E D user inp d = (Inr a, d')" "ac_Replayed a"
  shows "\<exists>(cls :: class_row) labSpecID students o'. parseID E (pi_ClassID inp) = Some (cl_id cls)
     \<and> (\<exists>m \<in> set (db_memberships (D 1)). mb_class m = cl_id cls \<and> mb_user m = us_ID user \<and> mb_role m = ''INSTRUCTOR'')
     \<and> parseID E (pi_LabSpecID inp) = Some labSpecID \<and> parseStudents E (pi_TargetStudentIDs inp) = Inr students
     \<and> (\<exists>d0 \<in> {D 2, d, D 3}. stored_answer E user ''PROVISION'' (pi_IdempotencyKey inp)
          (provisionFingerprint E (cl_id cls) labSpecID students) o' d0)
     \<and> op_id o' = ac_OperationID a \<and> op_execution o' = Some (ac_LabExecutionID a)"
proof -
  from assms(1) obtain cls labSpecID students where
    s: "requireClassRole E user (pi_ClassID inp) isInstructor (D 0) (D 1) = Inr cls"
      "parseID E (pi_LabSpecID inp) = Some labSpecID" "parseStudents E (pi_TargetStudentIDs inp) = Inr students"
    by (auto simp: Provision_def split: sum.splits option.splits)
  let ?fp = "provisionFingerprint E (cl_id cls) labSpecID students" and ?key = "pi_IdempotencyKey inp"
  obtain res d1 where tx: "inTransaction (provision_tx E user inp cls labSpecID students ?fp) d = (res, d1)" by fastforce
  have "(\<exists>o'. (\<exists>d0 \<in> {D 2, d, D 3}. stored_answer E user ''PROVISION'' ?key ?fp o' d0) \<and> acceptedFromReplay o' = Inr a)"
  proof (cases "committedReplay E user ?key ?fp (D 2)")
    case (Some answer)
    with assms(1) s have "answer = Inr a" by (auto simp: Provision_def Let_def split: sum.splits)
    with Some show ?thesis by (auto simp: committedReplay_def dest!: replay_lookup_Some)
  next
    case None
    with assms(1) s tx have res: "provision_result E user inp ?fp (D 3) res = Inr a"
      by (auto simp: Provision_def Let_def split: sum.splits)
    show ?thesis
    proof (cases res)
      case (Inr r)
      then show ?thesis using res assms(2) by (auto simp: provision_result_def)
    next
      case (Inl e)
      show ?thesis
      proof (cases "e = LabActiveConflict")
        case True
        then show ?thesis using res Inl
          by (auto simp: provision_result_def committedReplay_def split: option.splits dest!: replay_lookup_Some)
      next
        case False
        with res Inl obtain o' where o': "e = LabReplayed o'" "acceptedFromReplay o' = Inr a"
          by (cases e) (auto simp: provision_result_def split: op_error.splits)
        from tx Inl o'(1) obtain d2 where "provision_tx E user inp cls labSpecID students ?fp d = (Inl (LabReplayed o'), d2)"
          by (auto simp: inTransaction_def split: prod.splits sum.splits)
        then obtain spec snapshot c where
          "provision_rows E user inp cls students ?fp spec snapshot c d = (Inl (LabReplayed o'), d2)"
          by (auto simp: provision_tx_def provision_checks_signal split: sum.splits)
        from provision_rows_replay [OF this] o'(2) show ?thesis by blast
      qed
    qed
  qed
  then obtain o' d0 where "d0 \<in> {D 2, d, D 3}" "stored_answer E user ''PROVISION'' ?key ?fp o' d0" "acceptedFromReplay o' = Inr a"
    by blast
  moreover have "op_id o' = ac_OperationID a \<and> op_execution o' = Some (ac_LabExecutionID a)"
    using acceptedFromReplay_Inr [OF calculation(3)] by auto
  ultimately show ?thesis using s(2,3) requireClassRole_Inr [OF s(1)]
    by (intro exI [of _ cls] exI [of _ labSpecID] exI [of _ students] exI [of _ o'] conjI) (auto simp: isInstructor_def)
qed


text \<open>
  C10: Every outcome of a Provision request, whatever commits between its reads and its transaction. An error
  changes nothing. A replay changes nothing and returns the operation and execution that a request of the same user with the same key and
  the same meaning had created, to a user who is an instructor of the class. An acceptance is for an instructor of
  the class at the moment of commit, with a LabSpec that the user owns and students who all are
  students of the class then, and no unfinished execution of the class. It adds exactly one
  execution, one snapshot (the resolved one), one PENDING instance of generation 1 for the instructor and for each student, one PENDING
  operation and one PENDING item for each of these instances, and changes no other row.
\<close>

theorem Provision_outcome:
  "case Provision E D user inp d of
     (Inl e, d') \<Rightarrow> d' = d
   | (Inr a, d') \<Rightarrow> (\<exists>cls labSpecID students fp.
        parseID E (pi_ClassID inp) = Some (cl_id cls) \<and> parseID E (pi_LabSpecID inp) = Some labSpecID
      \<and> parseStudents E (pi_TargetStudentIDs inp) = Inr students
      \<and> fp = provisionFingerprint E (cl_id cls) labSpecID students
      \<and> (if ac_Replayed a then d' = d
          \<and> (\<exists>m \<in> set (db_memberships (D 1)). mb_class m = cl_id cls \<and> mb_user m = us_ID user \<and> mb_role m = ''INSTRUCTOR'')
          \<and> (\<exists>o'. op_id o' = ac_OperationID a \<and> op_execution o' = Some (ac_LabExecutionID a)
               \<and> (\<exists>d0 \<in> {D 2, d, D 3}. stored_answer E user ''PROVISION'' (pi_IdempotencyKey inp) fp o' d0))
         else (\<exists>spec snapshot c o'.
            (\<exists>m \<in> set (db_memberships d). mb_class m = cl_id cls \<and> mb_user m = us_ID user \<and> mb_role m = ''INSTRUCTOR'')
          \<and> row_by ls_ID labSpecID (db_lab_specs d) = Some spec \<and> ls_OwnerUserID spec = us_ID user
          \<and> list_all (\<lambda>i. list_ex (\<lambda>m. mb_class m = cl_id cls \<and> mb_user m = i \<and> mb_role m = ''STUDENT'') (db_memberships d)) students
          \<and> \<not> list_ex (active_execution (cl_id cls)) (db_executions d)
          \<and> resolveSnapshot (lx_uS E) (lx_sha256hex E) (us_OrganizationID user) spec d = Inr (snapshot, c)
          \<and> a = \<lparr>ac_OperationID = op_id o', ac_LabExecutionID = lx_newID E 0, ac_Replayed = False\<rparr>
          \<and> d' = d\<lparr>db_executions := db_executions d @ [provisioned_execution E user cls spec],
                  db_snapshots := db_snapshots d @ [provisioned_snapshot E user spec snapshot c],
                  db_instances := db_instances d @ provisioned_instances E user students,
                  db_operations := db_operations d @ [o'],
                  db_items := db_items d @ registered_items (lx_reg E) (provision_registration E user inp fp
                     (map (\<lambda>(k, p). \<lparr>ri_LabInstanceID = lx_newID E k, ri_Generation = 1\<rparr>)
                        (enumerate 2 (participants user students)))) (lx_now E)\<rparr>)))"
proof (cases "Provision E D user inp d")
  case (Pair res d')
  show ?thesis
  proof (cases res)
    case (Inl e)
    then show ?thesis using Pair Provision_unchanged [OF Pair] by simp
  next
    case (Inr a)
    then have run: "Provision E D user inp d = (Inr a, d')" using Pair by simp
    show ?thesis
    proof (cases "ac_Replayed a")
      case True
      have dd: "d' = d" by (rule Provision_unchanged [OF run]) (use True in simp)
      from Provision_replayed [OF run True] obtain cls :: class_row and labSpecID students o' where
        p: "parseID E (pi_ClassID inp) = Some (cl_id cls)"
          "\<exists>m \<in> set (db_memberships (D 1)). mb_class m = cl_id cls \<and> mb_user m = us_ID user \<and> mb_role m = ''INSTRUCTOR''"
          "parseID E (pi_LabSpecID inp) = Some labSpecID" "parseStudents E (pi_TargetStudentIDs inp) = Inr students"
        and o': "\<exists>d0 \<in> {D 2, d, D 3}. stored_answer E user ''PROVISION'' (pi_IdempotencyKey inp)
          (provisionFingerprint E (cl_id cls) labSpecID students) o' d0"
          "op_id o' = ac_OperationID a" "op_execution o' = Some (ac_LabExecutionID a)" by blast
      show ?thesis
        unfolding run prod.case sum.case if_P [OF True]
        by (rule exI [of _ cls], rule exI [of _ labSpecID], rule exI [of _ students],
            rule exI [of _ "provisionFingerprint E (cl_id cls) labSpecID students"], intro conjI exI [of _ o'])
           (fact | rule refl)+
    next
      case False
      from run False obtain cls labSpecID students spec snapshot c r fp where
        s: "requireClassRole E user (pi_ClassID inp) isInstructor (D 0) (D 1) = Inr cls"
          "parseID E (pi_LabSpecID inp) = Some labSpecID" "parseStudents E (pi_TargetStudentIDs inp) = Inr students"
          "fp = provisionFingerprint E (cl_id cls) labSpecID students"
        and ck: "provision_checks E user cls labSpecID students d = Inr (spec, snapshot, c)"
        and rows: "provision_rows E user inp cls students fp spec snapshot c d = (Inr r, d')"
        and a: "a = \<lparr>ac_OperationID = op_id (rr_Operation r), ac_LabExecutionID = lx_newID E 0, ac_Replayed = False\<rparr>"
        by (rule Provision_accepted)
      from provision_checks_Inr [OF ck] have ck':
          "row_by ls_ID labSpecID (db_lab_specs d) = Some spec" "ls_OwnerUserID spec = us_ID user"
          "resolveSnapshot (lx_uS E) (lx_sha256hex E) (us_OrganizationID user) spec d = Inr (snapshot, c)"
          "requireInstructorForShare (cl_id cls) (cl_organization cls) user d = None" "requireStudents cls students d = None"
        by blast+
      have m: "\<exists>m \<in> set (db_memberships d). mb_class m = cl_id cls \<and> mb_user m = us_ID user \<and> mb_role m = ''INSTRUCTOR''"
        using requireInstructorForShare_None [of "cl_id cls"] ck' by blast
      have st: "list_all (\<lambda>i. list_ex (\<lambda>m. mb_class m = cl_id cls \<and> mb_user m = i \<and> mb_role m = ''STUDENT'') (db_memberships d)) students"
        using requireStudents_None [OF ck'(5)] by (auto simp: list_all_iff list_ex_iff)
      have ci: "parseID E (pi_ClassID inp) = Some (cl_id cls)" using requireClassRole_Inr [OF s(1)] by blast
      from rows have act: "\<not> list_ex (active_execution (cl_id cls)) (db_executions d)" by (rule provision_rows_ok)
      from rows have d': "d' = d\<lparr>db_executions := db_executions d @ [provisioned_execution E user cls spec],
                  db_snapshots := db_snapshots d @ [provisioned_snapshot E user spec snapshot c],
                  db_instances := db_instances d @ provisioned_instances E user students,
                  db_operations := db_operations d @ [rr_Operation r],
                  db_items := db_items d @ registered_items (lx_reg E) (provision_registration E user inp fp
                     (map (\<lambda>(k, p). \<lparr>ri_LabInstanceID = lx_newID E k, ri_Generation = 1\<rparr>)
                        (enumerate 2 (participants user students)))) (lx_now E)\<rparr>" by (rule provision_rows_ok)
      show ?thesis
        unfolding run prod.case sum.case if_not_P [OF False]
        by (rule exI [of _ cls], rule exI [of _ labSpecID], rule exI [of _ students], rule exI [of _ fp],
            intro conjI exI [of _ spec] exI [of _ snapshot] exI [of _ c] exI [of _ "rr_Operation r"])
           (fact | rule refl)+
    qed
  qed
qed

end
