(* ===== verification/Lab_Mutations.thy ===== *)
theory Lab_Mutations
  imports Lab_Acceptance
begin

text \<open>
  What an accepted Reset or Cleanup has written (\<^verbatim>\<open>internal/server/labexecution/mutation.go\<close>).
\<close>

section \<open>Reset and Cleanup\<close>

lemma replaySignal_Inr: "replaySignal x = (Inr r, d') \<Longrightarrow> x = (Inr r, d') \<and> \<not> rr_Replayed r"
  by (auto simp: replaySignal_def split: prod.splits sum.splits if_splits)

lemma mutationResult_Inr:
  assumes "mutationResult kind target res = Inr a"
  shows "ma_TargetID a = target \<and> (\<not> ma_Replayed a \<longrightarrow> (\<exists>r. res = Inr r \<and> ma_OperationID a = op_id (rr_Operation r)))"
proof (cases res)
  case (Inl e)
  then show ?thesis using assms
    by (cases e) (auto simp: mutationResult_def mutationFromReplay_def Let_def split: if_splits)
qed (use assms in \<open>auto simp: mutationResult_def\<close>)

lemma mutationResult_committed: "mutationResult kind target (Inr r) = Inr a \<Longrightarrow> \<not> ma_Replayed a"
  by (auto simp: mutationResult_def)

lemma committed_replay_Inr:
  "committedMutationReplay E user kind key fp target d = Some (Inr a) \<Longrightarrow> ma_Replayed a \<and> ma_TargetID a = target"
  by (auto simp: committedMutationReplay_def mutationFromReplay_def Let_def dest!: replay_lookup_Some split: if_splits)

lemma lockExecution_Inr:
  assumes "lockExecution i org cls d = Inr l"
  shows "execution_of i d = Some (lr_execution l) \<and> le_organization (lr_execution l) = org \<and> le_class (lr_execution l) = cls
     \<and> lr_LabInstances l = sort_key li_id (filter (\<lambda>li. li_execution li = i) (db_instances d))
     \<and> (\<forall>x \<in> set (lr_LabInstances l). \<not> instance_invalid (lr_execution l) x)
     \<and> (lr_HasCreationSnapshot l \<longrightarrow> list_ex (\<lambda>s. sn_execution s = i) (db_snapshots d))"
  using assms
  by (auto simp: lockExecution_def LabExecutionForShare_def list_ex_iff dest!: row_by_key split: option.splits sum.splits if_splits)

lemma find_row: "find P (rev xs) = Some x \<Longrightarrow> x \<in> set xs \<and> P x"
  by (metis find_Some_iff nth_mem set_rev)

text \<open>A mutation request ends without a write, or with the transaction of its registration.\<close>

lemma reset_precheck_Inl:
  "reset_precheck E D user inp = Inl (Inr a) \<Longrightarrow> ma_Replayed a \<and> parseID E (rs_LabInstanceID inp) = Some (ma_TargetID a)"
  by (auto simp: reset_precheck_def dest!: committed_replay_Inr split: sum.splits option.splits if_splits)

lemma reset_precheck_Inr: "reset_precheck E D user inp = Inr (i, li) \<Longrightarrow> parseID E (rs_LabInstanceID inp) = Some i"
  by (auto simp: reset_precheck_def split: sum.splits option.splits if_splits)

lemma cleanup_precheck_Inl:
  "cleanup_precheck E D user inp = Inl (Inr a) \<Longrightarrow> ma_Replayed a \<and> parseID E (ci_LabExecutionID inp) = Some (ma_TargetID a)"
  by (auto simp: cleanup_precheck_def Let_def dest!: committed_replay_Inr split: sum.splits option.splits if_splits)

lemma cleanup_precheck_Inr: "cleanup_precheck E D user inp = Inr (i, e) \<Longrightarrow> parseID E (ci_LabExecutionID inp) = Some i"
  by (auto simp: cleanup_precheck_def Let_def split: sum.splits option.splits if_splits)

lemma Reset_cases:
  assumes "Reset E D user inp d = (res, d')"
  obtains (unchanged) "d' = d" "\<And>a. res = Inr a \<Longrightarrow> ma_Replayed a \<and> parseID E (rs_LabInstanceID inp) = Some (ma_TargetID a)"
  | (committed) i li r a where "res = Inr a" "\<not> ma_Replayed a" "ma_TargetID a = i" "ma_OperationID a = op_id (rr_Operation r)"
      "parseID E (rs_LabInstanceID inp) = Some i" "reset_tx E user inp i li (mutationFingerprint E ''reset/v1'' i) d = (Inr r, d')"
proof (cases "reset_precheck E D user inp")
  case (Inl answer)
  then have ans: "answer = res" "d' = d" using assms by (simp_all add: Reset_def)
  show thesis
  proof (rule unchanged [OF ans(2)])
    fix a assume "res = Inr a"
    then have "reset_precheck E D user inp = Inl (Inr a)" using Inl ans(1) by simp
    then show "ma_Replayed a \<and> parseID E (rs_LabInstanceID inp) = Some (ma_TargetID a)" by (rule reset_precheck_Inl)
  qed
next
  case (Inr x)
  obtain i li where x: "x = (i, li)" by fastforce
  from reset_precheck_Inr [of E D user inp i li] Inr x have i: "parseID E (rs_LabInstanceID inp) = Some i" by simp
  obtain tres where tx: "inTransaction (reset_tx E user inp i li (mutationFingerprint E ''reset/v1'' i)) d = (tres, d')"
    and res: "res = mutationResult ''RESET'' i tres"
    using assms Inr x by (auto simp: Reset_def split: prod.splits)
  show thesis
  proof (cases tres)
    case (Inl e)
    show thesis
    proof (rule unchanged)
      show "d' = d" by (rule inTransaction_error [OF tx [unfolded Inl]])
      fix a assume "res = Inr a"
      then have "mutationResult ''RESET'' i tres = Inr a" using res by simp
      from mutationResult_Inr [OF this] Inl have "ma_Replayed a" "ma_TargetID a = i" by auto
      then show "ma_Replayed a \<and> parseID E (rs_LabInstanceID inp) = Some (ma_TargetID a)" by (simp add: i)
    qed
  next
    case (Inr r)
    have res': "res = Inr \<lparr>ma_OperationID = op_id (rr_Operation r), ma_TargetID = i, ma_Replayed = False\<rparr>"
      using res Inr by (simp add: mutationResult_def)
    have run: "reset_tx E user inp i li (mutationFingerprint E ''reset/v1'' i) d = (Inr r, d')"
      using tx Inr by (simp add: inTransaction_ok)
    show thesis by (rule committed [OF res' _ _ _ i run]) simp_all
  qed
qed

lemma Cleanup_cases:
  assumes "Cleanup E D user inp d = (res, d')"
  obtains (unchanged) "d' = d" "\<And>a. res = Inr a \<Longrightarrow> ma_Replayed a \<and> parseID E (ci_LabExecutionID inp) = Some (ma_TargetID a)"
  | (committed) i e r a where "res = Inr a" "\<not> ma_Replayed a" "ma_TargetID a = i" "ma_OperationID a = op_id (rr_Operation r)"
      "parseID E (ci_LabExecutionID inp) = Some i" "cleanup_tx E user inp i e (mutationFingerprint E ''cleanup/v1'' i) d = (Inr r, d')"
proof (cases "cleanup_precheck E D user inp")
  case (Inl answer)
  then have ans: "answer = res" "d' = d" using assms by (simp_all add: Cleanup_def)
  show thesis
  proof (rule unchanged [OF ans(2)])
    fix a assume "res = Inr a"
    then have "cleanup_precheck E D user inp = Inl (Inr a)" using Inl ans(1) by simp
    then show "ma_Replayed a \<and> parseID E (ci_LabExecutionID inp) = Some (ma_TargetID a)" by (rule cleanup_precheck_Inl)
  qed
next
  case (Inr x)
  obtain i e where x: "x = (i, e)" by fastforce
  from cleanup_precheck_Inr [of E D user inp i e] Inr x have i: "parseID E (ci_LabExecutionID inp) = Some i" by simp
  obtain tres where tx: "inTransaction (cleanup_tx E user inp i e (mutationFingerprint E ''cleanup/v1'' i)) d = (tres, d')"
    and res: "res = mutationResult ''CLEANUP'' i tres"
    using assms Inr x by (auto simp: Cleanup_def split: prod.splits)
  show thesis
  proof (cases tres)
    case (Inl e)
    show thesis
    proof (rule unchanged)
      show "d' = d" by (rule inTransaction_error [OF tx [unfolded Inl]])
      fix a assume "res = Inr a"
      then have "mutationResult ''CLEANUP'' i tres = Inr a" using res by simp
      from mutationResult_Inr [OF this] Inl have "ma_Replayed a" "ma_TargetID a = i" by auto
      then show "ma_Replayed a \<and> parseID E (ci_LabExecutionID inp) = Some (ma_TargetID a)" by (simp add: i)
    qed
  next
    case (Inr r)
    have res': "res = Inr \<lparr>ma_OperationID = op_id (rr_Operation r), ma_TargetID = i, ma_Replayed = False\<rparr>"
      using res Inr by (simp add: mutationResult_def)
    have run: "cleanup_tx E user inp i e (mutationFingerprint E ''cleanup/v1'' i) d = (Inr r, d')"
      using tx Inr by (simp add: inTransaction_ok)
    show thesis by (rule committed [OF res' _ _ _ i run]) simp_all
  qed
qed

lemma registered_items_sel:
  "map it_instance (registered_items E inp t) = map ri_LabInstanceID (rg_Items inp)"
  "map it_generation (registered_items E inp t) = map ri_Generation (rg_Items inp)"
  "map it_status (registered_items E inp t) = map (\<lambda>_. ''PENDING'') (rg_Items inp)"
  "map it_operation (registered_items E inp t) = map (\<lambda>_. re_newID E 0) (rg_Items inp)"
proof -
  have "map f (map (\<lambda>(n, i). item_of_new (new_item E inp t n i)) (enumerate n xs)) = map g xs"
    if "\<And>n i. f (item_of_new (new_item E inp t n i)) = g i" for f g n xs
    using that by (induction xs arbitrary: n) simp_all
  note * = this
  show "map it_instance (registered_items E inp t) = map ri_LabInstanceID (rg_Items inp)"
    "map it_generation (registered_items E inp t) = map ri_Generation (rg_Items inp)"
    "map it_status (registered_items E inp t) = map (\<lambda>_. ''PENDING'') (rg_Items inp)"
    "map it_operation (registered_items E inp t) = map (\<lambda>_. re_newID E 0) (rg_Items inp)"
    unfolding registered_items_def by (rule *, simp add: item_of_new_def new_item_def)+
qed

lemma Register_fresh_generation:
  assumes "Register E inp t d = (Inr r, d')" "\<not> rr_Replayed r" "i \<in> set (rg_Items inp)"
  shows "\<exists>li. instance_of (ri_LabInstanceID i) d = Some li
     \<and> ri_Generation i = (if rg_Type inp = ''RESET'' then li_generation li + 1 else li_generation li)"
  using assms(1)
proof (cases rule: Register_ok)
  case (fresh hash)
  let ?d1 = "d\<lparr>db_operations := db_operations d @ [rr_Operation r]\<rparr>"
  have op: "operation_of (re_newID E 0) ?d1 = Some (rr_Operation r)"
    using fresh(4,5) by (simp add: row_by_append) (simp add: row_by_def)
  have ty: "op_type (rr_Operation r) = rg_Type inp" using fresh(4) by simp
  from create_items_target [OF fresh(9) assms(3)] op ty show ?thesis by auto
qed (use assms(2) in simp)

lemma Register_fresh:
  assumes "Register E inp t d = (Inr r, d')" "\<not> rr_Replayed r"
  shows "d' = d\<lparr>db_operations := db_operations d @ [rr_Operation r], db_items := db_items d @ registered_items E inp t\<rparr>
    \<and> op_id (rr_Operation r) = re_newID E 0 \<and> op_type (rr_Operation r) = rg_Type inp \<and> op_user (rr_Operation r) = rg_RequestedByUserID inp
    \<and> op_status (rr_Operation r) = ''PENDING'' \<and> op_execution (rr_Operation r) = rg_LabExecutionID inp
    \<and> op_instance (rr_Operation r) = rg_LabInstanceID inp"
  using assms(1)
proof (cases rule: Register_ok)
  case (fresh hash)
  then show ?thesis by simp
qed (use assms(2) in simp)

text \<open>
  C11: Every outcome of a Reset request. An error or a replay changes nothing. An acceptance is made by an
  instructor of the class at the moment of commit, for the instance of a student, in an execution that is not finished
  and has its snapshot; it adds one PENDING operation and one PENDING item for the instance's current
  generation plus one, and changes no other row: in particular the instance keeps its generation and status.
\<close>

theorem Reset_outcome:
  "case Reset E D user inp d of
     (Inl e, d') \<Rightarrow> d' = d
   | (Inr a, d') \<Rightarrow> parseID E (rs_LabInstanceID inp) = Some (ma_TargetID a) \<and>
      (if ma_Replayed a then d' = d
       else (\<exists>li e o' it. li \<in> set (db_instances d) \<and> li_id li = ma_TargetID a \<and> li_role li = ''STUDENT''
          \<and> execution_of (li_execution li) d = Some e \<and> le_finished_at e = None
          \<and> list_ex (\<lambda>s. sn_execution s = le_id e) (db_snapshots d)
          \<and> list_ex (\<lambda>m. mb_class m = le_class e \<and> mb_user m = us_ID user \<and> mb_role m = ''INSTRUCTOR'') (db_memberships d)
          \<and> d' = d\<lparr>db_operations := db_operations d @ [o'], db_items := db_items d @ [it]\<rparr>
          \<and> op_id o' = ma_OperationID a \<and> op_type o' = ''RESET'' \<and> op_instance o' = Some (ma_TargetID a)
          \<and> op_user o' = us_ID user \<and> op_status o' = ''PENDING''
          \<and> it_instance it = ma_TargetID a \<and> it_operation it = op_id o' \<and> it_status it = ''PENDING''
          \<and> (\<exists>li'. instance_of (ma_TargetID a) d = Some li' \<and> it_generation it = li_generation li' + 1)))"
proof (cases "Reset E D user inp d")
  case (Pair res d')
  from Pair show ?thesis
  proof (cases rule: Reset_cases)
    case unchanged
    then show ?thesis using Pair by (cases res) auto
  next
    case (committed i li r a)
    let ?fp = "mutationFingerprint E ''reset/v1'' i"
    from committed(6) obtain l target where
      m: "requireInstructorForShare (ln_ClassID li) (ln_OrganizationID li) user d = None" and
      l: "lockExecution (ln_LabExecutionID li) (ln_OrganizationID li) (ln_ClassID li) d = Inr l" and
      t: "find (\<lambda>x. li_id x = i) (rev (lr_LabInstances l)) = Some target" "li_role target = ''STUDENT''" and
      e: "le_finished_at (lr_execution l) = None" "lr_HasCreationSnapshot l" and
      sig: "replaySignal (Register (lx_reg E) (reset_registration li user inp i ?fp (li_generation target)) (lx_now E) d) = (Inr r, d')"
      by (auto simp: reset_tx_def split: option.splits sum.splits if_splits)
    let ?inp = "reset_registration li user inp i ?fp (li_generation target)"
    note reg = replaySignal_Inr [OF sig] and L = lockExecution_Inr [OF l]
    note F = Register_fresh [OF conjunct1 [OF reg] conjunct2 [OF reg]]
    have target: "target \<in> set (db_instances d)" "li_id target = i" "li_execution target = ln_LabExecutionID li"
      using find_row [OF t(1)] L by auto
    obtain it where it: "registered_items (lx_reg E) ?inp (lx_now E) = [it]"
      by (simp add: registered_items_def reset_registration_def)
    have sel: "it_instance it = i" "it_generation it = int64_add (li_generation target) 1" "it_status it = ''PENDING''"
        "it_operation it = re_newID (lx_reg E) 0"
      using registered_items_sel [of "lx_reg E" ?inp "lx_now E"] unfolding it by (simp_all add: reset_registration_def)
    have "\<exists>li'. instance_of i d = Some li' \<and> it_generation it = li_generation li' + 1"
      using Register_fresh_generation [OF conjunct1 [OF reg] conjunct2 [OF reg],
          of "\<lparr>ri_LabInstanceID = i, ri_Generation = int64_add (li_generation target) 1\<rparr>"] sel
      by (simp add: reset_registration_def)
    moreover have "list_ex (\<lambda>m. mb_class m = ln_ClassID li \<and> mb_user m = us_ID user \<and> mb_role m = ''INSTRUCTOR'') (db_memberships d)"
      using requireInstructorForShare_None [OF m] by (auto simp: list_ex_iff)
    moreover have "le_id (lr_execution l) = ln_LabExecutionID li" using L row_by_key by fastforce
    ultimately have facts: "\<exists>li'. instance_of i d = Some li' \<and> it_generation it = li_generation li' + 1"
        "list_ex (\<lambda>m. mb_class m = le_class (lr_execution l) \<and> mb_user m = us_ID user \<and> mb_role m = ''INSTRUCTOR'') (db_memberships d)"
        "list_ex (\<lambda>s. sn_execution s = le_id (lr_execution l)) (db_snapshots d)"
        "execution_of (li_execution target) d = Some (lr_execution l)"
        "d' = d\<lparr>db_operations := db_operations d @ [rr_Operation r], db_items := db_items d @ [it]\<rparr>"
        "op_type (rr_Operation r) = ''RESET''" "op_instance (rr_Operation r) = Some i" "op_user (rr_Operation r) = us_ID user"
        "op_status (rr_Operation r) = ''PENDING''" "it_operation it = op_id (rr_Operation r)"
      using L e(2) target(3) F sel(4) by (simp_all add: it) (simp_all add: reset_registration_def)
    show ?thesis
      unfolding Pair committed(1) prod.case sum.case if_not_P [OF committed(2)] committed(3,4)
      by (rule conjI, fact, rule exI [of _ target], rule exI [of _ "lr_execution l"], rule exI [of _ "rr_Operation r"],
          rule exI [of _ it], intro conjI)
         (fact | rule refl)+
  qed
qed


text \<open>
  Every outcome of a Cleanup request. An error or a replay changes nothing. An acceptance is made by an
  instructor of the class at the moment of commit, for an execution that is not finished; it adds one PENDING operation and
  exactly one PENDING item for every instance of the execution, in the order of their ids and each for its stored generation,
  and changes no other row: in particular it does not finish the execution.
\<close>

lemma Cleanup_outcome:
  "case Cleanup E D user inp d of
     (Inl e, d') \<Rightarrow> d' = d
   | (Inr a, d') \<Rightarrow> parseID E (ci_LabExecutionID inp) = Some (ma_TargetID a) \<and>
      (if ma_Replayed a then d' = d
       else (\<exists>e is o' its. execution_of (ma_TargetID a) d = Some e \<and> le_finished_at e = None
          \<and> is = sort_key li_id (filter (\<lambda>li. li_execution li = ma_TargetID a) (db_instances d))
          \<and> list_ex (\<lambda>m. mb_class m = le_class e \<and> mb_user m = us_ID user \<and> mb_role m = ''INSTRUCTOR'') (db_memberships d)
          \<and> d' = d\<lparr>db_operations := db_operations d @ [o'], db_items := db_items d @ its\<rparr>
          \<and> op_id o' = ma_OperationID a \<and> op_type o' = ''CLEANUP'' \<and> op_execution o' = Some (ma_TargetID a)
          \<and> op_user o' = us_ID user \<and> op_status o' = ''PENDING''
          \<and> map it_instance its = map li_id is \<and> map it_generation its = map li_generation is
          \<and> map it_status its = map (\<lambda>_. ''PENDING'') is \<and> map it_operation its = map (\<lambda>_. op_id o') is))"
proof (cases "Cleanup E D user inp d")
  case (Pair res d')
  from Pair show ?thesis
  proof (cases rule: Cleanup_cases)
    case unchanged
    then show ?thesis using Pair by (cases res) auto
  next
    case (committed i e0 r a)
    let ?fp = "mutationFingerprint E ''cleanup/v1'' i"
    from committed(6) obtain l where
      m: "requireInstructorForShare (le_class e0) (le_organization e0) user d = None" and
      l: "lockExecution i (le_organization e0) (le_class e0) d = Inr l" and
      e: "le_finished_at (lr_execution l) = None" and
      sig: "replaySignal (Register (lx_reg E) (cleanup_registration e0 user inp i ?fp (lr_LabInstances l)) (lx_now E) d) = (Inr r, d')"
      by (auto simp: cleanup_tx_def split: option.splits sum.splits if_splits)
    let ?inp = "cleanup_registration e0 user inp i ?fp (lr_LabInstances l)"
    let ?its = "registered_items (lx_reg E) ?inp (lx_now E)"
    note reg = replaySignal_Inr [OF sig] and L = lockExecution_Inr [OF l]
    note F = Register_fresh [OF conjunct1 [OF reg] conjunct2 [OF reg]]
    have its: "map it_instance ?its = map li_id (lr_LabInstances l)" "map it_generation ?its = map li_generation (lr_LabInstances l)"
        "map it_status ?its = map (\<lambda>_. ''PENDING'') (lr_LabInstances l)"
        "map it_operation ?its = map (\<lambda>_. op_id (rr_Operation r)) (lr_LabInstances l)"
      using F unfolding registered_items_sel by (simp_all add: cleanup_registration_def comp_def)
    have facts: "execution_of i d = Some (lr_execution l)"
        "lr_LabInstances l = sort_key li_id (filter (\<lambda>li. li_execution li = i) (db_instances d))"
        "list_ex (\<lambda>m. mb_class m = le_class (lr_execution l) \<and> mb_user m = us_ID user \<and> mb_role m = ''INSTRUCTOR'') (db_memberships d)"
        "d' = d\<lparr>db_operations := db_operations d @ [rr_Operation r], db_items := db_items d @ ?its\<rparr>"
        "op_type (rr_Operation r) = ''CLEANUP''" "op_execution (rr_Operation r) = Some i" "op_user (rr_Operation r) = us_ID user"
        "op_status (rr_Operation r) = ''PENDING''"
      using L F requireInstructorForShare_None [OF m]
      by (simp_all add: list_ex_iff) (auto simp: cleanup_registration_def)
    show ?thesis
      unfolding Pair committed(1) prod.case sum.case if_not_P [OF committed(2)] committed(3,4)
      by (rule conjI, fact, rule exI [of _ "lr_execution l"], rule exI [of _ "lr_LabInstances l"], rule exI [of _ "rr_Operation r"],
          rule exI [of _ ?its], intro conjI)
         (fact | rule refl)+
  qed
qed

end
