(* ===== verification/Lab_System.thy ===== *)
theory Lab_System
  imports Lab_Mutations
begin

text \<open>
  The requests and the workers as one system over the same tables, its invariant, and what becomes of an item that is
  open when its execution ends.
\<close>

section \<open>The system\<close>

text \<open>
  Everything that commits to these tables: the transactions of the workers and the three requests. A request
  carries what its reads outside the transaction saw, which may be anything.
\<close>

datatype 'sp lab_commit =
    WorkerCommit clock worker_tx
  | ProvisionCommit "'sp lab_env" "nat \<Rightarrow> db" User ProvisionInput
  | ResetCommit "'sp lab_env" "nat \<Rightarrow> db" User ResetInput
  | CleanupCommit "'sp lab_env" "nat \<Rightarrow> db" User CleanupInput

primrec lab_step :: "(uuid \<Rightarrow> string) \<Rightarrow> 'sp lab_commit \<Rightarrow> db \<Rightarrow> db" where
  "lab_step uS (WorkerCommit clk w) d = snd (worker_exec uS clk w d)"
| "lab_step uS (ProvisionCommit E D user inp) d = snd (Provision E D user inp d)"
| "lab_step uS (ResetCommit E D user inp) d = snd (Reset E D user inp d)"
| "lab_step uS (CleanupCommit E D user inp) d = snd (Cleanup E D user inp d)"

definition lab_run :: "(uuid \<Rightarrow> string) \<Rightarrow> 'sp lab_commit list \<Rightarrow> db \<Rightarrow> db" where
  "lab_run uS cs d = fold (lab_step uS) cs d"

definition unfinished :: "execution_row \<Rightarrow> bool" where
  "unfinished e \<longleftrightarrow> le_finished_at e = None"

definition executions_inv :: "execution_row list \<Rightarrow> bool" where
  "executions_inv es \<longleftrightarrow> distinct (map le_id es) \<and> distinct (map le_class (filter unfinished es))"

definition labs_inv :: "db \<Rightarrow> bool" where
  "labs_inv d \<longleftrightarrow> operations_inv d \<and> executions_inv (db_executions d) \<and> instances_inv (db_instances d)
     \<and> distinct (map sn_execution (db_snapshots d))"

subsection \<open>Workers\<close>

lemma worker_executions_inv:
  assumes "executions_inv (db_executions d)"
  shows "executions_inv (db_executions (snd (worker_exec uS clk w d)))"
proof -
  let ?d = "snd (worker_exec uS clk w d)"
  have id: "map execution_identity (db_executions d) = map execution_identity (db_executions ?d)"
    using worker_exec_rows [of d uS clk w] by (simp add: same_rows_def)
  have ids: "map le_id (db_executions d) = map le_id (db_executions ?d)"
    by (rule same_ids_distinct [OF id, where h = fst]) (simp add: execution_identity_def)
  have "list_all2 (\<lambda>e e'. unfinished e' \<longrightarrow> unfinished e) (db_executions d) (db_executions ?d)"
  proof (rule positions_by_id [OF ids])
    show "distinct (map le_id (db_executions d))" using assms by (simp add: executions_inv_def)
    fix k e e'
    assume e: "execution_of k d = Some e" "execution_of k ?d = Some e'"
    show "unfinished e' \<longrightarrow> unfinished e"
      using worker_exec_finished [of k d uS clk w] e
      by (cases "le_finished_at e") (auto simp: execution_finished_def unfinished_def)
  qed
  moreover have "list_all2 (\<lambda>e e'. le_class e = le_class e') (db_executions d) (db_executions ?d)"
    using id unfolding map_eq_all2 by (rule list_all2_mono) (simp add: execution_identity_def)
  ultimately have "list_all2 (\<lambda>e e'. le_class e = le_class e' \<and> (unfinished e' \<longrightarrow> unfinished e)) (db_executions d) (db_executions ?d)"
    by (simp add: list_all2_conv_all_nth)
  from filter_shrinks [OF this] assms ids show ?thesis by (simp add: executions_inv_def)
qed

lemma map_filter_identity:
  assumes "map f xs = map f ys" "\<And>x. g x = h (f x)" "\<And>x. P x = Q (f x)"
  shows "map g (filter P xs) = map g (filter P ys)"
  using assms(1)
proof (induction xs arbitrary: ys)
  case (Cons x xs)
  from Cons.prems obtain y ys' where "ys = y # ys'" "f x = f y" "map f xs = map f ys'" by auto
  with Cons.IH [of ys'] assms(2,3) show ?case by simp
qed simp

lemma worker_instances_inv:
  assumes "instances_inv (db_instances d)"
  shows "instances_inv (db_instances (snd (worker_exec uS clk w d)))"
proof -
  let ?d = "snd (worker_exec uS clk w d)"
  have id: "map instance_identity (db_instances ?d) = map instance_identity (db_instances d)"
    using worker_exec_rows [of d uS clk w] by (simp add: same_rows_def)
  have "map li_id (db_instances ?d) = map li_id (db_instances d)"
    by (rule same_ids_distinct [OF id, where h = fst]) (simp add: instance_identity_def)
  moreover have "map (\<lambda>i. (li_execution i, li_user i)) (db_instances ?d) = map (\<lambda>i. (li_execution i, li_user i)) (db_instances d)"
    by (rule same_ids_distinct [OF id, where h = "\<lambda>(_, _, e, u, _). (e, u)"]) (simp add: instance_identity_def)
  moreover have "map li_execution (filter (\<lambda>i. li_role i = ''INSTRUCTOR'') (db_instances ?d))
      = map li_execution (filter (\<lambda>i. li_role i = ''INSTRUCTOR'') (db_instances d))"
    by (rule map_filter_identity [OF id, where h = "\<lambda>(_, _, e, _). e" and Q = "\<lambda>(_, _, _, _, r). r = ''INSTRUCTOR''"])
       (simp_all add: instance_identity_def)
  ultimately show ?thesis using assms by (simp add: instances_inv_def)
qed

lemma worker_labs_inv:
  assumes "labs_inv d"
  shows "labs_inv (snd (worker_exec uS clk w d))"
proof -
  have "db_snapshots (snd (worker_exec uS clk w d)) = db_snapshots d"
    using worker_exec_rows [of d uS clk w] by (simp add: same_rows_def)
  then show ?thesis
    using assms by (simp add: labs_inv_def worker_operations_inv worker_executions_inv worker_instances_inv)
qed

subsection \<open>Requests\<close>

lemma operations_inv_cong:
  "db_operations d' = db_operations d \<Longrightarrow> db_items d' = db_items d \<Longrightarrow> operations_inv d' = operations_inv d"
  by (simp add: operations_inv_def)

lemma registered_labs_inv:
  assumes "labs_inv d" "Register E inp t d = (Inr r, d')"
  shows "labs_inv d'"
proof -
  have "operations_inv d'"
    using register_operations_inv [of d E inp t] assms by (simp add: labs_inv_def inTransaction_def)
  moreover have "db_executions d' = db_executions d \<and> db_instances d' = db_instances d \<and> db_snapshots d' = db_snapshots d"
    using assms(2) by (cases rule: Register_ok) simp_all
  ultimately show ?thesis using assms(1) by (simp add: labs_inv_def)
qed

lemma Reset_labs_inv:
  assumes "labs_inv d"
  shows "labs_inv (snd (Reset E D user inp d))"
proof (cases "Reset E D user inp d")
  case (Pair res d')
  from Pair show ?thesis
  proof (cases rule: Reset_cases)
    case (committed i li r a)
    then obtain inp' where "Register (lx_reg E) inp' (lx_now E) d = (Inr r, d')"
      by (auto simp: reset_tx_def dest!: replaySignal_Inr split: option.splits sum.splits if_splits)
    from registered_labs_inv [OF assms this] Pair show ?thesis by simp
  qed (use assms Pair in simp)
qed

lemma Cleanup_labs_inv:
  assumes "labs_inv d"
  shows "labs_inv (snd (Cleanup E D user inp d))"
proof (cases "Cleanup E D user inp d")
  case (Pair res d')
  from Pair show ?thesis
  proof (cases rule: Cleanup_cases)
    case (committed i e r a)
    then obtain inp' where "Register (lx_reg E) inp' (lx_now E) d = (Inr r, d')"
      by (auto simp: cleanup_tx_def dest!: replaySignal_Inr split: option.splits sum.splits if_splits)
    from registered_labs_inv [OF assms this] Pair show ?thesis by simp
  qed (use assms Pair in simp)
qed

lemma provision_rows_inv:
  assumes inv: "labs_inv d" and rows: "provision_rows E user inp cls students fp spec snapshot c d = (Inr r, d')"
  shows "labs_inv d'"
proof -
  from rows obtain d3 inp' where reg: "Register (lx_reg E) inp' (lx_now E) d3 = (Inr r, d')" "db_operations d3 = db_operations d"
      "db_items d3 = db_items d"
    by (rule provision_rows_ok) blast
  have "operations_inv d3" using inv reg operations_inv_cong [of d3 d] by (simp add: labs_inv_def)
  then have ops: "operations_inv d'" using register_operations_inv [of d3 "lx_reg E" inp' "lx_now E"] reg(1)
    by (simp add: inTransaction_def)
  from rows have ins: "instances_inv (db_instances d) \<longrightarrow> instances_inv (db_instances d')" by (rule provision_rows_ok)
  from rows have e: "execution_of (lx_newID E 0) d = None" by (rule provision_rows_ok)
  from rows have a: "\<not> list_ex (active_execution (cl_id cls)) (db_executions d)" by (rule provision_rows_ok)
  from rows have s: "\<not> list_ex (\<lambda>x. sn_execution x = lx_newID E 0) (db_snapshots d)" by (rule provision_rows_ok)
  from rows have "db_executions d' = db_executions d @ [provisioned_execution E user cls spec]
      \<and> db_snapshots d' = db_snapshots d @ [provisioned_snapshot E user spec snapshot c]"
    by (rule provision_rows_ok) simp
  then show ?thesis using inv ops ins e a s
    by (auto simp: labs_inv_def executions_inv_def row_by_None list_ex_iff active_execution_def unfinished_def
        provisioned_execution_def provisioned_snapshot_def)
qed

lemma Provision_labs_inv:
  assumes "labs_inv d"
  shows "labs_inv (snd (Provision E D user inp d))"
proof (cases "Provision E D user inp d")
  case (Pair res d')
  show ?thesis
  proof (cases "\<exists>a. res = Inr a \<and> \<not> ac_Replayed a")
    case True
    then obtain a where "Provision E D user inp d = (Inr a, d')" "\<not> ac_Replayed a" using Pair by auto
    then have "labs_inv d'" by (rule Provision_accepted) (rule provision_rows_inv [OF assms])
    then show ?thesis using Pair by simp
  next
    case False
    then have "d' = d" using Provision_unchanged [OF Pair] by blast
    then show ?thesis using assms Pair by simp
  qed
qed

text \<open>
  C9: One lab at a time. In every sequence in which worker transactions and Provision, Reset and Cleanup requests commit, whatever
  they carry and whatever their reads saw: a class has at most one unfinished execution, an execution has one
  snapshot, at most one instance for each user and at most one instance of an instructor, an instance has at most one open item, and
  a key is used by one operation.
\<close>

theorem labs_inv_run:
  assumes "labs_inv d"
  shows "labs_inv (lab_run uS cs d)"
  using assms
proof (induction cs arbitrary: d)
  case Nil
  then show ?case by (simp add: lab_run_def)
next
  case (Cons c cs)
  have "labs_inv (lab_step uS c d)"
    using Cons.prems by (cases c) (simp_all add: worker_labs_inv Provision_labs_inv Reset_labs_inv Cleanup_labs_inv)
  from Cons.IH [OF this] show ?case by (simp add: lab_run_def)
qed


section \<open>Open items of ended executions\<close>

text \<open>Rows that are only appended leave what the system knows of an item as it is.\<close>

lemma stranded_append:
  assumes "stranded k e d" "db_items d' = db_items d @ is" "db_instances d' = db_instances d @ ls" "db_executions d' = db_executions d @ es"
  shows "stranded k e d'"
  using assms unfolding stranded_iff execution_finished_def by (auto simp: row_by_append split: option.splits)

lemma stranded_registered: "stranded k e d \<Longrightarrow> Register E inp t d = (Inr r, d') \<Longrightarrow> stranded k e d'"
  by (erule Register_ok) (auto intro: stranded_append [where ls = "[]" and es = "[]"])

lemma stranded_Reset: "stranded k e d \<Longrightarrow> stranded k e (snd (Reset E D user inp d))"
proof (cases "Reset E D user inp d")
  case (Pair res d')
  assume s: "stranded k e d"
  from Pair show ?thesis
  proof (cases rule: Reset_cases)
    case (committed i li r a)
    then obtain inp' where "Register (lx_reg E) inp' (lx_now E) d = (Inr r, d')"
      by (auto simp: reset_tx_def dest!: replaySignal_Inr split: option.splits sum.splits if_splits)
    from stranded_registered [OF s this] Pair show ?thesis by simp
  qed (use s Pair in simp)
qed

lemma stranded_Cleanup: "stranded k e d \<Longrightarrow> stranded k e (snd (Cleanup E D user inp d))"
proof (cases "Cleanup E D user inp d")
  case (Pair res d')
  assume s: "stranded k e d"
  from Pair show ?thesis
  proof (cases rule: Cleanup_cases)
    case (committed i x r a)
    then obtain inp' where "Register (lx_reg E) inp' (lx_now E) d = (Inr r, d')"
      by (auto simp: cleanup_tx_def dest!: replaySignal_Inr split: option.splits sum.splits if_splits)
    from stranded_registered [OF s this] Pair show ?thesis by simp
  qed (use s Pair in simp)
qed

lemma stranded_Provision: "stranded k e d \<Longrightarrow> stranded k e (snd (Provision E D user inp d))"
proof (cases "Provision E D user inp d")
  case (Pair res d')
  assume s: "stranded k e d"
  show ?thesis
  proof (cases "\<exists>a. res = Inr a \<and> \<not> ac_Replayed a")
    case True
    then obtain a where "Provision E D user inp d = (Inr a, d')" "\<not> ac_Replayed a" using Pair by auto
    then have "stranded k e d'"
    proof (rule Provision_accepted)
      fix cls students fp spec snapshot c r
      assume "provision_rows E user inp cls students fp spec snapshot c d = (Inr r, d')"
      then show ?thesis by (rule provision_rows_ok) (rule stranded_append [OF s], auto)
    qed
    then show ?thesis using Pair by simp
  next
    case False
    then have "d' = d" using Provision_unchanged [OF Pair] by blast
    then show ?thesis using s Pair by simp
  qed
qed

lemma stranded_run: "stranded k e d \<Longrightarrow> stranded k e (lab_run uS cs d)"
proof (induction cs arbitrary: d)
  case (Cons c cs)
  have "stranded k e (lab_step uS c d)"
    using Cons.prems by (cases c) (simp_all add: stranded_worker_exec stranded_Reset stranded_Cleanup stranded_Provision)
  from Cons.IH [OF this] show ?case by (simp add: lab_run_def)
qed (simp add: lab_run_def)

text \<open>
  C16: A Reset can outlive its execution. Take any open item of a Reset. The commit of a worker that ends the
  execution of its instance leaves the item exactly as it is: the end looks at the items of the Cleanup and at the resources
  recorded so far, not at the open items of other operations. From then on the Reset can never be settled:
  whatever workers and requests commit later, in any order, the item stays open, its execution stays ended, and every transaction of
  a worker under a lease on the item, but for renewals of the lease, is refused with the database unchanged, so that no
  result of the Reset is ever recorded. (The witness is such a Reset, accepted while the Cleanup ran.)
\<close>

theorem reset_outlives_cleanup:
  assumes "item_of k d = Some it" and "active_item it" and "operation_of (it_operation it) d = Some oper" and "op_type oper = ''RESET''"
    and "instance_of (it_instance it) d = Some li" and "\<not> execution_finished (li_execution li) d"
    and "execution_finished (li_execution li) (snd (worker_exec uS clk w d))"
  shows "item_of k (snd (worker_exec uS clk w d)) = Some it
    \<and> (\<forall>cs. let d' = lab_run uS cs (snd (worker_exec uS clk w d)) in
         execution_finished (li_execution li) d' \<and> (\<exists>i. item_of k d' = Some i \<and> active_item i)
       \<and> (\<forall>clk' w' lease. worker_lease w' = Some lease \<and> ls_ItemID lease = k \<and> (\<forall>l dur. w' \<noteq> RenewTx l dur) \<longrightarrow>
            fst (worker_exec uS clk' w' d') \<noteq> None \<and> snd (worker_exec uS clk' w' d') = d'))"
proof -
  let ?d = "snd (worker_exec uS clk w d)"
  have kept: "item_of k ?d = Some it" by (rule ending_commit_frame [OF assms(7,6,1,3)]) (simp add: assms(4))
  have "map instance_identity (db_instances ?d) = map instance_identity (db_instances d)"
    using worker_exec_rows [of d uS clk w] by (simp add: same_rows_def)
  from row_by_identity [where key = li_id and f = instance_identity and g = fst, OF this _ assms(5)]
  obtain li' where "instance_of (it_instance it) ?d = Some li'" "li_execution li' = li_execution li"
    by (auto simp: instance_identity_def)
  with kept assms(2,7) have "stranded k (li_execution li) ?d" by (simp add: stranded_def)
  note s = stranded_run [OF this, of uS]
  show ?thesis
  proof (intro conjI allI, rule kept)
    fix cs
    let ?d' = "lab_run uS cs ?d"
    from s [of cs] have "execution_finished (li_execution li) ?d'" "\<exists>i. item_of k ?d' = Some i \<and> active_item i"
      unfolding stranded_iff by blast+
    with stranded_refused [OF s [of cs], where uS = uS] show "let d' = ?d' in
         execution_finished (li_execution li) d' \<and> (\<exists>i. item_of k d' = Some i \<and> active_item i)
       \<and> (\<forall>clk' w' lease. worker_lease w' = Some lease \<and> ls_ItemID lease = k \<and> (\<forall>l dur. w' \<noteq> RenewTx l dur) \<longrightarrow>
            fst (worker_exec uS clk' w' d') \<noteq> None \<and> snd (worker_exec uS clk' w' d') = d')"
      unfolding Let_def by blast
  qed
qed

section \<open>Witnesses\<close>

definition demo_parse :: "string \<Rightarrow> uuid option" where
  "demo_parse s = (if s = ''c'' then Some 2 else if s = ''spec'' then Some 12 else if s = ''s14'' then Some 14
     else if s = ''e'' then Some 31 else if s = ''i'' then Some 34 else None)"

definition demo_string :: "uuid \<Rightarrow> string" where
  "demo_string u = (if u = 2 then ''c'' else if u = 12 then ''spec'' else if u = 14 then ''s14'' else if u = 31 then ''e''
     else if u = 34 then ''i'' else ''conn'')"

definition demo_lab_env :: "unit lab_env" where
  "demo_lab_env =
     \<lparr>lx_parse = demo_parse, lx_uS = demo_string, lx_sha256hex = demo_hex, lx_newID = (\<lambda>n. 31 + of_nat n), lx_now = 50,
      lx_reg = demo_reg_env\<rparr>"

definition demo_user :: User where
  "demo_user = \<lparr>us_ID = 11, us_OrganizationID = 1, us_OrganizationRole = ''MEMBER''\<rparr>"

definition demo_request :: ProvisionInput where
  "demo_request = \<lparr>pi_ClassID = ''c'', pi_LabSpecID = ''spec'', pi_TargetStudentIDs = [''s14''], pi_IdempotencyKey = ''k'',
     pi_RequestID = ''r''\<rparr>"

lemmas demo_lab = demo_lab_env_def demo_user_def demo_request_def demo_parse_def demo_string_def demo_reg_env_def

lemma demo_checks:
  "requireClassRole demo_lab_env demo_user ''c'' isInstructor demo_lab_db demo_lab_db = Inr \<lparr>cl_id = 2, cl_organization = 1, cl_name = ''c''\<rparr>"
  "parseID demo_lab_env ''spec'' = Some 12" "parseStudents demo_lab_env [''s14''] = Inr [14]"
  by (simp_all add: requireClassRole_def parseID_def parseStudents_def demo_lab ClassByID_def demo_lab_db_def demo_db_def row_by_def
      requireMembership_def ClassMembership_def ClassRole_Valid_def isInstructor_def)

lemma demo_provision_checks:
  "\<exists>s. provision_checks demo_lab_env demo_user \<lparr>cl_id = 2, cl_organization = 1, cl_name = ''c''\<rparr> 12 [14] demo_lab_db = Inr (demo_spec, s, 4)"
proof -
  have r: "\<exists>s. resolveSnapshot demo_string demo_hex 1 demo_spec demo_lab_db = Inr (s, 4)"
    by (simp add: resolveSnapshot_def demo_spec_def demo_lab_db_def demo_db_def sorted_roles_def int64_add_def wrap_int64_def
      maxSnapshotVMs_def ResolvedImageMappingsForShare_def ResolvedFlavorMappingsForShare_def sameConnection_def
      upto.simps add_vm_def Let_def)
  have "requireInstructorForShare 2 1 demo_user demo_lab_db = None"
    "ActiveLabExecutionByClass 2 demo_lab_db = Inl KindNotFound" "LabSpecForShare 12 demo_lab_db = Inr demo_spec"
    "requireStudents \<lparr>cl_id = 2, cl_organization = 1, cl_name = ''c''\<rparr> [14] demo_lab_db = None"
    by (simp_all add: requireInstructorForShare_def ClassMembershipsForShare_def demo_lab_db_def demo_db_def demo_user_def
        ClassRole_Valid_def ActiveLabExecutionByClass_def LabSpecForShare_def row_by_def demo_spec_def requireStudents_def)
  with r show ?thesis
    by (auto simp: provision_checks_def demo_user_def demo_lab_env_def demo_spec_def)
qed

lemma demo_provision_rows:
  "length fp \<noteq> 32 \<Longrightarrow> \<exists>r d'. provision_rows demo_lab_env demo_user demo_request \<lparr>cl_id = 2, cl_organization = 1, cl_name = ''c''\<rparr> [14] fp demo_spec snap 4 demo_lab_db = (Inr r, d')"
  by (simp add: provision_rows_def demo_lab CreateLabExecution_def execution_of_new_def CreateCreationSnapshot_def snapshot_of_new_def
      CreateLabInstance_def instance_of_new_def ClassRole_Valid_def studentParticipants_def demo_lab_db_def demo_db_def demo_spec_def row_by_def
      active_execution_def provision_registration_def
      Register_def demo_hash valid_registration_def target_valid_def short_fingerprint
      InsertOperation_def same_key_def new_operation_def operation_of_new_def targets_exist_def Let_def
      CreateOperationItem_def item_target_def new_item_def item_of_new_def MaxInt32_def OperationByID_def active_item_def)

lemma demo_provision_accepted:
  "\<exists>a d'. Provision demo_lab_env (\<lambda>_. demo_lab_db) demo_user demo_request demo_lab_db = (Inr a, d') \<and> \<not> ac_Replayed a"
proof -
  let ?c = "\<lparr>cl_id = 2, cl_organization = 1, cl_name = ''c''\<rparr>" and ?fp = "provisionFingerprint demo_lab_env 2 12 [14]"
  from demo_provision_checks obtain s where ck: "provision_checks demo_lab_env demo_user ?c 12 [14] demo_lab_db = Inr (demo_spec, s, 4)"
    by blast
  have len: "length ?fp \<noteq> 32"
    by (simp add: provisionFingerprint_def provision_canonical_def demo_lab json_string_def sort_Strings_def)
  from demo_provision_rows [OF len, of s] obtain r d' where
    rows: "provision_rows demo_lab_env demo_user demo_request ?c [14] ?fp demo_spec s 4 demo_lab_db = (Inr r, d')" by blast
  have h: "HashKey (re_sha256 (lx_reg demo_lab_env)) (pi_IdempotencyKey demo_request) = Inr ''#k''"
    by (simp add: demo_lab demo_hash)
  have n: "committedReplay demo_lab_env demo_user (pi_IdempotencyKey demo_request) ?fp demo_lab_db = None"
    by (simp add: committedReplay_def replay_lookup_def Replay_def OperationByIdempotency_def demo_lab demo_hash demo_lab_db_def demo_db_def)
  show ?thesis
    using demo_checks ck rows h n
    by (simp add: Provision_def Let_def demo_request_def provision_tx_def inTransaction_def provision_result_def)
qed

text \<open>
  A Cleanup of an execution with two instances, of which the student's is already cleaned up.
\<close>

definition demo_overlap_db :: db where
  "demo_overlap_db = demo_cleanup_db
     \<lparr>db_memberships := [\<lparr>mb_organization = 1, mb_class = 2, mb_user = 11, mb_role = ''INSTRUCTOR''\<rparr>],
      db_instances := db_instances demo_cleanup_db @
        [\<lparr>li_id = 17, li_organization = 1, li_execution = 5, li_user = 14, li_role = ''STUDENT'',
          li_status = ''COMPLETED'', li_generation = 1, li_updated_at = 40\<rparr>],
      db_items := db_items demo_cleanup_db @
        [(demo_item 1 ''COMPLETED'')\<lparr>it_id := 18, it_instance := 17, it_status := ''SUCCEEDED'', it_finished_at := Some 40,
           it_lease_owner := None, it_lease_expires_at := None\<rparr>],
      db_resources := db_resources demo_cleanup_db @
        [(demo_resource 1 ''z'')\<lparr>rc_instance := 17, rc_lifecycle := ''DELETED'', rc_observed_state := ''DELETED''\<rparr>]\<rparr>"

definition demo_overlap_env :: "unit lab_env" where
  "demo_overlap_env = demo_lab_env\<lparr>lx_parse := (\<lambda>_. Some 17), lx_uS := (\<lambda>_. ''i'')\<rparr>"

definition demo_overlap_reset :: ResetInput where
  "demo_overlap_reset = \<lparr>rs_LabInstanceID = ''i'', rs_IdempotencyKey = ''k'', rs_RequestID = ''r''\<rparr>"

lemma demo_reset_precheck:
  "\<exists>li. reset_precheck demo_overlap_env (\<lambda>_. demo_overlap_db) demo_user demo_overlap_reset = Inr (17, li)
     \<and> ln_ClassID li = 2 \<and> ln_OrganizationID li = 1 \<and> ln_LabExecutionID li = 5 \<and> ln_UserID li = 14"
  by (simp add: reset_precheck_def demo_overlap_env_def demo_lab demo_overlap_reset_def demo_hash parseID_def LabInstanceByID_def
      demo_overlap_db_def demo_cleanup_db_def demo_db_def row_by_def execution_target_def requireMembership_def ClassMembership_def
      ClassRole_Valid_def isInstructor_def committedMutationReplay_def replay_lookup_def Replay_def OperationByIdempotency_def same_key_def)


lemma demo_reset_registered:
  assumes "ln_ClassID li = 2" "ln_OrganizationID li = 1" "ln_LabExecutionID li = 5" "ln_UserID li = 14"
  shows "\<exists>r o' it. reset_tx demo_overlap_env demo_user demo_overlap_reset 17 li (mutationFingerprint demo_overlap_env ''reset/v1'' 17) demo_overlap_db
     = (Inr r, demo_overlap_db\<lparr>db_operations := db_operations demo_overlap_db @ [o'], db_items := db_items demo_overlap_db @ [it]\<rparr>)
     \<and> op_id o' = 100 \<and> op_type o' = ''RESET'' \<and> it_id it = 101 \<and> it_operation it = 100 \<and> it_instance it = 17 \<and> it_status it = ''PENDING''"
  using assms
  by (simp add: reset_tx_def requireInstructorForShare_def ClassMembershipsForShare_def demo_overlap_db_def demo_cleanup_db_def demo_db_def demo_item_def
      demo_overlap_env_def demo_lab ClassRole_Valid_def lockExecution_def LabExecutionForShare_def row_by_def instance_invalid_def instructor_count_def
      reset_registration_def demo_overlap_reset_def mutationFingerprint_def int64_add_def wrap_int64_def json_string_def
      Register_def demo_hash valid_registration_def target_valid_def short_fingerprint replaySignal_def
      InsertOperation_def same_key_def new_operation_def operation_of_new_def targets_exist_def Let_def
      CreateOperationItem_def item_target_def new_item_def item_of_new_def MaxInt32_def OperationByID_def active_item_def)


definition demo_late_cleanup :: worker_tx where
  "demo_late_cleanup = WriteMutationTx (demo_update ''CLEANUP'' 1 [demo_report 1 ''a'' ''DELETED''])"

lemma demo_cleanup_completes:
  assumes "op_id o' = 100" "op_type o' = ''RESET''" "it_id it = 101" "it_operation it = 100" "it_instance it = 17" "it_status it = ''PENDING''"
    and d: "d = demo_overlap_db\<lparr>db_operations := db_operations demo_overlap_db @ [o'], db_items := db_items demo_overlap_db @ [it]\<rparr>"
  shows "execution_finished 5 (snd (worker_exec demo_uS (demo_clock 100) demo_late_cleanup d))"
  using assms(1-6) unfolding d demo_late_cleanup_def
  by (simp add: demo_overlap_db_def demo_eval demo_run)
     (simp add: demo_aggregate Let_def row_by_def update_rows_def gone_def finish_item_def)

lemma demo_reset_rows:
  assumes "op_id o' = 100" "op_type o' = ''RESET''" "it_id it = 101" "it_operation it = 100" "it_instance it = 17" "it_status it = ''PENDING''"
    and d: "d = demo_overlap_db\<lparr>db_operations := db_operations demo_overlap_db @ [o'], db_items := db_items demo_overlap_db @ [it]\<rparr>"
  shows "item_of 101 d = Some it \<and> active_item it \<and> operation_of (it_operation it) d = Some o'
    \<and> (\<exists>li. instance_of (it_instance it) d = Some li \<and> li_execution li = 5) \<and> \<not> execution_finished 5 d"
  using assms(1-6) unfolding d
  by (simp add: demo_overlap_db_def demo_cleanup_db_def demo_db_def demo_item_def row_by_def active_item_def execution_finished_def)

theorem reset_outlives_cleanup_witness:
  "let d1 = snd (Reset demo_overlap_env (\<lambda>_. demo_overlap_db) demo_user demo_overlap_reset demo_overlap_db);
       d2 = snd (worker_exec demo_uS (demo_clock 100) demo_late_cleanup d1);
       d3 = lab_run demo_uS ([WorkerCommit (demo_clock 200) (ClaimTx (\<lambda>_. False) 77 60 [])] :: unit lab_commit list) d2
   in \<not> execution_finished 5 d1 \<and> execution_finished 5 d2 \<and> (\<exists>i. item_of 101 d3 = Some i \<and> active_item i)
    \<and> snd (worker_exec demo_uS (demo_clock 210) (PrepareMutationTx \<lparr>ls_ItemID = 101, ls_Owner = 77\<rparr>) d3) = d3"
proof -
  from demo_reset_precheck obtain li where
    pre: "reset_precheck demo_overlap_env (\<lambda>_. demo_overlap_db) demo_user demo_overlap_reset = Inr (17, li)"
    and li: "ln_ClassID li = 2" "ln_OrganizationID li = 1" "ln_LabExecutionID li = 5" "ln_UserID li = 14" by blast
  from demo_reset_registered [OF li] obtain r o' it where
    tx: "reset_tx demo_overlap_env demo_user demo_overlap_reset 17 li (mutationFingerprint demo_overlap_env ''reset/v1'' 17) demo_overlap_db
      = (Inr r, demo_overlap_db\<lparr>db_operations := db_operations demo_overlap_db @ [o'], db_items := db_items demo_overlap_db @ [it]\<rparr>)"
    and it: "op_id o' = 100" "op_type o' = ''RESET''" "it_id it = 101" "it_operation it = 100" "it_instance it = 17" "it_status it = ''PENDING''"
    by blast
  let ?d1 = "snd (Reset demo_overlap_env (\<lambda>_. demo_overlap_db) demo_user demo_overlap_reset demo_overlap_db)"
  have d1: "?d1 = demo_overlap_db\<lparr>db_operations := db_operations demo_overlap_db @ [o'], db_items := db_items demo_overlap_db @ [it]\<rparr>"
    by (simp add: Reset_def pre tx inTransaction_def)
  from demo_reset_rows [OF it d1] obtain x where rows: "item_of 101 ?d1 = Some it" "active_item it" "operation_of (it_operation it) ?d1 = Some o'"
    "instance_of (it_instance it) ?d1 = Some x" "li_execution x = 5" "\<not> execution_finished 5 ?d1" by blast
  note ended = demo_cleanup_completes [OF it d1]
  have "\<not> execution_finished (li_execution x) ?d1"
    "execution_finished (li_execution x) (snd (worker_exec demo_uS (demo_clock 100) demo_late_cleanup ?d1))"
    using rows(5,6) ended by simp_all
  note out = reset_outlives_cleanup [OF rows(1-3) it(2) rows(4) this, THEN conjunct2, rule_format,
      of "[WorkerCommit (demo_clock 200) (ClaimTx (\<lambda>_. False) 77 60 [])] :: unit lab_commit list", unfolded Let_def]
  from out [THEN conjunct2, THEN conjunct2, rule_format, of "PrepareMutationTx \<lparr>ls_ItemID = 101, ls_Owner = 77\<rparr>" _ "demo_clock 210"]
    out rows(6) ended
  show ?thesis unfolding Let_def by simp
qed

theorem labs_inv_run_witness:
  "labs_inv demo_lab_db \<and> labs_inv (lab_run demo_uS [ProvisionCommit demo_lab_env (\<lambda>_. demo_lab_db) demo_user demo_request,
     WorkerCommit (demo_clock 100) (ClaimTx (\<lambda>_. False) 77 60 [])] demo_lab_db)"
proof -
  have "labs_inv demo_lab_db"
    by (simp add: labs_inv_def operations_inv_def executions_inv_def instances_inv_def demo_lab_db_def demo_db_def)
  then show ?thesis using labs_inv_run by blast
qed

end
