(* ===== verification/Go_Base64.thy ===== *)
theory Go_Base64
  imports Labbit_Prelude
begin

text \<open>
  \<^verbatim>\<open>base64.RawURLEncoding\<close> of Go's standard library, as the token code of the server uses it
  (\<^verbatim>\<open>internal/server/terminal/token.go\<close>, \<^verbatim>\<open>internal/server/auth/service.go\<close>,
  \<^verbatim>\<open>internal/server/connector/enrollment.go\<close>). The decoder is the one of
  \<^verbatim>\<open>Strict()\<close>: it skips CR and LF, and refuses other characters, a single trailing character, and
  trailing bits that are not zero. A digit is a number below 64 and a byte a character.
\<close>

section \<open>Digits\<close>

definition base64_digit :: "nat \<Rightarrow> char" where
  "base64_digit n =
     (if n < 26 then char_of (65 + n) else if n < 52 then char_of (71 + n)
      else if n < 62 then char_of (n - 4) else if n = 62 then CHR ''-'' else CHR ''_'')"

definition base64_value :: "char \<Rightarrow> nat option" where
  "base64_value c =
     (let b = of_char c in
      if 65 \<le> b \<and> b \<le> 90 then Some (b - 65) else if 97 \<le> b \<and> b \<le> 122 then Some (b - 71)
      else if 48 \<le> b \<and> b \<le> 57 then Some (b + 4) else if b = 45 then Some 62
      else if b = 95 then Some 63 else None)"

lemma base64_value_digit: "n < 64 \<Longrightarrow> base64_value (base64_digit n) = Some n"
  by (auto simp: base64_value_def base64_digit_def Let_def)

lemma base64_digit_value: "base64_value c = Some n \<Longrightarrow> n < 64 \<and> base64_digit n = c"
proof -
  assume v: "base64_value c = Some n"
  define b :: nat where "b = of_char c"
  have c: "char_of b = c" by (simp add: b_def)
  have "n < 64 \<and> base64_digit n = char_of b"
  proof (cases "65 \<le> b \<and> b \<le> 90")
    case True
    with v have n: "n = b - 65" by (simp add: base64_value_def Let_def b_def)
    with True have "n < 26" "65 + n = b" by linarith+
    then show ?thesis by (simp only: base64_digit_def if_True) simp
  next
    case A: False
    show ?thesis
    proof (cases "97 \<le> b \<and> b \<le> 122")
      case True
      with v A have n: "n = b - 71" by (simp add: base64_value_def Let_def b_def)
      with True have "\<not> n < 26" "n < 52" "71 + n = b" by linarith+
      then show ?thesis by (simp only: base64_digit_def if_True if_False) simp
    next
      case B: False
      show ?thesis
      proof (cases "48 \<le> b \<and> b \<le> 57")
        case True
        with v A B have n: "n = b + 4" by (simp add: base64_value_def Let_def b_def)
        with True have "\<not> n < 26" "\<not> n < 52" "n < 62" "n - 4 = b" by simp_all
        then show ?thesis by (simp only: base64_digit_def if_True if_False) simp
      next
        case False
        with v A B have "b = 45 \<and> n = 62 \<or> b = 95 \<and> n = 63"
          by (simp add: base64_value_def Let_def b_def split: if_splits)
        moreover have "char_of (45 :: nat) = CHR ''-''" "char_of (95 :: nat) = CHR ''_''"
          using char_of_char [of "CHR ''-''", where ?'a = nat] char_of_char [of "CHR ''_''", where ?'a = nat] by simp_all
        ultimately show ?thesis by (elim disjE conjE) (simp_all add: base64_digit_def)
      qed
    qed
  qed
  then show ?thesis by (simp only: c)
qed

definition line_break :: "char \<Rightarrow> bool" where
  "line_break c \<longleftrightarrow> c = CHR 10 \<or> c = CHR 13"

lemma base64_value_break: "line_break c \<Longrightarrow> base64_value c = None"
  by (auto simp: line_break_def base64_value_def)

lemma base64_digit_no_break: "n < 64 \<Longrightarrow> \<not> line_break (base64_digit n)"
  using base64_value_digit base64_value_break by fastforce

section \<open>Encoding and decoding\<close>

abbreviation byte :: "char \<Rightarrow> nat" where
  "byte \<equiv> of_char"

fun base64_encode :: "string \<Rightarrow> string" where
  "base64_encode [] = []"
| "base64_encode [a] = [base64_digit (byte a div 4), base64_digit (byte a mod 4 * 16)]"
| "base64_encode [a, b] =
     [base64_digit (byte a div 4), base64_digit (byte a mod 4 * 16 + byte b div 16), base64_digit (byte b mod 16 * 4)]"
| "base64_encode (a # b # c # rest) =
     base64_digit (byte a div 4) # base64_digit (byte a mod 4 * 16 + byte b div 16)
       # base64_digit (byte b mod 16 * 4 + byte c div 64) # base64_digit (byte c mod 64) # base64_encode rest"

text \<open>The quanta of four digits; the last one may have two or three.\<close>

fun base64_quanta :: "nat list \<Rightarrow> string option" where
  "base64_quanta [] = Some []"
| "base64_quanta [p] = None"
| "base64_quanta [p, q] = (if q mod 16 \<noteq> 0 then None else Some [char_of (p * 4 + q div 16)])"
| "base64_quanta [p, q, r] =
     (if r mod 4 \<noteq> 0 then None else Some [char_of (p * 4 + q div 16), char_of (q mod 16 * 16 + r div 4)])"
| "base64_quanta (p # q # r # s # rest) =
     map_option (\<lambda>bs. char_of (p * 4 + q div 16) # char_of (q mod 16 * 16 + r div 4) # char_of (r mod 4 * 64 + s) # bs)
       (base64_quanta rest)"

definition base64_decode_strict :: "string \<Rightarrow> string option" where
  "base64_decode_strict s =
     (let cs = filter (\<lambda>c. \<not> line_break c) s in
      if list_all (\<lambda>c. base64_value c \<noteq> None) cs then base64_quanta (map (the \<circ> base64_value) cs) else None)"

section \<open>Round trips\<close>

lemma byte_bound [simp]: "byte c < 256"
  using of_char_mod_256 [of c, where ?'a = nat] by (metis mod_less_divisor zero_less_numeral)

lemma char_of_byte [simp]: "char_of (byte c) = c"
  by simp

lemma pack:
  assumes "x < (n :: nat)"
  shows "(y * n + x) div n = y" "(y * n + x) mod n = x"
  using assms by simp_all

lemma byte_parts:
  "byte a div 4 < 64" "byte a mod 4 < 4" "byte a div 16 < 16" "byte a mod 16 < 16" "byte a div 64 < 4" "byte a mod 64 < 64"
  using byte_bound [of a] by (simp_all add: less_mult_imp_div_less)

lemma sextets:
  "byte a div 4 < 64" "byte a mod 4 * 16 < 64" "byte a mod 4 * 16 + byte b div 16 < 64"
  "byte b mod 16 * 4 < 64" "byte b mod 16 * 4 + byte c div 64 < 64" "byte c mod 64 < 64"
  using byte_parts [of a] byte_parts [of b] byte_parts [of c] by linarith+

lemma digit_ok: "n < 64 \<Longrightarrow> \<exists>m < 64. base64_digit n = base64_digit m"
  by blast

lemma base64_encode_digits: "c \<in> set (base64_encode bs) \<Longrightarrow> \<exists>n < 64. c = base64_digit n"
  by (induction bs rule: base64_encode.induct) (auto simp: sextets byte_parts intro: digit_ok)

lemma quantum_bytes:
  "byte a div 4 * 4 + (byte a mod 4 * 16 + byte b div 16) div 16 = byte a"
  "(byte a mod 4 * 16 + byte b div 16) mod 16 * 16 + (byte b mod 16 * 4 + byte c div 64) div 4 = byte b"
  "(byte b mod 16 * 4 + byte c div 64) mod 4 * 64 + byte c mod 64 = byte c"
  by (simp_all only: pack byte_parts div_mult_mod_eq)

lemma quantum_ends:
  "byte a div 4 * 4 + byte a mod 4 * 16 div 16 = byte a" "byte a mod 4 * 16 mod 16 = 0"
  "(byte a mod 4 * 16 + byte b div 16) mod 16 * 16 + byte b mod 16 * 4 div 4 = byte b" "byte b mod 16 * 4 mod 4 = 0"
  by (simp_all only: pack byte_parts nonzero_mult_div_cancel_right zero_neq_numeral div_mult_mod_eq mod_mult_self2_is_0
      not_False_eq_True)

lemmas quantum_simps = base64_encode.simps list.map comp_apply base64_value_digit option.sel base64_quanta.simps
  quantum_bytes quantum_ends option.map char_of_byte sextets

lemma base64_quanta_encode: "base64_quanta (map (the \<circ> base64_value) (base64_encode bs)) = Some bs"
proof (induction bs rule: base64_encode.induct)
  case (4 a b c rest)
  then show ?case by (simp only: quantum_simps)
qed (simp_all only: quantum_simps simp_thms if_False)

lemma decode_encode: "base64_decode_strict (base64_encode bs) = Some bs"
proof -
  have digits: "\<forall>c \<in> set (base64_encode bs). \<not> line_break c \<and> base64_value c \<noteq> None"
    using base64_encode_digits base64_value_digit base64_digit_no_break by fastforce
  then have "filter (\<lambda>c. \<not> line_break c) (base64_encode bs) = base64_encode bs" by (simp add: filter_id_conv)
  with digits show ?thesis by (simp add: base64_decode_strict_def list_all_iff base64_quanta_encode del: o_apply)
qed

text \<open>A decoded string is the encoding of its bytes, up to line breaks.\<close>

lemma sextet_bytes:
  assumes "p < 64" "q < 64" "r < 64" "s < (64 :: nat)"
  shows "byte (char_of (p * 4 + q div 16)) = p * 4 + q div 16"
    "byte (char_of (q mod 16 * 16 + r div 4)) = q mod 16 * 16 + r div 4" "byte (char_of (r mod 4 * 64 + s)) = r mod 4 * 64 + s"
proof -
  have "q div 16 < 4" "r div 4 < 16" "q mod 16 < 16" "r mod 4 < 4" using assms by (simp_all add: less_mult_imp_div_less)
  then have "p * 4 + q div 16 < 256" "q mod 16 * 16 + r div 4 < 256" "r mod 4 * 64 + s < 256" using assms by linarith+
  then show "byte (char_of (p * 4 + q div 16)) = p * 4 + q div 16"
    "byte (char_of (q mod 16 * 16 + r div 4)) = q mod 16 * 16 + r div 4" "byte (char_of (r mod 4 * 64 + s)) = r mod 4 * 64 + s"
    by simp_all
qed

lemma sextet_parts:
  assumes "q < 64" "r < 64" "s < (64 :: nat)"
  shows "(p * 4 + q div 16) div 4 = p" "(p * 4 + q div 16) mod 4 = q div 16"
    "(q mod 16 * 16 + r div 4) div 16 = q mod 16" "(q mod 16 * 16 + r div 4) mod 16 = r div 4"
    "(r mod 4 * 64 + s) div 64 = r mod 4" "(r mod 4 * 64 + s) mod 64 = s"
proof -
  have "q div 16 < 4" "r div 4 < 16" using assms by (simp_all add: less_mult_imp_div_less)
  then show "(p * 4 + q div 16) div 4 = p" "(p * 4 + q div 16) mod 4 = q div 16"
    "(q mod 16 * 16 + r div 4) div 16 = q mod 16" "(q mod 16 * 16 + r div 4) mod 16 = r div 4"
    "(r mod 4 * 64 + s) div 64 = r mod 4" "(r mod 4 * 64 + s) mod 64 = s"
    using assms by (simp_all only: pack)
qed

lemma multiple_div: "q mod n = 0 \<Longrightarrow> q div n * n = (q :: nat)"
  by (metis add.right_neutral div_mult_mod_eq)

lemma encode_quanta:
  "list_all (\<lambda>n. n < 64) ns \<Longrightarrow> base64_quanta ns = Some bs \<Longrightarrow> base64_encode bs = map base64_digit ns"
proof (induction ns arbitrary: bs rule: base64_quanta.induct)
  case (3 p q)
  then have "bs = [char_of (p * 4 + q div 16)]" "q mod 16 = 0" "p < 64" "q < 64" by (auto split: if_splits)
  then show ?case
    by (simp only: base64_encode.simps list.map sextet_bytes sextet_parts(1,2) multiple_div)
next
  case (4 p q r)
  then have "bs = [char_of (p * 4 + q div 16), char_of (q mod 16 * 16 + r div 4)]" "r mod 4 = 0" "p < 64" "q < 64" "r < 64"
    by (auto split: if_splits)
  then show ?case
    by (simp only: base64_encode.simps list.map sextet_bytes sextet_parts multiple_div div_mult_mod_eq)
next
  case (5 p q r s rest)
  then obtain bs' where bs': "base64_quanta rest = Some bs'"
    "bs = char_of (p * 4 + q div 16) # char_of (q mod 16 * 16 + r div 4) # char_of (r mod 4 * 64 + s) # bs'" by auto
  have small: "p < 64" "q < 64" "r < 64" "s < 64" "list_all (\<lambda>n. n < 64) rest" using 5 by auto
  from 5 bs'(1) small(5) have "base64_encode bs' = map base64_digit rest" by blast
  then show ?case
    by (simp only: bs'(2) base64_encode.simps list.map sextet_bytes [OF small(1-4)] sextet_parts [OF small(2-4)] div_mult_mod_eq)
qed auto

lemma encode_decode:
  assumes "base64_decode_strict s = Some bs"
  shows "base64_encode bs = filter (\<lambda>c. \<not> line_break c) s"
proof -
  let ?cs = "filter (\<lambda>c. \<not> line_break c) s"
  from assms have all: "list_all (\<lambda>c. base64_value c \<noteq> None) ?cs"
    and q: "base64_quanta (map (the \<circ> base64_value) ?cs) = Some bs"
    by (auto simp: base64_decode_strict_def Let_def split: if_splits)
  have "list_all (\<lambda>n. n < 64) (map (the \<circ> base64_value) ?cs)"
    using all base64_digit_value by (fastforce simp: list_all_iff)
  from encode_quanta [OF this q]
  have "base64_encode bs = map (\<lambda>c. base64_digit (the (base64_value c))) ?cs" by simp
  also have "\<dots> = ?cs" using all base64_digit_value by (fastforce simp: list_all_iff intro!: map_idI)
  finally show ?thesis .
qed

lemma base64_encode_inj: "base64_encode a = base64_encode b \<longleftrightarrow> a = b"
  by (metis decode_encode option.inject)

lemma length_base64_encode: "length bs \<le> length (base64_encode bs)"
  by (induction bs rule: base64_encode.induct) auto

end
