(* ===== verification/Row_History.thy ===== *)
theory Row_History
  imports Store_Model
begin

text \<open>
  The history of a table whose rows are never deleted: a commit may add rows and change a row only
  along an order, such as setting a time of revocation that was not set. The tables of sessions,
  credentials, enrollment tokens and terminals are of this kind.
\<close>

section \<open>Growth\<close>

definition rows_grow :: "('r \<Rightarrow> 'k) \<Rightarrow> ('r \<Rightarrow> 'r \<Rightarrow> bool) \<Rightarrow> 'r list \<Rightarrow> 'r list \<Rightarrow> bool" where
  "rows_grow key le rows rows' \<longleftrightarrow>
     (\<forall>k r. row_by key k rows = Some r \<longrightarrow> (\<exists>r'. row_by key k rows' = Some r' \<and> le r r'))"

text \<open>\<^verbatim>\<open>COALESCE(old, x)\<close>: the first value is kept.\<close>

definition coalesce :: "'a option \<Rightarrow> 'a \<Rightarrow> 'a option" where
  "coalesce old x = (case old of None \<Rightarrow> Some x | Some y \<Rightarrow> Some y)"

lemma coalesce_simps [simp]: "coalesce (Some y) x = Some y" "coalesce None x = Some x" "coalesce o' x \<noteq> None"
  by (simp_all add: coalesce_def split: option.split)

text \<open>A value that is set at most once.\<close>

definition set_once :: "'a option \<Rightarrow> 'a option \<Rightarrow> bool" where
  "set_once old new \<longleftrightarrow> old \<noteq> None \<longrightarrow> new = old"

lemma set_once_simps [simp]: "set_once o' o'" "set_once o' (coalesce o' x)" "set_once None o'" "set_once (Some x) o' \<longleftrightarrow> o' = Some x"
  by (auto simp: set_once_def coalesce_def split: option.split)

lemma set_once_trans: "set_once a b \<Longrightarrow> set_once b c \<Longrightarrow> set_once a c"
  by (auto simp: set_once_def)

lemma row_by_update_rows:
  assumes "\<And>r. key (f r) = key r"
  shows "row_by key k (update_rows P f rows) = map_option (\<lambda>r. if P r then f r else r) (row_by key k rows)"
  unfolding row_by_def update_rows_def by (induction rows) (auto simp: assms)

section \<open>The laws of an order on rows\<close>

locale row_history =
  fixes key :: "'r \<Rightarrow> 'k"
    and le :: "'r \<Rightarrow> 'r \<Rightarrow> bool"
  assumes le_refl: "le r r"
    and le_trans: "le r1 r2 \<Longrightarrow> le r2 r3 \<Longrightarrow> le r1 r3"
begin

lemma grow_refl: "rows_grow key le rows rows"
  using le_refl by (auto simp: rows_grow_def)

lemma grow_trans: "rows_grow key le a b \<Longrightarrow> rows_grow key le b c \<Longrightarrow> rows_grow key le a c"
  unfolding rows_grow_def by (meson le_trans)

lemma grow_append: "rows_grow key le rows (rows @ new)"
  using le_refl by (auto simp: rows_grow_def row_by_append)

lemma grow_update:
  assumes "\<And>r. key (f r) = key r" and "\<And>r. P r \<Longrightarrow> le r (f r)"
  shows "rows_grow key le rows (update_rows P f rows)"
  using assms(2) le_refl by (auto simp: rows_grow_def row_by_update_rows [where key = key and f = f, OF assms(1)])

lemma grow_fold:
  assumes "\<And>x d. rows_grow key le (rows d) (rows (f x d))"
  shows "rows_grow key le (rows d) (rows (fold f xs d))"
proof (induction xs arbitrary: d)
  case (Cons x xs)
  from grow_trans [OF assms Cons.IH] show ?case by simp
qed (simp add: grow_refl)

lemma grow_row:
  assumes "rows_grow key le rows rows'" "row_by key k rows = Some r"
  obtains r' where "row_by key k rows' = Some r'" "le r r'"
  using assms by (auto simp: rows_grow_def)

end

end
