(* ===== verification/Browser_Sessions.thy ===== *)
theory Browser_Sessions
  imports Go_Base64 Row_History Worker_Lease
begin

text \<open>
  Login, authentication and logout of browser sessions (\<^verbatim>\<open>internal/server/auth/service.go\<close>)
  with their statements (\<^verbatim>\<open>internal/postgres/identity.go\<close>).

  The environment of a call: \<open>ae_sha256\<close> is \<^verbatim>\<open>sha256.Sum256\<close>, \<open>ae_verify\<close> the
  \<^verbatim>\<open>PasswordVerifier\<close> (a left value is its error), \<open>ae_dummy\<close> the dummy hash, \<open>ae_raw\<close> the
  random bytes of the new token, \<open>ae_newID\<close> the new identifier and \<open>ae_now\<close> the time.
\<close>

section \<open>Data\<close>

record auth_env =
  ae_sha256 :: "string \<Rightarrow> string"
  ae_verify :: "string \<Rightarrow> string \<Rightarrow> unit + bool"
  ae_dummy :: string
  ae_raw :: string
  ae_newID :: uuid
  ae_now :: go_time

datatype auth_error = ErrInvalidCredentials | ErrUnauthenticated | AuthRepo repo_error | AuthVerify

text \<open>\<^verbatim>\<open>repository.User\<close> as the joins of \<^verbatim>\<open>identity.go\<close> read it.\<close>

record UserView =
  uv_User :: User
  uv_DisabledAt :: "go_time option"
  uv_PasswordChangedAt :: "go_time option"

record LoginInput =
  lg_Username :: string
  lg_Password :: string
  lg_PresentedToken :: string

record AuthPrincipal =
  ap_SessionID :: uuid
  ap_User :: User

definition SessionLifetime :: int where
  "SessionLifetime = 8 * 60 * time_Minute"

definition sessionTokenBytes :: nat where
  "sessionTokenBytes = 32"

section \<open>Statements\<close>

definition account_of_user :: "uuid \<Rightarrow> db \<Rightarrow> account_row option" where
  "account_of_user u d = row_by la_user u (db_accounts d)"

definition user_view :: "user_row \<Rightarrow> db \<Rightarrow> UserView" where
  "user_view u d =
     \<lparr>uv_User = \<lparr>us_ID = ur_id u, us_OrganizationID = ur_organization u, us_OrganizationRole = ur_role u\<rparr>,
      uv_DisabledAt = ur_disabled_at u,
      uv_PasswordChangedAt = (case account_of_user (ur_id u) d of None \<Rightarrow> None | Some a \<Rightarrow> la_password_changed_at a)\<rparr>"

definition LocalAccountByUsername :: "string \<Rightarrow> db \<Rightarrow> repo_error + UserView \<times> string" where
  "LocalAccountByUsername username d =
     (case row_by la_username username (db_accounts d) of None \<Rightarrow> Inl KindNotFound | Some a \<Rightarrow>
     (case row_by ur_id (la_user a) (db_users d) of None \<Rightarrow> Inl KindNotFound
      | Some u \<Rightarrow> Inr (user_view u d, la_password_hash a)))"

definition CreateAuthSession :: "auth_session_row \<Rightarrow> unit tx" where
  "CreateAuthSession s d =
     (if as_token_hash s = [] \<or> as_expires_at s \<le> as_created_at s then (Inl KindConstraintViolation, d)
      else if list_ex (\<lambda>x. as_id x = as_id s \<or> as_token_hash x = as_token_hash s) (db_auth_sessions d) then (Inl KindConflict, d)
      else if row_by ur_id (as_user s) (db_users d) = None then (Inl KindConstraintViolation, d)
      else (Inr (), d\<lparr>db_auth_sessions := db_auth_sessions d @ [s]\<rparr>))"

definition AuthSessionByTokenHash :: "string \<Rightarrow> db \<Rightarrow> repo_error + auth_session_row \<times> UserView" where
  "AuthSessionByTokenHash hash d =
     (case row_by as_token_hash hash (db_auth_sessions d) of None \<Rightarrow> Inl KindNotFound | Some s \<Rightarrow>
     (case row_by ur_id (as_user s) (db_users d) of None \<Rightarrow> Inl KindNotFound | Some u \<Rightarrow> Inr (s, user_view u d)))"

definition RevokeAuthSession :: "uuid \<Rightarrow> go_time \<Rightarrow> unit tx" where
  "RevokeAuthSession i at d =
     (if row_by as_id i (db_auth_sessions d) = None then (Inl KindNotFound, d)
      else (Inr (), d\<lparr>db_auth_sessions := update_rows (\<lambda>s. as_id s = i)
                        (\<lambda>s. s\<lparr>as_revoked_at := coalesce (as_revoked_at s) at\<rparr>) (db_auth_sessions d)\<rparr>))"

section \<open>Tokens\<close>

definition newSessionToken :: "auth_env \<Rightarrow> string \<times> string" where
  "newSessionToken E = (base64_encode (ae_raw E), ae_sha256 E (ae_raw E))"

definition tokenDigest :: "(string \<Rightarrow> string) \<Rightarrow> string \<Rightarrow> string option" where
  "tokenDigest sha token =
     (case base64_decode_strict token of None \<Rightarrow> None
      | Some raw \<Rightarrow> if length raw \<noteq> sessionTokenBytes then None else Some (sha raw))"

section \<open>Use cases\<close>

definition login_tx :: "auth_env \<Rightarrow> string option \<Rightarrow> auth_session_row \<Rightarrow> unit tx" where
  "login_tx E presented session d =
     (case presented of None \<Rightarrow> CreateAuthSession session d
      | Some hash \<Rightarrow>
          (case AuthSessionByTokenHash hash d of
             Inl e \<Rightarrow> if e = KindNotFound then CreateAuthSession session d else (Inl e, d)
           | Inr (old, _) \<Rightarrow>
               (case RevokeAuthSession (as_id old) (ae_now E) d of
                  (Inl e, d1) \<Rightarrow> (Inl e, d1)
                | (Inr _, d1) \<Rightarrow> CreateAuthSession session d1)))"

definition login_account :: "string \<Rightarrow> db \<Rightarrow> repo_error + (UserView \<times> string) option" where
  "login_account username d0 =
     (if CHR 0x00 \<in> set username then Inr None
      else case LocalAccountByUsername username d0 of
          Inr a \<Rightarrow> Inr (Some a)
        | Inl e \<Rightarrow> if e = KindNotFound then Inr None else Inl e)"

definition new_session :: "auth_env \<Rightarrow> uuid \<Rightarrow> auth_session_row" where
  "new_session E u =
     \<lparr>as_id = ae_newID E, as_user = u, as_token_hash = snd (newSessionToken E), as_created_at = ae_now E,
      as_expires_at = ae_now E + SessionLifetime, as_revoked_at = None\<rparr>"

text \<open>The account is read from \<open>d0\<close>, before the transaction on \<open>d\<close>.\<close>

definition Login :: "auth_env \<Rightarrow> LoginInput \<Rightarrow> db \<Rightarrow> db \<Rightarrow> (auth_error + string) \<times> db" where
  "Login E inp d0 d =
     (case login_account (lg_Username inp) d0 of
        Inl e \<Rightarrow> (Inl (AuthRepo e), d)
      | Inr found \<Rightarrow>
          (case ae_verify E (case found of None \<Rightarrow> ae_dummy E | Some a \<Rightarrow> snd a) (lg_Password inp) of
             Inl _ \<Rightarrow> (Inl AuthVerify, d)
           | Inr matched \<Rightarrow>
               (case found of
                  None \<Rightarrow> (Inl ErrInvalidCredentials, d)
                | Some (u, hash) \<Rightarrow>
                    if \<not> matched \<or> uv_DisabledAt u \<noteq> None then (Inl ErrInvalidCredentials, d)
                    else (case inTransaction (login_tx E (tokenDigest (ae_sha256 E) (lg_PresentedToken inp))
                                 (new_session E (us_ID (uv_User u)))) d of
                            (Inl e, d') \<Rightarrow> (Inl (AuthRepo e), d')
                          | (Inr _, d') \<Rightarrow> (Inr (fst (newSessionToken E)), d')))))"

definition sessionUsable :: "auth_session_row \<Rightarrow> UserView \<Rightarrow> go_time \<Rightarrow> bool" where
  "sessionUsable s u now \<longleftrightarrow>
     as_revoked_at s = None \<and> now < as_expires_at s \<and> uv_DisabledAt u = None
   \<and> (case uv_PasswordChangedAt u of None \<Rightarrow> True | Some t \<Rightarrow> \<not> as_created_at s < t)"

definition Authenticate_browser :: "(string \<Rightarrow> string) \<Rightarrow> go_time \<Rightarrow> string \<Rightarrow> db \<Rightarrow> auth_error + AuthPrincipal" where
  "Authenticate_browser sha now token d =
     (case tokenDigest sha token of None \<Rightarrow> Inl ErrUnauthenticated
      | Some digest \<Rightarrow>
          (case AuthSessionByTokenHash digest d of
             Inl e \<Rightarrow> if e = KindNotFound then Inl ErrUnauthenticated else Inl (AuthRepo e)
           | Inr (s, u) \<Rightarrow>
               if \<not> sessionUsable s u now then Inl ErrUnauthenticated
               else Inr \<lparr>ap_SessionID = as_id s, ap_User = uv_User u\<rparr>))"

definition Logout :: "go_time \<Rightarrow> uuid \<Rightarrow> db \<Rightarrow> (auth_error + unit) \<times> db" where
  "Logout now i d =
     (case RevokeAuthSession i now d of
        (Inl e, d') \<Rightarrow> (if e = KindNotFound then Inl ErrUnauthenticated else Inl (AuthRepo e), d')
      | (Inr _, d') \<Rightarrow> (Inr (), d'))"

section \<open>Lemmas\<close>

definition auth_inv :: "db \<Rightarrow> bool" where
  "auth_inv d \<longleftrightarrow> distinct (map as_id (db_auth_sessions d)) \<and> distinct (map as_token_hash (db_auth_sessions d))"

lemma tokenDigest_issued:
  "length raw = sessionTokenBytes \<Longrightarrow> tokenDigest sha (base64_encode raw) = Some (sha raw)"
  by (simp add: tokenDigest_def decode_encode)

text \<open>The decoder skips line breaks, so that a token also authenticates with line breaks in it.\<close>

lemma tokenDigest_line_breaks:
  "tokenDigest sha (filter (\<lambda>c. \<not> line_break c) token) = tokenDigest sha token"
  by (simp add: tokenDigest_def base64_decode_strict_def)

lemma tokenDigest_trailing_break: "tokenDigest sha (token @ [CHR 0x0A]) = tokenDigest sha token"
  by (simp add: tokenDigest_def base64_decode_strict_def line_break_def)

lemma CreateAuthSession_cases:
  "CreateAuthSession s d = (r, d') \<Longrightarrow>
   (\<exists>e. r = Inl e \<and> d' = d) \<or>
   r = Inr () \<and> d' = d\<lparr>db_auth_sessions := db_auth_sessions d @ [s]\<rparr>
     \<and> (\<forall>x \<in> set (db_auth_sessions d). as_id x \<noteq> as_id s \<and> as_token_hash x \<noteq> as_token_hash s)
     \<and> row_by ur_id (as_user s) (db_users d) \<noteq> None"
  by (auto simp: CreateAuthSession_def list_ex_iff split: if_splits)

lemma RevokeAuthSession_cases:
  "RevokeAuthSession i at d = (r, d') \<Longrightarrow>
   r = Inl KindNotFound \<and> d' = d \<or>
   r = Inr () \<and> d' = d\<lparr>db_auth_sessions := update_rows (\<lambda>s. as_id s = i)
       (\<lambda>s. s\<lparr>as_revoked_at := coalesce (as_revoked_at s) at\<rparr>) (db_auth_sessions d)\<rparr>"
  by (auto simp: RevokeAuthSession_def split: if_splits)

text \<open>
  What a step may do to the sessions: keep each of them but for a first time of revocation, and add
  new ones.
\<close>

definition session_le :: "auth_session_row \<Rightarrow> auth_session_row \<Rightarrow> bool" where
  "session_le s s' \<longleftrightarrow> s' = s\<lparr>as_revoked_at := as_revoked_at s'\<rparr> \<and> set_once (as_revoked_at s) (as_revoked_at s')"

abbreviation sessions_grow :: "db \<Rightarrow> db \<Rightarrow> bool" where
  "sessions_grow d d' \<equiv> rows_grow as_id session_le (db_auth_sessions d) (db_auth_sessions d')"

lemma session_le_fields:
  "session_le s s' \<Longrightarrow> as_id s' = as_id s \<and> as_user s' = as_user s \<and> as_token_hash s' = as_token_hash s
     \<and> as_created_at s' = as_created_at s \<and> as_expires_at s' = as_expires_at s
     \<and> set_once (as_revoked_at s) (as_revoked_at s')"
  by (cases s; cases s') (simp add: session_le_def)

interpretation auth_history: row_history as_id session_le
proof
  fix r1 r2 r3 assume "session_le r1 r2" "session_le r2 r3"
  then show "session_le r1 r3"
    by (cases r1; cases r2; cases r3) (auto simp: session_le_def intro: set_once_trans)
qed (simp add: session_le_def)

lemma CreateAuthSession_grows: "CreateAuthSession s d = (r, d') \<Longrightarrow> sessions_grow d d'"
  by (drule CreateAuthSession_cases) (auto simp: auth_history.grow_refl auth_history.grow_append)

lemma RevokeAuthSession_grows: "RevokeAuthSession i at d = (r, d') \<Longrightarrow> sessions_grow d d'"
  by (drule RevokeAuthSession_cases)
    (auto simp: auth_history.grow_refl session_le_def intro!: auth_history.grow_update)

lemma login_tx_grows: "login_tx E p s d = (r, d') \<Longrightarrow> sessions_grow d d'"
  unfolding login_tx_def
  by (auto split: option.splits sum.splits prod.splits if_splits simp: auth_history.grow_refl
      dest: CreateAuthSession_grows RevokeAuthSession_grows intro: auth_history.grow_trans)

lemma Login_grows: "Login E inp d0 d = (r, d') \<Longrightarrow> sessions_grow d d'"
  unfolding Login_def
  by (auto split: sum.splits option.splits prod.splits if_splits simp: inTransaction_ok auth_history.grow_refl
      dest: inTransaction_error login_tx_grows)

lemma Logout_grows: "Logout now i d = (r, d') \<Longrightarrow> sessions_grow d d'"
  unfolding Logout_def
  by (auto split: prod.splits sum.splits dest: RevokeAuthSession_grows)

lemma auth_inv_create: "auth_inv d \<Longrightarrow> CreateAuthSession s d = (r, d') \<Longrightarrow> auth_inv d'"
  by (drule CreateAuthSession_cases) (fastforce simp: auth_inv_def image_iff)

lemma auth_inv_revoke: "auth_inv d \<Longrightarrow> RevokeAuthSession i at d = (r, d') \<Longrightarrow> auth_inv d'"
  by (drule RevokeAuthSession_cases) (auto simp: auth_inv_def)

lemma auth_inv_login_tx: "auth_inv d \<Longrightarrow> login_tx E p s d = (r, d') \<Longrightarrow> auth_inv d'"
  unfolding login_tx_def
  by (auto split: option.splits sum.splits prod.splits if_splits dest: auth_inv_create auth_inv_revoke)

lemma auth_inv_Login: "auth_inv d \<Longrightarrow> Login E inp d0 d = (r, d') \<Longrightarrow> auth_inv d'"
  unfolding Login_def
  by (auto split: sum.splits option.splits prod.splits if_splits simp: inTransaction_ok
      dest: inTransaction_error auth_inv_login_tx)

lemma auth_inv_Logout: "auth_inv d \<Longrightarrow> Logout now i d = (r, d') \<Longrightarrow> auth_inv d'"
  unfolding Logout_def by (auto split: prod.splits sum.splits dest: auth_inv_revoke)

section \<open>Runs\<close>

text \<open>Commits: logins, logouts, and anything that leaves the table of the sessions alone.\<close>

datatype auth_op =
    LoginOp auth_env LoginInput db
  | LogoutOp go_time uuid
  | ElsewhereOp "db \<Rightarrow> db"

fun auth_step :: "auth_op \<Rightarrow> db \<Rightarrow> db" where
  "auth_step (LoginOp E inp d0) d = snd (Login E inp d0 d)"
| "auth_step (LogoutOp now i) d = snd (Logout now i d)"
| "auth_step (ElsewhereOp f) d = (f d)\<lparr>db_auth_sessions := db_auth_sessions d\<rparr>"

definition auth_run :: "auth_op list \<Rightarrow> db \<Rightarrow> db" where
  "auth_run ops d = fold auth_step ops d"

lemma auth_step_grows: "sessions_grow d (auth_step a d)"
  by (cases a) (auto intro: Login_grows Logout_grows surjective_pairing simp: auth_history.grow_refl)

lemma auth_run_grows: "sessions_grow d (auth_run ops d)"
  unfolding auth_run_def by (rule auth_history.grow_fold) (rule auth_step_grows)

lemma auth_step_inv: "auth_inv d \<Longrightarrow> auth_inv (auth_step a d)"
proof (cases a)
  case (ElsewhereOp f)
  then show "auth_inv d \<Longrightarrow> ?thesis" by (simp add: auth_inv_def)
qed (auto intro: auth_inv_Login auth_inv_Logout surjective_pairing)

lemma auth_run_inv: "auth_inv d \<Longrightarrow> auth_inv (auth_run ops d)"
  unfolding auth_run_def by (induction ops arbitrary: d) (simp_all add: auth_step_inv)

lemma Authenticate_browser_Inr:
  assumes "Authenticate_browser sha now token d = Inr p"
  obtains raw s u where "base64_decode_strict token = Some raw" "length raw = 32"
    "row_by as_token_hash (sha raw) (db_auth_sessions d) = Some s" "row_by ur_id (as_user s) (db_users d) = Some u"
    "sessionUsable s (user_view u d) now" "p = \<lparr>ap_SessionID = as_id s, ap_User = uv_User (user_view u d)\<rparr>"
  using assms unfolding Authenticate_browser_def tokenDigest_def AuthSessionByTokenHash_def sessionTokenBytes_def
  by (auto split: option.splits sum.splits prod.splits if_splits)

lemma Login_Inr:
  assumes "Login E inp d0 d = (Inr tok, d')"
  obtains u hash where "tok = base64_encode (ae_raw E)" "LocalAccountByUsername (lg_Username inp) d0 = Inr (u, hash)"
    "ae_verify E hash (lg_Password inp) = Inr True" "uv_DisabledAt u = None"
    "row_by as_id (ae_newID E) (db_auth_sessions d') = Some (new_session E (us_ID (uv_User u)))"
proof -
  from assms obtain u hash where u: "tok = base64_encode (ae_raw E)" "LocalAccountByUsername (lg_Username inp) d0 = Inr (u, hash)"
      "ae_verify E hash (lg_Password inp) = Inr True" "uv_DisabledAt u = None"
    and tx: "login_tx E (tokenDigest (ae_sha256 E) (lg_PresentedToken inp)) (new_session E (us_ID (uv_User u))) d = (Inr (), d')"
    unfolding Login_def login_account_def
    by (auto split: sum.splits option.splits prod.splits if_splits simp: inTransaction_ok newSessionToken_def)
  let ?s = "new_session E (us_ID (uv_User u))"
  from tx obtain d1 where "CreateAuthSession ?s d1 = (Inr (), d')"
    unfolding login_tx_def by (auto split: option.splits sum.splits prod.splits if_splits)
  from CreateAuthSession_cases [OF this] have "row_by as_id (ae_newID E) (db_auth_sessions d') = Some ?s"
    by (auto simp: row_by_append new_session_def split: option.split dest: row_by_key) (simp add: row_by_def)
  with u that show ?thesis by blast
qed

lemma session_by_hash:
  assumes "auth_inv d" "row_by as_id i (db_auth_sessions d) = Some s"
  shows "row_by as_token_hash (as_token_hash s) (db_auth_sessions d) = Some s"
  using assms row_by_distinct row_by_key unfolding auth_inv_def by metis

text \<open>What the token of a session does in any database in which the session is stored.\<close>

lemma Authenticate_session:
  assumes "auth_inv d" "row_by as_id i (db_auth_sessions d) = Some s" "as_token_hash s = sha raw" "length raw = 32"
  shows "Authenticate_browser sha now (base64_encode raw) d = Inr p \<longleftrightarrow>
    (\<exists>u. row_by ur_id (as_user s) (db_users d) = Some u \<and> sessionUsable s (user_view u d) now
       \<and> p = \<lparr>ap_SessionID = i, ap_User = uv_User (user_view u d)\<rparr>)"
proof -
  have "row_by as_token_hash (sha raw) (db_auth_sessions d) = Some s" "as_id s = i"
    using session_by_hash [OF assms(1,2)] assms(2,3) row_by_key by metis+
  then show ?thesis
    using tokenDigest_issued [of raw sha] assms(4)
    by (auto simp: Authenticate_browser_def AuthSessionByTokenHash_def sessionTokenBytes_def split: option.split)
qed

lemma Authenticate_Inl: "(\<nexists>p. Authenticate_browser sha now token d = Inr p) \<Longrightarrow> Authenticate_browser sha now token d = Inl ErrUnauthenticated"
  by (auto simp: Authenticate_browser_def AuthSessionByTokenHash_def split: option.splits sum.splits prod.splits if_splits)

section \<open>The life of a session\<close>

text \<open>A session that is revoked or has expired stays unusable, whatever is committed after.\<close>

lemma dead_session_refused:
  assumes "auth_inv d" "row_by as_id i (db_auth_sessions d) = Some s" "as_token_hash s = sha raw" "length raw = 32"
    and "as_revoked_at s \<noteq> None \<or> as_expires_at s \<le> now"
  shows "Authenticate_browser sha now (base64_encode raw) (auth_run rest d) = Inl ErrUnauthenticated"
proof -
  obtain s' where s': "row_by as_id i (db_auth_sessions (auth_run rest d)) = Some s'" and le: "session_le s s'"
    using auth_history.grow_row [OF auth_run_grows [of d rest] assms(2)] by blast
  have same: "as_expires_at s' = as_expires_at s" "as_token_hash s' = as_token_hash s" "as_revoked_at s \<noteq> None \<longrightarrow> as_revoked_at s' \<noteq> None"
    using session_le_fields [OF le] by (auto simp: set_once_def)
  from assms(5) same have "\<not> sessionUsable s' v now" for v by (auto simp: sessionUsable_def)
  with Authenticate_session [OF auth_run_inv [OF assms(1)] s', of sha raw] same assms(3,4)
  show ?thesis by (intro Authenticate_Inl) auto
qed

text \<open>Logging out revokes the session: the time of the revocation is set, and the first one stays.\<close>

lemma Logout_revokes:
  assumes "row_by as_id i (db_auth_sessions d) = Some s"
  shows "fst (Logout at i d) = Inr ()"
    "row_by as_id i (db_auth_sessions (snd (Logout at i d))) = Some (s\<lparr>as_revoked_at := coalesce (as_revoked_at s) at\<rparr>)"
  using assms row_by_key [OF assms] by (simp_all add: Logout_def RevokeAuthSession_def row_by_update)

text \<open>
  C22: The life of a browser session. Take the token that a login returned and let any logins, logouts and
  changes of users, accounts and other tables commit after it. The session is still stored with the
  expiry of eight hours after the login, and the token authenticates exactly when the session is not
  revoked, has not expired, its user is enabled and the password was not changed after the login; it then
  names this session and its user. At any such moment a logout of the session succeeds, and after it the token is
  refused at every time and after any further commits. Likewise once the session is revoked or has expired, the token is refused
  after any further commits.
\<close>

theorem session_lifetime:
  assumes "auth_inv d" and "Login E inp d0 d = (Inr tok, d1)" and "length (ae_raw E) = 32"
  shows "\<exists>s. row_by as_id (ae_newID E) (db_auth_sessions (auth_run ops d1)) = Some s
    \<and> as_created_at s = ae_now E \<and> as_expires_at s = ae_now E + 28800000000
    \<and> (\<forall>now p. Authenticate_browser (ae_sha256 E) now tok (auth_run ops d1) = Inr p \<longleftrightarrow>
         (\<exists>u. row_by ur_id (as_user s) (db_users (auth_run ops d1)) = Some u
            \<and> as_revoked_at s = None \<and> now < as_expires_at s \<and> ur_disabled_at u = None
            \<and> (case uv_PasswordChangedAt (user_view u (auth_run ops d1)) of None \<Rightarrow> True | Some t \<Rightarrow> t \<le> as_created_at s)
            \<and> p = \<lparr>ap_SessionID = ae_newID E, ap_User = uv_User (user_view u (auth_run ops d1))\<rparr>))
    \<and> (\<forall>now more. as_revoked_at s \<noteq> None \<or> as_expires_at s \<le> now \<longrightarrow>
         Authenticate_browser (ae_sha256 E) now tok (auth_run more (auth_run ops d1)) = Inl ErrUnauthenticated)
    \<and> (\<forall>at. fst (Logout at (ae_newID E) (auth_run ops d1)) = Inr ()
         \<and> (\<forall>now more. Authenticate_browser (ae_sha256 E) now tok (auth_run more (snd (Logout at (ae_newID E) (auth_run ops d1))))
              = Inl ErrUnauthenticated))"
proof -
  from Login_Inr [OF assms(2)] obtain u where tok: "tok = base64_encode (ae_raw E)"
    and row: "row_by as_id (ae_newID E) (db_auth_sessions d1) = Some (new_session E u)" by metis
  have inv: "auth_inv d1" using auth_inv_Login [OF assms(1,2)] .
  have grown: "\<exists>s'. row_by as_id (ae_newID E) (db_auth_sessions (auth_run l dx)) = Some s' \<and> session_le s s'"
    if "row_by as_id (ae_newID E) (db_auth_sessions dx) = Some s" for l s dx
    by (rule auth_history.grow_row [OF auth_run_grows that]) blast
  from grown [OF row, of ops] obtain s where s: "row_by as_id (ae_newID E) (db_auth_sessions (auth_run ops d1)) = Some s"
    and le: "session_le (new_session E u) s" by blast
  have kept: "as_created_at s = ae_now E" "as_expires_at s = ae_now E + 28800000000" "as_token_hash s = ae_sha256 E (ae_raw E)"
    using session_le_fields [OF le]
    by (auto simp: new_session_def newSessionToken_def SessionLifetime_def time_Minute_def time_Second_def)
  have inv2: "auth_inv (auth_run ops d1)" by (rule auth_run_inv [OF inv])
  have refused: "Authenticate_browser (ae_sha256 E) now tok (auth_run more (auth_run ops d1)) = Inl ErrUnauthenticated"
    if "as_revoked_at s \<noteq> None \<or> as_expires_at s \<le> now" for now more
    using dead_session_refused [where sha = "ae_sha256 E" and raw = "ae_raw E", OF inv2 s kept(3) assms(3) that] tok by simp
  have logged_out: "Authenticate_browser (ae_sha256 E) now tok (auth_run more (snd (Logout at (ae_newID E) (auth_run ops d1))))
      = Inl ErrUnauthenticated" for at now more
  proof -
    have "auth_inv (snd (Logout at (ae_newID E) (auth_run ops d1)))" using auth_inv_Logout [OF inv2] by (metis surjective_pairing)
    from dead_session_refused [where sha = "ae_sha256 E" and raw = "ae_raw E" and now = now and rest = more, OF this Logout_revokes(2) [OF s, of at]] kept(3) assms(3) tok
    show ?thesis by (simp add: coalesce_def split: option.split)
  qed
  have "Authenticate_browser (ae_sha256 E) now tok (auth_run ops d1) = Inr p \<longleftrightarrow>
         (\<exists>u. row_by ur_id (as_user s) (db_users (auth_run ops d1)) = Some u
            \<and> as_revoked_at s = None \<and> now < as_expires_at s \<and> ur_disabled_at u = None
            \<and> (case uv_PasswordChangedAt (user_view u (auth_run ops d1)) of None \<Rightarrow> True | Some t \<Rightarrow> t \<le> as_created_at s)
            \<and> p = \<lparr>ap_SessionID = ae_newID E, ap_User = uv_User (user_view u (auth_run ops d1))\<rparr>)" for now p
    using Authenticate_session [OF inv2 s, of "ae_sha256 E" "ae_raw E" now p] kept(3) assms(3) tok
    by (simp add: sessionUsable_def not_less user_view_def cong: option.case_cong)
  with s kept refused logged_out Logout_revokes(1) [OF s] show ?thesis by blast
qed

definition demo_auth_env :: auth_env where
  "demo_auth_env =
     \<lparr>ae_sha256 = (\<lambda>x. x), ae_verify = (\<lambda>h p. Inr (h = p)), ae_dummy = ''x'', ae_raw = replicate 32 (CHR ''A''),
      ae_newID = 40, ae_now = 100\<rparr>"

definition demo_auth_db :: db where
  "demo_auth_db = (demo_db ''PROVISION'' [] [] ''READY'')
     \<lparr>db_users := [\<lparr>ur_id = 11, ur_organization = 1, ur_role = ''MEMBER'', ur_disabled_at = None\<rparr>],
      db_accounts := [\<lparr>la_user = 11, la_username = ''kim'', la_password_hash = ''pw'', la_password_changed_at = Some 50\<rparr>]\<rparr>"

definition demo_login :: LoginInput where
  "demo_login = \<lparr>lg_Username = ''kim'', lg_Password = ''pw'', lg_PresentedToken = []\<rparr>"

lemma demo_login_ok:
  "Login demo_auth_env demo_login demo_auth_db demo_auth_db
     = (Inr (base64_encode (replicate 32 (CHR ''A''))),
        demo_auth_db\<lparr>db_auth_sessions := [new_session demo_auth_env 11]\<rparr>)"
  by (simp add: Login_def login_account_def LocalAccountByUsername_def demo_login_def demo_auth_db_def demo_db_def row_by_def
      demo_auth_env_def user_view_def inTransaction_def login_tx_def tokenDigest_def base64_decode_strict_def
      CreateAuthSession_def new_session_def newSessionToken_def SessionLifetime_def time_Minute_def time_Second_def
      sessionTokenBytes_def)

theorem session_lifetime_witness:
  "\<exists>tok d1. Login demo_auth_env demo_login demo_auth_db demo_auth_db = (Inr tok, d1)
     \<and> Logout 150 40 d1 = (Inr (), snd (Logout 150 40 d1))
     \<and> Authenticate_browser (\<lambda>x. x) 160 tok (auth_run [LogoutOp 170 40] (snd (Logout 150 40 d1))) = Inl ErrUnauthenticated"
proof -
  have inv: "auth_inv demo_auth_db" by (simp add: auth_inv_def demo_auth_db_def demo_db_def)
  have env: "length (ae_raw demo_auth_env) = 32" "ae_sha256 demo_auth_env = (\<lambda>x. x)" "ae_newID demo_auth_env = 40"
    by (simp_all add: demo_auth_env_def)
  let ?d1 = "demo_auth_db\<lparr>db_auth_sessions := [new_session demo_auth_env 11]\<rparr>"
  have out: "\<forall>at. fst (Logout at 40 ?d1) = Inr ()
      \<and> (\<forall>now more. Authenticate_browser (\<lambda>x. x) now (base64_encode (replicate 32 (CHR ''A''))) (auth_run more (snd (Logout at 40 ?d1)))
           = Inl ErrUnauthenticated)"
    using session_lifetime [OF inv demo_login_ok env(1), of "[]"] by (simp add: env auth_run_def) blast
  then have "fst (Logout 150 40 ?d1) = Inr ()"
    "Authenticate_browser (\<lambda>x. x) 160 (base64_encode (replicate 32 (CHR ''A''))) (auth_run [LogoutOp 170 40] (snd (Logout 150 40 ?d1)))
       = Inl ErrUnauthenticated" by blast+
  then show ?thesis
    by (intro exI [of _ "base64_encode (replicate 32 (CHR ''A''))"] exI [of _ ?d1]) (simp add: demo_login_ok prod_eq_iff)
qed

end
