(* ===== verification/Connector_Enrollment.thy ===== *)
theory Connector_Enrollment
  imports Go_Base64 Row_History Worker_Lease Connector_Registry
begin

text \<open>
  Enrollment, authentication and revocation of connectors: \<^verbatim>\<open>internal/server/connector/auth.go\<close>
  and \<^verbatim>\<open>enrollment.go\<close> with their statements (\<^verbatim>\<open>internal/postgres/connector.go\<close>,
  \<^verbatim>\<open>enrollment.go\<close>).

  The environment of a call: \<open>ce_sha256\<close> is \<^verbatim>\<open>sha256.Sum256\<close>, \<open>ce_parse\<close> is
  \<^verbatim>\<open>uuid.Parse\<close>, \<open>ce_raw\<close> the random bytes of the new secret, \<open>ce_newID n\<close> the \<open>n\<close>-th new
  identifier and \<open>ce_now\<close> what \<^verbatim>\<open>now\<close> returns, after the row lock where the code asks then.
\<close>

section \<open>Data\<close>

record enroll_env =
  ce_sha256 :: "string \<Rightarrow> string"
  ce_parse :: "string \<Rightarrow> uuid option"
  ce_raw :: string
  ce_newID :: "nat \<Rightarrow> uuid"
  ce_now :: go_time

datatype enroll_error =
    EnrollForbidden | ErrInvalidEnrollmentToken | ErrEnrollmentTokenConsumed | ErrInvalidName
  | ConnectorUnauthenticated | EnrollRepo repo_error

type_synonym 'a enroll_tx = "db \<Rightarrow> (enroll_error + 'a) \<times> db"

definition EnrollmentTokenLifetime :: int where
  "EnrollmentTokenLifetime = 15 * time_Minute"

definition OfflineAfter :: int where
  "OfflineAfter = 45 * time_Second"

record IssuedEnrollmentToken =
  ie_ID :: uuid
  ie_Token :: string
  ie_ExpiresAt :: go_time

record EnrollmentCreated =
  en_ConnectorID :: uuid
  en_Credential :: string

record ConnectorView =
  cv_connector :: connector_row
  cv_RegistrationStatus :: string
  cv_ConnectionStatus :: string

section \<open>Statements\<close>

definition CreateConnectorEnrollmentToken :: "enrollment_row \<Rightarrow> unit tx" where
  "CreateConnectorEnrollmentToken t d =
     (if length (et_token_hash t) \<noteq> 32 \<or> list_all (\<lambda>c. c = CHR '' '') (et_name t)
         \<or> 200 < utf8_RuneCountInString (et_name t) \<or> et_expires_at t \<le> et_created_at t then (Inl KindConstraintViolation, d)
      else if list_ex (\<lambda>x. et_id x = et_id t \<or> et_token_hash x = et_token_hash t) (db_enrollments d) then (Inl KindConflict, d)
      else if \<not> list_ex (\<lambda>u. ur_id u = et_issued_by t \<and> ur_organization u = et_organization t) (db_users d)
        then (Inl KindConstraintViolation, d)
      else (Inr (), d\<lparr>db_enrollments := db_enrollments d @ [t]\<rparr>))"

definition EnrollmentTokenByHashForUpdate :: "string \<Rightarrow> db \<Rightarrow> repo_error + enrollment_row" where
  "EnrollmentTokenByHashForUpdate hash d =
     (case row_by et_token_hash hash (db_enrollments d) of None \<Rightarrow> Inl KindNotFound | Some t \<Rightarrow> Inr t)"

definition EnrollmentTokenForUpdate :: "uuid \<Rightarrow> uuid \<Rightarrow> db \<Rightarrow> repo_error + enrollment_row" where
  "EnrollmentTokenForUpdate org i d =
     (case find (\<lambda>t. et_organization t = org \<and> et_id t = i) (db_enrollments d) of None \<Rightarrow> Inl KindNotFound | Some t \<Rightarrow> Inr t)"

definition RevokeConnectorEnrollmentToken :: "uuid \<Rightarrow> go_time \<Rightarrow> unit tx" where
  "RevokeConnectorEnrollmentToken i at d =
     (if list_ex (\<lambda>t. et_id t = i \<and> et_consumed_at t = None \<and> et_revoked_at t = None \<and> at < et_created_at t) (db_enrollments d)
        then (Inl KindConstraintViolation, d)
      else (Inr (), d\<lparr>db_enrollments := update_rows (\<lambda>t. et_id t = i \<and> et_consumed_at t = None)
              (\<lambda>t. t\<lparr>et_revoked_at := coalesce (et_revoked_at t) at\<rparr>) (db_enrollments d)\<rparr>))"

definition CreateEnrolledConnector :: "uuid \<Rightarrow> uuid \<Rightarrow> string \<Rightarrow> go_time \<Rightarrow> uuid \<Rightarrow> string \<Rightarrow> unit tx" where
  "CreateEnrolledConnector i org name at credentialID hash d =
     (if list_all (\<lambda>c. c = CHR '' '') name then (Inl KindConstraintViolation, d)
      else if list_ex (\<lambda>c. co_id c = i) (db_connectors d) then (Inl KindConflict, d)
      else let d1 = d\<lparr>db_connectors := db_connectors d @
                  [\<lparr>co_id = i, co_organization = org, co_name = name, co_created_at = at, co_revoked_at = None,
                    co_last_seen_at = None, co_last_version = None, co_last_runtime = None\<rparr>]\<rparr> in
        if hash = [] then (Inl KindConstraintViolation, d1)
        else if list_ex (\<lambda>c. cc_id c = credentialID \<or> cc_hash c = hash) (db_credentials d1) then (Inl KindConflict, d1)
        else (Inr (), d1\<lparr>db_credentials := db_credentials d1 @
               [\<lparr>cc_id = credentialID, cc_connector = i, cc_hash = hash, cc_created_at = at, cc_revoked_at = None\<rparr>]\<rparr>))"

definition consumable :: "uuid \<Rightarrow> go_time \<Rightarrow> enrollment_row \<Rightarrow> bool" where
  "consumable i at t \<longleftrightarrow> et_id t = i \<and> et_consumed_at t = None \<and> et_revoked_at t = None \<and> at < et_expires_at t"

definition ConsumeConnectorEnrollmentToken :: "uuid \<Rightarrow> uuid \<Rightarrow> go_time \<Rightarrow> unit tx" where
  "ConsumeConnectorEnrollmentToken i connectorID at d =
     (if \<not> list_ex (consumable i at) (db_enrollments d) then (Inl KindConflict, d)
      else if list_ex (\<lambda>t. consumable i at t \<and> at < et_created_at t) (db_enrollments d) then (Inl KindConstraintViolation, d)
      else (Inr (), d\<lparr>db_enrollments := update_rows (consumable i at)
                       (\<lambda>t. t\<lparr>et_consumed_at := Some at, et_connector := Some connectorID\<rparr>) (db_enrollments d)\<rparr>))"

definition ConnectorsByOrganization :: "uuid \<Rightarrow> db \<Rightarrow> connector_row list" where
  "ConnectorsByOrganization org d =
     sort_key (\<lambda>c. (- co_created_at c, co_id c)) (filter (\<lambda>c. co_organization c = org) (db_connectors d))"

definition RevokeManagedConnector :: "uuid \<Rightarrow> uuid \<Rightarrow> go_time \<Rightarrow> unit tx" where
  "RevokeManagedConnector org i at d =
     (if \<not> list_ex (\<lambda>c. co_organization c = org \<and> co_id c = i) (db_connectors d) then (Inl KindNotFound, d)
      else (Inr (), d\<lparr>db_connectors := update_rows (\<lambda>c. co_organization c = org \<and> co_id c = i)
                        (\<lambda>c. c\<lparr>co_revoked_at := coalesce (co_revoked_at c) at\<rparr>) (db_connectors d),
                      db_credentials := update_rows (\<lambda>c. cc_connector c = i)
                        (\<lambda>c. c\<lparr>cc_revoked_at := coalesce (cc_revoked_at c) at\<rparr>) (db_credentials d)\<rparr>))"

definition ConnectorCredentialByHash :: "string \<Rightarrow> db \<Rightarrow> repo_error + credential_row \<times> connector_row" where
  "ConnectorCredentialByHash hash d =
     (case row_by cc_hash hash (db_credentials d) of None \<Rightarrow> Inl KindNotFound | Some k \<Rightarrow>
     (case row_by co_id (cc_connector k) (db_connectors d) of None \<Rightarrow> Inl KindNotFound | Some c \<Rightarrow> Inr (k, c)))"

definition lockActiveConnectorCredential :: "uuid \<Rightarrow> uuid \<Rightarrow> db \<Rightarrow> bool" where
  "lockActiveConnectorCredential connectorID credentialID d \<longleftrightarrow>
     list_ex (\<lambda>c. co_id c = connectorID \<and> co_revoked_at c = None) (db_connectors d)
   \<and> list_ex (\<lambda>k. cc_id k = credentialID \<and> cc_connector k = connectorID \<and> cc_revoked_at k = None) (db_credentials d)"

definition RecordConnectorHeartbeat :: "uuid \<Rightarrow> uuid \<Rightarrow> go_time \<Rightarrow> db \<Rightarrow> bool \<times> db" where
  "RecordConnectorHeartbeat connectorID credentialID seenAt d =
     (if \<not> lockActiveConnectorCredential connectorID credentialID d then (False, d)
      else (True, d\<lparr>db_connectors := update_rows (\<lambda>c. co_id c = connectorID)
              (\<lambda>c. c\<lparr>co_last_seen_at := Some seenAt\<rparr>) (db_connectors d)\<rparr>))"

definition RecordConnectorHello :: "uuid \<Rightarrow> uuid \<Rightarrow> string \<Rightarrow> string \<Rightarrow> db \<Rightarrow> bool \<times> db" where
  "RecordConnectorHello connectorID credentialID version runtimeID d =
     (if \<not> lockActiveConnectorCredential connectorID credentialID d then (False, d)
      else (True, d\<lparr>db_connectors := update_rows (\<lambda>c. co_id c = connectorID)
              (\<lambda>c. c\<lparr>co_last_version := Some version, co_last_runtime := Some runtimeID\<rparr>) (db_connectors d)\<rparr>))"

section \<open>Secrets\<close>

definition newEnrollmentSecret :: "enroll_env \<Rightarrow> string" where
  "newEnrollmentSecret E = base64_encode (ce_raw E)"

definition enrollmentDigest :: "(string \<Rightarrow> string) \<Rightarrow> string \<Rightarrow> string option" where
  "enrollmentDigest sha token =
     (case base64_decode_strict token of None \<Rightarrow> None
      | Some raw \<Rightarrow> if length raw \<noteq> 32 \<or> base64_encode raw \<noteq> token then None else Some (sha token))"

definition CredentialDigest :: "(string \<Rightarrow> string) \<Rightarrow> string \<Rightarrow> string" where
  "CredentialDigest sha credential = sha credential"

section \<open>Use cases\<close>

definition admin :: "User \<Rightarrow> bool" where
  "admin user \<longleftrightarrow> us_OrganizationRole user = ''ADMIN'' \<and> us_ID user \<noteq> uuid_Nil \<and> us_OrganizationID user \<noteq> uuid_Nil"

definition connector_name_valid :: "string \<Rightarrow> bool" where
  "connector_name_valid name \<longleftrightarrow>
     utf8_ValidString name \<and> CHR 0x00 \<notin> set name \<and> strings_TrimSpace name \<noteq> [] \<and> utf8_RuneCountInString name \<le> 200"

text \<open>The token row of a call of \<open>Issue\<close>; the digest of a fresh secret always exists.\<close>

definition new_enrollment :: "enroll_env \<Rightarrow> User \<Rightarrow> string \<Rightarrow> enrollment_row" where
  "new_enrollment E user name =
     \<lparr>et_id = ce_newID E 0, et_token_hash = ce_sha256 E (newEnrollmentSecret E), et_organization = us_OrganizationID user,
      et_name = name, et_issued_by = us_ID user, et_created_at = ce_now E, et_expires_at = ce_now E + EnrollmentTokenLifetime,
      et_consumed_at = None, et_revoked_at = None, et_connector = None\<rparr>"

definition Issue :: "enroll_env \<Rightarrow> User \<Rightarrow> string \<Rightarrow> IssuedEnrollmentToken enroll_tx" where
  "Issue E user name d =
     (if \<not> admin user then (Inl EnrollForbidden, d)
      else if \<not> connector_name_valid name then (Inl ErrInvalidName, d)
      else let t = new_enrollment E user name in
        (case CreateConnectorEnrollmentToken t d of
           (Inl e, d') \<Rightarrow> (Inl (EnrollRepo e), d')
         | (Inr _, d') \<Rightarrow> (Inr \<lparr>ie_ID = et_id t, ie_Token = newEnrollmentSecret E, ie_ExpiresAt = et_expires_at t\<rparr>, d')))"

definition cancel_tx :: "enroll_env \<Rightarrow> User \<Rightarrow> uuid \<Rightarrow> unit enroll_tx" where
  "cancel_tx E user i d =
     (case EnrollmentTokenForUpdate (us_OrganizationID user) i d of
        Inl e \<Rightarrow> (Inl (EnrollRepo e), d)
      | Inr t \<Rightarrow> if et_consumed_at t \<noteq> None then (Inl ErrEnrollmentTokenConsumed, d)
                 else (case RevokeConnectorEnrollmentToken (et_id t) (ce_now E) d of
                         (Inl e, d') \<Rightarrow> (Inl (EnrollRepo e), d') | (Inr _, d') \<Rightarrow> (Inr (), d')))"

definition Cancel :: "enroll_env \<Rightarrow> User \<Rightarrow> string \<Rightarrow> unit enroll_tx" where
  "Cancel E user raw d =
     (if \<not> admin user then (Inl EnrollForbidden, d)
      else case ce_parse E raw of None \<Rightarrow> (Inl (EnrollRepo KindNotFound), d)
      | Some i \<Rightarrow> inTransaction (cancel_tx E user i) d)"

definition enroll_tx :: "enroll_env \<Rightarrow> string \<Rightarrow> EnrollmentCreated enroll_tx" where
  "enroll_tx E hash d =
     (case EnrollmentTokenByHashForUpdate hash d of
        Inl e \<Rightarrow> if e = KindNotFound then (Inl ErrInvalidEnrollmentToken, d) else (Inl (EnrollRepo e), d)
      | Inr t \<Rightarrow>
          if et_consumed_at t \<noteq> None \<or> et_revoked_at t \<noteq> None \<or> \<not> ce_now E < et_expires_at t
            then (Inl ErrInvalidEnrollmentToken, d)
          else (case CreateEnrolledConnector (ce_newID E 0) (et_organization t) (et_name t) (ce_now E) (ce_newID E 1)
                       (CredentialDigest (ce_sha256 E) (newEnrollmentSecret E)) d of
                  (Inl e, d1) \<Rightarrow> (Inl (EnrollRepo e), d1)
                | (Inr _, d1) \<Rightarrow>
                    (case ConsumeConnectorEnrollmentToken (et_id t) (ce_newID E 0) (ce_now E) d1 of
                       (Inl e, d2) \<Rightarrow> (Inl (EnrollRepo e), d2)
                     | (Inr _, d2) \<Rightarrow> (Inr \<lparr>en_ConnectorID = ce_newID E 0, en_Credential = newEnrollmentSecret E\<rparr>, d2))))"

definition Enroll :: "enroll_env \<Rightarrow> string \<Rightarrow> EnrollmentCreated enroll_tx" where
  "Enroll E token d =
     (case enrollmentDigest (ce_sha256 E) token of None \<Rightarrow> (Inl ErrInvalidEnrollmentToken, d)
      | Some hash \<Rightarrow> inTransaction (enroll_tx E hash) d)"

definition connector_view :: "go_time \<Rightarrow> connector_row \<Rightarrow> ConnectorView" where
  "connector_view at c =
     (if co_revoked_at c \<noteq> None then \<lparr>cv_connector = c, cv_RegistrationStatus = ''REVOKED'', cv_ConnectionStatus = ''REVOKED''\<rparr>
      else case co_last_seen_at c of
          None \<Rightarrow> \<lparr>cv_connector = c, cv_RegistrationStatus = ''REGISTERED'', cv_ConnectionStatus = ''NEVER_SEEN''\<rparr>
        | Some t \<Rightarrow> \<lparr>cv_connector = c, cv_RegistrationStatus = ''REGISTERED'',
                     cv_ConnectionStatus = (if at - t < OfflineAfter then ''ONLINE'' else ''OFFLINE'')\<rparr>)"

definition List_connectors :: "go_time \<Rightarrow> User \<Rightarrow> db \<Rightarrow> enroll_error + ConnectorView list \<times> go_time" where
  "List_connectors at user d =
     (if \<not> admin user then Inl EnrollForbidden
      else Inr (map (connector_view at) (ConnectorsByOrganization (us_OrganizationID user) d), at))"

text \<open>After the commit the registry retires the session of the connector.\<close>

definition revoke_tx :: "enroll_env \<Rightarrow> User \<Rightarrow> uuid \<Rightarrow> unit enroll_tx" where
  "revoke_tx E user i d =
     (case RevokeManagedConnector (us_OrganizationID user) i (ce_now E) d of
        (Inl e, d') \<Rightarrow> (Inl (EnrollRepo e), d') | (Inr _, d') \<Rightarrow> (Inr (), d'))"

definition Revoke :: "enroll_env \<Rightarrow> User \<Rightarrow> string \<Rightarrow> db \<times> Registry \<Rightarrow> (enroll_error + unit) \<times> db \<times> Registry" where
  "Revoke E user raw st =
     (case st of (d, reg) \<Rightarrow>
        if \<not> admin user then (Inl EnrollForbidden, d, reg)
        else case ce_parse E raw of None \<Rightarrow> (Inl (EnrollRepo KindNotFound), d, reg)
        | Some i \<Rightarrow>
            (case inTransaction (revoke_tx E user i) d of
               (Inl e, d') \<Rightarrow> (Inl e, d', reg)
             | (Inr _, d') \<Rightarrow> (Inr (), d', snd (RevokeConnector i reg))))"

definition Authenticate_connector :: "(string \<Rightarrow> string) \<Rightarrow> string \<Rightarrow> db \<Rightarrow> enroll_error + Principal" where
  "Authenticate_connector sha credential d =
     (if credential = [] then Inl ConnectorUnauthenticated
      else case ConnectorCredentialByHash (CredentialDigest sha credential) d of
          Inl e \<Rightarrow> if e = KindNotFound then Inl ConnectorUnauthenticated else Inl (EnrollRepo e)
        | Inr (k, c) \<Rightarrow>
            if cc_revoked_at k \<noteq> None \<or> co_revoked_at c \<noteq> None then Inl ConnectorUnauthenticated
            else Inr \<lparr>pr_ConnectorID = co_id c, pr_OrganizationID = co_organization c, pr_CredentialID = cc_id k\<rparr>)"

definition RecordHeartbeat :: "Principal \<Rightarrow> go_time \<Rightarrow> unit enroll_tx" where
  "RecordHeartbeat p seenAt d =
     (case RecordConnectorHeartbeat (pr_ConnectorID p) (pr_CredentialID p) seenAt d of
        (recorded, d') \<Rightarrow> (if recorded then Inr () else Inl ConnectorUnauthenticated, d'))"

definition RecordHello :: "Principal \<Rightarrow> string \<Rightarrow> string \<Rightarrow> unit enroll_tx" where
  "RecordHello p version runtimeID d =
     (case RecordConnectorHello (pr_ConnectorID p) (pr_CredentialID p) version runtimeID d of
        (recorded, d') \<Rightarrow> (if recorded then Inr () else Inl ConnectorUnauthenticated, d'))"

section \<open>Histories\<close>

definition enrollment_le :: "enrollment_row \<Rightarrow> enrollment_row \<Rightarrow> bool" where
  "enrollment_le t t' \<longleftrightarrow>
     t' = t\<lparr>et_consumed_at := et_consumed_at t', et_revoked_at := et_revoked_at t', et_connector := et_connector t'\<rparr>
   \<and> set_once (et_consumed_at t) (et_consumed_at t') \<and> set_once (et_revoked_at t) (et_revoked_at t')"

definition connector_le :: "connector_row \<Rightarrow> connector_row \<Rightarrow> bool" where
  "connector_le c c' \<longleftrightarrow>
     c' = c\<lparr>co_revoked_at := co_revoked_at c', co_last_seen_at := co_last_seen_at c', co_last_version := co_last_version c',
            co_last_runtime := co_last_runtime c'\<rparr>
   \<and> set_once (co_revoked_at c) (co_revoked_at c')"

definition credential_le :: "credential_row \<Rightarrow> credential_row \<Rightarrow> bool" where
  "credential_le k k' \<longleftrightarrow> k' = k\<lparr>cc_revoked_at := cc_revoked_at k'\<rparr> \<and> set_once (cc_revoked_at k) (cc_revoked_at k')"

lemma enrollment_le_fields:
  "enrollment_le t t' \<Longrightarrow> et_id t' = et_id t \<and> et_token_hash t' = et_token_hash t \<and> et_organization t' = et_organization t
     \<and> et_name t' = et_name t \<and> et_created_at t' = et_created_at t \<and> et_expires_at t' = et_expires_at t
     \<and> set_once (et_consumed_at t) (et_consumed_at t') \<and> set_once (et_revoked_at t) (et_revoked_at t')"
  by (cases t; cases t') (simp add: enrollment_le_def)

lemma connector_le_fields:
  "connector_le c c' \<Longrightarrow> co_id c' = co_id c \<and> co_organization c' = co_organization c \<and> set_once (co_revoked_at c) (co_revoked_at c')"
  by (cases c; cases c') (simp add: connector_le_def)

interpretation token_history: row_history et_id enrollment_le
proof
  fix a b c assume "enrollment_le a b" "enrollment_le b c"
  then show "enrollment_le a c" by (cases a; cases b; cases c) (auto simp: enrollment_le_def intro: set_once_trans)
qed (simp add: enrollment_le_def)

interpretation connector_history: row_history co_id connector_le
proof
  fix a b c assume "connector_le a b" "connector_le b c"
  then show "connector_le a c" by (cases a; cases b; cases c) (auto simp: connector_le_def intro: set_once_trans)
qed (simp add: connector_le_def)

interpretation credential_history: row_history cc_id credential_le
proof
  fix a b c assume "credential_le a b" "credential_le b c"
  then show "credential_le a c" by (cases a; cases b; cases c) (auto simp: credential_le_def intro: set_once_trans)
qed (simp add: credential_le_def)

text \<open>What one commit may do to the three tables, with the unique keys.\<close>

definition enroll_inv :: "db \<Rightarrow> bool" where
  "enroll_inv d \<longleftrightarrow>
     distinct (map et_id (db_enrollments d)) \<and> distinct (map et_token_hash (db_enrollments d))
   \<and> distinct (map co_id (db_connectors d)) \<and> distinct (map cc_id (db_credentials d)) \<and> distinct (map cc_hash (db_credentials d))"

definition enroll_le :: "db \<Rightarrow> db \<Rightarrow> bool" where
  "enroll_le d d' \<longleftrightarrow>
     rows_grow et_id enrollment_le (db_enrollments d) (db_enrollments d')
   \<and> rows_grow co_id connector_le (db_connectors d) (db_connectors d')
   \<and> rows_grow cc_id credential_le (db_credentials d) (db_credentials d')
   \<and> (enroll_inv d \<longrightarrow> enroll_inv d')"

lemma enroll_le_refl [simp]:
  "db_enrollments d' = db_enrollments d \<Longrightarrow> db_connectors d' = db_connectors d \<Longrightarrow> db_credentials d' = db_credentials d
   \<Longrightarrow> enroll_le d d'"
  by (simp add: enroll_le_def enroll_inv_def token_history.grow_refl connector_history.grow_refl credential_history.grow_refl)

lemma enroll_le_trans: "enroll_le a b \<Longrightarrow> enroll_le b c \<Longrightarrow> enroll_le a c"
  unfolding enroll_le_def
  by (meson token_history.grow_trans connector_history.grow_trans credential_history.grow_trans)

lemmas history_simps = enroll_le_def enroll_inv_def token_history.grow_refl connector_history.grow_refl credential_history.grow_refl
  token_history.grow_append connector_history.grow_append credential_history.grow_append

lemma create_token_le: "CreateConnectorEnrollmentToken t d = (r, d') \<Longrightarrow> enroll_le d d'"
  by (fastforce simp: CreateConnectorEnrollmentToken_def history_simps list_ex_iff image_iff split: if_splits)

lemma revoke_token_le: "RevokeConnectorEnrollmentToken i at d = (r, d') \<Longrightarrow> enroll_le d d'"
  by (auto simp: RevokeConnectorEnrollmentToken_def history_simps enrollment_le_def
      intro!: token_history.grow_update split: if_splits)

lemma create_connector_le: "CreateEnrolledConnector i org name at cid hash d = (r, d') \<Longrightarrow> enroll_le d d'"
  by (fastforce simp: CreateEnrolledConnector_def history_simps list_ex_iff image_iff Let_def split: if_splits)

lemma consume_le: "ConsumeConnectorEnrollmentToken i c at d = (r, d') \<Longrightarrow> enroll_le d d'"
  by (auto simp: ConsumeConnectorEnrollmentToken_def history_simps enrollment_le_def consumable_def
      intro!: token_history.grow_update split: if_splits)

lemma revoke_managed_le: "RevokeManagedConnector org i at d = (r, d') \<Longrightarrow> enroll_le d d'"
  by (auto simp: RevokeManagedConnector_def history_simps connector_le_def credential_le_def
      intro!: connector_history.grow_update credential_history.grow_update split: if_splits)

lemma heartbeat_le: "RecordConnectorHeartbeat c k t d = (r, d') \<Longrightarrow> enroll_le d d'"
  by (auto simp: RecordConnectorHeartbeat_def history_simps connector_le_def
      intro!: connector_history.grow_update split: if_splits)

lemma hello_le: "RecordConnectorHello c k v rt d = (r, d') \<Longrightarrow> enroll_le d d'"
  by (auto simp: RecordConnectorHello_def history_simps connector_le_def
      intro!: connector_history.grow_update split: if_splits)

lemma inTransaction_le:
  assumes "\<And>r d'. fn d = (r, d') \<Longrightarrow> enroll_le d d'" and "inTransaction fn d = (r, d')"
  shows "enroll_le d d'"
  using assms by (cases r) (auto simp: inTransaction_ok dest: inTransaction_error)

lemma enroll_tx_le: "enroll_tx E hash d = (r, d') \<Longrightarrow> enroll_le d d'"
  unfolding enroll_tx_def
  by (auto split: sum.splits prod.splits if_splits dest: create_connector_le consume_le intro: enroll_le_trans)

lemma cancel_tx_le: "cancel_tx E user i d = (r, d') \<Longrightarrow> enroll_le d d'"
  unfolding cancel_tx_def by (auto split: sum.splits prod.splits if_splits dest: revoke_token_le)

lemma revoke_tx_le: "revoke_tx E user i d = (r, d') \<Longrightarrow> enroll_le d d'"
  unfolding revoke_tx_def by (auto split: sum.splits prod.splits dest: revoke_managed_le)

section \<open>Runs\<close>

text \<open>Commits of the service, and commits that leave the three tables alone.\<close>

datatype enroll_op =
    IssueOp enroll_env User string
  | CancelOp enroll_env User string
  | EnrollOp enroll_env string
  | RevokeOp enroll_env User string Registry
  | HeartbeatOp Principal go_time
  | HelloOp Principal string string
  | OtherOp "db \<Rightarrow> db"

fun enroll_step :: "enroll_op \<Rightarrow> db \<Rightarrow> db" where
  "enroll_step (IssueOp E user name) d = snd (Issue E user name d)"
| "enroll_step (CancelOp E user raw) d = snd (Cancel E user raw d)"
| "enroll_step (EnrollOp E token) d = snd (Enroll E token d)"
| "enroll_step (RevokeOp E user raw reg) d = fst (snd (Revoke E user raw (d, reg)))"
| "enroll_step (HeartbeatOp p t) d = snd (RecordHeartbeat p t d)"
| "enroll_step (HelloOp p v r) d = snd (RecordHello p v r d)"
| "enroll_step (OtherOp f) d =
     (f d)\<lparr>db_enrollments := db_enrollments d, db_connectors := db_connectors d, db_credentials := db_credentials d\<rparr>"

definition enroll_run :: "enroll_op list \<Rightarrow> db \<Rightarrow> db" where
  "enroll_run ops d = fold enroll_step ops d"

lemma Issue_le: "enroll_le d (snd (Issue E user name d))"
  by (auto simp: Issue_def Let_def split: prod.splits sum.splits dest: create_token_le)

lemma Cancel_le: "enroll_le d (snd (Cancel E user raw d))"
  by (auto simp: Cancel_def split: option.splits intro: inTransaction_le [OF cancel_tx_le] surjective_pairing)

lemma Enroll_le: "enroll_le d (snd (Enroll E token d))"
  by (auto simp: Enroll_def split: option.splits intro: inTransaction_le [OF enroll_tx_le] surjective_pairing)

lemma Revoke_le: "enroll_le d (fst (snd (Revoke E user raw (d, reg))))"
  by (auto simp: Revoke_def split: option.splits prod.splits sum.splits intro: inTransaction_le [OF revoke_tx_le])

lemma enroll_step_le: "enroll_le d (enroll_step a d)"
  by (cases a) (auto simp: Issue_le Cancel_le Enroll_le Revoke_le RecordHeartbeat_def RecordHello_def
      split: prod.splits dest: heartbeat_le hello_le)

lemma enroll_run_le: "enroll_le d (enroll_run ops d)"
proof (induction ops arbitrary: d)
  case (Cons a ops)
  from enroll_le_trans [OF enroll_step_le Cons.IH] show ?case by (simp add: enroll_run_def)
qed (simp add: enroll_run_def)

section \<open>Properties\<close>

definition token_dead :: "go_time \<Rightarrow> enrollment_row \<Rightarrow> bool" where
  "token_dead now t \<longleftrightarrow> et_consumed_at t \<noteq> None \<or> et_revoked_at t \<noteq> None \<or> et_expires_at t \<le> now"

lemma enrollmentDigest_issued: "length raw = 32 \<Longrightarrow> enrollmentDigest sha (base64_encode raw) = Some (sha (base64_encode raw))"
  by (simp add: enrollmentDigest_def decode_encode)

lemma token_by_hash:
  assumes "enroll_inv d" "row_by et_id i (db_enrollments d) = Some t"
  shows "row_by et_token_hash (et_token_hash t) (db_enrollments d) = Some t"
  using assms row_by_distinct row_by_key unfolding enroll_inv_def by metis

lemma Enroll_dead:
  assumes "enroll_inv d" "row_by et_id i (db_enrollments d) = Some t"
    and "enrollmentDigest (ce_sha256 E) token = Some (et_token_hash t)" "token_dead (ce_now E) t"
  shows "Enroll E token d = (Inl ErrInvalidEnrollmentToken, d)"
  using assms token_by_hash [OF assms(1,2)]
  by (auto simp: Enroll_def inTransaction_def enroll_tx_def EnrollmentTokenByHashForUpdate_def token_dead_def not_less)

text \<open>A dead token stays dead.\<close>

lemma token_dead_le: "enrollment_le t t' \<Longrightarrow> token_dead now t \<Longrightarrow> token_dead now t'"
  using enrollment_le_fields [of t t'] by (auto simp: token_dead_def set_once_def)

lemma Enroll_Inr:
  assumes "enroll_inv d" and "Enroll E token d = (Inr r, d1)"
  obtains t where "enrollmentDigest (ce_sha256 E) token = Some (et_token_hash t)"
    "row_by et_token_hash (et_token_hash t) (db_enrollments d) = Some t" "\<not> token_dead (ce_now E) t"
    "row_by et_id (et_id t) (db_enrollments d1)
       = Some (t\<lparr>et_consumed_at := Some (ce_now E), et_connector := Some (ce_newID E 0)\<rparr>)"
proof -
  from assms(2) obtain hash where digest: "enrollmentDigest (ce_sha256 E) token = Some hash"
    and tx: "enroll_tx E hash d = (Inr r, d1)"
    by (auto simp: Enroll_def inTransaction_ok split: option.splits)
  from tx obtain t where row0: "row_by et_token_hash hash (db_enrollments d) = Some t" and live: "\<not> token_dead (ce_now E) t"
    by (auto simp: enroll_tx_def EnrollmentTokenByHashForUpdate_def token_dead_def not_le split: option.splits if_splits)
  with tx obtain dx where
    create: "CreateEnrolledConnector (ce_newID E 0) (et_organization t) (et_name t) (ce_now E) (ce_newID E 1)
                   (CredentialDigest (ce_sha256 E) (newEnrollmentSecret E)) d = (Inr (), dx)"
    and consume: "ConsumeConnectorEnrollmentToken (et_id t) (ce_newID E 0) (ce_now E) dx = (Inr (), d1)"
    unfolding enroll_tx_def
    by (simp add: EnrollmentTokenByHashForUpdate_def token_dead_def not_le split: prod.splits sum.splits)
  have hash: "hash = et_token_hash t" and mem: "t \<in> set (db_enrollments d)" using row_by_key [OF row0] by simp_all
  note digest = digest [unfolded hash] and row = row0 [unfolded hash]
  have same: "db_enrollments dx = db_enrollments d"
    using create by (auto simp: CreateEnrolledConnector_def Let_def split: if_splits)
  have "row_by et_id (et_id t) (db_enrollments d) = Some t"
    using assms(1) mem by (intro row_by_distinct) (simp_all add: enroll_inv_def)
  moreover have "consumable (et_id t) (ce_now E) t" using live by (simp add: consumable_def token_dead_def)
  ultimately have "row_by et_id (et_id t) (db_enrollments d1)
       = Some (t\<lparr>et_consumed_at := Some (ce_now E), et_connector := Some (ce_newID E 0)\<rparr>)"
    using consume same by (auto simp: ConsumeConnectorEnrollmentToken_def row_by_update_rows split: if_splits)
  with digest row live that show ?thesis by blast
qed

text \<open>
  C23: An enrollment token works once. After an enrollment with a token has succeeded, and after any further
  commits of the service or of anything else, every later enrollment with that token is refused as
  invalid and writes nothing.
\<close>

theorem enrollment_token_once:
  assumes "enroll_inv d" and "Enroll E token d = (Inr r, d1)" and "ce_sha256 E' = ce_sha256 E"
  shows "Enroll E' token (enroll_run ops d1) = (Inl ErrInvalidEnrollmentToken, enroll_run ops d1)"
proof -
  from Enroll_Inr [OF assms(1,2)] obtain t where digest: "enrollmentDigest (ce_sha256 E) token = Some (et_token_hash t)"
    and row: "row_by et_id (et_id t) (db_enrollments d1)
       = Some (t\<lparr>et_consumed_at := Some (ce_now E), et_connector := Some (ce_newID E 0)\<rparr>)" by metis
  let ?t = "t\<lparr>et_consumed_at := Some (ce_now E), et_connector := Some (ce_newID E 0)\<rparr>"
  from enroll_run_le [of d1 ops] Enroll_le [of d E token] assms(1,2) have inv: "enroll_inv (enroll_run ops d1)"
    and grow: "rows_grow et_id enrollment_le (db_enrollments d1) (db_enrollments (enroll_run ops d1))"
    by (simp_all add: enroll_le_def)
  from token_history.grow_row [OF grow row] obtain t' where
    t': "row_by et_id (et_id t) (db_enrollments (enroll_run ops d1)) = Some t'" and le: "enrollment_le ?t t'" .
  have "token_dead (ce_now E') t'" by (rule token_dead_le [OF le]) (simp add: token_dead_def)
  moreover have "et_token_hash t' = et_token_hash t" using enrollment_le_fields [OF le] by simp
  ultimately show ?thesis using Enroll_dead [OF inv t', of E' token] digest assms(3) by simp
qed

text \<open>The identifiers and the secret that a call draws are not in use.\<close>

definition enroll_fresh :: "enroll_env \<Rightarrow> db \<Rightarrow> bool" where
  "enroll_fresh E d \<longleftrightarrow>
     length (ce_raw E) = 32 \<and> ce_sha256 E (newEnrollmentSecret E) \<noteq> []
   \<and> (\<forall>c \<in> set (db_connectors d). co_id c \<noteq> ce_newID E 0)
   \<and> (\<forall>k \<in> set (db_credentials d). cc_id k \<noteq> ce_newID E 1 \<and> cc_hash k \<noteq> ce_sha256 E (newEnrollmentSecret E))"

lemma base64_encode_nonempty: "length raw = 32 \<Longrightarrow> base64_encode raw \<noteq> []"
  using decode_encode [of raw] decode_encode [of "[]"] by auto

lemma connector_name_not_blank: "connector_name_valid name \<Longrightarrow> \<not> list_all (\<lambda>c. c = CHR '' '') name"
proof
  assume v: "connector_name_valid name" and blank: "list_all (\<lambda>c. c = CHR '' '') name"
  then have "strings_TrimSpace name = []"
  proof -
    have "utf8_chunks name = map (\<lambda>c. (Some 32, [c])) name"
      using blank by (induction name) auto
    then show ?thesis by (simp add: TrimSpace_empty_iff space_chunk_def unicode_IsSpace_def)
  qed
  with v show False by (simp add: connector_name_valid_def)
qed

lemma Issue_Inr:
  assumes "Issue E user name d = (Inr i, d1)"
  shows "connector_name_valid name" "i = \<lparr>ie_ID = ce_newID E 0, ie_Token = newEnrollmentSecret E,
            ie_ExpiresAt = ce_now E + EnrollmentTokenLifetime\<rparr>"
    "row_by et_id (ce_newID E 0) (db_enrollments d1) = Some (new_enrollment E user name)"
proof -
  from assms have v: "connector_name_valid name" and i: "i = \<lparr>ie_ID = et_id (new_enrollment E user name), ie_Token = newEnrollmentSecret E,
            ie_ExpiresAt = et_expires_at (new_enrollment E user name)\<rparr>"
    and create: "CreateConnectorEnrollmentToken (new_enrollment E user name) d = (Inr (), d1)"
    by (auto simp: Issue_def Let_def split: if_splits prod.splits sum.splits)
  from create have no: "row_by et_id (et_id (new_enrollment E user name)) (db_enrollments d) = None"
    and d1: "db_enrollments d1 = db_enrollments d @ [new_enrollment E user name]"
    by (auto simp: CreateConnectorEnrollmentToken_def row_by_None list_ex_iff split: if_splits)
  have "row_by et_id (et_id (new_enrollment E user name)) (db_enrollments d1) = Some (new_enrollment E user name)"
    using no by (simp add: d1 row_by_append) (simp add: row_by_def)
  with v i show "connector_name_valid name" "i = \<lparr>ie_ID = ce_newID E 0, ie_Token = newEnrollmentSecret E,
            ie_ExpiresAt = ce_now E + EnrollmentTokenLifetime\<rparr>"
    "row_by et_id (ce_newID E 0) (db_enrollments d1) = Some (new_enrollment E user name)"
    by (simp_all add: new_enrollment_def)
qed

lemma Enroll_live:
  assumes "enroll_inv d" and "row_by et_id i (db_enrollments d) = Some t" and "\<not> token_dead (ce_now E) t"
    and "et_created_at t \<le> ce_now E" and "\<not> list_all (\<lambda>c. c = CHR '' '') (et_name t)"
    and "enrollmentDigest (ce_sha256 E) token = Some (et_token_hash t)" and "enroll_fresh E d"
  shows "\<exists>d'. Enroll E token d = (Inr \<lparr>en_ConnectorID = ce_newID E 0, en_Credential = newEnrollmentSecret E\<rparr>, d')
    \<and> Authenticate_connector (ce_sha256 E) (newEnrollmentSecret E) d'
        = Inr \<lparr>pr_ConnectorID = ce_newID E 0, pr_OrganizationID = et_organization t, pr_CredentialID = ce_newID E 1\<rparr>"
proof -
  let ?hash = "ce_sha256 E (newEnrollmentSecret E)"
  let ?c = "\<lparr>co_id = ce_newID E 0, co_organization = et_organization t, co_name = et_name t, co_created_at = ce_now E,
     co_revoked_at = None, co_last_seen_at = None, co_last_version = None, co_last_runtime = None\<rparr>"
  let ?k = "\<lparr>cc_id = ce_newID E 1, cc_connector = ce_newID E 0, cc_hash = ?hash, cc_created_at = ce_now E, cc_revoked_at = None\<rparr>"
  let ?d1 = "d\<lparr>db_connectors := db_connectors d @ [?c], db_credentials := db_credentials d @ [?k]\<rparr>"
  have create: "CreateEnrolledConnector (ce_newID E 0) (et_organization t) (et_name t) (ce_now E) (ce_newID E 1)
      (CredentialDigest (ce_sha256 E) (newEnrollmentSecret E)) d = (Inr (), ?d1)"
    using assms(5,7) by (auto simp: CreateEnrolledConnector_def CredentialDigest_def enroll_fresh_def list_ex_iff)
  have mem: "t \<in> set (db_enrollments d)" "et_id t = i" using row_by_key [OF assms(2)] by simp_all
  have cons: "list_ex (consumable (et_id t) (ce_now E)) (db_enrollments d)"
    using mem assms(3) by (auto simp: list_ex_iff consumable_def token_dead_def)
  have one: "x = t" if "x \<in> set (db_enrollments d)" "et_id x = et_id t" for x
    using row_by_distinct [of et_id "db_enrollments d" x] assms(1,2) that mem by (simp add: enroll_inv_def)
  have late: "\<not> list_ex (\<lambda>x. consumable (et_id t) (ce_now E) x \<and> ce_now E < et_created_at x) (db_enrollments d)"
  proof -
    have "\<not> (consumable (et_id t) (ce_now E) x \<and> ce_now E < et_created_at x)" if "x \<in> set (db_enrollments d)" for x
      using one [OF that] assms(4) by (auto simp: consumable_def)
    then show ?thesis by (auto simp: list_ex_iff)
  qed
  obtain d2 where consume: "ConsumeConnectorEnrollmentToken (et_id t) (ce_newID E 0) (ce_now E) ?d1 = (Inr (), d2)"
    and kept: "db_connectors d2 = db_connectors ?d1" "db_credentials d2 = db_credentials ?d1"
    using cons late by (simp add: ConsumeConnectorEnrollmentToken_def)
  have "enroll_tx E (et_token_hash t) d = (Inr \<lparr>en_ConnectorID = ce_newID E 0, en_Credential = newEnrollmentSecret E\<rparr>, d2)"
    using assms(3) create consume token_by_hash [OF assms(1,2)]
    by (simp add: enroll_tx_def EnrollmentTokenByHashForUpdate_def token_dead_def)
  then have "Enroll E token d = (Inr \<lparr>en_ConnectorID = ce_newID E 0, en_Credential = newEnrollmentSecret E\<rparr>, d2)"
    using assms(6) by (simp add: Enroll_def inTransaction_def)
  moreover have "row_by cc_hash ?hash (db_credentials d2) = Some ?k" "row_by co_id (ce_newID E 0) (db_connectors d2) = Some ?c"
    using assms(7) by (auto simp: kept row_by_append enroll_fresh_def split: option.split dest: row_by_key) (simp_all add: row_by_def)
  ultimately show ?thesis
    using base64_encode_nonempty [of "ce_raw E"] assms(7)
    by (simp add: Authenticate_connector_def ConnectorCredentialByHash_def CredentialDigest_def enroll_fresh_def newEnrollmentSecret_def)
qed

text \<open>
  C24: An issued token can be used. After a token was issued, whatever commits come after it, the token is
  still stored for the administrator's organization and name, with the expiry of fifteen minutes. At any
  time from its issue on, an enrollment with it (with fresh identifiers and secret) succeeds as
  long as it is neither used, cancelled nor expired, and the credential it returns authenticates the new
  connector of that organization; otherwise the enrollment is refused and writes nothing.
\<close>

theorem issued_token_enrolls:
  assumes "enroll_inv d" and "length (ce_raw E) = 32" and "Issue E user name d = (Inr i, d1)"
  shows "\<exists>t. row_by et_id (ie_ID i) (db_enrollments (enroll_run ops d1)) = Some t
    \<and> et_organization t = us_OrganizationID user \<and> et_name t = name \<and> et_expires_at t = ce_now E + 900000000
    \<and> (\<forall>E'. ce_sha256 E' = ce_sha256 E \<and> ce_now E \<le> ce_now E' \<and> enroll_fresh E' (enroll_run ops d1) \<longrightarrow>
         (if et_consumed_at t = None \<and> et_revoked_at t = None \<and> ce_now E' < et_expires_at t
          then \<exists>d'. Enroll E' (ie_Token i) (enroll_run ops d1)
                 = (Inr \<lparr>en_ConnectorID = ce_newID E' 0, en_Credential = newEnrollmentSecret E'\<rparr>, d')
               \<and> Authenticate_connector (ce_sha256 E') (newEnrollmentSecret E') d'
                 = Inr \<lparr>pr_ConnectorID = ce_newID E' 0, pr_OrganizationID = us_OrganizationID user, pr_CredentialID = ce_newID E' 1\<rparr>
          else Enroll E' (ie_Token i) (enroll_run ops d1) = (Inl ErrInvalidEnrollmentToken, enroll_run ops d1)))"
proof -
  note issue = Issue_Inr [OF assms(3)]
  from enroll_run_le [of d1 ops] Issue_le [of d E user name] assms(1,3) have inv: "enroll_inv (enroll_run ops d1)"
    and grow: "rows_grow et_id enrollment_le (db_enrollments d1) (db_enrollments (enroll_run ops d1))"
    by (simp_all add: enroll_le_def)
  from token_history.grow_row [OF grow issue(3)] obtain t where
    t: "row_by et_id (ce_newID E 0) (db_enrollments (enroll_run ops d1)) = Some t"
    and le: "enrollment_le (new_enrollment E user name) t" .
  have f: "et_organization t = us_OrganizationID user" "et_name t = name" "et_expires_at t = ce_now E + 900000000"
      "et_created_at t = ce_now E" "et_token_hash t = ce_sha256 E (newEnrollmentSecret E)"
    using enrollment_le_fields [OF le]
    by (simp_all add: new_enrollment_def EnrollmentTokenLifetime_def time_Minute_def time_Second_def)
  have digest: "enrollmentDigest (ce_sha256 E) (newEnrollmentSecret E) = Some (et_token_hash t)"
    using enrollmentDigest_issued [OF assms(2)] f(5) by (simp add: newEnrollmentSecret_def)
  have main: "if et_consumed_at t = None \<and> et_revoked_at t = None \<and> ce_now E' < et_expires_at t
          then \<exists>d'. Enroll E' (ie_Token i) (enroll_run ops d1)
                 = (Inr \<lparr>en_ConnectorID = ce_newID E' 0, en_Credential = newEnrollmentSecret E'\<rparr>, d')
               \<and> Authenticate_connector (ce_sha256 E') (newEnrollmentSecret E') d'
                 = Inr \<lparr>pr_ConnectorID = ce_newID E' 0, pr_OrganizationID = us_OrganizationID user, pr_CredentialID = ce_newID E' 1\<rparr>
          else Enroll E' (ie_Token i) (enroll_run ops d1) = (Inl ErrInvalidEnrollmentToken, enroll_run ops d1)"
    if E': "ce_sha256 E' = ce_sha256 E" "ce_now E \<le> ce_now E'" "enroll_fresh E' (enroll_run ops d1)" for E'
  proof (cases "token_dead (ce_now E') t")
    case True
    then have "Enroll E' (newEnrollmentSecret E) (enroll_run ops d1) = (Inl ErrInvalidEnrollmentToken, enroll_run ops d1)"
      using Enroll_dead [OF inv t] digest E'(1) by simp
    then show ?thesis using True by (auto simp: issue(2) token_dead_def)
  next
    case False
    then show ?thesis
      using Enroll_live [OF inv t False, of "newEnrollmentSecret E"] E' f digest connector_name_not_blank [OF issue(1)]
      by (simp add: issue(2) token_dead_def)
  qed
  have "row_by et_id (ie_ID i) (db_enrollments (enroll_run ops d1)) = Some t" using t by (simp add: issue(2))
  with f(1-3) main show ?thesis by (intro exI [of _ t] conjI allI impI) blast+
qed

lemma Revoke_Inr:
  assumes "Revoke E user raw (d, reg) = (Inr (), d1, reg1)"
  obtains i where "ce_parse E raw = Some i" "reg1 = snd (RevokeConnector i reg)" "admin user"
    "RevokeManagedConnector (us_OrganizationID user) i (ce_now E) d = (Inr (), d1)"
  using assms
  by (auto simp: Revoke_def inTransaction_ok revoke_tx_def split: if_splits option.splits prod.splits sum.splits)

lemma RevokeManagedConnector_marks:
  assumes "enroll_inv d" "RevokeManagedConnector org i at d = (Inr (), d1)"
  obtains c where "row_by co_id i (db_connectors d1) = Some c" "co_revoked_at c \<noteq> None"
proof -
  from assms(2) obtain c where c: "c \<in> set (db_connectors d)" "co_organization c = org" "co_id c = i"
    and d1: "db_connectors d1 = update_rows (\<lambda>c. co_organization c = org \<and> co_id c = i)
               (\<lambda>c. c\<lparr>co_revoked_at := coalesce (co_revoked_at c) at\<rparr>) (db_connectors d)"
    by (auto simp: RevokeManagedConnector_def list_ex_iff split: if_splits)
  have "row_by co_id i (db_connectors d) = Some c" using row_by_distinct [of co_id _ c] assms(1) c by (simp add: enroll_inv_def)
  with c show thesis by (intro that [of "c\<lparr>co_revoked_at := coalesce (co_revoked_at c) at\<rparr>"]) (simp_all add: d1 row_by_update_rows)
qed

lemma Authenticate_connector_Inr:
  assumes "Authenticate_connector sha credential d = Inr p"
  obtains k :: credential_row and c :: connector_row where "row_by co_id (cc_connector k) (db_connectors d) = Some c" "co_revoked_at c = None" "pr_ConnectorID p = co_id c"
proof (cases "ConnectorCredentialByHash (CredentialDigest sha credential) d")
  case (Inl e)
  with assms show ?thesis by (simp add: Authenticate_connector_def split: if_splits)
next
  case (Inr kc)
  obtain k c where kc: "kc = (k, c)" by (cases kc)
  from Inr have "row_by co_id (cc_connector k) (db_connectors d) = Some c"
    by (simp add: ConnectorCredentialByHash_def kc split: option.splits)
  moreover have "co_revoked_at c = None" "pr_ConnectorID p = co_id c"
    using assms Inr by (auto simp: Authenticate_connector_def kc split: if_splits)
  ultimately show ?thesis by (rule that)
qed

text \<open>A connector whose row is revoked authenticates no more and leaves no mark.\<close>

lemma revoked_connector_refused:
  assumes "enroll_inv d" "row_by co_id i (db_connectors d) = Some c" "co_revoked_at c \<noteq> None"
  shows "Authenticate_connector sha credential d = Inr p \<Longrightarrow> pr_ConnectorID p \<noteq> i"
    and "\<not> lockActiveConnectorCredential i k d"
proof -
  show "pr_ConnectorID p \<noteq> i" if a: "Authenticate_connector sha credential d = Inr p"
  proof
    assume p: "pr_ConnectorID p = i"
    obtain k :: credential_row and c' :: connector_row where row: "row_by co_id (cc_connector k) (db_connectors d) = Some c'" and c': "co_revoked_at c' = None" "pr_ConnectorID p = co_id c'"
      by (rule Authenticate_connector_Inr [OF a])
    from row_by_key [OF row] row c' p assms(2,3) show False by simp
  qed
  have "co_revoked_at x \<noteq> None" if "x \<in> set (db_connectors d)" "co_id x = i" for x
    using row_by_distinct [of co_id "db_connectors d" x] assms that by (simp add: enroll_inv_def)
  then show "\<not> lockActiveConnectorCredential i k d" by (auto simp: lockActiveConnectorCredential_def list_ex_iff)
qed

lemma RevokeConnector_registry:
  assumes "reg_inv reg"
  shows "r_current (snd (RevokeConnector i reg)) i = None"
    and "r_current reg i = Some e \<Longrightarrow> e_sealed (r_entry (snd (RevokeConnector i reg)) e)"
proof -
  show "r_current (snd (RevokeConnector i reg)) i = None"
    by (auto simp: RevokeConnector_def Let_def split: option.split)
  assume cur: "r_current reg i = Some e"
  then have "e < length (r_entries reg)" using reg_inv_current [OF assms] by (simp add: current_ok_def)
  then show "e_sealed (r_entry (snd (RevokeConnector i reg)) e)"
    using cur by (simp add: RevokeConnector_def Let_def r_entry_def [of "_\<lparr>r_current := _\<rparr>"])
qed

text \<open>
  C25: Revoking a connector locks it out. When an administrator's revocation has succeeded, then after any
  further commits no credential authenticates that connector, and its heartbeats and its announcement
  are refused and write nothing; and in the registry it has no current session, the session that
  was current being sealed.
\<close>

theorem revoked_connector_locked_out:
  assumes "enroll_inv d" and "reg_inv reg" and "Revoke E user raw (d, reg) = (Inr (), d1, reg1)" and "ce_parse E raw = Some i"
  shows "(\<forall>sha credential. Authenticate_connector sha credential (enroll_run ops d1)
            \<notin> {Inr p | p. pr_ConnectorID p = i})
    \<and> (\<forall>org k seenAt. RecordHeartbeat \<lparr>pr_ConnectorID = i, pr_OrganizationID = org, pr_CredentialID = k\<rparr> seenAt (enroll_run ops d1)
            = (Inl ConnectorUnauthenticated, enroll_run ops d1))
    \<and> (\<forall>org k version rt. RecordHello \<lparr>pr_ConnectorID = i, pr_OrganizationID = org, pr_CredentialID = k\<rparr> version rt (enroll_run ops d1)
            = (Inl ConnectorUnauthenticated, enroll_run ops d1))
    \<and> r_current reg1 i = None
    \<and> (case r_current reg i of None \<Rightarrow> True | Some e \<Rightarrow> e_sealed (r_entry reg1 e))"
proof -
  from Revoke_Inr [OF assms(3)] assms(4) have reg1: "reg1 = snd (RevokeConnector i reg)"
    and tx: "RevokeManagedConnector (us_OrganizationID user) i (ce_now E) d = (Inr (), d1)" by auto
  obtain c where c: "row_by co_id i (db_connectors d1) = Some c" "co_revoked_at c \<noteq> None"
    by (rule RevokeManagedConnector_marks [OF assms(1) tx])
  from enroll_run_le [of d1 ops] revoke_managed_le [OF tx] assms(1) have inv: "enroll_inv (enroll_run ops d1)"
    and grow: "rows_grow co_id connector_le (db_connectors d1) (db_connectors (enroll_run ops d1))"
    by (simp_all add: enroll_le_def)
  from connector_history.grow_row [OF grow c(1)] obtain c' where
    c': "row_by co_id i (db_connectors (enroll_run ops d1)) = Some c'" and le: "connector_le c c'" .
  have revoked: "co_revoked_at c' \<noteq> None" using connector_le_fields [OF le] c(2) by (auto simp: set_once_def)
  note refused = revoked_connector_refused [OF inv c' revoked]
  from refused RevokeConnector_registry [OF assms(2), of i] show ?thesis
    by (auto simp: RecordHeartbeat_def RecordConnectorHeartbeat_def RecordHello_def RecordConnectorHello_def reg1 split: option.split)
qed

section \<open>Witnesses\<close>

definition demo_admin :: User where
  "demo_admin = \<lparr>us_ID = 11, us_OrganizationID = 1, us_OrganizationRole = ''ADMIN''\<rparr>"

definition demo_enroll_env :: "go_time \<Rightarrow> char \<Rightarrow> uuid \<Rightarrow> enroll_env" where
  "demo_enroll_env now c base =
     \<lparr>ce_sha256 = take 32, ce_parse = (\<lambda>s. if s = ''k'' then Some 3 else None), ce_raw = replicate 32 c,
      ce_newID = (\<lambda>n. base + of_nat n), ce_now = now\<rparr>"

definition demo_enroll_db :: db where
  "demo_enroll_db = (demo_db ''PROVISION'' [] [] ''READY'')
     \<lparr>db_users := [\<lparr>ur_id = 11, ur_organization = 1, ur_role = ''ADMIN'', ur_disabled_at = None\<rparr>]\<rparr>"

lemma demo_enroll_inv: "enroll_inv demo_enroll_db"
  by (simp add: enroll_inv_def demo_enroll_db_def demo_db_def)

lemma demo_secret: "length (take 32 (newEnrollmentSecret (demo_enroll_env now c base))) = 32"
  using length_base64_encode [of "replicate 32 c"] by (simp add: newEnrollmentSecret_def demo_enroll_env_def)

lemma demo_issue:
  "\<exists>i d1. Issue (demo_enroll_env 100 (CHR ''A'') 50) demo_admin ''k'' demo_enroll_db = (Inr i, d1)
     \<and> db_connectors d1 = db_connectors demo_enroll_db \<and> db_credentials d1 = []"
proof -
  have "connector_name_valid ''k''"
    by (simp add: connector_name_valid_def go_defs)
  then show ?thesis
    using demo_secret [of 100 "CHR ''A''" 50]
    by (simp add: Issue_def admin_def demo_admin_def new_enrollment_def CreateConnectorEnrollmentToken_def Let_def
        EnrollmentTokenLifetime_def time_Minute_def time_Second_def demo_enroll_db_def demo_db_def connector_name_valid_def)
      (simp add: demo_enroll_env_def)
qed

lemma demo_fresh:
  assumes "db_connectors d1 = db_connectors demo_enroll_db" "db_credentials d1 = []"
  shows "enroll_fresh (demo_enroll_env 200 (CHR ''B'') 60) d1"
  using demo_secret [of 200 "CHR ''B''" 60] assms
  by (auto simp: enroll_fresh_def demo_enroll_env_def demo_enroll_db_def demo_db_def)

theorem issued_token_enrolls_witness:
  "\<exists>i d1 t. Issue (demo_enroll_env 100 (CHR ''A'') 50) demo_admin ''k'' demo_enroll_db = (Inr i, d1)
     \<and> row_by et_id (ie_ID i) (db_enrollments (enroll_run [] d1)) = Some (t :: enrollment_row) \<and> et_expires_at t = 900000100
     \<and> enroll_fresh (demo_enroll_env 200 (CHR ''B'') 60) (enroll_run [] d1)"
proof -
  obtain i d1 where i: "Issue (demo_enroll_env 100 (CHR ''A'') 50) demo_admin ''k'' demo_enroll_db = (Inr i, d1)"
    "db_connectors d1 = db_connectors demo_enroll_db" "db_credentials d1 = []" using demo_issue by blast
  have len: "length (ce_raw (demo_enroll_env 100 (CHR ''A'') 50)) = 32" "ce_now (demo_enroll_env 100 (CHR ''A'') 50) = 100"
    by (simp_all add: demo_enroll_env_def)
  obtain t :: enrollment_row where "row_by et_id (ie_ID i) (db_enrollments (enroll_run [] d1)) = Some t" "et_expires_at t = 100 + 900000000"
    using issued_token_enrolls [OF demo_enroll_inv len(1) i(1), of "[]"] that unfolding len by (elim exE conjE)
  with i(1) demo_fresh [OF i(2,3)] show ?thesis
    by (intro exI [of _ i] exI [of _ d1] exI [of _ t]) (simp add: enroll_run_def)
qed

theorem enrollment_token_once_witness:
  "\<exists>token d r d1. Enroll (demo_enroll_env 200 (CHR ''B'') 60) token d = (Inr r, d1)
     \<and> Enroll (demo_enroll_env 300 (CHR ''C'') 70) token (enroll_run [] d1) = (Inl ErrInvalidEnrollmentToken, enroll_run [] d1)"
proof -
  obtain i d where i: "Issue (demo_enroll_env 100 (CHR ''A'') 50) demo_admin ''k'' demo_enroll_db = (Inr i, d)"
    "db_connectors d = db_connectors demo_enroll_db" "db_credentials d = []" using demo_issue by blast
  let ?t = "new_enrollment (demo_enroll_env 100 (CHR ''A'') 50) demo_admin ''k''" and ?E = "demo_enroll_env 200 (CHR ''B'') 60"
  have inv: "enroll_inv d" using Issue_le [of demo_enroll_db "demo_enroll_env 100 (CHR ''A'') 50" demo_admin "''k''"] i(1) demo_enroll_inv
    by (simp add: enroll_le_def)
  have row: "row_by et_id (ce_newID (demo_enroll_env 100 (CHR ''A'') 50) 0) (db_enrollments d) = Some ?t" by (rule Issue_Inr(3) [OF i(1)])
  have live: "\<not> token_dead (ce_now ?E) ?t" "et_created_at ?t \<le> ce_now ?E" "\<not> list_all (\<lambda>c. c = CHR '' '') (et_name ?t)"
    by (simp_all add: token_dead_def new_enrollment_def demo_enroll_env_def EnrollmentTokenLifetime_def time_Minute_def time_Second_def)
  have digest: "enrollmentDigest (ce_sha256 ?E) (newEnrollmentSecret (demo_enroll_env 100 (CHR ''A'') 50)) = Some (et_token_hash ?t)"
    using enrollmentDigest_issued [of "replicate 32 (CHR ''A'')"]
    by (simp add: newEnrollmentSecret_def new_enrollment_def demo_enroll_env_def)
  obtain r d1 where ok: "Enroll ?E (newEnrollmentSecret (demo_enroll_env 100 (CHR ''A'') 50)) d = (Inr r, d1)"
    using Enroll_live [OF inv row live digest demo_fresh [OF i(2,3)]] by blast
  have "ce_sha256 (demo_enroll_env 300 (CHR ''C'') 70) = ce_sha256 ?E" by (simp add: demo_enroll_env_def)
  from enrollment_token_once [OF inv ok this, of "[]"] ok show ?thesis by blast
qed

theorem revoked_connector_locked_out_witness:
  "\<exists>d1 reg1. Revoke (demo_enroll_env 100 (CHR ''A'') 50) demo_admin ''k'' (demo_enroll_db, NewRegistry) = (Inr (), d1, reg1)
     \<and> RecordHeartbeat \<lparr>pr_ConnectorID = 3, pr_OrganizationID = 1, pr_CredentialID = 9\<rparr> 500 (enroll_run [HeartbeatOp
          \<lparr>pr_ConnectorID = 3, pr_OrganizationID = 1, pr_CredentialID = 9\<rparr> 400] d1)
        = (Inl ConnectorUnauthenticated, enroll_run [HeartbeatOp \<lparr>pr_ConnectorID = 3, pr_OrganizationID = 1, pr_CredentialID = 9\<rparr> 400] d1)"
proof -
  obtain d1 reg1 where ok: "Revoke (demo_enroll_env 100 (CHR ''A'') 50) demo_admin ''k'' (demo_enroll_db, NewRegistry) = (Inr (), d1, reg1)"
    by (simp add: Revoke_def admin_def demo_admin_def demo_enroll_env_def inTransaction_def revoke_tx_def RevokeManagedConnector_def
        demo_enroll_db_def demo_db_def)
  have "ce_parse (demo_enroll_env 100 (CHR ''A'') 50) ''k'' = Some 3" by (simp add: demo_enroll_env_def)
  from revoked_connector_locked_out [OF demo_enroll_inv NewRegistry_inv ok this] ok show ?thesis by blast
qed

end
