(* ===== verification/Lab_Spec.thy ===== *)
theory Lab_Spec
  imports Lab_System Row_History
begin

text \<open>
  The editing of lab specs: \<^verbatim>\<open>internal/server/labspec/service.go\<close> and \<^verbatim>\<open>validate.go\<close>
  on the statements of \<^verbatim>\<open>internal/postgres/labspec.go\<close>.

  The roles of a spec are kept with the row of the spec. \<open>se_parse\<close> and \<open>se_uS\<close> are
  \<^verbatim>\<open>uuid.Parse\<close> and \<^verbatim>\<open>UUID.String\<close>, \<open>se_newID n\<close> the \<open>n\<close>-th identifier that a call draws, and
  \<open>se_collate\<close> the sort key that the collation of the database gives a text, which is what the reads
  order roles by. The tables of mappings and memberships are changed by other parts of the system; the
  step \<open>EnvironmentOp\<close> stands for any such change.
\<close>

section \<open>Data\<close>

datatype Reason =
    ReasonNameBlank | ReasonInvalidText | ReasonVMsEmpty | ReasonRoleBlank | ReasonDuplicateRole
  | ReasonCountOutOfRange | ReasonWorkspaceRoleUnknown | ReasonWorkspaceIndexRange
  | ReasonImageRefUnknown | ReasonSizeRefUnknown | ReasonMixedConnections

datatype spec_error =
    SpecNotFound | SpecForbidden | SpecStaleRevision | SpecInvalid Reason | SpecInconsistentData
  | SpecRepo repo_error

record VM =
  vi_Role :: string
  vi_Name :: "string option"
  vi_ImageRef :: string
  vi_SizeRef :: string
  vi_Count :: int

record WorkspaceVM =
  wv_Role :: string
  wv_InstanceIndex :: int

record Summary =
  su_ID :: uuid
  su_OwnerUserID :: uuid
  su_Name :: string
  su_Description :: "string option"

record Definition = Summary +
  df_Revision :: int
  df_VMs :: "VM list"
  df_WorkspaceVM :: WorkspaceVM
  df_InternetOutbound :: bool
  df_StartupScript :: "string option"

record Write =
  wr_Name :: string
  wr_Description :: "string option"
  wr_VMs :: "VM list"
  wr_WorkspaceVM :: WorkspaceVM
  wr_InternetOutbound :: bool
  wr_StartupScript :: "string option"

record ProviderMapping =
  pm_ID :: uuid
  pm_OrganizationID :: uuid
  pm_ProviderConnectionID :: uuid
  pm_Active :: bool

record LabSpecDefinition =
  sd_Name :: string
  sd_Description :: "string option"
  sd_InternetOutbound :: bool
  sd_StartupScript :: "string option"
  sd_WorkspaceRole :: string
  sd_WorkspaceInstanceIndex :: int
  sd_VMRoles :: "LabSpecVMRole list"

record spec_env =
  se_parse :: "string \<Rightarrow> uuid option"
  se_uS :: "uuid \<Rightarrow> string"
  se_newID :: "nat \<Rightarrow> uuid"
  se_collate :: "string \<Rightarrow> nat list"

section \<open>Statements\<close>

definition HasClassRole :: "uuid \<Rightarrow> string \<Rightarrow> db \<Rightarrow> bool" where
  "HasClassRole user role d = list_ex (\<lambda>m. mb_user m = user \<and> mb_role m = role) (db_memberships d)"

text \<open>The rows of \<^verbatim>\<open>lab_spec_vm_roles\<close> come in the order of the role.\<close>

definition labSpecVMRoles :: "spec_env \<Rightarrow> LabSpec \<Rightarrow> LabSpec" where
  "labSpecVMRoles E s = s\<lparr>ls_VMRoles := sort_key (\<lambda>r. se_collate E (vr_Role r)) (ls_VMRoles s)\<rparr>"

definition LabSpecSummariesByOwner :: "spec_env \<Rightarrow> uuid \<Rightarrow> uuid \<Rightarrow> db \<Rightarrow> LabSpec list" where
  "LabSpecSummariesByOwner E org owner d =
     sort_key (\<lambda>s. (se_collate E (ls_Name s), ls_ID s))
       (filter (\<lambda>s. ls_OrganizationID s = org \<and> ls_OwnerUserID s = owner) (db_lab_specs d))"

definition LabSpecByID :: "spec_env \<Rightarrow> uuid \<Rightarrow> db \<Rightarrow> repo_error + LabSpec" where
  "LabSpecByID E i d =
     (case row_by ls_ID i (db_lab_specs d) of None \<Rightarrow> Inl KindNotFound | Some s \<Rightarrow> Inr (labSpecVMRoles E s))"

definition LabSpecForUpdate :: "spec_env \<Rightarrow> uuid \<Rightarrow> db \<Rightarrow> repo_error + LabSpec" where
  "LabSpecForUpdate E i d =
     (case row_by ls_ID i (db_lab_specs d) of None \<Rightarrow> Inl KindNotFound | Some s \<Rightarrow> Inr (labSpecVMRoles E s))"

definition mappingsForShare :: "uuid \<Rightarrow> uuid list \<Rightarrow> ProviderMapping list \<Rightarrow> ProviderMapping list" where
  "mappingsForShare org ids rows = sort_key pm_ID (filter (\<lambda>m. pm_OrganizationID m = org \<and> pm_ID m \<in> set ids) rows)"

definition image_mapping :: "ResolvedImageMapping \<Rightarrow> ProviderMapping" where
  "image_mapping m = \<lparr>pm_ID = im_ID m, pm_OrganizationID = im_OrganizationID m,
     pm_ProviderConnectionID = im_ProviderConnectionID m, pm_Active = im_Active m\<rparr>"

definition flavor_mapping :: "ResolvedFlavorMapping \<Rightarrow> ProviderMapping" where
  "flavor_mapping m = \<lparr>pm_ID = fm_ID m, pm_OrganizationID = fm_OrganizationID m,
     pm_ProviderConnectionID = fm_ProviderConnectionID m, pm_Active = fm_Active m\<rparr>"

definition ImageMappingsForShare :: "uuid \<Rightarrow> uuid list \<Rightarrow> db \<Rightarrow> ProviderMapping list" where
  "ImageMappingsForShare org ids d = mappingsForShare org ids (map image_mapping (db_image_mappings d))"

definition FlavorMappingsForShare :: "uuid \<Rightarrow> uuid list \<Rightarrow> db \<Rightarrow> ProviderMapping list" where
  "FlavorMappingsForShare org ids d = mappingsForShare org ids (map flavor_mapping (db_flavor_mappings d))"

text \<open>
  What the server makes of a text and of an integer column (a text is valid UTF-8 without NUL, an
  \<^verbatim>\<open>integer\<close> has 32 bits) fails with a code outside the class of the constraints;
  \<^verbatim>\<open>btrim(x) <> ''\<close> and the other checks are in that class.
\<close>

definition pg_text :: "string \<Rightarrow> bool" where
  "pg_text s \<longleftrightarrow> utf8_ValidString s \<and> CHR 0x00 \<notin> set s"

definition pg_null_text :: "string option \<Rightarrow> bool" where
  "pg_null_text s = (case s of None \<Rightarrow> True | Some t \<Rightarrow> pg_text t)"

definition pg_integer :: "int \<Rightarrow> bool" where
  "pg_integer n \<longleftrightarrow> - MaxInt32 - 1 \<le> n \<and> n \<le> MaxInt32"

definition btrim_blank :: "string \<Rightarrow> bool" where
  "btrim_blank s = list_all (\<lambda>c. c = CHR '' '') s"

definition spec_row :: "uuid \<Rightarrow> uuid \<Rightarrow> uuid \<Rightarrow> int \<Rightarrow> LabSpecDefinition \<Rightarrow> LabSpecVMRole list \<Rightarrow> LabSpec" where
  "spec_row i org owner revision def roles =
     \<lparr>ls_ID = i, ls_OrganizationID = org, ls_OwnerUserID = owner, ls_Name = sd_Name def, ls_Description = sd_Description def,
      ls_Revision = revision, ls_InternetOutbound = sd_InternetOutbound def, ls_StartupScript = sd_StartupScript def,
      ls_WorkspaceRole = sd_WorkspaceRole def, ls_WorkspaceInstanceIndex = sd_WorkspaceInstanceIndex def, ls_VMRoles = roles\<rparr>"

definition spec_columns_error :: "LabSpecDefinition \<Rightarrow> repo_error option" where
  "spec_columns_error def =
     (if \<not> pg_text (sd_Name def) \<or> \<not> pg_null_text (sd_Description def) \<or> \<not> pg_null_text (sd_StartupScript def)
         \<or> \<not> pg_text (sd_WorkspaceRole def) \<or> \<not> pg_integer (sd_WorkspaceInstanceIndex def) then Some KindInternal
      else if btrim_blank (sd_Name def) \<or> btrim_blank (sd_WorkspaceRole def) \<or> sd_WorkspaceInstanceIndex def < 0
        then Some KindConstraintViolation
      else None)"

text \<open>One insert per role; \<open>others\<close> are the rows of the other specs.\<close>

fun insertLabSpecVMRoles ::
  "uuid \<Rightarrow> db \<Rightarrow> LabSpecVMRole list \<Rightarrow> LabSpecVMRole list \<Rightarrow> LabSpecVMRole list \<Rightarrow> repo_error + LabSpecVMRole list" where
  "insertLabSpecVMRoles org d others inserted [] = Inr inserted"
| "insertLabSpecVMRoles org d others inserted (r # rs) =
     (if \<not> pg_text (vr_Role r) \<or> \<not> pg_null_text (vr_DisplayName r) \<or> \<not> pg_integer (vr_VMCount r) then Inl KindInternal
      else if btrim_blank (vr_Role r) \<or> vr_VMCount r \<le> 0 then Inl KindConstraintViolation
      else if list_ex (\<lambda>x. vr_ID x = vr_ID r) (others @ inserted) \<or> list_ex (\<lambda>x. vr_Role x = vr_Role r) inserted
        then Inl KindConflict
      else if \<not> list_ex (\<lambda>m. im_OrganizationID m = org \<and> im_ID m = vr_ImageMappingID r) (db_image_mappings d)
           \<or> \<not> list_ex (\<lambda>m. fm_OrganizationID m = org \<and> fm_ID m = vr_FlavorMappingID r) (db_flavor_mappings d)
        then Inl KindConstraintViolation
      else insertLabSpecVMRoles org d others (inserted @ [r]) rs)"

definition roles_except :: "uuid \<Rightarrow> db \<Rightarrow> LabSpecVMRole list" where
  "roles_except i d = concat (map ls_VMRoles (filter (\<lambda>s. ls_ID s \<noteq> i) (db_lab_specs d)))"

definition CreateLabSpec :: "spec_env \<Rightarrow> uuid \<Rightarrow> uuid \<Rightarrow> uuid \<Rightarrow> LabSpecDefinition \<Rightarrow> LabSpec tx" where
  "CreateLabSpec E i org owner def d =
     (case spec_columns_error def of Some e \<Rightarrow> (Inl e, d) | None \<Rightarrow>
      if list_ex (\<lambda>s. ls_ID s = i) (db_lab_specs d) then (Inl KindConflict, d)
      else if \<not> list_ex (\<lambda>u. ur_organization u = org \<and> ur_id u = owner) (db_users d) then (Inl KindConstraintViolation, d)
      else (case insertLabSpecVMRoles org d (roles_except i d) [] (sd_VMRoles def) of
          Inl e \<Rightarrow> (Inl e, d)
        | Inr roles \<Rightarrow>
            let s = spec_row i org owner 1 def roles
            in (Inr (labSpecVMRoles E s), d\<lparr>db_lab_specs := db_lab_specs d @ [s]\<rparr>)))"

text \<open>The columns that an update sets; id, organization and owner stay.\<close>

definition revise :: "LabSpecDefinition \<Rightarrow> LabSpecVMRole list \<Rightarrow> LabSpec \<Rightarrow> LabSpec" where
  "revise def roles s = spec_row (ls_ID s) (ls_OrganizationID s) (ls_OwnerUserID s) (ls_Revision s + 1) def roles"

text \<open>The answer is \<^const>\<open>None\<close> where no row has that id, organization and revision.\<close>

definition UpdateLabSpec :: "spec_env \<Rightarrow> uuid \<Rightarrow> uuid \<Rightarrow> int \<Rightarrow> LabSpecDefinition \<Rightarrow> LabSpec option tx" where
  "UpdateLabSpec E i org expected def d =
     (case find (\<lambda>s. ls_ID s = i \<and> ls_OrganizationID s = org \<and> ls_Revision s = expected) (db_lab_specs d) of
        None \<Rightarrow> (Inr None, d)
      | Some s \<Rightarrow>
          if \<not> in_int64 (ls_Revision s + 1) then (Inl KindInternal, d)
          else (case spec_columns_error def of Some e \<Rightarrow> (Inl e, d) | None \<Rightarrow>
           (case insertLabSpecVMRoles org d (roles_except i d) [] (sd_VMRoles def) of
              Inl e \<Rightarrow> (Inl e, d)
            | Inr roles \<Rightarrow>
                (Inr (Some (labSpecVMRoles E (revise def roles s))),
                 d\<lparr>db_lab_specs := update_rows (\<lambda>s. ls_ID s = i \<and> ls_OrganizationID s = org \<and> ls_Revision s = expected)
                     (revise def roles) (db_lab_specs d)\<rparr>))))"

section \<open>Validation\<close>

definition parse_spec_id :: "spec_env \<Rightarrow> string \<Rightarrow> uuid option" where
  "parse_spec_id E raw = (case se_parse E raw of None \<Rightarrow> None | Some i \<Rightarrow> if se_uS E i \<noteq> raw then None else Some i)"

definition option_list :: "'a option \<Rightarrow> 'a list" where
  "option_list x = (case x of None \<Rightarrow> [] | Some y \<Rightarrow> [y])"

definition write_texts :: "Write \<Rightarrow> string list" where
  "write_texts w =
     [wr_Name w] @ option_list (wr_Description w) @ option_list (wr_StartupScript w) @ [wv_Role (wr_WorkspaceVM w)]
     @ concat (map (\<lambda>v. [vi_Role v] @ option_list (vi_Name v) @ [vi_ImageRef v, vi_SizeRef v]) (wr_VMs w))"

text \<open>The loop over the VMs: the counts by role, and the two ids of each VM.\<close>

fun resolve_vms :: "spec_env \<Rightarrow> (string \<rightharpoonup> int) \<Rightarrow> VM list \<Rightarrow> Reason + (string \<rightharpoonup> int) \<times> (uuid \<times> uuid) list" where
  "resolve_vms E counts [] = Inr (counts, [])"
| "resolve_vms E counts (v # vs) =
     (if strings_TrimSpace (vi_Role v) = [] then Inl ReasonRoleBlank
      else if counts (vi_Role v) \<noteq> None then Inl ReasonDuplicateRole
      else if vi_Count v < 1 \<or> vi_Count v > MaxInt32 then Inl ReasonCountOutOfRange
      else case parse_spec_id E (vi_ImageRef v) of None \<Rightarrow> Inl ReasonImageRefUnknown | Some img \<Rightarrow>
        (case parse_spec_id E (vi_SizeRef v) of None \<Rightarrow> Inl ReasonSizeRefUnknown | Some flavor \<Rightarrow>
          (case resolve_vms E (counts(vi_Role v \<mapsto> vi_Count v)) vs of
             Inl e \<Rightarrow> Inl e | Inr (counts', ids) \<Rightarrow> Inr (counts', (img, flavor) # ids))))"

fun wanted_connection :: "(uuid \<rightharpoonup> ProviderMapping) \<Rightarrow> Reason \<Rightarrow> uuid \<Rightarrow> uuid list \<Rightarrow> spec_error + uuid" where
  "wanted_connection byID missing connection [] = Inr connection"
| "wanted_connection byID missing connection (i # is) =
     (case byID i of None \<Rightarrow> Inl (SpecInvalid missing) | Some m \<Rightarrow>
      if \<not> pm_Active m then Inl (SpecInvalid missing)
      else let c = (if connection = uuid_Nil then pm_ProviderConnectionID m else connection) in
        if pm_ProviderConnectionID m \<noteq> c then Inl (SpecInvalid ReasonMixedConnections)
        else wanted_connection byID missing c is)"

definition sameConnection_spec ::
  "uuid \<Rightarrow> uuid list \<Rightarrow> ProviderMapping list \<Rightarrow> Reason \<Rightarrow> uuid \<Rightarrow> spec_error + uuid" where
  "sameConnection_spec org wanted found missing connection =
     (if list_ex (\<lambda>m. pm_OrganizationID m \<noteq> org) found then Inl SpecInconsistentData
      else wanted_connection (foldl (\<lambda>f m. f(pm_ID m \<mapsto> m)) Map.empty found) missing connection wanted)"

fun new_roles :: "spec_env \<Rightarrow> nat \<Rightarrow> VM list \<Rightarrow> (uuid \<times> uuid) list \<Rightarrow> LabSpecVMRole list" where
  "new_roles E n (v # vs) ((img, flavor) # ids) =
     \<lparr>vr_ID = se_newID E n, vr_Role = vi_Role v, vr_DisplayName = vi_Name v, vr_ImageMappingID = img,
      vr_FlavorMappingID = flavor, vr_VMCount = vi_Count v\<rparr> # new_roles E (Suc n) vs ids"
| "new_roles E n vs ids = []"

definition resolve_write :: "spec_env \<Rightarrow> uuid \<Rightarrow> Write \<Rightarrow> db \<Rightarrow> spec_error + LabSpecDefinition" where
  "resolve_write E org w d =
     (if strings_TrimSpace (wr_Name w) = [] then Inl (SpecInvalid ReasonNameBlank)
      else if list_ex (\<lambda>t. CHR 0x00 \<in> set t) (write_texts w) then Inl (SpecInvalid ReasonInvalidText)
      else if wr_VMs w = [] then Inl (SpecInvalid ReasonVMsEmpty)
      else case resolve_vms E Map.empty (wr_VMs w) of Inl e \<Rightarrow> Inl (SpecInvalid e) | Inr (counts, ids) \<Rightarrow>
       (case counts (wv_Role (wr_WorkspaceVM w)) of None \<Rightarrow> Inl (SpecInvalid ReasonWorkspaceRoleUnknown) | Some n \<Rightarrow>
        if wv_InstanceIndex (wr_WorkspaceVM w) < 0 \<or> wv_InstanceIndex (wr_WorkspaceVM w) \<ge> n
          then Inl (SpecInvalid ReasonWorkspaceIndexRange)
        else let images = ImageMappingsForShare org (distinct_ids {} (map fst ids)) d;
                 flavors = FlavorMappingsForShare org (distinct_ids {} (map snd ids)) d in
          case sameConnection_spec org (map fst ids) images ReasonImageRefUnknown uuid_Nil of Inl e \<Rightarrow> Inl e | Inr connection \<Rightarrow>
         (case sameConnection_spec org (map snd ids) flavors ReasonSizeRefUnknown connection of Inl e \<Rightarrow> Inl e | Inr _ \<Rightarrow>
          Inr \<lparr>sd_Name = wr_Name w, sd_Description = wr_Description w, sd_InternetOutbound = wr_InternetOutbound w,
               sd_StartupScript = wr_StartupScript w, sd_WorkspaceRole = wv_Role (wr_WorkspaceVM w),
               sd_WorkspaceInstanceIndex = wv_InstanceIndex (wr_WorkspaceVM w),
               sd_VMRoles = new_roles E 0 (wr_VMs w) ids\<rparr>)))"

section \<open>Operations\<close>

definition requireInstructor :: "User \<Rightarrow> db \<Rightarrow> spec_error option" where
  "requireInstructor user d = (if \<not> HasClassRole (us_ID user) ''INSTRUCTOR'' d then Some SpecForbidden else None)"

definition toDefinition :: "spec_env \<Rightarrow> LabSpec \<Rightarrow> spec_error + Definition" where
  "toDefinition E s =
     (if ls_Revision s < 1 \<or> ls_VMRoles s = [] then Inl SpecInconsistentData
      else Inr \<lparr>su_ID = ls_ID s, su_OwnerUserID = ls_OwnerUserID s, su_Name = ls_Name s, su_Description = ls_Description s,
                df_Revision = ls_Revision s,
                df_VMs = map (\<lambda>r. \<lparr>vi_Role = vr_Role r, vi_Name = vr_DisplayName r, vi_ImageRef = se_uS E (vr_ImageMappingID r),
                                   vi_SizeRef = se_uS E (vr_FlavorMappingID r), vi_Count = vr_VMCount r\<rparr>) (ls_VMRoles s),
                df_WorkspaceVM = \<lparr>wv_Role = ls_WorkspaceRole s, wv_InstanceIndex = ls_WorkspaceInstanceIndex s\<rparr>,
                df_InternetOutbound = ls_InternetOutbound s, df_StartupScript = ls_StartupScript s\<rparr>)"

definition List_specs :: "spec_env \<Rightarrow> User \<Rightarrow> db \<Rightarrow> spec_error + Summary list" where
  "List_specs E user d =
     (let items = LabSpecSummariesByOwner E (us_OrganizationID user) (us_ID user) d in
      if list_ex (\<lambda>s. ls_OrganizationID s \<noteq> us_OrganizationID user \<or> ls_OwnerUserID s \<noteq> us_ID user) items
        then Inl SpecInconsistentData
      else Inr (map (\<lambda>s. \<lparr>su_ID = ls_ID s, su_OwnerUserID = ls_OwnerUserID s, su_Name = ls_Name s,
                           su_Description = ls_Description s\<rparr>) items))"

definition Get_spec :: "spec_env \<Rightarrow> User \<Rightarrow> string \<Rightarrow> db \<Rightarrow> spec_error + Definition" where
  "Get_spec E user labSpecID d =
     (case parse_spec_id E labSpecID of None \<Rightarrow> Inl SpecNotFound | Some i \<Rightarrow>
     (case LabSpecByID E i d of
        Inl e \<Rightarrow> if e = KindNotFound then Inl SpecNotFound else Inl (SpecRepo e)
      | Inr s \<Rightarrow>
          if ls_OrganizationID s \<noteq> us_OrganizationID user then Inl SpecNotFound
          else if ls_OwnerUserID s \<noteq> us_ID user then Inl SpecForbidden
          else toDefinition E s))"

text \<open>The n-th identifier: the roles draw theirs first, the spec draws the next one.\<close>

definition create_tx :: "spec_env \<Rightarrow> User \<Rightarrow> Write \<Rightarrow> db \<Rightarrow> (spec_error + LabSpec) \<times> db" where
  "create_tx E user w d =
     (case requireInstructor user d of Some e \<Rightarrow> (Inl e, d) | None \<Rightarrow>
     (case resolve_write E (us_OrganizationID user) w d of Inl e \<Rightarrow> (Inl e, d) | Inr def \<Rightarrow>
     (case CreateLabSpec E (se_newID E (length (wr_VMs w))) (us_OrganizationID user) (us_ID user) def d of
        (Inl e, d') \<Rightarrow> (Inl (SpecRepo e), d') | (Inr s, d') \<Rightarrow> (Inr s, d'))))"

definition Create_spec :: "spec_env \<Rightarrow> User \<Rightarrow> Write \<Rightarrow> db \<Rightarrow> (spec_error + Definition) \<times> db" where
  "Create_spec E user w d =
     (case inTransaction (create_tx E user w) d of
        (Inl e, d') \<Rightarrow> (Inl e, d') | (Inr s, d') \<Rightarrow> (toDefinition E s, d'))"

definition FormatInt :: "int \<Rightarrow> string" where
  "FormatInt n = (if n < 0 then CHR ''-'' # decimal (nat (- n)) else decimal (nat n))"

definition update_tx :: "spec_env \<Rightarrow> User \<Rightarrow> uuid \<Rightarrow> string \<Rightarrow> Write \<Rightarrow> db \<Rightarrow> (spec_error + LabSpec) \<times> db" where
  "update_tx E user i ifMatch w d =
     (case LabSpecForUpdate E i d of
        Inl e \<Rightarrow> (if e = KindNotFound then Inl SpecNotFound else Inl (SpecRepo e), d)
      | Inr current \<Rightarrow>
          if ls_OrganizationID current \<noteq> us_OrganizationID user then (Inl SpecNotFound, d)
          else if ls_OwnerUserID current \<noteq> us_ID user then (Inl SpecForbidden, d)
          else case requireInstructor user d of Some e \<Rightarrow> (Inl e, d) | None \<Rightarrow>
            if ifMatch \<noteq> FormatInt (ls_Revision current) then (Inl SpecStaleRevision, d)
            else (case resolve_write E (us_OrganizationID user) w d of Inl e \<Rightarrow> (Inl e, d) | Inr def \<Rightarrow>
              (case UpdateLabSpec E i (us_OrganizationID user) (ls_Revision current) def d of
                 (Inl e, d') \<Rightarrow> (Inl (SpecRepo e), d')
               | (Inr None, d') \<Rightarrow> (Inl SpecInconsistentData, d')
               | (Inr (Some s), d') \<Rightarrow> (Inr s, d'))))"

definition Update_spec :: "spec_env \<Rightarrow> User \<Rightarrow> string \<Rightarrow> string \<Rightarrow> Write \<Rightarrow> db \<Rightarrow> (spec_error + Definition) \<times> db" where
  "Update_spec E user labSpecID ifMatch w d =
     (case parse_spec_id E labSpecID of None \<Rightarrow> (Inl SpecNotFound, d) | Some i \<Rightarrow>
     (case inTransaction (update_tx E user i ifMatch w) d of
        (Inl e, d') \<Rightarrow> (Inl e, d') | (Inr s, d') \<Rightarrow> (toDefinition E s, d')))"

section \<open>Runs\<close>

datatype spec_op =
    CreateOp spec_env User Write
  | UpdateOp spec_env User string string Write
  | EnvironmentOp "membership_row list" "ResolvedImageMapping list" "ResolvedFlavorMapping list" "user_row list"

fun spec_step :: "spec_op \<Rightarrow> db \<Rightarrow> db" where
  "spec_step (CreateOp E user w) d = snd (Create_spec E user w d)"
| "spec_step (UpdateOp E user i ifMatch w) d = snd (Update_spec E user i ifMatch w d)"
| "spec_step (EnvironmentOp ms ims fms us) d =
     d\<lparr>db_memberships := ms, db_image_mappings := ims, db_flavor_mappings := fms, db_users := us\<rparr>"

definition spec_run :: "spec_op list \<Rightarrow> db \<Rightarrow> db" where
  "spec_run ops d = fold spec_step ops d"

section \<open>What validation establishes\<close>

lemma resolve_vms_Inr:
  "resolve_vms E counts vs = Inr (counts', ids) \<Longrightarrow>
     list_all2 (\<lambda>v (img, fl). parse_spec_id E (vi_ImageRef v) = Some img \<and> parse_spec_id E (vi_SizeRef v) = Some fl) vs ids
   \<and> distinct (map vi_Role vs) \<and> (\<forall>v \<in> set vs. counts (vi_Role v) = None)
   \<and> (\<forall>v \<in> set vs. strings_TrimSpace (vi_Role v) \<noteq> [] \<and> 1 \<le> vi_Count v \<and> vi_Count v \<le> MaxInt32)
   \<and> (\<forall>k n. counts' k = Some n \<longrightarrow> counts k = Some n \<or> (\<exists>v \<in> set vs. vi_Role v = k \<and> vi_Count v = n))"
proof (induction vs arbitrary: counts counts' ids)
  case (Cons v vs)
  from Cons.prems obtain img fl c ids' where
    v: "strings_TrimSpace (vi_Role v) \<noteq> []" "counts (vi_Role v) = None" "\<not> vi_Count v < 1" "\<not> vi_Count v > MaxInt32" and
    p: "parse_spec_id E (vi_ImageRef v) = Some img" "parse_spec_id E (vi_SizeRef v) = Some fl" and
    rest: "resolve_vms E (counts(vi_Role v \<mapsto> vi_Count v)) vs = Inr (c, ids')" and
    res: "counts' = c" "ids = (img, fl) # ids'"
    by (auto split: if_splits option.splits sum.splits)
  note IH = Cons.IH [OF rest]
  have fresh: "vi_Role x \<noteq> vi_Role v \<and> counts (vi_Role x) = None" if "x \<in> set vs" for x
    using IH that by (metis fun_upd_apply option.distinct(1))
  have "counts k = Some n \<or> (\<exists>x \<in> set (v # vs). vi_Role x = k \<and> vi_Count x = n)" if "counts' k = Some n" for k n
  proof -
    from IH that res have "(counts(vi_Role v \<mapsto> vi_Count v)) k = Some n \<or> (\<exists>x \<in> set vs. vi_Role x = k \<and> vi_Count x = n)" by blast
    then show ?thesis by (cases "k = vi_Role v") auto
  qed
  moreover have "distinct (map vi_Role (v # vs))" using IH fresh by fastforce
  ultimately show ?case using IH v p res fresh by auto
qed simp

text \<open>The roles carry what was written, and the identifiers of the mappings that the references name.\<close>

definition vm_of_role :: "spec_env \<Rightarrow> LabSpecVMRole \<Rightarrow> VM" where
  "vm_of_role E r = \<lparr>vi_Role = vr_Role r, vi_Name = vr_DisplayName r, vi_ImageRef = se_uS E (vr_ImageMappingID r),
     vi_SizeRef = se_uS E (vr_FlavorMappingID r), vi_Count = vr_VMCount r\<rparr>"

lemma parse_spec_id_Some: "parse_spec_id E raw = Some i \<Longrightarrow> se_uS E i = raw"
  by (auto simp: parse_spec_id_def split: option.splits if_splits)

lemma new_roles_written:
  "list_all2 (\<lambda>v (img, fl). parse_spec_id E (vi_ImageRef v) = Some img \<and> parse_spec_id E (vi_SizeRef v) = Some fl) vs ids \<Longrightarrow>
   map (vm_of_role E) (new_roles E n vs ids) = vs
   \<and> map vr_ImageMappingID (new_roles E n vs ids) = map fst ids \<and> map vr_FlavorMappingID (new_roles E n vs ids) = map snd ids"
proof (induction vs ids arbitrary: n rule: list_all2_induct)
  case (Cons v vs p ids)
  obtain img fl where p: "p = (img, fl)" by (cases p)
  with Cons show ?case by (cases v) (auto simp: vm_of_role_def dest: parse_spec_id_Some)
qed simp

lemma wanted_connection_Inr:
  "wanted_connection byID missing c ids = Inr c' \<Longrightarrow>
   (\<forall>i \<in> set ids. \<exists>m. byID i = Some m \<and> pm_Active m \<and> pm_ProviderConnectionID m \<in> {c', uuid_Nil}) \<and> (c = uuid_Nil \<or> c' = c)"
proof (induction ids arbitrary: c)
  case (Cons i ids)
  from Cons.prems obtain m where m: "byID i = Some m" "pm_Active m" and
    c: "pm_ProviderConnectionID m = (if c = uuid_Nil then pm_ProviderConnectionID m else c)" and
    rest: "wanted_connection byID missing (if c = uuid_Nil then pm_ProviderConnectionID m else c) ids = Inr c'"
    by (auto simp: Let_def split: option.splits if_splits)
  from Cons.IH [OF rest] m c show ?case by (auto split: if_splits)
qed simp

lemma index_mappings:
  "foldl (\<lambda>f m. f(pm_ID m \<mapsto> m)) acc ms i = Some m \<Longrightarrow> acc i = Some m \<or> m \<in> set ms \<and> pm_ID m = i"
  by (induction ms arbitrary: acc) (force split: if_splits)+

text \<open>A mapping that the organization may use with connection \<open>c\<close>.\<close>

definition usable_mapping :: "uuid \<Rightarrow> uuid \<Rightarrow> uuid \<Rightarrow> ProviderMapping list \<Rightarrow> bool" where
  "usable_mapping org c i rows \<longleftrightarrow>
     list_ex (\<lambda>m. pm_ID m = i \<and> pm_OrganizationID m = org \<and> pm_Active m
        \<and> (pm_ProviderConnectionID m = c \<or> pm_ProviderConnectionID m = uuid_Nil)) rows"

lemma sameConnection_spec_Inr:
  assumes "sameConnection_spec org ids (mappingsForShare org sel rows) missing c = Inr c'"
  shows "(\<forall>i \<in> set ids. usable_mapping org c' i rows) \<and> (c = uuid_Nil \<or> c' = c)"
proof -
  let ?f = "foldl (\<lambda>f m. f(pm_ID m \<mapsto> m)) Map.empty (mappingsForShare org sel rows)"
  from assms have w: "wanted_connection ?f missing c ids = Inr c'" by (auto simp: sameConnection_spec_def split: if_splits)
  have "usable_mapping org c' i rows" if i: "i \<in> set ids" for i
  proof -
    from wanted_connection_Inr [OF w] i obtain m where m: "?f i = Some m" "pm_Active m" "pm_ProviderConnectionID m \<in> {c', uuid_Nil}"
      by blast
    from index_mappings [OF m(1)] have "m \<in> set rows" "pm_OrganizationID m = org" "pm_ID m = i"
      by (auto simp: mappingsForShare_def)
    with m show ?thesis by (auto simp: usable_mapping_def list_ex_iff)
  qed
  with wanted_connection_Inr [OF w] show ?thesis by blast
qed

section \<open>What is stored\<close>

text \<open>
  A definition that validation accepts, and a spec that came from one. \<open>roles_ok\<close> is what the code
  promises of the roles; it does not depend on the mappings, which may be withdrawn later.
\<close>

definition roles_ok :: "LabSpecVMRole list \<Rightarrow> string \<Rightarrow> int \<Rightarrow> bool" where
  "roles_ok roles workspace index \<longleftrightarrow>
     roles \<noteq> [] \<and> distinct (map vr_Role roles)
   \<and> list_all (\<lambda>r. strings_TrimSpace (vr_Role r) \<noteq> [] \<and> 1 \<le> vr_VMCount r \<and> vr_VMCount r \<le> MaxInt32) roles
   \<and> list_ex (\<lambda>r. vr_Role r = workspace \<and> 0 \<le> index \<and> index < vr_VMCount r) roles"

definition spec_ok :: "LabSpec \<Rightarrow> bool" where
  "spec_ok s \<longleftrightarrow> 1 \<le> ls_Revision s \<and> strings_TrimSpace (ls_Name s) \<noteq> []
     \<and> roles_ok (ls_VMRoles s) (ls_WorkspaceRole s) (ls_WorkspaceInstanceIndex s)"

definition spec_inv :: "db \<Rightarrow> bool" where
  "spec_inv d \<longleftrightarrow> list_all spec_ok (db_lab_specs d)"

lemma length_vm_of_role: "map (vm_of_role E) rs = vs \<Longrightarrow> map vi_Role vs = map vr_Role rs \<and> map vi_Count vs = map vr_VMCount rs"
  by (auto simp: vm_of_role_def)

text \<open>One lemma for what a successful validation gives.\<close>

lemma resolve_write_Inr:
  assumes "resolve_write E org w d = Inr def"
  obtains c where
    "map (vm_of_role E) (sd_VMRoles def) = wr_VMs w"
    "roles_ok (sd_VMRoles def) (sd_WorkspaceRole def) (sd_WorkspaceInstanceIndex def)"
    "strings_TrimSpace (sd_Name def) \<noteq> []"
    "list_all (\<lambda>r. usable_mapping org c (vr_ImageMappingID r) (map image_mapping (db_image_mappings d))
        \<and> usable_mapping org c (vr_FlavorMappingID r) (map flavor_mapping (db_flavor_mappings d))) (sd_VMRoles def)"
    "sd_Name def = wr_Name w" "sd_Description def = wr_Description w" "sd_InternetOutbound def = wr_InternetOutbound w"
    "sd_StartupScript def = wr_StartupScript w" "sd_WorkspaceRole def = wv_Role (wr_WorkspaceVM w)"
    "sd_WorkspaceInstanceIndex def = wv_InstanceIndex (wr_WorkspaceVM w)"
proof -
  from assms obtain counts ids n c0 c where
    name: "strings_TrimSpace (wr_Name w) \<noteq> []" and ne: "wr_VMs w \<noteq> []" and
    vms: "resolve_vms E Map.empty (wr_VMs w) = Inr (counts, ids)" and
    n: "counts (wv_Role (wr_WorkspaceVM w)) = Some n" "0 \<le> wv_InstanceIndex (wr_WorkspaceVM w)" "wv_InstanceIndex (wr_WorkspaceVM w) < n" and
    im: "sameConnection_spec org (map fst ids) (ImageMappingsForShare org (distinct_ids {} (map fst ids)) d) ReasonImageRefUnknown uuid_Nil = Inr c0" and
    fl: "sameConnection_spec org (map snd ids) (FlavorMappingsForShare org (distinct_ids {} (map snd ids)) d) ReasonSizeRefUnknown c0 = Inr c" and
    def: "def = \<lparr>sd_Name = wr_Name w, sd_Description = wr_Description w, sd_InternetOutbound = wr_InternetOutbound w,
               sd_StartupScript = wr_StartupScript w, sd_WorkspaceRole = wv_Role (wr_WorkspaceVM w),
               sd_WorkspaceInstanceIndex = wv_InstanceIndex (wr_WorkspaceVM w), sd_VMRoles = new_roles E 0 (wr_VMs w) ids\<rparr>"
    by (auto simp: resolve_write_def Let_def not_less not_le split: if_splits option.splits sum.splits)
  note V = resolve_vms_Inr [OF vms]
  have W: "map (vm_of_role E) (sd_VMRoles def) = wr_VMs w" "map vr_ImageMappingID (sd_VMRoles def) = map fst ids"
    "map vr_FlavorMappingID (sd_VMRoles def) = map snd ids"
    using new_roles_written [of E "wr_VMs w" ids 0] V by (simp_all add: def)
  have roles: "list_all (\<lambda>v. strings_TrimSpace (vi_Role v) \<noteq> [] \<and> 1 \<le> vi_Count v \<and> vi_Count v \<le> MaxInt32) (map (vm_of_role E) (sd_VMRoles def))"
    using V by (simp add: W(1) list_all_iff)
  have ws: "list_ex (\<lambda>v. vi_Role v = wv_Role (wr_WorkspaceVM w) \<and> wv_InstanceIndex (wr_WorkspaceVM w) < vi_Count v) (map (vm_of_role E) (sd_VMRoles def))"
    using V n by (force simp: W(1) list_ex_iff)
  have ok: "roles_ok (sd_VMRoles def) (sd_WorkspaceRole def) (sd_WorkspaceInstanceIndex def)"
    using V ne roles ws n(2) length_vm_of_role [OF W(1)] W(1)
    by (auto simp: roles_ok_def def list_all_iff list_ex_iff vm_of_role_def)
  have I: "usable_mapping org c0 (vr_ImageMappingID r) (map image_mapping (db_image_mappings d))" if "r \<in> set (sd_VMRoles def)" for r
  proof -
    have "vr_ImageMappingID r \<in> set (map fst ids)" using that by (simp flip: W(2))
    with sameConnection_spec_Inr [OF im [unfolded ImageMappingsForShare_def]] show ?thesis by blast
  qed
  have F: "usable_mapping org c (vr_FlavorMappingID r) (map flavor_mapping (db_flavor_mappings d))" if "r \<in> set (sd_VMRoles def)" for r
  proof -
    have "vr_FlavorMappingID r \<in> set (map snd ids)" using that by (simp flip: W(3))
    with sameConnection_spec_Inr [OF fl [unfolded FlavorMappingsForShare_def]] show ?thesis by blast
  qed
  have "usable_mapping org c i rows" if "usable_mapping org c0 i rows" for i rows
    using that sameConnection_spec_Inr [OF fl [unfolded FlavorMappingsForShare_def]]
    by (auto simp: usable_mapping_def list_ex_iff)
  with I F have M: "list_all (\<lambda>r. usable_mapping org c (vr_ImageMappingID r) (map image_mapping (db_image_mappings d))
        \<and> usable_mapping org c (vr_FlavorMappingID r) (map flavor_mapping (db_flavor_mappings d))) (sd_VMRoles def)"
    by (simp add: list_all_iff)
  show thesis by (rule that [OF W(1) ok _ M]) (simp_all add: def name)
qed

lemma insertLabSpecVMRoles_Inr: "insertLabSpecVMRoles org d others inserted rs = Inr roles \<Longrightarrow> roles = inserted @ rs"
  by (induction rs arbitrary: inserted) (fastforce split: if_splits)+

lemma CreateLabSpec_Inr:
  assumes "CreateLabSpec E i org owner def d = (Inr s, d')"
  shows "s = labSpecVMRoles E (spec_row i org owner 1 def (sd_VMRoles def))"
    and "d' = d\<lparr>db_lab_specs := db_lab_specs d @ [spec_row i org owner 1 def (sd_VMRoles def)]\<rparr>"
    and "row_by ls_ID i (db_lab_specs d) = None"
  using assms insertLabSpecVMRoles_Inr [of org d "roles_except i d" "[]" "sd_VMRoles def"]
  by (auto simp: CreateLabSpec_def Let_def row_by_None list_ex_iff split: if_splits option.splits sum.splits)

lemma find_conj:
  "row_by key i rows = Some r \<Longrightarrow> Q r \<Longrightarrow> find (\<lambda>x. key x = i \<and> Q x) rows = Some r"
  unfolding row_by_def by (induction rows) (auto split: if_splits)

lemma UpdateLabSpec_Inr:
  assumes "UpdateLabSpec E i org n def d = (Inr (Some s), d')"
  obtains s0 where "find (\<lambda>s. ls_ID s = i \<and> ls_OrganizationID s = org \<and> ls_Revision s = n) (db_lab_specs d) = Some s0"
    "s = labSpecVMRoles E (revise def (sd_VMRoles def) s0)"
    "d' = d\<lparr>db_lab_specs := update_rows (\<lambda>s. ls_ID s = i \<and> ls_OrganizationID s = org \<and> ls_Revision s = n)
              (revise def (sd_VMRoles def)) (db_lab_specs d)\<rparr>"
  using assms insertLabSpecVMRoles_Inr [of org d "roles_except i d" "[]" "sd_VMRoles def"]
  by (auto simp: UpdateLabSpec_def split: if_splits option.splits sum.splits)

lemma revise_sel [simp]:
  "ls_ID (revise def roles s) = ls_ID s" "ls_OrganizationID (revise def roles s) = ls_OrganizationID s"
  "ls_OwnerUserID (revise def roles s) = ls_OwnerUserID s" "ls_Revision (revise def roles s) = ls_Revision s + 1"
  "ls_VMRoles (revise def roles s) = roles" "ls_Name (revise def roles s) = sd_Name def"
  "ls_WorkspaceRole (revise def roles s) = sd_WorkspaceRole def"
  "ls_WorkspaceInstanceIndex (revise def roles s) = sd_WorkspaceInstanceIndex def"
  by (simp_all add: revise_def spec_row_def)

lemma labSpecVMRoles_sel [simp]:
  "ls_ID (labSpecVMRoles E s) = ls_ID s" "ls_OrganizationID (labSpecVMRoles E s) = ls_OrganizationID s"
  "ls_OwnerUserID (labSpecVMRoles E s) = ls_OwnerUserID s" "ls_Revision (labSpecVMRoles E s) = ls_Revision s"
  by (simp_all add: labSpecVMRoles_def)

text \<open>Sorting commutes with a map that keeps the key.\<close>

lemma map_insort_key: "(\<And>x. g (f x) = k x) \<Longrightarrow> map f (insort_key k x xs) = insort_key g (f x) (map f xs)"
  by (induction xs) auto

lemma map_sort_key: "(\<And>x. g (f x) = k x) \<Longrightarrow> map f (sort_key k xs) = sort_key g (map f xs)"
  by (induction xs) (auto simp: sort_key_def map_insort_key [of g f k])

lemma toDefinition_written:
  assumes "map (vm_of_role E) roles = vs" and "roles \<noteq> []" and "ls_VMRoles s = roles" and "1 \<le> ls_Revision s"
  shows "toDefinition E (labSpecVMRoles E s) =
     Inr \<lparr>su_ID = ls_ID s, su_OwnerUserID = ls_OwnerUserID s, su_Name = ls_Name s, su_Description = ls_Description s,
          df_Revision = ls_Revision s, df_VMs = sort_key (\<lambda>v. se_collate E (vi_Role v)) vs,
          df_WorkspaceVM = \<lparr>wv_Role = ls_WorkspaceRole s, wv_InstanceIndex = ls_WorkspaceInstanceIndex s\<rparr>,
          df_InternetOutbound = ls_InternetOutbound s, df_StartupScript = ls_StartupScript s\<rparr>"
proof -
  have "map (vm_of_role E) (sort_key (\<lambda>r. se_collate E (vr_Role r)) roles) = sort_key (\<lambda>v. se_collate E (vi_Role v)) vs"
    using map_sort_key [of "\<lambda>v. se_collate E (vi_Role v)" "vm_of_role E" "\<lambda>r. se_collate E (vr_Role r)" roles]
    by (simp add: vm_of_role_def assms(1) [symmetric])
  moreover have "sort_key (\<lambda>r. se_collate E (vr_Role r)) roles \<noteq> []" using assms(2) by (metis length_0_conv length_sort)
  ultimately show ?thesis
    using assms(3,4) by (simp add: toDefinition_def labSpecVMRoles_def vm_of_role_def [abs_def])
qed

section \<open>The history of the table\<close>

definition spec_le :: "LabSpec \<Rightarrow> LabSpec \<Rightarrow> bool" where
  "spec_le s s' \<longleftrightarrow> ls_ID s' = ls_ID s \<and> ls_OrganizationID s' = ls_OrganizationID s
     \<and> ls_OwnerUserID s' = ls_OwnerUserID s \<and> ls_Revision s \<le> ls_Revision s'"

interpretation spec_history: row_history ls_ID spec_le
  by unfold_locales (auto simp: spec_le_def)

text \<open>The two transactions, by their effect on the table.\<close>

definition creates :: "User \<Rightarrow> LabSpecDefinition \<Rightarrow> uuid \<Rightarrow> db \<Rightarrow> db \<Rightarrow> bool" where
  "creates user def i d d' \<longleftrightarrow> row_by ls_ID i (db_lab_specs d) = None
     \<and> d' = d\<lparr>db_lab_specs := db_lab_specs d @ [spec_row i (us_OrganizationID user) (us_ID user) 1 def (sd_VMRoles def)]\<rparr>"

definition updates :: "User \<Rightarrow> LabSpecDefinition \<Rightarrow> LabSpec \<Rightarrow> db \<Rightarrow> db \<Rightarrow> bool" where
  "updates user def s d d' \<longleftrightarrow> row_by ls_ID (ls_ID s) (db_lab_specs d) = Some s
     \<and> ls_OrganizationID s = us_OrganizationID user \<and> ls_OwnerUserID s = us_ID user
     \<and> d' = d\<lparr>db_lab_specs := update_rows (\<lambda>x. ls_ID x = ls_ID s \<and> ls_OrganizationID x = us_OrganizationID user
                \<and> ls_Revision x = ls_Revision s) (revise def (sd_VMRoles def)) (db_lab_specs d)\<rparr>"

lemma create_tx_Inr:
  assumes "create_tx E user w d = (Inr s, d')"
  obtains def where "HasClassRole (us_ID user) ''INSTRUCTOR'' d" "resolve_write E (us_OrganizationID user) w d = Inr def"
    "creates user def (se_newID E (length (wr_VMs w))) d d'"
    "s = labSpecVMRoles E (spec_row (se_newID E (length (wr_VMs w))) (us_OrganizationID user) (us_ID user) 1 def (sd_VMRoles def))"
proof -
  from assms obtain def where r: "requireInstructor user d = None" "resolve_write E (us_OrganizationID user) w d = Inr def"
    and c: "CreateLabSpec E (se_newID E (length (wr_VMs w))) (us_OrganizationID user) (us_ID user) def d = (Inr s, d')"
    by (auto simp: create_tx_def split: option.splits sum.splits prod.splits)
  show thesis
    by (rule that [OF _ r(2)]) (use r(1) CreateLabSpec_Inr [OF c] in \<open>simp_all add: creates_def requireInstructor_def split: if_splits\<close>)
qed

lemma update_tx_Inr:
  assumes "update_tx E user i ifMatch w d = (Inr s, d')"
  obtains def s0 where "row_by ls_ID i (db_lab_specs d) = Some s0" "ls_ID s0 = i" "ifMatch = FormatInt (ls_Revision s0)"
    "HasClassRole (us_ID user) ''INSTRUCTOR'' d" "resolve_write E (us_OrganizationID user) w d = Inr def"
    "updates user def s0 d d'" "s = labSpecVMRoles E (revise def (sd_VMRoles def) s0)"
proof -
  from assms obtain def s0 where
    row: "row_by ls_ID i (db_lab_specs d) = Some s0" and
    g: "ls_OrganizationID s0 = us_OrganizationID user" "ls_OwnerUserID s0 = us_ID user" "requireInstructor user d = None"
       "ifMatch = FormatInt (ls_Revision s0)" and
    r: "resolve_write E (us_OrganizationID user) w d = Inr def" and
    u: "UpdateLabSpec E i (us_OrganizationID user) (ls_Revision s0) def d = (Inr (Some s), d')"
    by (auto simp: update_tx_def LabSpecForUpdate_def split: option.splits sum.splits prod.splits if_splits)
  have i: "ls_ID s0 = i" using row_by_key [OF row] by simp
  have f: "find (\<lambda>s. ls_ID s = i \<and> ls_OrganizationID s = us_OrganizationID user \<and> ls_Revision s = ls_Revision s0) (db_lab_specs d) = Some s0"
    using find_conj [OF row, of "\<lambda>s. ls_OrganizationID s = us_OrganizationID user \<and> ls_Revision s = ls_Revision s0"] g by simp
  from UpdateLabSpec_Inr [OF u] f have u': "s = labSpecVMRoles E (revise def (sd_VMRoles def) s0)"
    "d' = d\<lparr>db_lab_specs := update_rows (\<lambda>s. ls_ID s = i \<and> ls_OrganizationID s = us_OrganizationID user \<and> ls_Revision s = ls_Revision s0)
              (revise def (sd_VMRoles def)) (db_lab_specs d)\<rparr>" by auto
  show thesis
    by (rule that [OF row i g(4) _ r _ u'(1)]) (use g row i u'(2) in \<open>simp_all add: updates_def requireInstructor_def split: if_splits\<close>)
qed

lemma creates_grow: "creates user def i d d' \<Longrightarrow> rows_grow ls_ID spec_le (db_lab_specs d) (db_lab_specs d')"
  by (simp add: creates_def spec_history.grow_append)

lemma updates_grow: "updates user def s d d' \<Longrightarrow> rows_grow ls_ID spec_le (db_lab_specs d) (db_lab_specs d')"
  by (auto simp: updates_def spec_le_def intro!: spec_history.grow_update)

lemma updates_memberships: "updates user def s d d' \<Longrightarrow> db_memberships d' = db_memberships d"
  by (simp add: updates_def)

lemma Create_spec_cases:
  obtains "snd (Create_spec E user w d) = d"
  | def s where "resolve_write E (us_OrganizationID user) w d = Inr def" "HasClassRole (us_ID user) ''INSTRUCTOR'' d"
      "creates user def (se_newID E (length (wr_VMs w))) d (snd (Create_spec E user w d))"
proof (cases "create_tx E user w d")
  case (Pair r d')
  show ?thesis
  proof (cases r)
    case (Inl e)
    then have "snd (Create_spec E user w d) = d" by (simp add: Create_spec_def inTransaction_def Pair)
    then show ?thesis by (rule that(1))
  next
    case (Inr s)
    with Pair have tx: "create_tx E user w d = (Inr s, d')" by simp
    then have "snd (Create_spec E user w d) = d'" by (simp add: Create_spec_def inTransaction_def)
    with create_tx_Inr [OF tx] that(2) show ?thesis by metis
  qed
qed

lemma Update_spec_cases:
  obtains "snd (Update_spec E user raw ifMatch w d) = d"
  | def s where "resolve_write E (us_OrganizationID user) w d = Inr def" "HasClassRole (us_ID user) ''INSTRUCTOR'' d"
      "updates user def s d (snd (Update_spec E user raw ifMatch w d))"
proof (cases "parse_spec_id E raw")
  case None
  then have "snd (Update_spec E user raw ifMatch w d) = d" by (simp add: Update_spec_def)
  then show ?thesis by (rule that(1))
next
  case (Some i)
  obtain r d' where tx: "update_tx E user i ifMatch w d = (r, d')" by (cases "update_tx E user i ifMatch w d")
  show ?thesis
  proof (cases r)
    case (Inl e)
    then have "snd (Update_spec E user raw ifMatch w d) = d" by (simp add: Update_spec_def inTransaction_def Some tx)
    then show ?thesis by (rule that(1))
  next
    case (Inr s)
    with tx have u: "update_tx E user i ifMatch w d = (Inr s, d')" by simp
    then have "snd (Update_spec E user raw ifMatch w d) = d'" by (simp add: Update_spec_def inTransaction_def Some)
    with update_tx_Inr [OF u] that(2) show ?thesis by metis
  qed
qed

lemma spec_step_grow: "rows_grow ls_ID spec_le (db_lab_specs d) (db_lab_specs (spec_step a d))"
proof (cases a)
  case (CreateOp E user w)
  show ?thesis
    by (rule Create_spec_cases [of E user w d]) (auto simp: CreateOp spec_history.grow_refl intro: creates_grow)
next
  case (UpdateOp E user raw m w)
  show ?thesis
    by (rule Update_spec_cases [of E user raw m w d]) (auto simp: UpdateOp spec_history.grow_refl intro: updates_grow)
next
  case (EnvironmentOp ms ims fms us)
  then show ?thesis by (simp add: spec_history.grow_refl)
qed

lemma spec_run_grow: "rows_grow ls_ID spec_le (db_lab_specs d) (db_lab_specs (spec_run ops d))"
  unfolding spec_run_def
proof (induction ops arbitrary: d)
  case Nil
  show ?case by (simp add: spec_history.grow_refl)
next
  case (Cons a ops)
  show ?case using spec_history.grow_trans [OF spec_step_grow [of d a] Cons.IH [of "spec_step a d"]] by simp
qed

lemma FormatInt_inj: "FormatInt m = FormatInt n \<longleftrightarrow> m = n"
proof -
  have minus: "decimal k \<noteq> CHR ''-'' # s" for k s
  proof
    assume "decimal k = CHR ''-'' # s"
    then obtain x :: nat where x: "48 \<le> x" "x < 58" "CHR ''-'' = char_of x" using decimal_digits [of k] by auto
    then have "of_char CHR ''-'' = x" by (simp only: of_char_of) simp
    with x(1) show False by simp
  qed
  show ?thesis using minus minus [symmetric] by (auto simp: FormatInt_def decimal_inj nat_eq_iff split: if_splits)
qed

section \<open>Properties\<close>

text \<open>The definition that an accepted write stands for.\<close>

definition written :: "spec_env \<Rightarrow> User \<Rightarrow> uuid \<Rightarrow> int \<Rightarrow> Write \<Rightarrow> Definition" where
  "written E user i revision w =
     \<lparr>su_ID = i, su_OwnerUserID = us_ID user, su_Name = wr_Name w, su_Description = wr_Description w,
      df_Revision = revision, df_VMs = sort_key (\<lambda>v. se_collate E (vi_Role v)) (wr_VMs w),
      df_WorkspaceVM = wr_WorkspaceVM w, df_InternetOutbound = wr_InternetOutbound w, df_StartupScript = wr_StartupScript w\<rparr>"

lemma toDefinition_resolved:
  assumes "resolve_write E org w d = Inr def" and "s = spec_row i org (us_ID user) n def (sd_VMRoles def)" and "1 \<le> n"
  shows "toDefinition E (labSpecVMRoles E s) = Inr (written E user i n w)"
proof -
  from assms(1) obtain c where "map (vm_of_role E) (sd_VMRoles def) = wr_VMs w" and
    ok: "roles_ok (sd_VMRoles def) (sd_WorkspaceRole def) (sd_WorkspaceInstanceIndex def)"
    and eqs: "sd_Name def = wr_Name w" "sd_Description def = wr_Description w" "sd_InternetOutbound def = wr_InternetOutbound w"
    "sd_StartupScript def = wr_StartupScript w" "sd_WorkspaceRole def = wv_Role (wr_WorkspaceVM w)"
    "sd_WorkspaceInstanceIndex def = wv_InstanceIndex (wr_WorkspaceVM w)"
    by (rule resolve_write_Inr)
  moreover have "sd_VMRoles def \<noteq> []" using ok by (simp add: roles_ok_def)
  ultimately show ?thesis
    using toDefinition_written [of E "sd_VMRoles def" "wr_VMs w" s] assms(2,3) eqs by (simp add: spec_row_def written_def)
qed

lemma roles_ok_sorted: "roles_ok (sort_key k roles) ws n \<longleftrightarrow> roles_ok roles ws n"
proof -
  have "distinct (map f (sort_key k roles)) \<longleftrightarrow> distinct (map f roles)" for f :: "LabSpecVMRole \<Rightarrow> string"
    by (metis distinct_map distinct_sort set_sort)
  moreover have "sort_key k roles = [] \<longleftrightarrow> roles = []" by (metis length_0_conv length_sort)
  ultimately show ?thesis by (simp add: roles_ok_def list_all_iff list_ex_iff)
qed

lemma spec_ok_resolved:
  assumes "resolve_write E org w d = Inr def" and "1 \<le> n"
  shows "spec_ok (spec_row i org owner n def (sd_VMRoles def))"
proof -
  from assms(1) obtain c where "roles_ok (sd_VMRoles def) (sd_WorkspaceRole def) (sd_WorkspaceInstanceIndex def)"
    "strings_TrimSpace (sd_Name def) \<noteq> []" by (rule resolve_write_Inr)
  with assms(2) show ?thesis by (simp add: spec_ok_def spec_row_def)
qed

lemma spec_inv_row: "spec_inv d \<Longrightarrow> row_by ls_ID i (db_lab_specs d) = Some s \<Longrightarrow> spec_ok s"
  using row_by_key [of ls_ID i "db_lab_specs d" s] by (simp add: spec_inv_def list_all_iff)

lemma spec_inv_creates: "spec_inv d \<Longrightarrow> resolve_write E (us_OrganizationID user) w d0 = Inr def \<Longrightarrow> creates user def i d d' \<Longrightarrow> spec_inv d'"
  by (simp add: spec_inv_def creates_def spec_ok_resolved)

lemma spec_ok_revise:
  assumes "spec_ok s" and "resolve_write E org w d = Inr def"
  shows "spec_ok (revise def (sd_VMRoles def) s)"
proof -
  from assms(2) obtain c where "roles_ok (sd_VMRoles def) (sd_WorkspaceRole def) (sd_WorkspaceInstanceIndex def)"
    "strings_TrimSpace (sd_Name def) \<noteq> []" by (rule resolve_write_Inr)
  with assms(1) show ?thesis by (simp add: spec_ok_def)
qed

lemma spec_inv_updates:
  assumes "spec_inv d" "resolve_write E org w d0 = Inr def" "updates user def s d d'"
  shows "spec_inv d'"
  using assms(1,3) spec_ok_revise [OF _ assms(2)] by (auto simp: spec_inv_def updates_def list_all_iff set_update_rows)

lemma spec_inv_step: "spec_inv d \<Longrightarrow> spec_inv (spec_step a d)"
proof (cases a)
  case (CreateOp E user w)
  assume "spec_inv d"
  then show ?thesis
    by (rule_tac Create_spec_cases [of E user w d]) (auto simp: CreateOp intro: spec_inv_creates)
next
  case (UpdateOp E user raw m w)
  assume "spec_inv d"
  then show ?thesis
    by (rule_tac Update_spec_cases [of E user raw m w d]) (auto simp: UpdateOp intro: spec_inv_updates)
next
  case (EnvironmentOp ms ims fms us)
  assume "spec_inv d"
  with EnvironmentOp show ?thesis by (simp add: spec_inv_def)
qed

lemma spec_inv_run: "spec_inv d \<Longrightarrow> spec_inv (spec_run ops d)"
  unfolding spec_run_def by (induction ops arbitrary: d) (auto intro: spec_inv_step)

lemma Create_spec_Inr:
  assumes "Create_spec E user w d = (Inr def, d1)"
  obtains i s where "i = se_newID E (length (wr_VMs w))" "def = written E user i 1 w"
    "row_by ls_ID i (db_lab_specs d1) = Some s" "ls_OrganizationID s = us_OrganizationID user" "ls_OwnerUserID s = us_ID user"
    "toDefinition E (labSpecVMRoles E s) = Inr def"
proof -
  let ?i = "se_newID E (length (wr_VMs w))"
  from assms obtain s where tx: "create_tx E user w d = (Inr s, d1)" and def: "toDefinition E s = Inr def"
    by (auto simp: Create_spec_def inTransaction_ok split: prod.splits sum.splits)
  from create_tx_Inr [OF tx] obtain ld where r: "resolve_write E (us_OrganizationID user) w d = Inr ld" and
    c: "creates user ld ?i d d1" and
    s: "s = labSpecVMRoles E (spec_row ?i (us_OrganizationID user) (us_ID user) 1 ld (sd_VMRoles ld))" .
  from toDefinition_resolved [OF r refl, of 1 ?i user] def s have w: "def = written E user ?i 1 w" by simp
  have row: "row_by ls_ID ?i (db_lab_specs d1) = Some (spec_row ?i (us_OrganizationID user) (us_ID user) 1 ld (sd_VMRoles ld))"
    using c by (simp add: creates_def row_by_append) (simp add: row_by_def spec_row_def)
  show thesis by (rule that [OF refl w row]) (use def s in \<open>simp_all add: spec_row_def\<close>)
qed

lemma Update_spec_Inr:
  assumes "Update_spec E user raw m w d = (Inr def, d1)"
  obtains i n s where "parse_spec_id E raw = Some i" "m = FormatInt n" "def = written E user i (n + 1) w"
    "row_by ls_ID i (db_lab_specs d1) = Some s" "ls_OrganizationID s = us_OrganizationID user" "ls_OwnerUserID s = us_ID user"
    "ls_Revision s = n + 1" "toDefinition E (labSpecVMRoles E s) = Inr def"
proof -
  from assms obtain i s where i: "parse_spec_id E raw = Some i" and tx: "update_tx E user i m w d = (Inr s, d1)"
    and def: "toDefinition E s = Inr def"
    by (auto simp: Update_spec_def inTransaction_ok split: prod.splits sum.splits option.splits)
  from update_tx_Inr [OF tx] obtain ld s0 where row: "row_by ls_ID i (db_lab_specs d) = Some s0" "ls_ID s0 = i" and
    m: "m = FormatInt (ls_Revision s0)" and r: "resolve_write E (us_OrganizationID user) w d = Inr ld" and
    u: "updates user ld s0 d d1" and s: "s = labSpecVMRoles E (revise ld (sd_VMRoles ld) s0)" .
  have n: "1 \<le> ls_Revision s0 + 1" using def s by (auto simp: toDefinition_def split: if_splits)
  have rev: "revise ld (sd_VMRoles ld) s0 = spec_row i (us_OrganizationID user) (us_ID user) (ls_Revision s0 + 1) ld (sd_VMRoles ld)"
    using u row(2) by (simp add: revise_def updates_def)
  from toDefinition_resolved [OF r rev n] def s have w: "def = written E user i (ls_Revision s0 + 1) w" by simp
  have "row_by ls_ID i (db_lab_specs d1) = Some (revise ld (sd_VMRoles ld) s0)"
    using u row by (simp add: updates_def row_by_update_rows)
  then show thesis by (rule that [OF i m w]) (use u def s in \<open>simp_all add: updates_def\<close>)
qed

lemma Get_spec_row:
  assumes "parse_spec_id E raw = Some i" "row_by ls_ID i (db_lab_specs d) = Some s"
  shows "Get_spec E user raw d =
     (if ls_OrganizationID s \<noteq> us_OrganizationID user then Inl SpecNotFound
      else if ls_OwnerUserID s \<noteq> us_ID user then Inl SpecForbidden else toDefinition E (labSpecVMRoles E s))"
  using assms by (simp add: Get_spec_def LabSpecByID_def)

text \<open>
  C20: What is stored is what was written. A created spec is read back under its identifier with
  exactly the written content at revision 1, its VMs in the order of the roles; an accepted update
  is read back with the written content at the revision after the one it was conditioned on.
\<close>

theorem spec_written_is_read:
  shows "(\<forall>def d1. Create_spec E user w d = (Inr def, d1) \<longrightarrow>
            def = written E user (se_newID E (length (wr_VMs w))) 1 w
          \<and> (se_parse E (se_uS E (su_ID def)) = Some (su_ID def) \<longrightarrow> Get_spec E user (se_uS E (su_ID def)) d1 = Inr def))
    \<and> (\<forall>def d1. Update_spec E user raw m w d = (Inr def, d1) \<longrightarrow>
            (\<exists>n. m = FormatInt n \<and> def = written E user (su_ID def) (n + 1) w) \<and> Get_spec E user raw d1 = Inr def)"
proof (intro conjI allI impI)
  fix def d1
  assume "Create_spec E user w d = (Inr def, d1)"
  from Create_spec_Inr [OF this] obtain i s where i: "i = se_newID E (length (wr_VMs w))" "def = written E user i 1 w"
    and row: "row_by ls_ID i (db_lab_specs d1) = Some s" and o: "ls_OrganizationID s = us_OrganizationID user" "ls_OwnerUserID s = us_ID user"
    and t: "toDefinition E (labSpecVMRoles E s) = Inr def" .
  from i show "def = written E user (se_newID E (length (wr_VMs w))) 1 w" by simp
  have "su_ID def = i" by (simp add: i(2) written_def)
  then show "Get_spec E user (se_uS E (su_ID def)) d1 = Inr def" if "se_parse E (se_uS E (su_ID def)) = Some (su_ID def)"
    using that t o Get_spec_row [OF _ row, of E "se_uS E i" user] by (simp add: parse_spec_id_def)
next
  fix def d1
  assume "Update_spec E user raw m w d = (Inr def, d1)"
  from Update_spec_Inr [OF this] obtain i n s where i: "parse_spec_id E raw = Some i" "m = FormatInt n" "def = written E user i (n + 1) w"
    and row: "row_by ls_ID i (db_lab_specs d1) = Some s" and o: "ls_OrganizationID s = us_OrganizationID user" "ls_OwnerUserID s = us_ID user"
    and t: "toDefinition E (labSpecVMRoles E s) = Inr def" .
  have "su_ID def = i" by (simp add: i(3) written_def)
  with i show "\<exists>n. m = FormatInt n \<and> def = written E user (su_ID def) (n + 1) w" by (intro exI [of _ n]) simp
  show "Get_spec E user raw d1 = Inr def" using Get_spec_row [OF i(1) row, of user] o t by simp
qed

text \<open>
  C19: No update is lost. Once an update conditioned on a revision has succeeded, every later update
  conditioned on the same revision is refused and changes nothing, whatever was written in between;
  for an owner who may edit, the answer is that the revision is stale.
\<close>

theorem lost_update_refused:
  assumes "Update_spec E user raw m w d = (Inr def, d1)" and "se_parse E' = se_parse E" and "se_uS E' = se_uS E"
  shows "Update_spec E' user' raw m w' (spec_run ops d1) =
     (Inl (if us_OrganizationID user' \<noteq> us_OrganizationID user then SpecNotFound
           else if us_ID user' \<noteq> us_ID user \<or> \<not> HasClassRole (us_ID user') ''INSTRUCTOR'' (spec_run ops d1) then SpecForbidden
           else SpecStaleRevision), spec_run ops d1)"
proof -
  from Update_spec_Inr [OF assms(1)] obtain i n s where i: "parse_spec_id E raw = Some i" "m = FormatInt n"
    and row: "row_by ls_ID i (db_lab_specs d1) = Some s" and o: "ls_OrganizationID s = us_OrganizationID user" "ls_OwnerUserID s = us_ID user"
    and rev: "ls_Revision s = n + 1" by metis
  from spec_history.grow_row [OF spec_run_grow row] obtain s' where
    row': "row_by ls_ID i (db_lab_specs (spec_run ops d1)) = Some s'" and le: "spec_le s s'" .
  have later: "m \<noteq> FormatInt (ls_Revision s')" using le rev i(2) by (simp add: spec_le_def FormatInt_inj)
  have i': "parse_spec_id E' raw = Some i" using i(1) unfolding parse_spec_id_def assms(2,3) .
  show ?thesis
    using le o later
    by (simp add: Update_spec_def i' inTransaction_def update_tx_def LabSpecForUpdate_def row' requireInstructor_def spec_le_def)
qed

text \<open>
  C21: Every spec that is ever stored is well formed: its name is not blank, it has roles, their names
  are distinct and not blank, each asks for between 1 and \<open>MaxInt32\<close> VMs, and the workspace is one
  of these VMs. So no read answers that the stored data is inconsistent, and a write that fails leaves
  the tables as they were.
\<close>

theorem stored_specs_well_formed:
  assumes "spec_inv d"
  shows "spec_inv (spec_run ops d)
    \<and> Get_spec E user raw (spec_run ops d) \<noteq> Inl SpecInconsistentData
    \<and> List_specs E user (spec_run ops d) \<noteq> Inl SpecInconsistentData
    \<and> (\<forall>e d1. Update_spec E user raw m w (spec_run ops d) = (Inl e, d1) \<longrightarrow> d1 = spec_run ops d)
    \<and> (\<forall>e d1. Create_spec E user w (spec_run ops d) = (Inl e, d1) \<longrightarrow> d1 = spec_run ops d)"
proof -
  let ?d = "spec_run ops d"
  have inv: "spec_inv ?d" by (rule spec_inv_run [OF assms])
  have no: "toDefinition E (labSpecVMRoles E s) \<noteq> Inl e" if "spec_ok s" for s e
  proof -
    have "roles_ok (ls_VMRoles (labSpecVMRoles E s)) (ls_WorkspaceRole s) (ls_WorkspaceInstanceIndex s)"
      using that by (simp add: spec_ok_def labSpecVMRoles_def roles_ok_sorted)
    then show ?thesis using that by (auto simp: toDefinition_def roles_ok_def spec_ok_def)
  qed
  have "Get_spec E user raw ?d \<noteq> Inl SpecInconsistentData"
    using no spec_inv_row [OF inv] by (auto simp: Get_spec_def LabSpecByID_def split: option.splits)
  moreover have "List_specs E user ?d \<noteq> Inl SpecInconsistentData"
    by (auto simp: List_specs_def Let_def LabSpecSummariesByOwner_def list_ex_iff)
  moreover have "d1 = ?d" if u: "Update_spec E user raw m w ?d = (Inl e, d1)" for e d1
  proof -
    have False if tx: "update_tx E user i m w ?d = (Inr s, d2)" and t: "toDefinition E s = Inl e" for i s d2
    proof -
      from update_tx_Inr [OF tx] obtain ld s0 where "resolve_write E (us_OrganizationID user) w ?d = Inr ld"
        "updates user ld s0 ?d d2" "s = labSpecVMRoles E (revise ld (sd_VMRoles ld) s0)" "row_by ls_ID i (db_lab_specs ?d) = Some s0" .
      with no [OF spec_ok_revise, of s0 E "us_OrganizationID user" w ?d ld e] spec_inv_row [OF inv, of i s0] t show False by simp
    qed
    with u show ?thesis
      by (auto simp: Update_spec_def inTransaction_def split: option.splits prod.splits sum.splits)
  qed
  moreover have "d1 = ?d" if c: "Create_spec E user w ?d = (Inl e, d1)" for e d1
  proof -
    have False if tx: "create_tx E user w ?d = (Inr s, d2)" and t: "toDefinition E s = Inl e" for s d2
      using create_tx_Inr [OF tx] no t spec_ok_resolved [of E "us_OrganizationID user" w ?d _ 1] by (metis order_refl)
    with c show ?thesis
      by (auto simp: Create_spec_def inTransaction_def split: prod.splits sum.splits)
  qed
  ultimately show ?thesis using inv by blast
qed

section \<open>Witnesses\<close>

definition demo_spec_env :: "uuid \<Rightarrow> spec_env" where
  "demo_spec_env base =
     \<lparr>se_parse = (\<lambda>s. if s = ''i'' then Some 31 else if s = ''f'' then Some 32 else if s = ''s'' then Some 71 else None),
      se_uS = (\<lambda>u. if u = 31 then ''i'' else if u = 32 then ''f'' else if u = 71 then ''s'' else ''?''),
      se_newID = (\<lambda>n. base + of_nat n), se_collate = map of_char\<rparr>"

definition demo_write :: "string \<Rightarrow> Write" where
  "demo_write name =
     \<lparr>wr_Name = name, wr_Description = None,
      wr_VMs = [\<lparr>vi_Role = ''w'', vi_Name = None, vi_ImageRef = ''i'', vi_SizeRef = ''f'', vi_Count = 2\<rparr>],
      wr_WorkspaceVM = \<lparr>wv_Role = ''w'', wv_InstanceIndex = 1\<rparr>, wr_InternetOutbound = True, wr_StartupScript = None\<rparr>"

definition demo_author :: User where
  "demo_author = \<lparr>us_ID = 11, us_OrganizationID = 1, us_OrganizationRole = ''MEMBER''\<rparr>"

definition demo_spec_db :: db where
  "demo_spec_db = (demo_db ''PROVISION'' [] [] ''READY'')
     \<lparr>db_memberships := [\<lparr>mb_organization = 1, mb_class = 2, mb_user = 11, mb_role = ''INSTRUCTOR''\<rparr>],
      db_users := [\<lparr>ur_id = 11, ur_organization = 1, ur_role = ''MEMBER'', ur_disabled_at = None\<rparr>],
      db_image_mappings := [\<lparr>im_ID = 31, im_OrganizationID = 1, im_ProviderConnectionID = 4, im_Active = True, im_ProviderImageID = ''p''\<rparr>],
      db_flavor_mappings := [\<lparr>fm_ID = 32, fm_OrganizationID = 1, fm_ProviderConnectionID = 4, fm_Active = True,
        fm_ProviderFlavorID = ''q'', fm_VCPUs = 1, fm_RAMMiB = 1, fm_DiskGiB = 1\<rparr>]\<rparr>"

lemma demo_text: "strings_TrimSpace [c] \<noteq> []" "pg_text [c]" if "c \<in> {CHR ''w'', CHR ''a'', CHR ''b''}"
  using that by (auto simp: pg_text_def utf8_ValidString_def TrimSpace_ascii unicode_IsSpace_def)

definition demo_def :: "string \<Rightarrow> uuid \<Rightarrow> LabSpecDefinition" where
  "demo_def name i = \<lparr>sd_Name = name, sd_Description = None, sd_InternetOutbound = True, sd_StartupScript = None,
     sd_WorkspaceRole = ''w'', sd_WorkspaceInstanceIndex = 1,
     sd_VMRoles = [\<lparr>vr_ID = i, vr_Role = ''w'', vr_DisplayName = None, vr_ImageMappingID = 31, vr_FlavorMappingID = 32, vr_VMCount = 2\<rparr>]\<rparr>"

lemma demo_resolve:
  assumes "c \<in> {CHR ''w'', CHR ''a'', CHR ''b''}" and "db_image_mappings d = db_image_mappings demo_spec_db"
    and "db_flavor_mappings d = db_flavor_mappings demo_spec_db"
  shows "resolve_write (demo_spec_env base) 1 (demo_write [c]) d = Inr (demo_def [c] base)"
proof -
  have t: "strings_TrimSpace ''w'' \<noteq> []" by (rule demo_text) simp
  from demo_text [OF assms(1)] assms(1) show ?thesis
    by (auto simp: resolve_write_def demo_write_def write_texts_def option_list_def demo_spec_env_def parse_spec_id_def t MaxInt32_def
        ImageMappingsForShare_def FlavorMappingsForShare_def mappingsForShare_def image_mapping_def flavor_mapping_def
        sameConnection_spec_def Let_def assms(2,3) demo_spec_db_def demo_def_def)
qed

lemma demo_author_may: "requireInstructor demo_author demo_spec_db = None"
  by (simp add: requireInstructor_def HasClassRole_def demo_spec_db_def demo_author_def)

lemma demo_columns: "spec_columns_error (demo_def [c] i) = None" if "c \<in> {CHR ''w'', CHR ''a'', CHR ''b''}"
  using that demo_text(2) [OF that] demo_text(2) [of "CHR ''w''"]
  by (auto simp: spec_columns_error_def demo_def_def pg_null_text_def pg_integer_def MaxInt32_def btrim_blank_def)

lemma demo_created:
  "\<exists>d1. Create_spec (demo_spec_env 70) demo_author (demo_write ''a'') demo_spec_db
       = (Inr (written (demo_spec_env 70) demo_author 71 1 (demo_write ''a'')), d1)
     \<and> db_lab_specs d1 = [spec_row 71 1 11 1 (demo_def ''a'' 70) (sd_VMRoles (demo_def ''a'' 70))]
     \<and> db_memberships d1 = db_memberships demo_spec_db \<and> db_image_mappings d1 = db_image_mappings demo_spec_db
     \<and> db_flavor_mappings d1 = db_flavor_mappings demo_spec_db"
proof -
  have r: "resolve_write (demo_spec_env 70) 1 (demo_write ''a'') demo_spec_db = Inr (demo_def ''a'' 70)" by (rule demo_resolve) simp_all
  have c: "spec_columns_error (demo_def ''a'' 70) = None" by (rule demo_columns) simp
  let ?s = "spec_row 71 1 11 1 (demo_def ''a'' 70) (sd_VMRoles (demo_def ''a'' 70))"
  have "CreateLabSpec (demo_spec_env 70) 71 1 11 (demo_def ''a'' 70) demo_spec_db
      = (Inr (labSpecVMRoles (demo_spec_env 70) ?s), demo_spec_db\<lparr>db_lab_specs := [?s]\<rparr>)"
    unfolding CreateLabSpec_def c
    using demo_text(2) [of "CHR ''w''"]
    by (simp add: demo_def_def demo_spec_db_def demo_db_def pg_null_text_def pg_integer_def MaxInt32_def btrim_blank_def Let_def
        roles_except_def)
  then have "create_tx (demo_spec_env 70) demo_author (demo_write ''a'') demo_spec_db
      = (Inr (labSpecVMRoles (demo_spec_env 70) ?s), demo_spec_db\<lparr>db_lab_specs := [?s]\<rparr>)"
    using r demo_author_may
    by (simp add: create_tx_def demo_author_def) (simp add: demo_spec_env_def demo_write_def)
  moreover have "toDefinition (demo_spec_env 70) (labSpecVMRoles (demo_spec_env 70) ?s)
      = Inr (written (demo_spec_env 70) demo_author 71 1 (demo_write ''a''))"
    by (rule toDefinition_resolved [OF r]) (simp_all add: demo_author_def)
  ultimately show ?thesis
    by (intro exI [of _ "demo_spec_db\<lparr>db_lab_specs := [?s]\<rparr>"]) (simp add: Create_spec_def inTransaction_def)
qed

lemma demo_updated:
  assumes "db_lab_specs d = [spec_row 71 1 11 1 (demo_def ''a'' 70) (sd_VMRoles (demo_def ''a'' 70))]"
    and "db_memberships d = db_memberships demo_spec_db" and "db_image_mappings d = db_image_mappings demo_spec_db"
    and "db_flavor_mappings d = db_flavor_mappings demo_spec_db"
  shows "\<exists>d2. Update_spec (demo_spec_env 80) demo_author ''s'' (FormatInt 1) (demo_write ''b'') d
       = (Inr (written (demo_spec_env 80) demo_author 71 2 (demo_write ''b'')), d2)"
proof -
  have r: "resolve_write (demo_spec_env 80) 1 (demo_write ''b'') d = Inr (demo_def ''b'' 80)"
    by (rule demo_resolve) (simp_all add: assms)
  have c: "spec_columns_error (demo_def ''b'' 80) = None" by (rule demo_columns) simp
  let ?old = "spec_row 71 1 11 1 (demo_def ''a'' 70) (sd_VMRoles (demo_def ''a'' 70))"
  let ?s = "spec_row 71 1 11 2 (demo_def ''b'' 80) (sd_VMRoles (demo_def ''b'' 80))"
  have i: "insertLabSpecVMRoles 1 d (roles_except 71 d) [] (sd_VMRoles (demo_def ''b'' 80)) = Inr (sd_VMRoles (demo_def ''b'' 80))"
    using demo_text(2) [of "CHR ''w''"] assms
    by (simp add: demo_def_def demo_spec_db_def pg_null_text_def pg_integer_def MaxInt32_def btrim_blank_def roles_except_def spec_row_def)
  have rev: "revise (demo_def ''b'' 80) (sd_VMRoles (demo_def ''b'' 80)) ?old = ?s" by (simp add: revise_def) (simp add: spec_row_def)
  have "find (\<lambda>s. ls_ID s = 71 \<and> ls_OrganizationID s = 1 \<and> ls_Revision s = 1) (db_lab_specs d) = Some ?old"
    by (simp add: assms(1)) (simp add: spec_row_def)
  moreover have "in_int64 (ls_Revision ?old + 1)" by (simp add: spec_row_def in_int64_def)
  ultimately obtain d2 where u: "UpdateLabSpec (demo_spec_env 80) 71 1 1 (demo_def ''b'' 80) d
      = (Inr (Some (labSpecVMRoles (demo_spec_env 80) ?s)), d2)"
    by (simp add: UpdateLabSpec_def c i rev)
  have row: "row_by ls_ID 71 (db_lab_specs d) = Some ?old" by (simp add: row_by_def assms(1)) (simp add: spec_row_def)
  have may: "requireInstructor demo_author d = None"
    using demo_author_may assms(2) by (simp add: requireInstructor_def HasClassRole_def)
  have old: "ls_OrganizationID ?old = 1" "ls_OwnerUserID ?old = 11" "ls_Revision ?old = 1" by (simp_all add: spec_row_def)
  have "update_tx (demo_spec_env 80) demo_author 71 (FormatInt 1) (demo_write ''b'') d
      = (Inr (labSpecVMRoles (demo_spec_env 80) ?s), d2)"
    using r may u by (simp add: update_tx_def LabSpecForUpdate_def row old demo_author_def)
  moreover have "toDefinition (demo_spec_env 80) (labSpecVMRoles (demo_spec_env 80) ?s)
      = Inr (written (demo_spec_env 80) demo_author 71 2 (demo_write ''b''))"
    by (rule toDefinition_resolved [OF r]) (simp_all add: demo_author_def)
  moreover have "parse_spec_id (demo_spec_env 80) ''s'' = Some 71" by (simp add: parse_spec_id_def demo_spec_env_def)
  ultimately show ?thesis by (simp add: Update_spec_def inTransaction_def)
qed

theorem spec_written_is_read_witness:
  "\<exists>def d1 def2 d2. Create_spec (demo_spec_env 70) demo_author (demo_write ''a'') demo_spec_db = (Inr def, d1)
     \<and> Get_spec (demo_spec_env 70) demo_author (se_uS (demo_spec_env 70) (su_ID def)) d1 = Inr def
     \<and> Update_spec (demo_spec_env 80) demo_author ''s'' (FormatInt 1) (demo_write ''b'') d1 = (Inr def2, d2)
     \<and> Get_spec (demo_spec_env 80) demo_author ''s'' d2 = Inr def2 \<and> df_Revision def2 = 2"
proof -
  let ?def = "written (demo_spec_env 70) demo_author 71 1 (demo_write ''a'')"
    and ?def2 = "written (demo_spec_env 80) demo_author 71 2 (demo_write ''b'')"
  obtain d1 where c: "Create_spec (demo_spec_env 70) demo_author (demo_write ''a'') demo_spec_db = (Inr ?def, d1)"
    and f: "db_lab_specs d1 = [spec_row 71 1 11 1 (demo_def ''a'' 70) (sd_VMRoles (demo_def ''a'' 70))]"
      "db_memberships d1 = db_memberships demo_spec_db" "db_image_mappings d1 = db_image_mappings demo_spec_db"
      "db_flavor_mappings d1 = db_flavor_mappings demo_spec_db" using demo_created by blast
  from demo_updated [OF f] obtain d2 where
    u: "Update_spec (demo_spec_env 80) demo_author ''s'' (FormatInt 1) (demo_write ''b'') d1 = (Inr ?def2, d2)" ..
  have "su_ID ?def = 71" by (simp add: written_def)
  then have p: "se_parse (demo_spec_env 70) (se_uS (demo_spec_env 70) (su_ID ?def)) = Some (su_ID ?def)"
    by (simp add: demo_spec_env_def)
  have "df_Revision ?def2 = 2" by (simp add: written_def)
  moreover note c u p
    spec_written_is_read [where E = "demo_spec_env 70" and user = demo_author and w = "demo_write ''a''" and d = demo_spec_db, THEN conjunct1, rule_format, OF c]
    spec_written_is_read [where E = "demo_spec_env 80" and user = demo_author and raw = "''s''" and m = "FormatInt 1"
      and w = "demo_write ''b''" and d = d1, THEN conjunct2, rule_format, OF u]
  ultimately show ?thesis by (intro exI [of _ ?def] exI [of _ d1] exI [of _ ?def2] exI [of _ d2] conjI) blast+
qed

theorem lost_update_refused_witness:
  "\<exists>d1 def d2. Update_spec (demo_spec_env 80) demo_author ''s'' (FormatInt 1) (demo_write ''b'') d1 = (Inr def, d2)
     \<and> Update_spec (demo_spec_env 90) demo_author ''s'' (FormatInt 1) (demo_write ''w'') (spec_run [] d2) = (Inl SpecStaleRevision, spec_run [] d2)"
proof -
  obtain d1 :: db where f: "db_lab_specs d1 = [spec_row 71 1 11 1 (demo_def ''a'' 70) (sd_VMRoles (demo_def ''a'' 70))]"
      "db_memberships d1 = db_memberships demo_spec_db" "db_image_mappings d1 = db_image_mappings demo_spec_db"
      "db_flavor_mappings d1 = db_flavor_mappings demo_spec_db" using demo_created by blast
  from demo_updated [OF f] obtain d2 def where
    u: "Update_spec (demo_spec_env 80) demo_author ''s'' (FormatInt 1) (demo_write ''b'') d1 = (Inr def, d2)" by blast
  have "db_memberships d2 = db_memberships d1"
    using Update_spec_cases [of "demo_spec_env 80" demo_author "''s''" "FormatInt 1" "demo_write ''b''" d1]
    by (metis u snd_conv updates_memberships)
  then have "HasClassRole (us_ID demo_author) ''INSTRUCTOR'' (spec_run [] d2)"
    using f(2) by (simp add: HasClassRole_def spec_run_def demo_spec_db_def demo_author_def)
  with lost_update_refused [OF u, of "demo_spec_env 90" demo_author "demo_write ''w''" "[]"] u show ?thesis
    by (intro exI [of _ d1] exI [of _ def] exI [of _ d2]) (simp add: demo_spec_env_def)
qed

theorem stored_specs_well_formed_witness:
  "spec_inv demo_spec_db
   \<and> Get_spec (demo_spec_env 70) demo_author ''s'' (spec_run [CreateOp (demo_spec_env 70) demo_author (demo_write ''a'')] demo_spec_db)
       \<noteq> Inl SpecInconsistentData"
proof -
  have "spec_inv demo_spec_db" by (simp add: spec_inv_def demo_spec_db_def demo_db_def)
  with stored_specs_well_formed [OF this] show ?thesis by blast
qed

end
