(* ===== verification/Class_View.thy ===== *)
theory Class_View
  imports Lab_Spec
begin

text \<open>
  What a user sees of classes: \<^verbatim>\<open>internal/server/class/service.go\<close> on the statements of
  \<^verbatim>\<open>internal/postgres/class.go\<close>, \<^verbatim>\<open>labspec.go\<close> (\<^verbatim>\<open>ClassMembers\<close>) and \<^verbatim>\<open>labexecution.go\<close>.
  The environment is that of lab specs; \<open>se_collate\<close> orders names as the database does.
\<close>

section \<open>Data and statements\<close>

datatype class_error = ClassNotFound | ClassForbidden | ClassInconsistentData | ClassRepo repo_error

record View =
  vw_ID :: uuid
  vw_Name :: string
  vw_MyRole :: string
  vw_ActiveLabExecution :: "(uuid \<times> string) option"
  vw_MyLabInstance :: "(uuid \<times> uuid \<times> string \<times> int) option"

record ClassWithRole =
  cr_Class :: class_row
  cr_Role :: string
  cr_Active :: "(uuid \<times> string) option"

record ClassMember =
  cm_OrganizationID :: uuid
  cm_UserID :: uuid
  cm_Username :: string
  cm_Role :: string

text \<open>An outer join: one row without a match, one row per match otherwise.\<close>

definition left_join :: "('a \<Rightarrow> bool) \<Rightarrow> 'a list \<Rightarrow> 'a option list" where
  "left_join on rows = (let ms = filter on rows in if ms = [] then [None] else map Some ms)"

definition ClassesByUser :: "spec_env \<Rightarrow> uuid \<Rightarrow> db \<Rightarrow> ClassWithRole list" where
  "ClassesByUser E user d =
     sort_key (\<lambda>i. (se_collate E (cl_name (cr_Class i)), cl_id (cr_Class i)))
       (concat (map (\<lambda>m. concat (map (\<lambda>c. map (\<lambda>e. \<lparr>cr_Class = c, cr_Role = mb_role m,
                  cr_Active = map_option (\<lambda>e. (le_id e, le_status e)) e\<rparr>) (left_join (active_execution (cl_id c)) (db_executions d)))
            (filter (\<lambda>c. cl_id c = mb_class m) (db_classes d)))) (filter (\<lambda>m. mb_user m = user) (db_memberships d))))"

definition ClassMembers :: "spec_env \<Rightarrow> uuid \<Rightarrow> db \<Rightarrow> ClassMember list" where
  "ClassMembers E class d =
     sort_key (\<lambda>i. (role_rank (cm_Role i), se_collate E (cm_Username i), cm_UserID i))
       (concat (map (\<lambda>m. map (\<lambda>a. \<lparr>cm_OrganizationID = mb_organization m, cm_UserID = mb_user m,
                  cm_Username = (case a of None \<Rightarrow> [] | Some a \<Rightarrow> la_username a), cm_Role = mb_role m\<rparr>)
              (left_join (\<lambda>a. la_user a = mb_user m) (db_accounts d)))
          (filter (\<lambda>m. mb_class m = class) (db_memberships d))))"

definition LabInstanceByExecutionUser :: "uuid \<Rightarrow> uuid \<Rightarrow> db \<Rightarrow> repo_error + instance_row" where
  "LabInstanceByExecutionUser execution user d =
     (case find (\<lambda>i. li_execution i = execution \<and> li_user i = user) (db_instances d) of
        None \<Rightarrow> Inl KindNotFound | Some i \<Rightarrow> Inr i)"

section \<open>Operations\<close>

text \<open>Each query reads its own snapshot: \<open>D k\<close> is the database at the \<open>k\<close>-th query.\<close>

definition List_classes :: "spec_env \<Rightarrow> User \<Rightarrow> db \<Rightarrow> class_error + View list" where
  "List_classes E user d =
     (let items = ClassesByUser E (us_ID user) d in
      if list_ex (\<lambda>i. cl_organization (cr_Class i) \<noteq> us_OrganizationID user \<or> \<not> ClassRole_Valid (cr_Role i)) items
        then Inl ClassInconsistentData
      else Inr (map (\<lambda>i. \<lparr>vw_ID = cl_id (cr_Class i), vw_Name = cl_name (cr_Class i), vw_MyRole = cr_Role i,
                           vw_ActiveLabExecution = cr_Active i, vw_MyLabInstance = None\<rparr>) items))"

definition access :: "spec_env \<Rightarrow> User \<Rightarrow> string \<Rightarrow> (nat \<Rightarrow> db) \<Rightarrow> class_error + View" where
  "access E user classID D =
     (case parse_spec_id E classID of None \<Rightarrow> Inl ClassNotFound | Some i \<Rightarrow>
     (case ClassByID i (D 0) of
        Inl e \<Rightarrow> if e = KindNotFound then Inl ClassNotFound else Inl (ClassRepo e)
      | Inr c \<Rightarrow>
          if cl_organization c \<noteq> us_OrganizationID user then Inl ClassForbidden
          else (case ClassMembership (cl_id c) (us_ID user) (D 1) of
              Inl e \<Rightarrow> if e = KindNotFound then Inl ClassForbidden else Inl (ClassRepo e)
            | Inr m \<Rightarrow>
                if mb_class m \<noteq> cl_id c \<or> mb_user m \<noteq> us_ID user \<or> mb_organization m \<noteq> cl_organization c \<or> \<not> ClassRole_Valid (mb_role m)
                  then Inl ClassInconsistentData
                else Inr \<lparr>vw_ID = cl_id c, vw_Name = cl_name c, vw_MyRole = mb_role m,
                          vw_ActiveLabExecution = None, vw_MyLabInstance = None\<rparr>)))"

definition attachLab :: "User \<Rightarrow> View \<Rightarrow> (nat \<Rightarrow> db) \<Rightarrow> class_error + View" where
  "attachLab user view D =
     (case ActiveLabExecutionByClass (vw_ID view) (D 2) of
        Inl e \<Rightarrow> if e = KindNotFound then Inr view else Inl (ClassRepo e)
      | Inr (execution, status) \<Rightarrow>
          let view1 = view\<lparr>vw_ActiveLabExecution := Some (execution, status)\<rparr> in
          case LabInstanceByExecutionUser execution (us_ID user) (D 3) of
            Inl e \<Rightarrow> if e = KindNotFound then Inr view1 else Inl (ClassRepo e)
          | Inr i \<Rightarrow>
              if li_execution i \<noteq> execution \<or> li_user i \<noteq> us_ID user \<or> li_organization i \<noteq> us_OrganizationID user
                then Inl ClassInconsistentData
              else Inr (view1\<lparr>vw_MyLabInstance := Some (li_id i, li_user i, li_status i, li_generation i)\<rparr>))"

definition Get_class :: "spec_env \<Rightarrow> User \<Rightarrow> string \<Rightarrow> (nat \<Rightarrow> db) \<Rightarrow> class_error + View" where
  "Get_class E user classID D =
     (case access E user classID D of Inl e \<Rightarrow> Inl e | Inr view \<Rightarrow> attachLab user view D)"

definition Members :: "spec_env \<Rightarrow> User \<Rightarrow> string \<Rightarrow> (nat \<Rightarrow> db) \<Rightarrow> class_error + (uuid \<times> string \<times> string) list" where
  "Members E user classID D =
     (case access E user classID D of Inl e \<Rightarrow> Inl e | Inr view \<Rightarrow>
        let items = ClassMembers E (vw_ID view) (D 2) in
        if list_ex (\<lambda>i. cm_OrganizationID i \<noteq> us_OrganizationID user \<or> \<not> ClassRole_Valid (cm_Role i)) items
          then Inl ClassInconsistentData
        else Inr (map (\<lambda>i. (cm_UserID i, cm_Username i, cm_Role i)) items))"

section \<open>Lemmas\<close>

lemma access_Inr:
  assumes "access E user classID D = Inr view"
  obtains c m where "parse_spec_id E classID = Some (cl_id c)" "c \<in> set (db_classes (D 0))" "cl_organization c = us_OrganizationID user"
    "m \<in> set (db_memberships (D 1))" "mb_class m = cl_id c" "mb_user m = us_ID user" "ClassRole_Valid (mb_role m)"
    "view = \<lparr>vw_ID = cl_id c, vw_Name = cl_name c, vw_MyRole = mb_role m, vw_ActiveLabExecution = None, vw_MyLabInstance = None\<rparr>"
proof -
  from assms obtain i c m where i: "parse_spec_id E classID = Some i" and c: "row_by cl_id i (db_classes (D 0)) = Some c"
    and o: "cl_organization c = us_OrganizationID user"
    and m: "find (\<lambda>m. mb_class m = cl_id c \<and> mb_user m = us_ID user) (db_memberships (D 1)) = Some m"
    and v: "ClassRole_Valid (mb_role m)"
      "view = \<lparr>vw_ID = cl_id c, vw_Name = cl_name c, vw_MyRole = mb_role m, vw_ActiveLabExecution = None, vw_MyLabInstance = None\<rparr>"
    by (auto simp: access_def ClassByID_def ClassMembership_def split: option.splits if_splits sum.splits)
  from row_by_key [OF c] have k: "cl_id c = i" "c \<in> set (db_classes (D 0))" by simp_all
  from m have "m \<in> set (db_memberships (D 1))" "mb_class m = cl_id c" "mb_user m = us_ID user"
    by (auto simp: find_Some_iff)
  with i k o v show thesis by (intro that [of c m]) simp_all
qed

lemma attachLab_Inr:
  assumes "attachLab user view D = Inr view'" and "vw_MyLabInstance view = None" and "vw_ActiveLabExecution view = None"
  shows "vw_ID view' = vw_ID view \<and> vw_MyRole view' = vw_MyRole view
    \<and> (case vw_ActiveLabExecution view' of None \<Rightarrow> vw_MyLabInstance view' = None
       | Some (e, st) \<Rightarrow> list_ex (\<lambda>r. le_id r = e \<and> le_status r = st \<and> active_execution (vw_ID view) r) (db_executions (D 2)))
    \<and> (case vw_MyLabInstance view' of None \<Rightarrow> True
       | Some (i, u, st, g) \<Rightarrow> u = us_ID user \<and> list_ex (\<lambda>r. li_id r = i \<and> li_user r = us_ID user \<and> li_status r = st
            \<and> li_generation r = g \<and> (\<exists>st'. vw_ActiveLabExecution view' = Some (li_execution r, st'))) (db_instances (D 3)))"
  using assms
  by (auto simp: attachLab_def ActiveLabExecutionByClass_def LabInstanceByExecutionUser_def Let_def find_Some_iff list_ex_iff
      split: option.splits if_splits sum.splits)

lemma left_join_None: "None \<in> set (left_join on rows) \<Longrightarrow> \<not> list_ex on rows"
  by (auto simp: left_join_def Let_def list_ex_iff filter_empty_conv split: if_splits)

lemma left_join_Some: "Some r \<in> set (left_join on rows) \<Longrightarrow> r \<in> set rows \<and> on r"
  by (auto simp: left_join_def Let_def split: if_splits)

section \<open>Properties\<close>

text \<open>The user takes part in the class with that role.\<close>

definition participates :: "User \<Rightarrow> uuid \<Rightarrow> string \<Rightarrow> db \<Rightarrow> bool" where
  "participates user class role d \<longleftrightarrow>
     ClassRole_Valid role \<and> list_ex (\<lambda>m. mb_class m = class \<and> mb_user m = us_ID user \<and> mb_role m = role) (db_memberships d)"

lemma ClassesByUser_item:
  assumes "i \<in> set (ClassesByUser E user d)"
  shows "cr_Class i \<in> set (db_classes d)
    \<and> list_ex (\<lambda>m. mb_class m = cl_id (cr_Class i) \<and> mb_user m = user \<and> mb_role m = cr_Role i) (db_memberships d)
    \<and> (case cr_Active i of None \<Rightarrow> \<not> list_ex (active_execution (cl_id (cr_Class i))) (db_executions d)
       | Some (e, st) \<Rightarrow> list_ex (\<lambda>r. le_id r = e \<and> le_status r = st \<and> active_execution (cl_id (cr_Class i)) r) (db_executions d))"
proof -
  from assms obtain m c e where m: "m \<in> set (db_memberships d)" "mb_user m = user" and c: "c \<in> set (db_classes d)" "cl_id c = mb_class m"
    and e: "e \<in> set (left_join (active_execution (cl_id c)) (db_executions d))"
    and i: "i = \<lparr>cr_Class = c, cr_Role = mb_role m, cr_Active = map_option (\<lambda>e. (le_id e, le_status e)) e\<rparr>"
    by (auto simp: ClassesByUser_def)
  show ?thesis
  proof (cases e)
    case None
    with e left_join_None show ?thesis using m c by (auto simp: i list_ex_iff)
  next
    case (Some x)
    with e left_join_Some have "x \<in> set (db_executions d) \<and> active_execution (cl_id c) x" by metis
    with Some show ?thesis using m c by (auto simp: i list_ex_iff)
  qed
qed

lemma access_seen:
  assumes "access E user classID D = Inr view"
  shows "participates user (vw_ID view) (vw_MyRole view) (D 1) \<and> parse_spec_id E classID = Some (vw_ID view)
      \<and> list_ex (\<lambda>c. cl_id c = vw_ID view \<and> cl_organization c = us_OrganizationID user) (db_classes (D 0))
      \<and> vw_MyLabInstance view = None \<and> vw_ActiveLabExecution view = None"
  by (rule access_Inr [OF assms]) (auto simp: participates_def list_ex_iff)

lemma Get_class_seen:
  assumes "Get_class E user classID D = Inr view"
  shows "participates user (vw_ID view) (vw_MyRole view) (D 1)
     \<and> list_ex (\<lambda>c. cl_id c = vw_ID view \<and> cl_organization c = us_OrganizationID user) (db_classes (D 0))
     \<and> (case vw_ActiveLabExecution view of None \<Rightarrow> vw_MyLabInstance view = None
       | Some (e, st) \<Rightarrow> list_ex (\<lambda>r. le_id r = e \<and> le_status r = st \<and> active_execution (vw_ID view) r) (db_executions (D 2)))
     \<and> (case vw_MyLabInstance view of None \<Rightarrow> True | Some (i, u, st, g) \<Rightarrow>
          u = us_ID user \<and> list_ex (\<lambda>r. li_id r = i \<and> li_user r = us_ID user \<and> li_status r = st
            \<and> li_generation r = g \<and> (\<exists>st'. vw_ActiveLabExecution view = Some (li_execution r, st'))) (db_instances (D 3)))"
proof -
  from assms obtain view0 where v: "access E user classID D = Inr view0" "attachLab user view0 D = Inr view"
    by (auto simp: Get_class_def split: sum.splits)
  from access_seen [OF v(1)] have a: "vw_MyLabInstance view0 = None" "vw_ActiveLabExecution view0 = None" by simp_all
  from attachLab_Inr [OF v(2) a] have e: "vw_ID view0 = vw_ID view" "vw_MyRole view0 = vw_MyRole view" by simp_all
  show ?thesis using access_seen [OF v(1), unfolded e] attachLab_Inr [OF v(2) a, unfolded e] by blast
qed

lemma List_classes_seen:
  assumes "List_classes E user d = Inr views \<and> view \<in> set views"
  shows "participates user (vw_ID view) (vw_MyRole view) d
     \<and> (case vw_ActiveLabExecution view of None \<Rightarrow> \<not> list_ex (active_execution (vw_ID view)) (db_executions d)
       | Some (e, st) \<Rightarrow> list_ex (\<lambda>r. le_id r = e \<and> le_status r = st \<and> active_execution (vw_ID view) r) (db_executions d))"
proof -
  from assms obtain i where i: "i \<in> set (ClassesByUser E (us_ID user) d)" "ClassRole_Valid (cr_Role i)"
    and v: "view = \<lparr>vw_ID = cl_id (cr_Class i), vw_Name = cl_name (cr_Class i), vw_MyRole = cr_Role i,
                    vw_ActiveLabExecution = cr_Active i, vw_MyLabInstance = None\<rparr>"
    by (auto simp: List_classes_def Let_def list_ex_iff split: if_splits)
  from ClassesByUser_item [OF i(1)] i(2) show ?thesis unfolding v participates_def View.simps by simp
qed

lemma Members_seen:
  assumes "Members E user classID D = Inr ms"
  shows "\<exists>i role. parse_spec_id E classID = Some i \<and> participates user i role (D 1)"
proof -
  from assms obtain view where "access E user classID D = Inr view" by (auto simp: Members_def split: sum.splits)
  from access_seen [OF this] show ?thesis by blast
qed

text \<open>
  A user sees the classes in which the user takes part and no others. Whatever role the user has in the
  organization, a class is listed, opened or its members shown only where the user has a membership,
  the role shown is the one of that membership, the execution shown is an unfinished one of that class,
  and the instance shown is the user's own in that execution.
\<close>

lemma classes_seen_by_participants:
  "(\<forall>view. Get_class E user classID D = Inr view \<longrightarrow>
       participates user (vw_ID view) (vw_MyRole view) (D 1)
     \<and> list_ex (\<lambda>c. cl_id c = vw_ID view \<and> cl_organization c = us_OrganizationID user) (db_classes (D 0))
     \<and> (case vw_ActiveLabExecution view of None \<Rightarrow> vw_MyLabInstance view = None
       | Some (e, st) \<Rightarrow> list_ex (\<lambda>r. le_id r = e \<and> le_status r = st \<and> active_execution (vw_ID view) r) (db_executions (D 2)))
     \<and> (case vw_MyLabInstance view of None \<Rightarrow> True | Some (i, u, st, g) \<Rightarrow>
          u = us_ID user \<and> list_ex (\<lambda>r. li_id r = i \<and> li_user r = us_ID user \<and> li_status r = st
            \<and> li_generation r = g \<and> (\<exists>st'. vw_ActiveLabExecution view = Some (li_execution r, st'))) (db_instances (D 3))))
   \<and> (\<forall>views view. List_classes E user d = Inr views \<and> view \<in> set views \<longrightarrow>
       participates user (vw_ID view) (vw_MyRole view) d
     \<and> (case vw_ActiveLabExecution view of None \<Rightarrow> \<not> list_ex (active_execution (vw_ID view)) (db_executions d)
       | Some (e, st) \<Rightarrow> list_ex (\<lambda>r. le_id r = e \<and> le_status r = st \<and> active_execution (vw_ID view) r) (db_executions d)))
   \<and> (\<forall>ms. Members E user classID D = Inr ms \<longrightarrow>
       (\<exists>i role. parse_spec_id E classID = Some i \<and> participates user i role (D 1)))"
  using Get_class_seen List_classes_seen Members_seen by blast

lemma classes_seen_by_participants_witness:
  "\<exists>view. Get_class (demo_spec_env 0) demo_author ''s'' (\<lambda>_. demo_spec_db\<lparr>db_classes := [\<lparr>cl_id = 71, cl_organization = 1, cl_name = ''c''\<rparr>],
       db_memberships := [\<lparr>mb_organization = 1, mb_class = 71, mb_user = 11, mb_role = ''STUDENT''\<rparr>]\<rparr>) = Inr view
     \<and> vw_MyRole view = ''STUDENT'' \<and> vw_ID view = 71 \<and> participates demo_author 71 ''STUDENT''
       (demo_spec_db\<lparr>db_classes := [\<lparr>cl_id = 71, cl_organization = 1, cl_name = ''c''\<rparr>],
       db_memberships := [\<lparr>mb_organization = 1, mb_class = 71, mb_user = 11, mb_role = ''STUDENT''\<rparr>]\<rparr>)"
proof -
  let ?D = "\<lambda>_ :: nat. demo_spec_db\<lparr>db_classes := [\<lparr>cl_id = 71, cl_organization = 1, cl_name = ''c''\<rparr>],
       db_memberships := [\<lparr>mb_organization = 1, mb_class = 71, mb_user = 11, mb_role = ''STUDENT''\<rparr>]\<rparr>"
  let ?view = "\<lparr>vw_ID = 71, vw_Name = ''c'', vw_MyRole = ''STUDENT'', vw_ActiveLabExecution = None, vw_MyLabInstance = None\<rparr>"
  have g: "Get_class (demo_spec_env 0) demo_author ''s'' ?D = Inr ?view"
    by (simp add: Get_class_def access_def attachLab_def parse_spec_id_def demo_spec_env_def ClassByID_def row_by_def ClassMembership_def
        demo_author_def ClassRole_Valid_def ActiveLabExecutionByClass_def active_execution_def demo_spec_db_def demo_db_def)
  from classes_seen_by_participants [THEN conjunct1, rule_format, OF g] g show ?thesis by (intro exI [of _ ?view]) simp
qed

end
