(* ===== verification/Operation_Executor.thy ===== *)
theory Operation_Executor
  imports Lab_System Connector_Sessions
begin

text \<open>
  The operation worker and executor: \<^verbatim>\<open>internal/server/operation/worker.go\<close>,
  \<^verbatim>\<open>internal/server/provision/executor.go\<close> and \<^verbatim>\<open>reconciliation.go\<close>, on the transactions of the
  worker store and the errors of the Connector router.

  An execution is a function of a script. \<open>xe_other n\<close> is what other sessions have committed before the
  \<open>n\<close>-th transaction of this one, \<open>xe_clock n\<close> the clock and \<open>xe_skip n\<close> the locked rows that this
  transaction sees; \<open>xe_fault n\<close> is a failure of the database in it, with the answer whether the
  commit went through all the same; \<open>xe_cancelled\<close> says at which of its checks the lifecycle context is done; \<open>xe_send\<close>
  is the answer of the router and \<open>xe_during\<close> what the Connector's reader delivers before the send
  returns; and a list of \<open>select_case\<close>s is what happens while the executor waits: the reader delivers
  an event, or the select takes one of its ready cases. \<open>xe_trace\<close> serialises the span that the tracer
  starts under the stored trace context. An execution that is still waiting when the script ends is
  \<^const>\<open>None\<close>.
\<close>

section \<open>Data\<close>

record inbox =
  ib_reconciling :: bool
  ib_ack :: "Routed option"
  ib_rejected :: "(Routed \<times> OperationAckPayload) option"
  ib_result :: "(Routed \<times> OperationResultPayload) option"
  ib_reconcile :: "(Routed \<times> ReconcileResultPayload) option"

datatype effect =
    Claimed OperationItemLease
  | Renewed OperationItemLease
  | Closed ProvisionDispatch
  | SentCommand OperationCommand
  | SentReconcile ReconcileRequest
  | Delivered Event
  | Written ProvisionUpdate
  | Deferred ProvisionDispatch
  | WrittenReconciliation ReconciliationUpdate
  | Forgot uuid Correlation
  | ForgotReconcile uuid string

datatype exec_error = ExecInvalid | ExecCancelled | ExecClose | ExecRepo repo_error

datatype checkpoint = AtStart | AfterClaim | AfterRenew | AfterSend

record Options =
  eo_Store :: bool
  eo_Router :: bool
  eo_RouterReconciles :: bool
  eo_Mutations :: bool
  eo_Reconciliation :: bool
  eo_CloseForMutation :: "(ProvisionDispatch \<Rightarrow> bool) option"
  eo_LeaseDuration :: int
  eo_ResultTimeout :: int
  eo_PollInterval :: int
  eo_DispatchRetryDelay :: int

datatype select_case =
    Deliver Event | SelDone | SelTick | SelTimer | SelRejected | SelAck | SelResult | SelReconcile

record exec_env =
  xe_opts :: Options
  xe_uS :: "uuid \<Rightarrow> string"
  xe_clock :: "nat \<Rightarrow> clock"
  xe_skip :: "nat \<Rightarrow> uuid \<Rightarrow> bool"
  xe_other :: "nat \<Rightarrow> db \<Rightarrow> db"
  xe_fault :: "nat \<Rightarrow> bool option"
  xe_owner :: uuid
  xe_cancelled :: "checkpoint \<Rightarrow> bool"
  xe_trace :: "string \<Rightarrow> string \<Rightarrow> TraceContext"
  xe_send :: "OperationCommand \<Rightarrow> conn_error + string"
  xe_sendReconcile :: "ReconcileRequest \<Rightarrow> conn_error + string"
  xe_during :: "Event list"
  xe_select :: "select_case list"

record exec_state =
  xs_db :: db
  xs_calls :: nat
  xs_pending :: "uuid \<times> Correlation \<rightharpoonup> inbox"
  xs_trace :: "effect list"

type_synonym 'a exec = "exec_state \<Rightarrow> (exec_error + 'a) \<times> exec_state"

section \<open>Sequencing\<close>

definition and_then :: "'a exec \<Rightarrow> ('a \<Rightarrow> exec_state \<Rightarrow> ((exec_error + 'b) \<times> exec_state) option)
    \<Rightarrow> exec_state \<Rightarrow> ((exec_error + 'b) \<times> exec_state) option" where
  "and_then m f s = (case m s of (Inl e, s') \<Rightarrow> Some (Inl e, s') | (Inr x, s') \<Rightarrow> f x s')"

definition effect :: "effect \<Rightarrow> exec_state \<Rightarrow> exec_state" where
  "effect a s = s\<lparr>xs_trace := xs_trace s @ [a]\<rparr>"

text \<open>One transaction of the worker store; its effect is noted when it succeeds.\<close>

definition store_call :: "exec_env \<Rightarrow> (nat \<Rightarrow> 'a tx) \<Rightarrow> ('a \<Rightarrow> effect list) \<Rightarrow> 'a exec" where
  "store_call E f note s =
     (case f (xs_calls s) (xe_other E (xs_calls s) (xs_db s)) of (r, d) \<Rightarrow>
        let s' = s\<lparr>xs_db := (if xe_fault E (xs_calls s) = Some False then xe_other E (xs_calls s) (xs_db s) else d),
                   xs_calls := xs_calls s + 1\<rparr> in
        if xe_fault E (xs_calls s) \<noteq> None then (Inl (ExecRepo KindInternal), s')
        else case r of Inl e \<Rightarrow> (Inl (ExecRepo e), s') | Inr x \<Rightarrow> (Inr x, s'\<lparr>xs_trace := xs_trace s' @ note x\<rparr>))"

section \<open>Construction\<close>

definition with_default :: "int \<Rightarrow> int \<Rightarrow> int" where
  "with_default d x = (if x = 0 then d else x)"

definition NewExecutor :: "Options \<Rightarrow> Options option" where
  "NewExecutor o0 =
     (if \<not> eo_Store o0 \<or> \<not> eo_Router o0 then None
      else let o1 = o0\<lparr>eo_LeaseDuration := with_default (30 * time_Second) (eo_LeaseDuration o0),
                       eo_ResultTimeout := with_default (15 * time_Minute) (eo_ResultTimeout o0),
                       eo_PollInterval := with_default time_Second (eo_PollInterval o0),
                       eo_DispatchRetryDelay := with_default (5 * time_Second) (eo_DispatchRetryDelay o0)\<rparr>
        in if eo_LeaseDuration o1 < 3 \<or> eo_ResultTimeout o1 \<le> 0 \<or> eo_PollInterval o1 \<le> 0 \<or> eo_DispatchRetryDelay o1 < 1 then None
           else if eo_Reconciliation o1 \<and> \<not> eo_RouterReconciles o1 then None
           else if eo_LeaseDuration o1 < 1 then None
           else Some o1)"

section \<open>Claim and renewal\<close>

text \<open>Without the mutation store only PROVISION items are eligible; with the reconciliation store a worker
  that finds no item to start looks for one to reconcile.\<close>

definition claim_item :: "exec_env \<Rightarrow> OperationItemClaim exec" where
  "claim_item E s =
     (let opts = xe_opts E; note = (\<lambda>c. [Claimed (clm_Lease c)]) in
      case store_call E (\<lambda>n. (if eo_Mutations opts then ClaimOperationItem else ClaimProvisionOperationItem)
             (xe_clock E n) (xe_skip E n) (xe_owner E) (eo_LeaseDuration opts)) note s of
        (Inl e, s') \<Rightarrow>
          if e = ExecRepo KindNotFound \<and> eo_Reconciliation opts
          then store_call E (\<lambda>n. ClaimReconciliation (xe_clock E n) (xe_skip E n) (xe_owner E) (eo_LeaseDuration opts)) note s'
          else (Inl e, s')
      | (Inr c, s') \<Rightarrow> (Inr c, s'))"

definition Renew :: "exec_env \<Rightarrow> OperationItemLease \<Rightarrow> go_time exec" where
  "Renew E lease s =
     (let opts = xe_opts E; note = (\<lambda>_. [Renewed lease]) in
      case store_call E (\<lambda>n. RenewOperationItemLease (xe_clock E n) lease (eo_LeaseDuration opts)) note s of
        (Inl e, s') \<Rightarrow>
          if e = ExecRepo ErrOperationLeaseLost \<and> eo_Reconciliation opts
          then store_call E (\<lambda>n. RenewReconciliation (xe_uS E) (xe_clock E n) lease (eo_LeaseDuration opts)) note s'
          else (Inl e, s')
      | (Inr t, s') \<Rightarrow> (Inr t, s'))"

section \<open>Inbox\<close>

definition event_routed :: "Event \<Rightarrow> Routed option" where
  "event_routed ev =
     (case ev of OperationAckEvent r a \<Rightarrow> Some r | OperationResultEvent r p \<Rightarrow> Some r | ReconcileResultEvent r p \<Rightarrow> Some r
      | _ \<Rightarrow> None)"

definition offer :: "'a option \<Rightarrow> 'a \<Rightarrow> 'a option" where
  "offer slot x = (case slot of None \<Rightarrow> Some x | Some y \<Rightarrow> Some y)"

text \<open>A channel of capacity one keeps what it holds; a channel that was not made takes nothing.\<close>

definition inbox_put :: "Event \<Rightarrow> inbox \<Rightarrow> inbox" where
  "inbox_put ev ib =
     (case ev of
        ReconcileResultEvent r p \<Rightarrow> if ib_reconciling ib then ib\<lparr>ib_reconcile := offer (ib_reconcile ib) (r, p)\<rparr> else ib
      | OperationAckEvent r a \<Rightarrow>
          if ib_reconciling ib then ib
          else if \<not> ack_Accepted a then ib\<lparr>ib_rejected := offer (ib_rejected ib) (r, a)\<rparr>
          else ib\<lparr>ib_ack := offer (ib_ack ib) r\<rparr>
      | OperationResultEvent r p \<Rightarrow> if ib_reconciling ib then ib else ib\<lparr>ib_result := offer (ib_result ib) (r, p)\<rparr>
      | _ \<Rightarrow> ib)"

definition HandleEvent :: "Event \<Rightarrow> exec_state \<Rightarrow> exec_state" where
  "HandleEvent ev s =
     (case event_routed ev of None \<Rightarrow> s | Some r \<Rightarrow>
        if rd_RequestMessageID r = [] \<or> rd_MessageID r = [] then s
        else case xs_pending s (rd_ConnectorID r, rd_Correlation r) of None \<Rightarrow> s | Some ib \<Rightarrow>
          effect (Delivered ev) (s\<lparr>xs_pending := (xs_pending s)((rd_ConnectorID r, rd_Correlation r) \<mapsto> inbox_put ev ib)\<rparr>))"

definition empty_inbox :: "bool \<Rightarrow> inbox" where
  "empty_inbox reconciling = \<lparr>ib_reconciling = reconciling, ib_ack = None, ib_rejected = None, ib_result = None, ib_reconcile = None\<rparr>"

definition the_inbox :: "uuid \<times> Correlation \<Rightarrow> exec_state \<Rightarrow> inbox" where
  "the_inbox key s = (case xs_pending s key of None \<Rightarrow> empty_inbox False | Some ib \<Rightarrow> ib)"

definition set_inbox :: "uuid \<times> Correlation \<Rightarrow> (inbox \<Rightarrow> inbox) \<Rightarrow> exec_state \<Rightarrow> exec_state" where
  "set_inbox key f s = s\<lparr>xs_pending := (xs_pending s)(key \<mapsto> f (the_inbox key s))\<rparr>"

section \<open>Writing outcomes\<close>

definition is_letter :: "char \<Rightarrow> bool" where
  "is_letter c \<longleftrightarrow> (let n = of_char c :: nat in 65 \<le> n \<and> n \<le> 90 \<or> 97 \<le> n \<and> n \<le> 122)"

definition is_code_char :: "char \<Rightarrow> bool" where
  "is_code_char c \<longleftrightarrow> is_letter c \<or> (let n = of_char c :: nat in 48 \<le> n \<and> n \<le> 57) \<or> c = CHR ''_''"

text \<open>The pattern \<^verbatim>\<open>^[A-Za-z][A-Za-z0-9_]{0,127}$\<close>.\<close>

definition provisionErrorCode :: "string \<Rightarrow> bool" where
  "provisionErrorCode s = (case s of [] \<Rightarrow> False | c # cs \<Rightarrow> is_letter c \<and> length cs \<le> 127 \<and> list_all is_code_char cs)"

definition safeProvisionCode :: "SafeError option \<Rightarrow> string \<Rightarrow> string" where
  "safeProvisionCode err fallback =
     (case err of None \<Rightarrow> fallback | Some e \<Rightarrow> if provisionErrorCode (se_Code e) then se_Code e else fallback)"

definition write_stage :: "ProvisionUpdate \<Rightarrow> ProvisionUpdate" where
  "write_stage u =
     (if pd_MutationType (pu_Dispatch u) \<noteq> [] \<and> pu_Status u = ''RUNNING''
      then u\<lparr>pu_Stage := (if pd_MutationType (pu_Dispatch u) = ''CLEANUP'' then ''CLEANING_UP'' else ''RESETTING'')\<rparr>
      else u)"

definition write_update :: "exec_env \<Rightarrow> ProvisionUpdate \<Rightarrow> unit exec" where
  "write_update E u =
     (if pd_MutationType (pu_Dispatch u) \<noteq> []
      then store_call E (\<lambda>n. WriteMutation (xe_uS E) (xe_clock E n) (write_stage u)) (\<lambda>_. [Written (write_stage u)])
      else store_call E (\<lambda>n. WriteProvision (xe_uS E) (xe_clock E n) u) (\<lambda>_. [Written u]))"

definition plain_update :: "ProvisionDispatch \<Rightarrow> string \<Rightarrow> string \<Rightarrow> string \<Rightarrow> string \<Rightarrow> ProvisionUpdate" where
  "plain_update d status stage code message =
     \<lparr>pu_Readiness = None, pu_Dispatch = d, pu_Status = status, pu_Stage = stage, pu_ErrorCode = code,
      pu_ErrorMessage = message, pu_Resources = []\<rparr>"

definition invalidCommand :: "exec_env \<Rightarrow> ProvisionDispatch \<Rightarrow> unit exec" where
  "invalidCommand E d = write_update E (plain_update d ''FAILED'' ''REJECTED'' ''provision_command_invalid'' ''Operation command failed validation'')"

definition rejected :: "exec_env \<Rightarrow> ProvisionDispatch \<Rightarrow> OperationAckPayload \<Rightarrow> unit exec" where
  "rejected E d ack = write_update E (plain_update d ''FAILED'' ''REJECTED''
     (safeProvisionCode (ack_Error ack) ''provision_command_rejected'') ''Connector rejected the operation command'')"

definition unknown :: "exec_env \<Rightarrow> ProvisionDispatch \<Rightarrow> string \<Rightarrow> unit exec" where
  "unknown E d code = write_update E (plain_update d ''RECONCILING'' ''RECONCILING'' code ''Operation outcome requires reconciliation'')"

definition provision_resource :: "ProviderResourceResult \<Rightarrow> ProvisionResource" where
  "provision_resource r = \<lparr>px_Type = ref_ResourceType r, px_ProviderID = ref_ProviderID r, px_LogicalName = ref_LogicalName r,
     px_ObservedState = res_ObservedState r, px_Generation = ref_Generation r\<rparr>"

definition result_update :: "ProvisionDispatch \<Rightarrow> OperationResultPayload \<Rightarrow> ProvisionUpdate option" where
  "result_update d r =
     map_option (\<lambda>u. u\<lparr>pu_Readiness := orp_Readiness r, pu_Resources := map provision_resource (orp_ProviderResources r)\<rparr>)
      (if orp_Outcome r = ''SUCCEEDED'' then Some (plain_update d ''SUCCEEDED'' ''VERIFYING_READINESS'' [] [])
       else if orp_Outcome r = ''FAILED''
         then Some (plain_update d ''FAILED'' ''FAILED'' (safeProvisionCode (orp_Error r) ''provision_failed'') ''Connector reported operation failure'')
       else if orp_Outcome r = ''UNKNOWN''
         then Some (plain_update d ''RECONCILING'' ''RECONCILING'' (safeProvisionCode (orp_Error r) ''provision_outcome_unknown'')
                      ''Operation outcome requires reconciliation'')
       else None)"

definition write_result :: "exec_env \<Rightarrow> ProvisionDispatch \<Rightarrow> OperationResultPayload \<Rightarrow> unit exec" where
  "write_result E d r s =
     (case result_update d r of None \<Rightarrow> unknown E d ''provision_result_invalid'' s
      | Some u \<Rightarrow>
         (case write_update E u s of
            (Inl e, s') \<Rightarrow> if e = ExecRepo KindConstraintViolation then unknown E d ''provision_result_invalid'' s' else (Inl e, s')
          | (Inr x, s') \<Rightarrow> (Inr x, s')))"

definition deferUnsent :: "exec_env \<Rightarrow> ProvisionDispatch \<Rightarrow> unit exec" where
  "deferUnsent E d =
     store_call E (\<lambda>n. (if pd_MutationType d \<noteq> [] then DeferUnsentMutation else DeferUnsentProvision)
       (xe_uS E) (xe_clock E n) d (eo_DispatchRetryDelay (xe_opts E))) (\<lambda>_. [Deferred d])"

section \<open>Waiting for the reply\<close>

definition take_result :: "uuid \<times> Correlation \<Rightarrow> exec_state \<Rightarrow> exec_state" where
  "take_result key = set_inbox key (\<lambda>ib. ib\<lparr>ib_result := None\<rparr>)"

definition take_rejected :: "uuid \<times> Correlation \<Rightarrow> exec_state \<Rightarrow> exec_state" where
  "take_rejected key = set_inbox key (\<lambda>ib. ib\<lparr>ib_rejected := None\<rparr>)"

definition take_ack :: "uuid \<times> Correlation \<Rightarrow> exec_state \<Rightarrow> exec_state" where
  "take_ack key = set_inbox key (\<lambda>ib. ib\<lparr>ib_ack := None\<rparr>)"

definition take_reconcile :: "uuid \<times> Correlation \<Rightarrow> exec_state \<Rightarrow> exec_state" where
  "take_reconcile key = set_inbox key (\<lambda>ib. ib\<lparr>ib_reconcile := None\<rparr>)"

text \<open>At the deadline a reply that is already there still counts.\<close>

definition on_timeout :: "exec_env \<Rightarrow> ProvisionDispatch \<Rightarrow> uuid \<times> Correlation \<Rightarrow> string \<Rightarrow> unit exec" where
  "on_timeout E d key sent s =
     (let r = ib_result (the_inbox key s); s1 = (if r = None then s else take_result key s) in
      case r of
        Some (routed, p) \<Rightarrow>
          if rd_RequestMessageID routed = sent then write_result E d p s1
          else (case ib_rejected (the_inbox key s1) of
              Some (routed', a) \<Rightarrow>
                if rd_RequestMessageID routed' = sent then rejected E d a (take_rejected key s1)
                else unknown E d ''provision_response_unconfirmed'' (take_rejected key s1)
            | None \<Rightarrow> unknown E d ''provision_response_unconfirmed'' s1)
      | None \<Rightarrow>
          (case ib_rejected (the_inbox key s1) of
             Some (routed', a) \<Rightarrow>
               if rd_RequestMessageID routed' = sent then rejected E d a (take_rejected key s1)
               else unknown E d ''provision_response_unconfirmed'' (take_rejected key s1)
           | None \<Rightarrow> unknown E d ''provision_response_unconfirmed'' s1))"

fun await_reply ::
  "exec_env \<Rightarrow> ProvisionDispatch \<Rightarrow> uuid \<times> Correlation \<Rightarrow> string \<Rightarrow> bool \<Rightarrow> select_case list \<Rightarrow> exec_state
   \<Rightarrow> ((exec_error + unit) \<times> exec_state) option" where
  "await_reply E d key sent acked [] s = None"
| "await_reply E d key sent acked (Deliver ev # cs) s = await_reply E d key sent acked cs (HandleEvent ev s)"
| "await_reply E d key sent acked (SelDone # cs) s = Some (Inl ExecCancelled, s)"
| "await_reply E d key sent acked (SelTick # cs) s =
     and_then (Renew E (pd_Lease d)) (\<lambda>_. await_reply E d key sent acked cs) s"
| "await_reply E d key sent acked (SelTimer # cs) s = Some (on_timeout E d key sent s)"
| "await_reply E d key sent acked (SelRejected # cs) s =
     (case ib_rejected (the_inbox key s) of None \<Rightarrow> await_reply E d key sent acked cs s
      | Some (routed, a) \<Rightarrow>
          if rd_RequestMessageID routed \<noteq> sent then await_reply E d key sent acked cs (take_rejected key s)
          else Some (rejected E d a (take_rejected key s)))"
| "await_reply E d key sent acked (SelAck # cs) s =
     (case ib_ack (the_inbox key s) of None \<Rightarrow> await_reply E d key sent acked cs s
      | Some routed \<Rightarrow>
          if rd_RequestMessageID routed \<noteq> sent \<or> acked then await_reply E d key sent acked cs (take_ack key s)
          else and_then (write_update E (plain_update d ''RUNNING'' ''PROVISIONING'' [] []))
                 (\<lambda>_. await_reply E d key sent True cs) (take_ack key s))"
| "await_reply E d key sent acked (SelResult # cs) s =
     (case ib_result (the_inbox key s) of None \<Rightarrow> await_reply E d key sent acked cs s
      | Some (routed, p) \<Rightarrow>
          if rd_RequestMessageID routed \<noteq> sent then await_reply E d key sent acked cs (take_result key s)
          else Some (write_result E d p (take_result key s)))"
| "await_reply E d key sent acked (SelReconcile # cs) s = await_reply E d key sent acked cs s"

section \<open>Execution\<close>

definition invalid_command_error :: "conn_error \<Rightarrow> bool" where
  "invalid_command_error e = (case e of ErrInvalidCommand reason \<Rightarrow> True | _ \<Rightarrow> False)"

text \<open>What is known when the send itself failed.\<close>

definition send_failed :: "exec_env \<Rightarrow> ProvisionDispatch \<Rightarrow> uuid \<times> Correlation \<Rightarrow> conn_error \<Rightarrow> unit exec" where
  "send_failed E d key err s =
     (let ib = the_inbox key s in
      case ib_result ib of Some (routed, p) \<Rightarrow> write_result E d p (take_result key s) | None \<Rightarrow>
     (case ib_rejected ib of Some (routed, a) \<Rightarrow> rejected E d a (take_rejected key s) | None \<Rightarrow>
      if xe_cancelled E AfterSend then (Inl ExecCancelled, s)
      else if ib_ack ib \<noteq> None then unknown E d ''provision_dispatch_unconfirmed'' (take_ack key s)
      else if err \<noteq> ErrSendFailed \<and> err \<noteq> ErrDuplicateCorrelation \<and> invalid_command_error err
        then invalidCommand E d s
      else if err \<noteq> ErrSendFailed \<and> err \<noteq> ErrDuplicateCorrelation \<and> is_ErrConnectorUnavailable err
        then deferUnsent E d s
      else unknown E d ''provision_dispatch_unconfirmed'' s))"

definition correlation_of :: "exec_env \<Rightarrow> ProvisionDispatch \<Rightarrow> Correlation" where
  "correlation_of E d = \<lparr>OperationID = xe_uS E (pd_OperationID d), LabInstanceID = xe_uS E (pd_LabInstanceID d), Generation = pd_Generation d\<rparr>"

definition resource_request :: "ProvisionResource \<Rightarrow> ProviderResourceRef" where
  "resource_request r = \<lparr>ref_ResourceType = px_Type r, ref_ProviderID = px_ProviderID r, ref_Generation = px_Generation r,
     ref_LogicalName = px_LogicalName r\<rparr>"

definition command_payload :: "ProvisionDispatch \<Rightarrow> OperationCommandPayload" where
  "command_payload d =
     (if pd_MutationType d = [] then \<lparr>ocp_MutationType = ''PROVISION'', ocp_CreationSnapshot = pd_Snapshot d, ocp_ProviderResources = None\<rparr>
      else \<lparr>ocp_MutationType = pd_MutationType d,
            ocp_CreationSnapshot = (if pd_MutationType d = ''CLEANUP'' then None else pd_Snapshot d),
            ocp_ProviderResources = Some (map resource_request (pd_Resources d))\<rparr>)"

definition command_of :: "exec_env \<Rightarrow> OperationItemClaim \<Rightarrow> ProvisionDispatch \<Rightarrow> OperationCommand" where
  "command_of E claim d =
     \<lparr>oc_ConnectorID = pd_ConnectorID d, oc_SessionID = uuid_Nil, oc_RequestID = op_request_id (clm_Operation claim),
      oc_Correlation = correlation_of E d, oc_Payload = command_payload d,
      oc_Trace = xe_trace E (op_traceparent (clm_Operation claim)) (op_tracestate (clm_Operation claim))\<rparr>"

text \<open>Renewals and, for a mutation, the closing of its sessions come before the command.\<close>

definition ready_to_send :: "exec_env \<Rightarrow> ProvisionDispatch \<Rightarrow> unit exec" where
  "ready_to_send E d s =
     (case Renew E (pd_Lease d) s of
        (Inl e, s1) \<Rightarrow> (Inl e, s1)
      | (Inr _, s1) \<Rightarrow>
          if pd_MutationType d = [] then (Inr (), s1)
          else if (case eo_CloseForMutation (xe_opts E) of None \<Rightarrow> False | Some f \<Rightarrow> \<not> f d) then (Inl ExecClose, s1)
          else case Renew E (pd_Lease d)
                 (if eo_CloseForMutation (xe_opts E) = None then s1 else effect (Closed d) s1) of
              (Inl e, s2) \<Rightarrow> (Inl e, s2) | (Inr _, s2) \<Rightarrow> (Inr (), s2))"

definition send_and_wait ::
  "exec_env \<Rightarrow> OperationItemClaim \<Rightarrow> ProvisionDispatch \<Rightarrow> uuid \<times> Correlation \<Rightarrow> exec_state
   \<Rightarrow> ((exec_error + unit) \<times> exec_state) option" where
  "send_and_wait E claim d key s =
     (let s1 = fold HandleEvent (xe_during E) (effect (SentCommand (command_of E claim d)) s) in
      case xe_send E (command_of E claim d) of
        Inl err \<Rightarrow> Some (send_failed E d key err s1)
      | Inr sent \<Rightarrow> await_reply E d key sent False (xe_select E) s1)"

definition close_inbox :: "ProvisionDispatch \<Rightarrow> uuid \<times> Correlation \<Rightarrow> exec_state \<Rightarrow> exec_state" where
  "close_inbox d key s = effect (Forgot (pd_ConnectorID d) (snd key)) (s\<lparr>xs_pending := (xs_pending s)(key := None)\<rparr>)"

definition dispatch :: "exec_env \<Rightarrow> OperationItemClaim \<Rightarrow> ProvisionDispatch \<Rightarrow> exec_state \<Rightarrow> ((exec_error + unit) \<times> exec_state) option" where
  "dispatch E claim d s =
     (if pd_MutationType d \<noteq> ''CLEANUP'' \<and> pd_Snapshot d = None then Some (invalidCommand E d s)
      else let key = (pd_ConnectorID d, correlation_of E d) in
        if xs_pending s key \<noteq> None then Some (Inl ExecInvalid, s)
        else map_option (map_prod id (close_inbox d key))
               (and_then (ready_to_send E d) (\<lambda>_. send_and_wait E claim d key)
                  (s\<lparr>xs_pending := (xs_pending s)(key \<mapsto> empty_inbox False)\<rparr>)))"

section \<open>Reconciliation\<close>

definition hold_update :: "exec_env \<Rightarrow> ProvisionDispatch \<Rightarrow> ReconciliationUpdate" where
  "hold_update E d = \<lparr>ru_Dispatch = d, ru_Observations = [], ru_QueryFailed = True, ru_RetryDelay = eo_DispatchRetryDelay (xe_opts E)\<rparr>"

definition write_reconciliation :: "exec_env \<Rightarrow> ReconciliationUpdate \<Rightarrow> unit exec" where
  "write_reconciliation E u = store_call E (\<lambda>n. WriteReconciliation (xe_uS E) (xe_clock E n) u) (\<lambda>_. [WrittenReconciliation u])"

definition observation_of :: "WireObservation \<Rightarrow> ResourceObservation" where
  "observation_of o' = \<lparr>px_Type = wo_ResourceType o', px_ProviderID = wo_ProviderID o', px_LogicalName = wo_LogicalName o',
     px_ObservedState = wo_ObservedState o', px_Generation = wo_Generation o', ob_Exists = wo_Exists o', ob_Source = wo_Source o'\<rparr>"

definition reconcile_update :: "exec_env \<Rightarrow> ProvisionDispatch \<Rightarrow> ReconcileResultPayload \<Rightarrow> ReconciliationUpdate" where
  "reconcile_update E d p =
     \<lparr>ru_Dispatch = d, ru_Observations = map observation_of (rcp_Observations p), ru_QueryFailed = (rcp_Error p \<noteq> None),
      ru_RetryDelay = eo_DispatchRetryDelay (xe_opts E)\<rparr>"

definition write_reconcile_result :: "exec_env \<Rightarrow> ProvisionDispatch \<Rightarrow> ReconcileResultPayload \<Rightarrow> unit exec" where
  "write_reconcile_result E d p s =
     (case write_reconciliation E (reconcile_update E d p) s of
        (Inl e, s') \<Rightarrow> if e = ExecRepo KindConstraintViolation then write_reconciliation E (hold_update E d) s' else (Inl e, s')
      | (Inr x, s') \<Rightarrow> (Inr x, s'))"

fun await_reconcile ::
  "exec_env \<Rightarrow> ProvisionDispatch \<Rightarrow> uuid \<times> Correlation \<Rightarrow> string \<Rightarrow> select_case list \<Rightarrow> exec_state
   \<Rightarrow> ((exec_error + unit) \<times> exec_state) option" where
  "await_reconcile E d key sent [] s = None"
| "await_reconcile E d key sent (Deliver ev # cs) s = await_reconcile E d key sent cs (HandleEvent ev s)"
| "await_reconcile E d key sent (SelDone # cs) s = Some (Inl ExecCancelled, s)"
| "await_reconcile E d key sent (SelTick # cs) s =
     and_then (Renew E (pd_Lease d)) (\<lambda>_. await_reconcile E d key sent cs) s"
| "await_reconcile E d key sent (SelTimer # cs) s = Some (write_reconciliation E (hold_update E d) s)"
| "await_reconcile E d key sent (SelReconcile # cs) s =
     (case ib_reconcile (the_inbox key s) of None \<Rightarrow> await_reconcile E d key sent cs s
      | Some (routed, p) \<Rightarrow>
          if rd_RequestMessageID routed \<noteq> sent then await_reconcile E d key sent cs (take_reconcile key s)
          else Some (write_reconcile_result E d p (take_reconcile key s)))"
| "await_reconcile E d key sent (c # cs) s = await_reconcile E d key sent cs s"

definition reconcile_request :: "exec_env \<Rightarrow> OperationItemClaim \<Rightarrow> ProvisionDispatch \<Rightarrow> ReconcileRequest" where
  "reconcile_request E claim d =
     \<lparr>rr_ConnectorID = pd_ConnectorID d, rr_SessionID = uuid_Nil, rr_RequestID = op_request_id (clm_Operation claim),
      rr_Correlation = correlation_of E d,
      rr_Payload = \<lparr>rrp_KnownResources = Some (map resource_request (pd_Resources d)), rrp_DiscoverCandidates = Some True\<rparr>,
      rr_Trace = xe_trace E (op_traceparent (clm_Operation claim)) (op_tracestate (clm_Operation claim))\<rparr>"

definition ask_and_wait ::
  "exec_env \<Rightarrow> OperationItemClaim \<Rightarrow> ProvisionDispatch \<Rightarrow> uuid \<times> Correlation \<Rightarrow> exec_state
   \<Rightarrow> ((exec_error + unit) \<times> exec_state) option" where
  "ask_and_wait E claim d key s =
     (let s1 = fold HandleEvent (xe_during E) (effect (SentReconcile (reconcile_request E claim d)) s) in
      case xe_sendReconcile E (reconcile_request E claim d) of
        Inl err \<Rightarrow> Some (if xe_cancelled E AfterSend then (Inl ExecCancelled, s1) else write_reconciliation E (hold_update E d) s1)
      | Inr sent \<Rightarrow> map_option (map_prod id (effect (ForgotReconcile (pd_ConnectorID d) sent)))
                      (await_reconcile E d key sent (xe_select E) s1))"

definition reconcile :: "exec_env \<Rightarrow> OperationItemClaim \<Rightarrow> exec_state \<Rightarrow> ((exec_error + unit) \<times> exec_state) option" where
  "reconcile E claim =
     and_then (store_call E (\<lambda>n. PrepareReconciliation (xe_uS E) (xe_clock E n) (clm_Lease claim)) (\<lambda>_. []))
       (\<lambda>d s. let key = (pd_ConnectorID d, correlation_of E d) in
          if xs_pending s key \<noteq> None then Some (Inl (ExecRepo KindConflict), s)
          else map_option (map_prod id (\<lambda>s. s\<lparr>xs_pending := (xs_pending s)(key := None)\<rparr>))
                 (and_then (Renew E (pd_Lease d)) (\<lambda>_. ask_and_wait E claim d key)
                    (s\<lparr>xs_pending := (xs_pending s)(key \<mapsto> empty_inbox True)\<rparr>)))"

section \<open>The worker\<close>

definition prepare :: "exec_env \<Rightarrow> OperationItemClaim \<Rightarrow> ProvisionDispatch exec" where
  "prepare E claim s =
     (if op_type (clm_Operation claim) = ''RESET'' \<or> op_type (clm_Operation claim) = ''CLEANUP''
      then if \<not> eo_Mutations (xe_opts E) then (Inl ExecInvalid, s)
           else store_call E (\<lambda>n. PrepareMutation (xe_uS E) (xe_clock E n) (clm_Lease claim)) (\<lambda>_. []) s
      else store_call E (\<lambda>n. PrepareProvision (xe_uS E) (xe_clock E n) (clm_Lease claim)) (\<lambda>_. []) s)"

definition execute :: "exec_env \<Rightarrow> OperationItemClaim \<Rightarrow> exec_state \<Rightarrow> ((exec_error + unit) \<times> exec_state) option" where
  "execute E claim =
     (if it_status (clm_Item claim) = ''RECONCILING'' then reconcile E claim
      else and_then (prepare E claim) (dispatch E claim))"

text \<open>The answer says whether an item was claimed.\<close>

definition RunOne :: "exec_env \<Rightarrow> exec_state \<Rightarrow> ((bool \<times> exec_error option) \<times> exec_state) option" where
  "RunOne E s =
     (if xe_cancelled E AtStart then Some ((False, Some ExecCancelled), s)
      else case claim_item E s of
        (Inl e, s1) \<Rightarrow> Some ((False, if e = ExecRepo KindNotFound then None else Some e), s1)
      | (Inr claim, s1) \<Rightarrow>
          if xe_cancelled E AfterClaim then Some ((True, Some ExecCancelled), s1)
          else case Renew E (clm_Lease claim) s1 of
            (Inl e, s2) \<Rightarrow> Some ((True, Some e), s2)
          | (Inr _, s2) \<Rightarrow>
              if xe_cancelled E AfterRenew then Some ((True, Some ExecCancelled), s2)
              else map_option (\<lambda>(r, s3). ((True, case r of Inl e \<Rightarrow> Some e | Inr _ \<Rightarrow> None), s3)) (execute E claim s2))"

text \<open>One turn of a slot of \<^verbatim>\<open>Run\<close>: \<open>ready\<close> is the answer of the readiness check. The slot goes on at
  once after a successful execution and waits for the poll interval otherwise.\<close>

definition slot_turn :: "exec_env \<Rightarrow> bool \<Rightarrow> exec_state \<Rightarrow> (bool \<times> exec_state) option" where
  "slot_turn E ready s =
     (if \<not> ready then Some (False, s)
      else map_option (\<lambda>((claimed, err), s'). (claimed \<and> err = None, s')) (RunOne E s))"

end
