(* ===== verification/Executor_Evidence.thy ===== *)
theory Executor_Evidence
  imports Operation_Executor
begin

text \<open>
  What the worker of \<open>Operation_Executor\<close> may do, as conditions on the trace of its steps: each step rests on the
  steps before it. The theory holds the invariant of an execution, the lemmas that every part of it
  keeps the invariant, termination, the composition with the Connector router, and the witnesses.
\<close>

section \<open>Evidence\<close>

text \<open>
  What each step of a trace must rest on, read off the steps before it. A command goes out at most once,
  never beside a reconciliation request, and only when the step before it renewed the claimed lease. What
  is recorded rests on what the Connector sent for that very item after this command or this question
  went out, under the identifier that the router gave it. Only where the write of a command failed does the router
  give no identifier, and then the worker takes any reply for the item, as the code does. Work is put back
  only when the router answered that it had no connection to write to and no reply was heard.
\<close>

definition dispatch_key :: "exec_env \<Rightarrow> ProvisionDispatch \<Rightarrow> uuid \<times> Correlation" where
  "dispatch_key E d = (pd_ConnectorID d, correlation_of E d)"

definition from_key :: "exec_env \<Rightarrow> ProvisionDispatch \<Rightarrow> Routed \<Rightarrow> bool" where
  "from_key E d r \<longleftrightarrow> (rd_ConnectorID r, rd_Correlation r) = dispatch_key E d"

definition sends :: "effect \<Rightarrow> bool" where
  "sends a = (case a of SentCommand c \<Rightarrow> True | SentReconcile r \<Rightarrow> True | _ \<Rightarrow> False)"

definition renewed_last :: "effect list \<Rightarrow> bool" where
  "renewed_last tr \<longleftrightarrow> (case rev tr of Renewed l # rest \<Rightarrow> Claimed l \<in> set rest | _ \<Rightarrow> False)"

text \<open>The first message that went out, and all that followed.\<close>

definition after_send :: "effect list \<Rightarrow> effect list" where
  "after_send tr = dropWhile (\<lambda>a. \<not> sends a) tr"

text \<open>The reply carries the identifier under which the router sent the command, where it sent it.\<close>

definition identified :: "conn_error + string \<Rightarrow> Routed \<Rightarrow> bool" where
  "identified answer r = (case answer of Inr sent \<Rightarrow> rd_RequestMessageID r = sent | Inl e \<Rightarrow> True)"

definition came :: "exec_env \<Rightarrow> ProvisionDispatch \<Rightarrow> conn_error + string \<Rightarrow> (Event \<Rightarrow> bool) \<Rightarrow> effect list \<Rightarrow> bool" where
  "came E d answer P later \<longleftrightarrow> list_ex (\<lambda>a. case a of
       Delivered ev \<Rightarrow> (case event_routed ev of None \<Rightarrow> False
         | Some r \<Rightarrow> from_key E d r \<and> identified answer r \<and> P ev) | _ \<Rightarrow> False) later"

definition replied :: "exec_env \<Rightarrow> effect list \<Rightarrow> ProvisionDispatch \<Rightarrow> (Event \<Rightarrow> bool) \<Rightarrow> bool" where
  "replied E tr d P \<longleftrightarrow> (case after_send tr of
       SentCommand c # later \<Rightarrow> (oc_ConnectorID c, oc_Correlation c) = dispatch_key E d \<and> came E d (xe_send E c) P later
     | _ \<Rightarrow> False)"

text \<open>A question has an answer only where the router sent the question.\<close>

definition found_out :: "exec_env \<Rightarrow> effect list \<Rightarrow> ProvisionDispatch \<Rightarrow> (Event \<Rightarrow> bool) \<Rightarrow> bool" where
  "found_out E tr d P \<longleftrightarrow> (case after_send tr of
       SentReconcile q # later \<Rightarrow> (rr_ConnectorID q, rr_Correlation q) = dispatch_key E d
         \<and> (case xe_sendReconcile E q of Inl e \<Rightarrow> False | Inr sent \<Rightarrow> came E d (Inr sent) P later)
     | _ \<Rightarrow> False)"

text \<open>A result says what is recorded: the outcome, the readiness and the resources.\<close>

definition reports :: "ProvisionUpdate \<Rightarrow> Event \<Rightarrow> bool" where
  "reports u ev = (case ev of OperationResultEvent r p \<Rightarrow>
       orp_Outcome p = pu_Status u \<and> orp_Readiness p = pu_Readiness u \<and> map provision_resource (orp_ProviderResources p) = pu_Resources u
     | _ \<Rightarrow> False)"

definition observes :: "ReconciliationUpdate \<Rightarrow> Event \<Rightarrow> bool" where
  "observes u ev = (case ev of ReconcileResultEvent r p \<Rightarrow>
       map observation_of (rcp_Observations p) = ru_Observations u \<and> (rcp_Error p \<noteq> None \<longleftrightarrow> ru_QueryFailed u)
     | _ \<Rightarrow> False)"

definition is_acceptance :: "Event \<Rightarrow> bool" where
  "is_acceptance ev = (case ev of OperationAckEvent r a \<Rightarrow> ack_Accepted a | _ \<Rightarrow> False)"

definition is_refusal :: "Event \<Rightarrow> bool" where
  "is_refusal ev = (case ev of OperationAckEvent r a \<Rightarrow> \<not> ack_Accepted a | _ \<Rightarrow> False)"

definition is_reply :: "Event \<Rightarrow> bool" where
  "is_reply ev = (case ev of OperationAckEvent r a \<Rightarrow> True | OperationResultEvent r p \<Rightarrow> True | _ \<Rightarrow> False)"

definition heard :: "exec_env \<Rightarrow> effect list \<Rightarrow> ProvisionDispatch \<Rightarrow> bool" where
  "heard E tr d \<longleftrightarrow> list_ex (\<lambda>a. case a of
       Delivered ev \<Rightarrow> (case event_routed ev of None \<Rightarrow> False
         | Some r \<Rightarrow> from_key E d r \<and> is_reply ev) | _ \<Rightarrow> False) tr"

definition send_answered :: "exec_env \<Rightarrow> effect list \<Rightarrow> (conn_error \<Rightarrow> bool) \<Rightarrow> bool" where
  "send_answered E tr P \<longleftrightarrow> list_ex (\<lambda>a. case a of
       SentCommand c \<Rightarrow> (case xe_send E c of Inl e \<Rightarrow> P e | Inr _ \<Rightarrow> False) | _ \<Rightarrow> False) tr"

text \<open>A failure that no reply reported: the command never reached the Connector, and nothing was heard of it.\<close>

definition never_sent :: "exec_env \<Rightarrow> effect list \<Rightarrow> ProvisionUpdate \<Rightarrow> bool" where
  "never_sent E tr u \<longleftrightarrow> pu_ErrorCode u = ''provision_command_invalid'' \<and> \<not> heard E tr (pu_Dispatch u)
     \<and> (send_answered E tr invalid_command_error
        \<or> pd_MutationType (pu_Dispatch u) \<noteq> ''CLEANUP'' \<and> pd_Snapshot (pu_Dispatch u) = None \<and> \<not> list_ex sends tr)"

text \<open>A reconciliation that only holds the item: it observed nothing and says that the query failed.\<close>

definition holds_item :: "ReconciliationUpdate \<Rightarrow> bool" where
  "holds_item u \<longleftrightarrow> ru_Observations u = [] \<and> ru_QueryFailed u"

definition justified :: "exec_env \<Rightarrow> effect list \<Rightarrow> effect \<Rightarrow> bool" where
  "justified E tr a =
     (case a of
        SentCommand c \<Rightarrow> renewed_last tr \<and> \<not> list_ex sends tr
      | SentReconcile r \<Rightarrow> renewed_last tr \<and> \<not> list_ex sends tr
      | Written u \<Rightarrow>
          (pu_Status u = ''RUNNING'' \<longrightarrow> replied E tr (pu_Dispatch u) is_acceptance)
        \<and> (pu_Status u = ''SUCCEEDED'' \<longrightarrow> replied E tr (pu_Dispatch u) (reports u))
        \<and> (pu_Status u = ''FAILED'' \<longrightarrow>
             replied E tr (pu_Dispatch u) (reports u) \<or> replied E tr (pu_Dispatch u) is_refusal \<or> never_sent E tr u)
      | WrittenReconciliation u \<Rightarrow> holds_item u \<or> found_out E tr (ru_Dispatch u) (observes u)
      | Deferred d \<Rightarrow> send_answered E tr is_ErrConnectorUnavailable \<and> \<not> heard E tr d
      | _ \<Rightarrow> True)"

definition evidenced :: "exec_env \<Rightarrow> effect list \<Rightarrow> bool" where
  "evidenced E tr \<longleftrightarrow> list_all (\<lambda>i. justified E (take i tr) (tr ! i)) [0..<length tr]"

lemma evidenced_Nil [simp]: "evidenced E []"
  by (simp add: evidenced_def)

lemma evidenced_snoc [simp]: "evidenced E (tr @ [a]) \<longleftrightarrow> evidenced E tr \<and> justified E tr a"
  by (auto simp: evidenced_def list_all_iff nth_append)

lemma sends_simps [simp]:
  "sends (SentCommand c)" "sends (SentReconcile r)" "\<not> sends (Claimed l)" "\<not> sends (Renewed l)" "\<not> sends (Closed d)" "\<not> sends (Delivered ev)"
  "\<not> sends (Written u)" "\<not> sends (Deferred d)" "\<not> sends (WrittenReconciliation v)" "\<not> sends (Forgot x corr)" "\<not> sends (ForgotReconcile x m)"
  by (simp_all add: sends_def)

lemma justified_free [simp]:
  "justified E tr (Claimed l)" "justified E tr (Renewed l)" "justified E tr (Closed d)" "justified E tr (Delivered ev)"
  "justified E tr (Forgot c corr)" "justified E tr (ForgotReconcile c m)" "justified E tr (WrittenReconciliation (hold_update E d))"
  by (simp_all add: justified_def holds_item_def hold_update_def)

lemma after_send_append: "after_send tr \<noteq> [] \<Longrightarrow> after_send (tr @ ext) = after_send tr @ ext"
  by (induction tr) (auto simp: after_send_def)

lemma after_send_first: "\<not> list_ex sends tr \<Longrightarrow> sends a \<Longrightarrow> after_send (tr @ [a]) = [a]"
  by (induction tr) (auto simp: after_send_def)

section \<open>What the steps leave alone\<close>

lemma store_call_state:
  assumes "store_call E f note s = (r, s')"
  shows "xs_pending s' = xs_pending s
    \<and> xs_trace s' = xs_trace s @ (case r of Inl e \<Rightarrow> [] | Inr x \<Rightarrow> note x)"
  using assms by (auto simp: store_call_def Let_def split: prod.splits sum.splits if_splits)

lemma Renew_state:
  assumes "Renew E lease s = (r, s')"
  shows "xs_pending s' = xs_pending s
    \<and> xs_trace s' = xs_trace s @ (case r of Inl e \<Rightarrow> [] | Inr x \<Rightarrow> [Renewed lease])"
  using assms by (auto simp: Renew_def Let_def split: prod.splits sum.splits if_splits dest!: store_call_state)

lemma claim_item_state:
  assumes "claim_item E s = (r, s')"
  shows "xs_pending s' = xs_pending s
    \<and> xs_trace s' = xs_trace s @ (case r of Inl e \<Rightarrow> [] | Inr c \<Rightarrow> [Claimed (clm_Lease c)])"
  using assms by (auto simp: claim_item_def Let_def split: prod.splits sum.splits if_splits dest!: store_call_state)

lemma write_stage_sel [simp]:
  "pu_Status (write_stage u) = pu_Status u" "pu_Dispatch (write_stage u) = pu_Dispatch u"
  "pu_ErrorCode (write_stage u) = pu_ErrorCode u" "pu_Readiness (write_stage u) = pu_Readiness u"
  "pu_Resources (write_stage u) = pu_Resources u"
  by (simp_all add: write_stage_def)

lemma write_stage_evidence [simp]: "reports (write_stage u) = reports u" "never_sent E tr (write_stage u) = never_sent E tr u"
  by (auto simp: reports_def never_sent_def fun_eq_iff split: Event.split)

lemma write_update_state:
  assumes "write_update E u s = (r, s')"
  shows "xs_pending s' = xs_pending s
    \<and> xs_trace s' = xs_trace s @ (case r of Inl e \<Rightarrow> [] | Inr x \<Rightarrow> [Written (if pd_MutationType (pu_Dispatch u) \<noteq> [] then write_stage u else u)])"
  using assms by (auto simp: write_update_def split: if_splits dest!: store_call_state)

lemma effect_sel [simp]:
  "xs_trace (effect a s) = xs_trace s @ [a]" "xs_pending (effect a s) = xs_pending s"
  by (simp_all add: effect_def)

lemma set_inbox_sel [simp]: "xs_trace (set_inbox key f s) = xs_trace s" "the_inbox key (set_inbox key f s) = f (the_inbox key s)"
  by (simp_all add: set_inbox_def the_inbox_def)

section \<open>The invariant of an execution\<close>

text \<open>One message went out, and whatever the inbox holds was delivered for this item after it.\<close>

definition turn_inv :: "exec_env \<Rightarrow> effect \<Rightarrow> ProvisionDispatch \<Rightarrow> exec_state \<Rightarrow> bool" where
  "turn_inv E out d s \<longleftrightarrow> evidenced E (xs_trace s) \<and> (\<exists>later. after_send (xs_trace s) = out # later)
     \<and> (\<forall>r p. ib_result (the_inbox (dispatch_key E d) s) = Some (r, p) \<longrightarrow>
          Delivered (OperationResultEvent r p) \<in> set (after_send (xs_trace s)) \<and> from_key E d r)
     \<and> (\<forall>r a. ib_rejected (the_inbox (dispatch_key E d) s) = Some (r, a) \<longrightarrow>
          Delivered (OperationAckEvent r a) \<in> set (after_send (xs_trace s)) \<and> from_key E d r \<and> \<not> ack_Accepted a)
     \<and> (\<forall>r. ib_ack (the_inbox (dispatch_key E d) s) = Some r \<longrightarrow>
          (\<exists>a. Delivered (OperationAckEvent r a) \<in> set (after_send (xs_trace s)) \<and> ack_Accepted a) \<and> from_key E d r)
     \<and> (\<forall>r p. ib_reconcile (the_inbox (dispatch_key E d) s) = Some (r, p) \<longrightarrow>
          Delivered (ReconcileResultEvent r p) \<in> set (after_send (xs_trace s)) \<and> from_key E d r)"

abbreviation exec_inv :: "exec_env \<Rightarrow> OperationItemClaim \<Rightarrow> ProvisionDispatch \<Rightarrow> exec_state \<Rightarrow> bool" where
  "exec_inv E claim d \<equiv> turn_inv E (SentCommand (command_of E claim d)) d"

lemma turn_inv_evidenced: "turn_inv E out d s \<Longrightarrow> evidenced E (xs_trace s)"
  by (simp add: turn_inv_def)

lemma turn_inv_start:
  assumes "evidenced E (xs_trace s)" "renewed_last (xs_trace s)" "\<not> list_ex sends (xs_trace s)" "sends out"
    "\<And>tr. renewed_last tr \<Longrightarrow> \<not> list_ex sends tr \<Longrightarrow> justified E tr out" "xs_pending s (dispatch_key E d) = Some (empty_inbox b)"
  shows "turn_inv E out d (effect out s)"
proof -
  have "the_inbox (dispatch_key E d) (effect out s) = empty_inbox b" using assms(6) by (simp add: the_inbox_def effect_def)
  then show ?thesis using assms by (simp add: turn_inv_def after_send_first empty_inbox_def effect_def)
qed

lemma turn_inv_grow:
  assumes "turn_inv E out d s" and "xs_pending s' = xs_pending s" and "xs_trace s' = xs_trace s @ [a]"
    and "justified E (xs_trace s) a"
  shows "turn_inv E out d s'"
proof -
  have "after_send (xs_trace s) \<noteq> []" using assms(1) by (auto simp: turn_inv_def)
  then have "after_send (xs_trace s') = after_send (xs_trace s) @ [a]" using assms(3) by (simp add: after_send_append)
  with assms show ?thesis by (auto simp: turn_inv_def the_inbox_def)
qed

lemma turn_inv_same:
  assumes "turn_inv E out d s" and "xs_pending s' = xs_pending s" and "xs_trace s' = xs_trace s"
  shows "turn_inv E out d s'"
  using assms by (simp add: turn_inv_def the_inbox_def)

lemma Renew_inv:
  assumes "turn_inv E out d s" "Renew E lease s = (r, s')"
  shows "turn_inv E out d s'"
  using Renew_state [OF assms(2)] turn_inv_same [OF assms(1), of s'] turn_inv_grow [OF assms(1), of s' "Renewed lease"]
  by (cases r) simp_all

lemma offer_Some: "offer slot x = Some y \<longleftrightarrow> slot = Some y \<or> slot = None \<and> x = y"
  by (auto simp: offer_def split: option.splits)

lemma inbox_put_result:
  "ib_result (inbox_put ev ib) = Some (r, p) \<Longrightarrow> ib_result ib = Some (r, p) \<or> ev = OperationResultEvent r p"
  "ib_rejected (inbox_put ev ib) = Some (r, a) \<Longrightarrow> ib_rejected ib = Some (r, a) \<or> ev = OperationAckEvent r a \<and> \<not> ack_Accepted a"
  "ib_ack (inbox_put ev ib) = Some r \<Longrightarrow> ib_ack ib = Some r \<or> (\<exists>a. ev = OperationAckEvent r a \<and> ack_Accepted a)"
  "ib_reconcile (inbox_put ev ib) = Some (r, q) \<Longrightarrow> ib_reconcile ib = Some (r, q) \<or> ev = ReconcileResultEvent r q"
  by (auto simp: inbox_put_def offer_Some split: Event.splits if_splits)

lemma HandleEvent_state:
  obtains (ignored) "HandleEvent ev s = s"
  | (taken) r ib where "event_routed ev = Some r" "xs_pending s (rd_ConnectorID r, rd_Correlation r) = Some ib"
      "HandleEvent ev s = effect (Delivered ev) (s\<lparr>xs_pending := (xs_pending s)((rd_ConnectorID r, rd_Correlation r) \<mapsto> inbox_put ev ib)\<rparr>)"
proof (cases "HandleEvent ev s = s")
  case True
  then show thesis by (rule ignored)
next
  case False
  then obtain r ib where "event_routed ev = Some r" "xs_pending s (rd_ConnectorID r, rd_Correlation r) = Some ib"
    "rd_RequestMessageID r \<noteq> []" "rd_MessageID r \<noteq> []"
    by (auto simp: HandleEvent_def split: option.splits if_splits)
  then show thesis by (intro taken [of r ib]) (simp_all add: HandleEvent_def)
qed

lemma HandleEvent_inv:
  assumes inv: "turn_inv E out d s"
  shows "turn_inv E out d (HandleEvent ev s)"
proof (cases rule: HandleEvent_state [of ev s])
  case ignored
  with inv show ?thesis by simp
next
  case (taken r ib)
  let ?s' = "HandleEvent ev s" and ?key = "dispatch_key E d"
  have tr: "xs_trace ?s' = xs_trace s @ [Delivered ev]" by (simp add: taken(3))
  have "after_send (xs_trace s) \<noteq> []" using inv by (auto simp: turn_inv_def)
  then have af: "after_send (xs_trace ?s') = after_send (xs_trace s) @ [Delivered ev]" by (simp add: tr after_send_append)
  show ?thesis
  proof (cases "(rd_ConnectorID r, rd_Correlation r) = ?key")
    case True
    then have ib: "the_inbox ?key s = ib" "the_inbox ?key ?s' = inbox_put ev ib" using taken(2) by (simp_all add: the_inbox_def taken(3))
    have k: "from_key E d r" using True by (simp add: from_key_def)
    note held = inv [unfolded turn_inv_def ib]
    have "Delivered (OperationResultEvent r' p) \<in> set (after_send (xs_trace ?s')) \<and> from_key E d r'"
      if "ib_result (inbox_put ev ib) = Some (r', p)" for r' p
      using inbox_put_result(1) [OF that] held k taken(1) by (auto simp: af event_routed_def)
    moreover have "Delivered (OperationAckEvent r' a) \<in> set (after_send (xs_trace ?s')) \<and> from_key E d r' \<and> \<not> ack_Accepted a"
      if "ib_rejected (inbox_put ev ib) = Some (r', a)" for r' a
      using inbox_put_result(2) [OF that] held k taken(1) by (auto simp: af event_routed_def)
    moreover have "(\<exists>a. Delivered (OperationAckEvent r' a) \<in> set (after_send (xs_trace ?s')) \<and> ack_Accepted a) \<and> from_key E d r'"
      if "ib_ack (inbox_put ev ib) = Some r'" for r'
      using inbox_put_result(3) [OF that] held k taken(1) by (auto simp: af event_routed_def)
    moreover have "Delivered (ReconcileResultEvent r' p) \<in> set (after_send (xs_trace ?s')) \<and> from_key E d r'"
      if "ib_reconcile (inbox_put ev ib) = Some (r', p)" for r' p
      using inbox_put_result(4) [OF that] held k taken(1) by (auto simp: af event_routed_def)
    moreover have "evidenced E (xs_trace ?s')" "\<exists>later. after_send (xs_trace ?s') = out # later"
      using held by (auto simp: af) (simp add: tr)
    ultimately show ?thesis unfolding turn_inv_def ib(2) by blast
  next
    case False
    then have "the_inbox ?key ?s' = the_inbox ?key s" by (auto simp: the_inbox_def taken(3))
    with inv af show ?thesis by (auto simp: turn_inv_def) (simp_all add: tr)
  qed
qed

lemma take_inv:
  assumes "turn_inv E out d s"
  shows "turn_inv E out d (take_result key s)" "turn_inv E out d (take_rejected key s)"
    "turn_inv E out d (take_ack key s)" "turn_inv E out d (take_reconcile key s)"
proof -
  have "the_inbox k (set_inbox key f s) = (if k = key then f (the_inbox key s) else the_inbox k s)" for k f
    by (simp add: set_inbox_def the_inbox_def)
  then show "turn_inv E out d (take_result key s)" "turn_inv E out d (take_rejected key s)"
    "turn_inv E out d (take_ack key s)" "turn_inv E out d (take_reconcile key s)"
    using assms by (simp_all add: turn_inv_def take_result_def take_rejected_def take_ack_def take_reconcile_def)
qed

text \<open>A reply that the execution holds is a reply in the sense of the evidence.\<close>

abbreviation answers_command :: "exec_env \<Rightarrow> OperationItemClaim \<Rightarrow> ProvisionDispatch \<Rightarrow> Routed \<Rightarrow> bool" where
  "answers_command E claim d \<equiv> identified (xe_send E (command_of E claim d))"

lemma command_key: "(oc_ConnectorID (command_of E claim d), oc_Correlation (command_of E claim d)) = dispatch_key E d"
  by (simp add: command_of_def dispatch_key_def)

lemma request_key: "(rr_ConnectorID (reconcile_request E claim d), rr_Correlation (reconcile_request E claim d)) = dispatch_key E d"
  by (simp add: reconcile_request_def dispatch_key_def)

lemma came_intro:
  assumes "Delivered ev \<in> set (out # later)" "\<And>e. out \<noteq> Delivered e" "event_routed ev = Some r" "from_key E d r" "identified answer r" "P ev"
  shows "came E d answer P later"
  using assms unfolding came_def list_ex_iff by (intro bexI [of _ "Delivered ev"]) auto

lemma replied_intro:
  assumes "exec_inv E claim d s" "Delivered ev \<in> set (after_send (xs_trace s))" "event_routed ev = Some r" "from_key E d r"
    "answers_command E claim d r" "P ev"
  shows "replied E (xs_trace s) d P"
proof -
  obtain later where l: "after_send (xs_trace s) = SentCommand (command_of E claim d) # later"
    using assms(1) by (auto simp: turn_inv_def)
  have "came E d (xe_send E (command_of E claim d)) P later"
    by (rule came_intro [where P = P, OF assms(2) [unfolded l] _ assms(3-6)]) simp
  then show ?thesis by (simp add: replied_def l command_key)
qed

lemma found_out_intro:
  assumes "turn_inv E (SentReconcile (reconcile_request E claim d)) d s"
    "ib_reconcile (the_inbox (dispatch_key E d) s) = Some (r, p)"
    "xe_sendReconcile E (reconcile_request E claim d) = Inr sent" "rd_RequestMessageID r = sent" "P (ReconcileResultEvent r p)"
  shows "found_out E (xs_trace s) d P"
proof -
  obtain later where l: "after_send (xs_trace s) = SentReconcile (reconcile_request E claim d) # later"
    and h: "Delivered (ReconcileResultEvent r p) \<in> set (after_send (xs_trace s))" "from_key E d r"
    using assms(1,2) by (auto simp: turn_inv_def)
  have "came E d (Inr sent) P later"
    by (rule came_intro [where P = P, OF h(1) [unfolded l] _ _ h(2) _ assms(5)]) (simp_all add: event_routed_def identified_def assms(4))
  then show ?thesis by (simp add: found_out_def l request_key assms(3))
qed

lemma write_update_inv:
  assumes "turn_inv E out d s" "write_update E u s = (r, s')" "justified E (xs_trace s) (Written u)"
  shows "turn_inv E out d s'"
proof -
  let ?u = "if pd_MutationType (pu_Dispatch u) \<noteq> [] then write_stage u else u"
  have "justified E (xs_trace s) (Written ?u)" using assms(3) by (simp add: justified_def)
  then show ?thesis
    using write_update_state [OF assms(2)] turn_inv_same [OF assms(1), of s'] turn_inv_grow [OF assms(1), of s' "Written ?u"]
    by (cases r) simp_all
qed

lemma plain_update_sel [simp]:
  "pu_Status (plain_update d st stage code msg) = st" "pu_Dispatch (plain_update d st stage code msg) = d"
  "pu_ErrorCode (plain_update d st stage code msg) = code"
  by (simp_all add: plain_update_def)

lemma unknown_inv:
  assumes "turn_inv E out d s" "unknown E d code s = (r, s')"
  shows "turn_inv E out d s'"
  using write_update_inv [OF assms(1) assms(2) [unfolded unknown_def]] by (simp add: justified_def)

lemma rejected_inv:
  assumes "exec_inv E claim d s" "rejected E d a s = (r, s')" "replied E (xs_trace s) d is_refusal"
  shows "exec_inv E claim d s'"
  using write_update_inv [OF assms(1) assms(2) [unfolded rejected_def]] assms(3) by (simp add: justified_def)

lemma result_update_sel:
  "result_update d p = Some u \<Longrightarrow> pu_Dispatch u = d \<and> pu_Status u \<noteq> ''RUNNING''
     \<and> (pu_Status u = ''SUCCEEDED'' \<or> pu_Status u = ''FAILED'' \<longrightarrow> reports u (OperationResultEvent r p))"
  by (auto simp: result_update_def reports_def plain_update_def split: if_splits)

lemma write_result_inv:
  assumes "exec_inv E claim d s" "write_result E d p s = (res, s')"
    "\<And>P. P (OperationResultEvent r p) \<Longrightarrow> replied E (xs_trace s) d P"
  shows "exec_inv E claim d s'"
proof (cases "result_update d p")
  case None
  with assms(2) show ?thesis by (auto simp: write_result_def intro: unknown_inv [OF assms(1)])
next
  case (Some u)
  note u = result_update_sel [OF Some, of r]
  obtain r1 s1 where w: "write_update E u s = (r1, s1)" by (cases "write_update E u s")
  have "justified E (xs_trace s) (Written u)"
    using u assms(3) [of "reports u"] by (auto simp: justified_def)
  note inv1 = write_update_inv [OF assms(1) w this]
  show ?thesis
    using assms(2) inv1 unknown_inv [OF inv1] by (auto simp: write_result_def Some w split: sum.splits if_splits)
qed

text \<open>The two replies that settle a command, as the inbox holds them.\<close>

lemma held_result:
  assumes "exec_inv E claim d s" "ib_result (the_inbox (dispatch_key E d) s) = Some (r, p)" "answers_command E claim d r"
    "P (OperationResultEvent r p)"
  shows "replied E (xs_trace s) d P"
  using assms by (intro replied_intro [of E claim d s "OperationResultEvent r p" r]) (auto simp: turn_inv_def event_routed_def)

lemma held_refusal:
  assumes "exec_inv E claim d s" "ib_rejected (the_inbox (dispatch_key E d) s) = Some (r, a)" "answers_command E claim d r"
  shows "replied E (xs_trace s) d is_refusal"
  using assms by (intro replied_intro [of E claim d s "OperationAckEvent r a" r]) (auto simp: turn_inv_def event_routed_def is_refusal_def)

lemma held_acceptance:
  assumes "exec_inv E claim d s" "ib_ack (the_inbox (dispatch_key E d) s) = Some r" "answers_command E claim d r"
  shows "replied E (xs_trace s) d is_acceptance"
proof -
  obtain a where "Delivered (OperationAckEvent r a) \<in> set (after_send (xs_trace s))" "ack_Accepted a" "from_key E d r"
    using assms(1,2) by (auto simp: turn_inv_def)
  then show ?thesis
    using assms(1,3) by (intro replied_intro [of E claim d s "OperationAckEvent r a" r]) (simp_all add: event_routed_def is_acceptance_def)
qed

lemma settle_result:
  assumes "exec_inv E claim d s" "ib_result (the_inbox (dispatch_key E d) s) = Some (r, p)" "answers_command E claim d r"
  shows "exec_inv E claim d (snd (write_result E d p (take_result (dispatch_key E d) s)))"
proof -
  obtain res s' where w: "write_result E d p (take_result (dispatch_key E d) s) = (res, s')"
    by (cases "write_result E d p (take_result (dispatch_key E d) s)")
  have "exec_inv E claim d s'"
    by (rule write_result_inv [OF take_inv(1) [OF assms(1)] w, of r]) (use held_result [OF assms] in \<open>simp add: take_result_def\<close>)
  then show ?thesis by (simp add: w)
qed

lemma settle_refusal:
  assumes "exec_inv E claim d s" "ib_rejected (the_inbox (dispatch_key E d) s) = Some (r, a)" "answers_command E claim d r"
  shows "exec_inv E claim d (snd (rejected E d a (take_rejected (dispatch_key E d) s)))"
proof -
  obtain res s' where w: "rejected E d a (take_rejected (dispatch_key E d) s) = (res, s')"
    by (cases "rejected E d a (take_rejected (dispatch_key E d) s)")
  have "exec_inv E claim d s'"
    by (rule rejected_inv [OF take_inv(2) [OF assms(1)] w]) (use held_refusal [OF assms] in \<open>simp add: take_rejected_def\<close>)
  then show ?thesis by (simp add: w)
qed

lemma settle_unknown: "turn_inv E out d s \<Longrightarrow> turn_inv E out d (snd (unknown E d code s))"
  using unknown_inv [of E out d s code] by (metis surj_pair snd_conv)

lemma on_timeout_inv:
  assumes inv: "exec_inv E claim d s" and sent: "xe_send E (command_of E claim d) = Inr sent"
  shows "exec_inv E claim d (snd (on_timeout E d (dispatch_key E d) sent s))"
proof -
  let ?key = "dispatch_key E d"
  have ok: "answers_command E claim d r" if "rd_RequestMessageID r = sent" for r using that sent by (simp add: identified_def)
  have rej: "exec_inv E claim d (snd (case ib_rejected (the_inbox ?key s1) of
             Some (routed', a) \<Rightarrow>
               if rd_RequestMessageID routed' = sent then rejected E d a (take_rejected ?key s1)
               else unknown E d ''provision_response_unconfirmed'' (take_rejected ?key s1)
           | None \<Rightarrow> unknown E d ''provision_response_unconfirmed'' s1))" if i: "exec_inv E claim d s1" for s1
    using settle_refusal [OF i] ok settle_unknown [OF i] settle_unknown [OF take_inv(2) [OF i]]
    by (auto split: option.split)
  show ?thesis
    using rej [OF inv] rej [OF take_inv(1) [OF inv]] settle_result [OF inv] ok
    by (auto simp: on_timeout_def Let_def split: option.split)
qed

lemma await_reply_inv:
  "await_reply E d (dispatch_key E d) sent acked cs s = Some (res, s') \<Longrightarrow> exec_inv E claim d s \<Longrightarrow>
   xe_send E (command_of E claim d) = Inr sent \<Longrightarrow> exec_inv E claim d s'"
proof (induction cs arbitrary: acked s)
  case (Cons c cs)
  let ?key = "dispatch_key E d"
  note IH = Cons.IH [OF _ _ Cons.prems(3)]
  have ok: "answers_command E claim d r" if "rd_RequestMessageID r = sent" for r
    using that Cons.prems(3) by (simp add: identified_def)
  note inv = Cons.prems(2)
  show ?case
  proof (cases c)
    case (Deliver ev)
    with Cons.prems(1) show ?thesis by (auto intro: IH HandleEvent_inv [OF inv])
  next
    case SelTick
    with Cons.prems(1) show ?thesis
      by (auto simp: and_then_def split: prod.splits sum.splits intro: IH Renew_inv [OF inv])
  next
    case SelTimer
    with Cons.prems(1) on_timeout_inv [OF inv Cons.prems(3)] show ?thesis by (metis await_reply.simps(5) option.inject snd_conv)
  next
    case SelRejected
    show ?thesis
    proof (cases "ib_rejected (the_inbox ?key s)")
      case (Some ra)
      obtain r a where ra: "ra = (r, a)" by (cases ra)
      show ?thesis
      proof (cases "rd_RequestMessageID r = sent")
        case True
        then have "rejected E d a (take_rejected ?key s) = (res, s')" using SelRejected Cons.prems(1) Some ra by simp
        with settle_refusal [OF inv, of r a] Some ra ok [OF True] show ?thesis by simp
      qed (use SelRejected Cons.prems(1) Some ra in \<open>auto intro: IH take_inv(2) [OF inv]\<close>)
    qed (use SelRejected Cons.prems(1) in \<open>auto intro: IH inv\<close>)
  next
    case SelAck
    show ?thesis
    proof (cases "ib_ack (the_inbox ?key s)")
      case (Some r)
      note i = take_inv(3) [OF inv, of ?key]
      show ?thesis
      proof (cases "rd_RequestMessageID r \<noteq> sent \<or> acked")
        case True
        with SelAck Cons.prems(1) Some show ?thesis by (auto intro: IH i)
      next
        case False
        then have "justified E (xs_trace (take_ack ?key s)) (Written (plain_update d ''RUNNING'' ''PROVISIONING'' [] []))"
          using held_acceptance [OF inv Some] ok by (simp add: justified_def take_ack_def)
        note w = write_update_inv [OF i _ this]
        from False SelAck Cons.prems(1) Some show ?thesis
          by (auto simp: and_then_def split: prod.splits sum.splits intro: IH w)
      qed
    qed (use SelAck Cons.prems(1) in \<open>auto intro: IH inv\<close>)
  next
    case SelResult
    show ?thesis
    proof (cases "ib_result (the_inbox ?key s)")
      case (Some rp)
      obtain r p where rp: "rp = (r, p)" by (cases rp)
      show ?thesis
      proof (cases "rd_RequestMessageID r = sent")
        case True
        then have "write_result E d p (take_result ?key s) = (res, s')" using SelResult Cons.prems(1) Some rp by simp
        with settle_result [OF inv, of r p] Some rp ok [OF True] show ?thesis by simp
      qed (use SelResult Cons.prems(1) Some rp in \<open>auto intro: IH take_inv(1) [OF inv]\<close>)
    qed (use SelResult Cons.prems(1) in \<open>auto intro: IH inv\<close>)
  next
    case SelReconcile
    with Cons.prems(1) show ?thesis by (auto intro: IH inv)
  next
    case SelDone
    with Cons.prems(1) inv show ?thesis by simp
  qed
qed simp

text \<open>Until the executor takes from it, the inbox shows whether any reply was heard.\<close>

definition unheard_inv :: "exec_env \<Rightarrow> ProvisionDispatch \<Rightarrow> exec_state \<Rightarrow> bool" where
  "unheard_inv E d s \<longleftrightarrow> xs_pending s (dispatch_key E d) \<noteq> None \<and> \<not> ib_reconciling (the_inbox (dispatch_key E d) s) \<and>
     (let ib = the_inbox (dispatch_key E d) s in
      ib_result ib = None \<and> ib_rejected ib = None \<and> ib_ack ib = None \<longrightarrow> \<not> heard E (xs_trace s) d)"

lemma heard_snoc [simp]:
  "heard E (tr @ [a]) d \<longleftrightarrow> heard E tr d \<or> (case a of Delivered ev \<Rightarrow> (case event_routed ev of None \<Rightarrow> False
       | Some r \<Rightarrow> from_key E d r \<and> is_reply ev) | _ \<Rightarrow> False)"
  by (auto simp: heard_def)

lemma inbox_put_kept:
  "ib_reconciling (inbox_put ev ib) = ib_reconciling ib"
  "ib_result (inbox_put ev ib) = None \<and> ib_rejected (inbox_put ev ib) = None \<and> ib_ack (inbox_put ev ib) = None \<Longrightarrow> \<not> ib_reconciling ib \<Longrightarrow>
     ib_result ib = None \<and> ib_rejected ib = None \<and> ib_ack ib = None \<and> \<not> is_reply ev"
  by (auto simp: inbox_put_def is_reply_def offer_def split: Event.splits if_splits option.splits)

lemma HandleEvent_unheard:
  assumes "unheard_inv E d s"
  shows "unheard_inv E d (HandleEvent ev s)"
proof (cases rule: HandleEvent_state [of ev s])
  case ignored
  with assms show ?thesis by simp
next
  case (taken r ib)
  let ?key = "dispatch_key E d"
  show ?thesis
  proof (cases "from_key E d r")
    case True
    then have k: "(rd_ConnectorID r, rd_Correlation r) = ?key" by (simp add: from_key_def)
    then have ib: "the_inbox ?key s = ib" "the_inbox ?key (HandleEvent ev s) = inbox_put ev ib" "xs_pending (HandleEvent ev s) ?key \<noteq> None"
      using taken(2) by (simp_all add: the_inbox_def taken(3))
    from assms inbox_put_kept [of ev ib] ib show ?thesis
      by (auto simp: unheard_inv_def Let_def taken(3) taken(1))
  next
    case False
    then have "the_inbox ?key (HandleEvent ev s) = the_inbox ?key s" "xs_pending (HandleEvent ev s) ?key = xs_pending s ?key"
      by (auto simp: the_inbox_def taken(3) from_key_def)
    with assms False taken(1) show ?thesis by (simp add: unheard_inv_def Let_def) (simp add: taken(3))
  qed
qed

lemma fold_HandleEvent_inv:
  "turn_inv E out d s \<Longrightarrow> turn_inv E out d (fold HandleEvent evs s)"
  by (induction evs arbitrary: s) (simp_all add: HandleEvent_inv)

lemma fold_HandleEvent_unheard:
  "unheard_inv E d s \<Longrightarrow> unheard_inv E d (fold HandleEvent evs s)"
  by (induction evs arbitrary: s) (simp_all add: HandleEvent_unheard)

lemma fold_HandleEvent_trace: "set (xs_trace s) \<subseteq> set (xs_trace (fold HandleEvent evs s))"
proof (induction evs arbitrary: s)
  case (Cons ev evs)
  have "set (xs_trace s) \<subseteq> set (xs_trace (HandleEvent ev s))" by (cases rule: HandleEvent_state [of ev s]) auto
  with Cons.IH [of "HandleEvent ev s"] show ?case by auto
qed simp

lemma send_answeredE:
  assumes "send_answered E tr P"
  obtains c e where "SentCommand c \<in> set tr" "xe_send E c = Inl e" "P e"
proof -
  from assms obtain a where a: "a \<in> set tr" "case a of SentCommand c \<Rightarrow> (case xe_send E c of Inl e \<Rightarrow> P e | Inr _ \<Rightarrow> False) | _ \<Rightarrow> False"
    unfolding send_answered_def list_ex_iff by blast
  then obtain c where c: "a = SentCommand c" by (cases a rule: effect.exhaust) simp_all
  with a that show thesis by (cases "xe_send E c") auto
qed

lemma justified_invalid:
  "send_answered E tr invalid_command_error \<Longrightarrow> \<not> heard E tr d \<Longrightarrow>
   justified E tr (Written (plain_update d ''FAILED'' stage ''provision_command_invalid'' msg))"
  by (simp add: justified_def never_sent_def)

lemma send_failed_inv:
  assumes inv: "exec_inv E claim d s" and un: "unheard_inv E d s" and cmd: "SentCommand (command_of E claim d) \<in> set (xs_trace s)"
    and err: "xe_send E (command_of E claim d) = Inl err"
  shows "exec_inv E claim d (snd (send_failed E d (dispatch_key E d) err s))"
proof -
  let ?key = "dispatch_key E d" and ?ib = "the_inbox (dispatch_key E d) s"
  have ok: "answers_command E claim d r" for r using err by (simp add: identified_def)
  have sa: "send_answered E (xs_trace s) P" if "P err" for P
    using cmd err that unfolding send_answered_def list_ex_iff by (intro bexI [of _ "SentCommand (command_of E claim d)"]) simp_all
  show ?thesis
  proof (cases "ib_result ?ib")
    case (Some rp)
    with settle_result [OF inv] ok show ?thesis by (cases rp) (simp add: send_failed_def Let_def)
  next
    case None
    note res = None
    show ?thesis
    proof (cases "ib_rejected ?ib")
      case (Some ra)
      with res settle_refusal [OF inv] ok show ?thesis by (cases ra) (simp add: send_failed_def Let_def)
    next
      case None
      note rej = None
      have inv_cmd: "exec_inv E claim d (snd (invalidCommand E d s))" if "invalid_command_error err" "ib_ack ?ib = None"
      proof -
        obtain r s' where w: "write_update E (plain_update d ''FAILED'' ''REJECTED'' ''provision_command_invalid'' ''Operation command failed validation'') s = (r, s')"
          by fastforce
        have "\<not> heard E (xs_trace s) d" using that(2) un res rej by (simp add: unheard_inv_def Let_def)
        from write_update_inv [OF inv w justified_invalid [OF sa [of invalid_command_error, OF that(1)] this]] w show ?thesis
          by (simp add: invalidCommand_def)
      qed
      have "exec_inv E claim d (snd (deferUnsent E d s))" if "is_ErrConnectorUnavailable err" "ib_ack ?ib = None"
      proof -
        obtain r s' where w: "deferUnsent E d s = (r, s')" by fastforce
        have "justified E (xs_trace s) (Deferred d)"
          using sa [of is_ErrConnectorUnavailable] that un res rej by (simp add: justified_def unheard_inv_def Let_def)
        with store_call_state [OF w [unfolded deferUnsent_def]] turn_inv_same [OF inv, of s'] turn_inv_grow [OF inv, of s' "Deferred d"]
        have "exec_inv E claim d s'" by (cases r) simp_all
        with w show ?thesis by simp
      qed
      with res rej inv_cmd inv settle_unknown [OF inv] settle_unknown [OF take_inv(3) [OF inv]] show ?thesis
        by (auto simp: send_failed_def Let_def)
    qed
  qed
qed

lemma evidenced_free:
  "(\<And>a tr. a \<in> set ext \<Longrightarrow> justified E tr a) \<Longrightarrow> evidenced E (tr @ ext) \<longleftrightarrow> evidenced E tr"
  by (induction ext rule: rev_induct) (simp_all flip: append_assoc)

lemma ready_to_send_state:
  assumes "ready_to_send E d s = (r, s')"
  obtains ext where "xs_pending s' = xs_pending s" "xs_trace s' = xs_trace s @ ext" "set ext \<subseteq> {Renewed (pd_Lease d), Closed d}"
    "r = Inr () \<longrightarrow> (\<exists>ext'. ext = ext' @ [Renewed (pd_Lease d)])"
proof (cases "Renew E (pd_Lease d) s")
  case (Pair r1 s1)
  note st1 = Renew_state [OF Pair]
  show thesis
  proof (cases "(\<exists>e. r1 = Inl e) \<or> pd_MutationType d = []")
    case True
    with assms Pair st1 show thesis
      by (intro that [of "case r1 of Inl e \<Rightarrow> [] | Inr x \<Rightarrow> [Renewed (pd_Lease d)]"])
        (auto simp: ready_to_send_def split: sum.splits)
  next
    case False
    then obtain t where r1: "r1 = Inr t" "pd_MutationType d \<noteq> []" by (cases r1) auto
    let ?s2 = "if eo_CloseForMutation (xe_opts E) = None then s1 else effect (Closed d) s1"
    obtain r2 s2 where r2: "Renew E (pd_Lease d) ?s2 = (r2, s2)" by fastforce
    note st2 = Renew_state [OF r2]
    show thesis
    proof (cases "case eo_CloseForMutation (xe_opts E) of None \<Rightarrow> False | Some f \<Rightarrow> \<not> f d")
      case True
      with assms Pair r1 st1 show thesis by (intro that [of "[Renewed (pd_Lease d)]"]) (auto simp: ready_to_send_def)
    next
      case False
      with assms Pair r1 r2 have "s' = s2" "r = Inr () \<longrightarrow> (\<exists>x. r2 = Inr x)"
        by (auto simp: ready_to_send_def split: sum.splits)
      with st1 st2 r1 show thesis
        by (intro that [of "[Renewed (pd_Lease d)] @ (if eo_CloseForMutation (xe_opts E) = None then [] else [Closed d])
              @ (case r2 of Inl e \<Rightarrow> [] | Inr x \<Rightarrow> [Renewed (pd_Lease d)])"])
          (auto split: sum.splits)
    qed
  qed
qed

lemma send_and_wait_inv:
  assumes "send_and_wait E claim d (dispatch_key E d) s = Some (res, s')"
    and ev: "evidenced E (xs_trace s)" and ren: "renewed_last (xs_trace s)" and no: "\<not> list_ex sends (xs_trace s)"
    and ib: "xs_pending s (dispatch_key E d) = Some (empty_inbox False)" and un: "\<not> heard E (xs_trace s) d"
  shows "exec_inv E claim d s'"
proof -
  let ?s1 = "effect (SentCommand (command_of E claim d)) s"
  have "the_inbox (dispatch_key E d) ?s1 = empty_inbox False" using ib by (simp add: the_inbox_def)
  then have u: "unheard_inv E d ?s1" using ib un by (simp add: unheard_inv_def empty_inbox_def Let_def)
  have i: "exec_inv E claim d ?s1" by (rule turn_inv_start [OF ev ren no _ _ ib]) (simp_all add: justified_def)
  let ?s2 = "fold HandleEvent (xe_during E) ?s1"
  have c: "SentCommand (command_of E claim d) \<in> set (xs_trace ?s2)" using fold_HandleEvent_trace [of ?s1 "xe_during E"] by auto
  note i2 = fold_HandleEvent_inv [OF i, of "xe_during E"] and u2 = fold_HandleEvent_unheard [OF u, of "xe_during E"]
  show ?thesis
  proof (cases "xe_send E (command_of E claim d)")
    case (Inl err)
    with send_failed_inv [OF i2 u2 c Inl] assms(1) show ?thesis by (simp add: send_and_wait_def Let_def)
  next
    case (Inr sent)
    with assms(1) await_reply_inv [OF _ i2 Inr] show ?thesis by (simp add: send_and_wait_def Let_def)
  qed
qed

lemma dispatch_evidenced:
  assumes "dispatch E claim d s = Some (res, s')" and ev: "evidenced E (xs_trace s)" and no: "\<not> list_ex sends (xs_trace s)"
    and cl: "Claimed (pd_Lease d) \<in> set (xs_trace s)" and un: "\<not> heard E (xs_trace s) d"
  shows "evidenced E (xs_trace s')"
proof (cases "pd_MutationType d \<noteq> ''CLEANUP'' \<and> pd_Snapshot d = None")
  case True
  let ?u = "plain_update d ''FAILED'' ''REJECTED'' ''provision_command_invalid'' ''Operation command failed validation''"
  from True assms(1) have w: "write_update E ?u s = (res, s')" by (simp add: dispatch_def invalidCommand_def)
  have "justified E (xs_trace s) (Written (if pd_MutationType (pu_Dispatch ?u) \<noteq> [] then write_stage ?u else ?u))"
    using True no un by (simp add: justified_def never_sent_def)
  with write_update_state [OF w] ev show ?thesis by (cases res) simp_all
next
  case False
  let ?key = "dispatch_key E d" and ?s0 = "s\<lparr>xs_pending := (xs_pending s)(dispatch_key E d \<mapsto> empty_inbox False)\<rparr>"
  show ?thesis
  proof (cases "xs_pending s ?key = None")
    case True
    with False assms(1) obtain s2 where
      s2: "and_then (ready_to_send E d) (\<lambda>_. send_and_wait E claim d ?key) ?s0 = Some (res, s2)" and s': "s' = close_inbox d ?key s2"
      by (auto simp: dispatch_def Let_def dispatch_key_def)
    obtain r1 s1 where r1: "ready_to_send E d ?s0 = (r1, s1)" by fastforce
    from ready_to_send_state [OF r1] obtain ext where st: "xs_pending s1 = xs_pending ?s0" "xs_trace s1 = xs_trace s @ ext"
      "set ext \<subseteq> {Renewed (pd_Lease d), Closed d}" "r1 = Inr () \<longrightarrow> (\<exists>ext'. ext = ext' @ [Renewed (pd_Lease d)])" by auto
    have "justified E tr a" if "a \<in> set ext" for a tr using st(3) that by auto
    then have ev1: "evidenced E (xs_trace s1)" using evidenced_free [of ext E "xs_trace s"] ev by (simp add: st(2))
    have "evidenced E (xs_trace s2)"
    proof (cases r1)
      case (Inl e)
      with s2 r1 ev1 show ?thesis by (simp add: and_then_def)
    next
      case (Inr x)
      then obtain ext' where ext: "ext = ext' @ [Renewed (pd_Lease d)]" using st(4) by auto
      have "renewed_last (xs_trace s1)" using cl by (simp add: renewed_last_def st(2) ext)
      moreover have "\<not> list_ex sends (xs_trace s1)" using no st(2,3) by (auto simp: list_ex_iff)
      moreover have "\<not> heard E (xs_trace s1) d" using un st(2,3) by (auto simp: heard_def list_ex_iff)
      moreover have "xs_pending s1 ?key = Some (empty_inbox False)" by (simp add: st(1))
      moreover have "send_and_wait E claim d ?key s1 = Some (res, s2)" using s2 r1 Inr by (simp add: and_then_def)
      ultimately show ?thesis using send_and_wait_inv ev1 by (metis turn_inv_evidenced)
    qed
    then show ?thesis by (simp add: s' close_inbox_def)
  next
    case f: False
    with False assms(1) ev show ?thesis by (auto simp: dispatch_def Let_def dispatch_key_def)
  qed
qed

lemma write_reconciliation_inv:
  assumes "turn_inv E out d s" "justified E (xs_trace s) (WrittenReconciliation u)"
  shows "turn_inv E out d (snd (write_reconciliation E u s))"
proof -
  obtain r s' where w: "write_reconciliation E u s = (r, s')" by fastforce
  from store_call_state [OF w [unfolded write_reconciliation_def]] turn_inv_same [OF assms(1), of s']
    turn_inv_grow [OF assms(1), of s' "WrittenReconciliation u"] assms(2) w show ?thesis by (cases r) simp_all
qed

lemma hold_inv: "turn_inv E out d s \<Longrightarrow> turn_inv E out d (snd (write_reconciliation E (hold_update E d') s))"
  by (simp add: write_reconciliation_inv)

lemma write_reconcile_result_inv:
  assumes "turn_inv E out d s" "found_out E (xs_trace s) d (observes (reconcile_update E d p))"
  shows "turn_inv E out d (snd (write_reconcile_result E d p s))"
proof -
  have "justified E (xs_trace s) (WrittenReconciliation (reconcile_update E d p))"
    using assms(2) by (simp add: justified_def) (simp add: reconcile_update_def)
  note i = write_reconciliation_inv [OF assms(1) this]
  with hold_inv [OF i] show ?thesis
    by (auto simp: write_reconcile_result_def split: prod.splits sum.splits)
qed

lemma Renew_evidenced: "evidenced E (xs_trace s) \<Longrightarrow> evidenced E (xs_trace (snd (Renew E l s)))"
proof -
  assume e: "evidenced E (xs_trace s)"
  obtain r s' where w: "Renew E l s = (r, s')" by fastforce
  from Renew_state [OF w] e w show ?thesis by (cases r) simp_all
qed

text \<open>The answer that settles a question is the one that carries its identifier.\<close>

lemma settle_answer:
  assumes inv: "turn_inv E (SentReconcile (reconcile_request E claim d)) d s"
    and sent: "xe_sendReconcile E (reconcile_request E claim d) = Inr sent"
    and ib: "ib_reconcile (the_inbox (dispatch_key E d) s) = Some (r, p)" "rd_RequestMessageID r = sent"
  shows "turn_inv E (SentReconcile (reconcile_request E claim d)) d
    (snd (write_reconcile_result E d p (take_reconcile (dispatch_key E d) s)))"
proof (rule write_reconcile_result_inv [OF take_inv(4) [OF inv]])
  have "observes (reconcile_update E d p) (ReconcileResultEvent r p)" by (simp add: observes_def reconcile_update_def)
  from found_out_intro [OF inv ib(1) sent ib(2), of "observes (reconcile_update E d p)", OF this]
  show "found_out E (xs_trace (take_reconcile (dispatch_key E d) s)) d (observes (reconcile_update E d p))"
    by (simp add: take_reconcile_def)
qed

lemma await_reconcile_inv:
  "await_reconcile E d (dispatch_key E d) sent cs s = Some (res, s') \<Longrightarrow>
   turn_inv E (SentReconcile (reconcile_request E claim d)) d s \<Longrightarrow>
   xe_sendReconcile E (reconcile_request E claim d) = Inr sent \<Longrightarrow>
   turn_inv E (SentReconcile (reconcile_request E claim d)) d s'"
proof (induction cs arbitrary: s)
  case (Cons c cs)
  note inv = Cons.prems(2) and IH = Cons.IH [OF _ _ Cons.prems(3)]
  show ?case
  proof (cases c)
    case (Deliver ev)
    with Cons.prems(1) show ?thesis by (auto intro: IH HandleEvent_inv [OF inv])
  next
    case SelTick
    with Cons.prems(1) show ?thesis
      by (auto simp: and_then_def split: prod.splits sum.splits intro: IH Renew_inv [OF inv])
  next
    case SelTimer
    with Cons.prems(1) hold_inv [OF inv, of d] show ?thesis by simp
  next
    case SelReconcile
    show ?thesis
    proof (cases "ib_reconcile (the_inbox (dispatch_key E d) s)")
      case (Some rp)
      obtain r p where rp: "rp = (r, p)" by (cases rp)
      show ?thesis
      proof (cases "rd_RequestMessageID r = sent")
        case True
        with SelReconcile Some rp Cons.prems(1) settle_answer [OF inv Cons.prems(3), of r p] show ?thesis by simp
      qed (use SelReconcile Some rp Cons.prems(1) in \<open>auto intro: IH take_inv(4) [OF inv]\<close>)
    qed (use SelReconcile Cons.prems(1) in \<open>auto intro: IH inv\<close>)
  qed (use Cons.prems(1) inv in \<open>auto intro: IH inv\<close>)
qed simp

section \<open>The whole worker\<close>

lemma dispatch_of_lease [simp]: "pd_Lease (dispatch_of lease mutation previous k) = lease"
  by (simp add: dispatch_of_def)

lemma Prepare_lease:
  "PrepareProvision uS clk lease db = (Inr d, db') \<Longrightarrow> pd_Lease d = lease"
  "PrepareMutation uS clk lease db = (Inr d, db') \<Longrightarrow> pd_Lease d = lease"
  "PrepareReconciliation uS clk lease db = (Inr d, db') \<Longrightarrow> pd_Lease d = lease"
  by (auto simp: PrepareProvision_def PrepareMutation_def PrepareReconciliation_def inTransaction_ok Let_def
      mutation_dispatch_def reconcile_dispatch_def split: sum.splits if_splits)

lemma store_call_Inr:
  assumes "store_call E f note s = (Inr x, s')"
  obtains d d' where "f (xs_calls s) d = (Inr x, d')"
proof -
  obtain r d' where "f (xs_calls s) (xe_other E (xs_calls s) (xs_db s)) = (r, d')" by fastforce
  with assms show thesis
    by (intro that [of "xe_other E (xs_calls s) (xs_db s)" d']) (auto simp: store_call_def Let_def split: if_splits sum.splits)
qed

lemma prepare_state:
  assumes "prepare E claim s = (r, s')"
  shows "xs_pending s' = xs_pending s \<and> xs_trace s' = xs_trace s \<and> (\<forall>d. r = Inr d \<longrightarrow> pd_Lease d = clm_Lease claim)"
proof (cases "op_type (clm_Operation claim) = ''RESET'' \<or> op_type (clm_Operation claim) = ''CLEANUP''")
  case True
  show ?thesis
  proof (cases "eo_Mutations (xe_opts E)")
    case m: True
    with assms True have c: "store_call E (\<lambda>n. PrepareMutation (xe_uS E) (xe_clock E n) (clm_Lease claim)) (\<lambda>_. []) s = (r, s')"
      by (simp add: prepare_def)
    have "pd_Lease d = clm_Lease claim" if "r = Inr d" for d
      using store_call_Inr [OF c [unfolded that]] Prepare_lease(2) by metis
    with store_call_state [OF c] show ?thesis by (cases r) simp_all
  qed (use assms True in \<open>auto simp: prepare_def\<close>)
next
  case False
  with assms have c: "store_call E (\<lambda>n. PrepareProvision (xe_uS E) (xe_clock E n) (clm_Lease claim)) (\<lambda>_. []) s = (r, s')"
    by (simp add: prepare_def)
  have "pd_Lease d = clm_Lease claim" if "r = Inr d" for d
    using store_call_Inr [OF c [unfolded that]] Prepare_lease(1) by metis
  with store_call_state [OF c] show ?thesis by (cases r) simp_all
qed

lemma ask_and_wait_evidenced:
  assumes "ask_and_wait E claim d (dispatch_key E d) s = Some (res, s')"
    and "evidenced E (xs_trace s)" "renewed_last (xs_trace s)" "\<not> list_ex sends (xs_trace s)"
    and "xs_pending s (dispatch_key E d) = Some (empty_inbox True)"
  shows "evidenced E (xs_trace s')"
proof -
  let ?out = "SentReconcile (reconcile_request E claim d)"
  let ?s1 = "fold HandleEvent (xe_during E) (effect ?out s)"
  have "turn_inv E ?out d (effect ?out s)" by (rule turn_inv_start [OF assms(2-4) _ _ assms(5)]) (simp_all add: justified_def)
  then have i: "turn_inv E ?out d ?s1" by (rule fold_HandleEvent_inv)
  show ?thesis
  proof (cases "xe_sendReconcile E (reconcile_request E claim d)")
    case (Inl err)
    with assms(1) turn_inv_evidenced [OF i] turn_inv_evidenced [OF hold_inv [OF i, of d]] show ?thesis
      by (auto simp: ask_and_wait_def Let_def split: if_splits)
  next
    case (Inr sent)
    with assms(1) obtain s3 where a: "await_reconcile E d (dispatch_key E d) sent (xe_select E) ?s1 = Some (res, s3)"
      and s3: "s' = effect (ForgotReconcile (pd_ConnectorID d) sent) s3"
      by (auto simp: ask_and_wait_def Let_def)
    from turn_inv_evidenced [OF await_reconcile_inv [OF a i Inr]] s3 show ?thesis by simp
  qed
qed

lemma reconcile_evidenced:
  assumes "reconcile E claim s = Some (res, s')"
    and ev: "evidenced E (xs_trace s)" and no: "\<not> list_ex sends (xs_trace s)" and cl: "Claimed (clm_Lease claim) \<in> set (xs_trace s)"
  shows "evidenced E (xs_trace s')"
proof -
  obtain r s1 where c: "store_call E (\<lambda>n. PrepareReconciliation (xe_uS E) (xe_clock E n) (clm_Lease claim)) (\<lambda>_. []) s = (r, s1)" by fastforce
  have tr1: "xs_trace s1 = xs_trace s" using store_call_state [OF c] by (cases r) simp_all
  show ?thesis
  proof (cases r)
    case (Inl e)
    with assms(1) c ev tr1 show ?thesis by (simp add: reconcile_def and_then_def)
  next
    case (Inr d)
    have lease: "pd_Lease d = clm_Lease claim" using store_call_Inr [OF c [unfolded Inr]] Prepare_lease(3) by metis
    let ?key = "dispatch_key E d"
    let ?s2 = "s1\<lparr>xs_pending := (xs_pending s1)(?key \<mapsto> empty_inbox True)\<rparr>"
    obtain r2 s2 where r2: "Renew E (pd_Lease d) ?s2 = (r2, s2)" by fastforce
    note st = Renew_state [OF r2]
    have k: "(pd_ConnectorID d, correlation_of E d) = ?key" by (simp add: dispatch_key_def)
    have "evidenced E (xs_trace s3)" if "and_then (Renew E (pd_Lease d)) (\<lambda>_. ask_and_wait E claim d ?key) ?s2 = Some (res, s3)" for s3
    proof (cases r2)
      case (Inl e)
      with that r2 st ev tr1 show ?thesis by (simp add: and_then_def)
    next
      case (Inr t)
      then have "xs_trace s2 = xs_trace s @ [Renewed (clm_Lease claim)]" using st lease tr1 by simp
      moreover have "xs_pending s2 ?key = Some (empty_inbox True)" using st by simp
      ultimately have "evidenced E (xs_trace s2)" "renewed_last (xs_trace s2)" "\<not> list_ex sends (xs_trace s2)"
        "xs_pending s2 ?key = Some (empty_inbox True)"
        using ev no cl by (simp_all add: renewed_last_def)
      then show ?thesis using that r2 Inr ask_and_wait_evidenced by (simp add: and_then_def)
    qed
    with assms(1) c Inr ev tr1 show ?thesis
      by (auto simp: reconcile_def and_then_def Let_def k split: if_splits)
  qed
qed

lemma execute_evidenced:
  assumes "execute E claim s = Some (res, s')"
    and ev: "evidenced E (xs_trace s)" and no: "\<not> list_ex sends (xs_trace s)" and cl: "Claimed (clm_Lease claim) \<in> set (xs_trace s)"
    and un: "\<And>d. \<not> heard E (xs_trace s) d"
  shows "evidenced E (xs_trace s')"
proof (cases "it_status (clm_Item claim) = ''RECONCILING''")
  case True
  with assms reconcile_evidenced show ?thesis by (simp add: execute_def)
next
  case False
  obtain r s1 where p: "prepare E claim s = (r, s1)" by fastforce
  note st = prepare_state [OF p]
  show ?thesis
  proof (cases r)
    case (Inl e)
    with assms(1) False p st ev show ?thesis by (simp add: execute_def and_then_def)
  next
    case (Inr d)
    with assms(1) False p have "dispatch E claim d s1 = Some (res, s')" by (simp add: execute_def and_then_def)
    from dispatch_evidenced [OF this] st Inr ev no cl un show ?thesis by simp
  qed
qed

lemma RunOne_evidenced:
  assumes "RunOne E s = Some (r, s')" and "xs_trace s = []"
  shows "evidenced E (xs_trace s')"
proof (cases "xe_cancelled E AtStart")
  case True
  with assms show ?thesis by (simp add: RunOne_def)
next
  case False
  obtain c s1 where c: "claim_item E s = (c, s1)" by fastforce
  note st1 = claim_item_state [OF c]
  show ?thesis
  proof (cases c)
    case (Inl e)
    with assms False c st1 show ?thesis by (simp add: RunOne_def)
  next
    case (Inr claim)
    obtain r2 s2 where r2: "Renew E (clm_Lease claim) s1 = (r2, s2)" by fastforce
    have tr1: "xs_trace s1 = [Claimed (clm_Lease claim)]" using st1 Inr assms(2) by simp
    have tr2: "xs_trace s2 = [Claimed (clm_Lease claim)] @ (case r2 of Inl e \<Rightarrow> [] | Inr t \<Rightarrow> [Renewed (clm_Lease claim)])"
      using Renew_state [OF r2] tr1 by simp
    have e1: "evidenced E (xs_trace s1)" using evidenced_snoc [of E "[]" "Claimed (clm_Lease claim)"] by (simp add: tr1)
    have e2: "evidenced E (xs_trace s2)" using Renew_evidenced [OF e1, of "clm_Lease claim"] r2 by simp
    have f: "\<not> list_ex sends (xs_trace s2)" "Claimed (clm_Lease claim) \<in> set (xs_trace s2)" "\<And>d. \<not> heard E (xs_trace s2) d"
      by (auto simp: tr2 heard_def split: sum.split)
    show ?thesis
    proof (cases "s' = s1 \<or> s' = s2")
      case stop: False
      with assms(1) False c Inr r2 obtain x where "execute E claim s2 = Some x" "snd x = s'"
        by (cases "execute E claim s2") (auto simp: RunOne_def split: if_splits sum.splits)
      then obtain res where "execute E claim s2 = Some (res, s')" by (cases x) simp
      from execute_evidenced [OF this e2 f] show ?thesis .
    qed (use e1 e2 in auto)
  qed
qed

text \<open>
  C17: Every step of a worker rests on evidence. Whatever other sessions commit in between, whenever the
  database fails or the process is cancelled, and whatever the Connector sends and when: a command or a
  reconciliation question goes out at most once per claimed item and only right after the claimed lease was renewed.
  An item is recorded as running only on an acceptance, as succeeded only on a result that reports success
  with exactly the recorded readiness and resources, as failed only on a result that reports just that failure or a refusal; each was
  delivered for this item after the command went out and, where the router gave the command an identifier, carries it.
  The one failure recorded without a reply is that of an invalid command, which the router refused or which
  was never sent. A reconciliation records either that the item is held, with nothing observed, or exactly the
  observations of an answer that was delivered after the question and carries the identifier of the question. An item
  is put back for another attempt only when the router reported no connection and no reply was heard. (A step of the
  store is in the trace when its transaction reported success.)
\<close>

theorem worker_steps_evidenced:
  assumes "RunOne E s = Some (r, s')" and "xs_trace s = []"
  shows "list_all (\<lambda>i. justified E (take i (xs_trace s')) (xs_trace s' ! i)) [0..<length (xs_trace s')]"
  using RunOne_evidenced [OF assms] by (simp add: evidenced_def)

section \<open>Termination\<close>

lemma await_reply_returns:
  "list_ex (\<lambda>c. c = SelDone \<or> c = SelTimer) cs \<Longrightarrow> await_reply E d key sent acked cs s \<noteq> None"
proof (induction cs arbitrary: acked s)
  case (Cons c cs)
  then show ?case by (cases c) (auto simp: and_then_def split: option.splits prod.splits sum.splits)
qed simp

lemma await_reconcile_returns:
  "list_ex (\<lambda>c. c = SelDone \<or> c = SelTimer) cs \<Longrightarrow> await_reconcile E d key sent cs s \<noteq> None"
proof (induction cs arbitrary: s)
  case (Cons c cs)
  then show ?case by (cases c) (auto simp: and_then_def split: option.splits prod.splits sum.splits)
qed simp

lemma execute_returns:
  assumes "list_ex (\<lambda>c. c = SelDone \<or> c = SelTimer) (xe_select E)"
  shows "execute E claim s \<noteq> None"
proof -
  have "send_and_wait E claim d key s \<noteq> None" for d key s
    using await_reply_returns [OF assms] by (auto simp: send_and_wait_def Let_def split: sum.split)
  then have "dispatch E claim d s \<noteq> None" for d s
    by (auto simp: dispatch_def Let_def and_then_def split: prod.split sum.split)
  moreover have "ask_and_wait E claim d key s \<noteq> None" for d key s
    using await_reconcile_returns [OF assms] by (auto simp: ask_and_wait_def Let_def split: sum.split)
  ultimately show ?thesis
    by (auto simp: execute_def reconcile_def and_then_def Let_def split: prod.split sum.split)
qed

text \<open>The table of pending dispatches: who is in it, apart from what the inboxes hold.\<close>

lemma HandleEvent_dom [simp]: "dom (xs_pending (HandleEvent ev s)) = dom (xs_pending s)"
  by (cases rule: HandleEvent_state [of ev s]) auto

lemma fold_HandleEvent_dom [simp]: "dom (xs_pending (fold HandleEvent evs s)) = dom (xs_pending s)"
  by (induction evs arbitrary: s) simp_all

lemma set_inbox_dom: "dom (xs_pending (set_inbox key f s)) = insert key (dom (xs_pending s))"
  by (simp add: set_inbox_def)

lemmas take_dom = take_result_def take_rejected_def take_ack_def take_reconcile_def set_inbox_dom

lemma step_dom:
  "dom (xs_pending (snd (Renew E l s))) = dom (xs_pending s)"
  "dom (xs_pending (snd (write_update E u s))) = dom (xs_pending s)"
  "dom (xs_pending (snd (write_reconciliation E v s))) = dom (xs_pending s)"
  "dom (xs_pending (snd (deferUnsent E d s))) = dom (xs_pending s)"
  using Renew_state [of E l s] write_update_state [of E u s]
    store_call_state [of E "\<lambda>n. WriteReconciliation (xe_uS E) (xe_clock E n) v" "\<lambda>_. [WrittenReconciliation v]" s]
    store_call_state [of E "\<lambda>n. (if pd_MutationType d \<noteq> [] then DeferUnsentMutation else DeferUnsentProvision)
       (xe_uS E) (xe_clock E n) d (eo_DispatchRetryDelay (xe_opts E))" "\<lambda>_. [Deferred d]" s]
  unfolding write_reconciliation_def deferUnsent_def by (metis surj_pair snd_conv)+

lemma outcome_dom:
  "dom (xs_pending (snd (unknown E d code s))) = dom (xs_pending s)"
  "dom (xs_pending (snd (rejected E d a s))) = dom (xs_pending s)"
  "dom (xs_pending (snd (invalidCommand E d s))) = dom (xs_pending s)"
  by (simp_all add: unknown_def rejected_def invalidCommand_def step_dom)

lemma write_result_dom: "dom (xs_pending (snd (write_result E d p s))) = dom (xs_pending s)"
proof (cases "result_update d p")
  case (Some u)
  obtain r s1 where w: "write_update E u s = (r, s1)" by fastforce
  with step_dom(2) [of E u s] have "dom (xs_pending s1) = dom (xs_pending s)" by simp
  then show ?thesis by (cases r) (simp_all add: write_result_def Some w outcome_dom)
qed (simp add: write_result_def outcome_dom)

lemma write_reconcile_result_dom: "dom (xs_pending (snd (write_reconcile_result E d p s))) = dom (xs_pending s)"
proof -
  obtain r s1 where w: "write_reconciliation E (reconcile_update E d p) s = (r, s1)" by fastforce
  with step_dom(3) [of E "reconcile_update E d p" s] have "dom (xs_pending s1) = dom (xs_pending s)" by simp
  then show ?thesis by (cases r) (simp_all add: write_reconcile_result_def w step_dom)
qed

lemma on_timeout_dom:
  "key \<in> dom (xs_pending s) \<Longrightarrow> dom (xs_pending (snd (on_timeout E d key sent s))) = dom (xs_pending s)"
  by (auto simp: on_timeout_def Let_def write_result_dom outcome_dom take_dom split: option.split)

lemma send_failed_dom:
  "key \<in> dom (xs_pending s) \<Longrightarrow> dom (xs_pending (snd (send_failed E d key err s))) = dom (xs_pending s)"
  by (auto simp: send_failed_def Let_def write_result_dom outcome_dom step_dom take_dom split: option.split)

lemma take_dom_eq:
  "key \<in> dom (xs_pending s) \<Longrightarrow> dom (xs_pending (take_result key s)) = dom (xs_pending s)"
  "key \<in> dom (xs_pending s) \<Longrightarrow> dom (xs_pending (take_rejected key s)) = dom (xs_pending s)"
  "key \<in> dom (xs_pending s) \<Longrightarrow> dom (xs_pending (take_ack key s)) = dom (xs_pending s)"
  "key \<in> dom (xs_pending s) \<Longrightarrow> dom (xs_pending (take_reconcile key s)) = dom (xs_pending s)"
  by (auto simp: take_dom)

lemma await_reply_dom:
  "await_reply E d key sent acked cs s = Some (res, s') \<Longrightarrow> key \<in> dom (xs_pending s) \<Longrightarrow> dom (xs_pending s') = dom (xs_pending s)"
proof (induction cs arbitrary: acked s)
  case (Cons c cs)
  note key = Cons.prems(2) and IH = Cons.IH
  note T = take_dom_eq [OF key]
  show ?case
  proof (cases c)
    case (Deliver ev)
    with Cons.prems(1) IH [of acked "HandleEvent ev s"] key show ?thesis by simp
  next
    case SelTick
    obtain r s1 where r: "Renew E (pd_Lease d) s = (r, s1)" by fastforce
    then have "dom (xs_pending s1) = dom (xs_pending s)" using step_dom(1) [of E "pd_Lease d" s] by simp
    with SelTick Cons.prems(1) IH [of acked s1] key r show ?thesis by (cases r) (simp_all add: and_then_def)
  next
    case SelTimer
    with Cons.prems(1) have "on_timeout E d key sent s = (res, s')" by simp
    with on_timeout_dom [OF key, of E d sent] show ?thesis by simp
  next
    case SelRejected
    show ?thesis
    proof (cases "ib_rejected (the_inbox key s)")
      case (Some ra)
      obtain r a where ra: "ra = (r, a)" by (cases ra)
      show ?thesis
      proof (cases "rd_RequestMessageID r = sent")
        case True
        then have "rejected E d a (take_rejected key s) = (res, s')" using SelRejected Cons.prems(1) Some ra by simp
        with outcome_dom(2) [of E d a "take_rejected key s"] T show ?thesis by simp
      next
        case False
        with SelRejected Cons.prems(1) Some ra IH [of acked "take_rejected key s"] T key show ?thesis by simp
      qed
    qed (use SelRejected Cons.prems(1) IH [of acked s] key in simp)
  next
    case SelAck
    show ?thesis
    proof (cases "ib_ack (the_inbox key s)")
      case (Some r)
      obtain w s1 where w: "write_update E (plain_update d ''RUNNING'' ''PROVISIONING'' [] []) (take_ack key s) = (w, s1)" by fastforce
      then have "dom (xs_pending s1) = dom (xs_pending s)"
        using step_dom(2) [of E "plain_update d ''RUNNING'' ''PROVISIONING'' [] []" "take_ack key s"] T by simp
      with SelAck Cons.prems(1) Some w IH [of acked "take_ack key s"] IH [of True s1] T key show ?thesis
        by (cases w) (auto simp: and_then_def split: if_splits)
    qed (use SelAck Cons.prems(1) IH [of acked s] key in simp)
  next
    case SelResult
    show ?thesis
    proof (cases "ib_result (the_inbox key s)")
      case (Some rp)
      obtain r p where rp: "rp = (r, p)" by (cases rp)
      show ?thesis
      proof (cases "rd_RequestMessageID r = sent")
        case True
        then have "write_result E d p (take_result key s) = (res, s')" using SelResult Cons.prems(1) Some rp by simp
        with write_result_dom [of E d p "take_result key s"] T show ?thesis by simp
      next
        case False
        with SelResult Cons.prems(1) Some rp IH [of acked "take_result key s"] T key show ?thesis by simp
      qed
    qed (use SelResult Cons.prems(1) IH [of acked s] key in simp)
  qed (use Cons.prems(1) IH [of acked s] key in simp_all)
qed simp

lemma await_reconcile_dom:
  "await_reconcile E d key sent cs s = Some (res, s') \<Longrightarrow> key \<in> dom (xs_pending s) \<Longrightarrow> dom (xs_pending s') = dom (xs_pending s)"
proof (induction cs arbitrary: s)
  case (Cons c cs)
  note key = Cons.prems(2) and IH = Cons.IH
  note T = take_dom_eq [OF key]
  show ?case
  proof (cases c)
    case (Deliver ev)
    with Cons.prems(1) IH [of "HandleEvent ev s"] key show ?thesis by simp
  next
    case SelTick
    obtain r s1 where r: "Renew E (pd_Lease d) s = (r, s1)" by fastforce
    then have "dom (xs_pending s1) = dom (xs_pending s)" using step_dom(1) [of E "pd_Lease d" s] by simp
    with SelTick Cons.prems(1) IH [of s1] key r show ?thesis by (cases r) (simp_all add: and_then_def)
  next
    case SelTimer
    with Cons.prems(1) have "write_reconciliation E (hold_update E d) s = (res, s')" by simp
    with step_dom(3) [of E "hold_update E d" s] show ?thesis by simp
  next
    case SelReconcile
    show ?thesis
    proof (cases "ib_reconcile (the_inbox key s)")
      case (Some rp)
      obtain r p where rp: "rp = (r, p)" by (cases rp)
      show ?thesis
      proof (cases "rd_RequestMessageID r = sent")
        case True
        then have "write_reconcile_result E d p (take_reconcile key s) = (res, s')" using SelReconcile Cons.prems(1) Some rp by simp
        with write_reconcile_result_dom [of E d p "take_reconcile key s"] T show ?thesis by simp
      next
        case False
        with SelReconcile Cons.prems(1) Some rp IH [of "take_reconcile key s"] T key show ?thesis by simp
      qed
    qed (use SelReconcile Cons.prems(1) IH [of s] key in simp)
  qed (use Cons.prems(1) IH [of s] key in simp_all)
qed simp

lemma send_and_wait_dom:
  assumes "send_and_wait E claim d key s = Some (res, s')" "key \<in> dom (xs_pending s)"
  shows "dom (xs_pending s') = dom (xs_pending s)"
proof -
  let ?s2 = "fold HandleEvent (xe_during E) (effect (SentCommand (command_of E claim d)) s)"
  have k: "key \<in> dom (xs_pending ?s2)" using assms(2) by simp
  show ?thesis
  proof (cases "xe_send E (command_of E claim d)")
    case (Inl err)
    with assms(1) have "send_failed E d key err ?s2 = (res, s')" by (simp add: send_and_wait_def Let_def)
    with send_failed_dom [OF k, of E d err] show ?thesis by simp
  next
    case (Inr sent)
    with assms(1) have "await_reply E d key sent False (xe_select E) ?s2 = Some (res, s')" by (simp add: send_and_wait_def Let_def)
    from await_reply_dom [OF this k] show ?thesis by simp
  qed
qed

lemma ask_and_wait_dom:
  assumes "ask_and_wait E claim d key s = Some (res, s')" "key \<in> dom (xs_pending s)"
  shows "dom (xs_pending s') = dom (xs_pending s)"
proof -
  let ?s2 = "fold HandleEvent (xe_during E) (effect (SentReconcile (reconcile_request E claim d)) s)"
  have k: "key \<in> dom (xs_pending ?s2)" using assms(2) by simp
  show ?thesis
  proof (cases "xe_sendReconcile E (reconcile_request E claim d)")
    case (Inl err)
    with assms(1) step_dom(3) [of E "hold_update E d" ?s2] show ?thesis
      by (cases "xe_cancelled E AfterSend") (simp_all add: ask_and_wait_def Let_def, metis fold_HandleEvent_dom effect_sel(2))
  next
    case (Inr sent)
    with assms(1) obtain s3 where a: "await_reconcile E d key sent (xe_select E) ?s2 = Some (res, s3)"
      and s3: "s' = effect (ForgotReconcile (pd_ConnectorID d) sent) s3"
      by (auto simp: ask_and_wait_def Let_def)
    from await_reconcile_dom [OF a k] s3 show ?thesis by simp
  qed
qed

lemma dispatch_dom:
  assumes "dispatch E claim d s = Some (res, s')"
  shows "dom (xs_pending s') = dom (xs_pending s)"
proof -
  let ?key = "(pd_ConnectorID d, correlation_of E d)"
  let ?s0 = "s\<lparr>xs_pending := (xs_pending s)(?key \<mapsto> empty_inbox False)\<rparr>"
  consider (invalid) "invalidCommand E d s = (res, s')" | (taken) "s' = s"
    | (run) s2 where "xs_pending s ?key = None"
        "and_then (ready_to_send E d) (\<lambda>_. send_and_wait E claim d ?key) ?s0 = Some (res, s2)" "s' = close_inbox d ?key s2"
    using assms by (auto simp: dispatch_def Let_def split: if_splits)
  then show ?thesis
  proof cases
    case invalid
    with outcome_dom(3) [of E d s] show ?thesis by simp
  next
    case taken
    then show ?thesis by simp
  next
    case run
    obtain r1 s1 where r1: "ready_to_send E d ?s0 = (r1, s1)" by fastforce
    have d1: "dom (xs_pending s1) = insert ?key (dom (xs_pending s))" by (rule ready_to_send_state [OF r1]) simp
    have "dom (xs_pending s2) = insert ?key (dom (xs_pending s))"
    proof (cases r1)
      case (Inl e)
      with run(2) r1 d1 show ?thesis by (simp add: and_then_def)
    next
      case (Inr x)
      with run(2) r1 have "send_and_wait E claim d ?key s1 = Some (res, s2)" by (simp add: and_then_def)
      from send_and_wait_dom [OF this] d1 show ?thesis by simp
    qed
    with run(1,3) show ?thesis by (auto simp: close_inbox_def)
  qed
qed

lemma reconcile_dom:
  assumes "reconcile E claim s = Some (res, s')"
  shows "dom (xs_pending s') = dom (xs_pending s)"
proof -
  obtain r s1 where c: "store_call E (\<lambda>n. PrepareReconciliation (xe_uS E) (xe_clock E n) (clm_Lease claim)) (\<lambda>_. []) s = (r, s1)" by fastforce
  have p1: "xs_pending s1 = xs_pending s" using store_call_state [OF c] by simp
  show ?thesis
  proof (cases r)
    case (Inl e)
    with assms c p1 show ?thesis by (simp add: reconcile_def and_then_def)
  next
    case (Inr d)
    let ?key = "(pd_ConnectorID d, correlation_of E d)"
    let ?s2 = "s1\<lparr>xs_pending := (xs_pending s1)(?key \<mapsto> empty_inbox True)\<rparr>"
    show ?thesis
    proof (cases "xs_pending s1 ?key = None")
      case True
      with assms c Inr obtain s3 where a: "and_then (Renew E (pd_Lease d)) (\<lambda>_. ask_and_wait E claim d ?key) ?s2 = Some (res, s3)"
        and s': "s' = s3\<lparr>xs_pending := (xs_pending s3)(?key := None)\<rparr>"
        by (auto simp: reconcile_def and_then_def [of "store_call E _ _"] Let_def)
      obtain r2 s2 where r2: "Renew E (pd_Lease d) ?s2 = (r2, s2)" by fastforce
      have d2: "dom (xs_pending s2) = insert ?key (dom (xs_pending s))" using Renew_state [OF r2] p1 by simp
      have "dom (xs_pending s3) = insert ?key (dom (xs_pending s))"
      proof (cases r2)
        case (Inl e)
        with a r2 d2 show ?thesis by (simp add: and_then_def)
      next
        case (Inr x)
        with a r2 have "ask_and_wait E claim d ?key s2 = Some (res, s3)" by (simp add: and_then_def)
        from ask_and_wait_dom [OF this] d2 show ?thesis by simp
      qed
      with s' True p1 show ?thesis by auto
    qed (use assms c Inr p1 in \<open>auto simp: reconcile_def and_then_def Let_def\<close>)
  qed
qed

lemma execute_dom:
  assumes "execute E claim s = Some (res, s')"
  shows "dom (xs_pending s') = dom (xs_pending s)"
proof (cases "it_status (clm_Item claim) = ''RECONCILING''")
  case False
  obtain r s1 where p: "prepare E claim s = (r, s1)" by fastforce
  with prepare_state [OF p] assms False dispatch_dom [of E claim _ s1 res s'] show ?thesis
    by (cases r) (simp_all add: execute_def and_then_def)
qed (use assms reconcile_dom [of E claim s] in \<open>simp add: execute_def\<close>)

text \<open>
  C18: A worker's turn ends. As soon as the wait meets its deadline or the process is cancelled, which the
  timer makes certain, \<^verbatim>\<open>RunOne\<close> returns, and it leaves no inbox of its own in the table of pending
  dispatches.
\<close>

theorem worker_turn_ends:
  assumes "list_ex (\<lambda>c. c = SelDone \<or> c = SelTimer) (xe_select E)"
  shows "\<exists>r s'. RunOne E s = Some (r, s') \<and> dom (xs_pending s') = dom (xs_pending s)"
proof -
  obtain c s1 where c: "claim_item E s = (c, s1)" by fastforce
  have p1: "xs_pending s1 = xs_pending s" using claim_item_state [OF c] by simp
  show ?thesis
  proof (cases c)
    case (Inl e)
    with c p1 show ?thesis by (cases "xe_cancelled E AtStart") (auto simp: RunOne_def)
  next
    case (Inr claim)
    obtain r2 s2 where r2: "Renew E (clm_Lease claim) s1 = (r2, s2)" by fastforce
    have p2: "xs_pending s2 = xs_pending s" using Renew_state [OF r2] p1 by simp
    obtain res s3 where x: "execute E claim s2 = Some (res, s3)"
      using execute_returns [OF assms, of claim s2] by fastforce
    from execute_dom [OF x] have "dom (xs_pending s3) = dom (xs_pending s)" by (simp add: p2)
    with c Inr r2 x p1 p2 show ?thesis
      by (cases "xe_cancelled E AtStart"; cases "xe_cancelled E AfterClaim"; cases r2; cases "xe_cancelled E AfterRenew")
        (auto simp: RunOne_def)
  qed
qed

section \<open>With the router\<close>

text \<open>
  Work that is put back was never sent. When the worker sends through the Connector router and puts an
  item back for another attempt, the router wrote no byte to any connection and registered no pending
  command for it.
\<close>

lemma unsent_work_left_no_bytes:
  assumes "RunOne E s = Some (r, s')" and "xs_trace s = []" and "Deferred d \<in> set (xs_trace s')"
    and "\<And>cmd. xe_send E cmd = fst (SendOperationCommand RE ctx reg cmd router)"
  shows "\<exists>cmd. SentCommand cmd \<in> set (xs_trace s') \<and> snd (SendOperationCommand RE ctx reg cmd router) = router
    \<and> (\<exists>e. fst (SendOperationCommand RE ctx reg cmd router) = Inl e \<and> is_ErrConnectorUnavailable e)"
proof -
  from assms(3) obtain i where i: "i < length (xs_trace s')" "xs_trace s' ! i = Deferred d" by (auto simp: in_set_conv_nth)
  from RunOne_evidenced [OF assms(1,2)] i(1) have "justified E (take i (xs_trace s')) (xs_trace s' ! i)"
    by (simp add: evidenced_def list_all_iff)
  then obtain cmd e where cmd: "SentCommand cmd \<in> set (xs_trace s')" "xe_send E cmd = Inl e" "is_ErrConnectorUnavailable e"
    unfolding i(2) by (auto simp: justified_def elim!: send_answeredE dest!: in_set_takeD)
  obtain res r' where send: "SendOperationCommand RE ctx reg cmd router = (res, r')" by fastforce
  have "r' = router"
    using cmd assms(4) send by (cases rule: SendOperationCommand_cases [OF send]) (auto simp: is_ErrConnectorUnavailable_def)
  with cmd send assms(4) show ?thesis by auto
qed

section \<open>Witnesses\<close>

text \<open>A worker that claims the pending item of the demonstration database, sends its command, hears the
  acknowledgement and the result, and records it; and one whose router has no connection.\<close>

definition demo_exec :: "(OperationCommand \<Rightarrow> conn_error + string) \<Rightarrow> exec_env" where
  "demo_exec send =
     \<lparr>xe_opts = \<lparr>eo_Store = True, eo_Router = True, eo_RouterReconciles = True, eo_Mutations = False, eo_Reconciliation = False,
                 eo_CloseForMutation = None, eo_LeaseDuration = 1000, eo_ResultTimeout = 9000, eo_PollInterval = 10,
                 eo_DispatchRetryDelay = 50\<rparr>,
      xe_uS = demo_uS, xe_clock = (\<lambda>n. demo_clock (2000 + 10 * int n)), xe_skip = (\<lambda>n i. False), xe_other = (\<lambda>n d. d), xe_fault = (\<lambda>n. None),
      xe_owner = 7, xe_cancelled = (\<lambda>c. False), xe_trace = (\<lambda>p st. \<lparr>Traceparent = [], Tracestate = []\<rparr>),
      xe_send = send, xe_sendReconcile = (\<lambda>r. Inl ErrNotConnected), xe_during = [],
      xe_select = [Deliver (OperationResultEvent \<lparr>rd_ConnectorID = 3, rd_Correlation = \<lparr>OperationID = ''other'', LabInstanceID = ''other'', Generation = 1\<rparr>,
             rd_RequestMessageID = ''m'', rd_MessageID = ''x'', rd_RequestID = ''r'', rd_Trace = \<lparr>Traceparent = [], Tracestate = []\<rparr>\<rparr>
             \<lparr>orp_Readiness = None, orp_Outcome = ''FAILED'', orp_ProviderResources = [], orp_Error = None\<rparr>), SelTick, SelResult, SelTimer]\<rparr>"

definition demo_sendable :: CreationSnapshot where
  "demo_sendable = demo_snapshot\<lparr>cs_VMs := map (\<lambda>vm. vm\<lparr>vm_ImageRef := [], vm_FlavorRef := [],
     vm_FlavorSpec := Some \<lparr>fs_VCPUs = 1, fs_RAMMiB = 1, fs_DiskGiB = 1\<rparr>\<rparr>) (cs_VMs demo_snapshot)\<rparr>"

definition demo_exec_state :: exec_state where
  "demo_exec_state =
     \<lparr>xs_db = (demo_db ''PROVISION'' [(demo_item 1 [])\<lparr>it_status := ''PENDING'', it_lease_owner := None, it_lease_expires_at := None\<rparr>] [] ''PENDING'')
        \<lparr>db_snapshots := [\<lparr>sn_id = 13, sn_organization = 1, sn_execution = 5, sn_lab_spec = 12, sn_revision = 1,
                         sn_connection = 4, sn_schema_version = 1, sn_snapshot = Some demo_sendable\<rparr>]\<rparr>,
      xs_calls = 0, xs_pending = Map.empty, xs_trace = []\<rparr>"

lemma demo_run_sent:
  "map_option fst (RunOne (demo_exec (\<lambda>c. Inr ''m'')) demo_exec_state) = Some (True, None)"
  by code_simp

lemma demo_run_unsent:
  "map_option (\<lambda>(r, s). (r, length (xs_trace s))) (RunOne (demo_exec (\<lambda>c. Inl ErrNotConnected)) demo_exec_state) = Some ((True, None), 6)"
  by code_simp

lemma demo_run:
  assumes "map_option fst (RunOne E s) = Some x"
  obtains s' where "RunOne E s = Some (x, s')"
  using assms by (cases "RunOne E s") auto

theorem worker_steps_evidenced_witness:
  "\<exists>s'. RunOne (demo_exec (\<lambda>c. Inr ''m'')) demo_exec_state = Some ((True, None), s')
     \<and> list_all (\<lambda>i. justified (demo_exec (\<lambda>c. Inr ''m'')) (take i (xs_trace s')) (xs_trace s' ! i)) [0..<length (xs_trace s')]"
proof -
  obtain s' where r: "RunOne (demo_exec (\<lambda>c. Inr ''m'')) demo_exec_state = Some ((True, None), s')"
    by (rule demo_run [OF demo_run_sent])
  have "xs_trace demo_exec_state = []" by (simp add: demo_exec_state_def)
  from worker_steps_evidenced [OF r this] r show ?thesis by blast
qed

theorem worker_turn_ends_witness:
  "\<exists>r s'. RunOne (demo_exec (\<lambda>c. Inr ''m'')) demo_exec_state = Some (r, s') \<and> dom (xs_pending s') = {}"
proof -
  have "list_ex (\<lambda>c. c = SelDone \<or> c = SelTimer) (xe_select (demo_exec (\<lambda>c. Inr ''m'')))" by (simp add: demo_exec_def)
  from worker_turn_ends [OF this, of demo_exec_state] show ?thesis by (simp add: demo_exec_state_def)
qed

definition demo_router_exec :: exec_env where
  "demo_router_exec = demo_exec (\<lambda>cmd. fst (SendOperationCommand demo_env demo_ctx NewRegistry cmd (NewRouter True True True True)))"

lemma demo_router_exec_eq:
  "demo_router_exec = demo_exec (\<lambda>cmd. case validateOperationCommand cmd of Some e \<Rightarrow> Inl (ErrInvalidCommand e) | None \<Rightarrow> Inl ErrNotConnected)"
  unfolding demo_router_exec_def
  by (rule arg_cong [where f = demo_exec])
    (auto simp: fun_eq_iff SendOperationCommand_def demo_ctx_def marshalOutbound_def demo_env_def MaxJSONMessageSize_def Let_def
      WithReadyRoute_def withReadyRoute_def NewRegistry_def finish_send_def split: option.split)

lemma demo_run_router:
  "map_option (\<lambda>x. map (\<lambda>a. case a of Deferred d \<Rightarrow> True | _ \<Rightarrow> False) (xs_trace (snd x))) (RunOne demo_router_exec demo_exec_state)
     = Some [False, False, False, False, True, False]"
  unfolding demo_router_exec_eq by code_simp

lemma unsent_work_left_no_bytes_witness:
  "\<exists>r s' d cmd. RunOne demo_router_exec demo_exec_state = Some (r, s') \<and> Deferred d \<in> set (xs_trace s')
     \<and> SentCommand cmd \<in> set (xs_trace s')
     \<and> snd (SendOperationCommand demo_env demo_ctx NewRegistry cmd (NewRouter True True True True)) = NewRouter True True True True"
proof -
  obtain x where x: "RunOne demo_router_exec demo_exec_state = Some x"
    and tr: "map (\<lambda>a. case a of Deferred d \<Rightarrow> True | _ \<Rightarrow> False) (xs_trace (snd x)) = [False, False, False, False, True, False]"
    using demo_run_router by auto
  obtain r s' where rs: "x = (r, s')" by (cases x)
  have "True \<in> set (map (\<lambda>a. case a of Deferred d \<Rightarrow> True | _ \<Rightarrow> False) (xs_trace s'))" using tr by (simp add: rs)
  then obtain a where a: "a \<in> set (xs_trace s')" "case a of Deferred d \<Rightarrow> True | _ \<Rightarrow> False" by auto
  then obtain d where "a = Deferred d" by (cases a rule: effect.exhaust) simp_all
  with a have d: "Deferred d \<in> set (xs_trace s')" by simp
  have send: "xe_send demo_router_exec cmd = fst (SendOperationCommand demo_env demo_ctx NewRegistry cmd (NewRouter True True True True))" for cmd
    by (simp add: demo_router_exec_def demo_exec_def)
  have "xs_trace demo_exec_state = []" by (simp add: demo_exec_state_def)
  from unsent_work_left_no_bytes [OF x [unfolded rs] this d send] x rs d show ?thesis by blast
qed

end
