(* ===== verification/Terminal_Store.thy ===== *)
theory Terminal_Store
  imports Lab_System Row_History
begin

text \<open>
  The rows of terminal and live sessions: the statements of \<^verbatim>\<open>internal/postgres/terminal.go\<close> and
  \<^verbatim>\<open>livesession.go\<close> on the tables of migration 5, the orders along which the rows change, and the invariant
  that every sequence of commits keeps.

  The resources of the model have no identifier column, so a terminal row does not name its
  \<^verbatim>\<open>provider_resource_id\<close>; the foreign key is the existence of a resource of that instance and
  generation. A snapshot that decodes at all names the index of each of its VMs, as every snapshot that
  \<^verbatim>\<open>CreateCreationSnapshot\<close> stores does.
\<close>

section \<open>Statements on terminal sessions\<close>

definition LabInstanceForShare :: "uuid \<Rightarrow> db \<Rightarrow> repo_error + LabInstanceRef" where
  "LabInstanceForShare i d = LabInstanceByID i d"

definition ConnectorIDForLabInstance :: "uuid \<Rightarrow> db \<Rightarrow> repo_error + uuid" where
  "ConnectorIDForLabInstance i d =
     (case instance_of i d of None \<Rightarrow> Inl KindNotFound | Some li \<Rightarrow>
     (case find (\<lambda>s. sn_organization s = li_organization li \<and> sn_execution s = li_execution li) (db_snapshots d) of
        None \<Rightarrow> Inl KindNotFound
      | Some s \<Rightarrow>
         (case find (\<lambda>c. cn_organization c = sn_organization s \<and> cn_id c = sn_connection s) (db_connections d) of
            None \<Rightarrow> Inl KindNotFound | Some c \<Rightarrow> Inr (cn_connector c))))"

record SnapshotVM =
  sm_VMKey :: string
  sm_Role :: string
  sm_InstanceIndex :: int

record SnapshotTargets =
  st_WorkspaceVMKey :: string
  st_VMs :: "SnapshotVM list"

definition snapshot_targets :: "CreationSnapshot \<Rightarrow> SnapshotTargets" where
  "snapshot_targets s =
     \<lparr>st_WorkspaceVMKey = cs_WorkspaceVMKey s,
      st_VMs = map (\<lambda>vm. \<lparr>sm_VMKey = vm_VMKey vm, sm_Role = vm_Role vm, sm_InstanceIndex = vm_InstanceIndex vm\<rparr>) (cs_VMs s)\<rparr>"

definition CreationSnapshotTargets :: "uuid \<Rightarrow> db \<Rightarrow> repo_error + SnapshotTargets" where
  "CreationSnapshotTargets i d =
     (case instance_of i d of None \<Rightarrow> Inl KindNotFound | Some li \<Rightarrow>
     (case find (\<lambda>s. sn_organization s = li_organization li \<and> sn_execution s = li_execution li) (db_snapshots d) of
        None \<Rightarrow> Inl KindNotFound
      | Some s \<Rightarrow> (case sn_snapshot s of None \<Rightarrow> Inl KindInternal | Some v \<Rightarrow> Inr (snapshot_targets v))))"

record ProviderServer =
  pq_ProviderID :: string
  pq_LifecycleStatus :: string

definition ProviderServers :: "uuid \<Rightarrow> int \<Rightarrow> string \<Rightarrow> db \<Rightarrow> ProviderServer list" where
  "ProviderServers i generation name d =
     map (\<lambda>r. \<lparr>pq_ProviderID = rc_provider_id r, pq_LifecycleStatus = rc_lifecycle r\<rparr>)
       (filter (\<lambda>r. rc_instance r = i \<and> rc_generation r = generation \<and> rc_type r = ''SERVER'' \<and> rc_logical_name r = name)
          (db_resources d))"

record NewTerminalSession =
  nt_ID :: uuid
  nt_OrganizationID :: uuid
  nt_LabInstanceID :: uuid
  nt_UserID :: uuid
  nt_Generation :: int
  nt_AttachTokenHash :: string
  nt_TokenExpiresAt :: go_time
  nt_CreatedAt :: go_time

definition terminal_of_new :: "NewTerminalSession \<Rightarrow> terminal_row" where
  "terminal_of_new n =
     \<lparr>ts_id = nt_ID n, ts_organization = nt_OrganizationID n, ts_instance = nt_LabInstanceID n, ts_user = nt_UserID n,
      ts_generation = nt_Generation n, ts_status = ''OPENING'', ts_token_hash = nt_AttachTokenHash n,
      ts_token_expires_at = nt_TokenExpiresAt n, ts_created_at = nt_CreatedAt n, ts_attached_at = None,
      ts_detached_at = None, ts_grace_expires_at = None, ts_ended_at = None, ts_end_reason = []\<rparr>"

definition terminal_keys_exist :: "NewTerminalSession \<Rightarrow> db \<Rightarrow> bool" where
  "terminal_keys_exist n d \<longleftrightarrow>
     list_ex (\<lambda>i. li_id i = nt_LabInstanceID n \<and> li_organization i = nt_OrganizationID n) (db_instances d)
   \<and> list_ex (\<lambda>u. ur_id u = nt_UserID n \<and> ur_organization u = nt_OrganizationID n) (db_users d)
   \<and> list_ex (\<lambda>r. rc_organization r = nt_OrganizationID n \<and> rc_instance r = nt_LabInstanceID n
                 \<and> rc_generation r = nt_Generation n) (db_resources d)"

definition CreateTerminalSession :: "NewTerminalSession \<Rightarrow> unit tx" where
  "CreateTerminalSession n d =
     (if nt_Generation n < 1 \<or> nt_AttachTokenHash n = [] \<or> \<not> nt_CreatedAt n < nt_TokenExpiresAt n then (Inl KindConstraintViolation, d)
      else if list_ex (\<lambda>t. ts_id t = nt_ID n \<or> ts_token_hash t = nt_AttachTokenHash n) (db_terminals d) then (Inl KindConflict, d)
      else if \<not> terminal_keys_exist n d then (Inl KindConstraintViolation, d)
      else (Inr (), d\<lparr>db_terminals := db_terminals d @ [terminal_of_new n]\<rparr>))"

definition TerminalSessionByID :: "uuid \<Rightarrow> db \<Rightarrow> repo_error + terminal_row" where
  "TerminalSessionByID i d = (case row_by ts_id i (db_terminals d) of None \<Rightarrow> Inl KindNotFound | Some t \<Rightarrow> Inr t)"

definition UnendedTerminalSessionsByLabInstance :: "uuid \<Rightarrow> db \<Rightarrow> terminal_row list" where
  "UnendedTerminalSessionsByLabInstance i d =
     sort_key (\<lambda>t. (ts_created_at t, ts_id t)) (filter (\<lambda>t. ts_instance t = i \<and> ts_status t \<noteq> ''ENDED'') (db_terminals d))"

text \<open>A conditional update of one row; whether it changed the row is its answer.\<close>

definition transition_terminal :: "uuid \<Rightarrow> (string \<Rightarrow> bool) \<Rightarrow> (terminal_row \<Rightarrow> terminal_row) \<Rightarrow> bool tx" where
  "transition_terminal i from f d =
     (Inr (list_ex (\<lambda>t. ts_id t = i \<and> from (ts_status t)) (db_terminals d)),
      d\<lparr>db_terminals := update_rows (\<lambda>t. ts_id t = i \<and> from (ts_status t)) f (db_terminals d)\<rparr>)"

definition MarkTerminalSessionOpened :: "uuid \<Rightarrow> go_time \<Rightarrow> go_time \<Rightarrow> bool tx" where
  "MarkTerminalSessionOpened i at grace =
     transition_terminal i (\<lambda>st. st = ''OPENING'')
       (\<lambda>t. t\<lparr>ts_status := ''DETACHED'', ts_detached_at := Some at, ts_grace_expires_at := Some grace\<rparr>)"

definition MarkTerminalSessionAttached :: "uuid \<Rightarrow> go_time \<Rightarrow> bool tx" where
  "MarkTerminalSessionAttached i at =
     transition_terminal i (\<lambda>st. st = ''DETACHED'' \<or> st = ''ACTIVE'')
       (\<lambda>t. t\<lparr>ts_status := ''ACTIVE'', ts_attached_at := Some at, ts_detached_at := None, ts_grace_expires_at := None\<rparr>)"

definition MarkTerminalSessionDetached :: "uuid \<Rightarrow> go_time \<Rightarrow> go_time \<Rightarrow> bool tx" where
  "MarkTerminalSessionDetached i at grace =
     transition_terminal i (\<lambda>st. st = ''ACTIVE'')
       (\<lambda>t. t\<lparr>ts_status := ''DETACHED'', ts_detached_at := Some at, ts_grace_expires_at := Some grace\<rparr>)"

definition EndTerminalSession :: "uuid \<Rightarrow> go_time \<Rightarrow> string \<Rightarrow> bool tx" where
  "EndTerminalSession i at reason =
     transition_terminal i (\<lambda>st. st \<noteq> ''ENDED'')
       (\<lambda>t. t\<lparr>ts_status := ''ENDED'', ts_ended_at := Some at, ts_end_reason := reason, ts_grace_expires_at := None\<rparr>)"

section \<open>Statements on live sessions\<close>

definition active_live :: "live_row \<Rightarrow> bool" where
  "active_live l \<longleftrightarrow> lv_ended_at l = None"

definition LiveSessionByID :: "uuid \<Rightarrow> db \<Rightarrow> repo_error + live_row" where
  "LiveSessionByID i d = (case row_by lv_id i (db_lives d) of None \<Rightarrow> Inl KindNotFound | Some l \<Rightarrow> Inr l)"

definition ActiveLiveSessionByClass :: "uuid \<Rightarrow> db \<Rightarrow> repo_error + live_row" where
  "ActiveLiveSessionByClass class d =
     (case find (\<lambda>l. lv_class l = class \<and> active_live l) (db_lives d) of None \<Rightarrow> Inl KindNotFound | Some l \<Rightarrow> Inr l)"

record NewLiveSession =
  nv_ID :: uuid
  nv_OrganizationID :: uuid
  nv_ClassID :: uuid
  nv_SourceTerminalSessionID :: uuid
  nv_InstructorUserID :: uuid
  nv_CreatedAt :: go_time

definition live_of_new :: "NewLiveSession \<Rightarrow> live_row" where
  "live_of_new n =
     \<lparr>lv_id = nv_ID n, lv_organization = nv_OrganizationID n, lv_class = nv_ClassID n, lv_source = nv_SourceTerminalSessionID n,
      lv_instructor = nv_InstructorUserID n, lv_created_at = nv_CreatedAt n, lv_ended_at = None, lv_end_reason = []\<rparr>"

definition CreateLiveSession :: "NewLiveSession \<Rightarrow> unit tx" where
  "CreateLiveSession n d =
     (if list_ex (\<lambda>l. lv_id l = nv_ID n \<or> lv_class l = nv_ClassID n \<and> active_live l) (db_lives d) then (Inl KindConflict, d)
      else if \<not> list_ex (\<lambda>c. cl_id c = nv_ClassID n \<and> cl_organization c = nv_OrganizationID n) (db_classes d)
           \<or> \<not> list_ex (\<lambda>t. ts_id t = nv_SourceTerminalSessionID n \<and> ts_organization t = nv_OrganizationID n) (db_terminals d)
           \<or> \<not> list_ex (\<lambda>u. ur_id u = nv_InstructorUserID n \<and> ur_organization u = nv_OrganizationID n) (db_users d)
        then (Inl KindConstraintViolation, d)
      else (Inr (), d\<lparr>db_lives := db_lives d @ [live_of_new n]\<rparr>))"

text \<open>The check \<^verbatim>\<open>ck_live_sessions_ended_at\<close> refuses an end before the creation.\<close>

definition end_lives :: "(live_row \<Rightarrow> bool) \<Rightarrow> go_time \<Rightarrow> string \<Rightarrow> bool tx" where
  "end_lives P at reason d =
     (if list_ex (\<lambda>l. (P l \<and> active_live l) \<and> at < lv_created_at l) (db_lives d) then (Inl KindConstraintViolation, d)
      else (Inr (list_ex (\<lambda>l. P l \<and> active_live l) (db_lives d)),
            d\<lparr>db_lives := update_rows (\<lambda>l. P l \<and> active_live l)
                (\<lambda>l. l\<lparr>lv_ended_at := Some at, lv_end_reason := reason\<rparr>) (db_lives d)\<rparr>))"

definition EndLiveSession :: "uuid \<Rightarrow> go_time \<Rightarrow> string \<Rightarrow> bool tx" where
  "EndLiveSession i at reason = end_lives (\<lambda>l. lv_id l = i) at reason"

definition EndActiveLiveSessionBySourceTerminal :: "uuid \<Rightarrow> go_time \<Rightarrow> string \<Rightarrow> bool tx" where
  "EndActiveLiveSessionBySourceTerminal i at reason = end_lives (\<lambda>l. lv_source l = i) at reason"

section \<open>Transactions that end a terminal\<close>

definition tx_then :: "'a tx \<Rightarrow> ('a \<Rightarrow> 'b tx) \<Rightarrow> 'b tx" where
  "tx_then f g d = (case f d of (Inl e, d') \<Rightarrow> (Inl e, d') | (Inr x, d') \<Rightarrow> g x d')"

text \<open>\<^verbatim>\<open>closeLifecycle\<close> ends the terminal first; what it answers is whether the terminal was still open.\<close>

definition close_tx :: "uuid \<Rightarrow> go_time \<Rightarrow> string \<Rightarrow> bool tx" where
  "close_tx i now reason =
     tx_then (EndTerminalSession i now reason)
       (\<lambda>changed. tx_then (EndActiveLiveSessionBySourceTerminal i now reason) (\<lambda>_ d. (Inr changed, d)))"

text \<open>The handlers of an end that the Connector reported end the live session first.\<close>

definition ended_tx :: "uuid \<Rightarrow> go_time \<Rightarrow> string \<Rightarrow> unit tx" where
  "ended_tx i now reason =
     tx_then (EndActiveLiveSessionBySourceTerminal i now reason)
       (\<lambda>_. tx_then (EndTerminalSession i now reason) (\<lambda>_ d. (Inr (), d)))"

section \<open>Commits\<close>

text \<open>Every commit of the two services, and any commit that leaves the two tables alone.\<close>

datatype commit =
    StoreTerminal NewTerminalSession
  | StoreOpened uuid go_time go_time
  | StoreAttached uuid go_time
  | StoreDetached uuid go_time go_time
  | StoreEnd uuid go_time string
  | StoreClose uuid go_time string
  | StoreEnded uuid go_time string
  | StoreLive NewLiveSession
  | StoreLiveEnd uuid go_time string
  | StoreLiveEndBySource uuid go_time string
  | StoreElsewhere "db \<Rightarrow> db"

fun commit_step :: "commit \<Rightarrow> db \<Rightarrow> db" where
  "commit_step (StoreTerminal n) d = snd (CreateTerminalSession n d)"
| "commit_step (StoreOpened i at g) d = snd (MarkTerminalSessionOpened i at g d)"
| "commit_step (StoreAttached i at) d = snd (MarkTerminalSessionAttached i at d)"
| "commit_step (StoreDetached i at g) d = snd (MarkTerminalSessionDetached i at g d)"
| "commit_step (StoreEnd i at reason) d = snd (EndTerminalSession i at reason d)"
| "commit_step (StoreClose i at reason) d = snd (inTransaction (close_tx i at reason) d)"
| "commit_step (StoreEnded i at reason) d = snd (inTransaction (ended_tx i at reason) d)"
| "commit_step (StoreLive n) d = snd (CreateLiveSession n d)"
| "commit_step (StoreLiveEnd i at reason) d = snd (EndLiveSession i at reason d)"
| "commit_step (StoreLiveEndBySource i at reason) d = snd (EndActiveLiveSessionBySourceTerminal i at reason d)"
| "commit_step (StoreElsewhere f) d = (f d)\<lparr>db_terminals := db_terminals d, db_lives := db_lives d\<rparr>"

definition commits :: "commit list \<Rightarrow> db \<Rightarrow> db" where
  "commits cs d = fold commit_step cs d"

section \<open>How rows change\<close>

definition terminal_le :: "terminal_row \<Rightarrow> terminal_row \<Rightarrow> bool" where
  "terminal_le t t' \<longleftrightarrow>
     ts_id t' = ts_id t \<and> ts_organization t' = ts_organization t \<and> ts_instance t' = ts_instance t \<and> ts_user t' = ts_user t
   \<and> ts_generation t' = ts_generation t \<and> ts_token_hash t' = ts_token_hash t
   \<and> ts_token_expires_at t' = ts_token_expires_at t \<and> ts_created_at t' = ts_created_at t
   \<and> (ts_status t = ''ENDED'' \<longrightarrow> t' = t) \<and> (ts_status t' = ''OPENING'' \<longrightarrow> ts_status t = ''OPENING'')"

definition live_le :: "live_row \<Rightarrow> live_row \<Rightarrow> bool" where
  "live_le l l' \<longleftrightarrow>
     lv_id l' = lv_id l \<and> lv_organization l' = lv_organization l \<and> lv_class l' = lv_class l \<and> lv_source l' = lv_source l
   \<and> lv_instructor l' = lv_instructor l \<and> lv_created_at l' = lv_created_at l \<and> (\<not> active_live l \<longrightarrow> l' = l)"

interpretation terminal_history: row_history ts_id terminal_le
proof
  fix r1 r2 r3 assume le: "terminal_le r1 r2" "terminal_le r2 r3"
  show "terminal_le r1 r3"
  proof (cases "ts_status r1 = ''ENDED''")
    case True
    with le(1) have "r2 = r1" by (simp add: terminal_le_def)
    with le(2) show ?thesis by simp
  next
    case False
    with le show ?thesis unfolding terminal_le_def by simp
  qed
qed (simp add: terminal_le_def)

interpretation live_history: row_history lv_id live_le
proof
  fix r1 r2 r3 assume "live_le r1 r2" "live_le r2 r3"
  then show "live_le r1 r3" by (cases "active_live r1") (simp_all add: live_le_def)
qed (simp add: live_le_def)

definition sessions_advance :: "db \<Rightarrow> db \<Rightarrow> bool" where
  "sessions_advance d d' \<longleftrightarrow> rows_grow ts_id terminal_le (db_terminals d) (db_terminals d')
     \<and> rows_grow lv_id live_le (db_lives d) (db_lives d')"

lemma advance_refl [simp]: "sessions_advance d d"
  by (simp add: sessions_advance_def terminal_history.grow_refl live_history.grow_refl)

lemma advance_trans: "sessions_advance a b \<Longrightarrow> sessions_advance b c \<Longrightarrow> sessions_advance a c"
  unfolding sessions_advance_def using terminal_history.grow_trans live_history.grow_trans by blast

lemma advance_elsewhere [simp]:
  "db_terminals d' = db_terminals d \<Longrightarrow> db_lives d' = db_lives d \<Longrightarrow> sessions_advance d d'"
  by (simp add: sessions_advance_def terminal_history.grow_refl live_history.grow_refl)

lemma transition_advances:
  assumes "\<And>t. ts_id t = i \<Longrightarrow> from (ts_status t) \<Longrightarrow> terminal_le t (f t)" "\<And>t. ts_id (f t) = ts_id t"
  shows "sessions_advance d (snd (transition_terminal i from f d))"
  using terminal_history.grow_update [of f "\<lambda>t. ts_id t = i \<and> from (ts_status t)", OF assms(2)] assms(1)
  by (simp add: transition_terminal_def sessions_advance_def live_history.grow_refl)

lemma end_lives_advances: "sessions_advance d (snd (end_lives P at reason d))"
  unfolding end_lives_def sessions_advance_def
  by (auto simp: terminal_history.grow_refl live_history.grow_refl live_le_def intro!: live_history.grow_update)

lemma marks_advance:
  "sessions_advance d (snd (MarkTerminalSessionOpened i at g d))"
  "sessions_advance d (snd (MarkTerminalSessionAttached i at d))"
  "sessions_advance d (snd (MarkTerminalSessionDetached i at g d))"
  "sessions_advance d (snd (EndTerminalSession i at reason d))"
  unfolding MarkTerminalSessionOpened_def MarkTerminalSessionAttached_def MarkTerminalSessionDetached_def EndTerminalSession_def
  by (rule transition_advances; auto simp: terminal_le_def)+

lemma creations_advance:
  "sessions_advance d (snd (CreateTerminalSession n d))"
  "sessions_advance d (snd (CreateLiveSession m d))"
  unfolding CreateTerminalSession_def CreateLiveSession_def
  by (simp_all add: sessions_advance_def terminal_history.grow_refl terminal_history.grow_append live_history.grow_refl live_history.grow_append)

lemmas statements_advance = marks_advance creations_advance
  end_lives_advances [of _ "\<lambda>l. lv_id l = i" for i, folded EndLiveSession_def]
  end_lives_advances [of _ "\<lambda>l. lv_source l = i" for i, folded EndActiveLiveSessionBySourceTerminal_def]

lemma tx_then_advances:
  assumes "\<And>d. sessions_advance d (snd (f d))" "\<And>x d. sessions_advance d (snd (g x d))"
  shows "sessions_advance d (snd (tx_then f g d))"
proof (cases "f d")
  case (Pair r d')
  then have "sessions_advance d d'" using assms(1) [of d] by simp
  then show ?thesis
    using Pair assms(2) [of d'] by (cases r) (auto simp: tx_then_def intro: advance_trans)
qed

lemma inTransaction_advances:
  assumes "sessions_advance d (snd (f d))"
  shows "sessions_advance d (snd (inTransaction f d))"
  using assms by (auto simp: inTransaction_def split: prod.splits sum.splits)

lemma endings_advance:
  "sessions_advance d (snd (inTransaction (close_tx i at reason) d))"
  "sessions_advance d (snd (inTransaction (ended_tx i at reason) d))"
  unfolding close_tx_def ended_tx_def
  by (intro inTransaction_advances tx_then_advances; simp add: statements_advance)+

lemma commit_advances: "sessions_advance d (commit_step c d)"
  by (cases c) (simp_all add: statements_advance endings_advance)

lemma commits_advance: "sessions_advance d (commits cs d)"
proof (induction cs arbitrary: d)
  case (Cons c cs)
  from advance_trans [OF commit_advances Cons.IH] show ?case by (simp add: commits_def)
qed (simp add: commits_def)

section \<open>The invariant\<close>

definition terminal_ok :: "terminal_row \<Rightarrow> bool" where
  "terminal_ok t \<longleftrightarrow> ts_status t \<in> {''OPENING'', ''ACTIVE'', ''DETACHED'', ''ENDED''}
     \<and> (ts_status t = ''ENDED'' \<longleftrightarrow> ts_ended_at t \<noteq> None)"

definition live_ok :: "live_row \<Rightarrow> bool" where
  "live_ok l \<longleftrightarrow> (case lv_ended_at l of None \<Rightarrow> lv_end_reason l = [] | Some e \<Rightarrow> lv_created_at l \<le> e)"

definition sessions_inv :: "db \<Rightarrow> bool" where
  "sessions_inv d \<longleftrightarrow>
     distinct (map ts_id (db_terminals d)) \<and> distinct (map ts_token_hash (db_terminals d)) \<and> list_all terminal_ok (db_terminals d)
   \<and> distinct (map lv_id (db_lives d)) \<and> distinct (map lv_class (filter active_live (db_lives d))) \<and> list_all live_ok (db_lives d)"

lemma list_all_update_rows: "list_all Q rows \<Longrightarrow> (\<And>r. Q r \<Longrightarrow> P r \<Longrightarrow> Q (f r)) \<Longrightarrow> list_all Q (update_rows P f rows)"
  by (auto simp: list_all_iff set_update_rows)

lemma filter_update_rows:
  assumes "\<And>r. P r \<Longrightarrow> \<not> Q (f r)"
  shows "filter Q (update_rows P f rows) = filter (\<lambda>r. \<not> P r) (filter Q rows)"
  unfolding update_rows_def using assms by (induction rows) auto

lemma transition_inv:
  assumes "sessions_inv d" "\<And>t. ts_id (f t) = ts_id t" "\<And>t. ts_token_hash (f t) = ts_token_hash t"
    "\<And>t. terminal_ok t \<Longrightarrow> from (ts_status t) \<Longrightarrow> terminal_ok (f t)"
  shows "sessions_inv (snd (transition_terminal i from f d))"
  using assms by (auto simp: transition_terminal_def sessions_inv_def intro: list_all_update_rows)

lemma end_lives_inv:
  assumes "sessions_inv d"
  shows "sessions_inv (snd (end_lives P at reason d))"
proof (cases "list_ex (\<lambda>l. (P l \<and> active_live l) \<and> at < lv_created_at l) (db_lives d)")
  case False
  let ?f = "\<lambda>l. l\<lparr>lv_ended_at := Some at, lv_end_reason := reason\<rparr>"
  have ok: "live_ok (if P l \<and> active_live l then ?f l else l)" if "l \<in> set (db_lives d)" for l
    using that False assms by (auto simp: live_ok_def list_ex_iff sessions_inv_def list_all_iff)
  have "list_all live_ok (update_rows (\<lambda>l. P l \<and> active_live l) ?f (db_lives d))"
    unfolding update_rows_def list_all_iff set_map using ok by blast
  moreover have "filter active_live (update_rows (\<lambda>l. P l \<and> active_live l) ?f (db_lives d))
      = filter (\<lambda>l. \<not> (P l \<and> active_live l)) (filter active_live (db_lives d))"
    by (rule filter_update_rows) (simp add: active_live_def)
  moreover have "distinct (map lv_class (filter (\<lambda>l. \<not> (P l \<and> active_live l)) (filter active_live (db_lives d))))"
    by (rule distinct_map_filter) (use assms in \<open>simp add: sessions_inv_def\<close>)
  ultimately show ?thesis using False assms by (simp add: end_lives_def sessions_inv_def)
qed (simp add: end_lives_def assms)

lemma marks_inv:
  assumes "sessions_inv d"
  shows "sessions_inv (snd (MarkTerminalSessionOpened i at g d))" "sessions_inv (snd (MarkTerminalSessionAttached i at d))"
    "sessions_inv (snd (MarkTerminalSessionDetached i at g d))" "sessions_inv (snd (EndTerminalSession i at reason d))"
  unfolding MarkTerminalSessionOpened_def MarkTerminalSessionAttached_def MarkTerminalSessionDetached_def EndTerminalSession_def
  by (rule transition_inv [OF assms]; auto simp: terminal_ok_def)+

lemma creations_inv:
  assumes "sessions_inv d"
  shows "sessions_inv (snd (CreateTerminalSession n d))" "sessions_inv (snd (CreateLiveSession m d))"
proof -
  show "sessions_inv (snd (CreateTerminalSession n d))"
    using assms by (auto simp: CreateTerminalSession_def sessions_inv_def terminal_of_new_def terminal_ok_def list_ex_iff)
  show "sessions_inv (snd (CreateLiveSession m d))"
    using assms by (auto simp: CreateLiveSession_def sessions_inv_def live_of_new_def live_ok_def list_ex_iff active_live_def)
qed

lemmas statements_inv = marks_inv creations_inv
  end_lives_inv [of _ "\<lambda>l. lv_id l = i" for i, folded EndLiveSession_def]
  end_lives_inv [of _ "\<lambda>l. lv_source l = i" for i, folded EndActiveLiveSessionBySourceTerminal_def]

lemma tx_then_inv:
  assumes "\<And>d. sessions_inv d \<Longrightarrow> sessions_inv (snd (f d))" "\<And>x d. sessions_inv d \<Longrightarrow> sessions_inv (snd (g x d))" "sessions_inv d"
  shows "sessions_inv (snd (tx_then f g d))"
  using assms(1) [OF assms(3)] assms(2) by (auto simp: tx_then_def split: prod.splits sum.splits)

lemma inTransaction_inv: "sessions_inv d \<Longrightarrow> sessions_inv (snd (f d)) \<Longrightarrow> sessions_inv (snd (inTransaction f d))"
  by (auto simp: inTransaction_def split: prod.splits sum.splits)

lemma endings_inv:
  assumes "sessions_inv d"
  shows "sessions_inv (snd (inTransaction (close_tx i at reason) d))" "sessions_inv (snd (inTransaction (ended_tx i at reason) d))"
  unfolding close_tx_def ended_tx_def
  by (intro inTransaction_inv tx_then_inv assms; simp add: statements_inv)+

lemma commit_inv: "sessions_inv d \<Longrightarrow> sessions_inv (commit_step c d)"
  by (cases c) (simp_all add: statements_inv endings_inv, simp add: sessions_inv_def)

lemma commits_inv: "sessions_inv d \<Longrightarrow> sessions_inv (commits cs d)"
  unfolding commits_def by (induction cs arbitrary: d) (simp_all add: commit_inv)

section \<open>What an ending commit does\<close>

lemma EndTerminalSession_spec:
  assumes "EndTerminalSession i now reason d = (r, d')"
  shows "r = Inr (list_ex (\<lambda>t. ts_id t = i \<and> ts_status t \<noteq> ''ENDED'') (db_terminals d)) \<and> db_lives d' = db_lives d
    \<and> (\<forall>t. row_by ts_id i (db_terminals d') = Some t \<longrightarrow> ts_status t = ''ENDED'')"
  using assms unfolding EndTerminalSession_def transition_terminal_def
  by (auto simp: row_by_update_rows) (auto dest: row_by_key)

lemma end_lives_ok:
  assumes "end_lives P at reason d = (Inr x, d')"
  shows "db_terminals d' = db_terminals d \<and> list_all (\<lambda>l. P l \<longrightarrow> \<not> active_live l) (db_lives d')"
  using assms by (auto simp: end_lives_def active_live_def list_all_iff update_rows_def split: if_splits)

lemma tx_then_ok:
  assumes "tx_then f g d = (Inr y, d')"
  obtains x d1 where "f d = (Inr x, d1)" "g x d1 = (Inr y, d')"
  using assms by (auto simp: tx_then_def split: prod.splits sum.splits)

definition terminal_closed :: "uuid \<Rightarrow> db \<Rightarrow> bool" where
  "terminal_closed i d \<longleftrightarrow> (case row_by ts_id i (db_terminals d) of None \<Rightarrow> True | Some t \<Rightarrow> ts_status t = ''ENDED'')
     \<and> list_all (\<lambda>l. lv_source l = i \<longrightarrow> \<not> active_live l) (db_lives d)"

lemma close_tx_closes:
  assumes "inTransaction (close_tx i now reason) d = (Inr changed, d')"
  shows "terminal_closed i d'"
  using assms [unfolded inTransaction_ok close_tx_def EndActiveLiveSessionBySourceTerminal_def]
  by (auto elim!: tx_then_ok dest!: EndTerminalSession_spec end_lives_ok simp: terminal_closed_def split: option.splits)

lemma ended_tx_closes:
  assumes "inTransaction (ended_tx i now reason) d = (Inr x, d')"
  shows "terminal_closed i d'"
  using assms [unfolded inTransaction_ok ended_tx_def EndActiveLiveSessionBySourceTerminal_def]
  by (auto elim!: tx_then_ok dest!: EndTerminalSession_spec end_lives_ok simp: terminal_closed_def split: option.splits)

text \<open>Once a terminal is ended, every later commit keeps the row as it is.\<close>

lemma ended_terminal_kept:
  assumes "row_by ts_id i (db_terminals d) = Some t" "ts_status t = ''ENDED''"
  shows "row_by ts_id i (db_terminals (commits cs d)) = Some t"
  using commits_advance [of d cs] assms unfolding sessions_advance_def
  by (auto simp: rows_grow_def terminal_le_def)

lemma ended_live_kept:
  assumes "row_by lv_id i (db_lives d) = Some l" "\<not> active_live l"
  shows "row_by lv_id i (db_lives (commits cs d)) = Some l"
  using commits_advance [of d cs] assms unfolding sessions_advance_def
  by (auto simp: rows_grow_def live_le_def)

end
