(* ===== verification/Terminal_Session.thy ===== *)
theory Terminal_Session
  imports Terminal_Store Connector_Sessions Browser_Sessions
begin

text \<open>
  Terminal sessions: \<^verbatim>\<open>internal/server/terminal\<close> (\<^verbatim>\<open>service.go\<close>, \<^verbatim>\<open>targets.go\<close>, \<^verbatim>\<open>token.go\<close>) on the
  statements of \<open>Terminal_Store\<close>.

  A call makes one database call after the other. Before the \<open>n\<close>-th of them the commits \<open>tv_other n\<close> of other
  sessions happen, and \<open>tv_fault n\<close> says whether the database fails then, with the commit applied or not; the
  state keeps the databases that the calls have seen. \<open>tv_now n k\<close> is the \<open>k\<close>-th reading of the clock after \<open>n\<close>
  calls. The relay and the router are represented by their answers (\<open>tv_expect\<close>, \<open>tv_send\<close>,
  \<open>tv_activate\<close>) and by the trace of what they were asked to do. \<open>tv_notified\<close> are the notifications that arrive
  while a creation waits and \<open>tv_select\<close> what its \<^verbatim>\<open>select\<close> takes; a wait for an outcome that
  does not come is ended by the timer. Logging and tracing spans are left out.
\<close>

section \<open>Data\<close>

datatype term_error =
    TermNotFound | TermForbidden | TermLabInstanceNotReady | TermTargetNotFound | TermTargetUnavailable
  | TermConnectorUnavailable | TermOpenFailed | TermUnavailable | TermInconsistentData | TermInvalidReason
  | TermSend conn_error | TermContext | TermRepo repo_error

text \<open>The errors of \<^verbatim>\<open>realtime.Control\<close>; \<open>CtlRepo\<close> is an error of a closure passed on as it is.\<close>

datatype control_error =
    CtlUnauthenticated | CtlInvalidToken | CtlTokenExpired | CtlForbidden | CtlSessionNotFound | CtlSessionEnded
  | CtlLabMutation | CtlDependencyUnavailable | CtlRepo repo_error

record CreateInput =
  ci_LabInstanceID :: string
  ci_TargetVMKey :: string
  ci_Cols :: string
  ci_Rows :: string
  ci_RequestID :: string

record Created =
  cr_ID :: uuid
  cr_Generation :: int
  cr_Token :: string
  cr_TokenExpiresAt :: go_time

record openOutcome =
  ou_succeeded :: bool
  ou_ended :: bool

record resolved_target =
  rv_lab :: LabInstanceRef
  rv_connectorID :: uuid
  rv_providerID :: string

record TerminalTarget =
  tt_VMKey :: string
  tt_Role :: string
  tt_InstanceIndex :: int

record TargetCatalog =
  tk_Generation :: int
  tk_WorkspaceVMKey :: string
  tk_Items :: "TerminalTarget list"

record AttachGrant =
  ag_TerminalSessionID :: string
  ag_LabInstanceID :: string
  ag_Generation :: int

datatype open_select = SelOutcome | SelTimedOut | SelCancelled

datatype term_effect =
    RelayExpected string string string int
  | OpenSent TerminalOpen
  | RelayActivated string go_time
  | OpenForgotten uuid string
  | RelayForgotten string
  | CloseSent TerminalClose
  | RelayTerminated string string
  | LiveRegistered string string string
  | LiveTerminated string string

record term_env =
  tv_parse :: "string \<Rightarrow> uuid option"
  tv_uS :: "uuid \<Rightarrow> string"
  tv_sha256 :: "string \<Rightarrow> string"
  tv_raw :: string
  tv_newID :: uuid
  tv_now :: "nat \<Rightarrow> nat \<Rightarrow> go_time"
  tv_grace :: int
  tv_other :: "nat \<Rightarrow> commit list"
  tv_fault :: "nat \<Rightarrow> bool option"
  tv_expect :: bool
  tv_send :: "TerminalOpen \<Rightarrow> conn_error + string"
  tv_activate :: bool
  tv_notified :: "(string \<times> openOutcome) list"
  tv_select :: open_select
  tv_trace :: TraceContext

record term_state =
  tm_db :: db
  tm_seen :: "db list"
  tm_opens :: "string \<rightharpoonup> openOutcome option"
  tm_trace :: "term_effect list"

definition db_call :: "term_env \<Rightarrow> 'e \<Rightarrow> (db \<Rightarrow> ('e + 'a) \<times> db) \<Rightarrow> term_state \<Rightarrow> ('e + 'a) \<times> term_state" where
  "db_call E fault f s =
     (let n = length (tm_seen s); d = commits (tv_other E n) (tm_db s) in
      case f d of (r, d') \<Rightarrow>
        (if tv_fault E n = None then r else Inl fault,
         s\<lparr>tm_db := (if tv_fault E n = Some False then d else d'), tm_seen := tm_seen s @ [d]\<rparr>))"

definition db_read :: "term_env \<Rightarrow> (db \<Rightarrow> repo_error + 'a) \<Rightarrow> term_state \<Rightarrow> (repo_error + 'a) \<times> term_state" where
  "db_read E f = db_call E KindInternal (\<lambda>d. (f d, d))"

definition asked :: "term_effect \<Rightarrow> term_state \<Rightarrow> term_state" where
  "asked a s = s\<lparr>tm_trace := tm_trace s @ [a]\<rparr>"

definition parse_terminal_id :: "term_env \<Rightarrow> string \<Rightarrow> uuid option" where
  "parse_terminal_id E raw = (case tv_parse E raw of None \<Rightarrow> None | Some i \<Rightarrow> if tv_uS E i = raw then Some i else None)"

section \<open>Tokens\<close>

definition AttachTokenLifetime :: int where
  "AttachTokenLifetime = 8 * 3600 * 1000000"

definition attachTokenBytes :: nat where
  "attachTokenBytes = 32"

definition newAttachToken :: "term_env \<Rightarrow> string \<times> string" where
  "newAttachToken E = (base64_encode (tv_raw E), tv_sha256 E (tv_raw E))"

definition attachTokenDigest :: "(string \<Rightarrow> string) \<Rightarrow> string \<Rightarrow> string option" where
  "attachTokenDigest sha token =
     (case base64_decode_strict token of None \<Rightarrow> None
      | Some raw \<Rightarrow> if length raw \<noteq> attachTokenBytes \<or> base64_encode raw \<noteq> token then None else Some (sha raw))"

section \<open>Targets\<close>

definition authorizeLabInstance :: "User \<Rightarrow> uuid \<Rightarrow> db \<Rightarrow> term_error + LabInstanceRef" where
  "authorizeLabInstance user labID d =
     (case LabInstanceForShare labID d of
        Inl e \<Rightarrow> Inl (if e = KindNotFound then TermNotFound else TermRepo e)
      | Inr lab \<Rightarrow>
          if ln_OrganizationID lab \<noteq> us_OrganizationID user \<or> ln_UserID lab \<noteq> us_ID user then Inl TermForbidden
          else (case ClassMembership (ln_ClassID lab) (us_ID user) d of
              Inl e \<Rightarrow> Inl (if e = KindNotFound then TermForbidden else TermRepo e)
            | Inr m \<Rightarrow>
                if mb_class m \<noteq> ln_ClassID lab \<or> mb_user m \<noteq> us_ID user \<or> mb_organization m \<noteq> ln_OrganizationID lab
                   \<or> \<not> ClassRole_Valid (mb_role m) then Inl TermInconsistentData
                else if ln_Status lab \<noteq> ''READY'' then Inl TermLabInstanceNotReady
                else Inr lab))"

fun collect_targets :: "string \<Rightarrow> string list \<Rightarrow> SnapshotVM list \<Rightarrow> (TerminalTarget list \<times> bool) option" where
  "collect_targets ws seen [] = Some ([], False)"
| "collect_targets ws seen (vm # vms) =
     (if sm_VMKey vm = [] \<or> sm_Role vm = [] \<or> sm_InstanceIndex vm < 0 \<or> sm_VMKey vm \<in> set seen then None
      else map_option (\<lambda>(items, found).
             (\<lparr>tt_VMKey = sm_VMKey vm, tt_Role = sm_Role vm, tt_InstanceIndex = sm_InstanceIndex vm\<rparr> # items,
              found \<or> sm_VMKey vm = ws))
             (collect_targets ws (sm_VMKey vm # seen) vms))"

definition validateSnapshotTargets :: "SnapshotTargets \<Rightarrow> TerminalTarget list option" where
  "validateSnapshotTargets stored =
     (if st_VMs stored = [] \<or> st_WorkspaceVMKey stored = [] then None
      else case collect_targets (st_WorkspaceVMKey stored) [] (st_VMs stored) of
          None \<Rightarrow> None | Some (items, found) \<Rightarrow> if found then Some items else None)"

definition snapshotTargets :: "LabInstanceRef \<Rightarrow> db \<Rightarrow> term_error + TargetCatalog" where
  "snapshotTargets lab d =
     (case CreationSnapshotTargets (ln_ID lab) d of
        Inl e \<Rightarrow> Inl (if e = KindNotFound then TermInconsistentData else TermRepo e)
      | Inr stored \<Rightarrow>
          (case validateSnapshotTargets stored of None \<Rightarrow> Inl TermInconsistentData
           | Some items \<Rightarrow> Inr \<lparr>tk_Generation = ln_Generation lab, tk_WorkspaceVMKey = st_WorkspaceVMKey stored, tk_Items = items\<rparr>))"

definition hasTarget :: "TargetCatalog \<Rightarrow> string \<Rightarrow> bool" where
  "hasTarget c key \<longleftrightarrow> list_ex (\<lambda>t. tt_VMKey t = key) (tk_Items c)"

definition Targets :: "term_env \<Rightarrow> User \<Rightarrow> string \<Rightarrow> term_state \<Rightarrow> (term_error + TargetCatalog) \<times> term_state" where
  "Targets E user raw s =
     (case parse_terminal_id E raw of None \<Rightarrow> (Inl TermNotFound, s)
      | Some labID \<Rightarrow>
          db_call E (TermRepo KindInternal) (inTransaction (\<lambda>d.
            ((case authorizeLabInstance user labID d of Inl e \<Rightarrow> Inl e | Inr lab \<Rightarrow> snapshotTargets lab d), d))) s)"

section \<open>Creation\<close>

definition resolveTarget :: "User \<Rightarrow> uuid \<Rightarrow> string \<Rightarrow> db \<Rightarrow> term_error + resolved_target" where
  "resolveTarget user labID key d =
     (case authorizeLabInstance user labID d of Inl e \<Rightarrow> Inl e | Inr lab \<Rightarrow>
     (case snapshotTargets lab d of Inl e \<Rightarrow> Inl e | Inr catalog \<Rightarrow>
      if \<not> hasTarget catalog key then Inl TermTargetNotFound
      else (case ConnectorIDForLabInstance (ln_ID lab) d of
          Inl e \<Rightarrow> Inl (if e = KindNotFound then TermInconsistentData else TermRepo e)
        | Inr connectorID \<Rightarrow>
            (let servers = ProviderServers (ln_ID lab) (ln_Generation lab) key d in
             if servers = [] then Inl TermTargetUnavailable
             else case filter (\<lambda>p. pq_LifecycleStatus p = ''PRESENT'') servers of
                 [] \<Rightarrow> Inl TermTargetUnavailable
               | [p] \<Rightarrow> Inr \<lparr>rv_lab = lab, rv_connectorID = connectorID, rv_providerID = pq_ProviderID p\<rparr>
               | _ # _ # _ \<Rightarrow> Inl TermInconsistentData))))"

definition create_terminal_tx ::
  "term_env \<Rightarrow> User \<Rightarrow> uuid \<Rightarrow> string \<Rightarrow> go_time \<Rightarrow> db \<Rightarrow> (term_error + resolved_target) \<times> db" where
  "create_terminal_tx E user labID key now d =
     (case resolveTarget user labID key d of Inl e \<Rightarrow> (Inl e, d) | Inr rv \<Rightarrow>
        (case CreateTerminalSession
             \<lparr>nt_ID = tv_newID E, nt_OrganizationID = ln_OrganizationID (rv_lab rv), nt_LabInstanceID = ln_ID (rv_lab rv),
              nt_UserID = us_ID user, nt_Generation = ln_Generation (rv_lab rv), nt_AttachTokenHash = snd (newAttachToken E),
              nt_TokenExpiresAt = now + AttachTokenLifetime, nt_CreatedAt = now\<rparr> d of
           (Inl e, d') \<Rightarrow> (Inl (TermRepo e), d')
         | (Inr _, d') \<Rightarrow> (Inr rv, d')))"

definition terminal_correlation :: "term_env \<Rightarrow> uuid \<Rightarrow> uuid \<Rightarrow> int \<Rightarrow> SessionCorrelation" where
  "terminal_correlation E i lab generation =
     \<lparr>sc_SessionID = tv_uS E i, sc_LabInstanceID = tv_uS E lab, sc_Generation = generation\<rparr>"

definition sendClose :: "term_env \<Rightarrow> uuid \<Rightarrow> SessionCorrelation \<Rightarrow> string \<Rightarrow> string \<Rightarrow> string \<Rightarrow> term_state \<Rightarrow> term_state" where
  "sendClose E connectorID corr requestID operationID reason =
     asked (CloseSent \<lparr>tc_ConnectorID = connectorID, tc_RequestID = requestID, tc_OperationID = operationID,
                      tc_Correlation = corr, tc_Reason = reason, tc_Trace = tv_trace E\<rparr>)"

definition abortCreate :: "term_env \<Rightarrow> uuid \<Rightarrow> SessionCorrelation \<Rightarrow> string \<Rightarrow> bool \<Rightarrow> term_state \<Rightarrow> term_state" where
  "abortCreate E connectorID corr requestID sentOpen s =
     (let s1 = asked (RelayForgotten (sc_SessionID corr)) (asked (OpenForgotten connectorID (sc_SessionID corr)) s);
          s2 = snd (db_call E KindInternal (EndTerminalSession (tv_newID E) (tv_now E (length (tm_seen s)) 0) ''OPEN_FAILED'') s1)
      in if sentOpen then sendClose E connectorID corr requestID [] ''SESSION_CLOSED'' s2 else s2)"

definition addOpenWaiter :: "string \<Rightarrow> term_state \<Rightarrow> term_state" where
  "addOpenWaiter i s = s\<lparr>tm_opens := (tm_opens s)(i \<mapsto> None)\<rparr>"

definition removeOpenWaiter :: "string \<Rightarrow> term_state \<Rightarrow> term_state" where
  "removeOpenWaiter i s = s\<lparr>tm_opens := (tm_opens s)(i := None)\<rparr>"

definition notifyOpen :: "string \<Rightarrow> openOutcome \<Rightarrow> term_state \<Rightarrow> bool \<times> term_state" where
  "notifyOpen i oc s =
     (case tm_opens s i of
        Some None \<Rightarrow> (True, s\<lparr>tm_opens := (tm_opens s)(i \<mapsto> Some oc)\<rparr>)
      | _ \<Rightarrow> (False, s))"

definition terminal_open :: "term_env \<Rightarrow> resolved_target \<Rightarrow> CreateInput \<Rightarrow> TerminalOpen" where
  "terminal_open E rv inp =
     \<lparr>to_ConnectorID = rv_connectorID rv, to_RequestID = ci_RequestID inp,
      to_Correlation = terminal_correlation E (tv_newID E) (ln_ID (rv_lab rv)) (ln_Generation (rv_lab rv)),
      to_TargetVMKey = ci_TargetVMKey inp, to_ProviderServerID = rv_providerID rv, to_Cols = ci_Cols inp, to_Rows = ci_Rows inp,
      to_Trace = tv_trace E\<rparr>"

text \<open>The wait for the outcome; the answer is the error and whether the open may have been sent.\<close>

definition await_open :: "term_env \<Rightarrow> string \<Rightarrow> term_state \<Rightarrow> (term_error \<times> bool) option \<times> term_state" where
  "await_open E i s =
     (let s1 = fold (\<lambda>(k, oc) s. snd (notifyOpen k oc s)) (tv_notified E) s in
      case tv_select E of
        SelOutcome \<Rightarrow>
          (case tm_opens s1 i of
             Some (Some oc) \<Rightarrow> (if ou_succeeded oc then None else Some (TermOpenFailed, True), s1)
           | _ \<Rightarrow> (Some (TermOpenFailed, True), s1))
      | SelTimedOut \<Rightarrow> (Some (TermOpenFailed, True), s1)
      | SelCancelled \<Rightarrow> (Some (TermContext, True), s1))"

definition send_open :: "term_env \<Rightarrow> TerminalOpen \<Rightarrow> term_state \<Rightarrow> (term_error \<times> bool) option \<times> term_state" where
  "send_open E opn s =
     (let i = sc_SessionID (to_Correlation opn); s1 = asked (OpenSent opn) (addOpenWaiter i s) in
      case tv_send E opn of
        Inl err \<Rightarrow>
          (Some (if is_ErrConnectorUnavailable err then (TermConnectorUnavailable, False)
                 else if err = ErrSendFailed then (TermConnectorUnavailable, True)
                 else (TermSend err, False)), s1)
      | Inr _ \<Rightarrow> await_open E i s1)"

text \<open>The part of a creation that follows the outcome of the open.\<close>

definition record_opened ::
  "term_env \<Rightarrow> (bool \<Rightarrow> term_state \<Rightarrow> term_state) \<Rightarrow> string \<Rightarrow> Created \<Rightarrow> term_state \<Rightarrow> (term_error + Created) \<times> term_state" where
  "record_opened E abort i created s =
     (let n = length (tm_seen s); grace = tv_now E n 0 + tv_grace E in
      if \<not> tv_activate E then (Inl TermOpenFailed, abort True s)
      else case db_call E KindInternal (MarkTerminalSessionOpened (tv_newID E) (tv_now E n 1) grace)
             (asked (RelayActivated i grace) s) of
          (Inr True, s') \<Rightarrow> (Inr created, s')
        | (_, s') \<Rightarrow> (Inl TermOpenFailed, abort True s'))"

definition Create_terminal ::
  "term_env \<Rightarrow> User \<Rightarrow> CreateInput \<Rightarrow> term_state \<Rightarrow> (term_error + Created) \<times> term_state" where
  "Create_terminal E user inp s =
     (case parse_terminal_id E (ci_LabInstanceID inp) of None \<Rightarrow> (Inl TermNotFound, s)
      | Some labID \<Rightarrow>
          (let now = tv_now E (length (tm_seen s)) 0 in
           case db_call E (TermRepo KindInternal) (inTransaction (create_terminal_tx E user labID (ci_TargetVMKey inp) now)) s of
             (Inl e, s1) \<Rightarrow> (Inl e, s1)
           | (Inr rv, s1) \<Rightarrow>
               (let opn = terminal_open E rv inp; corr = to_Correlation opn; i = sc_SessionID corr;
                    abort = abortCreate E (rv_connectorID rv) corr (ci_RequestID inp) in
                if \<not> tv_expect E then (Inl TermUnavailable, abort False s1)
                else map_prod id (removeOpenWaiter i)
                  (case send_open E opn
                         (asked (RelayExpected i (tv_uS E (rv_connectorID rv)) (sc_LabInstanceID corr) (sc_Generation corr)) s1) of
                     (Some (e, sentOpen), s2) \<Rightarrow> (Inl e, abort sentOpen s2)
                   | (None, s2) \<Rightarrow>
                       record_opened E abort i
                         \<lparr>cr_ID = tv_newID E, cr_Generation = sc_Generation corr, cr_Token = fst (newAttachToken E),
                          cr_TokenExpiresAt = now + AttachTokenLifetime\<rparr> s2))))"

section \<open>Closing\<close>

definition closeLifecycle :: "term_env \<Rightarrow> terminal_row \<Rightarrow> string \<Rightarrow> string \<Rightarrow> term_state \<Rightarrow> (repo_error + unit) \<times> term_state" where
  "closeLifecycle E rec reason operationID s =
     (case db_call E KindInternal (inTransaction (close_tx (ts_id rec) (tv_now E (length (tm_seen s)) 0) reason)) s of
        (Inl e, s1) \<Rightarrow> (Inl e, s1)
      | (Inr changed, s1) \<Rightarrow>
          if \<not> changed then (Inr (), s1)
          else (case db_read E (ConnectorIDForLabInstance (ts_instance rec)) s1 of
              (Inl e, s2) \<Rightarrow> (Inr (), s2)
            | (Inr c, s2) \<Rightarrow>
                (Inr (), sendClose E c (terminal_correlation E (ts_id rec) (ts_instance rec) (ts_generation rec)) [] operationID reason s2)))"

definition Close_terminal :: "term_env \<Rightarrow> User \<Rightarrow> string \<Rightarrow> term_state \<Rightarrow> (term_error + unit) \<times> term_state" where
  "Close_terminal E user raw s =
     (case parse_terminal_id E raw of None \<Rightarrow> (Inl TermNotFound, s)
      | Some i \<Rightarrow>
          (case db_read E (TerminalSessionByID i) s of
             (Inl e, s1) \<Rightarrow> (Inl (if e = KindNotFound then TermNotFound else TermRepo e), s1)
           | (Inr rec, s1) \<Rightarrow>
               if ts_organization rec \<noteq> us_OrganizationID user \<or> ts_user rec \<noteq> us_ID user then (Inl TermForbidden, s1)
               else if ts_status rec = ''ENDED'' then (Inr (), s1)
               else (case closeLifecycle E rec ''SESSION_CLOSED'' [] s1 of
                   (Inl e, s2) \<Rightarrow> (Inl (TermRepo e), s2)
                 | (Inr _, s2) \<Rightarrow> (Inr (), asked (RelayTerminated (tv_uS E (ts_id rec)) ''SESSION_CLOSED'') s2))))"

record LabMutation =
  lm_LabInstanceID :: uuid
  lm_Reason :: string
  lm_OperationID :: string

text \<open>The loop goes on after an error and answers all of them.\<close>

fun close_all :: "term_env \<Rightarrow> LabMutation \<Rightarrow> terminal_row list \<Rightarrow> term_state \<Rightarrow> repo_error list \<times> term_state" where
  "close_all E m [] s = ([], s)"
| "close_all E m (rec # recs) s =
     (case closeLifecycle E rec (lm_Reason m) (lm_OperationID m) s of
        (Inl e, s1) \<Rightarrow> apfst (Cons e) (close_all E m recs s1)
      | (Inr _, s1) \<Rightarrow> close_all E m recs (asked (RelayTerminated (tv_uS E (ts_id rec)) (lm_Reason m)) s1))"

datatype mutation_close = CloseInvalidReason | CloseRead repo_error | CloseErrors "repo_error list" | CloseDone

definition CloseForLabMutation :: "term_env \<Rightarrow> LabMutation \<Rightarrow> term_state \<Rightarrow> mutation_close \<times> term_state" where
  "CloseForLabMutation E m s =
     (if lm_Reason m \<noteq> ''LAB_RESET'' \<and> lm_Reason m \<noteq> ''LAB_CLEANUP'' then (CloseInvalidReason, s)
      else case db_read E (\<lambda>d. Inr (UnendedTerminalSessionsByLabInstance (lm_LabInstanceID m) d)) s of
          (Inl e, s1) \<Rightarrow> (CloseRead e, s1)
        | (Inr recs, s1) \<Rightarrow> (case close_all E m recs s1 of (errs, s2) \<Rightarrow> (if errs = [] then CloseDone else CloseErrors errs, s2)))"

section \<open>The authority of the relay\<close>

definition browser_user :: "term_env \<Rightarrow> string \<Rightarrow> term_state \<Rightarrow> (control_error + User) \<times> term_state" where
  "browser_user E session s =
     (case db_call E (AuthRepo KindInternal)
             (\<lambda>d. (Authenticate_browser (tv_sha256 E) (tv_now E (length (tm_seen s)) 0) session d, d)) s of
        (Inr p, s') \<Rightarrow> (Inr (ap_User p), s')
      | (Inl e, s') \<Rightarrow> (Inl (if e = ErrUnauthenticated then CtlUnauthenticated else CtlDependencyUnavailable), s'))"

definition AuthenticateBrowser :: "term_env \<Rightarrow> string \<Rightarrow> term_state \<Rightarrow> (control_error + unit) \<times> term_state" where
  "AuthenticateBrowser E session s = map_prod (map_sum id (\<lambda>_. ())) id (browser_user E session s)"

definition not_found_or :: "control_error \<Rightarrow> repo_error \<Rightarrow> control_error" where
  "not_found_or missing e = (if e = KindNotFound then missing else CtlDependencyUnavailable)"

text \<open>What is checked on the row itself.\<close>

definition attach_refused :: "term_env \<Rightarrow> User \<Rightarrow> terminal_row \<Rightarrow> string \<Rightarrow> go_time \<Rightarrow> control_error option" where
  "attach_refused E user rec token now =
     (if ts_organization rec \<noteq> us_OrganizationID user \<or> ts_user rec \<noteq> us_ID user then Some CtlForbidden
      else if attachTokenDigest (tv_sha256 E) token \<noteq> Some (ts_token_hash rec) then Some CtlInvalidToken
      else if \<not> now < ts_token_expires_at rec then Some CtlTokenExpired
      else if ts_status rec = ''ENDED'' then Some CtlSessionEnded
      else if ts_status rec = ''OPENING'' then Some CtlSessionNotFound
      else None)"

definition AuthorizeAttach ::
  "term_env \<Rightarrow> string \<Rightarrow> string \<Rightarrow> string \<Rightarrow> term_state \<Rightarrow> (control_error + AttachGrant) \<times> term_state" where
  "AuthorizeAttach E session raw token s =
     (case browser_user E session s of
        (Inl e, s1) \<Rightarrow> (Inl e, s1)
      | (Inr user, s1) \<Rightarrow>
     (case parse_terminal_id E raw of None \<Rightarrow> (Inl CtlSessionNotFound, s1) | Some i \<Rightarrow>
     (case db_read E (TerminalSessionByID i) s1 of
        (Inl e, s2) \<Rightarrow> (Inl (not_found_or CtlSessionNotFound e), s2)
      | (Inr rec, s2) \<Rightarrow>
     (case attach_refused E user rec token (tv_now E (length (tm_seen s2)) 0) of Some e \<Rightarrow> (Inl e, s2) | None \<Rightarrow>
     (case db_read E (LabInstanceByID (ts_instance rec)) s2 of
        (Inl e, s3) \<Rightarrow> (Inl (not_found_or CtlSessionNotFound e), s3)
      | (Inr lab, s3) \<Rightarrow>
          if ln_UserID lab \<noteq> us_ID user \<or> ln_OrganizationID lab \<noteq> us_OrganizationID user then (Inl CtlForbidden, s3)
          else if ln_Generation lab \<noteq> ts_generation rec
            then (Inl CtlLabMutation, snd (closeLifecycle E rec ''LAB_RESET'' [] s3))
          else (case db_read E (ClassMembership (ln_ClassID lab) (us_ID user)) s3 of
              (Inl e, s4) \<Rightarrow> (Inl (not_found_or CtlForbidden e), s4)
            | (Inr m, s4) \<Rightarrow>
                (Inr \<lparr>ag_TerminalSessionID = tv_uS E (ts_id rec), ag_LabInstanceID = tv_uS E (ts_instance rec),
                      ag_Generation = ts_generation rec\<rparr>, s4)))))))"

definition record_transition ::
  "term_env \<Rightarrow> (uuid \<Rightarrow> bool tx) \<Rightarrow> string \<Rightarrow> term_state \<Rightarrow> (control_error + unit) \<times> term_state" where
  "record_transition E f raw s =
     (case parse_terminal_id E raw of None \<Rightarrow> (Inl CtlSessionNotFound, s)
      | Some i \<Rightarrow>
          (case db_call E KindInternal (f i) s of
             (Inl e, s1) \<Rightarrow> (Inl CtlDependencyUnavailable, s1)
           | (Inr changed, s1) \<Rightarrow> (if changed then Inr () else Inl CtlSessionEnded, s1)))"

definition RecordAttached :: "term_env \<Rightarrow> string \<Rightarrow> go_time \<Rightarrow> term_state \<Rightarrow> (control_error + unit) \<times> term_state" where
  "RecordAttached E raw at = record_transition E (\<lambda>i. MarkTerminalSessionAttached i at) raw"

definition RecordDetached :: "term_env \<Rightarrow> string \<Rightarrow> go_time \<Rightarrow> go_time \<Rightarrow> term_state \<Rightarrow> (control_error + unit) \<times> term_state" where
  "RecordDetached E raw at graceExpiresAt = record_transition E (\<lambda>i. MarkTerminalSessionDetached i at graceExpiresAt) raw"

definition CloseSession :: "term_env \<Rightarrow> string \<Rightarrow> string \<Rightarrow> term_state \<Rightarrow> (control_error + unit) \<times> term_state" where
  "CloseSession E raw reason s =
     (case parse_terminal_id E raw of None \<Rightarrow> (Inl CtlSessionNotFound, s)
      | Some i \<Rightarrow>
          (case db_read E (TerminalSessionByID i) s of
             (Inl e, s1) \<Rightarrow> (if e = KindNotFound then Inr () else Inl CtlDependencyUnavailable, s1)
           | (Inr rec, s1) \<Rightarrow> map_prod (map_sum CtlRepo id) id (closeLifecycle E rec reason [] s1)))"

definition SessionEnded :: "term_env \<Rightarrow> string \<Rightarrow> string \<Rightarrow> term_state \<Rightarrow> (control_error + unit) \<times> term_state" where
  "SessionEnded E raw reason s =
     (case parse_terminal_id E raw of None \<Rightarrow> (Inl CtlSessionNotFound, s)
      | Some i \<Rightarrow>
          (case db_call E KindInternal (inTransaction (ended_tx i (tv_now E (length (tm_seen s)) 0) reason)) s of
             (Inl e, s1) \<Rightarrow> (Inl CtlDependencyUnavailable, s1)
           | (Inr _, s1) \<Rightarrow> (Inr (), s1)))"

section \<open>Events of the Connector\<close>

text \<open>The pattern \<^verbatim>\<open>^[A-Z][A-Z0-9_]{0,63}$\<close>.\<close>

definition safeReason :: "string \<Rightarrow> bool" where
  "safeReason r =
     (let upper = (\<lambda>c. let n = of_char c :: nat in 65 \<le> n \<and> n \<le> 90);
          digit = (\<lambda>c. let n = of_char c :: nat in 48 \<le> n \<and> n \<le> 57) in
      case r of [] \<Rightarrow> False
      | c # cs \<Rightarrow> upper c \<and> length cs \<le> 63 \<and> list_all (\<lambda>c. upper c \<or> digit c \<or> c = CHR ''_'') cs)"

definition SanitizeReason :: "string \<Rightarrow> string" where
  "SanitizeReason r = (if safeReason r then r else ''UNKNOWN'')"

definition handleConnectorEnded :: "term_env \<Rightarrow> uuid \<Rightarrow> SessionCorrelation \<Rightarrow> TerminalEndedPayload \<Rightarrow> term_state \<Rightarrow> term_state" where
  "handleConnectorEnded E connectorID corr payload s =
     (case parse_terminal_id E (sc_SessionID corr) of None \<Rightarrow> s
      | Some i \<Rightarrow>
          (case db_read E (TerminalSessionByID i) s of
             (Inl e, s1) \<Rightarrow> s1
           | (Inr rec, s1) \<Rightarrow>
               (case db_read E (ConnectorIDForLabInstance (ts_instance rec)) s1 of
                  (Inl e, s2) \<Rightarrow> s2
                | (Inr owner, s2) \<Rightarrow>
                    if owner \<noteq> connectorID \<or> sc_LabInstanceID corr \<noteq> tv_uS E (ts_instance rec) \<or> sc_Generation corr \<noteq> ts_generation rec
                      then s2
                    else
                      (let s3 = snd (notifyOpen (sc_SessionID corr) \<lparr>ou_succeeded = False, ou_ended = True\<rparr> s2);
                           reason = SanitizeReason (te_Reason payload) in
                       case db_call E KindInternal (inTransaction (ended_tx i (tv_now E (length (tm_seen s3)) 0) reason)) s3 of
                         (Inl e, s4) \<Rightarrow> s4
                       | (Inr _, s4) \<Rightarrow> asked (RelayTerminated (sc_SessionID corr) reason) s4))))"

definition HandleTerminalEvent :: "term_env \<Rightarrow> SessionEvent \<Rightarrow> term_state \<Rightarrow> term_state" where
  "HandleTerminalEvent E ev s =
     (case ev of
        OpenResultEvent r \<Rightarrow>
          snd (notifyOpen (sc_SessionID (or_Correlation r))
                 \<lparr>ou_succeeded = (op_Outcome (or_Payload r) = ''SUCCEEDED''), ou_ended = False\<rparr> s)
      | TerminalEndedEvent c corr messageID payload tr \<Rightarrow> handleConnectorEnded E c corr payload s
      | SessionUnmatchedEvent u \<Rightarrow> s)"

end
