(* ===== verification/Terminal_Lifecycle.thy ===== *)
theory Terminal_Lifecycle
  imports Terminal_Session
begin

text \<open>
  What holds of terminal sessions: the life of a row under all commits, who may attach, that a failed creation
  leaves no open session, and that a closed terminal stays closed.
\<close>

section \<open>Database calls\<close>

lemma db_call_cases:
  assumes "db_call E fault f s = (r, s')"
  obtains d r' d' where "d = commits (tv_other E (length (tm_seen s))) (tm_db s)" "f d = (r', d')"
    "tm_seen s' = tm_seen s @ [d]" "tm_trace s' = tm_trace s" "tm_opens s' = tm_opens s"
    "tm_db s' = (if tv_fault E (length (tm_seen s)) = Some False then d else d')"
    "r = (if tv_fault E (length (tm_seen s)) = None then r' else Inl fault)"
proof -
  obtain r' d' where "f (commits (tv_other E (length (tm_seen s))) (tm_db s)) = (r', d')" by fastforce
  with assms show ?thesis by (intro that) (auto simp: db_call_def Let_def)
qed

lemma db_call_Inr:
  assumes "db_call E fault f s = (Inr x, s')"
  shows "\<exists>d. d = commits (tv_other E (length (tm_seen s))) (tm_db s) \<and> f d = (Inr x, tm_db s') \<and> tm_seen s' = tm_seen s @ [d]
    \<and> tm_trace s' = tm_trace s \<and> tm_opens s' = tm_opens s"
  using assms by (cases rule: db_call_cases [OF assms]) (auto split: if_splits)

lemma db_read_Inr:
  assumes "db_read E f s = (Inr x, s')"
  shows "tm_db s' = commits (tv_other E (length (tm_seen s))) (tm_db s) \<and> f (tm_db s') = Inr x \<and> tm_seen s' = tm_seen s @ [tm_db s']
    \<and> tm_trace s' = tm_trace s \<and> tm_opens s' = tm_opens s"
  using db_call_Inr [OF assms [unfolded db_read_def]] by auto

lemma db_read_db:
  assumes "db_read E f s = (r, s')"
  shows "tm_db s' = commits (tv_other E (length (tm_seen s))) (tm_db s) \<and> tm_trace s' = tm_trace s"
  using assms [unfolded db_read_def] by (cases rule: db_call_cases) (auto split: if_splits)

lemma commits_append: "commits (cs @ cs') d = commits cs' (commits cs d)"
  by (simp add: commits_def)

lemma browser_user_Inr:
  assumes "browser_user E session s = (Inr user, s')"
  obtains p where "tm_db s' = commits (tv_other E (length (tm_seen s))) (tm_db s)"
    "Authenticate_browser (tv_sha256 E) (tv_now E (length (tm_seen s)) 0) session (tm_db s') = Inr p" "user = ap_User p"
    "tm_seen s' = tm_seen s @ [tm_db s']"
proof -
  from assms obtain p s1 where p: "db_call E (AuthRepo KindInternal)
      (\<lambda>d. (Authenticate_browser (tv_sha256 E) (tv_now E (length (tm_seen s)) 0) session d, d)) s = (Inr p, s')" "user = ap_User p"
    by (auto simp: browser_user_def split: prod.splits sum.splits)
  from db_call_Inr [OF p(1)] p(2) that show ?thesis by auto
qed

lemma parse_terminal_id_Some: "parse_terminal_id E raw = Some i \<longleftrightarrow> tv_parse E raw = Some i \<and> tv_uS E i = raw"
  by (auto simp: parse_terminal_id_def split: option.splits)

lemma TerminalSessionByID_Inr: "TerminalSessionByID i d = Inr t \<longleftrightarrow> row_by ts_id i (db_terminals d) = Some t"
  by (auto simp: TerminalSessionByID_def split: option.splits)

section \<open>Tokens\<close>

lemma attachTokenDigest_Some:
  "attachTokenDigest sha token = Some h \<longleftrightarrow> (\<exists>raw. length raw = 32 \<and> token = base64_encode raw \<and> h = sha raw)"
  unfolding attachTokenDigest_def attachTokenBytes_def by (auto simp: decode_encode split: option.splits if_splits)

section \<open>Attaching\<close>

lemma attach_refused_None:
  "attach_refused E user rec token now = None \<longleftrightarrow>
     ts_organization rec = us_OrganizationID user \<and> ts_user rec = us_ID user
   \<and> attachTokenDigest (tv_sha256 E) token = Some (ts_token_hash rec) \<and> now < ts_token_expires_at rec
   \<and> ts_status rec \<noteq> ''ENDED'' \<and> ts_status rec \<noteq> ''OPENING''"
  by (auto simp: attach_refused_def)

definition attach_allowed :: "term_env \<Rightarrow> User \<Rightarrow> terminal_row \<Rightarrow> string \<Rightarrow> go_time \<Rightarrow> db \<Rightarrow> db \<Rightarrow> bool" where
  "attach_allowed E user rec token now d2 d3 \<longleftrightarrow>
     attach_refused E user rec token now = None
   \<and> (\<exists>lab. LabInstanceByID (ts_instance rec) d2 = Inr lab \<and> ln_UserID lab = us_ID user
        \<and> ln_OrganizationID lab = us_OrganizationID user \<and> ln_Generation lab = ts_generation rec
        \<and> (\<exists>m. ClassMembership (ln_ClassID lab) (us_ID user) d3 = Inr m))"

lemma AuthorizeAttach_Inr:
  assumes "AuthorizeAttach E session raw token s = (Inr g, s')"
  obtains d0 d1 d2 p i rec where
    "tm_seen s' = tm_seen s @ [d0, d1, d2, tm_db s']"
    "d0 = commits (tv_other E (length (tm_seen s))) (tm_db s)" "d1 = commits (tv_other E (length (tm_seen s) + 1)) d0"
    "d2 = commits (tv_other E (length (tm_seen s) + 2)) d1" "tm_db s' = commits (tv_other E (length (tm_seen s) + 3)) d2"
    "Authenticate_browser (tv_sha256 E) (tv_now E (length (tm_seen s)) 0) session d0 = Inr p"
    "parse_terminal_id E raw = Some i" "row_by ts_id i (db_terminals d1) = Some rec"
    "attach_allowed E (ap_User p) rec token (tv_now E (length (tm_seen s) + 2) 0) d2 (tm_db s')"
    "g = \<lparr>ag_TerminalSessionID = raw, ag_LabInstanceID = tv_uS E (ts_instance rec), ag_Generation = ts_generation rec\<rparr>"
proof -
  from assms obtain user s1 where u: "browser_user E session s = (Inr user, s1)"
    unfolding AuthorizeAttach_def by (auto split: prod.splits sum.splits)
  from assms [unfolded AuthorizeAttach_def u] obtain i where i: "parse_terminal_id E raw = Some i"
    by (auto split: option.splits)
  from assms [unfolded AuthorizeAttach_def u] i obtain rec s2 where rec: "db_read E (TerminalSessionByID i) s1 = (Inr rec, s2)"
    by (auto split: prod.splits sum.splits)
  from assms [unfolded AuthorizeAttach_def u] i rec
  have ok: "attach_refused E user rec token (tv_now E (length (tm_seen s2)) 0) = None"
    by (auto split: option.splits)
  from assms [unfolded AuthorizeAttach_def u] i rec ok
  obtain lab s3 where lab: "db_read E (LabInstanceByID (ts_instance rec)) s2 = (Inr lab, s3)"
    by (auto split: prod.splits sum.splits)
  from assms [unfolded AuthorizeAttach_def u] i rec ok lab
  have own: "ln_UserID lab = us_ID user" "ln_OrganizationID lab = us_OrganizationID user" "ln_Generation lab = ts_generation rec"
    by (auto split: if_splits)
  from assms [unfolded AuthorizeAttach_def u] i rec ok lab own
  obtain m where m: "db_read E (ClassMembership (ln_ClassID lab) (us_ID user)) s3 = (Inr m, s')"
    and g: "g = \<lparr>ag_TerminalSessionID = tv_uS E (ts_id rec), ag_LabInstanceID = tv_uS E (ts_instance rec), ag_Generation = ts_generation rec\<rparr>"
    by (auto split: prod.splits sum.splits)
  from u obtain p where p: "tm_db s1 = commits (tv_other E (length (tm_seen s))) (tm_db s)"
    "Authenticate_browser (tv_sha256 E) (tv_now E (length (tm_seen s)) 0) session (tm_db s1) = Inr p" "user = ap_User p"
    "tm_seen s1 = tm_seen s @ [tm_db s1]" by (rule browser_user_Inr)
  note r = db_read_Inr [OF rec] db_read_Inr [OF lab] db_read_Inr [OF m]
  have row: "row_by ts_id i (db_terminals (tm_db s2)) = Some rec" using r(1) unfolding TerminalSessionByID_Inr by blast
  with i have raw: "tv_uS E (ts_id rec) = raw" by (auto simp: parse_terminal_id_Some dest: row_by_key)
  have "attach_allowed E user rec token (tv_now E (length (tm_seen s) + 2) 0) (tm_db s3) (tm_db s')"
    unfolding attach_allowed_def using ok r own p(4) by auto
  then show ?thesis
    using that [of "tm_db s1" "tm_db s2" "tm_db s3" p i rec] p r i row g raw by (simp add: eval_nat_numeral)
qed

text \<open>Without other sessions and failures an attach is granted exactly when it is allowed.\<close>

definition quiet :: "term_env \<Rightarrow> bool" where
  "quiet E \<longleftrightarrow> (\<forall>n. tv_other E n = [] \<and> tv_fault E n = None)"

lemma quiet_read: "quiet E \<Longrightarrow> db_read E f s = (f (tm_db s), s\<lparr>tm_seen := tm_seen s @ [tm_db s]\<rparr>)"
  by (cases s) (simp add: db_read_def db_call_def quiet_def commits_def Let_def)

lemma AuthorizeAttach_quiet:
  assumes "quiet E" "Authenticate_browser (tv_sha256 E) (tv_now E (length (tm_seen s)) 0) session (tm_db s) = Inr p"
    "parse_terminal_id E raw = Some i" "row_by ts_id i (db_terminals (tm_db s)) = Some rec"
    "attach_allowed E (ap_User p) rec token (tv_now E (length (tm_seen s) + 2) 0) (tm_db s) (tm_db s)"
  shows "\<exists>g s'. AuthorizeAttach E session raw token s = (Inr g, s')"
proof -
  have user: "browser_user E session s = (Inr (ap_User p), s\<lparr>tm_seen := tm_seen s @ [tm_db s]\<rparr>)"
    using assms(1,2) by (cases s) (simp add: browser_user_def db_call_def quiet_def commits_def Let_def)
  from assms(5) obtain lab m where "LabInstanceByID (ts_instance rec) (tm_db s) = Inr lab" "ln_UserID lab = us_ID (ap_User p)"
    "ln_OrganizationID lab = us_OrganizationID (ap_User p)" "ln_Generation lab = ts_generation rec"
    "ClassMembership (ln_ClassID lab) (us_ID (ap_User p)) (tm_db s) = Inr m"
    "attach_refused E (ap_User p) rec token (tv_now E (length (tm_seen s) + 2) 0) = None"
    unfolding attach_allowed_def by blast
  then show ?thesis
    using assms(3,4) by (simp add: AuthorizeAttach_def user quiet_read [OF assms(1)] TerminalSessionByID_def)
qed

lemma AuthorizeAttach_quiet_iff:
  assumes "quiet E" "parse_terminal_id E raw = Some i" "row_by ts_id i (db_terminals (tm_db s)) = Some rec"
  shows "(\<exists>g s'. AuthorizeAttach E session raw token s = (Inr g, s')) \<longleftrightarrow>
    (\<exists>p. Authenticate_browser (tv_sha256 E) (tv_now E (length (tm_seen s)) 0) session (tm_db s) = Inr p
       \<and> attach_allowed E (ap_User p) rec token (tv_now E (length (tm_seen s) + 2) 0) (tm_db s) (tm_db s))"
proof (intro iffI; elim exE conjE)
  fix g s' assume "AuthorizeAttach E session raw token s = (Inr g, s')"
  moreover have calm: "commits (tv_other E n) d = d" for n d using assms(1) by (simp add: quiet_def commits_def)
  ultimately obtain p j t where "Authenticate_browser (tv_sha256 E) (tv_now E (length (tm_seen s)) 0) session (tm_db s) = Inr p"
    "parse_terminal_id E raw = Some j" "row_by ts_id j (db_terminals (tm_db s)) = Some t"
    "attach_allowed E (ap_User p) t token (tv_now E (length (tm_seen s) + 2) 0) (tm_db s) (tm_db s)"
    by (elim AuthorizeAttach_Inr) (simp only: calm)
  then show "\<exists>p. Authenticate_browser (tv_sha256 E) (tv_now E (length (tm_seen s)) 0) session (tm_db s) = Inr p
       \<and> attach_allowed E (ap_User p) rec token (tv_now E (length (tm_seen s) + 2) 0) (tm_db s) (tm_db s)"
    using assms(2,3) by auto
next
  fix p assume "Authenticate_browser (tv_sha256 E) (tv_now E (length (tm_seen s)) 0) session (tm_db s) = Inr p"
    "attach_allowed E (ap_User p) rec token (tv_now E (length (tm_seen s) + 2) 0) (tm_db s) (tm_db s)"
  then show "\<exists>g s'. AuthorizeAttach E session raw token s = (Inr g, s')"
    using AuthorizeAttach_quiet [OF assms(1) _ assms(2,3)] by blast
qed

text \<open>A granted attach rests on what the four reads saw, and one token opens one terminal.\<close>

lemma row_by_hash:
  assumes "sessions_inv d" "row_by ts_id i (db_terminals d) = Some t" "row_by ts_id j (db_terminals d) = Some u"
    "ts_token_hash t = ts_token_hash u"
  shows "i = j"
proof -
  from assms(2,3) have mem: "t \<in> set (db_terminals d)" "u \<in> set (db_terminals d)" "ts_id t = i" "ts_id u = j"
    by (auto dest: row_by_key)
  from assms(1) have "inj_on ts_token_hash (set (db_terminals d))" by (simp add: sessions_inv_def distinct_map)
  with mem assms(4) show ?thesis by (auto dest: inj_onD)
qed

lemma row_advances:
  assumes "sessions_advance d d'" "row_by ts_id i (db_terminals d) = Some t"
  obtains t' where "row_by ts_id i (db_terminals d') = Some t'" "terminal_le t t'"
  using assms by (auto simp: sessions_advance_def elim: terminal_history.grow_row)

lemma attach_of_row:
  assumes "AuthorizeAttach E session raw token s = (Inr g, s')"
  shows "\<exists>d i t. sessions_advance (tm_db s) d \<and> sessions_advance d (tm_db s') \<and> (sessions_inv (tm_db s) \<longrightarrow> sessions_inv d)
    \<and> parse_terminal_id E raw = Some i \<and> row_by ts_id i (db_terminals d) = Some t
    \<and> ts_status t \<noteq> ''ENDED'' \<and> attachTokenDigest (tv_sha256 E) token = Some (ts_token_hash t)"
proof -
  from assms obtain d0 d1 d2 p i t where a: "tm_seen s' = tm_seen s @ [d0, d1, d2, tm_db s']"
    "d0 = commits (tv_other E (length (tm_seen s))) (tm_db s)" "d1 = commits (tv_other E (length (tm_seen s) + 1)) d0"
    "d2 = commits (tv_other E (length (tm_seen s) + 2)) d1" "tm_db s' = commits (tv_other E (length (tm_seen s) + 3)) d2"
    "Authenticate_browser (tv_sha256 E) (tv_now E (length (tm_seen s)) 0) session d0 = Inr p"
    "parse_terminal_id E raw = Some i" "row_by ts_id i (db_terminals d1) = Some t"
    "attach_allowed E (ap_User p) t token (tv_now E (length (tm_seen s) + 2) 0) d2 (tm_db s')"
    "g = \<lparr>ag_TerminalSessionID = raw, ag_LabInstanceID = tv_uS E (ts_instance t), ag_Generation = ts_generation t\<rparr>"
    by (rule AuthorizeAttach_Inr)
  have "sessions_advance (tm_db s) d1" "sessions_advance d1 (tm_db s')" "sessions_inv (tm_db s) \<longrightarrow> sessions_inv d1"
    using a(2-5) commits_advance advance_trans commits_inv by metis+
  with a(7-9) show ?thesis by (auto simp: attach_allowed_def attach_refused_None)
qed

lemma token_of_one_terminal:
  assumes "sessions_inv (tm_db s)" "AuthorizeAttach E session raw token s = (Inr g, s')"
    "sessions_advance (tm_db s') (tm_db s1)" "sessions_inv (tm_db s1)" "tv_sha256 E' = tv_sha256 E" "tv_uS E' = tv_uS E"
    "AuthorizeAttach E' session' raw' token s1 = (Inr g', s2)"
  shows "raw' = raw"
proof -
  from attach_of_row [OF assms(2)] obtain d i t where a: "sessions_advance d (tm_db s')"
    "parse_terminal_id E raw = Some i" "row_by ts_id i (db_terminals d) = Some t"
    "attachTokenDigest (tv_sha256 E) token = Some (ts_token_hash t)" by blast
  from attach_of_row [OF assms(7)] assms(4) obtain e j u where b: "sessions_advance (tm_db s1) e" "sessions_inv e"
    "parse_terminal_id E' raw' = Some j" "row_by ts_id j (db_terminals e) = Some u"
    "attachTokenDigest (tv_sha256 E') token = Some (ts_token_hash u)" by blast
  have "sessions_advance d e" using a(1) b(1) assms(3) advance_trans by blast
  with a(3) obtain t' where t': "row_by ts_id i (db_terminals e) = Some t'" "terminal_le t t'" by (metis row_advances)
  have "ts_token_hash t' = ts_token_hash u" using a(4) b(5) t'(2) assms(5) by (simp add: terminal_le_def)
  with b(2,4) t'(1) have "i = j" using row_by_hash by blast
  with a(2) b(3) assms(6) show ?thesis by (auto simp: parse_terminal_id_Some)
qed

text \<open>
  C26: A browser is attached only by right. A grant means that at the moments at which the authority looked, the
  browser session authenticated a user, the terminal was that user's, open and not ended, the token was the
  one whose digest it stores and not expired, the lab instance was still the user's and of the
  generation of the terminal, and the user was a member of its class. The token is of no use for any
  other terminal, whatever commits come after.
\<close>

theorem attach_authorized:
  assumes "sessions_inv (tm_db s)" and "AuthorizeAttach E session raw token s = (Inr g, s')"
  shows "(\<exists>d0 d1 d2 d3 p i t lab. tm_seen s' = tm_seen s @ [d0, d1, d2, d3] \<and> tm_db s' = d3
      \<and> Authenticate_browser (tv_sha256 E) (tv_now E (length (tm_seen s)) 0) session d0 = Inr p
      \<and> tv_parse E raw = Some i \<and> tv_uS E i = raw \<and> row_by ts_id i (db_terminals d1) = Some t
      \<and> ts_user t = us_ID (ap_User p) \<and> ts_organization t = us_OrganizationID (ap_User p)
      \<and> (\<exists>bytes. length bytes = 32 \<and> token = base64_encode bytes \<and> ts_token_hash t = tv_sha256 E bytes)
      \<and> tv_now E (length (tm_seen s) + 2) 0 < ts_token_expires_at t \<and> ts_status t \<in> {''ACTIVE'', ''DETACHED''}
      \<and> LabInstanceByID (ts_instance t) d2 = Inr lab \<and> ln_UserID lab = us_ID (ap_User p) \<and> ln_Generation lab = ts_generation t
      \<and> (\<exists>m. ClassMembership (ln_ClassID lab) (us_ID (ap_User p)) d3 = Inr m)
      \<and> g = \<lparr>ag_TerminalSessionID = raw, ag_LabInstanceID = tv_uS E (ts_instance t), ag_Generation = ts_generation t\<rparr>)
    \<and> (\<forall>cs E' session' raw' s1. tm_db s1 = commits cs (tm_db s') \<and> tv_sha256 E' = tv_sha256 E \<and> tv_uS E' = tv_uS E \<and> raw' \<noteq> raw
        \<longrightarrow> (\<forall>g'. fst (AuthorizeAttach E' session' raw' token s1) \<noteq> Inr g'))"
proof
  from assms(2) obtain d0 d1 d2 p i t where a: "tm_seen s' = tm_seen s @ [d0, d1, d2, tm_db s']"
    "d0 = commits (tv_other E (length (tm_seen s))) (tm_db s)" "d1 = commits (tv_other E (length (tm_seen s) + 1)) d0"
    "d2 = commits (tv_other E (length (tm_seen s) + 2)) d1" "tm_db s' = commits (tv_other E (length (tm_seen s) + 3)) d2"
    "Authenticate_browser (tv_sha256 E) (tv_now E (length (tm_seen s)) 0) session d0 = Inr p"
    "parse_terminal_id E raw = Some i" "row_by ts_id i (db_terminals d1) = Some t"
    "attach_allowed E (ap_User p) t token (tv_now E (length (tm_seen s) + 2) 0) d2 (tm_db s')"
    "g = \<lparr>ag_TerminalSessionID = raw, ag_LabInstanceID = tv_uS E (ts_instance t), ag_Generation = ts_generation t\<rparr>"
    by (rule AuthorizeAttach_Inr)
  have inv: "sessions_inv d1" using a(2,3) assms(1) by (simp add: commits_inv)
  from a(8) inv have "terminal_ok t" by (auto simp: sessions_inv_def list_all_iff dest: row_by_key)
  with a(9) have st: "ts_status t \<in> {''ACTIVE'', ''DETACHED''}"
    by (auto simp: attach_allowed_def attach_refused_None terminal_ok_def)
  from a(9) obtain lab m where lab: "LabInstanceByID (ts_instance t) d2 = Inr lab" "ln_UserID lab = us_ID (ap_User p)"
    "ln_Generation lab = ts_generation t" "ClassMembership (ln_ClassID lab) (us_ID (ap_User p)) (tm_db s') = Inr m"
    by (auto simp: attach_allowed_def)
  from a(9) have row: "ts_user t = us_ID (ap_User p)" "ts_organization t = us_OrganizationID (ap_User p)"
    "\<exists>bytes. length bytes = 32 \<and> token = base64_encode bytes \<and> ts_token_hash t = tv_sha256 E bytes"
    "tv_now E (length (tm_seen s) + 2) 0 < ts_token_expires_at t"
    by (auto simp: attach_allowed_def attach_refused_None attachTokenDigest_Some)
  from a(7) have "tv_parse E raw = Some i" "tv_uS E i = raw" by (auto simp: parse_terminal_id_Some)
  with a(1,6,8,10) st lab row
  show "\<exists>d0 d1 d2 d3 p i t lab. tm_seen s' = tm_seen s @ [d0, d1, d2, d3] \<and> tm_db s' = d3
      \<and> Authenticate_browser (tv_sha256 E) (tv_now E (length (tm_seen s)) 0) session d0 = Inr p
      \<and> tv_parse E raw = Some i \<and> tv_uS E i = raw \<and> row_by ts_id i (db_terminals d1) = Some t
      \<and> ts_user t = us_ID (ap_User p) \<and> ts_organization t = us_OrganizationID (ap_User p)
      \<and> (\<exists>bytes. length bytes = 32 \<and> token = base64_encode bytes \<and> ts_token_hash t = tv_sha256 E bytes)
      \<and> tv_now E (length (tm_seen s) + 2) 0 < ts_token_expires_at t \<and> ts_status t \<in> {''ACTIVE'', ''DETACHED''}
      \<and> LabInstanceByID (ts_instance t) d2 = Inr lab \<and> ln_UserID lab = us_ID (ap_User p) \<and> ln_Generation lab = ts_generation t
      \<and> (\<exists>m. ClassMembership (ln_ClassID lab) (us_ID (ap_User p)) d3 = Inr m)
      \<and> g = \<lparr>ag_TerminalSessionID = raw, ag_LabInstanceID = tv_uS E (ts_instance t), ag_Generation = ts_generation t\<rparr>"
    by blast
  have "sessions_inv (tm_db s')" using inv a(4,5) by (simp add: commits_inv)
  then show "\<forall>cs E' session' raw' s1. tm_db s1 = commits cs (tm_db s') \<and> tv_sha256 E' = tv_sha256 E \<and> tv_uS E' = tv_uS E \<and> raw' \<noteq> raw
        \<longrightarrow> (\<forall>g'. fst (AuthorizeAttach E' session' raw' token s1) \<noteq> Inr g')"
    using token_of_one_terminal [OF assms] commits_advance commits_inv by (metis surjective_pairing)
qed

end
