(* ===== verification/Terminal_Creation.thy ===== *)
theory Terminal_Creation
  imports Terminal_Lifecycle
begin

text \<open>
  The creation of a terminal session: either the session is open and its token attaches, or nothing is left of it
  but what a failing database keeps.
\<close>

section \<open>The transaction\<close>

lemma resolveTarget_Inr:
  assumes "resolveTarget user labID key d = Inr rv"
  shows "LabInstanceByID labID d = Inr (rv_lab rv) \<and> ln_UserID (rv_lab rv) = us_ID user
    \<and> ln_OrganizationID (rv_lab rv) = us_OrganizationID user \<and> ln_Status (rv_lab rv) = ''READY''
    \<and> (\<exists>m. ClassMembership (ln_ClassID (rv_lab rv)) (us_ID user) d = Inr m)"
  using assms unfolding resolveTarget_def authorizeLabInstance_def LabInstanceForShare_def
  by (auto split: sum.splits if_splits list.splits simp: Let_def)

lemma CreateTerminalSession_Inr:
  assumes "CreateTerminalSession n d = (Inr x, d')"
  shows "d' = d\<lparr>db_terminals := db_terminals d @ [terminal_of_new n]\<rparr>
    \<and> row_by ts_id (nt_ID n) (db_terminals d') = Some (terminal_of_new n)"
proof -
  from assms have d': "d' = d\<lparr>db_terminals := db_terminals d @ [terminal_of_new n]\<rparr>"
    and fresh: "\<not> list_ex (\<lambda>t. ts_id t = nt_ID n \<or> ts_token_hash t = nt_AttachTokenHash n) (db_terminals d)"
    by (auto simp: CreateTerminalSession_def split: if_splits)
  from fresh have "row_by ts_id (nt_ID n) (db_terminals d) = None" by (auto simp: row_by_None list_ex_iff)
  then show ?thesis by (simp add: d' row_by_append) (simp add: row_by_def terminal_of_new_def)
qed

definition new_terminal :: "term_env \<Rightarrow> User \<Rightarrow> resolved_target \<Rightarrow> go_time \<Rightarrow> NewTerminalSession" where
  "new_terminal E user rv now =
     \<lparr>nt_ID = tv_newID E, nt_OrganizationID = ln_OrganizationID (rv_lab rv), nt_LabInstanceID = ln_ID (rv_lab rv),
      nt_UserID = us_ID user, nt_Generation = ln_Generation (rv_lab rv), nt_AttachTokenHash = snd (newAttachToken E),
      nt_TokenExpiresAt = now + AttachTokenLifetime, nt_CreatedAt = now\<rparr>"

lemma create_terminal_tx_Inr:
  assumes "create_terminal_tx E user labID key now d = (Inr rv, d')"
  shows "resolveTarget user labID key d = Inr rv
    \<and> row_by ts_id (tv_newID E) (db_terminals d') = Some (terminal_of_new (new_terminal E user rv now))
    \<and> CreateTerminalSession (new_terminal E user rv now) d = (Inr (), d')"
proof -
  from assms have rv: "resolveTarget user labID key d = Inr rv"
    by (auto simp: create_terminal_tx_def split: sum.splits prod.splits)
  with assms have "CreateTerminalSession (new_terminal E user rv now) d = (Inr (), d')"
    by (auto simp: create_terminal_tx_def new_terminal_def split: sum.splits prod.splits)
  moreover have "nt_ID (new_terminal E user rv now) = tv_newID E" by (simp add: new_terminal_def)
  ultimately show ?thesis using rv CreateTerminalSession_Inr by metis
qed

lemma create_terminal_call:
  assumes "db_call E fault (inTransaction (create_terminal_tx E user labID key now)) s = (Inr rv, s1)" "sessions_inv (tm_db s)"
  shows "resolveTarget user labID key (commits (tv_other E (length (tm_seen s))) (tm_db s)) = Inr rv
    \<and> row_by ts_id (tv_newID E) (db_terminals (tm_db s1)) = Some (terminal_of_new (new_terminal E user rv now))
    \<and> sessions_inv (tm_db s1) \<and> tm_trace s1 = tm_trace s"
proof -
  let ?d = "commits (tv_other E (length (tm_seen s))) (tm_db s)"
  from db_call_Inr [OF assms(1)] have c: "create_terminal_tx E user labID key now ?d = (Inr rv, tm_db s1)" "tm_trace s1 = tm_trace s"
    by (auto simp: inTransaction_ok)
  have "sessions_inv (snd (CreateTerminalSession (new_terminal E user rv now) ?d))"
    using assms(2) by (simp add: statements_inv commits_inv)
  then show ?thesis using create_terminal_tx_Inr [OF c(1)] c(2) by auto
qed

section \<open>The end of a failed creation\<close>

lemma EndTerminalSession_row:
  assumes "row_by ts_id i (db_terminals d) = Some t"
  shows "\<exists>t'. row_by ts_id i (db_terminals (snd (EndTerminalSession i at reason d))) = Some t' \<and> ts_status t' = ''ENDED''"
  using row_by_key [OF assms] assms by (simp add: EndTerminalSession_def transition_terminal_def row_by_update_rows)

text \<open>Ending the row is the last call of the abort. Its error is dropped, so where the database did not run it the row stays.\<close>

lemma abortCreate_ends:
  assumes "row_by ts_id (tv_newID E) (db_terminals (tm_db s)) = Some t"
  shows "\<exists>t'. row_by ts_id (tv_newID E) (db_terminals (tm_db (abortCreate E c corr q sentOpen s))) = Some t'
    \<and> (ts_status t' = ''ENDED'' \<or> tv_fault E (length (tm_seen (abortCreate E c corr q sentOpen s)) - 1) = Some False)"
proof -
  let ?s1 = "asked (RelayForgotten (sc_SessionID corr)) (asked (OpenForgotten c (sc_SessionID corr)) s)"
  let ?f = "EndTerminalSession (tv_newID E) (tv_now E (length (tm_seen s)) 0) ''OPEN_FAILED''"
  from commits_advance [of "tm_db s"] assms
  obtain t0 where t0: "row_by ts_id (tv_newID E) (db_terminals (commits (tv_other E (length (tm_seen s))) (tm_db s))) = Some t0"
    by (metis row_advances)
  from EndTerminalSession_row [OF t0] t0
  have "\<exists>t'. row_by ts_id (tv_newID E) (db_terminals (tm_db (snd (db_call E KindInternal ?f ?s1)))) = Some t'
      \<and> (ts_status t' = ''ENDED'' \<or> tv_fault E (length (tm_seen s)) = Some False)"
    by (cases "tv_fault E (length (tm_seen s)) = Some False") (simp_all add: db_call_def asked_def Let_def split_beta)
  moreover have "length (tm_seen (abortCreate E c corr q sentOpen s)) = Suc (length (tm_seen s))"
    by (simp add: abortCreate_def Let_def sendClose_def asked_def db_call_def split_beta)
  ultimately show ?thesis by (simp add: abortCreate_def Let_def sendClose_def asked_def)
qed

lemma abortCreate_trace:
  "tm_trace (abortCreate E c corr q sentOpen s) = tm_trace s @ [OpenForgotten c (sc_SessionID corr), RelayForgotten (sc_SessionID corr)]
     @ (if sentOpen then [CloseSent \<lparr>tc_ConnectorID = c, tc_RequestID = q, tc_OperationID = [], tc_Correlation = corr,
          tc_Reason = ''SESSION_CLOSED'', tc_Trace = tv_trace E\<rparr>] else [])"
  by (simp add: abortCreate_def Let_def sendClose_def asked_def db_call_def split_beta)

section \<open>The wait\<close>

abbreviation notify_all :: "(string \<times> openOutcome) list \<Rightarrow> term_state \<Rightarrow> term_state" where
  "notify_all ns s \<equiv> fold (\<lambda>(k, oc) s. snd (notifyOpen k oc s)) ns s"

lemma notifyOpen_frame:
  "tm_db (snd (notifyOpen k oc s)) = tm_db s" "tm_seen (snd (notifyOpen k oc s)) = tm_seen s"
  "tm_trace (snd (notifyOpen k oc s)) = tm_trace s"
  by (simp_all add: notifyOpen_def split: option.splits)

lemma notify_all_frame:
  "tm_db (notify_all ns s) = tm_db s \<and> tm_seen (notify_all ns s) = tm_seen s \<and> tm_trace (notify_all ns s) = tm_trace s"
  by (induction ns arbitrary: s) (auto simp: notifyOpen_frame split_beta)

lemma notify_all_slot:
  "tm_opens (notify_all ns s) i = Some (Some oc) \<Longrightarrow> tm_opens s i = Some (Some oc) \<or> (i, oc) \<in> set ns"
proof (induction ns arbitrary: s)
  case (Cons a ns)
  obtain k o' where a: "a = (k, o')" by (cases a)
  from Cons.IH [of "snd (notifyOpen k o' s)"] Cons.prems
  have "tm_opens (snd (notifyOpen k o' s)) i = Some (Some oc) \<or> (i, oc) \<in> set ns" by (simp add: a)
  then show ?case by (auto simp: a notifyOpen_def split: option.splits if_splits)
qed simp

definition open_unsent :: "term_env \<Rightarrow> TerminalOpen \<Rightarrow> bool" where
  "open_unsent E opn \<longleftrightarrow> (case tv_send E opn of Inl err \<Rightarrow> err \<noteq> ErrSendFailed | Inr _ \<Rightarrow> False)"

lemma send_open_result:
  assumes "send_open E opn s = (res, s')"
  shows "tm_db s' = tm_db s \<and> tm_seen s' = tm_seen s \<and> tm_trace s' = tm_trace s @ [OpenSent opn]
    \<and> (case res of Some (e, sentOpen) \<Rightarrow> sentOpen = (\<not> open_unsent E opn)
       | None \<Rightarrow> (\<exists>m. tv_send E opn = Inr m)
           \<and> (\<exists>oc. (sc_SessionID (to_Correlation opn), oc) \<in> set (tv_notified E) \<and> ou_succeeded oc))"
proof (cases "tv_send E opn")
  case (Inl err)
  with assms show ?thesis
    by (auto simp: send_open_def Let_def asked_def addOpenWaiter_def open_unsent_def is_ErrConnectorUnavailable_def split: if_splits)
next
  case (Inr m)
  let ?i = "sc_SessionID (to_Correlation opn)"
  let ?s = "asked (OpenSent opn) (addOpenWaiter ?i s)"
  have frame: "tm_db ?s = tm_db s" "tm_seen ?s = tm_seen s" "tm_trace ?s = tm_trace s @ [OpenSent opn]" "tm_opens ?s ?i = Some None"
    by (simp_all add: asked_def addOpenWaiter_def)
  have "await_open E ?i ?s = (res, s')" using assms Inr by (simp add: send_open_def Let_def)
  then show ?thesis
    using Inr notify_all_frame [of "tv_notified E" ?s] notify_all_slot [of "tv_notified E" ?s ?i]
    by (cases "tv_select E") (auto simp: await_open_def Let_def open_unsent_def frame split: option.splits if_splits)
qed

section \<open>The outcome\<close>

lemma mark_opened_row:
  assumes "sessions_inv d" "MarkTerminalSessionOpened i at grace d = (Inr True, d')"
    "row_by ts_id i (db_terminals d) = Some t"
  shows "row_by ts_id i (db_terminals d') = Some (t\<lparr>ts_status := ''DETACHED'', ts_detached_at := Some at, ts_grace_expires_at := Some grace\<rparr>)"
proof -
  from assms(2) obtain u where u: "u \<in> set (db_terminals d)" "ts_id u = i" "ts_status u = ''OPENING''"
    by (auto simp: MarkTerminalSessionOpened_def transition_terminal_def list_ex_iff)
  have "row_by ts_id (ts_id u) (db_terminals d) = Some u"
    by (rule row_by_distinct) (use assms(1) u(1) in \<open>simp_all add: sessions_inv_def\<close>)
  with u assms(3) have "ts_status t = ''OPENING''" "ts_id t = i" by auto
  with assms(2,3) show ?thesis
    by (auto simp: MarkTerminalSessionOpened_def transition_terminal_def row_by_update_rows)
qed

lemma asked_fields [simp]:
  "tm_db (asked a s) = tm_db s" "tm_seen (asked a s) = tm_seen s" "tm_opens (asked a s) = tm_opens s"
  "tm_trace (asked a s) = tm_trace s @ [a]"
  by (simp_all add: asked_def)

lemma record_opened_result:
  assumes "record_opened E abort i created s = (r, s')" "sessions_inv (tm_db s)"
    "row_by ts_id (tv_newID E) (db_terminals (tm_db s)) = Some t"
  shows "case r of
      Inr c \<Rightarrow> c = created \<and> (\<exists>t0 at grace. terminal_le t t0 \<and> tm_trace s' = tm_trace s @ [RelayActivated i grace]
          \<and> row_by ts_id (tv_newID E) (db_terminals (tm_db s')) =
              Some (t0\<lparr>ts_status := ''DETACHED'', ts_detached_at := Some at, ts_grace_expires_at := Some grace\<rparr>))
    | Inl e \<Rightarrow> \<exists>s1. s' = abort True s1 \<and> (\<exists>t1. row_by ts_id (tv_newID E) (db_terminals (tm_db s1)) = Some t1)
          \<and> (tm_trace s1 = tm_trace s \<or> (\<exists>g. tm_trace s1 = tm_trace s @ [RelayActivated i g]))"
proof (cases "tv_activate E")
  case False
  with assms show ?thesis by (auto simp: record_opened_def Let_def intro!: exI [of _ s])
next
  case True
  let ?n = "length (tm_seen s)"
  let ?g = "tv_now E ?n 0 + tv_grace E"
  let ?f = "MarkTerminalSessionOpened (tv_newID E) (tv_now E ?n 1) ?g"
  obtain q s1 where call: "db_call E KindInternal ?f (asked (RelayActivated i ?g) s) = (q, s1)" by fastforce
  have c: "\<exists>d q' d'. d = commits (tv_other E ?n) (tm_db s) \<and> ?f d = (q', d')
      \<and> tm_trace s1 = tm_trace s @ [RelayActivated i ?g] \<and> tm_db s1 = (if tv_fault E ?n = Some False then d else d')
      \<and> q = (if tv_fault E ?n = None then q' else Inl KindInternal)"
    by (rule db_call_cases [OF call]) (unfold asked_fields, blast)
  from c obtain d q' d' where c: "d = commits (tv_other E ?n) (tm_db s)" "?f d = (q', d')"
    "tm_trace s1 = tm_trace s @ [RelayActivated i ?g]" "tm_db s1 = (if tv_fault E ?n = Some False then d else d')"
    "q = (if tv_fault E ?n = None then q' else Inl KindInternal)" by blast
  have adv: "sessions_advance (tm_db s) (tm_db s1)"
    using c(1,4) marks_advance(1) [of d "tv_newID E" "tv_now E ?n 1" ?g] c(2) commits_advance [of "tm_db s" "tv_other E ?n"]
    by (auto intro: advance_trans)
  show ?thesis
  proof (cases "q = Inr True")
    case ok: True
    with c(5) have q: "q' = Inr True" "tv_fault E ?n = None" by (auto split: if_splits)
    from assms(3) obtain t0 where t0: "row_by ts_id (tv_newID E) (db_terminals d) = Some t0" "terminal_le t t0"
      unfolding c(1) by (metis row_advances commits_advance)
    have "sessions_inv d" using assms(2) by (simp add: c(1) commits_inv)
    from mark_opened_row [OF this _ t0(1)] c(2) q
    have "row_by ts_id (tv_newID E) (db_terminals d') =
        Some (t0\<lparr>ts_status := ''DETACHED'', ts_detached_at := Some (tv_now E ?n 1), ts_grace_expires_at := Some ?g\<rparr>)"
      by blast
    moreover have "r = Inr created" "s' = s1" using assms(1) True call ok by (auto simp: record_opened_def Let_def)
    ultimately show ?thesis using c(3,4) q(2) t0(2) by auto
  next
    case False
    with assms(1) True call have "r = Inl TermOpenFailed" "s' = abort True s1"
      by (auto simp: record_opened_def Let_def split: sum.splits)
    moreover from adv assms(3) obtain t1 where "row_by ts_id (tv_newID E) (db_terminals (tm_db s1)) = Some t1"
      by (rule row_advances)
    ultimately show ?thesis using c(3) by auto
  qed
qed

definition closes_open :: "TerminalOpen \<Rightarrow> term_effect \<Rightarrow> bool" where
  "closes_open opn a \<longleftrightarrow> (case a of CloseSent cl \<Rightarrow> tc_ConnectorID cl = to_ConnectorID opn \<and> tc_Correlation cl = to_Correlation opn
     | _ \<Rightarrow> False)"

definition opens_closed :: "term_env \<Rightarrow> term_effect list \<Rightarrow> bool" where
  "opens_closed E tr \<longleftrightarrow> list_all (\<lambda>a. case a of OpenSent opn \<Rightarrow> open_unsent E opn \<or> list_ex (closes_open opn) tr | _ \<Rightarrow> True) tr"

lemma drop_appended: "drop (length xs) (xs @ ys) = ys"
  by simp

text \<open>
  What a creation leaves behind when it fails after its row was stored: the row is ENDED, unless the database did
  not run the last call, which is the one that ends the row, and every open that may have been sent is followed by a close.
\<close>

definition creation_undone :: "term_env \<Rightarrow> term_state \<Rightarrow> term_state \<Rightarrow> bool" where
  "creation_undone E s s' \<longleftrightarrow>
     (\<exists>t. row_by ts_id (tv_newID E) (db_terminals (tm_db s')) = Some t
        \<and> (ts_status t = ''ENDED'' \<or> tv_fault E (length (tm_seen s') - 1) = Some False))
   \<and> opens_closed E (drop (length (tm_trace s)) (tm_trace s'))"

text \<open>A creation that fails before anything is sent: nothing was written, or the database lost its answer to the commit.\<close>

definition creation_unsent :: "term_env \<Rightarrow> term_state \<Rightarrow> term_state \<Rightarrow> bool" where
  "creation_unsent E s s' \<longleftrightarrow> tm_trace s' = tm_trace s
   \<and> (let d = commits (tv_other E (length (tm_seen s))) (tm_db s) in
      tm_db s' = tm_db s \<or> tm_db s' = d
      \<or> tv_fault E (length (tm_seen s)) = Some True
        \<and> (\<exists>t. tm_db s' = d\<lparr>db_terminals := db_terminals d @ [t]\<rparr> \<and> ts_id t = tv_newID E \<and> ts_status t = ''OPENING''))"

lemma create_call_unsent:
  assumes "db_call E fault (inTransaction (create_terminal_tx E user labID key now)) s = (Inl e, s')"
  shows "creation_unsent E s s'"
  using assms
proof (cases rule: db_call_cases)
  case (1 d r' d')
  show ?thesis
  proof (cases r')
    case (Inl e')
    have "d' = d" by (rule inTransaction_error [OF 1(2) [unfolded Inl]])
    then have "tm_db s' = d" using 1(6) by simp
    then show ?thesis using 1(4) unfolding creation_unsent_def Let_def 1(1) by blast
  next
    case (Inr rv)
    have "create_terminal_tx E user labID key now d = (Inr rv, d')" using 1(2) [unfolded Inr] by (simp add: inTransaction_ok)
    then have "CreateTerminalSession (new_terminal E user rv now) d = (Inr (), d')" using create_terminal_tx_Inr by blast
    then have "d' = d\<lparr>db_terminals := db_terminals d @ [terminal_of_new (new_terminal E user rv now)]\<rparr>"
      using CreateTerminalSession_Inr by blast
    moreover have "ts_id (terminal_of_new (new_terminal E user rv now)) = tv_newID E"
      "ts_status (terminal_of_new (new_terminal E user rv now)) = ''OPENING''"
      by (simp_all add: terminal_of_new_def new_terminal_def)
    moreover have "tv_fault E (length (tm_seen s)) \<noteq> None" using 1(7) Inr by (cases "tv_fault E (length (tm_seen s)) = None") simp_all
    then have "tm_db s' = d \<or> tv_fault E (length (tm_seen s)) = Some True \<and> tm_db s' = d'" using 1(6) by auto
    ultimately show ?thesis using 1(4) unfolding creation_unsent_def Let_def 1(1) by blast
  qed
qed

lemma abort_undone:
  assumes "row_by ts_id (tv_newID E) (db_terminals (tm_db sx)) = Some t"
    "tm_trace sx = tm_trace s @ mid" "\<And>o'. OpenSent o' \<in> set mid \<Longrightarrow> o' = opn" "sentOpen \<or> open_unsent E opn \<or> OpenSent opn \<notin> set mid"
    "c = to_ConnectorID opn" "corr = to_Correlation opn"
  shows "creation_undone E s (removeOpenWaiter i (abortCreate E c corr q sentOpen sx))"
proof -
  let ?tr = "mid @ [OpenForgotten c (sc_SessionID corr), RelayForgotten (sc_SessionID corr)]
     @ (if sentOpen then [CloseSent \<lparr>tc_ConnectorID = c, tc_RequestID = q, tc_OperationID = [], tc_Correlation = corr,
          tc_Reason = ''SESSION_CLOSED'', tc_Trace = tv_trace E\<rparr>] else [])"
  have tr: "drop (length (tm_trace s)) (tm_trace (removeOpenWaiter i (abortCreate E c corr q sentOpen sx))) = ?tr"
    by (simp add: removeOpenWaiter_def abortCreate_trace assms(2))
  have closed: "opens_closed E ?tr"
    using assms(3-6) by (auto simp: opens_closed_def list_all_iff list_ex_iff closes_open_def split: term_effect.split)
  have same: "tm_db (removeOpenWaiter i x) = tm_db x" "tm_seen (removeOpenWaiter i x) = tm_seen x" for x
    by (simp_all add: removeOpenWaiter_def)
  show ?thesis unfolding creation_undone_def tr same using closed abortCreate_ends [OF assms(1), of c corr q sentOpen] by blast
qed

lemma Create_terminal_cases:
  assumes "Create_terminal E user inp s = (r, s')" "sessions_inv (tm_db s)"
  obtains (rejected) e where "r = Inl e" "creation_unsent E s s'"
  | (failed) e where "r = Inl e" "creation_undone E s s'"
  | (opened) labID rv t at grace opn oc m where
      "r = Inr \<lparr>cr_ID = tv_newID E, cr_Generation = ln_Generation (rv_lab rv), cr_Token = fst (newAttachToken E),
              cr_TokenExpiresAt = tv_now E (length (tm_seen s)) 0 + AttachTokenLifetime\<rparr>"
      "resolveTarget user labID (ci_TargetVMKey inp) (commits (tv_other E (length (tm_seen s))) (tm_db s)) = Inr rv"
      "parse_terminal_id E (ci_LabInstanceID inp) = Some labID"
      "terminal_le (terminal_of_new (new_terminal E user rv (tv_now E (length (tm_seen s)) 0))) t"
      "row_by ts_id (tv_newID E) (db_terminals (tm_db s')) =
         Some (t\<lparr>ts_status := ''DETACHED'', ts_detached_at := Some at, ts_grace_expires_at := Some grace\<rparr>)"
      "opn = terminal_open E rv inp" "tv_send E opn = Inr m" "(tv_uS E (tv_newID E), oc) \<in> set (tv_notified E)" "ou_succeeded oc"
      "tm_trace s' = tm_trace s @ [RelayExpected (tv_uS E (tv_newID E)) (tv_uS E (rv_connectorID rv))
          (sc_LabInstanceID (to_Correlation opn)) (sc_Generation (to_Correlation opn)), OpenSent opn,
          RelayActivated (tv_uS E (tv_newID E)) grace]"
proof (cases "parse_terminal_id E (ci_LabInstanceID inp)")
  case None
  with assms(1) show ?thesis by (intro rejected) (auto simp: Create_terminal_def creation_unsent_def)
next
  case (Some labID)
  let ?now = "tv_now E (length (tm_seen s)) 0"
  obtain q s1 where call: "db_call E (TermRepo KindInternal)
      (inTransaction (create_terminal_tx E user labID (ci_TargetVMKey inp) ?now)) s = (q, s1)" by fastforce
  show ?thesis
  proof (cases q)
    case (Inl e)
    with create_call_unsent call have "creation_unsent E s s1" by metis
    then show ?thesis using assms(1) Some call Inl by (intro rejected [of e]) (auto simp: Create_terminal_def Let_def)
  next
    case (Inr rv)
    note new = create_terminal_call [OF call [unfolded Inr] assms(2)]
    let ?opn = "terminal_open E rv inp" let ?i = "tv_uS E (tv_newID E)"
    let ?abort = "abortCreate E (rv_connectorID rv) (to_Correlation ?opn) (ci_RequestID inp)"
    let ?exp = "RelayExpected ?i (tv_uS E (rv_connectorID rv)) (sc_LabInstanceID (to_Correlation ?opn)) (sc_Generation (to_Correlation ?opn))"
    have opn: "sc_SessionID (to_Correlation ?opn) = ?i" "rv_connectorID rv = to_ConnectorID ?opn"
      "sc_Generation (to_Correlation ?opn) = ln_Generation (rv_lab rv)"
      by (simp_all add: terminal_open_def terminal_correlation_def)
    note undone = abort_undone [where E = E and s = s and opn = ?opn and c = "rv_connectorID rv" and corr = "to_Correlation ?opn", OF _ _ _ _ opn(2) HOL.refl]
    obtain res s2 where send: "send_open E ?opn (asked ?exp s1) = (res, s2)" by fastforce
    note sent = send_open_result [OF send]
    show ?thesis
    proof (cases "tv_expect E")
      case False
      have "s' = ?abort False s1" "r = Inl TermUnavailable"
        using assms(1) Some call Inr False by (auto simp: Create_terminal_def Let_def)
      moreover have "creation_undone E s (?abort False s1)"
        using undone [where sx = s1 and mid = "[]" and sentOpen = False and i = ?i and q = "ci_RequestID inp"] new
        by (auto simp: creation_undone_def removeOpenWaiter_def)
      ultimately show ?thesis by (intro failed) auto
    next
      case True
      then have create: "Create_terminal E user inp s = map_prod id (removeOpenWaiter ?i)
          (case res of Some (e, sentOpen) \<Rightarrow> (Inl e, ?abort sentOpen s2)
           | None \<Rightarrow> record_opened E ?abort ?i \<lparr>cr_ID = tv_newID E, cr_Generation = sc_Generation (to_Correlation ?opn),
               cr_Token = fst (newAttachToken E), cr_TokenExpiresAt = ?now + AttachTokenLifetime\<rparr> s2)"
        using Some call Inr send True by (cases res) (simp_all add: Create_terminal_def Let_def opn(1) split: prod.splits)
      show ?thesis
      proof (cases res)
        case (Some a)
        obtain e sentOpen where a: "a = (e, sentOpen)" by (cases a)
        from create assms(1) Some a have "s' = removeOpenWaiter ?i (?abort sentOpen s2)" "r = Inl e" by auto
        moreover have "creation_undone E s (removeOpenWaiter ?i (?abort sentOpen s2))"
          using undone [where sx = s2 and mid = "[?exp, OpenSent ?opn]" and sentOpen = sentOpen and i = ?i and q = "ci_RequestID inp"] new sent Some a by auto
        ultimately show ?thesis by (intro failed) auto
      next
        case None
        obtain r3 s3 where rec: "record_opened E ?abort ?i \<lparr>cr_ID = tv_newID E, cr_Generation = sc_Generation (to_Correlation ?opn),
               cr_Token = fst (newAttachToken E), cr_TokenExpiresAt = ?now + AttachTokenLifetime\<rparr> s2 = (r3, s3)" by fastforce
        have s': "r = r3" "s' = removeOpenWaiter ?i s3" using create assms(1) None rec by auto
        have s2: "sessions_inv (tm_db s2)"
          "row_by ts_id (tv_newID E) (db_terminals (tm_db s2)) = Some (terminal_of_new (new_terminal E user rv ?now))"
          "tm_trace s2 = tm_trace s @ [?exp, OpenSent ?opn]"
          using new sent by simp_all
        note result = record_opened_result [OF rec s2(1,2)]
        show ?thesis
        proof (cases r3)
          case (Inl e)
          from result Inl s2(3) obtain s4 t1 mid where f: "s3 = ?abort True s4" "row_by ts_id (tv_newID E) (db_terminals (tm_db s4)) = Some t1"
            "tm_trace s4 = tm_trace s @ mid" "\<forall>o'. OpenSent o' \<in> set mid \<longrightarrow> o' = ?opn" by auto
          have "creation_undone E s s'"
            using undone [where sx = s4 and t = t1 and mid = mid and sentOpen = True and i = ?i and q = "ci_RequestID inp"] f s' by auto
          with s' Inl show ?thesis by (intro failed) auto
        next
          case (Inr c)
          from result Inr obtain t0 at grace where ok: "c = \<lparr>cr_ID = tv_newID E, cr_Generation = sc_Generation (to_Correlation ?opn),
               cr_Token = fst (newAttachToken E), cr_TokenExpiresAt = ?now + AttachTokenLifetime\<rparr>"
            "terminal_le (terminal_of_new (new_terminal E user rv ?now)) t0" "tm_trace s3 = tm_trace s2 @ [RelayActivated ?i grace]"
            "row_by ts_id (tv_newID E) (db_terminals (tm_db s3)) =
              Some (t0\<lparr>ts_status := ''DETACHED'', ts_detached_at := Some at, ts_grace_expires_at := Some grace\<rparr>)" by auto
          from sent None obtain m oc where "tv_send E ?opn = Inr m" "(?i, oc) \<in> set (tv_notified E)" "ou_succeeded oc"
            by (auto simp: opn)
          with ok s' s2(3) Inr new \<open>parse_terminal_id E (ci_LabInstanceID inp) = Some labID\<close> show ?thesis
            by (intro opened [where rv = rv and labID = labID and t = t0 and at = at and grace = grace and opn = ?opn and m = m and oc = oc]) (simp_all add: opn(1,3) removeOpenWaiter_def)
        qed
      qed
    qed
  qed
qed


section \<open>The properties of a creation\<close>

definition open_names_target :: "TerminalOpen \<Rightarrow> LabInstanceRef \<Rightarrow> string \<Rightarrow> db \<Rightarrow> bool" where
  "open_names_target opn lab key d \<longleftrightarrow>
     to_TargetVMKey opn = key \<and> ConnectorIDForLabInstance (ln_ID lab) d = Inr (to_ConnectorID opn)
   \<and> filter (\<lambda>p. pq_LifecycleStatus p = ''PRESENT'') (ProviderServers (ln_ID lab) (ln_Generation lab) key d)
       = [\<lparr>pq_ProviderID = to_ProviderServerID opn, pq_LifecycleStatus = ''PRESENT''\<rparr>]"

lemma resolveTarget_names:
  assumes "resolveTarget user labID (ci_TargetVMKey inp) d = Inr rv"
  shows "open_names_target (terminal_open E rv inp) (rv_lab rv) (ci_TargetVMKey inp) d"
proof -
  from assms obtain p where p: "filter (\<lambda>p. pq_LifecycleStatus p = ''PRESENT'')
        (ProviderServers (ln_ID (rv_lab rv)) (ln_Generation (rv_lab rv)) (ci_TargetVMKey inp) d) = [p]"
    "ConnectorIDForLabInstance (ln_ID (rv_lab rv)) d = Inr (rv_connectorID rv)" "rv_providerID rv = pq_ProviderID p"
    unfolding resolveTarget_def by (auto split: sum.splits if_splits list.splits simp: Let_def)
  have "p \<in> set (filter (\<lambda>p. pq_LifecycleStatus p = ''PRESENT'')
        (ProviderServers (ln_ID (rv_lab rv)) (ln_Generation (rv_lab rv)) (ci_TargetVMKey inp) d))"
    unfolding p(1) by simp
  then have "pq_LifecycleStatus p = ''PRESENT''" by simp
  then have "p = \<lparr>pq_ProviderID = rv_providerID rv, pq_LifecycleStatus = ''PRESENT''\<rparr>" using p(3) by (cases p) simp
  with p(1,2) show ?thesis by (simp add: open_names_target_def terminal_open_def)
qed

lemma LabInstanceByID_id: "LabInstanceByID i d = Inr lab \<Longrightarrow> ln_ID lab = i"
  by (auto simp: LabInstanceByID_def split: option.splits dest!: row_by_key)

text \<open>
  C27: A terminal session is created whole or not at all, whichever calls of the database fail. When the call succeeds the row is stored, open and
  detached, for the caller, with the digest of the token handed out; the instance was the
  caller's and READY; the Connector of that instance was asked to open the one server that is present under the requested
  name, after the relay was told to expect the session and before it was activated, and reported success.
  When the call fails, either nothing was sent, and nothing was written unless the commit of the row went through and its answer
  was lost, which leaves the row OPENING; or every open that may have reached the Connector is followed by a close, and the
  row is ENDED unless the database did not run the last call, which is the one that ends it: the service drops that error.
\<close>

theorem creation_all_or_nothing:
  assumes "sessions_inv (tm_db s)" and "length (tv_raw E) = 32" and "Create_terminal E user inp s = (r, s')"
  shows "case r of
      Inl e \<Rightarrow> (tm_trace s' = tm_trace s
          \<and> (let d = commits (tv_other E (length (tm_seen s))) (tm_db s) in
              tm_db s' = tm_db s \<or> tm_db s' = d
              \<or> tv_fault E (length (tm_seen s)) = Some True
                \<and> (\<exists>t. tm_db s' = d\<lparr>db_terminals := db_terminals d @ [t]\<rparr> \<and> ts_id t = tv_newID E \<and> ts_status t = ''OPENING'')))
        \<or> (\<exists>t. row_by ts_id (tv_newID E) (db_terminals (tm_db s')) = Some t
              \<and> (ts_status t = ''ENDED'' \<or> tv_fault E (length (tm_seen s') - 1) = Some False))
          \<and> opens_closed E (drop (length (tm_trace s)) (tm_trace s'))
    | Inr c \<Rightarrow> \<exists>lab opn t grace d. d = commits (tv_other E (length (tm_seen s))) (tm_db s)
          \<and> LabInstanceByID (ts_instance t) d = Inr lab \<and> ln_UserID lab = us_ID user \<and> ln_Status lab = ''READY''
          \<and> tv_parse E (ci_LabInstanceID inp) = Some (ts_instance t) \<and> cr_Generation c = ln_Generation lab
          \<and> row_by ts_id (cr_ID c) (db_terminals (tm_db s')) = Some t \<and> ts_status t = ''DETACHED''
          \<and> ts_user t = us_ID user \<and> ts_generation t = cr_Generation c \<and> ts_token_expires_at t = cr_TokenExpiresAt c
          \<and> attachTokenDigest (tv_sha256 E) (cr_Token c) = Some (ts_token_hash t)
          \<and> open_names_target opn lab (ci_TargetVMKey inp) d \<and> sc_SessionID (to_Correlation opn) = tv_uS E (cr_ID c)
          \<and> (\<exists>oc. (tv_uS E (cr_ID c), oc) \<in> set (tv_notified E) \<and> ou_succeeded oc)
          \<and> tm_trace s' = tm_trace s @ [RelayExpected (tv_uS E (cr_ID c)) (tv_uS E (to_ConnectorID opn))
               (sc_LabInstanceID (to_Correlation opn)) (cr_Generation c), OpenSent opn, RelayActivated (tv_uS E (cr_ID c)) grace]"
  using assms(3,1)
proof (cases rule: Create_terminal_cases)
  case (rejected e)
  then show ?thesis by (simp add: creation_unsent_def)
next
  case (failed e)
  then show ?thesis by (simp add: creation_undone_def)
next
  case (opened labID rv t at grace opn oc m)
  let ?d = "commits (tv_other E (length (tm_seen s))) (tm_db s)"
  let ?t = "t\<lparr>ts_status := ''DETACHED'', ts_detached_at := Some at, ts_grace_expires_at := Some grace\<rparr>"
  note lab = resolveTarget_Inr [OF opened(2)]
  have id: "ln_ID (rv_lab rv) = labID" using lab LabInstanceByID_id by blast
  have names: "open_names_target opn (rv_lab rv) (ci_TargetVMKey inp) ?d"
    unfolding opened(6) by (rule resolveTarget_names [OF opened(2)])
  have opn: "sc_SessionID (to_Correlation opn) = tv_uS E (tv_newID E)" "rv_connectorID rv = to_ConnectorID opn"
    "sc_Generation (to_Correlation opn) = ln_Generation (rv_lab rv)"
    by (simp_all add: opened(6) terminal_open_def terminal_correlation_def)
  have row: "ts_instance ?t = labID" "ts_user ?t = us_ID user" "ts_generation ?t = ln_Generation (rv_lab rv)"
    "ts_token_expires_at ?t = tv_now E (length (tm_seen s)) 0 + AttachTokenLifetime" "ts_token_hash ?t = tv_sha256 E (tv_raw E)"
    using opened(4) id by (simp_all add: terminal_le_def terminal_of_new_def new_terminal_def newAttachToken_def)
  have digest: "attachTokenDigest (tv_sha256 E) (fst (newAttachToken E)) = Some (ts_token_hash ?t)"
    unfolding row(5) attachTokenDigest_Some newAttachToken_def fst_conv using assms(2) by blast
  have parse: "tv_parse E (ci_LabInstanceID inp) = Some labID" using opened(3) by (simp add: parse_terminal_id_Some)
  show ?thesis
    unfolding opened(1) sum.case Created.simps
    by (intro exI [of _ "rv_lab rv"] exI [of _ opn] exI [of _ ?t] exI [of _ grace] exI [of _ ?d] conjI exI [of _ oc])
       (use opened lab names opn row digest parse in \<open>simp_all\<close>)
qed

text \<open>
  C28: The token of a created terminal works until the terminal ends. After a creation and any commits of other sessions,
  an attach with the token is granted, when nothing interferes, exactly if the browser session is one of the
  creator, the token has not expired, the terminal has not been ended, the instance is still the creator's
  and of the same generation, and the creator is a member of its class.
\<close>

theorem created_terminal_attaches:
  assumes "sessions_inv (tm_db s)" and "length (tv_raw E) = 32" and "Create_terminal E user inp s = (Inr c, s')"
    and "tm_db s1 = commits cs (tm_db s')" and "quiet E'" and "tv_sha256 E' = tv_sha256 E"
    and "tv_parse E' raw = Some (cr_ID c)" and "tv_uS E' (cr_ID c) = raw"
  shows "(\<exists>g s2. AuthorizeAttach E' session raw (cr_Token c) s1 = (Inr g, s2)) \<longleftrightarrow>
     (\<exists>p t lab m. Authenticate_browser (tv_sha256 E) (tv_now E' (length (tm_seen s1)) 0) session (tm_db s1) = Inr p
        \<and> us_ID (ap_User p) = us_ID user \<and> us_OrganizationID (ap_User p) = us_OrganizationID user
        \<and> tv_now E' (length (tm_seen s1) + 2) 0 < cr_TokenExpiresAt c
        \<and> row_by ts_id (cr_ID c) (db_terminals (tm_db s1)) = Some t \<and> ts_status t \<noteq> ''ENDED''
        \<and> LabInstanceByID (ts_instance t) (tm_db s1) = Inr lab \<and> ln_UserID lab = us_ID user
        \<and> ln_OrganizationID lab = us_OrganizationID user \<and> ln_Generation lab = cr_Generation c
        \<and> ClassMembership (ln_ClassID lab) (us_ID user) (tm_db s1) = Inr m)"
  using assms(3,1)
proof (cases rule: Create_terminal_cases)
  case (opened labID rv t0 at grace opn oc m)
  let ?t = "t0\<lparr>ts_status := ''DETACHED'', ts_detached_at := Some at, ts_grace_expires_at := Some grace\<rparr>"
  let ?now = "tv_now E' (length (tm_seen s1) + 2) 0"
  have c: "cr_ID c = tv_newID E" "cr_Generation c = ln_Generation (rv_lab rv)"
    "cr_TokenExpiresAt c = tv_now E (length (tm_seen s)) 0 + AttachTokenLifetime" "cr_Token c = fst (newAttachToken E)"
    using opened(1) by simp_all
  from commits_advance opened(5) obtain t where
    "row_by ts_id (tv_newID E) (db_terminals (commits cs (tm_db s'))) = Some t" "terminal_le ?t t" by (rule row_advances)
  then have t: "row_by ts_id (cr_ID c) (db_terminals (tm_db s1)) = Some t" "terminal_le ?t t"
    by (simp_all add: assms(4) c(1))
  have t0: "ts_user t0 = us_ID user" "ts_organization t0 = us_OrganizationID user" "ts_generation t0 = cr_Generation c"
    "ts_token_expires_at t0 = cr_TokenExpiresAt c" "ts_token_hash t0 = tv_sha256 E (tv_raw E)"
    using opened(4) resolveTarget_Inr [OF opened(2)] c
    by (simp_all add: terminal_le_def terminal_of_new_def new_terminal_def newAttachToken_def)
  have fields: "ts_user t = us_ID user" "ts_organization t = us_OrganizationID user" "ts_generation t = cr_Generation c"
    "ts_token_expires_at t = cr_TokenExpiresAt c" "ts_token_hash t = tv_sha256 E (tv_raw E)" "ts_status t \<noteq> ''OPENING''"
    using t(2) t0 by (simp_all add: terminal_le_def)
  have digest: "attachTokenDigest (tv_sha256 E') (cr_Token c) = Some (ts_token_hash t)"
    unfolding attachTokenDigest_Some c(4) newAttachToken_def fst_conv fields(5) assms(6) using assms(2) by blast
  have refused: "attach_refused E' (ap_User p) t (cr_Token c) ?now = None \<longleftrightarrow>
      us_ID (ap_User p) = us_ID user \<and> us_OrganizationID (ap_User p) = us_OrganizationID user
    \<and> ?now < cr_TokenExpiresAt c \<and> ts_status t \<noteq> ''ENDED''" for p
    by (auto simp: attach_refused_None digest fields)
  have parse: "parse_terminal_id E' raw = Some (cr_ID c)" using assms(7,8) by (simp add: parse_terminal_id_Some)
  show ?thesis
    unfolding AuthorizeAttach_quiet_iff [OF assms(5) parse t(1)] attach_allowed_def refused fields(3) assms(6) using t(1) by auto
qed simp_all

end
