(* ===== verification/Terminal_Closing.thy ===== *)
theory Terminal_Closing
  imports Terminal_Creation
begin

text \<open>
  Runs of the terminal service: every call changes the sessions by commits only, so that the invariant and
  the order of the rows hold in every run; what a close, a mutation of the lab and the report of an end achieve,
  and the one way in which a close fails.
\<close>

section \<open>Calls as commits\<close>

definition advances :: "term_state \<Rightarrow> term_state \<Rightarrow> bool" where
  "advances s s' \<longleftrightarrow> (\<exists>cs. tm_db s' = commits cs (tm_db s))"

lemma advances_refl [simp]: "advances s s"
  unfolding advances_def by (rule exI [of _ "[]"]) (simp add: commits_def)

lemma advances_trans: "advances a b \<Longrightarrow> advances b c \<Longrightarrow> advances a c"
  unfolding advances_def by (metis commits_append)

lemma advances_same: "tm_db s' = tm_db s \<Longrightarrow> advances s s'"
  unfolding advances_def by (rule exI [of _ "[]"]) (simp add: commits_def)

lemma advances_inv: "advances s s' \<Longrightarrow> sessions_inv (tm_db s) \<Longrightarrow> sessions_inv (tm_db s')"
  by (auto simp: advances_def commits_inv)

lemma advances_le: "advances s s' \<Longrightarrow> sessions_advance (tm_db s) (tm_db s')"
  by (auto simp: advances_def commits_advance)

definition committing :: "(db \<Rightarrow> 'r \<times> db) \<Rightarrow> bool" where
  "committing f \<longleftrightarrow> (\<forall>d. \<exists>cs. snd (f d) = commits cs d)"

lemma committing_step: "(\<And>d. snd (f d) = commit_step c d) \<Longrightarrow> committing f"
  unfolding committing_def by (intro allI exI [of _ "[c]"]) (simp add: commits_def)

lemma committing_read: "(\<And>d. snd (f d) = d) \<Longrightarrow> committing f"
  unfolding committing_def by (intro allI exI [of _ "[]"]) (simp add: commits_def)

lemma committing_transaction:
  assumes "committing f"
  shows "committing (inTransaction f)"
  unfolding committing_def
proof
  fix d
  from assms obtain cs where cs: "snd (f d) = commits cs d" unfolding committing_def by blast
  show "\<exists>cs. snd (inTransaction f d) = commits cs d"
  proof (cases "f d")
    case (Pair r d')
    show ?thesis
    proof (cases r)
      case (Inl e)
      with Pair show ?thesis by (intro exI [of _ "[]"]) (simp add: inTransaction_def commits_def)
    next
      case (Inr x)
      with Pair cs show ?thesis by (intro exI [of _ cs]) (simp add: inTransaction_def)
    qed
  qed
qed

lemma committing_statements:
  "committing (MarkTerminalSessionOpened i at g)" "committing (MarkTerminalSessionAttached i at)"
  "committing (MarkTerminalSessionDetached i at g)" "committing (EndTerminalSession i at reason)"
  "committing (inTransaction (close_tx i at reason))" "committing (inTransaction (ended_tx i at reason))"
  "committing (CreateLiveSession n)" "committing (EndLiveSession i at reason)"
  "committing (EndActiveLiveSessionBySourceTerminal i at reason)"
  using committing_step [of "MarkTerminalSessionOpened i at g" "StoreOpened i at g"]
    committing_step [of "MarkTerminalSessionAttached i at" "StoreAttached i at"]
    committing_step [of "MarkTerminalSessionDetached i at g" "StoreDetached i at g"]
    committing_step [of "EndTerminalSession i at reason" "StoreEnd i at reason"]
    committing_step [of "inTransaction (close_tx i at reason)" "StoreClose i at reason"]
    committing_step [of "inTransaction (ended_tx i at reason)" "StoreEnded i at reason"]
    committing_step [of "CreateLiveSession n" "StoreLive n"]
    committing_step [of "EndLiveSession i at reason" "StoreLiveEnd i at reason"]
    committing_step [of "EndActiveLiveSessionBySourceTerminal i at reason" "StoreLiveEndBySource i at reason"]
  by simp_all

lemma committing_create: "committing (create_terminal_tx E user labID key now)"
  unfolding committing_def
proof
  fix d show "\<exists>cs. snd (create_terminal_tx E user labID key now d) = commits cs d"
  proof (cases "resolveTarget user labID key d")
    case (Inl e)
    then show ?thesis by (intro exI [of _ "[]"]) (simp add: create_terminal_tx_def commits_def)
  next
    case (Inr rv)
    then have "snd (create_terminal_tx E user labID key now d) = commit_step (StoreTerminal (new_terminal E user rv now)) d"
      by (simp add: create_terminal_tx_def new_terminal_def split: prod.splits sum.splits)
    then show ?thesis by (intro exI [of _ "[StoreTerminal (new_terminal E user rv now)]"]) (simp add: commits_def)
  qed
qed

lemma db_call_advances: "committing f \<Longrightarrow> db_call E fault f s = (r, s') \<Longrightarrow> advances s s'"
proof -
  assume f: "committing f" and c: "db_call E fault f s = (r, s')"
  from c obtain d r' d' where "d = commits (tv_other E (length (tm_seen s))) (tm_db s)" "f d = (r', d')" "tm_db s' = d \<or> tm_db s' = d'"
    by (rule db_call_cases) auto
  moreover from f obtain cs where "snd (f d) = commits cs d" unfolding committing_def by blast
  ultimately show "advances s s'" unfolding advances_def by (metis commits_append snd_conv)
qed

lemma db_read_advances: "db_read E f s = (r, s') \<Longrightarrow> advances s s'"
  unfolding db_read_def by (rule db_call_advances) (simp_all add: committing_read)

lemma asked_advances [simp]: "advances s (asked a s') \<longleftrightarrow> advances s s'" "advances (asked a s) s' \<longleftrightarrow> advances s s'"
  by (simp_all add: advances_def)

lemma waiters_advance [simp]:
  "advances s (addOpenWaiter i s') \<longleftrightarrow> advances s s'" "advances s (removeOpenWaiter i s') \<longleftrightarrow> advances s s'"
  "advances s (snd (notifyOpen k oc s')) \<longleftrightarrow> advances s s'" "advances s (sendClose E c corr q p reason s') \<longleftrightarrow> advances s s'"
  by (simp_all add: advances_def addOpenWaiter_def removeOpenWaiter_def notifyOpen_frame sendClose_def)

lemma abortCreate_advances: "advances s (abortCreate E c corr q sentOpen s)"
proof -
  obtain r s2 where c: "db_call E KindInternal (EndTerminalSession (tv_newID E) (tv_now E (length (tm_seen s)) 0) ''OPEN_FAILED'')
      (asked (RelayForgotten (sc_SessionID corr)) (asked (OpenForgotten c (sc_SessionID corr)) s)) = (r, s2)" by fastforce
  from db_call_advances [OF committing_statements(4) c] have "advances s s2" by simp
  then show ?thesis using c by (simp add: abortCreate_def Let_def)
qed

lemma send_open_advances: "send_open E opn s = (r, s') \<Longrightarrow> advances s s'"
  by (rule advances_same) (use send_open_result in blast)

lemma record_opened_advances:
  assumes "record_opened E abort i created s = (r, s')" "\<And>b x. advances x (abort b x)"
  shows "advances s s'"
proof (cases "tv_activate E")
  case False
  with assms show ?thesis by (auto simp: record_opened_def Let_def)
next
  case True
  let ?g = "tv_now E (length (tm_seen s)) 0 + tv_grace E"
  obtain q s1 where c: "db_call E KindInternal (MarkTerminalSessionOpened (tv_newID E) (tv_now E (length (tm_seen s)) 1) ?g)
      (asked (RelayActivated i ?g) s) = (q, s1)" by fastforce
  have s1: "advances s s1" using db_call_advances [OF committing_statements(1) c] by simp
  have "s' = s1 \<or> s' = abort True s1"
    using assms(1) True c by (auto simp: record_opened_def Let_def split: sum.splits bool.splits)
  with s1 assms(2) show ?thesis using advances_trans by blast
qed

lemma Create_terminal_advances:
  assumes "Create_terminal E user inp s = (r, s')"
  shows "advances s s'"
proof (cases "parse_terminal_id E (ci_LabInstanceID inp)")
  case None
  with assms show ?thesis by (simp add: Create_terminal_def)
next
  case (Some labID)
  obtain q s1 where call: "db_call E (TermRepo KindInternal) (inTransaction
      (create_terminal_tx E user labID (ci_TargetVMKey inp) (tv_now E (length (tm_seen s)) 0))) s = (q, s1)" by fastforce
  have s1: "advances s s1" by (rule db_call_advances [OF committing_transaction [OF committing_create] call])
  show ?thesis
  proof (cases q)
    case (Inl e)
    with assms Some call s1 show ?thesis by (simp add: Create_terminal_def Let_def)
  next
    case (Inr rv)
    let ?opn = "terminal_open E rv inp"
    let ?abort = "abortCreate E (rv_connectorID rv) (to_Correlation ?opn) (ci_RequestID inp)"
    let ?created = "\<lparr>cr_ID = tv_newID E, cr_Generation = sc_Generation (to_Correlation ?opn),
        cr_Token = fst (newAttachToken E), cr_TokenExpiresAt = tv_now E (length (tm_seen s)) 0 + AttachTokenLifetime\<rparr>"
    obtain res s2 where send: "send_open E ?opn (asked (RelayExpected (sc_SessionID (to_Correlation ?opn)) (tv_uS E (rv_connectorID rv))
        (sc_LabInstanceID (to_Correlation ?opn)) (sc_Generation (to_Correlation ?opn))) s1) = (res, s2)" by fastforce
    obtain r3 s3 where rec: "record_opened E ?abort (sc_SessionID (to_Correlation ?opn)) ?created s2 = (r3, s3)" by fastforce
    have s2: "advances s s2" using send_open_advances [OF send] advances_trans [OF s1] by simp
    have ab: "advances x (?abort b x)" for b x by (rule abortCreate_advances)
    have s3: "advances s s3" using record_opened_advances [OF rec ab] s2 advances_trans by blast
    have s': "(case res of None \<Rightarrow> tm_db s' = tm_db s3 | Some (e, b) \<Rightarrow> tm_db s' = tm_db (?abort b s2)) \<or> tm_db s' = tm_db (?abort False s1)"
      using assms Some call Inr send rec
      by (cases "tv_expect E"; cases res) (auto simp: Create_terminal_def Let_def removeOpenWaiter_def)
    show ?thesis
      using s' advances_trans [OF s1 ab] advances_trans [OF s2 ab] s3 unfolding advances_def by (auto split: option.splits)
  qed
qed

lemma closeLifecycle_cases:
  assumes "closeLifecycle E rec reason q s = (r, s')"
  obtains (failed) e where "r = Inl e" "db_call E KindInternal (inTransaction (close_tx (ts_id rec) (tv_now E (length (tm_seen s)) 0) reason)) s = (Inl e, s')"
  | (closed) changed s1 where "r = Inr ()"
      "db_call E KindInternal (inTransaction (close_tx (ts_id rec) (tv_now E (length (tm_seen s)) 0) reason)) s = (Inr changed, s1)"
      "advances s1 s'"
      "if changed then (\<exists>c. tm_trace s' = tm_trace s @ [CloseSent \<lparr>tc_ConnectorID = c, tc_RequestID = [], tc_OperationID = q,
           tc_Correlation = terminal_correlation E (ts_id rec) (ts_instance rec) (ts_generation rec), tc_Reason = reason,
           tc_Trace = tv_trace E\<rparr>] \<and> ConnectorIDForLabInstance (ts_instance rec) (tm_db s') = Inr c)
         \<or> tm_trace s' = tm_trace s \<and> (\<exists>e. fst (db_read E (ConnectorIDForLabInstance (ts_instance rec)) s1) = Inl e)
       else tm_trace s' = tm_trace s"
proof -
  obtain q1 s1 where c: "db_call E KindInternal (inTransaction (close_tx (ts_id rec) (tv_now E (length (tm_seen s)) 0) reason)) s = (q1, s1)"
    by fastforce
  show thesis
  proof (cases q1)
    case (Inl e)
    with c assms show thesis by (intro failed [of e]) (auto simp: closeLifecycle_def)
  next
    case (Inr changed)
    obtain q2 s2 where d: "db_read E (ConnectorIDForLabInstance (ts_instance rec)) s1 = (q2, s2)" by fastforce
    have tr: "tm_trace s1 = tm_trace s" using c by (rule db_call_cases)
    show thesis
    proof (cases changed)
      case False
      with c Inr assms tr show thesis by (intro closed [of changed s1]) (auto simp: closeLifecycle_def)
    next
      case True
      show thesis
      proof (cases q2)
        case (Inl e)
        with True c \<open>q1 = Inr changed\<close> assms tr d db_read_db [OF d] db_read_advances [OF d]
        show thesis by (intro closed [of changed s1]) (auto simp: closeLifecycle_def)
      next
        case (Inr cid)
        with True c \<open>q1 = Inr changed\<close> assms tr d db_read_advances [OF d] db_read_Inr [OF d [unfolded Inr]]
        show thesis by (intro closed [of changed s1]) (auto simp: closeLifecycle_def sendClose_def)
      qed
    qed
  qed
qed

lemma closeLifecycle_advances: "closeLifecycle E rec reason q s = (r, s') \<Longrightarrow> advances s s'"
proof (erule closeLifecycle_cases)
  fix e assume "db_call E KindInternal (inTransaction (close_tx (ts_id rec) (tv_now E (length (tm_seen s)) 0) reason)) s = (Inl e, s')"
  then show "advances s s'" by (rule db_call_advances [OF committing_statements(5)])
next
  fix changed s1
  assume "db_call E KindInternal (inTransaction (close_tx (ts_id rec) (tv_now E (length (tm_seen s)) 0) reason)) s = (Inr changed, s1)"
    and "advances s1 s'"
  then show "advances s s'" using db_call_advances [OF committing_statements(5)] advances_trans by blast
qed


section \<open>Runs of the service\<close>

datatype term_op =
    CreateOp User CreateInput
  | TargetsOp User string
  | CloseOp User string
  | MutationOp LabMutation
  | BrowserOp string
  | AttachOp string string string
  | AttachedOp string go_time
  | DetachedOp string go_time go_time
  | CloseSessionOp string string
  | EndedOp string string
  | EventOp SessionEvent

fun term_step :: "term_env \<times> term_op \<Rightarrow> term_state \<Rightarrow> term_state" where
  "term_step (E, CreateOp user inp) s = snd (Create_terminal E user inp s)"
| "term_step (E, TargetsOp user raw) s = snd (Targets E user raw s)"
| "term_step (E, CloseOp user raw) s = snd (Close_terminal E user raw s)"
| "term_step (E, MutationOp m) s = snd (CloseForLabMutation E m s)"
| "term_step (E, BrowserOp session) s = snd (AuthenticateBrowser E session s)"
| "term_step (E, AttachOp session raw token) s = snd (AuthorizeAttach E session raw token s)"
| "term_step (E, AttachedOp raw at) s = snd (RecordAttached E raw at s)"
| "term_step (E, DetachedOp raw at grace) s = snd (RecordDetached E raw at grace s)"
| "term_step (E, CloseSessionOp raw reason) s = snd (CloseSession E raw reason s)"
| "term_step (E, EndedOp raw reason) s = snd (SessionEnded E raw reason s)"
| "term_step (E, EventOp ev) s = HandleTerminalEvent E ev s"

definition term_run :: "(term_env \<times> term_op) list \<Rightarrow> term_state \<Rightarrow> term_state" where
  "term_run ops s = fold term_step ops s"

lemma close_all_advances: "close_all E m recs s = (errs, s') \<Longrightarrow> advances s s'"
proof (induction recs arbitrary: s errs s')
  case (Cons rec recs)
  obtain r s1 where c: "closeLifecycle E rec (lm_Reason m) (lm_OperationID m) s = (r, s1)" by fastforce
  have s1: "advances s s1" by (rule closeLifecycle_advances [OF c])
  obtain errs2 s2 where rest: "close_all E m recs (case r of Inl e \<Rightarrow> s1
      | Inr _ \<Rightarrow> asked (RelayTerminated (tv_uS E (ts_id rec)) (lm_Reason m)) s1) = (errs2, s2)" by fastforce
  from Cons.IH [OF rest] have "advances s1 s2" by (cases r) simp_all
  moreover have "s' = s2" using Cons.prems c rest by (cases r) simp_all
  ultimately show ?case using s1 advances_trans by blast
qed simp

lemma CloseForLabMutation_advances: "CloseForLabMutation E m s = (r, s') \<Longrightarrow> advances s s'"
  unfolding CloseForLabMutation_def
  by (auto split: if_splits prod.splits sum.splits dest!: db_read_advances close_all_advances intro: advances_trans)

lemma Close_terminal_advances: "Close_terminal E user raw s = (r, s') \<Longrightarrow> advances s s'"
  unfolding Close_terminal_def
  by (auto split: if_splits prod.splits sum.splits option.splits dest!: db_read_advances closeLifecycle_advances intro: advances_trans)

lemma Targets_advances: "advances s (snd (Targets E user raw s))"
proof (cases "parse_terminal_id E raw")
  case (Some labID)
  let ?f = "\<lambda>d. (case authorizeLabInstance user labID d of Inl e \<Rightarrow> Inl e | Inr lab \<Rightarrow> snapshotTargets lab d, d)"
  obtain r s' where c: "db_call E (TermRepo KindInternal) (inTransaction ?f) s = (r, s')" by fastforce
  have "committing ?f" by (rule committing_read) simp
  from db_call_advances [OF committing_transaction [OF this] c] show ?thesis using Some c by (simp add: Targets_def)
qed (simp add: Targets_def)

lemma browser_user_advances: "browser_user E session s = (r, s') \<Longrightarrow> advances s s'"
proof -
  assume b: "browser_user E session s = (r, s')"
  let ?f = "\<lambda>d. (Authenticate_browser (tv_sha256 E) (tv_now E (length (tm_seen s)) 0) session d, d)"
  obtain q s1 where c: "db_call E (AuthRepo KindInternal) ?f s = (q, s1)" by fastforce
  have "committing ?f" by (rule committing_read) simp
  from db_call_advances [OF this c] b c show "advances s s'" by (auto simp: browser_user_def split: sum.splits)
qed

lemma AuthorizeAttach_advances: "AuthorizeAttach E session raw token s = (r, s') \<Longrightarrow> advances s s'"
  unfolding AuthorizeAttach_def
  by (auto split: if_splits prod.splits sum.splits option.splits simp: snd_def
      dest!: browser_user_advances db_read_advances closeLifecycle_advances intro: advances_trans)

lemma record_transition_advances:
  assumes "\<And>i. committing (f i)"
  shows "advances s (snd (record_transition E f raw s))"
proof (cases "parse_terminal_id E raw")
  case (Some i)
  obtain r s' where c: "db_call E KindInternal (f i) s = (r, s')" by fastforce
  from db_call_advances [OF assms c] Some c show ?thesis by (simp add: record_transition_def split: sum.splits)
qed (simp add: record_transition_def)

lemma CloseSession_advances: "CloseSession E raw reason s = (r, s') \<Longrightarrow> advances s s'"
  unfolding CloseSession_def
  by (auto split: prod.splits sum.splits option.splits if_splits simp: map_prod_def dest!: db_read_advances closeLifecycle_advances intro: advances_trans)

lemma SessionEnded_advances: "advances s (snd (SessionEnded E raw reason s))"
proof (cases "parse_terminal_id E raw")
  case (Some i)
  obtain r s' where c: "db_call E KindInternal (inTransaction (ended_tx i (tv_now E (length (tm_seen s)) 0) reason)) s = (r, s')"
    by fastforce
  from db_call_advances [OF committing_statements(6) c] Some c show ?thesis by (simp add: SessionEnded_def split: sum.splits)
qed (simp add: SessionEnded_def)


lemma handleConnectorEnded_advances: "advances s (handleConnectorEnded E c corr payload s)"
proof (cases "parse_terminal_id E (sc_SessionID corr)")
  case (Some i)
  obtain q1 s1 where d1: "db_read E (TerminalSessionByID i) s = (q1, s1)" by fastforce
  have a1: "advances s s1" by (rule db_read_advances [OF d1])
  show ?thesis
  proof (cases q1)
    case (Inr rec)
    obtain q2 s2 where d2: "db_read E (ConnectorIDForLabInstance (ts_instance rec)) s1 = (q2, s2)" by fastforce
    have a2: "advances s s2" using db_read_advances [OF d2] a1 advances_trans by blast
    let ?s3 = "snd (notifyOpen (sc_SessionID corr) \<lparr>ou_succeeded = False, ou_ended = True\<rparr> s2)"
    obtain q4 s4 where d4: "db_call E KindInternal (inTransaction (ended_tx i (tv_now E (length (tm_seen ?s3)) 0)
        (SanitizeReason (te_Reason payload)))) ?s3 = (q4, s4)" by fastforce
    have "advances ?s3 s4" by (rule db_call_advances [OF committing_statements(6) d4])
    then have a4: "advances s s4" using a2 advances_trans waiters_advance(3) by blast
    show ?thesis
      using Some d1 Inr d2 d4 a1 a2 a4 by (cases q2; cases q4) (simp_all add: handleConnectorEnded_def Let_def)
  qed (use Some d1 a1 in \<open>simp add: handleConnectorEnded_def\<close>)
qed (simp add: handleConnectorEnded_def)

lemma HandleTerminalEvent_advances: "advances s (HandleTerminalEvent E ev s)"
  by (cases ev) (simp_all add: HandleTerminalEvent_def handleConnectorEnded_advances)

lemma browser_step_advances: "advances s (snd (AuthenticateBrowser E session s))"
  using browser_user_advances [of E session s] by (cases "browser_user E session s") (simp add: AuthenticateBrowser_def)

lemma term_step_advances: "advances s (term_step x s)"
proof -
  obtain E oper where x: "x = (E, oper)" by (cases x)
  show ?thesis
    unfolding x
  proof (cases oper)
    case (AttachedOp raw at)
    then show "advances s (term_step (E, oper) s)"
      by (simp add: RecordAttached_def record_transition_advances committing_statements)
  next
    case (DetachedOp raw at grace)
    then show "advances s (term_step (E, oper) s)"
      by (simp add: RecordDetached_def record_transition_advances committing_statements)
  qed (simp_all add: Create_terminal_advances [OF surjective_pairing] Targets_advances Close_terminal_advances [OF surjective_pairing]
      CloseForLabMutation_advances [OF surjective_pairing] browser_step_advances AuthorizeAttach_advances [OF surjective_pairing]
      CloseSession_advances [OF surjective_pairing] SessionEnded_advances HandleTerminalEvent_advances)
qed

lemma term_run_advances: "advances s (term_run ops s)"
proof (induction ops arbitrary: s)
  case (Cons x ops)
  from advances_trans [OF term_step_advances Cons.IH] show ?case by (simp add: term_run_def)
qed (simp add: term_run_def)

text \<open>
  C29: The rows of terminal and live sessions live one way only. Every run of the terminal service, whatever
  other sessions commit and wherever the database fails, keeps the keys and token digests unique and the states
  well formed, with at most one active live session per class. No row disappears: a terminal keeps its key, organization,
  owner, instance, generation, token and creation time, never returns to OPENING, and does not change once it is ENDED; a
  live session, active or ended, keeps its key, organization, class, source terminal, instructor and
  creation time, and does not change once it has ended.
\<close>

theorem session_rows_one_way:
  assumes "sessions_inv (tm_db s)"
  shows "sessions_inv (tm_db (term_run ops s))
    \<and> (\<forall>i t. row_by ts_id i (db_terminals (tm_db s)) = Some t \<longrightarrow>
        (\<exists>t'. row_by ts_id i (db_terminals (tm_db (term_run ops s))) = Some t'
           \<and> ts_organization t' = ts_organization t \<and> ts_user t' = ts_user t \<and> ts_instance t' = ts_instance t
           \<and> ts_generation t' = ts_generation t \<and> ts_token_hash t' = ts_token_hash t
           \<and> ts_token_expires_at t' = ts_token_expires_at t \<and> ts_created_at t' = ts_created_at t
           \<and> (ts_status t \<noteq> ''OPENING'' \<longrightarrow> ts_status t' \<noteq> ''OPENING'') \<and> (ts_status t = ''ENDED'' \<longrightarrow> t' = t)))
    \<and> (\<forall>i l. row_by lv_id i (db_lives (tm_db s)) = Some l \<longrightarrow>
        (\<exists>l'. row_by lv_id i (db_lives (tm_db (term_run ops s))) = Some l'
           \<and> lv_organization l' = lv_organization l \<and> lv_class l' = lv_class l \<and> lv_source l' = lv_source l
           \<and> lv_instructor l' = lv_instructor l \<and> lv_created_at l' = lv_created_at l \<and> (\<not> active_live l \<longrightarrow> l' = l)))
    \<and> (\<forall>l l'. l \<in> set (db_lives (tm_db (term_run ops s))) \<and> l' \<in> set (db_lives (tm_db (term_run ops s)))
        \<and> active_live l \<and> active_live l' \<and> lv_class l = lv_class l' \<longrightarrow> l = l')"
proof -
  let ?d = "tm_db s" and ?d' = "tm_db (term_run ops s)"
  have inv: "sessions_inv ?d'" by (rule advances_inv [OF term_run_advances assms])
  have le: "sessions_advance ?d ?d'" by (rule advances_le [OF term_run_advances])
  have t: "\<exists>t'. row_by ts_id i (db_terminals ?d') = Some t'
           \<and> ts_organization t' = ts_organization t \<and> ts_user t' = ts_user t \<and> ts_instance t' = ts_instance t
           \<and> ts_generation t' = ts_generation t \<and> ts_token_hash t' = ts_token_hash t
           \<and> ts_token_expires_at t' = ts_token_expires_at t \<and> ts_created_at t' = ts_created_at t
           \<and> (ts_status t \<noteq> ''OPENING'' \<longrightarrow> ts_status t' \<noteq> ''OPENING'') \<and> (ts_status t = ''ENDED'' \<longrightarrow> t' = t)"
    if "row_by ts_id i (db_terminals ?d) = Some t" for i t
  proof -
    from le that obtain t' where "row_by ts_id i (db_terminals ?d') = Some t'" "terminal_le t t'" by (rule row_advances)
    then show ?thesis by (intro exI [of _ t']) (simp add: terminal_le_def, blast)
  qed
  have l: "\<exists>l'. row_by lv_id i (db_lives ?d') = Some l'
           \<and> lv_organization l' = lv_organization l \<and> lv_class l' = lv_class l \<and> lv_source l' = lv_source l
           \<and> lv_instructor l' = lv_instructor l \<and> lv_created_at l' = lv_created_at l \<and> (\<not> active_live l \<longrightarrow> l' = l)"
    if "row_by lv_id i (db_lives ?d) = Some l" for i l
  proof -
    from le that obtain l' where "row_by lv_id i (db_lives ?d') = Some l'" "live_le l l'"
      unfolding sessions_advance_def rows_grow_def by blast
    then show ?thesis by (intro exI [of _ l']) (simp add: live_le_def)
  qed
  have u: "l = l'" if "l \<in> set (db_lives ?d')" "l' \<in> set (db_lives ?d')" "active_live l" "active_live l'" "lv_class l = lv_class l'" for l l'
  proof -
    have "inj_on lv_class (set (filter active_live (db_lives ?d')))" using inv by (simp add: sessions_inv_def distinct_map)
    from inj_onD [OF this that(5)] that show ?thesis by simp
  qed
  show ?thesis using inv t l u by blast
qed

section \<open>Closing\<close>

definition ended_in :: "uuid \<Rightarrow> db \<Rightarrow> bool" where
  "ended_in i d \<longleftrightarrow> (case row_by ts_id i (db_terminals d) of None \<Rightarrow> False | Some t \<Rightarrow> ts_status t = ''ENDED'')"

lemma ended_in_Some: "ended_in i d \<longleftrightarrow> (\<exists>t. row_by ts_id i (db_terminals d) = Some t \<and> ts_status t = ''ENDED'')"
  by (simp add: ended_in_def split: option.split)

lemma ended_in_kept: "ended_in i d \<Longrightarrow> ended_in i (commits cs d)"
  using ended_terminal_kept by (auto simp: ended_in_Some)

lemma ended_in_advances: "advances s s' \<Longrightarrow> ended_in i (tm_db s) \<Longrightarrow> ended_in i (tm_db s')"
  by (auto simp: advances_def ended_in_kept)

lemma present_advances:
  assumes "advances s s'" "row_by ts_id i (db_terminals (tm_db s)) \<noteq> None"
  shows "row_by ts_id i (db_terminals (tm_db s')) \<noteq> None"
  using assms(2) by (auto elim: row_advances [OF advances_le [OF assms(1)]])

lemma closeLifecycle_ends:
  assumes "closeLifecycle E rec reason q s = (Inr u, s')" "row_by ts_id (ts_id rec) (db_terminals (tm_db s)) \<noteq> None"
  shows "ended_in (ts_id rec) (tm_db s')"
  using assms(1)
proof (cases rule: closeLifecycle_cases)
  case (closed changed s1)
  from db_call_Inr [OF closed(2)] have "terminal_closed (ts_id rec) (tm_db s1)" using close_tx_closes by blast
  moreover have "row_by ts_id (ts_id rec) (db_terminals (tm_db s1)) \<noteq> None"
    by (rule present_advances [OF db_call_advances [OF committing_statements(5) closed(2)] assms(2)])
  ultimately have "ended_in (ts_id rec) (tm_db s1)" by (auto simp: terminal_closed_def ended_in_def)
  with closed(3) show ?thesis by (rule ended_in_advances)
qed simp

lemma Close_terminal_ends:
  assumes "Close_terminal E user raw s = (Inr u, s')"
  shows "\<exists>i. parse_terminal_id E raw = Some i \<and> ended_in i (tm_db s')"
proof -
  from assms obtain i where i: "parse_terminal_id E raw = Some i" by (auto simp: Close_terminal_def split: option.splits)
  with assms obtain rec s1 where r: "db_read E (TerminalSessionByID i) s = (Inr rec, s1)"
    by (auto simp: Close_terminal_def split: prod.splits sum.splits)
  from db_read_Inr [OF r] have row: "row_by ts_id i (db_terminals (tm_db s1)) = Some rec" unfolding TerminalSessionByID_Inr by blast
  then have key: "ts_id rec = i" by (auto dest: row_by_key)
  have "ended_in i (tm_db s')"
  proof (cases "ts_status rec = ''ENDED''")
    case True
    with assms i r have "s' = s1" by (auto simp: Close_terminal_def split: if_splits)
    with row True show ?thesis by (simp add: ended_in_Some)
  next
    case False
    with assms i r obtain s2 where c: "closeLifecycle E rec ''SESSION_CLOSED'' [] s1 = (Inr (), s2)" "tm_db s' = tm_db s2"
      by (auto simp: Close_terminal_def split: if_splits prod.splits sum.splits)
    from closeLifecycle_ends [OF c(1)] row c(2) key show ?thesis by simp
  qed
  with i show ?thesis by blast
qed

lemma ended_attach_refused:
  assumes "ended_in i (tm_db s)" "parse_terminal_id E raw = Some i"
  shows "\<exists>e. fst (AuthorizeAttach E session raw token s) = Inl e"
proof -
  from assms(1) obtain t where t: "row_by ts_id i (db_terminals (tm_db s)) = Some t" "ts_status t = ''ENDED''"
    by (auto simp: ended_in_Some)
  obtain r s' where c: "AuthorizeAttach E session raw token s = (r, s')" by fastforce
  show ?thesis
  proof (cases r)
    case (Inr g)
    from attach_of_row [OF c [unfolded Inr]] assms(2) obtain d u where
      u: "sessions_advance (tm_db s) d" "row_by ts_id i (db_terminals d) = Some u" "ts_status u \<noteq> ''ENDED''" by auto
    from u(1) t(1) obtain v where "row_by ts_id i (db_terminals d) = Some v" "terminal_le t v" by (rule row_advances)
    with t(2) u(2,3) show ?thesis by (simp add: terminal_le_def)
  qed (simp add: c)
qed

lemma ended_not_attached:
  assumes "sessions_inv (tm_db s)" "ended_in i (tm_db s)" "parse_terminal_id E raw = Some i"
  shows "\<exists>e. fst (RecordAttached E raw at s) = Inl e"
proof -
  from assms(2) obtain t where t: "row_by ts_id i (db_terminals (tm_db s)) = Some t" "ts_status t = ''ENDED''"
    by (auto simp: ended_in_Some)
  let ?d = "commits (tv_other E (length (tm_seen s))) (tm_db s)"
  have inv: "sessions_inv ?d" by (rule commits_inv [OF assms(1)])
  have row: "row_by ts_id i (db_terminals ?d) = Some t" by (rule ended_terminal_kept [OF t])
  have "u = t" if "u \<in> set (db_terminals ?d)" "ts_id u = i" for u
    using row_by_distinct [of ts_id "db_terminals ?d" u] inv row that by (simp add: sessions_inv_def)
  with t(2) have no: "\<not> list_ex (\<lambda>u. ts_id u = i \<and> (ts_status u = ''DETACHED'' \<or> ts_status u = ''ACTIVE'')) (db_terminals ?d)"
    by (auto simp: list_ex_iff)
  obtain r s' where c: "db_call E KindInternal (MarkTerminalSessionAttached i at) s = (r, s')" by fastforce
  have "r = Inr False \<or> r = Inl KindInternal"
    using c no by (auto simp: db_call_def Let_def MarkTerminalSessionAttached_def transition_terminal_def split: if_splits)
  then show ?thesis using c assms(3) by (auto simp: RecordAttached_def record_transition_def)
qed

text \<open>
  C30: A closed terminal stays closed. When the owner's close has succeeded the row is ENDED, and in every later
  run of the service it stays as it is, no attach to the terminal is granted, whatever the browser and the token, and none
  is recorded.
\<close>

theorem closed_terminal_refused:
  assumes "sessions_inv (tm_db s)" and "Close_terminal E user raw s = (Inr u, s')"
  shows "\<exists>i t. parse_terminal_id E raw = Some i \<and> row_by ts_id i (db_terminals (tm_db s')) = Some t \<and> ts_status t = ''ENDED''
    \<and> (\<forall>ops E' session token at. parse_terminal_id E' raw = Some i \<longrightarrow>
          row_by ts_id i (db_terminals (tm_db (term_run ops s'))) = Some t
        \<and> (\<exists>e. fst (AuthorizeAttach E' session raw token (term_run ops s')) = Inl e)
        \<and> (\<exists>e. fst (RecordAttached E' raw at (term_run ops s')) = Inl e))"
proof -
  from Close_terminal_ends [OF assms(2)] obtain i t where i: "parse_terminal_id E raw = Some i"
    and t: "row_by ts_id i (db_terminals (tm_db s')) = Some t" "ts_status t = ''ENDED''" by (auto simp: ended_in_Some)
  have inv: "sessions_inv (tm_db (term_run ops s'))" for ops
    using assms(1) Close_terminal_advances [OF assms(2)] term_run_advances advances_inv by blast
  have kept: "row_by ts_id i (db_terminals (tm_db (term_run ops s'))) = Some t" for ops
    using term_run_advances [of s' ops] ended_terminal_kept [OF t] by (auto simp: advances_def)
  then have "ended_in i (tm_db (term_run ops s'))" for ops using t(2) by (simp add: ended_in_Some)
  with i t kept ended_attach_refused ended_not_attached [OF inv] show ?thesis by blast
qed

section \<open>Mutations of the lab\<close>

lemma close_all_ends:
  assumes "close_all E m recs s = (errs, s')" "\<And>r. r \<in> set recs \<Longrightarrow> row_by ts_id (ts_id r) (db_terminals (tm_db s)) \<noteq> None"
  shows "length (filter (\<lambda>r. \<not> ended_in (ts_id r) (tm_db s')) recs) \<le> length errs"
  using assms
proof (induction recs arbitrary: s errs s')
  case (Cons rec recs)
  obtain r s1 where c: "closeLifecycle E rec (lm_Reason m) (lm_OperationID m) s = (r, s1)" by fastforce
  let ?s1 = "case r of Inl e \<Rightarrow> s1 | Inr _ \<Rightarrow> asked (RelayTerminated (tv_uS E (ts_id rec)) (lm_Reason m)) s1"
  obtain errs2 where rest: "close_all E m recs ?s1 = (errs2, s')" and errs: "errs = (case r of Inl e \<Rightarrow> e # errs2 | Inr _ \<Rightarrow> errs2)"
    using Cons.prems(1) c by (cases r) (auto simp: apfst_def map_prod_def split: prod.splits)
  have db: "tm_db ?s1 = tm_db s1" by (simp split: sum.split)
  have "row_by ts_id (ts_id x) (db_terminals (tm_db s1)) \<noteq> None" if "x \<in> set recs" for x
    by (rule present_advances [OF closeLifecycle_advances [OF c]]) (use that Cons.prems(2) in simp)
  with Cons.IH [OF rest] db have IH: "length (filter (\<lambda>r. \<not> ended_in (ts_id r) (tm_db s')) recs) \<le> length errs2" by simp
  show ?case
  proof (cases r)
    case (Inr u)
    have "ended_in (ts_id rec) (tm_db s1)" by (rule closeLifecycle_ends [OF c [unfolded Inr]]) (use Cons.prems(2) in simp)
    moreover have "advances ?s1 s'" by (rule close_all_advances [OF rest])
    ultimately have "ended_in (ts_id rec) (tm_db s')" using db ended_in_advances by metis
    with IH errs Inr show ?thesis by simp
  qed (use IH errs in simp)
qed simp

definition left_open :: "uuid \<Rightarrow> db \<Rightarrow> db \<Rightarrow> terminal_row list" where
  "left_open lab d d' = filter (\<lambda>t. ts_instance t = lab \<and> \<not> ended_in (ts_id t) d') (db_terminals d)"

lemma left_open_listed:
  assumes "sessions_inv d" "recs = UnendedTerminalSessionsByLabInstance lab (commits cs d)" "sessions_advance (commits cs d) d'"
  shows "length (left_open lab d d') \<le> length (filter (\<lambda>r. \<not> ended_in (ts_id r) d') recs)"
proof -
  let ?A = "map ts_id (left_open lab d d')" and ?B = "map ts_id (filter (\<lambda>r. \<not> ended_in (ts_id r) d') recs)"
  have "distinct ?A" using assms(1) by (simp add: left_open_def sessions_inv_def distinct_map_filter)
  moreover have "set ?A \<subseteq> set ?B"
  proof
    fix i assume "i \<in> set ?A"
    then obtain t where t: "t \<in> set (db_terminals d)" "ts_instance t = lab" "\<not> ended_in i d'" "ts_id t = i"
      by (auto simp: left_open_def)
    have "row_by ts_id i (db_terminals d) = Some t"
      using row_by_distinct [of ts_id "db_terminals d" t] assms(1) t(1,4) by (simp add: sessions_inv_def)
    then obtain u where u: "row_by ts_id i (db_terminals (commits cs d)) = Some u" "terminal_le t u"
      by (rule row_advances [OF commits_advance])
    from assms(3) u(1) obtain v where v: "row_by ts_id i (db_terminals d') = Some v" "terminal_le u v" by (rule row_advances)
    have "ts_status u \<noteq> ''ENDED''" using v t(3) by (auto simp: ended_in_Some terminal_le_def)
    with u t(2) have "u \<in> set recs" "ts_id u = i"
      by (auto simp: assms(2) UnendedTerminalSessionsByLabInstance_def terminal_le_def dest: row_by_key)
    with t(3) show "i \<in> set ?B" by force
  qed
  ultimately have "length ?A \<le> card (set ?B)" by (metis List.finite_set card_mono distinct_card)
  with card_length [of ?B] show ?thesis by simp
qed

text \<open>
  C31: A mutation of the lab closes the terminals of the instance. When the call succeeds every terminal that the
  instance had is ENDED; when some could not be closed the others are, and the answer
  holds an error for each one that is left. A reason that is not a reset or a cleanup changes nothing.
\<close>

theorem mutation_closes_terminals:
  assumes "sessions_inv (tm_db s)" and "CloseForLabMutation E m s = (r, s')"
  shows "case r of
      CloseDone \<Rightarrow> left_open (lm_LabInstanceID m) (tm_db s) (tm_db s') = []
    | CloseErrors errs \<Rightarrow> length (left_open (lm_LabInstanceID m) (tm_db s) (tm_db s')) \<le> length errs \<and> errs \<noteq> []
    | CloseInvalidReason \<Rightarrow> s' = s \<and> lm_Reason m \<notin> {''LAB_RESET'', ''LAB_CLEANUP''}
    | CloseRead e \<Rightarrow> tm_trace s' = tm_trace s"
proof (cases "lm_Reason m \<noteq> ''LAB_RESET'' \<and> lm_Reason m \<noteq> ''LAB_CLEANUP''")
  case True
  with assms(2) show ?thesis by (auto simp: CloseForLabMutation_def)
next
  case False
  obtain q s1 where d: "db_read E (\<lambda>d. Inr (UnendedTerminalSessionsByLabInstance (lm_LabInstanceID m) d)) s = (q, s1)" by fastforce
  show ?thesis
  proof (cases q)
    case (Inl e)
    with False assms(2) d db_read_db [OF d] show ?thesis by (auto simp: CloseForLabMutation_def)
  next
    case (Inr recs)
    from db_read_Inr [OF d [unfolded Inr]] have s1: "tm_db s1 = commits (tv_other E (length (tm_seen s))) (tm_db s)"
      and recs: "recs = UnendedTerminalSessionsByLabInstance (lm_LabInstanceID m) (tm_db s1)" by blast+
    obtain errs where c: "close_all E m recs s1 = (errs, s')" and r: "r = (if errs = [] then CloseDone else CloseErrors errs)"
      using False assms(2) d Inr by (auto simp: CloseForLabMutation_def split: prod.splits if_splits)
    have "sessions_inv (tm_db s1)" using assms(1) by (simp add: s1 commits_inv)
    then have "row_by ts_id (ts_id x) (db_terminals (tm_db s1)) = Some x" if "x \<in> set recs" for x
      using that row_by_distinct [of ts_id "db_terminals (tm_db s1)" x]
      by (simp add: recs UnendedTerminalSessionsByLabInstance_def sessions_inv_def)
    then have "length (filter (\<lambda>r. \<not> ended_in (ts_id r) (tm_db s')) recs) \<le> length errs"
      by (intro close_all_ends [OF c]) simp
    moreover have "length (left_open (lm_LabInstanceID m) (tm_db s) (tm_db s')) \<le> length (filter (\<lambda>r. \<not> ended_in (ts_id r) (tm_db s')) recs)"
      by (rule left_open_listed [OF assms(1)]) (use recs s1 advances_le [OF close_all_advances [OF c]] in simp_all)
    ultimately have "length (left_open (lm_LabInstanceID m) (tm_db s) (tm_db s')) \<le> length errs" by simp
    then show ?thesis by (cases "errs = []") (simp_all add: r)
  qed
qed

section \<open>The report of an end\<close>

definition end_matches :: "term_env \<Rightarrow> uuid \<Rightarrow> SessionCorrelation \<Rightarrow> db \<Rightarrow> terminal_row \<Rightarrow> bool" where
  "end_matches E c corr d rec \<longleftrightarrow>
     tv_uS E (ts_id rec) = sc_SessionID corr \<and> sc_LabInstanceID corr = tv_uS E (ts_instance rec)
   \<and> sc_Generation corr = ts_generation rec \<and> ConnectorIDForLabInstance (ts_instance rec) d = Inr c"

lemma ended_tx_outcome:
  assumes "inTransaction (ended_tx i now reason) d = (r, d')" "row_by ts_id i (db_terminals d) \<noteq> None"
  shows "case r of Inl e \<Rightarrow> d' = d \<and> e = KindConstraintViolation
           \<and> list_ex (\<lambda>l. lv_source l = i \<and> active_live l \<and> now < lv_created_at l) (db_lives d)
         | Inr _ \<Rightarrow> ended_in i d'"
proof (cases r)
  case (Inl e)
  with assms(1) show ?thesis
    by (auto simp: inTransaction_def ended_tx_def tx_then_def EndActiveLiveSessionBySourceTerminal_def end_lives_def
        EndTerminalSession_def transition_terminal_def list_ex_iff split: if_splits)
next
  case (Inr u)
  have "terminal_closed i d'" using assms(1) Inr ended_tx_closes by blast
  moreover have "row_by ts_id i (db_terminals d') \<noteq> None"
  proof -
    from assms(2) obtain t where "row_by ts_id i (db_terminals d) = Some t" by blast
    moreover have "sessions_advance d d'" using endings_advance(2) [of d i now reason] assms(1) by simp
    ultimately show ?thesis by (auto elim: row_advances)
  qed
  ultimately show ?thesis by (auto simp: Inr terminal_closed_def ended_in_def)
qed

lemma connector_end_cases:
  assumes "handleConnectorEnded E c corr payload s = s'"
  obtains (ignored) "tm_trace s' = tm_trace s" "tm_opens s' = tm_opens s"
      "tm_db s' \<in> {tm_db s, commits (tv_other E (length (tm_seen s))) (tm_db s),
         commits (tv_other E (Suc (length (tm_seen s)))) (commits (tv_other E (length (tm_seen s))) (tm_db s))}"
      "\<And>i rec d1 d2. parse_terminal_id E (sc_SessionID corr) = Some i \<Longrightarrow> tv_fault E (length (tm_seen s)) = None \<Longrightarrow>
         tv_fault E (Suc (length (tm_seen s))) = None \<Longrightarrow>
         d1 = commits (tv_other E (length (tm_seen s))) (tm_db s) \<Longrightarrow> d2 = commits (tv_other E (Suc (length (tm_seen s)))) d1 \<Longrightarrow>
         row_by ts_id i (db_terminals d1) = Some rec \<Longrightarrow> \<not> end_matches E c corr d2 rec"
  | (handled) i rec d2 where "parse_terminal_id E (sc_SessionID corr) = Some i" "d2 \<in> set (tm_seen s')" "end_matches E c corr d2 rec"
      "ts_id rec = i"
      "tm_trace s' = tm_trace s @ [RelayTerminated (sc_SessionID corr) (SanitizeReason (te_Reason payload))] \<and> ended_in i (tm_db s')
       \<or> tm_trace s' = tm_trace s \<and> (tv_fault E (length (tm_seen s) + 2) \<noteq> None
          \<or> list_ex (\<lambda>l. lv_source l = i \<and> active_live l \<and> tv_now E (length (tm_seen s) + 2) 0 < lv_created_at l) (db_lives (tm_db s')))"
proof (cases "parse_terminal_id E (sc_SessionID corr)")
  case None
  with assms show thesis by (intro ignored) (auto simp: handleConnectorEnded_def)
next
  case (Some i)
  obtain q1 s1 where d1: "db_read E (TerminalSessionByID i) s = (q1, s1)" by fastforce
  show thesis
  proof (cases q1)
    case (Inl e)
    then have no: "tv_fault E (length (tm_seen s)) = None \<Longrightarrow> row_by ts_id i (db_terminals (commits (tv_other E (length (tm_seen s))) (tm_db s))) = None"
      using d1 by (auto simp: db_read_def db_call_def TerminalSessionByID_def Let_def split: option.splits)
    have "s' = s1" using assms Some d1 Inl by (simp add: handleConnectorEnded_def)
    moreover have "tm_opens s1 = tm_opens s" using d1 by (auto simp: db_read_def db_call_def Let_def)
    ultimately show thesis using db_read_db [OF d1] no Some by (intro ignored) auto
  next
    case (Inr rec)
    note r1 = db_read_Inr [OF d1 [unfolded Inr]]
    have row: "row_by ts_id i (db_terminals (tm_db s1)) = Some rec" using r1 unfolding TerminalSessionByID_Inr by blast
    then have key: "ts_id rec = i" by (auto dest: row_by_key)
    have uS: "tv_uS E i = sc_SessionID corr" using Some by (simp add: parse_terminal_id_Some)
    have n1: "length (tm_seen s1) = Suc (length (tm_seen s))" using r1 by simp
    obtain q2 s2 where d2: "db_read E (ConnectorIDForLabInstance (ts_instance rec)) s1 = (q2, s2)" by fastforce
    have r2: "tm_db s2 = commits (tv_other E (length (tm_seen s1))) (tm_db s1)" "tm_trace s2 = tm_trace s1" "tm_opens s2 = tm_opens s1"
      "length (tm_seen s2) = Suc (length (tm_seen s1))" "tm_db s2 \<in> set (tm_seen s2)"
      "tv_fault E (length (tm_seen s1)) = None \<Longrightarrow> q2 = ConnectorIDForLabInstance (ts_instance rec) (tm_db s2)"
      using d2 by (auto simp: db_read_def db_call_def Let_def split: if_splits)
    show thesis
    proof (cases "q2 = Inr c \<and> sc_LabInstanceID corr = tv_uS E (ts_instance rec) \<and> sc_Generation corr = ts_generation rec")
      case False
      have "s' = s2" using assms Some d1 Inr d2 False by (cases q2) (auto simp: handleConnectorEnded_def Let_def)
      moreover have "\<not> end_matches E c corr (tm_db s2) rec" if "tv_fault E (length (tm_seen s1)) = None"
        using False r2(6) [OF that] by (auto simp: end_matches_def)
      ultimately show thesis using r1 r2 row n1 Some by (intro ignored) auto
    next
      case True
      have match: "end_matches E c corr (tm_db s2) rec"
        unfolding end_matches_def using True d2 key uS db_read_Inr [where f = "ConnectorIDForLabInstance (ts_instance rec)" and s = s1 and x = c]
        by blast
      let ?s3 = "snd (notifyOpen (sc_SessionID corr) \<lparr>ou_succeeded = False, ou_ended = True\<rparr> s2)"
      let ?now = "tv_now E (length (tm_seen s) + 2) 0" and ?reason = "SanitizeReason (te_Reason payload)"
      have frame: "length (tm_seen ?s3) = length (tm_seen s) + 2" using r2(4) n1 by (simp add: notifyOpen_frame)
      obtain q4 s4 where d4: "db_call E KindInternal (inTransaction (ended_tx i ?now ?reason)) ?s3 = (q4, s4)" by fastforce
      have s': "s' = (case q4 of Inl e \<Rightarrow> s4 | Inr _ \<Rightarrow> asked (RelayTerminated (sc_SessionID corr) ?reason) s4)"
        using assms Some d1 Inr d2 True d4 frame by (simp add: handleConnectorEnded_def Let_def)
      from d4 obtain d r' d' where c4: "d = commits (tv_other E (length (tm_seen ?s3))) (tm_db ?s3)"
        "inTransaction (ended_tx i ?now ?reason) d = (r', d')" "tm_seen s4 = tm_seen ?s3 @ [d]" "tm_trace s4 = tm_trace ?s3"
        "tm_db s4 = (if tv_fault E (length (tm_seen ?s3)) = Some False then d else d')"
        "q4 = (if tv_fault E (length (tm_seen ?s3)) = None then r' else Inl KindInternal)" by (rule db_call_cases)
      have "sessions_advance (tm_db s1) d"
        unfolding c4(1) notifyOpen_frame r2(1) by (rule advance_trans [OF commits_advance commits_advance])
      then have "row_by ts_id i (db_terminals d) \<noteq> None" using row by (auto elim: row_advances)
      note out = ended_tx_outcome [OF c4(2) this]
      have "tm_trace s' = tm_trace s @ [RelayTerminated (sc_SessionID corr) ?reason] \<and> ended_in i (tm_db s')
       \<or> tm_trace s' = tm_trace s \<and> (tv_fault E (length (tm_seen s) + 2) \<noteq> None
          \<or> list_ex (\<lambda>l. lv_source l = i \<and> active_live l \<and> ?now < lv_created_at l) (db_lives (tm_db s')))"
        using out c4(4-6) r1 r2(2) unfolding s' frame by (cases r') (auto simp: notifyOpen_frame)
      moreover have "tm_db s2 \<in> set (tm_seen s')"
        unfolding s' using c4(3) r2(5) by (cases q4) (simp_all add: notifyOpen_frame)
      ultimately show thesis using handled Some match key by blast
    qed
  qed
qed

text \<open>
  Only the Connector of a terminal reports its end. A report has an effect only if the session it names was read, its
  instance and generation are those of the report, and the Connector that sent it is the one of the
  instance: then the terminal is ENDED and the relay is told, unless the database fails or an active live
  session of the terminal is newer than the reading of the clock. Any other report changes nothing beside what
  others commit.
\<close>

lemma connector_end_checked:
  assumes "HandleTerminalEvent E (TerminalEndedEvent c corr messageID payload tr) s = s'"
  shows "(\<exists>i rec d2. parse_terminal_id E (sc_SessionID corr) = Some i \<and> d2 \<in> set (tm_seen s') \<and> end_matches E c corr d2 rec \<and> ts_id rec = i
       \<and> (tm_trace s' = tm_trace s @ [RelayTerminated (sc_SessionID corr) (SanitizeReason (te_Reason payload))] \<and> ended_in i (tm_db s')
         \<or> tm_trace s' = tm_trace s \<and> (tv_fault E (length (tm_seen s) + 2) \<noteq> None
           \<or> list_ex (\<lambda>l. lv_source l = i \<and> active_live l \<and> tv_now E (length (tm_seen s) + 2) 0 < lv_created_at l) (db_lives (tm_db s')))))
    \<or> tm_trace s' = tm_trace s \<and> tm_opens s' = tm_opens s
      \<and> tm_db s' \<in> {tm_db s, commits (tv_other E (length (tm_seen s))) (tm_db s),
           commits (tv_other E (Suc (length (tm_seen s)))) (commits (tv_other E (length (tm_seen s))) (tm_db s))}
      \<and> (\<forall>i rec. parse_terminal_id E (sc_SessionID corr) = Some i \<and> quiet E \<and> row_by ts_id i (db_terminals (tm_db s)) = Some rec
           \<longrightarrow> \<not> end_matches E c corr (tm_db s) rec)"
proof -
  from assms have h: "handleConnectorEnded E c corr payload s = s'" by (simp add: HandleTerminalEvent_def)
  from h show ?thesis
  proof (cases rule: connector_end_cases)
    case ignored
    from ignored(4) have "\<not> end_matches E c corr (tm_db s) rec"
      if "parse_terminal_id E (sc_SessionID corr) = Some i" "quiet E" "row_by ts_id i (db_terminals (tm_db s)) = Some rec" for i rec
      using that by (simp add: quiet_def commits_def)
    with ignored(1-3) show ?thesis by blast
  next
    case (handled i rec d2)
    then show ?thesis by blast
  qed
qed

text \<open>
  C32: A live session that is newer than the reading of the clock keeps its terminal from being closed. The clock is
  read before the transaction, and the database refuses to end a live session before its creation: if an active live
  session of the terminal was created after the reading, the close fails and the
  terminal stays open; a report of its end by the Connector is lost, since nobody repeats it.
\<close>

theorem close_refused_by_newer_live:
  assumes "d = commits (tv_other E (length (tm_seen s))) (tm_db s)" and "tv_fault E (length (tm_seen s)) = None"
    and "l \<in> set (db_lives d)" and "lv_source l = ts_id rec" and "active_live l" and "tv_now E (length (tm_seen s)) 0 < lv_created_at l"
  shows "fst (closeLifecycle E rec reason q s) = Inl KindConstraintViolation
    \<and> tm_db (snd (closeLifecycle E rec reason q s)) = d \<and> tm_trace (snd (closeLifecycle E rec reason q s)) = tm_trace s
    \<and> (\<forall>raw. parse_terminal_id E raw = Some (ts_id rec) \<longrightarrow>
         fst (SessionEnded E raw reason s) = Inl CtlDependencyUnavailable \<and> tm_db (snd (SessionEnded E raw reason s)) = d)"
proof -
  let ?now = "tv_now E (length (tm_seen s)) 0"
  have newer: "list_ex (\<lambda>l. (lv_source l = ts_id rec \<and> active_live l) \<and> ?now < lv_created_at l) (db_lives d)"
    using assms(3-6) by (auto simp: list_ex_iff)
  have "inTransaction (close_tx (ts_id rec) ?now reason) d = (Inl KindConstraintViolation, d)"
    "inTransaction (ended_tx (ts_id rec) ?now reason) d = (Inl KindConstraintViolation, d)"
    using newer by (simp_all add: inTransaction_def close_tx_def ended_tx_def tx_then_def EndTerminalSession_def transition_terminal_def
        EndActiveLiveSessionBySourceTerminal_def end_lives_def)
  then show ?thesis
    using assms(1,2) by (simp add: closeLifecycle_def SessionEnded_def db_call_def Let_def)
qed

end
