(* ===== verification/Live_Session.thy ===== *)
theory Live_Session
  imports Terminal_Closing
begin

text \<open>
  Live sessions: \<^verbatim>\<open>internal/server/livesession\<close>. An instructor shows a terminal to the students of the cls. The
  calls run as those of the terminal service do; \<open>lz_usable\<close> and \<open>lz_register\<close> are the answers of the relay
  and \<open>lz_relay\<close> whether there is one. The identifiers are parsed by \<^verbatim>\<open>uuid.Parse\<close> alone, without the
  comparison with the canonical form that the terminal service makes.
\<close>

section \<open>Operations\<close>

datatype live_error =
    LiveNotFound | LiveForbidden | LiveActive | LiveSourceUnavailable | LiveUnavailable | LiveInconsistentData
  | LiveRepo repo_error

record LiveGrant =
  lg_LiveSessionID :: string
  lg_SourceTerminalSessionID :: string
  lg_ClassID :: string

record live_env =
  lz_base :: term_env
  lz_relay :: bool
  lz_auth :: bool
  lz_usable :: "string \<Rightarrow> bool"
  lz_register :: bool

definition live_missing :: "live_error \<Rightarrow> repo_error \<Rightarrow> live_error" where
  "live_missing missing e = (if e = KindNotFound then missing else LiveRepo e)"

text \<open>The checks on the source of a live session; the answer is the class.\<close>

definition live_source ::
  "live_env \<Rightarrow> User \<Rightarrow> uuid \<Rightarrow> term_state \<Rightarrow> (live_error + terminal_row \<times> uuid) \<times> term_state" where
  "live_source Z user termID s =
     (let E = lz_base Z in
     (case db_read E (TerminalSessionByID termID) s of
        (Inl e, s1) \<Rightarrow> (Inl (live_missing LiveNotFound e), s1)
      | (Inr trm, s1) \<Rightarrow>
     if ts_organization trm \<noteq> us_OrganizationID user \<or> ts_user trm \<noteq> us_ID user then (Inl LiveForbidden, s1)
     else if ts_status trm = ''ENDED'' \<or> ts_status trm = ''OPENING'' then (Inl LiveSourceUnavailable, s1)
     else (case db_read E (LabInstanceByID (ts_instance trm)) s1 of
        (Inl e, s2) \<Rightarrow> (Inl (live_missing LiveInconsistentData e), s2)
      | (Inr lab, s2) \<Rightarrow>
     if ln_OrganizationID lab \<noteq> us_OrganizationID user \<or> ln_UserID lab \<noteq> us_ID user then (Inl LiveForbidden, s2)
     else if ln_Generation lab \<noteq> ts_generation trm \<or> ln_Status lab \<noteq> ''READY'' then (Inl LiveSourceUnavailable, s2)
     else (case db_read E (ClassMembership (ln_ClassID lab) (us_ID user)) s2 of
        (Inl e, s3) \<Rightarrow> (Inl (live_missing LiveForbidden e), s3)
      | (Inr m, s3) \<Rightarrow>
          (if mb_organization m \<noteq> us_OrganizationID user \<or> mb_role m \<noteq> ''INSTRUCTOR'' then Inl LiveForbidden
           else Inr (trm, ln_ClassID lab), s3)))))"

text \<open>The insertion and the registration with the relay, undone when the relay refuses.\<close>

definition live_store :: "live_env \<Rightarrow> User \<Rightarrow> terminal_row \<Rightarrow> uuid \<Rightarrow> term_state \<Rightarrow> (live_error + live_row) \<times> term_state" where
  "live_store Z user trm cls s =
     (let E = lz_base Z;
          n = \<lparr>nv_ID = tv_newID E, nv_OrganizationID = us_OrganizationID user, nv_ClassID = cls,
               nv_SourceTerminalSessionID = ts_id trm, nv_InstructorUserID = us_ID user,
               nv_CreatedAt = tv_now E (length (tm_seen s)) 0\<rparr> in
      case db_call E KindInternal (CreateLiveSession n) s of
        (Inl e, s1) \<Rightarrow> (Inl (if e = KindConflict then LiveActive else LiveRepo e), s1)
      | (Inr _, s1) \<Rightarrow>
          (let s2 = asked (LiveRegistered (tv_uS E (nv_ID n)) (tv_uS E (ts_id trm)) (tv_uS E cls)) s1 in
           if lz_register Z then (Inr (live_of_new n), s2)
           else (Inl LiveSourceUnavailable,
                 snd (db_call E KindInternal (EndLiveSession (nv_ID n) (tv_now E (length (tm_seen s2)) 0) ''SOURCE_UNAVAILABLE'') s2))))"

definition Create_live :: "live_env \<Rightarrow> User \<Rightarrow> string \<Rightarrow> term_state \<Rightarrow> (live_error + live_row) \<times> term_state" where
  "Create_live Z user raw s =
     (case tv_parse (lz_base Z) raw of None \<Rightarrow> (Inl LiveNotFound, s)
      | Some termID \<Rightarrow>
     (case live_source Z user termID s of
        (Inl e, s1) \<Rightarrow> (Inl e, s1)
      | (Inr (trm, cls), s1) \<Rightarrow>
     if \<not> lz_relay Z then (Inl LiveUnavailable, s1)
     else if \<not> lz_usable Z raw then (Inl LiveSourceUnavailable, s1)
     else (case db_read (lz_base Z) (ActiveLiveSessionByClass cls) s1 of
        (Inr _, s2) \<Rightarrow> (Inl LiveActive, s2)
      | (Inl e, s2) \<Rightarrow> if e \<noteq> KindNotFound then (Inl (LiveRepo e), s2) else live_store Z user trm cls s2)))"

definition GetActive :: "live_env \<Rightarrow> User \<Rightarrow> string \<Rightarrow> term_state \<Rightarrow> (live_error + live_row) \<times> term_state" where
  "GetActive Z user classID s =
     (case tv_parse (lz_base Z) classID of None \<Rightarrow> (Inl LiveNotFound, s)
      | Some cID \<Rightarrow>
     (case db_read (lz_base Z) (ClassMembership cID (us_ID user)) s of
        (Inl e, s1) \<Rightarrow> (Inl (live_missing LiveForbidden e), s1)
      | (Inr m, s1) \<Rightarrow>
     if mb_organization m \<noteq> us_OrganizationID user \<or> \<not> ClassRole_Valid (mb_role m) then (Inl LiveForbidden, s1)
     else (case db_read (lz_base Z) (ActiveLiveSessionByClass cID) s1 of
        (Inl e, s2) \<Rightarrow> (Inl (live_missing LiveNotFound e), s2)
      | (Inr l, s2) \<Rightarrow> (Inr l, s2))))"

definition live_ended :: "live_row \<Rightarrow> bool" where
  "live_ended l \<longleftrightarrow> lv_ended_at l \<noteq> None \<or> lv_end_reason l \<noteq> []"

definition Close_live :: "live_env \<Rightarrow> User \<Rightarrow> string \<Rightarrow> term_state \<Rightarrow> (live_error + unit) \<times> term_state" where
  "Close_live Z user raw s =
     (let E = lz_base Z in
      case tv_parse E raw of None \<Rightarrow> (Inl LiveNotFound, s)
      | Some i \<Rightarrow>
     (case db_read E (LiveSessionByID i) s of
        (Inl e, s1) \<Rightarrow> (Inl (live_missing LiveNotFound e), s1)
      | (Inr live, s1) \<Rightarrow>
     if lv_organization live \<noteq> us_OrganizationID user \<or> lv_instructor live \<noteq> us_ID user then (Inl LiveForbidden, s1)
     else (case db_read E (ClassMembership (lv_class live) (us_ID user)) s1 of
        (Inl e, s2) \<Rightarrow> (Inl (live_missing LiveForbidden e), s2)
      | (Inr m, s2) \<Rightarrow>
     if mb_role m \<noteq> ''INSTRUCTOR'' then (Inl LiveForbidden, s2)
     else if live_ended live then (Inr (), s2)
     else (case db_call E KindInternal (EndLiveSession (lv_id live) (tv_now E (length (tm_seen s2)) 0) ''SESSION_CLOSED'') s2 of
        (Inl e, s3) \<Rightarrow> (Inl (LiveRepo e), s3)
      | (Inr _, s3) \<Rightarrow>
          (Inr (), if lz_relay Z then asked (LiveTerminated (tv_uS E (lv_id live)) ''SESSION_CLOSED'') s3 else s3)))))"

definition AuthorizeLiveSubscribe ::
  "live_env \<Rightarrow> string \<Rightarrow> string \<Rightarrow> term_state \<Rightarrow> (control_error + LiveGrant) \<times> term_state" where
  "AuthorizeLiveSubscribe Z session raw s =
     (let E = lz_base Z in
      case tv_parse E raw of None \<Rightarrow> (Inl CtlSessionNotFound, s)
      | Some i \<Rightarrow>
     if \<not> lz_auth Z then (Inl CtlDependencyUnavailable, s)
     else (case browser_user E session s of
        (Inl e, s1) \<Rightarrow> (Inl e, s1)
      | (Inr user, s1) \<Rightarrow>
     (case db_read E (LiveSessionByID i) s1 of
        (Inl e, s2) \<Rightarrow> (Inl (not_found_or CtlSessionNotFound e), s2)
      | (Inr live, s2) \<Rightarrow>
     if live_ended live then (Inl CtlSessionEnded, s2)
     else if lv_organization live \<noteq> us_OrganizationID user then (Inl CtlForbidden, s2)
     else (case db_read E (ClassMembership (lv_class live) (us_ID user)) s2 of
        (Inl e, s3) \<Rightarrow> (Inl (not_found_or CtlForbidden e), s3)
      | (Inr m, s3) \<Rightarrow>
     if mb_role m \<noteq> ''STUDENT'' then (Inl CtlForbidden, s3)
     else (case db_read E (TerminalSessionByID (lv_source live)) s3 of
        (Inl e, s4) \<Rightarrow> (Inl (not_found_or CtlSessionNotFound e), s4)
      | (Inr trm, s4) \<Rightarrow>
     if ts_status trm = ''ENDED'' then (Inl CtlSessionEnded, s4)
     else (case db_read E (LabInstanceByID (ts_instance trm)) s4 of
        (Inl e, s5) \<Rightarrow> (Inl (not_found_or CtlSessionNotFound e), s5)
      | (Inr lab, s5) \<Rightarrow>
          (if ln_Generation lab \<noteq> ts_generation trm then Inl CtlLabMutation
           else Inr \<lparr>lg_LiveSessionID = tv_uS E (lv_id live), lg_SourceTerminalSessionID = tv_uS E (lv_source live),
                     lg_ClassID = tv_uS E (lv_class live)\<rparr>, s5)))))))"

definition SourceTerminalEnded :: "live_env \<Rightarrow> string \<Rightarrow> string \<Rightarrow> term_state \<Rightarrow> (control_error + unit) \<times> term_state" where
  "SourceTerminalEnded Z raw reason s =
     (let E = lz_base Z in
      case tv_parse E raw of None \<Rightarrow> (Inr (), s)
      | Some i \<Rightarrow>
          (case db_call E KindInternal (EndActiveLiveSessionBySourceTerminal i (tv_now E (length (tm_seen s)) 0) reason) s of
             (Inl e, s1) \<Rightarrow> (Inl CtlDependencyUnavailable, s1)
           | (Inr _, s1) \<Rightarrow> (Inr (), s1)))"

section \<open>The reads\<close>

lemma db_read_step:
  assumes "db_read E f s = (Inr x, s')"
  shows "f (tm_db s') = Inr x" "tm_seen s' = tm_seen s @ [tm_db s']" "tm_trace s' = tm_trace s" "sessions_advance (tm_db s) (tm_db s')"
    "sessions_inv (tm_db s) \<Longrightarrow> sessions_inv (tm_db s')" "tm_db s' = commits (tv_other E (length (tm_seen s))) (tm_db s)"
proof -
  note r = db_read_Inr [OF assms]
  from r show "f (tm_db s') = Inr x" "tm_seen s' = tm_seen s @ [tm_db s']" "tm_trace s' = tm_trace s" by blast+
  from r show db: "tm_db s' = commits (tv_other E (length (tm_seen s))) (tm_db s)" by blast
  show "sessions_advance (tm_db s) (tm_db s')" unfolding db by (rule commits_advance)
  show "sessions_inv (tm_db s) \<Longrightarrow> sessions_inv (tm_db s')" unfolding db by (rule commits_inv)
qed

lemma terminal_row_ok:
  assumes "sessions_inv d" "row_by ts_id i (db_terminals d) = Some t"
  shows "terminal_ok t"
proof -
  from row_by_key [OF assms(2)] have "t \<in> set (db_terminals d)" by blast
  with assms(1) show ?thesis by (simp add: sessions_inv_def list_all_iff)
qed

lemma live_row_ok:
  assumes "sessions_inv d" "row_by lv_id i (db_lives d) = Some l"
  shows "live_ok l"
proof -
  from row_by_key [OF assms(2)] have "l \<in> set (db_lives d)" by blast
  with assms(1) show ?thesis by (simp add: sessions_inv_def list_all_iff)
qed

lemma live_source_Inr:
  assumes "live_source Z user termID s = (Inr (trm, cls), s')"
  obtains d1 d2 lab m where "tm_seen s' = tm_seen s @ [d1, d2, tm_db s']" "sessions_advance (tm_db s) d1" "sessions_inv (tm_db s) \<longrightarrow> sessions_inv d1"
    "row_by ts_id termID (db_terminals d1) = Some trm" "ts_user trm = us_ID user" "ts_organization trm = us_OrganizationID user"
    "ts_status trm \<notin> {''ENDED'', ''OPENING''}"
    "LabInstanceByID (ts_instance trm) d2 = Inr lab" "ln_UserID lab = us_ID user" "ln_Generation lab = ts_generation trm"
    "ln_Status lab = ''READY''" "cls = ln_ClassID lab" "ClassMembership cls (us_ID user) (tm_db s') = Inr m" "mb_role m = ''INSTRUCTOR''"
    "tm_trace s' = tm_trace s" "sessions_inv (tm_db s) \<longrightarrow> sessions_inv (tm_db s')"
proof -
  let ?E = "lz_base Z"
  from assms obtain t s1 where t: "db_read ?E (TerminalSessionByID termID) s = (Inr t, s1)"
    by (auto simp: live_source_def Let_def split: prod.splits sum.splits)
  from assms t have own: "ts_user t = us_ID user" "ts_organization t = us_OrganizationID user" "ts_status t \<notin> {''ENDED'', ''OPENING''}"
    by (auto simp: live_source_def Let_def split: if_splits)
  from assms t own obtain lab s2 where lab: "db_read ?E (LabInstanceByID (ts_instance t)) s1 = (Inr lab, s2)"
    by (auto simp: live_source_def Let_def split: prod.splits sum.splits)
  from assms t own lab have ready: "ln_UserID lab = us_ID user" "ln_Generation lab = ts_generation t" "ln_Status lab = ''READY''"
    by (auto simp: live_source_def Let_def split: if_splits)
  from assms t own lab ready obtain m where m: "db_read ?E (ClassMembership (ln_ClassID lab) (us_ID user)) s2 = (Inr m, s')"
    "mb_role m = ''INSTRUCTOR''" "trm = t" "cls = ln_ClassID lab"
    by (auto simp: live_source_def Let_def split: prod.splits sum.splits if_splits)
  note r1 = db_read_step [OF t] and r2 = db_read_step [OF lab] and r3 = db_read_step [OF m(1)]
  have row: "row_by ts_id termID (db_terminals (tm_db s1)) = Some t" using r1(1) unfolding TerminalSessionByID_Inr .
  have seen: "tm_seen s' = tm_seen s @ [tm_db s1, tm_db s2, tm_db s']" "tm_trace s' = tm_trace s"
    unfolding r3(2,3) r2(2,3) r1(2,3) by simp_all
  have inv: "sessions_inv (tm_db s) \<longrightarrow> sessions_inv (tm_db s1)" "sessions_inv (tm_db s) \<longrightarrow> sessions_inv (tm_db s')"
    using r1(5) r2(5) r3(5) by blast+
  show thesis
    by (rule that [of "tm_db s1" "tm_db s2" lab m]; (rule seen inv r1(4))?; (simp only: m(2-4) r2(1) r3(1) row own ready simp_thms)?)
qed

lemma CreateLiveSession_Inr:
  assumes "CreateLiveSession n d = (Inr u, d')"
  shows "d' = d\<lparr>db_lives := db_lives d @ [live_of_new n]\<rparr> \<and> \<not> list_ex (\<lambda>l. lv_class l = nv_ClassID n \<and> active_live l) (db_lives d)"
  using assms by (auto simp: CreateLiveSession_def list_ex_iff split: if_splits)

lemma CreateLiveSession_Inl: "CreateLiveSession n d = (Inl e, d') \<Longrightarrow> d' = d"
  by (auto simp: CreateLiveSession_def split: if_splits)

text \<open>
  C33: A live session is created by right and alone. When the call succeeds the source was the caller's terminal, neither ended nor
  opening, on the caller's READY instance of the same generation, the caller was an instructor of the class of that
  instance and the relay could use the source; the stored session is of that class and source, it
  is the only active one of the class, and it was registered with the relay.
\<close>

theorem live_created_checked:
  assumes "sessions_inv (tm_db s)" and "Create_live Z user raw s = (Inr l, s')"
  shows "\<exists>d1 d2 d3 d4 d5 t lab m. tm_seen s' = tm_seen s @ [d1, d2, d3, d4, d5]
      \<and> tv_parse (lz_base Z) raw = Some (ts_id t) \<and> row_by ts_id (ts_id t) (db_terminals d1) = Some t
      \<and> ts_user t = us_ID user \<and> ts_status t \<in> {''ACTIVE'', ''DETACHED''}
      \<and> LabInstanceByID (ts_instance t) d2 = Inr lab \<and> ln_UserID lab = us_ID user \<and> ln_Generation lab = ts_generation t \<and> ln_Status lab = ''READY''
      \<and> ClassMembership (ln_ClassID lab) (us_ID user) d3 = Inr m \<and> mb_role m = ''INSTRUCTOR'' \<and> lz_usable Z raw
      \<and> lv_class l = ln_ClassID lab \<and> lv_source l = ts_id t \<and> lv_instructor l = us_ID user \<and> active_live l
      \<and> tm_db s' = d5\<lparr>db_lives := db_lives d5 @ [l]\<rparr>
      \<and> filter (\<lambda>x. active_live x \<and> lv_class x = lv_class l) (db_lives (tm_db s')) = [l]
      \<and> tm_trace s' = tm_trace s @ [LiveRegistered (tv_uS (lz_base Z) (lv_id l)) (tv_uS (lz_base Z) (lv_source l)) (tv_uS (lz_base Z) (lv_class l))]"
proof -
  let ?E = "lz_base Z"
  from assms(2) obtain i where i: "tv_parse ?E raw = Some i" by (auto simp: Create_live_def split: option.splits)
  from assms(2) i obtain t cls s1 where src: "live_source Z user i s = (Inr (t, cls), s1)"
    by (auto simp: Create_live_def split: prod.splits sum.splits)
  from assms(2) i src have relay: "lz_relay Z" "lz_usable Z raw" by (auto simp: Create_live_def split: if_splits)
  obtain q s2 where act: "db_read ?E (ActiveLiveSessionByClass cls) s1 = (q, s2)" by fastforce
  have store: "live_store Z user t cls s2 = (Inr l, s')"
    using assms(2) i src relay act by (auto simp: Create_live_def split: sum.splits if_splits)
  let ?n = "\<lparr>nv_ID = tv_newID ?E, nv_OrganizationID = us_OrganizationID user, nv_ClassID = cls,
               nv_SourceTerminalSessionID = ts_id t, nv_InstructorUserID = us_ID user,
               nv_CreatedAt = tv_now ?E (length (tm_seen s2)) 0\<rparr>"
  from store obtain u s3 where ins: "db_call ?E KindInternal (CreateLiveSession ?n) s2 = (Inr u, s3)"
    by (auto simp: live_store_def Let_def split: prod.splits sum.splits)
  from store ins have l: "l = live_of_new ?n" "s' = asked (LiveRegistered (tv_uS ?E (nv_ID ?n)) (tv_uS ?E (ts_id t)) (tv_uS ?E cls)) s3"
    by (auto simp: live_store_def Let_def split: if_splits)
  from src obtain d1 d2 lab m where a:
    "tm_seen s1 = tm_seen s @ [d1, d2, tm_db s1]" "sessions_advance (tm_db s) d1" "sessions_inv (tm_db s) \<longrightarrow> sessions_inv d1"
    "row_by ts_id i (db_terminals d1) = Some t" "ts_user t = us_ID user" "ts_organization t = us_OrganizationID user"
    "ts_status t \<notin> {''ENDED'', ''OPENING''}" "LabInstanceByID (ts_instance t) d2 = Inr lab" "ln_UserID lab = us_ID user"
    "ln_Generation lab = ts_generation t" "ln_Status lab = ''READY''" "cls = ln_ClassID lab"
    "ClassMembership cls (us_ID user) (tm_db s1) = Inr m" "mb_role m = ''INSTRUCTOR''"
    "tm_trace s1 = tm_trace s" "sessions_inv (tm_db s) \<longrightarrow> sessions_inv (tm_db s1)" by (rule live_source_Inr)
  have key: "ts_id t = i" using a(4) by (auto dest: row_by_key)
  have "terminal_ok t" using a(3) assms(1) a(4) terminal_row_ok by blast
  with a(7) have st: "ts_status t \<in> {''ACTIVE'', ''DETACHED''}" by (auto simp: terminal_ok_def)
  have seen2: "\<exists>d4. tm_seen s2 = tm_seen s1 @ [d4]" "tm_trace s2 = tm_trace s1"
    using act by (auto simp: db_read_def db_call_def Let_def)
  from db_call_Inr [OF ins] obtain d5 where d5: "CreateLiveSession ?n d5 = (Inr u, tm_db s3)" "tm_seen s3 = tm_seen s2 @ [d5]" "tm_trace s3 = tm_trace s2"
    by blast
  note row = CreateLiveSession_Inr [OF d5(1)]
  have fields: "lv_class l = cls" "lv_source l = ts_id t" "lv_instructor l = us_ID user" "active_live l" "lv_id l = nv_ID ?n"
    by (simp_all add: l(1) live_of_new_def active_live_def)
  have one: "filter (\<lambda>x. active_live x \<and> lv_class x = lv_class l) (db_lives (tm_db s')) = [l]"
    using row fields by (auto simp: l list_ex_iff filter_empty_conv)
  from seen2(1) obtain d4 where d4: "tm_seen s2 = tm_seen s1 @ [d4]" by blast
  show ?thesis
    by (intro exI [of _ d1] exI [of _ d2] exI [of _ "tm_db s1"] exI [of _ d4] exI [of _ d5] exI [of _ t] exI [of _ lab] exI [of _ m])
       (use a one fields st key i relay row d4 seen2(2) d5 l in simp)
qed

section \<open>Subscriptions\<close>

lemma LiveSessionByID_Inr: "LiveSessionByID i d = Inr l \<longleftrightarrow> row_by lv_id i (db_lives d) = Some l"
  by (auto simp: LiveSessionByID_def split: option.splits)

lemma live_ended_active: "live_ok l \<Longrightarrow> live_ended l \<longleftrightarrow> \<not> active_live l"
  by (auto simp: live_ok_def live_ended_def active_live_def split: option.splits)

lemma browser_user_step:
  assumes "browser_user E session s = (Inr user, s')"
  obtains p where "Authenticate_browser (tv_sha256 E) (tv_now E (length (tm_seen s)) 0) session (tm_db s') = Inr p" "user = ap_User p"
    "tm_seen s' = tm_seen s @ [tm_db s']" "sessions_advance (tm_db s) (tm_db s')" "sessions_inv (tm_db s) \<longrightarrow> sessions_inv (tm_db s')"
proof -
  from assms obtain p where p: "tm_db s' = commits (tv_other E (length (tm_seen s))) (tm_db s)"
    "Authenticate_browser (tv_sha256 E) (tv_now E (length (tm_seen s)) 0) session (tm_db s') = Inr p" "user = ap_User p"
    "tm_seen s' = tm_seen s @ [tm_db s']" by (rule browser_user_Inr)
  have "sessions_advance (tm_db s) (tm_db s')" "sessions_inv (tm_db s) \<Longrightarrow> sessions_inv (tm_db s')"
    unfolding p(1) by (rule commits_advance commits_inv, assumption?)+
  with p(2-4) that show thesis by blast
qed

lemma AuthorizeLiveSubscribe_Inr:
  assumes "AuthorizeLiveSubscribe Z session raw s = (Inr g, s')"
  obtains d0 d1 d2 d3 p i l m t lab where "tm_seen s' = tm_seen s @ [d0, d1, d2, d3, tm_db s']"
    "sessions_advance (tm_db s) d1" "sessions_inv (tm_db s) \<Longrightarrow> sessions_inv d1"
    "Authenticate_browser (tv_sha256 (lz_base Z)) (tv_now (lz_base Z) (length (tm_seen s)) 0) session d0 = Inr p"
    "tv_parse (lz_base Z) raw = Some i" "row_by lv_id i (db_lives d1) = Some l" "\<not> live_ended l"
    "lv_organization l = us_OrganizationID (ap_User p)"
    "ClassMembership (lv_class l) (us_ID (ap_User p)) d2 = Inr m" "mb_role m = ''STUDENT''"
    "row_by ts_id (lv_source l) (db_terminals d3) = Some t" "ts_status t \<noteq> ''ENDED''"
    "LabInstanceByID (ts_instance t) (tm_db s') = Inr lab" "ln_Generation lab = ts_generation t"
    "g = \<lparr>lg_LiveSessionID = tv_uS (lz_base Z) (lv_id l), lg_SourceTerminalSessionID = tv_uS (lz_base Z) (lv_source l),
          lg_ClassID = tv_uS (lz_base Z) (lv_class l)\<rparr>"
proof -
  let ?E = "lz_base Z"
  note sub = assms [unfolded AuthorizeLiveSubscribe_def Let_def]
  from sub obtain i where i: "tv_parse ?E raw = Some i" "lz_auth Z" by (auto split: option.splits if_splits)
  from sub i obtain user s1 where u: "browser_user ?E session s = (Inr user, s1)" by (auto split: prod.splits sum.splits)
  from sub i u obtain l s2 where l: "db_read ?E (LiveSessionByID i) s1 = (Inr l, s2)" by (auto split: prod.splits sum.splits)
  from sub i u l have live: "\<not> live_ended l" "lv_organization l = us_OrganizationID user" by (auto split: if_splits)
  from sub i u l live obtain m s3 where m: "db_read ?E (ClassMembership (lv_class l) (us_ID user)) s2 = (Inr m, s3)"
    by (auto split: prod.splits sum.splits)
  from sub i u l live m have student: "mb_role m = ''STUDENT''" by (auto split: if_splits)
  from sub i u l live m student obtain t s4 where t: "db_read ?E (TerminalSessionByID (lv_source l)) s3 = (Inr t, s4)"
    by (auto split: prod.splits sum.splits)
  from sub i u l live m student t have open': "ts_status t \<noteq> ''ENDED''" by (auto split: if_splits)
  from sub i u l live m student t open' obtain lab where lab: "db_read ?E (LabInstanceByID (ts_instance t)) s4 = (Inr lab, s')"
    "ln_Generation lab = ts_generation t"
    "g = \<lparr>lg_LiveSessionID = tv_uS ?E (lv_id l), lg_SourceTerminalSessionID = tv_uS ?E (lv_source l), lg_ClassID = tv_uS ?E (lv_class l)\<rparr>"
    by (auto split: prod.splits sum.splits if_splits)
  from u obtain p where p: "Authenticate_browser (tv_sha256 ?E) (tv_now ?E (length (tm_seen s)) 0) session (tm_db s1) = Inr p"
    "user = ap_User p" "tm_seen s1 = tm_seen s @ [tm_db s1]" "sessions_advance (tm_db s) (tm_db s1)"
    "sessions_inv (tm_db s) \<longrightarrow> sessions_inv (tm_db s1)" by (rule browser_user_step)
  note r2 = db_read_step [OF l] and r3 = db_read_step [OF m] and r4 = db_read_step [OF t] and r5 = db_read_step [OF lab(1)]
  have seen: "tm_seen s' = tm_seen s @ [tm_db s1, tm_db s2, tm_db s3, tm_db s4, tm_db s']"
    unfolding r5(2) r4(2) r3(2) r2(2) p(3) by simp
  have adv: "sessions_advance (tm_db s) (tm_db s2)" using p(4) r2(4) advance_trans by blast
  have inv: "sessions_inv (tm_db s2)" if "sessions_inv (tm_db s)" using that p(5) r2(5) by blast
  show thesis
    by (rule that [of "tm_db s1" "tm_db s2" "tm_db s3" "tm_db s4" p i l m t lab])
      (use seen adv inv p(1) i(1) live m student open' lab r2(1) r3(1) r4(1) r5(1) in
        \<open>simp_all only: p(2) LiveSessionByID_Inr TerminalSessionByID_Inr simp_thms\<close>)
qed

text \<open>
  A live session is shown to the students of its class only. A grant means that at the moments at which the
  authority looked, the browser session authenticated a user, the live session was active and of the user's
  organization, the user was a student of its class, its source terminal was not ended, and the
  instance of the terminal was still of the generation of the terminal.
\<close>

lemma live_subscribe_authorized:
  assumes "sessions_inv (tm_db s)" and "AuthorizeLiveSubscribe Z session raw s = (Inr g, s')"
  shows "\<exists>d0 d1 d2 d3 d4 p l m t lab. tm_seen s' = tm_seen s @ [d0, d1, d2, d3, d4] \<and> tm_db s' = d4
      \<and> Authenticate_browser (tv_sha256 (lz_base Z)) (tv_now (lz_base Z) (length (tm_seen s)) 0) session d0 = Inr p
      \<and> tv_parse (lz_base Z) raw = Some (lv_id l) \<and> row_by lv_id (lv_id l) (db_lives d1) = Some l \<and> active_live l
      \<and> lv_organization l = us_OrganizationID (ap_User p)
      \<and> ClassMembership (lv_class l) (us_ID (ap_User p)) d2 = Inr m \<and> mb_role m = ''STUDENT''
      \<and> row_by ts_id (lv_source l) (db_terminals d3) = Some t \<and> ts_status t \<noteq> ''ENDED''
      \<and> LabInstanceByID (ts_instance t) d4 = Inr lab \<and> ln_Generation lab = ts_generation t
      \<and> g = \<lparr>lg_LiveSessionID = tv_uS (lz_base Z) (lv_id l), lg_SourceTerminalSessionID = tv_uS (lz_base Z) (lv_source l),
             lg_ClassID = tv_uS (lz_base Z) (lv_class l)\<rparr>"
  using assms(2)
proof (rule AuthorizeLiveSubscribe_Inr)
  fix d0 d1 d2 d3 p i l m t lab
  assume seen: "tm_seen s' = tm_seen s @ [d0, d1, d2, d3, tm_db s']"
    and inv: "sessions_inv (tm_db s) \<Longrightarrow> sessions_inv d1"
    and auth: "Authenticate_browser (tv_sha256 (lz_base Z)) (tv_now (lz_base Z) (length (tm_seen s)) 0) session d0 = Inr p"
    and i: "tv_parse (lz_base Z) raw = Some i" "row_by lv_id i (db_lives d1) = Some l" and live: "\<not> live_ended l"
    and rest: "lv_organization l = us_OrganizationID (ap_User p)" "ClassMembership (lv_class l) (us_ID (ap_User p)) d2 = Inr m"
      "mb_role m = ''STUDENT''" "row_by ts_id (lv_source l) (db_terminals d3) = Some t" "ts_status t \<noteq> ''ENDED''"
      "LabInstanceByID (ts_instance t) (tm_db s') = Inr lab" "ln_Generation lab = ts_generation t"
    and g: "g = \<lparr>lg_LiveSessionID = tv_uS (lz_base Z) (lv_id l), lg_SourceTerminalSessionID = tv_uS (lz_base Z) (lv_source l),
             lg_ClassID = tv_uS (lz_base Z) (lv_class l)\<rparr>"
  from i(2) have key: "lv_id l = i" by (auto dest: row_by_key)
  have "active_live l" using live_ended_active [OF live_row_ok [OF inv [OF assms(1)] i(2)]] live by blast
  with seen auth i rest g key show ?thesis by blast
qed

section \<open>Ends\<close>

lemma EndLiveSession_ends:
  assumes "EndLiveSession i at reason d = (Inr x, d')" "row_by lv_id i (db_lives d) = Some l"
  shows "\<exists>l'. row_by lv_id i (db_lives d') = Some l' \<and> \<not> active_live l' \<and> live_le l l' \<and> db_terminals d' = db_terminals d"
proof -
  from assms(1) have d': "d' = d\<lparr>db_lives := update_rows (\<lambda>l. lv_id l = i \<and> active_live l)
      (\<lambda>l. l\<lparr>lv_ended_at := Some at, lv_end_reason := reason\<rparr>) (db_lives d)\<rparr>"
    by (auto simp: EndLiveSession_def end_lives_def split: if_splits)
  have "lv_id l = i" using assms(2) by (auto dest: row_by_key)
  then show ?thesis
    using assms(2) by (auto simp: d' row_by_update_rows active_live_def live_le_def)
qed

lemma Close_live_ends:
  assumes "sessions_inv (tm_db s)" "Close_live Z user raw s = (Inr u, s')"
  obtains i l where "tv_parse (lz_base Z) raw = Some i" "row_by lv_id i (db_lives (tm_db s')) = Some l" "\<not> active_live l"
    "lv_instructor l = us_ID user" "db_terminals (tm_db s') = db_terminals (last (tm_seen s'))"
proof -
  let ?E = "lz_base Z"
  note cl = assms(2) [unfolded Close_live_def Let_def]
  from cl obtain i where i: "tv_parse ?E raw = Some i" by (auto split: option.splits)
  from cl i obtain l s1 where l: "db_read ?E (LiveSessionByID i) s = (Inr l, s1)" by (auto split: prod.splits sum.splits)
  from cl i l have own: "lv_organization l = us_OrganizationID user" "lv_instructor l = us_ID user" by (auto split: if_splits)
  from cl i l own obtain m s2 where m: "db_read ?E (ClassMembership (lv_class l) (us_ID user)) s1 = (Inr m, s2)"
    by (auto split: prod.splits sum.splits)
  note r1 = db_read_step [OF l] and r2 = db_read_step [OF m]
  from r1(1) have row: "row_by lv_id i (db_lives (tm_db s1)) = Some l" unfolding LiveSessionByID_Inr .
  have key: "lv_id l = i" using row by (auto dest: row_by_key)
  from r2(4) row obtain l2 where l2: "row_by lv_id i (db_lives (tm_db s2)) = Some l2" "live_le l l2"
    unfolding sessions_advance_def by (auto elim: live_history.grow_row)
  show thesis
  proof (cases "live_ended l")
    case True
    with cl i l own m have s': "s' = s2" by (auto split: if_splits)
    have "\<not> active_live l" using live_ended_active [OF live_row_ok [OF r1(5) [OF assms(1)] row]] True by blast
    with l2 have "l2 = l" by (simp add: live_le_def)
    with \<open>\<not> active_live l\<close> l2 own i show thesis by (intro that [of i l]) (simp_all add: s' r2(2))
  next
    case False
    let ?now = "tv_now ?E (length (tm_seen s2)) 0"
    from cl i l own m False obtain x s3 where c: "db_call ?E KindInternal (EndLiveSession (lv_id l) ?now ''SESSION_CLOSED'') s2 = (Inr x, s3)"
      by (auto split: prod.splits sum.splits if_splits)
    with cl i l own m False have s': "tm_db s' = tm_db s3" "tm_seen s' = tm_seen s3" by (auto split: if_splits)
    from db_call_Inr [OF c] obtain d where d: "d = commits (tv_other ?E (length (tm_seen s2))) (tm_db s2)"
      "EndLiveSession i ?now ''SESSION_CLOSED'' d = (Inr x, tm_db s3)" "tm_seen s3 = tm_seen s2 @ [d]" unfolding key by blast
    have "sessions_advance (tm_db s2) d" unfolding d(1) by (rule commits_advance)
    with l2(1) obtain l3 where l3: "row_by lv_id i (db_lives d) = Some l3" "live_le l2 l3"
      unfolding sessions_advance_def by (auto elim: live_history.grow_row)
    from EndLiveSession_ends [OF d(2) l3(1)] obtain l4 where l4: "row_by lv_id i (db_lives (tm_db s3)) = Some l4" "\<not> active_live l4"
      "live_le l3 l4" "db_terminals (tm_db s3) = db_terminals d" by blast
    have "lv_instructor l4 = us_ID user" using l2(2) l3(2) l4(3) own(2) by (simp add: live_le_def)
    with l4 i show thesis by (intro that [of i l4]) (simp_all add: s' d(3))
  qed
qed

text \<open>
  A live session that its instructor has closed is over. When the close has succeeded the row is ended and the caller was
  its instructor; the close leaves the terminals as they were; and whatever is committed later,
  the row stays as it is and no subscription is granted.
\<close>

lemma closed_live_refused:
  assumes "sessions_inv (tm_db s)" and "Close_live Z user raw s = (Inr u, s')"
  shows "\<exists>i l. tv_parse (lz_base Z) raw = Some i \<and> row_by lv_id i (db_lives (tm_db s')) = Some l \<and> \<not> active_live l
    \<and> lv_instructor l = us_ID user \<and> db_terminals (tm_db s') = db_terminals (last (tm_seen s'))
    \<and> (\<forall>cs Z' session s1. tm_db s1 = commits cs (tm_db s') \<and> tv_parse (lz_base Z') raw = Some i \<longrightarrow>
          row_by lv_id i (db_lives (tm_db s1)) = Some l \<and> (\<forall>g. fst (AuthorizeLiveSubscribe Z' session raw s1) \<noteq> Inr g))"
  using assms
proof (rule Close_live_ends)
  fix i l
  assume l: "tv_parse (lz_base Z) raw = Some i" "row_by lv_id i (db_lives (tm_db s')) = Some l" "\<not> active_live l"
    "lv_instructor l = us_ID user" "db_terminals (tm_db s') = db_terminals (last (tm_seen s'))"
  have "row_by lv_id i (db_lives (tm_db s1)) = Some l \<and> (\<forall>g. fst (AuthorizeLiveSubscribe Z' session raw s1) \<noteq> Inr g)"
    if later: "tm_db s1 = commits cs (tm_db s')" "tv_parse (lz_base Z') raw = Some i" for cs Z' session s1
  proof
    show row: "row_by lv_id i (db_lives (tm_db s1)) = Some l" unfolding later(1) by (rule ended_live_kept [OF l(2,3)])
    show "\<forall>g. fst (AuthorizeLiveSubscribe Z' session raw s1) \<noteq> Inr g"
    proof (intro allI notI)
      fix g assume "fst (AuthorizeLiveSubscribe Z' session raw s1) = Inr g"
      then have "AuthorizeLiveSubscribe Z' session raw s1 = (Inr g, snd (AuthorizeLiveSubscribe Z' session raw s1))"
        by (metis surjective_pairing)
      then obtain d1 l' where d1: "sessions_advance (tm_db s1) d1" "row_by lv_id i (db_lives d1) = Some l'" "\<not> live_ended l'"
        by (rule AuthorizeLiveSubscribe_Inr) (use later(2) in simp)
      from d1(1) row obtain l2 where "row_by lv_id i (db_lives d1) = Some l2" "live_le l l2"
        unfolding sessions_advance_def by (auto elim: live_history.grow_row)
      with d1(2) l(3) have "l' = l" by (simp add: live_le_def)
      with d1(3) l(3) show False by (simp add: live_ended_def active_live_def)
    qed
  qed
  with l show ?thesis by blast
qed

end
