(* ===== verification/Session_Evidence.thy ===== *)
theory Session_Evidence
  imports Live_Session
begin

text \<open>
  Concrete runs of the terminal and live session services, and the witnesses of their properties.
\<close>

section \<open>A terminal of the instructor\<close>

definition demo_term_db :: db where
  "demo_term_db = (demo_db ''PROVISION'' [] [demo_resource 1 ''srv''] ''READY'')
     \<lparr>db_memberships := [\<lparr>mb_organization = 1, mb_class = 2, mb_user = 11, mb_role = ''INSTRUCTOR''\<rparr>,
                         \<lparr>mb_organization = 1, mb_class = 2, mb_user = 14, mb_role = ''STUDENT''\<rparr>],
      db_users := [\<lparr>ur_id = 11, ur_organization = 1, ur_role = ''MEMBER'', ur_disabled_at = None\<rparr>,
                   \<lparr>ur_id = 14, ur_organization = 1, ur_role = ''MEMBER'', ur_disabled_at = None\<rparr>],
      db_auth_sessions := [\<lparr>as_id = 40, as_user = 11, as_token_hash = replicate 32 (CHR ''B''), as_created_at = 90,
                            as_expires_at = 9000, as_revoked_at = None\<rparr>,
                           \<lparr>as_id = 41, as_user = 14, as_token_hash = replicate 32 (CHR ''C''), as_created_at = 90,
                            as_expires_at = 9000, as_revoked_at = None\<rparr>]\<rparr>"

definition demo_term_env :: term_env where
  "demo_term_env =
     \<lparr>tv_parse = (\<lambda>x. if x = ''lab'' then Some 6 else if x = ''t'' then Some 60 else if x = ''l'' then Some 61 else None),
      tv_uS = (\<lambda>u. if u = 6 then ''lab'' else if u = 60 then ''t'' else if u = 61 then ''l'' else ''conn''), tv_sha256 = (\<lambda>x. x),
      tv_raw = replicate 32 (CHR ''A''), tv_newID = 60, tv_now = (\<lambda>n k. 100 + int n), tv_grace = 1000, tv_other = (\<lambda>_. []),
      tv_fault = (\<lambda>_. None), tv_expect = True, tv_send = (\<lambda>_. Inr ''m''), tv_activate = True,
      tv_notified = [(''t'', \<lparr>ou_succeeded = True, ou_ended = False\<rparr>)], tv_select = SelOutcome,
      tv_trace = \<lparr>Traceparent = [], Tracestate = []\<rparr>\<rparr>"

definition demo_create :: CreateInput where
  "demo_create = \<lparr>ci_LabInstanceID = ''lab'', ci_TargetVMKey = ''vm-1'', ci_Cols = ''80'', ci_Rows = ''24'', ci_RequestID = ''r''\<rparr>"

definition demo_term_state :: "db \<Rightarrow> term_state" where
  "demo_term_state d = \<lparr>tm_db = d, tm_seen = [], tm_opens = Map.empty, tm_trace = []\<rparr>"

definition demo_terminal :: terminal_row where
  "demo_terminal =
     \<lparr>ts_id = 60, ts_organization = 1, ts_instance = 6, ts_user = 11, ts_generation = 1, ts_status = ''DETACHED'',
      ts_token_hash = replicate 32 (CHR ''A''), ts_token_expires_at = 100 + AttachTokenLifetime, ts_created_at = 100,
      ts_attached_at = None, ts_detached_at = Some 101, ts_grace_expires_at = Some 1101, ts_ended_at = None, ts_end_reason = []\<rparr>"

definition demo_open_db :: db where
  "demo_open_db = demo_term_db\<lparr>db_terminals := [demo_terminal]\<rparr>"

lemmas demo_rows = demo_term_db_def demo_open_db_def demo_db_def demo_resource_def demo_snapshot_def demo_user_def row_by_def

lemma demo_term_resolved:
  "resolveTarget demo_user 6 ''vm-1'' demo_term_db =
     Inr \<lparr>rv_lab = \<lparr>ln_ID = 6, ln_OrganizationID = 1, ln_LabExecutionID = 5, ln_ClassID = 2, ln_UserID = 11, ln_Status = ''READY'',
                   ln_Generation = 1\<rparr>, rv_connectorID = 3, rv_providerID = ''srv''\<rparr>"
  by (simp add: resolveTarget_def authorizeLabInstance_def LabInstanceForShare_def LabInstanceByID_def execution_target_def
      ClassMembership_def ClassRole_Valid_def snapshotTargets_def CreationSnapshotTargets_def snapshot_targets_def
      validateSnapshotTargets_def hasTarget_def ConnectorIDForLabInstance_def ProviderServers_def demo_rows)

definition demo_new :: NewTerminalSession where
  "demo_new = \<lparr>nt_ID = 60, nt_OrganizationID = 1, nt_LabInstanceID = 6, nt_UserID = 11, nt_Generation = 1,
     nt_AttachTokenHash = replicate 32 (CHR ''A''), nt_TokenExpiresAt = 100 + AttachTokenLifetime, nt_CreatedAt = 100\<rparr>"

lemma demo_stored:
  "CreateTerminalSession demo_new demo_term_db = (Inr (), demo_term_db\<lparr>db_terminals := [terminal_of_new demo_new]\<rparr>)"
proof -
  have "db_terminals demo_term_db = []" "terminal_keys_exist demo_new demo_term_db"
    by (simp_all add: terminal_keys_exist_def demo_new_def demo_rows)
  then show ?thesis by (simp add: CreateTerminalSession_def demo_new_def AttachTokenLifetime_def)
qed

lemma demo_term_created:
  "\<exists>s'. Create_terminal demo_term_env demo_user demo_create (demo_term_state demo_term_db) =
       (Inr \<lparr>cr_ID = 60, cr_Generation = 1, cr_Token = base64_encode (replicate 32 (CHR ''A'')),
             cr_TokenExpiresAt = 100 + AttachTokenLifetime\<rparr>, s') \<and> tm_db s' = demo_open_db"
proof -
  have user: "us_ID demo_user = 11" by (simp add: demo_user_def)
  have tx: "inTransaction (create_terminal_tx demo_term_env demo_user 6 ''vm-1'' 100) demo_term_db =
     (Inr \<lparr>rv_lab = \<lparr>ln_ID = 6, ln_OrganizationID = 1, ln_LabExecutionID = 5, ln_ClassID = 2, ln_UserID = 11, ln_Status = ''READY'',
                   ln_Generation = 1\<rparr>, rv_connectorID = 3, rv_providerID = ''srv''\<rparr>,
      demo_term_db\<lparr>db_terminals := [terminal_of_new demo_new]\<rparr>)"
    using demo_stored user by (simp add: inTransaction_def create_terminal_tx_def demo_term_resolved newAttachToken_def demo_term_env_def demo_new_def)
  have parse: "parse_terminal_id demo_term_env ''lab'' = Some 6"
    by (simp add: parse_terminal_id_def demo_term_env_def)
  show ?thesis
    using tx parse
    by (simp add: Create_terminal_def demo_create_def demo_term_state_def db_call_def commits_def Let_def demo_term_env_def terminal_open_def
        terminal_correlation_def send_open_def await_open_def asked_def addOpenWaiter_def notifyOpen_def record_opened_def
        MarkTerminalSessionOpened_def transition_terminal_def update_rows_def removeOpenWaiter_def newAttachToken_def demo_terminal_def
        demo_open_db_def demo_new_def terminal_of_new_def)
qed

section \<open>Terminals\<close>

lemma demo_inv: "sessions_inv demo_open_db" "sessions_inv demo_term_db"
  by (simp_all add: sessions_inv_def terminal_ok_def demo_terminal_def demo_rows)

lemma demo_raw: "length (tv_raw demo_term_env) = 32" "\<And>n. tv_fault demo_term_env n = None" "quiet demo_term_env"
  "tv_sha256 demo_term_env = (\<lambda>x. x)" "\<And>n d. commits (tv_other demo_term_env n) d = d" "\<And>n k. tv_now demo_term_env n k = 100 + int n"
  by (simp_all add: demo_term_env_def quiet_def commits_def)

lemma demo_parsed: "parse_terminal_id demo_term_env ''t'' = Some 60" "tv_parse demo_term_env ''t'' = Some 60" "tv_uS demo_term_env 60 = ''t''"
  "tv_parse demo_term_env ''l'' = Some 61"
  by (simp_all add: parse_terminal_id_def demo_term_env_def)

definition demo_browser :: string where
  "demo_browser = base64_encode (replicate 32 (CHR ''B''))"

definition demo_student :: string where
  "demo_student = base64_encode (replicate 32 (CHR ''C''))"

definition demo_token :: string where
  "demo_token = base64_encode (replicate 32 (CHR ''A''))"

definition demo_visitors :: "db \<Rightarrow> bool" where
  "demo_visitors d \<longleftrightarrow> db_auth_sessions d = db_auth_sessions demo_term_db \<and> db_users d = db_users demo_term_db \<and> db_accounts d = []"

lemma demo_authenticated:
  assumes "demo_visitors d" "100 \<le> now" "now < 9000"
  shows "Authenticate_browser (\<lambda>x. x) now demo_browser d = Inr \<lparr>ap_SessionID = 40, ap_User = demo_user\<rparr>"
    "Authenticate_browser (\<lambda>x. x) now demo_student d = Inr \<lparr>ap_SessionID = 41, ap_User = demo_user\<lparr>us_ID := 14\<rparr>\<rparr>"
proof -
  have u: "db_users d = [\<lparr>ur_id = 11, ur_organization = 1, ur_role = ''MEMBER'', ur_disabled_at = None\<rparr>,
                   \<lparr>ur_id = 14, ur_organization = 1, ur_role = ''MEMBER'', ur_disabled_at = None\<rparr>]"
    "db_accounts d = []" "db_auth_sessions d = [\<lparr>as_id = 40, as_user = 11, as_token_hash = replicate 32 (CHR ''B''), as_created_at = 90,
                            as_expires_at = 9000, as_revoked_at = None\<rparr>,
                           \<lparr>as_id = 41, as_user = 14, as_token_hash = replicate 32 (CHR ''C''), as_created_at = 90,
                            as_expires_at = 9000, as_revoked_at = None\<rparr>]"
    using assms(1) by (simp_all add: demo_visitors_def demo_term_db_def)
  have no: "account_of_user k d = None" for k by (simp add: account_of_user_def u row_by_def)
  have t: "tokenDigest (\<lambda>x. x) demo_browser = Some (replicate 32 (CHR ''B''))" "tokenDigest (\<lambda>x. x) demo_student = Some (replicate 32 (CHR ''C''))"
    unfolding demo_browser_def demo_student_def by (rule tokenDigest_issued; simp add: sessionTokenBytes_def)+
  have "AuthSessionByTokenHash (replicate 32 (CHR ''B'')) d
      = Inr (hd (db_auth_sessions d), user_view (hd (db_users d)) d)"
    "AuthSessionByTokenHash (replicate 32 (CHR ''C'')) d
      = Inr (hd (tl (db_auth_sessions d)), user_view (hd (tl (db_users d))) d)"
    by (simp_all add: AuthSessionByTokenHash_def u row_by_def)
  then show "Authenticate_browser (\<lambda>x. x) now demo_browser d = Inr \<lparr>ap_SessionID = 40, ap_User = demo_user\<rparr>"
    "Authenticate_browser (\<lambda>x. x) now demo_student d = Inr \<lparr>ap_SessionID = 41, ap_User = demo_user\<lparr>us_ID := 14\<rparr>\<rparr>"
    using assms(2,3) t no by (simp_all add: Authenticate_browser_def u user_view_def sessionUsable_def demo_user_def)
qed

lemma demo_open_visitors: "demo_visitors demo_open_db" "demo_visitors (demo_open_db\<lparr>db_lives := ls\<rparr>)"
  by (simp_all add: demo_visitors_def demo_rows)

lemma demo_looked_up:
  "LabInstanceByID 6 demo_open_db = Inr \<lparr>ln_ID = 6, ln_OrganizationID = 1, ln_LabExecutionID = 5, ln_ClassID = 2, ln_UserID = 11,
     ln_Status = ''READY'', ln_Generation = 1\<rparr>"
  "ClassMembership 2 11 demo_open_db = Inr \<lparr>mb_organization = 1, mb_class = 2, mb_user = 11, mb_role = ''INSTRUCTOR''\<rparr>"
  "row_by ts_id 60 (db_terminals demo_open_db) = Some demo_terminal"
  by (simp_all add: LabInstanceByID_def execution_target_def ClassMembership_def demo_rows demo_terminal_def)

lemma demo_attached:
  "\<exists>g s'. AuthorizeAttach demo_term_env demo_browser ''t'' demo_token (demo_term_state demo_open_db) = (Inr g, s') \<and> tm_db s' = demo_open_db"
proof -
  have "attach_refused demo_term_env demo_user demo_terminal demo_token 102 = None"
    by (auto simp: attach_refused_None attachTokenDigest_Some demo_token_def demo_raw demo_terminal_def demo_user_def AttachTokenLifetime_def)
  then have "attach_allowed demo_term_env demo_user demo_terminal demo_token 102 demo_open_db demo_open_db"
    by (simp add: attach_allowed_def demo_looked_up demo_terminal_def demo_user_def)
  with AuthorizeAttach_quiet [OF demo_raw(3), of "demo_term_state demo_open_db" demo_browser _ "''t''" 60 demo_terminal demo_token]
  obtain g s' where g: "AuthorizeAttach demo_term_env demo_browser ''t'' demo_token (demo_term_state demo_open_db) = (Inr g, s')"
    using demo_authenticated(1) [OF demo_open_visitors(1)] demo_looked_up(3) by (auto simp: demo_raw demo_parsed demo_term_state_def)
  then have "tm_db s' = demo_open_db"
    by (rule AuthorizeAttach_Inr) (simp add: demo_raw demo_term_state_def)
  with g show ?thesis by blast
qed

theorem attach_authorized_witness:
  "\<exists>g s'. AuthorizeAttach demo_term_env demo_browser ''t'' demo_token (demo_term_state demo_open_db) = (Inr g, s')
     \<and> (\<exists>p t. Authenticate_browser (\<lambda>x. x) 100 demo_browser (tm_seen s' ! 0) = Inr p
          \<and> row_by ts_id 60 (db_terminals (tm_seen s' ! 1)) = Some t \<and> ts_user t = us_ID (ap_User p))
     \<and> (\<forall>g'. fst (AuthorizeAttach demo_term_env demo_browser ''l'' demo_token (demo_term_state demo_open_db)) \<noteq> Inr g')"
proof -
  let ?s = "demo_term_state demo_open_db"
  obtain g s' where g: "AuthorizeAttach demo_term_env demo_browser ''t'' demo_token ?s = (Inr g, s')" "tm_db s' = demo_open_db"
    using demo_attached by blast
  have inv: "sessions_inv (tm_db ?s)" by (simp add: demo_term_state_def demo_inv)
  note a = attach_authorized [OF inv g(1)]
  from a have "\<exists>p t. Authenticate_browser (\<lambda>x. x) 100 demo_browser (tm_seen s' ! 0) = Inr p \<and> row_by ts_id 60 (db_terminals (tm_seen s' ! 1)) = Some t
      \<and> ts_user t = us_ID (ap_User p)"
    by (elim conjE exE) (simp add: demo_raw demo_parsed demo_term_state_def)
  moreover have "fst (AuthorizeAttach demo_term_env demo_browser ''l'' demo_token ?s) \<noteq> Inr g'" for g'
    using a [THEN conjunct2, rule_format, of ?s "[]" demo_term_env "''l''" demo_browser g'] g(2)
    by (simp add: demo_term_state_def commits_def)
  ultimately show ?thesis using g(1) by blast
qed

theorem creation_all_or_nothing_witness:
  "\<exists>c s' t. Create_terminal demo_term_env demo_user demo_create (demo_term_state demo_term_db) = (Inr c, s')
     \<and> row_by ts_id (cr_ID c) (db_terminals (tm_db s')) = Some t \<and> ts_status t = ''DETACHED'' \<and> ts_user t = 11"
proof -
  obtain c s' where c: "Create_terminal demo_term_env demo_user demo_create (demo_term_state demo_term_db) = (Inr c, s')"
    using demo_term_created by blast
  have inv: "sessions_inv (tm_db (demo_term_state demo_term_db))" by (simp add: demo_term_state_def demo_inv)
  from creation_all_or_nothing [OF inv demo_raw(1) c] obtain t where
    "row_by ts_id (cr_ID c) (db_terminals (tm_db s')) = Some t" "ts_status t = ''DETACHED''" "ts_user t = us_ID demo_user"
    by (simp only: sum.case) blast
  with c show ?thesis by (auto simp: demo_user_def)
qed

theorem created_terminal_attaches_witness:
  "\<exists>c s'. Create_terminal demo_term_env demo_user demo_create (demo_term_state demo_term_db) = (Inr c, s')
     \<and> (\<exists>g s2. AuthorizeAttach demo_term_env demo_browser ''t'' (cr_Token c) (demo_term_state demo_open_db) = (Inr g, s2))"
proof -
  obtain c s' where c: "Create_terminal demo_term_env demo_user demo_create (demo_term_state demo_term_db) = (Inr c, s')"
    "c = \<lparr>cr_ID = 60, cr_Generation = 1, cr_Token = base64_encode (replicate 32 (CHR ''A'')), cr_TokenExpiresAt = 100 + AttachTokenLifetime\<rparr>"
    "tm_db s' = demo_open_db"
    using demo_term_created by blast
  have inv: "sessions_inv (tm_db (demo_term_state demo_term_db))" by (simp add: demo_term_state_def demo_inv)
  have s1: "tm_db (demo_term_state demo_open_db) = commits [] (tm_db s')" by (simp add: c(3) demo_term_state_def commits_def)
  have i: "tv_parse demo_term_env ''t'' = Some (cr_ID c)" "tv_uS demo_term_env (cr_ID c) = ''t''" by (simp_all add: c(2) demo_parsed)
  have "\<exists>g s2. AuthorizeAttach demo_term_env demo_browser ''t'' (cr_Token c) (demo_term_state demo_open_db) = (Inr g, s2)"
    unfolding created_terminal_attaches [OF inv demo_raw(1) c(1) s1 demo_raw(3) HOL.refl i]
    by (intro exI [of _ "\<lparr>ap_SessionID = 40, ap_User = demo_user\<rparr>"] exI [of _ demo_terminal])
      (simp add: demo_raw demo_term_state_def demo_authenticated demo_open_visitors c(2) AttachTokenLifetime_def demo_looked_up demo_terminal_def
        demo_user_def)
  with c(1) show ?thesis by blast
qed

section \<open>Ends of terminals\<close>

lemma demo_closed:
  "\<exists>s'. Close_terminal demo_term_env demo_user ''t'' (demo_term_state demo_open_db) = (Inr (), s')"
proof -
  have "TerminalSessionByID 60 demo_open_db = Inr demo_terminal" by (simp add: TerminalSessionByID_def demo_looked_up)
  moreover have "\<exists>d'. inTransaction (close_tx 60 101 ''SESSION_CLOSED'') demo_open_db = (Inr True, d')"
    by (simp add: inTransaction_def close_tx_def tx_then_def EndTerminalSession_def transition_terminal_def demo_open_db_def
        demo_terminal_def EndActiveLiveSessionBySourceTerminal_def end_lives_def demo_term_db_def demo_db_def)
  moreover have "ts_organization demo_terminal = us_OrganizationID demo_user" "ts_user demo_terminal = us_ID demo_user"
    "ts_status demo_terminal \<noteq> ''ENDED''" "ts_id demo_terminal = 60" by (simp_all add: demo_terminal_def demo_user_def)
  ultimately show ?thesis
    by (auto simp: Close_terminal_def demo_parsed quiet_read [OF demo_raw(3)] demo_term_state_def closeLifecycle_def db_call_def Let_def demo_raw
        split: sum.split)
qed

theorem closed_terminal_refused_witness:
  "\<exists>s'. Close_terminal demo_term_env demo_user ''t'' (demo_term_state demo_open_db) = (Inr (), s')
     \<and> (\<exists>e. fst (AuthorizeAttach demo_term_env demo_browser ''t'' demo_token (term_run [(demo_term_env, AttachedOp ''t'' 200)] s')) = Inl e)"
proof -
  from demo_closed obtain s' where c: "Close_terminal demo_term_env demo_user ''t'' (demo_term_state demo_open_db) = (Inr (), s')" by blast
  have inv: "sessions_inv (tm_db (demo_term_state demo_open_db))" by (simp add: demo_term_state_def demo_inv)
  from closed_terminal_refused [OF inv c]
  have "\<exists>e. fst (AuthorizeAttach demo_term_env demo_browser ''t'' demo_token (term_run [(demo_term_env, AttachedOp ''t'' 200)] s')) = Inl e"
    by blast
  with c show ?thesis by blast
qed

definition demo_mutation :: LabMutation where
  "demo_mutation = \<lparr>lm_LabInstanceID = 6, lm_Reason = ''LAB_RESET'', lm_OperationID = ''op''\<rparr>"

theorem mutation_closes_terminals_witness:
  "\<exists>s'. CloseForLabMutation demo_term_env demo_mutation (demo_term_state demo_open_db) = (CloseDone, s')
     \<and> left_open 6 demo_open_db (tm_db s') = [] \<and> ended_in 60 (tm_db s')"
proof -
  let ?s = "demo_term_state demo_open_db"
  have recs: "UnendedTerminalSessionsByLabInstance 6 demo_open_db = [demo_terminal]"
    by (simp add: UnendedTerminalSessionsByLabInstance_def demo_open_db_def demo_terminal_def)
  have "\<exists>d'. inTransaction (close_tx 60 101 ''LAB_RESET'') demo_open_db = (Inr True, d')"
    by (simp add: inTransaction_def close_tx_def tx_then_def EndTerminalSession_def transition_terminal_def demo_open_db_def
        demo_terminal_def EndActiveLiveSessionBySourceTerminal_def end_lives_def demo_term_db_def demo_db_def)
  then have "\<exists>s'. CloseForLabMutation demo_term_env demo_mutation ?s = (CloseDone, s')"
    by (auto simp: CloseForLabMutation_def demo_mutation_def quiet_read [OF demo_raw(3)] demo_term_state_def recs closeLifecycle_def
        db_call_def Let_def demo_raw demo_terminal_def split: sum.split)
  then obtain s' where m: "CloseForLabMutation demo_term_env demo_mutation ?s = (CloseDone, s')" by blast
  have inv: "sessions_inv (tm_db ?s)" by (simp add: demo_term_state_def demo_inv)
  from mutation_closes_terminals [OF inv m] have l: "left_open 6 demo_open_db (tm_db s') = []"
    by (simp add: demo_mutation_def demo_term_state_def)
  then have "ended_in 60 (tm_db s')" by (simp add: left_open_def demo_open_db_def demo_terminal_def split: if_splits)
  with m l show ?thesis by blast
qed

definition demo_corr_end :: SessionCorrelation where
  "demo_corr_end = \<lparr>sc_SessionID = ''t'', sc_LabInstanceID = ''lab'', sc_Generation = 1\<rparr>"

definition demo_ended :: TerminalEndedPayload where
  "demo_ended = \<lparr>te_Reason = ''EXITED'', te_ExitCode = None, te_Error = None\<rparr>"

theorem connector_end_checked_witness:
  "tm_trace (HandleTerminalEvent demo_term_env (TerminalEndedEvent 99 demo_corr_end ''m'' demo_ended \<lparr>Traceparent = [], Tracestate = []\<rparr>)
      (demo_term_state demo_open_db)) = []"
proof -
  let ?s = "demo_term_state demo_open_db"
  let ?s' = "HandleTerminalEvent demo_term_env (TerminalEndedEvent 99 demo_corr_end ''m'' demo_ended \<lparr>Traceparent = [], Tracestate = []\<rparr>) ?s"
  have own: "ConnectorIDForLabInstance 6 demo_open_db = Inr 3" by (simp add: ConnectorIDForLabInstance_def demo_rows)
  have seen: "set (tm_seen ?s') \<subseteq> {demo_open_db}"
    using own by (simp add: HandleTerminalEvent_def handleConnectorEnded_def demo_corr_end_def demo_parsed quiet_read [OF demo_raw(3)]
        demo_term_state_def TerminalSessionByID_def demo_looked_up demo_terminal_def)
  have no: "\<not> end_matches demo_term_env 99 demo_corr_end demo_open_db r" if "ts_id r = 60" for r
    using that own by (auto simp: end_matches_def demo_corr_end_def demo_term_env_def split: if_splits)
  from connector_end_checked [where s' = ?s' and s = ?s and E = demo_term_env and c = 99 and corr = demo_corr_end and payload = demo_ended, OF HOL.refl]
  show ?thesis
    using seen no by (auto simp: demo_corr_end_def demo_parsed demo_term_state_def)
qed

section \<open>Live sessions\<close>

definition demo_live :: live_row where
  "demo_live = \<lparr>lv_id = 61, lv_organization = 1, lv_class = 2, lv_source = 60, lv_instructor = 11, lv_created_at = 104,
     lv_ended_at = None, lv_end_reason = []\<rparr>"

definition demo_live_db :: db where
  "demo_live_db = demo_open_db\<lparr>db_lives := [demo_live]\<rparr>"

definition demo_live_env :: live_env where
  "demo_live_env = \<lparr>lz_base = demo_term_env\<lparr>tv_newID := 61\<rparr>, lz_relay = True, lz_auth = True, lz_usable = (\<lambda>_. True), lz_register = True\<rparr>"

theorem close_refused_by_newer_live_witness:
  "fst (closeLifecycle demo_term_env demo_terminal ''LAB_RESET'' [] (demo_term_state demo_live_db)) = Inl KindConstraintViolation
   \<and> \<not> ended_in 60 (tm_db (snd (closeLifecycle demo_term_env demo_terminal ''LAB_RESET'' [] (demo_term_state demo_live_db))))"
proof -
  have d: "demo_live_db = commits (tv_other demo_term_env (length (tm_seen (demo_term_state demo_live_db)))) (tm_db (demo_term_state demo_live_db))"
    by (simp add: demo_raw demo_term_state_def)
  have l: "demo_live \<in> set (db_lives demo_live_db)" "lv_source demo_live = ts_id demo_terminal" "active_live demo_live"
    "tv_now demo_term_env (length (tm_seen (demo_term_state demo_live_db))) 0 < lv_created_at demo_live"
    by (simp_all add: demo_live_db_def demo_live_def demo_terminal_def active_live_def demo_raw demo_term_state_def)
  have "\<not> ended_in 60 demo_live_db" by (simp add: ended_in_def demo_live_db_def demo_looked_up demo_terminal_def)
  with close_refused_by_newer_live [OF d demo_raw(2) l, of "''LAB_RESET''" "[]"] show ?thesis by simp
qed

lemma demo_live_quiet: "quiet (lz_base demo_live_env)" "tv_parse (lz_base demo_live_env) ''t'' = Some 60"
  "tv_parse (lz_base demo_live_env) ''l'' = Some 61" "tv_newID (lz_base demo_live_env) = 61" "\<And>n. tv_now (lz_base demo_live_env) n 0 = 100 + int n"
  "tv_sha256 (lz_base demo_live_env) = (\<lambda>x. x)" "\<And>n. tv_other (lz_base demo_live_env) n = []" "\<And>n. tv_fault (lz_base demo_live_env) n = None"
  "lz_relay demo_live_env" "lz_auth demo_live_env" "\<And>x. lz_usable demo_live_env x" "lz_register demo_live_env"
  by (simp_all add: demo_live_env_def quiet_def demo_term_env_def)

lemmas demo_live_reads = quiet_read [OF demo_live_quiet(1)] TerminalSessionByID_def demo_looked_up demo_term_state_def

lemma demo_live_created:
  "\<exists>s'. Create_live demo_live_env demo_user ''t'' (demo_term_state demo_open_db) = (Inr demo_live, s')"
proof -
  have t: "ts_instance demo_terminal = 6" "ts_user demo_terminal = 11" "ts_organization demo_terminal = 1" "ts_generation demo_terminal = 1"
    "ts_status demo_terminal = ''DETACHED''" "ts_id demo_terminal = 60" by (simp_all add: demo_terminal_def)
  have u: "us_ID demo_user = 11" "us_OrganizationID demo_user = 1" by (simp_all add: demo_user_def)
  let ?n = "\<lparr>nv_ID = 61, nv_OrganizationID = 1, nv_ClassID = 2, nv_SourceTerminalSessionID = 60, nv_InstructorUserID = 11, nv_CreatedAt = 104\<rparr>"
  have c: "CreateLiveSession ?n demo_open_db = (Inr (), demo_live_db)" "ActiveLiveSessionByClass 2 demo_open_db = Inl KindNotFound"
    "live_of_new ?n = demo_live"
    by (simp_all add: CreateLiveSession_def ActiveLiveSessionByClass_def live_of_new_def demo_live_db_def demo_live_def demo_rows demo_terminal_def)
  show ?thesis
    by (simp add: Create_live_def live_source_def Let_def demo_live_quiet demo_live_reads t u live_store_def db_call_def commits_def c asked_def)
qed

theorem live_created_checked_witness:
  "\<exists>s' t. Create_live demo_live_env demo_user ''t'' (demo_term_state demo_open_db) = (Inr demo_live, s')
     \<and> row_by ts_id 60 (db_terminals (tm_seen s' ! 0)) = Some t \<and> ts_user t = 11
     \<and> filter (\<lambda>x. active_live x \<and> lv_class x = 2) (db_lives (tm_db s')) = [demo_live]"
proof -
  obtain s' where c: "Create_live demo_live_env demo_user ''t'' (demo_term_state demo_open_db) = (Inr demo_live, s')"
    using demo_live_created by blast
  have inv: "sessions_inv (tm_db (demo_term_state demo_open_db))" by (simp add: demo_term_state_def demo_inv)
  from live_created_checked [OF inv c] have "\<exists>t. row_by ts_id 60 (db_terminals (tm_seen s' ! 0)) = Some t \<and> ts_user t = 11
     \<and> filter (\<lambda>x. active_live x \<and> lv_class x = 2) (db_lives (tm_db s')) = [demo_live]"
    by (elim exE conjE) (auto simp: demo_live_quiet demo_term_state_def demo_user_def demo_live_def)
  with c show ?thesis by blast
qed

lemma demo_live_inv: "sessions_inv demo_live_db"
  by (simp add: sessions_inv_def terminal_ok_def demo_terminal_def demo_live_db_def demo_live_def live_ok_def demo_rows)

lemma demo_live_lookups:
  "row_by lv_id 61 (db_lives demo_live_db) = Some demo_live" "row_by ts_id 60 (db_terminals demo_live_db) = Some demo_terminal"
  "\<exists>lab. LabInstanceByID 6 demo_live_db = Inr lab \<and> ln_Generation lab = 1"
  "\<exists>m. ClassMembership 2 14 demo_live_db = Inr m \<and> mb_role m = ''STUDENT''"
  "\<exists>m. ClassMembership 2 11 demo_live_db = Inr m \<and> mb_role m = ''INSTRUCTOR''"
  by (simp_all add: LabInstanceByID_def execution_target_def ClassMembership_def demo_rows demo_terminal_def demo_live_db_def demo_live_def)

lemma demo_subscribed:
  "\<exists>g s'. AuthorizeLiveSubscribe demo_live_env demo_student ''l'' (demo_term_state demo_live_db) = (Inr g, s')"
proof -
  have a: "Authenticate_browser (\<lambda>x. x) 100 demo_student demo_live_db = Inr \<lparr>ap_SessionID = 41, ap_User = demo_user\<lparr>us_ID := 14\<rparr>\<rparr>"
    using demo_authenticated(2) [OF demo_open_visitors(2) [of "[demo_live]", folded demo_live_db_def], of 100] by simp
  have t: "ts_instance demo_terminal = 6" "ts_generation demo_terminal = 1" "ts_status demo_terminal = ''DETACHED''"
    "lv_class demo_live = 2" "lv_source demo_live = 60" "lv_organization demo_live = 1" "us_OrganizationID demo_user = 1" "\<not> live_ended demo_live"
    by (simp_all add: demo_terminal_def demo_live_def demo_user_def live_ended_def)
  from demo_live_lookups obtain lab m where l: "LabInstanceByID 6 demo_live_db = Inr lab" "ln_Generation lab = 1"
    "ClassMembership 2 14 demo_live_db = Inr m" "mb_role m = ''STUDENT''" by blast
  show ?thesis
    by (simp add: AuthorizeLiveSubscribe_def Let_def demo_live_quiet browser_user_def db_call_def commits_def a t l demo_live_lookups(1,2)
        demo_live_reads LiveSessionByID_def)
qed

theorem session_rows_one_way_witness:
  "let d = tm_db (term_run [(demo_term_env, CloseOp demo_user ''t''), (demo_term_env, AttachedOp ''t'' 200)] (demo_term_state demo_live_db))
   in (\<exists>t'. row_by ts_id 60 (db_terminals d) = Some t' \<and> ts_user t' = 11)
    \<and> (\<exists>l'. row_by lv_id 61 (db_lives d) = Some l' \<and> lv_instructor l' = 11 \<and> lv_source l' = 60)"
proof -
  have db: "tm_db (demo_term_state demo_live_db) = demo_live_db" by (simp add: demo_term_state_def)
  have inv: "sessions_inv (tm_db (demo_term_state demo_live_db))" by (simp add: db demo_live_inv)
  have rows: "row_by ts_id 60 (db_terminals (tm_db (demo_term_state demo_live_db))) = Some demo_terminal"
    "row_by lv_id 61 (db_lives (tm_db (demo_term_state demo_live_db))) = Some demo_live"
    by (simp_all add: db demo_live_lookups(1,2))
  have f: "ts_user demo_terminal = 11" "lv_instructor demo_live = 11" "lv_source demo_live = 60"
    by (simp_all add: demo_terminal_def demo_live_def)
  note c = session_rows_one_way [OF inv]
  from c [THEN conjunct2, THEN conjunct1, rule_format, OF rows(1)]
    c [THEN conjunct2, THEN conjunct2, THEN conjunct1, rule_format, OF rows(2)]
  show ?thesis unfolding f Let_def by blast
qed

theorem live_subscribe_authorized_witness:
  "\<exists>g s' p (l :: live_row) m. AuthorizeLiveSubscribe demo_live_env demo_student ''l'' (demo_term_state demo_live_db) = (Inr g, s')
     \<and> Authenticate_browser (\<lambda>x. x) 100 demo_student (tm_seen s' ! 0) = Inr p
     \<and> ClassMembership (lv_class l) (us_ID (ap_User p)) (tm_seen s' ! 2) = Inr m \<and> mb_role m = ''STUDENT''"
proof -
  obtain g s' where c: "AuthorizeLiveSubscribe demo_live_env demo_student ''l'' (demo_term_state demo_live_db) = (Inr g, s')"
    using demo_subscribed by blast
  have inv: "sessions_inv (tm_db (demo_term_state demo_live_db))" by (simp add: demo_term_state_def demo_live_inv)
  from live_subscribe_authorized [OF inv c] obtain d0 d1 d2 d3 d4 p and l :: live_row and m where
    "tm_seen s' = tm_seen (demo_term_state demo_live_db) @ [d0, d1, d2, d3, d4]"
    "Authenticate_browser (tv_sha256 (lz_base demo_live_env)) (tv_now (lz_base demo_live_env) (length (tm_seen (demo_term_state demo_live_db))) 0)
       demo_student d0 = Inr p" "ClassMembership (lv_class l) (us_ID (ap_User p)) d2 = Inr m" "mb_role m = ''STUDENT''"
    by (elim exE conjE) (rule that)
  with c show ?thesis
    by (intro exI [of _ g] exI [of _ s'] exI [of _ p] exI [of _ l] exI [of _ m]) (simp add: demo_live_quiet demo_term_state_def)
qed

definition demo_late_env :: live_env where
  "demo_late_env = demo_live_env\<lparr>lz_base := (lz_base demo_live_env)\<lparr>tv_now := (\<lambda>n k. 200 + int n)\<rparr>\<rparr>"

lemma demo_late_quiet: "quiet (lz_base demo_late_env)" "tv_parse (lz_base demo_late_env) ''l'' = Some 61"
  "\<And>n. tv_now (lz_base demo_late_env) n 0 = 200 + int n" "\<And>n. tv_other (lz_base demo_late_env) n = []" "\<And>n. tv_fault (lz_base demo_late_env) n = None"
  by (simp_all add: demo_late_env_def demo_live_env_def quiet_def demo_term_env_def)

theorem closed_live_refused_witness:
  "\<exists>s'. Close_live demo_late_env demo_user ''l'' (demo_term_state demo_live_db) = (Inr (), s')
     \<and> (\<forall>g. fst (AuthorizeLiveSubscribe demo_late_env demo_student ''l'' (demo_term_state (tm_db s'))) \<noteq> Inr g)"
proof -
  from demo_live_lookups obtain m where l: "ClassMembership 2 11 demo_live_db = Inr m" "mb_role m = ''INSTRUCTOR''" by blast
  have t: "lv_class demo_live = 2" "lv_organization demo_live = 1" "lv_instructor demo_live = 11" "us_OrganizationID demo_user = 1"
    "us_ID demo_user = 11" "\<not> live_ended demo_live" "lv_id demo_live = 61"
    by (simp_all add: demo_live_def demo_user_def live_ended_def)
  have e: "\<exists>d. EndLiveSession 61 202 ''SESSION_CLOSED'' demo_live_db = (Inr True, d)"
    by (simp add: EndLiveSession_def end_lives_def demo_live_db_def demo_live_def active_live_def)
  have "\<exists>s'. Close_live demo_late_env demo_user ''l'' (demo_term_state demo_live_db) = (Inr (), s')"
    using e by (auto simp: Close_live_def Let_def demo_late_quiet db_call_def commits_def t l demo_live_lookups(1,2)
        quiet_read [OF demo_late_quiet(1)] demo_term_state_def LiveSessionByID_def)
  then obtain s' where c: "Close_live demo_late_env demo_user ''l'' (demo_term_state demo_live_db) = (Inr (), s')" by blast
  have inv: "sessions_inv (tm_db (demo_term_state demo_live_db))" by (simp add: demo_term_state_def demo_live_inv)
  from closed_live_refused [OF inv c] obtain i where i: "tv_parse (lz_base demo_late_env) ''l'' = Some i" and
    r: "\<forall>cs Z' session s1. tm_db s1 = commits cs (tm_db s') \<and> tv_parse (lz_base Z') ''l'' = Some i \<longrightarrow>
          (\<forall>g. fst (AuthorizeLiveSubscribe Z' session ''l'' s1) \<noteq> Inr g)" by blast
  from r [rule_format, of "demo_term_state (tm_db s')" "[]" demo_late_env demo_student] i
  have "fst (AuthorizeLiveSubscribe demo_late_env demo_student ''l'' (demo_term_state (tm_db s'))) \<noteq> Inr g" for g
    by (simp add: demo_term_state_def commits_def)
  with c show ?thesis by blast
qed

end
