(* ===== verification/Json_Number.thy ===== *)
theory Json_Number
  imports Labbit_Prelude Complex_Main
begin

text \<open>
  JSON numbers as the schemas' \<^verbatim>\<open>integer\<close> (\<^verbatim>\<open>internal/jsonnum/jsonnum.go\<close>): a number is an integer when its
  value is one, however it is written. The code works on the text alone, so that a huge exponent costs
  nothing; the reference is the grammar of RFC 8259 with the value as a rational number.

  Go's \<^verbatim>\<open>int64\<close> for the exponent is \<^typ>\<open>int\<close> here: at most 18 digits of it are read, and the correction by the length
  of the text keeps it within 64 bits (\<open>parse_exp_int64\<close>).
\<close>

section \<open>Digits\<close>

definition is_digit :: "char \<Rightarrow> bool" where
  "is_digit c \<longleftrightarrow> 48 \<le> (of_char c :: nat) \<and> (of_char c :: nat) \<le> 57"

definition digit_value :: "char \<Rightarrow> nat" where
  "digit_value c = of_char c - 48"

definition digits_value :: "string \<Rightarrow> nat" where
  "digits_value ds = foldl (\<lambda>a c. a * 10 + digit_value c) 0 ds"

text \<open>\<^verbatim>\<open>strconv.ParseInt(s, 10, 64)\<close>.\<close>

definition ParseInt64 :: "string \<Rightarrow> int option" where
  "ParseInt64 s =
     (let (negative, ds) =
        (case s of c # cs \<Rightarrow> if c = CHR ''-'' then (True, cs) else if c = CHR ''+'' then (False, cs) else (False, s)
         | [] \<Rightarrow> (False, [])) in
      if ds = [] \<or> \<not> list_all is_digit ds then None
      else let v = (if negative then - int (digits_value ds) else int (digits_value ds)) in
           if in_int64 v then Some v else None)"

section \<open>The code\<close>

record number =
  nb_negative :: bool
  nb_zero :: bool
  nb_huge :: bool
  nb_digits :: string
  nb_exp :: int

definition no_number :: number where
  "no_number = \<lparr>nb_negative = False, nb_zero = False, nb_huge = False, nb_digits = [], nb_exp = 0\<rparr>"

text \<open>The fraction and the exponent that may follow, with the rest of the text.\<close>

definition scan_fraction :: "string \<Rightarrow> (string \<times> string) option" where
  "scan_fraction s =
     (case s of c # cs \<Rightarrow>
        if c \<noteq> CHR ''.'' then Some ([], s)
        else if takeWhile is_digit cs = [] then None
        else Some (takeWhile is_digit cs, dropWhile is_digit cs)
      | [] \<Rightarrow> Some ([], []))"

definition scan_exponent :: "string \<Rightarrow> (bool \<times> string \<times> string) option" where
  "scan_exponent s =
     (case s of c # cs \<Rightarrow>
        if c \<noteq> CHR ''e'' \<and> c \<noteq> CHR ''E'' then Some (False, [], s)
        else let (negative, ds) =
               (case cs of d # rest \<Rightarrow>
                  if d = CHR ''+'' \<or> d = CHR ''-'' then (d = CHR ''-'', rest) else (False, cs)
                | [] \<Rightarrow> (False, [])) in
             if takeWhile is_digit ds = [] then None
             else Some (negative, takeWhile is_digit ds, dropWhile is_digit ds)
      | [] \<Rightarrow> Some (False, [], []))"

definition trim_zeros_left :: "string \<Rightarrow> string" where
  "trim_zeros_left = dropWhile (\<lambda>c. c = CHR ''0'')"

definition trim_zeros_right :: "string \<Rightarrow> string" where
  "trim_zeros_right s = rev (dropWhile (\<lambda>c. c = CHR ''0'') (rev s))"

definition decompose :: "bool \<Rightarrow> string \<Rightarrow> string \<Rightarrow> bool \<Rightarrow> string \<Rightarrow> number \<times> bool" where
  "decompose negative intPart fracPart expNegative expText =
     (let n = no_number\<lparr>nb_negative := negative\<rparr>; digits = trim_zeros_left (intPart @ fracPart) in
      if digits = [] then (n\<lparr>nb_zero := True\<rparr>, True)
      else
        (let mantissa = trim_zeros_right digits;
             shift = int (length fracPart) - (int (length digits) - int (length mantissa));
             n = n\<lparr>nb_digits := mantissa\<rparr>; expDigits = trim_zeros_left expText in
         if 18 < length expDigits then
           (if expNegative then (n, False) else (n\<lparr>nb_huge := True\<rparr>, True))
         else
           (let e = (if expDigits = [] then 0 else case ParseInt64 expDigits of Some v \<Rightarrow> v | None \<Rightarrow> 0);
                x = (if expNegative then - e else e) - shift in
            (n\<lparr>nb_exp := x\<rparr>, 0 \<le> x))))"

definition parse :: "string \<Rightarrow> (number \<times> bool) option" where
  "parse raw =
     (let (negative, s) = (case raw of c # cs \<Rightarrow> if c = CHR ''-'' then (True, cs) else (False, raw) | [] \<Rightarrow> (False, []));
          intPart = takeWhile is_digit s in
      if intPart = [] \<or> 1 < length intPart \<and> hd s = CHR ''0'' then None
      else case scan_fraction (dropWhile is_digit s) of None \<Rightarrow> None
         | Some (fracPart, s1) \<Rightarrow>
             (case scan_exponent s1 of None \<Rightarrow> None
              | Some (expNegative, expText, s2) \<Rightarrow>
                  if s2 \<noteq> [] then None else Some (decompose negative intPart fracPart expNegative expText)))"

definition PositiveInteger :: "string \<Rightarrow> bool" where
  "PositiveInteger raw \<longleftrightarrow>
     (case parse raw of None \<Rightarrow> False | Some (n, isInteger) \<Rightarrow> isInteger \<and> \<not> nb_zero n \<and> \<not> nb_negative n)"

text \<open>The answer is the value, whether the number is an integer, and whether it fits.\<close>

definition Int64 :: "string \<Rightarrow> int \<times> bool \<times> bool" where
  "Int64 raw =
     (case parse raw of None \<Rightarrow> (0, False, False)
      | Some (n, isInteger) \<Rightarrow>
          if \<not> isInteger then (0, False, False)
          else if nb_zero n then (0, True, True)
          else if nb_huge n \<or> 19 < int (length (nb_digits n)) + nb_exp n then (0, True, False)
          else let text = nb_digits n @ replicate (nat (nb_exp n)) (CHR ''0'') in
               (case ParseInt64 (if nb_negative n then CHR ''-'' # text else text) of
                  None \<Rightarrow> (0, True, False)
                | Some v \<Rightarrow> (v, True, True)))"

section \<open>The reference\<close>

text \<open>
  The grammar: a sign, an integer part without leading zeros, a fraction and an exponent, and the value of
  such a text.
\<close>

definition json_int :: "string \<Rightarrow> bool" where
  "json_int s \<longleftrightarrow> s \<noteq> [] \<and> list_all is_digit s \<and> (length s = 1 \<or> hd s \<noteq> CHR ''0'')"

definition json_frac :: "string \<Rightarrow> string \<Rightarrow> bool" where
  "json_frac text ds \<longleftrightarrow> text = [] \<and> ds = [] \<or> ds \<noteq> [] \<and> list_all is_digit ds \<and> text = CHR ''.'' # ds"

definition json_exp :: "string \<Rightarrow> int \<Rightarrow> bool" where
  "json_exp text e \<longleftrightarrow>
     text = [] \<and> e = 0
     \<or> (\<exists>c sign ds. c \<in> {CHR ''e'', CHR ''E''} \<and> sign \<in> {[], ''+'', ''-''} \<and> ds \<noteq> [] \<and> list_all is_digit ds
          \<and> text = c # sign @ ds \<and> e = (if sign = ''-'' then - int (digits_value ds) else int (digits_value ds)))"

definition json_number :: "string \<Rightarrow> rat \<Rightarrow> bool" where
  "json_number raw v \<longleftrightarrow>
     (\<exists>sign i f ft x xt. sign \<in> {[], ''-''} \<and> json_int i \<and> json_frac ft f \<and> json_exp xt x \<and> raw = sign @ i @ ft @ xt
        \<and> v = (if sign = [] then 1 else -1)
              * (of_nat (digits_value i) + of_nat (digits_value f) / 10 ^ length f) * 10 powi x)"

section \<open>Digits and their values\<close>

lemma foldl_digits: "foldl (\<lambda>a c. a * 10 + digit_value c) n ds = n * 10 ^ length ds + foldl (\<lambda>a c. a * 10 + digit_value c) 0 ds"
proof (induction ds arbitrary: n)
  case (Cons d ds)
  show ?case
    using Cons [of "n * 10 + digit_value d"] Cons [of "digit_value d"] by (simp add: algebra_simps)
qed simp

lemma digits_value_Nil [simp]: "digits_value [] = 0"
  by (simp add: digits_value_def)

lemma digits_value_append: "digits_value (a @ b) = digits_value a * 10 ^ length b + digits_value b"
  by (simp add: digits_value_def foldl_digits [of "foldl (\<lambda>a c. a * 10 + digit_value c) 0 a"])

lemma digits_value_single [simp]: "digits_value [c] = digit_value c"
  by (simp add: digits_value_def)

lemma digits_value_Cons: "digits_value (c # ds) = digit_value c * 10 ^ length ds + digits_value ds"
  using digits_value_append [of "[c]" ds] by simp

lemma digit_value_zero [simp]: "digit_value (CHR ''0'') = 0"
  by (simp add: digit_value_def)

lemma digit_value_less: "is_digit c \<Longrightarrow> digit_value c < 10"
  unfolding is_digit_def digit_value_def by linarith

lemma digit_value_pos: "is_digit c \<Longrightarrow> c \<noteq> CHR ''0'' \<Longrightarrow> 0 < digit_value c"
proof -
  assume d: "is_digit c" and n: "c \<noteq> CHR ''0''"
  have "of_char c \<noteq> (48 :: nat)"
  proof
    assume "of_char c = (48 :: nat)"
    then have "char_of (of_char c :: nat) = (char_of (48 :: nat) :: char)" by simp
    then show False using n char_of_char [of "CHR ''0''", where ?'a = nat] by simp
  qed
  with d show ?thesis by (simp add: is_digit_def digit_value_def)
qed

lemma digits_value_bound: "list_all is_digit ds \<Longrightarrow> digits_value ds < 10 ^ length ds"
proof (induction ds)
  case (Cons d ds)
  then have "digit_value d \<le> 9" "digits_value ds < 10 ^ length ds" using digit_value_less [of d] by auto
  then have "digit_value d * 10 ^ length ds + digits_value ds < 9 * 10 ^ length ds + 10 ^ length ds"
    by (intro add_le_less_mono mult_le_mono1)
  then show ?case by (simp add: digits_value_Cons)
qed simp

lemma digits_value_lower: "list_all is_digit ds \<Longrightarrow> ds \<noteq> [] \<Longrightarrow> hd ds \<noteq> CHR ''0'' \<Longrightarrow> 10 ^ (length ds - 1) \<le> digits_value ds"
proof (cases ds)
  case (Cons d rest)
  assume "list_all is_digit ds" "ds \<noteq> []" "hd ds \<noteq> CHR ''0''"
  with Cons have "1 \<le> digit_value d" using digit_value_pos [of d] by simp
  then have "1 * 10 ^ length rest \<le> digit_value d * 10 ^ length rest" by (rule mult_le_mono1)
  with Cons show ?thesis by (simp add: digits_value_Cons trans_le_add1)
qed simp

lemma digits_value_zeros: "list_all (\<lambda>c. c = CHR ''0'') ds \<Longrightarrow> digits_value ds = 0"
  by (induction ds) (simp_all add: digits_value_Cons)

lemma trim_zeros_left_value [simp]: "digits_value (trim_zeros_left ds) = digits_value ds"
  by (induction ds) (simp_all add: trim_zeros_left_def digits_value_Cons)

lemma trim_zeros_left_hd: "trim_zeros_left ds \<noteq> [] \<Longrightarrow> hd (trim_zeros_left ds) \<noteq> CHR ''0''"
  unfolding trim_zeros_left_def by (rule hd_dropWhile)

lemma trim_zeros_left_digits: "list_all is_digit ds \<Longrightarrow> list_all is_digit (trim_zeros_left ds)"
  by (auto simp: trim_zeros_left_def list_all_iff dest: set_dropWhileD)

lemma trim_zeros_left_length: "length (trim_zeros_left ds) \<le> length ds"
  by (simp add: trim_zeros_left_def length_dropWhile_le)

lemma trim_zeros_left_empty: "trim_zeros_left ds = [] \<Longrightarrow> digits_value ds = 0"
  using digits_value_zeros [of ds] by (simp add: trim_zeros_left_def list_all_iff)

lemma trim_zeros_right_append: "\<exists>z. s = trim_zeros_right s @ replicate z (CHR ''0'')"
proof -
  let ?t = "takeWhile (\<lambda>c. c = CHR ''0'') (rev s)"
  have "rev ?t = replicate (length ?t) (CHR ''0'')"
    by (intro replicate_eqI) (auto dest: set_takeWhileD)
  moreover have "s = trim_zeros_right s @ rev ?t"
    by (simp add: trim_zeros_right_def flip: rev_append)
  ultimately show ?thesis by metis
qed

lemma trim_zeros_right_last: "trim_zeros_right s \<noteq> [] \<Longrightarrow> last (trim_zeros_right s) \<noteq> CHR ''0''"
  using hd_dropWhile [of "\<lambda>c. c = CHR ''0''" "rev s"] by (simp add: trim_zeros_right_def last_rev)

lemma digits_value_replicate [simp]: "digits_value (ds @ replicate z (CHR ''0'')) = digits_value ds * 10 ^ z"
  using digits_value_zeros [of "replicate z (CHR ''0'')"] by (simp add: digits_value_append list_all_iff)

lemma mantissa:
  assumes "list_all is_digit ds" "ds \<noteq> []" "hd ds \<noteq> CHR ''0''"
  defines "m \<equiv> trim_zeros_right ds"
  shows "digits_value ds = digits_value m * 10 ^ (length ds - length m)" "length m \<le> length ds" "m \<noteq> []"
    "hd m \<noteq> CHR ''0''" "list_all is_digit m" "\<not> 10 dvd digits_value m"
proof -
  obtain z where z: "ds = m @ replicate z (CHR ''0'')" using trim_zeros_right_append unfolding m_def by blast
  from z have v: "digits_value ds = digits_value m * 10 ^ z" by (metis digits_value_replicate)
  from z have l: "length ds = length m + z" by (metis length_append length_replicate)
  show "digits_value ds = digits_value m * 10 ^ (length ds - length m)" "length m \<le> length ds" using v l by simp_all
  have "digits_value ds \<noteq> 0" using digits_value_lower [OF assms(1-3)] by (metis le_zero_eq power_not_zero zero_neq_numeral)
  then show ne: "m \<noteq> []" using v by auto
  from ne z assms(3) show "hd m \<noteq> CHR ''0''" by (metis hd_append2)
  from z assms(1) show dig: "list_all is_digit m" by (metis list_all_append)
  from ne obtain k d where m: "m = k @ [d]" by (metis rev_exhaust)
  have "d \<noteq> CHR ''0''" using trim_zeros_right_last [of ds] ne m by (simp add: m_def)
  with dig m have "0 < digit_value d" "digit_value d < 10" by (simp_all add: digit_value_pos digit_value_less)
  moreover have "digits_value m = digits_value k * 10 + digit_value d" by (simp add: m digits_value_append)
  ultimately show "\<not> 10 dvd digits_value m" by (simp add: dvd_eq_mod_eq_0)
qed

lemma ParseInt64_digits:
  assumes "ds \<noteq> []" "list_all is_digit ds"
  shows "ParseInt64 ds = (if in_int64 (int (digits_value ds)) then Some (int (digits_value ds)) else None)"
    "ParseInt64 (CHR ''-'' # ds) = (if in_int64 (- int (digits_value ds)) then Some (- int (digits_value ds)) else None)"
proof -
  obtain c cs where "ds = c # cs" using assms(1) by (cases ds) auto
  moreover from this assms(2) have "c \<noteq> CHR ''-''" "c \<noteq> CHR ''+''" by (auto simp: is_digit_def)
  ultimately show "ParseInt64 ds = (if in_int64 (int (digits_value ds)) then Some (int (digits_value ds)) else None)"
    using assms(2) by (simp add: ParseInt64_def Let_def list_all_iff)
  show "ParseInt64 (CHR ''-'' # ds) = (if in_int64 (- int (digits_value ds)) then Some (- int (digits_value ds)) else None)"
    using assms by (simp add: ParseInt64_def Let_def)
qed

section \<open>The scanner and the grammar\<close>

definition exp_parts :: "string \<Rightarrow> bool \<Rightarrow> string \<Rightarrow> bool" where
  "exp_parts text negative ds \<longleftrightarrow>
     text = [] \<and> \<not> negative \<and> ds = []
     \<or> (\<exists>c sign. c \<in> {CHR ''e'', CHR ''E''} \<and> sign \<in> {[], ''+'', ''-''} \<and> ds \<noteq> [] \<and> list_all is_digit ds
          \<and> text = c # sign @ ds \<and> (negative \<longleftrightarrow> sign = ''-''))"

lemma json_exp_parts:
  "json_exp text e \<longleftrightarrow> (\<exists>negative ds. exp_parts text negative ds
     \<and> e = (if negative then - int (digits_value ds) else int (digits_value ds)))"
proof
  assume "json_exp text e"
  then consider "text = []" "e = 0"
    | c sign ds where "c \<in> {CHR ''e'', CHR ''E''}" "sign \<in> {[], ''+'', ''-''}" "ds \<noteq> []" "list_all is_digit ds"
        "text = c # sign @ ds" "e = (if sign = ''-'' then - int (digits_value ds) else int (digits_value ds))"
    unfolding json_exp_def by blast
  then show "\<exists>negative ds. exp_parts text negative ds \<and> e = (if negative then - int (digits_value ds) else int (digits_value ds))"
  proof cases
    case 1
    then show ?thesis by (intro exI [of _ False] exI [of _ "[]"]) (simp add: exp_parts_def)
  next
    case (2 c sign ds)
    then have "exp_parts text (sign = ''-'') ds" unfolding exp_parts_def by blast
    with 2 show ?thesis by blast
  qed
next
  assume "\<exists>negative ds. exp_parts text negative ds \<and> e = (if negative then - int (digits_value ds) else int (digits_value ds))"
  then obtain negative ds where p: "exp_parts text negative ds" "e = (if negative then - int (digits_value ds) else int (digits_value ds))"
    by blast
  from p(1) consider "text = []" "\<not> negative" "ds = []"
    | c sign where "c \<in> {CHR ''e'', CHR ''E''}" "sign \<in> {[], ''+'', ''-''}" "ds \<noteq> []" "list_all is_digit ds"
        "text = c # sign @ ds" "negative \<longleftrightarrow> sign = ''-''"
    unfolding exp_parts_def by blast
  then show "json_exp text e"
  proof cases
    case (2 c sign)
    with p(2) have "e = (if sign = ''-'' then - int (digits_value ds) else int (digits_value ds))" by simp
    with 2 show ?thesis unfolding json_exp_def by blast
  qed (use p(2) in \<open>simp add: json_exp_def\<close>)
qed

lemma not_digit [simp]:
  "\<not> is_digit (CHR ''.'')" "\<not> is_digit (CHR ''e'')" "\<not> is_digit (CHR ''E'')" "\<not> is_digit (CHR ''-'')" "\<not> is_digit (CHR ''+'')"
  by (simp_all add: is_digit_def)

lemma takeWhile_digits:
  assumes "list_all is_digit ds" "rest = [] \<or> \<not> is_digit (hd rest)"
  shows "takeWhile is_digit (ds @ rest) = ds" "dropWhile is_digit (ds @ rest) = rest"
  using assms by (cases rest; simp add: takeWhile_append list_all_iff dropWhile_append)+

lemma takeWhile_split: "s = takeWhile is_digit s @ dropWhile is_digit s" "list_all is_digit (takeWhile is_digit s)"
  by (auto simp: list_all_iff dest: set_takeWhileD)

lemma scan_fraction_sound:
  assumes "scan_fraction s = Some (f, rest)"
  shows "\<exists>ft. s = ft @ rest \<and> json_frac ft f"
proof (cases s)
  case (Cons c cs)
  show ?thesis
  proof (cases "c = CHR ''.''")
    case True
    with assms Cons have "f = takeWhile is_digit cs" "rest = dropWhile is_digit cs" "f \<noteq> []"
      by (auto simp: scan_fraction_def split: if_splits)
    with True Cons takeWhile_split [of cs] show ?thesis by (intro exI [of _ "CHR ''.'' # f"]) (simp add: json_frac_def)
  qed (use assms Cons in \<open>auto simp: scan_fraction_def json_frac_def\<close>)
qed (use assms in \<open>auto simp: scan_fraction_def json_frac_def\<close>)

lemma scan_fraction_complete:
  assumes "json_frac ft f" "rest = [] \<or> \<not> is_digit (hd rest) \<and> hd rest \<noteq> CHR ''.''"
  shows "scan_fraction (ft @ rest) = Some (f, rest)"
proof (cases "ft = []")
  case True
  with assms show ?thesis by (cases rest) (auto simp: scan_fraction_def json_frac_def)
next
  case False
  with assms(1) have ft: "ft = CHR ''.'' # f" "f \<noteq> []" "list_all is_digit f" by (auto simp: json_frac_def)
  from assms(2) have "rest = [] \<or> \<not> is_digit (hd rest)" by blast
  with ft show ?thesis by (simp add: scan_fraction_def takeWhile_digits)
qed

lemma scan_exponent_sound:
  assumes "scan_exponent s = Some (negative, ds, rest)"
  shows "\<exists>xt. s = xt @ rest \<and> exp_parts xt negative ds"
proof (cases s)
  case (Cons c cs)
  show ?thesis
  proof (cases "c = CHR ''e'' \<or> c = CHR ''E''")
    case c: True
    obtain sign ds0 where cs: "cs = sign @ ds0" "sign \<in> {[], ''+'', ''-''}"
      and r: "negative \<longleftrightarrow> sign = ''-''" "ds = takeWhile is_digit ds0" "rest = dropWhile is_digit ds0" "ds \<noteq> []"
    proof (cases cs)
      case Nil
      with assms Cons c that [of "[]" "[]"] show ?thesis by (auto simp: scan_exponent_def)
    next
      case (Cons d rest')
      with assms \<open>s = c # cs\<close> c that [of "[d]" rest'] that [of "[]" cs] show ?thesis
        by (cases "d = CHR ''+'' \<or> d = CHR ''-''") (auto simp: scan_exponent_def split: if_splits)
    qed
    have "s = (c # sign @ ds) @ rest" using Cons cs r takeWhile_split(1) [of ds0] by simp
    moreover have "exp_parts (c # sign @ ds) negative ds"
      using c cs r takeWhile_split(2) [of ds0] unfolding exp_parts_def by blast
    ultimately show ?thesis by blast
  qed (use assms Cons in \<open>auto simp: scan_exponent_def exp_parts_def\<close>)
qed (use assms in \<open>auto simp: scan_exponent_def exp_parts_def\<close>)

lemma scan_exponent_complete:
  assumes "exp_parts xt negative ds"
  shows "scan_exponent xt = Some (negative, ds, [])"
proof (cases "xt = []")
  case True
  with assms show ?thesis by (auto simp: scan_exponent_def exp_parts_def)
next
  case False
  with assms obtain c sign where x: "xt = c # sign @ ds" "c \<in> {CHR ''e'', CHR ''E''}" "sign \<in> {[], ''+'', ''-''}"
    "ds \<noteq> []" "list_all is_digit ds" "negative \<longleftrightarrow> sign = ''-''" unfolding exp_parts_def by blast
  have tw: "takeWhile is_digit ds = ds" "dropWhile is_digit ds = []" using x(5) takeWhile_digits [of ds "[]"] by simp_all
  from x(4) obtain d rest where d: "ds = d # rest" by (cases ds) auto
  with x(5) have "is_digit d" by simp
  then have "d \<noteq> CHR ''+''" "d \<noteq> CHR ''-''" by auto
  with x d tw show ?thesis by (auto simp: scan_exponent_def)
qed

lemma exp_parts_hd: "exp_parts xt negative ds \<Longrightarrow> xt = [] \<or> \<not> is_digit (hd xt) \<and> hd xt \<noteq> CHR ''.''"
  by (auto simp: exp_parts_def)

lemma json_frac_hd: "json_frac ft f \<Longrightarrow> ft = [] \<or> \<not> is_digit (hd ft)"
  by (auto simp: json_frac_def)

lemma parse_iff:
  "parse raw = Some r \<longleftrightarrow>
     (\<exists>sign i f ft negative ds xt. sign \<in> {[], ''-''} \<and> json_int i \<and> json_frac ft f \<and> exp_parts xt negative ds
        \<and> raw = sign @ i @ ft @ xt \<and> r = decompose (sign = ''-'') i f negative ds)"
  (is "_ \<longleftrightarrow> ?grammar")
proof
  assume p: "parse raw = Some r"
  obtain sign s where s: "raw = sign @ s" "sign \<in> {[], ''-''}"
    "(case raw of c # cs \<Rightarrow> if c = CHR ''-'' then (True, cs) else (False, raw) | [] \<Rightarrow> (False, [])) = (sign = ''-'', s)"
  proof (cases "\<exists>cs. raw = CHR ''-'' # cs")
    case True
    then obtain cs where "raw = CHR ''-'' # cs" by blast
    then show ?thesis by (intro that [of "''-''" cs]) simp_all
  next
    case False
    then show ?thesis by (intro that [of "[]" raw]) (simp_all split: list.split)
  qed
  let ?i = "takeWhile is_digit s"
  from p s(3) obtain f s1 negative ds where x: "?i \<noteq> []" "\<not> (1 < length ?i \<and> hd s = CHR ''0'')"
    "scan_fraction (dropWhile is_digit s) = Some (f, s1)" "scan_exponent s1 = Some (negative, ds, [])"
    "r = decompose (sign = ''-'') ?i f negative ds"
    by (auto simp: parse_def Let_def split: if_splits option.splits)
  from scan_fraction_sound [OF x(3)] obtain ft where ft: "dropWhile is_digit s = ft @ s1" "json_frac ft f" by blast
  from scan_exponent_sound [OF x(4)] have ep: "exp_parts s1 negative ds" by auto
  have "hd ?i = hd s" using x(1) by (cases s) (auto split: if_splits)
  then have "json_int ?i" using x(1,2) takeWhile_split(2) [of s] by (cases "length ?i") (auto simp: json_int_def)
  with s(1,2) ft ep x(5) takeWhile_split(1) [of s] show ?grammar
    by (metis append.assoc)
next
  assume ?grammar
  then obtain sign i f ft negative ds xt where g: "sign \<in> {[], ''-''}" "json_int i" "json_frac ft f" "exp_parts xt negative ds"
    "raw = sign @ i @ ft @ xt" "r = decompose (sign = ''-'') i f negative ds" by blast
  let ?s = "i @ ft @ xt"
  from g(2) obtain d rest where d: "i = d # rest" "is_digit d" by (cases i) (auto simp: json_int_def)
  then have "d \<noteq> CHR ''-''" by auto
  with g(1,5) d have s: "(case raw of c # cs \<Rightarrow> if c = CHR ''-'' then (True, cs) else (False, raw) | [] \<Rightarrow> (False, [])) = (sign = ''-'', ?s)"
    by auto
  have "ft @ xt = [] \<or> \<not> is_digit (hd (ft @ xt))"
    using json_frac_hd [OF g(3)] exp_parts_hd [OF g(4)] by (cases ft) auto
  with g(2) have tw: "takeWhile is_digit ?s = i" "dropWhile is_digit ?s = ft @ xt"
    using takeWhile_digits [of i "ft @ xt"] by (auto simp: json_int_def)
  have sf: "scan_fraction (ft @ xt) = Some (f, xt)" using scan_fraction_complete [OF g(3) exp_parts_hd [OF g(4)]] .
  have "\<not> (1 < length i \<and> hd ?s = CHR ''0'')" "i \<noteq> []" using g(2) d by (auto simp: json_int_def)
  then show "parse raw = Some r"
    unfolding parse_def s using tw sf scan_exponent_complete [OF g(4)] g(6) by simp
qed

section \<open>Values\<close>

definition signed :: "bool \<Rightarrow> rat \<Rightarrow> rat" where
  "signed negative v = (if negative then - v else v)"

lemma json_number_parts:
  "json_number raw v \<longleftrightarrow>
     (\<exists>sign i f ft negative ds xt. sign \<in> {[], ''-''} \<and> json_int i \<and> json_frac ft f \<and> exp_parts xt negative ds
        \<and> raw = sign @ i @ ft @ xt
        \<and> v = signed (sign = ''-'') (of_nat (digits_value (i @ f))
              * 10 powi ((if negative then - int (digits_value ds) else int (digits_value ds)) - int (length f))))"
proof -
  have scale: "(of_nat (digits_value i) + of_nat (digits_value f) / 10 ^ length f) * (10 :: rat) powi x
      = of_nat (digits_value (i @ f)) * 10 powi (x - int (length f))" for i f x
    by (simp add: digits_value_append power_int_diff field_simps)
  have sgn: "(if sign = [] then 1 else -1) * w * p = signed (sign = ''-'') (w * p)" if "sign \<in> {[], ''-''}" for sign and w p :: rat
    using that by (auto simp: signed_def)
  have val: "(if sign = [] then 1 else -1) * (of_nat (digits_value i) + of_nat (digits_value f) / 10 ^ length f) * 10 powi x
      = signed (sign = ''-'') (of_nat (digits_value (i @ f)) * (10 :: rat) powi (x - int (length f)))"
    if "sign \<in> {[], ''-''}" for sign i f x
    using sgn [OF that, of "of_nat (digits_value i) + of_nat (digits_value f) / 10 ^ length f" "10 powi x"]
    by (simp only: mult.assoc scale)
  show ?thesis (is "_ \<longleftrightarrow> ?R")
  proof
    assume "json_number raw v"
    then obtain sign i f ft x xt where g: "sign \<in> {[], ''-''}" "json_int i" "json_frac ft f" "json_exp xt x" "raw = sign @ i @ ft @ xt"
      "v = (if sign = [] then 1 else -1) * (of_nat (digits_value i) + of_nat (digits_value f) / 10 ^ length f) * 10 powi x"
      unfolding json_number_def by blast
    from g(4) obtain negative ds where e: "exp_parts xt negative ds"
      "x = (if negative then - int (digits_value ds) else int (digits_value ds))" unfolding json_exp_parts by blast
    from g(6) val [OF g(1)] e(2)
    have "v = signed (sign = ''-'') (of_nat (digits_value (i @ f))
       * 10 powi ((if negative then - int (digits_value ds) else int (digits_value ds)) - int (length f)))" by simp
    with g e show ?R by blast
  next
    assume ?R
    then obtain sign i f ft negative ds xt where g: "sign \<in> {[], ''-''}" "json_int i" "json_frac ft f" "exp_parts xt negative ds"
      "raw = sign @ i @ ft @ xt" "v = signed (sign = ''-'') (of_nat (digits_value (i @ f))
          * 10 powi ((if negative then - int (digits_value ds) else int (digits_value ds)) - int (length f)))"
      by blast
    let ?x = "if negative then - int (digits_value ds) else int (digits_value ds)"
    have e: "json_exp xt ?x" using g(4) unfolding json_exp_parts by blast
    have "v = (if sign = [] then 1 else -1) * (of_nat (digits_value i) + of_nat (digits_value f) / 10 ^ length f) * 10 powi ?x"
      by (simp only: g(6) val [OF g(1)])
    with g(1,2,3,5) e show "json_number raw v" unfolding json_number_def by blast
  qed
qed

text \<open>What a decomposed number denotes, and when it is an integer.\<close>

lemma integer_power10:
  assumes "of_int k = (of_nat a :: rat) * 10 powi x" "\<not> 10 dvd a"
  shows "0 \<le> x"
proof (rule ccontr)
  assume "\<not> 0 \<le> x"
  define j where "j = nat (- x) - 1"
  have x: "x = - int (Suc j)" using \<open>\<not> 0 \<le> x\<close> by (simp add: j_def)
  have "(of_int k :: rat) * 10 ^ Suc j = of_nat a"
    using assms(1) by (simp add: x power_int_minus field_simps del: of_nat_Suc power_Suc)
  then have "(of_int (k * 10 ^ Suc j) :: rat) = of_int (int a)" by simp
  then have "k * 10 ^ Suc j = int a" by (simp only: of_int_eq_iff)
  then have "10 dvd int a" by (metis dvd_triv_left dvd_mult power_Suc mult.commute)
  with assms(2) show False by presburger
qed

definition denotes :: "number \<Rightarrow> bool \<Rightarrow> rat \<Rightarrow> bool" where
  "denotes n isInteger v \<longleftrightarrow>
     (if nb_zero n then isInteger \<and> v = 0
      else nb_digits n \<noteq> [] \<and> list_all is_digit (nb_digits n) \<and> hd (nb_digits n) \<noteq> CHR ''0''
         \<and> \<not> 10 dvd digits_value (nb_digits n) \<and>
         (\<exists>x. v = of_nat (digits_value (nb_digits n)) * 10 powi x \<and> (isInteger \<longleftrightarrow> 0 \<le> x)
            \<and> (if nb_huge n then 19 \<le> x else isInteger \<longrightarrow> nb_exp n = x)))"

lemma decompose_cases:
  assumes "list_all is_digit i" "list_all is_digit f" "list_all is_digit ds"
    and len: "length i + length f < 10 ^ 17"
    and d: "decompose neg i f en ds = (n, isInteger)"
  defines "v \<equiv> of_nat (digits_value (i @ f)) * (10 :: rat) powi ((if en then - int (digits_value ds) else int (digits_value ds)) - int (length f))"
  shows "nb_negative n = neg \<and> denotes n isInteger v"
proof -
  let ?digits = "trim_zeros_left (i @ f)"
  let ?e = "if en then - int (digits_value ds) else int (digits_value ds)"
  show ?thesis
  proof (cases "?digits = []")
    case True
    then have "digits_value (i @ f) = 0" by (rule trim_zeros_left_empty)
    with True d show ?thesis by (auto simp: decompose_def v_def no_number_def denotes_def)
  next
    case False
    let ?m = "trim_zeros_right ?digits"
    have dig: "list_all is_digit ?digits" using assms(1,2) by (intro trim_zeros_left_digits) simp
    note m = mantissa [OF dig False trim_zeros_left_hd [OF False]]
    define z where "z = length ?digits - length ?m"
    define x where "x = ?e - (int (length f) - int z)"
    have z: "int (length ?digits) - int (length ?m) = int z" using m(2) by (simp add: z_def)
    have zl: "int z < 100000000000000000" using trim_zeros_left_length [of "i @ f"] len by (simp add: z_def)
    have fl: "int (length f) < 100000000000000000" using len by simp
    have val: "digits_value (i @ f) = digits_value ?m * 10 ^ z" using m(1) by (simp add: z_def)
    have v: "v = of_nat (digits_value ?m) * 10 powi x"
      by (simp add: v_def val x_def power_int_diff power_int_add field_simps)
    let ?ed = "trim_zeros_left ds"
    have ed: "digits_value ?ed = digits_value ds" "list_all is_digit ?ed" using assms(3) by (simp_all add: trim_zeros_left_digits)
    show ?thesis
    proof (cases "18 < length ?ed")
      case big: True
      then have "?ed \<noteq> []" by auto
      then have "10 ^ (length ?ed - 1) \<le> digits_value ds"
        using digits_value_lower [OF ed(2) _ trim_zeros_left_hd] ed(1) by simp
      moreover have "(10 :: nat) ^ 18 \<le> 10 ^ (length ?ed - 1)" using big by (intro power_increasing) auto
      ultimately have "10 ^ 18 \<le> digits_value ds" by (rule order_trans [rotated])
      then have E: "1000000000000000000 \<le> int (digits_value ds)" by simp
      have x19: "if en then x < 0 else 19 \<le> x" using E zl fl by (simp add: x_def)
      from d big False z have "(n, isInteger) = (if en then (no_number\<lparr>nb_negative := neg, nb_digits := ?m\<rparr>, False)
          else (no_number\<lparr>nb_negative := neg, nb_digits := ?m, nb_huge := True\<rparr>, True))"
        by (simp add: decompose_def Let_def)
      then show ?thesis using m v x19 by (cases en) (auto simp: no_number_def denotes_def intro!: exI [of _ x])
    next
      case small: False
      have "digits_value ds < 10 ^ length ?ed" using digits_value_bound [OF ed(2)] ed(1) by simp
      also have "\<dots> \<le> 10 ^ 18" using small by (intro power_increasing) auto
      finally have "digits_value ds < 1000000000000000000" by simp
      then have fits: "in_int64 (int (digits_value ds))" by (simp add: in_int64_def)
      have pe: "(if ?ed = [] then 0 else case ParseInt64 ?ed of Some v \<Rightarrow> v | None \<Rightarrow> 0) = int (digits_value ds)"
        using ParseInt64_digits(1) [of ?ed] ed fits trim_zeros_left_empty [of ds] by auto
      from d small False z pe
      have "n = no_number\<lparr>nb_negative := neg, nb_digits := ?m, nb_exp := x\<rparr>" "isInteger \<longleftrightarrow> 0 \<le> x"
        by (auto simp: decompose_def Let_def x_def)
      then show ?thesis using m v by (auto simp: no_number_def denotes_def)
    qed
  qed
qed

lemma json_frac_length: "json_frac ft f \<Longrightarrow> length f \<le> length ft \<and> list_all is_digit f"
  by (auto simp: json_frac_def)

lemma exp_parts_digits: "exp_parts xt negative ds \<Longrightarrow> list_all is_digit ds"
  by (auto simp: exp_parts_def)

lemma json_number_parse:
  assumes "length raw < 10 ^ 17" "json_number raw w"
  shows "\<exists>n isInteger v. parse raw = Some (n, isInteger) \<and> denotes n isInteger v \<and> w = signed (nb_negative n) v"
proof -
  from assms(2) obtain sign i f ft negative ds xt where g: "sign \<in> {[], ''-''}" "json_int i" "json_frac ft f" "exp_parts xt negative ds"
    "raw = sign @ i @ ft @ xt" "w = signed (sign = ''-'') (of_nat (digits_value (i @ f))
        * 10 powi ((if negative then - int (digits_value ds) else int (digits_value ds)) - int (length f)))"
    unfolding json_number_parts by blast
  obtain n isInteger where d: "decompose (sign = ''-'') i f negative ds = (n, isInteger)" by fastforce
  have "parse raw = Some (n, isInteger)" 
    unfolding parse_iff by (intro exI conjI, rule g(1), rule g(2), rule g(3), rule g(4), rule g(5), rule d [symmetric])
  have "length i + length f < 10 ^ 17" using assms(1) g(5) json_frac_length [OF g(3)] by simp
  with decompose_cases [OF _ _ _ _ d] g(2,3,4) json_frac_length exp_parts_digits
  have neg: "nb_negative n = (sign = ''-'')" and v: "denotes n isInteger (of_nat (digits_value (i @ f))
        * 10 powi ((if negative then - int (digits_value ds) else int (digits_value ds)) - int (length f)))"
    by (simp_all add: json_int_def)
  have "w = signed (nb_negative n) (of_nat (digits_value (i @ f))
        * 10 powi ((if negative then - int (digits_value ds) else int (digits_value ds)) - int (length f)))"
    unfolding neg by (rule g(6))
  with v show ?thesis using \<open>parse raw = Some (n, isInteger)\<close> by blast
qed

lemma parse_json_number: "parse raw = Some r \<Longrightarrow> \<exists>w. json_number raw w"
  unfolding parse_iff json_number_parts by blast

lemma int_powi: "0 \<le> x \<Longrightarrow> (of_nat a :: rat) * 10 powi x = of_int (int a * 10 ^ nat x)"
  by (simp add: power_int_def)

lemma denotes_integer:
  assumes "denotes n isInteger v"
  shows "isInteger \<longleftrightarrow> (\<exists>k. v = of_int k)" "isInteger \<Longrightarrow> \<not> nb_zero n \<Longrightarrow> 0 < v" "nb_zero n \<Longrightarrow> v = 0"
proof -
  show "isInteger \<longleftrightarrow> (\<exists>k. v = of_int k)"
  proof (cases "nb_zero n")
    case False
    with assms obtain x where x: "v = of_nat (digits_value (nb_digits n)) * 10 powi x" "isInteger \<longleftrightarrow> 0 \<le> x"
      "\<not> 10 dvd digits_value (nb_digits n)" by (auto simp: denotes_def)
    show ?thesis
    proof
      assume isInteger
      with x(2) int_powi [of x] x(1) show "\<exists>k. v = of_int k" by blast
    next
      assume "\<exists>k. v = of_int k"
      with x integer_power10 show isInteger by metis
    qed
  qed (use assms in \<open>auto simp: denotes_def intro: exI [of _ 0]\<close>)
  assume "isInteger" "\<not> nb_zero n"
  with assms obtain x where x: "v = of_nat (digits_value (nb_digits n)) * 10 powi x" "\<not> 10 dvd digits_value (nb_digits n)"
    by (auto simp: denotes_def)
  then have "0 < digits_value (nb_digits n)" by (cases "digits_value (nb_digits n)") auto
  with x(1) show "0 < v" by simp
qed (use assms in \<open>simp add: denotes_def\<close>)

lemma Int64_value:
  assumes p: "parse raw = Some (n, True)" and d: "denotes n True v" and k: "signed (nb_negative n) v = of_int k"
  shows "Int64 raw = (if in_int64 k then (k, True, True) else (0, True, False))"
proof (cases "nb_zero n")
  case True
  with d k have "k = 0" by (auto simp: denotes_def signed_def split: if_splits)
  with True p show ?thesis by (simp add: Int64_def in_int64_def)
next
  case nz: False
  let ?m = "nb_digits n"
  from nz d obtain x where x: "v = of_nat (digits_value ?m) * 10 powi x" "0 \<le> x"
    "if nb_huge n then 19 \<le> x else nb_exp n = x" "?m \<noteq> []" "list_all is_digit ?m" "hd ?m \<noteq> CHR ''0''"
    unfolding denotes_def by (simp only: if_False) (elim conjE exE, rule that, simp_all split: if_splits)
  define a where "a = int (digits_value ?m) * 10 ^ nat x"
  have "v = of_int a" using x(1) int_powi [OF x(2)] by (simp add: a_def)
  then have "(of_int (if nb_negative n then - a else a) :: rat) = of_int k" 
    using k by (cases "nb_negative n") (simp_all add: signed_def flip: of_int_minus)
  then have ka: "k = (if nb_negative n then - a else a)" by (simp only: of_int_eq_iff)
  have low: "10 ^ (length ?m - 1) \<le> digits_value ?m" using digits_value_lower [OF x(5,4,6)] .
  show ?thesis
  proof (cases "nb_huge n \<or> 19 < int (length ?m) + nb_exp n")
    case True
    then have "19 \<le> (length ?m - 1) + nat x" using x(2,3,4) by (cases "length ?m") (auto split: if_splits)
    then have "(10 :: nat) ^ 19 \<le> 10 ^ ((length ?m - 1) + nat x)" by (intro power_increasing) auto
    also have "\<dots> \<le> digits_value ?m * 10 ^ nat x" using low by (simp add: power_add)
    finally have "int (10 ^ 19) \<le> int (digits_value ?m * 10 ^ nat x)" by (simp only: of_nat_le_iff)
    then have "10 ^ 19 \<le> a" by (simp add: a_def)
    then have "\<not> in_int64 k" by (simp add: ka in_int64_def)
    with True p nz show ?thesis by (auto simp: Int64_def)
  next
    case False
    then have e: "nb_exp n = x" using x(3) by simp
    let ?t = "?m @ replicate (nat x) (CHR ''0'')"
    have t: "?t \<noteq> []" "list_all is_digit ?t" using x(4,5) by (auto simp: list_all_iff is_digit_def)
    have tv: "int (digits_value ?t) = a" by (simp add: a_def)
    from ParseInt64_digits [OF t] False p nz e show ?thesis
      unfolding tv by (simp add: Int64_def Let_def ka)
  qed
qed

text \<open>
  C34: The JSON integers are recognised by their value. Whatever way a text is written, with a fraction, an
  exponent or both, \<open>PositiveInteger\<close> accepts it exactly when the grammar gives it a positive integer as
  value, and \<open>Int64\<close> answers that value exactly when it is an integer of 64 bits, and otherwise whether it
  is an integer at all.
\<close>

theorem json_integers_exact:
  assumes "length raw < 10 ^ 17"
  shows "(PositiveInteger raw \<longleftrightarrow> (\<exists>k. 1 \<le> k \<and> json_number raw (of_int k)))
    \<and> (\<forall>k. in_int64 k \<longrightarrow> (Int64 raw = (k, True, True) \<longleftrightarrow> json_number raw (of_int k)))
    \<and> (\<forall>k. \<not> in_int64 k \<and> json_number raw (of_int k) \<longrightarrow> Int64 raw = (0, True, False))
    \<and> ((\<nexists>k. json_number raw (of_int k)) \<longrightarrow> Int64 raw = (0, False, False))"
proof (cases "parse raw")
  case None
  then have "\<not> json_number raw w" for w using json_number_parse [OF assms, of w] by auto
  with None show ?thesis by (simp add: PositiveInteger_def Int64_def)
next
  case (Some r)
  obtain n b where r: "r = (n, b)" by fastforce
  obtain w where w: "json_number raw w" using parse_json_number [OF Some] by blast
  have all: "\<exists>v. denotes n b v \<and> w' = signed (nb_negative n) v" if "json_number raw w'" for w'
    using json_number_parse [OF assms that] Some r by auto
  have val_of: "Int64 raw = (if in_int64 k then (k, True, True) else (0, True, False))" if b "json_number raw (of_int k)" for k
  proof -
    from all [OF that(2)] obtain v where v: "denotes n b v" "of_int k = signed (nb_negative n) v" by blast
    with Int64_value [of raw n v k] Some r that(1) show ?thesis by simp
  qed
  show ?thesis
  proof (cases b)
    case True
    from all [OF w] obtain v where v: "denotes n b v" "w = signed (nb_negative n) v" by blast
    with True denotes_integer(1) [OF v(1)] obtain k0 where "v = of_int k0" by blast
    then have "w = of_int (if nb_negative n then - k0 else k0)" using v(2) by (simp add: signed_def)
    with w obtain k1 where k1: "json_number raw (of_int k1)" "w = of_int k1" by metis
    have "PositiveInteger raw \<longleftrightarrow> (\<exists>k. 1 \<le> k \<and> json_number raw (of_int k))"
    proof
      assume "PositiveInteger raw"
      then have "\<not> nb_zero n" "\<not> nb_negative n" using Some r by (simp_all add: PositiveInteger_def)
      then have "0 < w" using v True denotes_integer(2) [OF v(1)] by (simp add: signed_def)
      then have "1 \<le> k1" using k1(2) by simp
      with k1(1) show "\<exists>k. 1 \<le> k \<and> json_number raw (of_int k)" by blast
    next
      assume "\<exists>k. 1 \<le> k \<and> json_number raw (of_int k)"
      then obtain k where k: "1 \<le> k" "json_number raw (of_int k)" by blast
      from all [OF k(2)] obtain u where u: "denotes n b u" "of_int k = signed (nb_negative n) u" by blast
      have "0 < signed (nb_negative n) u" using k(1) u(2) by (metis of_int_0_less_iff zero_less_one_class.zero_less_one order_less_le_trans)
      then have "\<not> nb_zero n \<and> \<not> nb_negative n"
        using denotes_integer(2,3) [OF u(1)] True by (auto simp: signed_def split: if_splits)
      with True Some r show "PositiveInteger raw" by (simp add: PositiveInteger_def)
    qed
    moreover have "Int64 raw = (k, True, True) \<longleftrightarrow> json_number raw (of_int k)" if "in_int64 k" for k
      using val_of [OF True, of k] val_of [OF True k1(1)] that k1(1) by (auto split: if_splits)
    moreover have "Int64 raw = (0, True, False)" if "\<not> in_int64 k" "json_number raw (of_int k)" for k
      using val_of [OF True that(2)] that(1) by simp
    moreover have "Int64 raw = (0, False, False)" if "\<nexists>k. json_number raw (of_int k)"
      using that k1(1) by blast
    ultimately show ?thesis by blast
  next
    case False
    have none: "\<not> json_number raw (of_int k)" for k
    proof
      assume "json_number raw (of_int k)"
      from all [OF this] obtain v where v: "denotes n b v" "of_int k = signed (nb_negative n) v" by blast
      then have "v = of_int (if nb_negative n then - k else k)" by (auto simp: signed_def split: if_splits)
      with denotes_integer(1) [OF v(1)] False show False by blast
    qed
    with False Some r show ?thesis by (simp add: PositiveInteger_def Int64_def)
  qed
qed

text \<open>The exponent that is computed fits the 64 bits that the code gives it.\<close>

lemma parse_exp_int64:
  assumes "length raw < 10 ^ 17" "parse raw = Some (n, isInteger)"
  shows "in_int64 (nb_exp n)"
proof -
  from assms(2) obtain sign i f ft negative ds xt where g: "raw = sign @ i @ ft @ xt" "json_frac ft f" "exp_parts xt negative ds"
    "(n, isInteger) = decompose (sign = ''-'') i f negative ds"
    unfolding parse_iff by blast
  let ?digits = "trim_zeros_left (i @ f)" and ?ed = "trim_zeros_left ds"
  have len: "length f < 10 ^ 17" "length ?digits < 10 ^ 17" "length (trim_zeros_right ?digits) \<le> length ?digits"
    using assms(1) g(1) json_frac_length [OF g(2)] trim_zeros_left_length [of "i @ f"]
    by (simp_all add: trim_zeros_right_def length_dropWhile_le [of _ "rev ?digits", simplified])
  show ?thesis
  proof (cases "?digits = [] \<or> 18 < length ?ed")
    case True
    with g(4) show ?thesis by (auto simp: decompose_def Let_def no_number_def in_int64_def split: if_splits)
  next
    case False
    have "list_all is_digit ?ed" using exp_parts_digits [OF g(3)] by (rule trim_zeros_left_digits)
    from digits_value_bound [OF this] have "digits_value ?ed < 10 ^ length ?ed" .
    also have "\<dots> \<le> 10 ^ 18" using False by (intro power_increasing) auto
    finally have E: "digits_value ?ed < 1000000000000000000" by simp
    then have "in_int64 (int (digits_value ?ed))" by (simp add: in_int64_def)
    then have "(if ?ed = [] then 0 else case ParseInt64 ?ed of Some v \<Rightarrow> v | None \<Rightarrow> 0) = int (digits_value ?ed)"
      using ParseInt64_digits(1) [of ?ed] \<open>list_all is_digit ?ed\<close> trim_zeros_left_empty [of ds] by auto
    with g(4) False have "nb_exp n = (if negative then - int (digits_value ?ed) else int (digits_value ?ed))
        - (int (length f) - (int (length ?digits) - int (length (trim_zeros_right ?digits))))"
      by (auto simp: decompose_def Let_def)
    with E len show ?thesis by (auto simp: in_int64_def)
  qed
qed

lemma demo_number: "json_number ''-12.50e1'' (of_int (- 125))"
  unfolding json_number_def json_int_def json_frac_def json_exp_def
  by (intro exI [of _ "''-''"] exI [of _ "''12''"] exI [of _ "''50''"] exI [of _ "''.50''"] exI [of _ "1"] exI [of _ "''e1''"])
    (force simp: is_digit_def digits_value_def digit_value_def)

theorem json_integers_exact_witness:
  "Int64 ''-12.50e1'' = (- 125, True, True) \<and> \<not> PositiveInteger ''0e5'' \<and> \<not> (\<exists>k. 1 \<le> k \<and> json_number ''0e5'' (of_int k))"
proof -
  have "length ''-12.50e1'' < 10 ^ 17" "length ''0e5'' < 10 ^ 17" by simp_all
  note ex = json_integers_exact [OF this(1)] json_integers_exact [OF this(2)]
  from ex(1) demo_number have "Int64 ''-12.50e1'' = (- 125, True, True)" by (auto simp: in_int64_def)
  moreover have "\<not> PositiveInteger ''0e5''" by code_simp
  ultimately show ?thesis using ex(2) by blast
qed

end
