(* ===== verification/Preview_Origin.thy ===== *)
theory Preview_Origin
  imports Lab_Snapshot Json_Number
begin

text \<open>
  The Preview Origin (\<^verbatim>\<open>internal/server/preview/origin.go\<close>): every preview session has a host of its own, whose
  first label is the identifier of the session.

  \<^verbatim>\<open>strings.ToLower\<close> works on runes; beside the ASCII capitals the two runes beyond ASCII whose lower case is an
  ASCII letter matter here (U+0130 and U+212A). Every other rune beyond ASCII stays beyond ASCII and is kept as it is,
  since no label contains one.
\<close>

section \<open>Strings\<close>

definition ascii_lower :: "nat \<Rightarrow> nat" where
  "ascii_lower r = (if 65 \<le> r \<and> r \<le> 90 then r + 32 else r)"

definition lower_chunk :: "nat option \<times> string \<Rightarrow> string" where
  "lower_chunk c =
     (case fst c of None \<Rightarrow> snd c
      | Some r \<Rightarrow> if r < 128 then [char_of (ascii_lower r)] else if r = 304 then ''i'' else if r = 8490 then ''k'' else snd c)"

definition strings_ToLower :: "string \<Rightarrow> string" where
  "strings_ToLower s = concat (map lower_chunk (utf8_chunks s))"

definition CutSuffix :: "string \<Rightarrow> string \<Rightarrow> string option" where
  "CutSuffix s suf =
     (let n = length s - length suf in
      if length suf \<le> length s \<and> drop n s = suf then Some (take n s) else None)"

definition CutPrefix :: "string \<Rightarrow> string \<Rightarrow> string option" where
  "CutPrefix s pre = (if take (length pre) s = pre then Some (drop (length pre) s) else None)"

definition HasSuffix :: "string \<Rightarrow> string \<Rightarrow> bool" where
  "HasSuffix s suf \<longleftrightarrow> CutSuffix s suf \<noteq> None"

text \<open>\<^verbatim>\<open>strings.Cut\<close>, \<^verbatim>\<open>strings.Split\<close> at one character and \<^verbatim>\<open>strings.Count\<close>.\<close>

fun strings_Cut :: "string \<Rightarrow> string \<Rightarrow> (string \<times> string) option" where
  "strings_Cut sep [] = (if sep = [] then Some ([], []) else None)"
| "strings_Cut sep (c # s) =
     (case CutPrefix (c # s) sep of Some rest \<Rightarrow> Some ([], rest)
      | None \<Rightarrow> map_option (apfst (Cons c)) (strings_Cut sep s))"

fun split_on :: "char \<Rightarrow> string \<Rightarrow> string list" where
  "split_on x [] = [[]]"
| "split_on x (c # s) =
     (if c = x then [] # split_on x s
      else case split_on x s of [] \<Rightarrow> [[c]] | p # ps \<Rightarrow> (c # p) # ps)"

fun strings_Count :: "nat \<Rightarrow> string \<Rightarrow> string \<Rightarrow> nat" where
  "strings_Count 0 s sep = 0"
| "strings_Count (Suc fuel) s sep =
     (case strings_Cut sep s of None \<Rightarrow> 0 | Some (_, rest) \<Rightarrow> Suc (strings_Count fuel rest sep))"

section \<open>Labels\<close>

definition label_char :: "char \<Rightarrow> bool" where
  "label_char c \<longleftrightarrow> (let n = of_char c :: nat in 97 \<le> n \<and> n \<le> 122 \<or> 48 \<le> n \<and> n \<le> 57 \<or> n = 45)"

definition validLabel :: "string \<Rightarrow> bool" where
  "validLabel s \<longleftrightarrow>
     s \<noteq> [] \<and> length s \<le> 63 \<and> hd s \<noteq> CHR ''-'' \<and> last s \<noteq> CHR ''-'' \<and> list_all label_char s"

definition validHostSuffix :: "string \<Rightarrow> bool" where
  "validHostSuffix host \<longleftrightarrow> list_all validLabel (split_on (CHR ''.'') host)"

section \<open>Templates\<close>

record OriginTemplate =
  og_scheme :: string
  og_suffix :: string

definition sessionIDPlaceholder :: string where
  "sessionIDPlaceholder = ''{sessionId}''"

definition Origin_IsZero :: "OriginTemplate \<Rightarrow> bool" where
  "Origin_IsZero o1 \<longleftrightarrow> og_scheme o1 = []"

definition Secure :: "OriginTemplate \<Rightarrow> bool" where
  "Secure o1 \<longleftrightarrow> og_scheme o1 = ''https''"

definition Origin_String :: "OriginTemplate \<Rightarrow> string" where
  "Origin_String o1 = (if Origin_IsZero o1 then [] else og_scheme o1 @ ''://'' @ sessionIDPlaceholder @ ''.'' @ og_suffix o1)"

definition Origin :: "OriginTemplate \<Rightarrow> string \<Rightarrow> string" where
  "Origin o1 i = og_scheme o1 @ ''://'' @ i @ ''.'' @ og_suffix o1"

text \<open>The default port of the scheme is dropped unless the template names it.\<close>

definition drop_default_port :: "OriginTemplate \<Rightarrow> string \<Rightarrow> string" where
  "drop_default_port o1 host =
     (let h1 = (if og_scheme o1 = ''https'' \<and> HasSuffix host '':443'' \<and> \<not> HasSuffix (og_suffix o1) '':443''
                then the (CutSuffix host '':443'') else host) in
      if og_scheme o1 = ''http'' \<and> HasSuffix h1 '':80'' \<and> \<not> HasSuffix (og_suffix o1) '':80''
      then the (CutSuffix h1 '':80'') else h1)"

definition SessionID :: "OriginTemplate \<Rightarrow> string \<Rightarrow> string option" where
  "SessionID o1 host =
     (if Origin_IsZero o1 then None
      else case CutSuffix (drop_default_port o1 (strings_ToLower host)) (CHR ''.'' # og_suffix o1) of
          None \<Rightarrow> None
        | Some i \<Rightarrow> if validLabel i then Some i else None)"

definition MatchesHost :: "OriginTemplate \<Rightarrow> string \<Rightarrow> bool" where
  "MatchesHost o1 host \<longleftrightarrow> SessionID o1 host \<noteq> None"

definition ConflictsWith :: "OriginTemplate \<Rightarrow> string \<Rightarrow> bool" where
  "ConflictsWith o1 publicOrigin \<longleftrightarrow>
     (case strings_Cut ''://'' publicOrigin of None \<Rightarrow> False | Some (_, host) \<Rightarrow> MatchesHost o1 host)"

section \<open>Parsing a template\<close>

text \<open>
  The host and port that \<^verbatim>\<open>url.Parse\<close> finds in an authority without user, path, query and fragment. It refuses
  control characters, a port that is not made of digits, brackets that do not enclose an IP literal (which is refused
  later in any case) and escapes of ASCII characters; the other escapes are resolved.
\<close>

definition hex_digit :: "char \<Rightarrow> nat option" where
  "hex_digit c =
     (let n = of_char c :: nat in
      if 48 \<le> n \<and> n \<le> 57 then Some (n - 48) else if 97 \<le> n \<and> n \<le> 102 then Some (n - 87)
      else if 65 \<le> n \<and> n \<le> 70 then Some (n - 55) else None)"

fun unescape_host :: "string \<Rightarrow> string option" where
  "unescape_host [] = Some []"
| "unescape_host (c # s) =
     (if c \<noteq> CHR 0x25 then map_option (Cons c) (unescape_host s)
      else case s of
          a # b # rest \<Rightarrow>
            (case (hex_digit a, hex_digit b) of
               (Some x, Some y) \<Rightarrow>
                 if x < 8 \<and> 16 * x + y \<noteq> 37 then None else map_option (Cons (char_of (16 * x + y))) (unescape_host rest)
             | _ \<Rightarrow> None)
        | _ \<Rightarrow> None)"

definition last_colon :: "string \<Rightarrow> (string \<times> string) option" where
  "last_colon s =
     (if CHR '':'' \<notin> set s then None
      else Some (rev (tl (dropWhile (\<lambda>c. c \<noteq> CHR '':'') (rev s))), rev (takeWhile (\<lambda>c. c \<noteq> CHR '':'') (rev s))))"

definition parse_authority :: "string \<Rightarrow> (string \<times> string) option" where
  "parse_authority s =
     (if list_ex (\<lambda>c. (of_char c :: nat) < 33 \<or> of_char c = (127 :: nat) \<or> c = CHR ''['' \<or> c = CHR '']'') s then None
      else case last_colon s of
          None \<Rightarrow> map_option (\<lambda>h. (h, [])) (unescape_host s)
        | Some (h, port) \<Rightarrow> if list_all is_digit port then map_option (\<lambda>h. (h, port)) (unescape_host h) else None)"

text \<open>\<^verbatim>\<open>net.ParseIP\<close> on a host without a colon: four numbers below 256 without leading zeros.\<close>

definition is_ipv4 :: "string \<Rightarrow> bool" where
  "is_ipv4 s \<longleftrightarrow>
     (let ps = split_on (CHR ''.'') s in
      length ps = 4 \<and> list_all (\<lambda>p. p \<noteq> [] \<and> length p \<le> 3 \<and> list_all is_digit p \<and> digits_value p < 256
        \<and> (length p = 1 \<or> hd p \<noteq> CHR ''0'')) ps)"

datatype origin_error = InvalidTemplate | HTTPSRequired

text \<open>The host with its port, written in one way.\<close>

definition normal_suffix :: "string \<Rightarrow> string \<Rightarrow> string \<Rightarrow> string" where
  "normal_suffix scheme host port0 =
     (let port1 = (if port0 = [] then [] else decimal (digits_value port0));
          port = (if scheme = ''http'' \<and> port1 = ''80'' \<or> scheme = ''https'' \<and> port1 = ''443'' then [] else port1) in
      if port = [] then host else host @ '':'' @ port)"

definition ParseOriginTemplate :: "string \<Rightarrow> bool \<Rightarrow> origin_error + OriginTemplate" where
  "ParseOriginTemplate raw0 requireHTTPS =
     (let raw = strings_TrimSpace raw0 in
      if strings_Count (length raw) raw sessionIDPlaceholder \<noteq> 1 then Inl InvalidTemplate
      else case strings_Cut ''://'' raw of None \<Rightarrow> Inl InvalidTemplate
      | Some (scheme0, rest) \<Rightarrow>
     (let scheme = strings_ToLower scheme0 in
      if scheme \<noteq> ''http'' \<and> scheme \<noteq> ''https'' then Inl InvalidTemplate
      else if requireHTTPS \<and> scheme \<noteq> ''https'' then Inl HTTPSRequired
      else case CutPrefix rest (sessionIDPlaceholder @ ''.'') of None \<Rightarrow> Inl InvalidTemplate
      | Some hostPort \<Rightarrow>
          if hostPort = [] \<or> list_ex (\<lambda>c. c \<in> set ''/?#{}@'') hostPort then Inl InvalidTemplate
          else case parse_authority hostPort of None \<Rightarrow> Inl InvalidTemplate
          | Some (host0, port0) \<Rightarrow>
              (let host = strings_ToLower host0 in
               if host0 = [] \<or> is_ipv4 host \<or> CHR '':'' \<in> set host \<or> \<not> validHostSuffix host then Inl InvalidTemplate
               else if port0 \<noteq> [] \<and> (digits_value port0 = 0 \<or> 65535 < digits_value port0) then Inl InvalidTemplate
               else Inr \<lparr>og_scheme = scheme, og_suffix = normal_suffix scheme host port0\<rparr>)))"

section \<open>A host for every session\<close>

definition plain_char :: "char \<Rightarrow> bool" where
  "plain_char c \<longleftrightarrow> (of_char c :: nat) < 128 \<and> ascii_lower (of_char c) = of_char c"

lemma ToLower_plain: "list_all plain_char s \<Longrightarrow> strings_ToLower s = s"
  by (induction s) (auto simp: strings_ToLower_def lower_chunk_def plain_char_def)

lemma label_char_plain: "label_char c \<Longrightarrow> plain_char c"
  by (auto simp: label_char_def plain_char_def ascii_lower_def Let_def)

lemma plain_separators [simp]: "plain_char (CHR ''.'')" "plain_char (CHR '':'')"
  by (simp_all add: plain_char_def ascii_lower_def)

lemma split_on_set: "set s \<subseteq> insert x (\<Union> (set ` set (split_on x s)))"
proof (induction s)
  case (Cons c s)
  then show ?case by (cases "split_on x s") auto
qed simp

lemma validHostSuffix_chars: "validHostSuffix h \<Longrightarrow> c \<in> set h \<Longrightarrow> label_char c \<or> c = CHR ''.''"
  using split_on_set [of h "CHR ''.''"] by (fastforce simp: validHostSuffix_def validLabel_def list_all_iff)

lemma CutSuffix_iff: "CutSuffix s suf = Some p \<longleftrightarrow> s = p @ suf"
  by (auto simp: CutSuffix_def Let_def dest: arg_cong [where f = length]) (metis append_take_drop_id)

lemma HasSuffix_iff: "HasSuffix s suf \<longleftrightarrow> (\<exists>p. s = p @ suf)"
  unfolding HasSuffix_def not_None_eq CutSuffix_iff by blast

text \<open>What an accepted template looks like.\<close>

definition origin_wf :: "OriginTemplate \<Rightarrow> bool" where
  "origin_wf o1 \<longleftrightarrow>
     og_scheme o1 \<in> {''http'', ''https''} \<and> list_all plain_char (og_suffix o1) \<and> og_suffix o1 \<noteq> []
     \<and> (og_scheme o1 = ''https'' \<longrightarrow> \<not> HasSuffix (og_suffix o1) '':443'') \<and> (og_scheme o1 = ''http'' \<longrightarrow> \<not> HasSuffix (og_suffix o1) '':80'')"

lemma decimal_char: "c \<in> set (decimal n) \<Longrightarrow> plain_char c \<and> c \<noteq> CHR '':''"
proof -
  assume "c \<in> set (decimal n)"
  then obtain x :: nat where x: "48 \<le> x" "x < 58" "c = char_of x" using decimal_digits [of n] by fastforce
  then have n: "of_char c = x" by simp
  have "c \<noteq> CHR '':''"
  proof
    assume "c = CHR '':''"
    with n have "x = 58" by simp
    with x(2) show False by simp
  qed
  with n x(1,2) show ?thesis by (auto simp: plain_char_def ascii_lower_def)
qed

lemma port_suffix:
  assumes "CHR '':'' \<notin> set host" "CHR '':'' \<notin> set port" "CHR '':'' \<notin> set p" "HasSuffix (if port = [] then host else host @ '':'' @ port) (CHR '':'' # p)"
  shows "port \<noteq> [] \<and> p = port"
proof -
  from assms(4) obtain q where q: "(if port = [] then host else host @ '':'' @ port) = q @ CHR '':'' # p" unfolding HasSuffix_iff by blast
  show ?thesis
  proof (cases "port = []")
    case True
    with q have "CHR '':'' \<in> set host" by simp
    with assms(1) show ?thesis by simp
  next
    case False
    with q have "host @ CHR '':'' # port = q @ CHR '':'' # p" by simp
    then have "takeWhile (\<lambda>c. c \<noteq> CHR '':'') (rev (host @ CHR '':'' # port)) = takeWhile (\<lambda>c. c \<noteq> CHR '':'') (rev (q @ CHR '':'' # p))" by simp
    then have "rev port = rev p" using assms(2,3) by (simp add: takeWhile_append takeWhile_eq_all_conv [THEN iffD2] del: rev_append) (auto simp: takeWhile_append split: if_splits)
    with False show ?thesis by simp
  qed
qed

lemma ParseOriginTemplate_wf:
  assumes "ParseOriginTemplate raw requireHTTPS = Inr o1"
  shows "origin_wf o1" "requireHTTPS \<longrightarrow> Secure o1"
proof -
  from assms obtain host port0 where o1: "og_scheme o1 \<in> {''http'', ''https''}" "requireHTTPS \<longrightarrow> og_scheme o1 = ''https''"
    and host: "validHostSuffix host" "CHR '':'' \<notin> set host" and suffix: "og_suffix o1 = normal_suffix (og_scheme o1) host port0"
    unfolding ParseOriginTemplate_def Let_def by (auto split: if_splits option.splits prod.splits)
  show "requireHTTPS \<longrightarrow> Secure o1" using o1(2) by (simp add: Secure_def)
  obtain port1 where p1: "port1 = (if port0 = [] then [] else decimal (digits_value port0))" by blast
  define port where "port = (if og_scheme o1 = ''http'' \<and> port1 = ''80'' \<or> og_scheme o1 = ''https'' \<and> port1 = ''443'' then [] else port1)"
  have sfx: "og_suffix o1 = (if port = [] then host else host @ '':'' @ port)"
    unfolding suffix normal_suffix_def port_def p1 Let_def ..
  have chars: "plain_char c \<and> c \<noteq> CHR '':''" if "c \<in> set port" for c
    using that decimal_char by (auto simp: port_def p1 split: if_splits)
  have ne: "host \<noteq> []" using host(1) by (cases host) (auto simp: validHostSuffix_def validLabel_def)
  have "plain_char c" if "c \<in> set host" for c
    using validHostSuffix_chars [OF host(1) that] label_char_plain by auto
  then have "list_all plain_char (og_suffix o1)" using chars by (auto simp: sfx list_all_iff)
  moreover have nc: "CHR '':'' \<notin> set port" using chars by blast
  moreover have "\<not> HasSuffix (og_suffix o1) '':443''" if "og_scheme o1 = ''https''"
    using port_suffix [OF host(2) nc, of "''443''"] that unfolding sfx by (auto simp: port_def split: if_splits)
  moreover have "\<not> HasSuffix (og_suffix o1) '':80''" if "og_scheme o1 = ''http''"
    using port_suffix [OF host(2) nc, of "''80''"] that unfolding sfx by (auto simp: port_def split: if_splits)
  ultimately show "origin_wf o1" using o1(1) ne by (auto simp: origin_wf_def sfx)
qed

definition default_port :: "OriginTemplate \<Rightarrow> string" where
  "default_port o1 = (if Secure o1 then '':443'' else '':80'')"

lemma drop_default_port:
  assumes "origin_wf o1"
  shows "drop_default_port o1 h = (if HasSuffix h (default_port o1) then the (CutSuffix h (default_port o1)) else h)"
  using assms by (auto simp: origin_wf_def drop_default_port_def default_port_def Secure_def Let_def)

lemma session_host_iff:
  assumes "origin_wf o1"
  shows "SessionID o1 h = Some i \<longleftrightarrow>
     validLabel i \<and> strings_ToLower h \<in> {i @ ''.'' @ og_suffix o1, i @ ''.'' @ og_suffix o1 @ default_port o1}"
proof -
  let ?h = "strings_ToLower h" and ?s = "CHR ''.'' # og_suffix o1"
  have nz: "\<not> Origin_IsZero o1" using assms by (auto simp: origin_wf_def Origin_IsZero_def)
  have no: "\<not> HasSuffix (i @ ?s) (default_port o1)"
  proof
    assume "HasSuffix (i @ ?s) (default_port o1)"
    then obtain q where q: "i @ ?s = q @ default_port o1" unfolding HasSuffix_iff by blast
    have dot: "CHR ''.'' \<notin> set (default_port o1)" "hd (default_port o1) \<noteq> CHR ''.''" "default_port o1 \<noteq> []" by (simp_all add: default_port_def)
    from q consider us where "us @ ?s = default_port o1" | us where "?s = us @ default_port o1"
      unfolding append_eq_append_conv2 by blast
    then show False
    proof cases
      case (1 us)
      then have "CHR ''.'' \<in> set (default_port o1)" by (metis in_set_conv_decomp)
      with dot show False by simp
    next
      case (2 us)
      have "us \<noteq> []"
      proof
        assume "us = []"
        with 2 have "default_port o1 = ?s" by simp
        then have "hd (default_port o1) = CHR ''.''" by simp
        with dot show False by simp
      qed
      with 2 obtain us' where "og_suffix o1 = us' @ default_port o1" by (cases us) auto
      then have "HasSuffix (og_suffix o1) (default_port o1)" unfolding HasSuffix_iff by blast
      with assms show False by (auto simp: origin_wf_def default_port_def Secure_def)
    qed
  qed
  have "drop_default_port o1 ?h = i @ ?s \<longleftrightarrow> ?h = i @ ?s \<or> ?h = i @ ?s @ default_port o1"
  proof (cases "HasSuffix ?h (default_port o1)")
    case True
    then obtain q where q: "?h = q @ default_port o1" unfolding HasSuffix_iff by blast
    then have "CutSuffix ?h (default_port o1) = Some q" by (simp add: CutSuffix_iff)
    with True no q show ?thesis by (auto simp: drop_default_port [OF assms])
  next
    case False
    then have "?h \<noteq> (i @ ?s) @ default_port o1" unfolding HasSuffix_iff by blast
    with False show ?thesis by (simp add: drop_default_port [OF assms])
  qed
  moreover have "SessionID o1 h = Some i \<longleftrightarrow> validLabel i \<and> CutSuffix (drop_default_port o1 ?h) ?s = Some i"
    using nz by (auto simp: SessionID_def split: option.splits)
  ultimately show ?thesis by (simp add: CutSuffix_iff)
qed

text \<open>
  C35: Every preview session has a host of its own. With a template that was accepted, the origin made for a valid
  session identifier has a host, with or without the default port, that is recognised as exactly this session,
  in any case of letters; and no host is recognised as a session unless it is the host of that
  session's origin. Under \<open>requireHTTPS\<close> the origin is secure.
\<close>

theorem preview_host_identifies:
  assumes "ParseOriginTemplate raw requireHTTPS = Inr o1"
  shows "(\<forall>i. validLabel i \<longrightarrow> Origin o1 i = og_scheme o1 @ ''://'' @ i @ ''.'' @ og_suffix o1
          \<and> SessionID o1 (i @ ''.'' @ og_suffix o1) = Some i \<and> SessionID o1 (i @ ''.'' @ og_suffix o1 @ default_port o1) = Some i)
    \<and> (\<forall>h i. SessionID o1 h = Some i \<longleftrightarrow>
          validLabel i \<and> strings_ToLower h \<in> {i @ ''.'' @ og_suffix o1, i @ ''.'' @ og_suffix o1 @ default_port o1})
    \<and> (requireHTTPS \<longrightarrow> Secure o1) \<and> inj (Origin o1)"
proof -
  note wf = ParseOriginTemplate_wf [OF assms]
  have suffix: "list_all plain_char (og_suffix o1)" using wf(1) by (simp add: origin_wf_def)
  have port: "list_all plain_char (default_port o1)" by (auto simp: default_port_def) (simp_all add: plain_char_def ascii_lower_def)
  have "list_all plain_char i" if "validLabel i" for i
    using that label_char_plain by (auto simp: validLabel_def list_all_iff)
  then have plain: "strings_ToLower (i @ ''.'' @ og_suffix o1) = i @ ''.'' @ og_suffix o1"
    "strings_ToLower (i @ ''.'' @ og_suffix o1 @ default_port o1) = i @ ''.'' @ og_suffix o1 @ default_port o1" if "validLabel i" for i
    using that suffix port by (simp_all add: ToLower_plain)
  have "inj (Origin o1)" by (auto simp: inj_def Origin_def)
  with plain wf(2) show ?thesis by (simp add: session_host_iff [OF wf(1)] Origin_def)
qed

definition demo_template :: OriginTemplate where
  "demo_template = \<lparr>og_scheme = ''https'', og_suffix = ''p.io:8443''\<rparr>"

lemma demo_template_parsed: "ParseOriginTemplate '' HTTPS://{sessionId}.P.io:08443'' True = Inr demo_template"
proof -
  let ?t = "''HTTPS://{sessionId}.P.io:08443''"
  have t: "strings_TrimSpace (CHR '' '' # ?t) = ?t" by (simp add: strings_TrimSpace_def space_chunk_def unicode_IsSpace_def)
  have c: "strings_Count (length ?t) ?t sessionIDPlaceholder = 1" by code_simp
  have k: "strings_Cut ''://'' ?t = Some (''HTTPS'', ''{sessionId}.P.io:08443'')" by code_simp
  have p: "CutPrefix ''{sessionId}.P.io:08443'' (sessionIDPlaceholder @ ''.'') = Some ''P.io:08443''" by code_simp
  have a: "parse_authority ''P.io:08443'' = Some (''P.io'', ''08443'')" by code_simp
  have l: "strings_ToLower ''HTTPS'' = ''https''" "strings_ToLower ''P.io'' = ''p.io''"
    by (simp_all add: strings_ToLower_def lower_chunk_def ascii_lower_def char_of_eq_iff)
  have v: "validHostSuffix ''p.io''" "\<not> is_ipv4 ''p.io''" by code_simp+
  have d: "digits_value ''08443'' = 8443" by (simp add: digits_value_def digit_value_def)
  then have n: "normal_suffix ''https'' ''p.io'' ''08443'' = ''p.io:8443''"
    by (simp add: normal_suffix_def decimal.simps char_of_eq_iff)
  have x: "\<not> list_ex (\<lambda>c. c \<in> set ''/?#{}@'') ''P.io:08443''" "CHR '':'' \<notin> set ''p.io''" by code_simp+
  show ?thesis
    unfolding ParseOriginTemplate_def Let_def t c k option.case prod.case l p a
    using v n d x by (simp add: demo_template_def)
qed

theorem preview_host_identifies_witness:
  "SessionID demo_template ''a1.p.io:8443'' = Some ''a1'' \<and> SessionID demo_template ''A1.p.IO:8443:443'' = Some ''a1''
     \<and> inj (Origin demo_template)"
proof -
  have l: "validLabel ''a1''" by code_simp
  have lower: "strings_ToLower ''A1.p.IO:8443:443'' = ''a1.p.io:8443:443''"
    by (simp add: strings_ToLower_def lower_chunk_def ascii_lower_def char_of_eq_iff)
  from preview_host_identifies [OF demo_template_parsed]
  have h: "\<forall>i. validLabel i \<longrightarrow> SessionID demo_template (i @ ''.'' @ og_suffix demo_template) = Some i"
    "\<forall>h i. SessionID demo_template h = Some i \<longleftrightarrow> validLabel i \<and> strings_ToLower h
       \<in> {i @ ''.'' @ og_suffix demo_template, i @ ''.'' @ og_suffix demo_template @ default_port demo_template}"
    "inj (Origin demo_template)" by blast+
  have "SessionID demo_template ''A1.p.IO:8443:443'' = Some ''a1''"
    using h(2) l lower by (simp add: demo_template_def default_port_def Secure_def)
  moreover have "SessionID demo_template ''a1.p.io:8443'' = Some ''a1''"
    using h(1) [rule_format, OF l] by (simp add: demo_template_def)
  ultimately show ?thesis using h(3) by blast
qed

end
