(* ===== verification/Preview_Gateway.thy ===== *)
theory Preview_Gateway
  imports Go_Base64 Preview_Origin
begin

text \<open>
  The Preview Gateway (\<^verbatim>\<open>internal/server/preview\<close>: \<^verbatim>\<open>session.go\<close>, \<^verbatim>\<open>preview.go\<close>, \<^verbatim>\<open>gateway.go\<close>, \<^verbatim>\<open>data.go\<close>,
  \<^verbatim>\<open>credential.go\<close>, \<^verbatim>\<open>tunnel.go\<close>): the preview sessions that the process keeps in memory, their credentials, and
  the Data connections and tunnels of the Connectors.

  A Go pointer to a session, connection or tunnel is a position in a list of the gateway, and the map of the
  gateway points into the list of sessions, so that a call that has looked a session up goes on with the session
  also after the map has lost it. A channel that is only ever closed is a flag, and a channel made for one attempt
  a position in a list of flags. SHA-256, the random bytes of a token and the clock are arguments. A timer is an
  entry of \<open>gw_timers\<close> with the time it is due; a stopped expiry timer stays there, because firing it on an
  ended session does nothing.
\<close>

section \<open>Data\<close>

datatype sessionState = statePending | stateAttached | stateActive | stateEnded

datatype preview_error =
    PvClosed | PvInvalidSession | PvDuplicateSession | PvUnknownSession | PvSessionEnded | PvNotAttached
  | PvAlreadyActive | PvControlMismatch | PvEmptyOpenID | PvTunnelClosed

record EndNotice =
  en_Reason :: string
  en_NotifyConnector :: bool

record Expected =
  pe_SessionID :: string
  pe_OwnerID :: string
  pe_OrganizationID :: string
  pe_ConnectorID :: uuid
  pe_LabInstanceID :: string
  pe_Generation :: int
  pe_TargetVMKey :: string
  pe_ProviderServerID :: string
  pe_TargetPort :: int
  pe_TTL :: int
  pe_RequestID :: string
  pe_OpenMessageID :: string

record Binding =
  bd_ConnectorID :: uuid
  bd_ControlSessionID :: uuid
  bd_CredentialID :: uuid

record ConnectorIdentity =
  cy_ConnectorID :: uuid
  cy_CredentialID :: uuid

record preview_session =
  px_id :: string
  px_ownerID :: string
  px_orgID :: string
  px_connectorID :: uuid
  px_labInstanceID :: string
  px_generation :: int
  px_vmKey :: string
  px_serverID :: string
  px_port :: int
  px_ttl :: int
  px_requestID :: string
  px_attached :: bool
  px_endedChan :: bool
  px_state :: sessionState
  px_bound :: bool
  px_controlSession :: uuid
  px_credentialID :: uuid
  px_data :: "nat option"
  px_tunnel :: "nat option"
  px_tunnelDialed :: bool
  px_openPending :: bool
  px_pendingOpenID :: string
  px_tunnelReady :: "nat option"
  px_activated :: bool
  px_expiresAt :: "go_time option"
  px_bootstrapDigest :: string
  px_bootstrapExpires :: go_time
  px_bootstrapUsed :: bool
  px_cookieDigest :: string
  px_cookieIssued :: bool
  px_proxy :: bool
  px_end :: EndNotice

definition no_digest :: string where
  "no_digest = replicate 32 (CHR 0x00)"

definition newSession :: "Expected \<Rightarrow> preview_session" where
  "newSession e =
     \<lparr>px_id = pe_SessionID e, px_ownerID = pe_OwnerID e, px_orgID = pe_OrganizationID e, px_connectorID = pe_ConnectorID e,
      px_labInstanceID = pe_LabInstanceID e, px_generation = pe_Generation e, px_vmKey = pe_TargetVMKey e,
      px_serverID = pe_ProviderServerID e, px_port = pe_TargetPort e, px_ttl = pe_TTL e, px_requestID = pe_RequestID e,
      px_attached = False, px_endedChan = False, px_state = statePending, px_bound = False, px_controlSession = uuid_Nil,
      px_credentialID = uuid_Nil, px_data = None, px_tunnel = None, px_tunnelDialed = False,
      px_openPending = (pe_OpenMessageID e \<noteq> []), px_pendingOpenID = pe_OpenMessageID e, px_tunnelReady = None,
      px_activated = False, px_expiresAt = None, px_bootstrapDigest = no_digest, px_bootstrapExpires = 0,
      px_bootstrapUsed = False, px_cookieDigest = no_digest, px_cookieIssued = False, px_proxy = False,
      px_end = \<lparr>en_Reason = [], en_NotifyConnector = False\<rparr>\<rparr>"

section \<open>Tokens\<close>

definition tokenBytes :: nat where
  "tokenBytes = 32"

definition tokenLength :: nat where
  "tokenLength = 43"

definition newToken :: "(string \<Rightarrow> string) \<Rightarrow> string \<Rightarrow> string \<times> string" where
  "newToken sha b = (base64_encode b, sha (base64_encode b))"

text \<open>The digest is of the text that was presented; the answer is \<^const>\<open>None\<close> for a malformed one.\<close>

definition previewTokenDigest :: "(string \<Rightarrow> string) \<Rightarrow> string \<Rightarrow> string option" where
  "previewTokenDigest sha presented =
     (if length presented \<noteq> tokenLength then None
      else case base64_decode_strict presented of None \<Rightarrow> None
         | Some decoded \<Rightarrow> if length decoded \<noteq> tokenBytes then None else Some (sha presented))"

section \<open>The critical sections of a session\<close>

definition bind_session :: "Binding \<Rightarrow> preview_session \<Rightarrow> (preview_error + unit) \<times> preview_session" where
  "bind_session b s =
     (if px_state s = stateEnded then (Inl PvSessionEnded, s)
      else if bd_ConnectorID b \<noteq> px_connectorID s then (Inl PvControlMismatch, s)
      else (Inr (), s\<lparr>px_bound := True, px_controlSession := bd_ControlSessionID b, px_credentialID := bd_CredentialID b\<rparr>))"

text \<open>\<open>ch\<close> is the channel that is made for the attempt.\<close>

definition prepareTunnel :: "string \<Rightarrow> nat \<Rightarrow> preview_session \<Rightarrow> (preview_error + nat) \<times> preview_session" where
  "prepareTunnel openMessageID ch s =
     (if px_state s = stateEnded then (Inl PvSessionEnded, s)
      else if openMessageID = [] then (Inl PvEmptyOpenID, s)
      else (Inr ch, s\<lparr>px_openPending := True, px_pendingOpenID := openMessageID, px_tunnelReady := Some ch\<rparr>))"

definition cancelTunnel :: "string \<Rightarrow> preview_session \<Rightarrow> preview_session" where
  "cancelTunnel openMessageID s =
     (if px_openPending s \<and> px_pendingOpenID s = openMessageID
      then s\<lparr>px_openPending := False, px_pendingOpenID := [], px_tunnelReady := None\<rparr> else s)"

text \<open>A reason to refuse, or \<^const>\<open>None\<close> for the empty text.\<close>

definition claimAttach :: "nat \<Rightarrow> ConnectorIdentity \<Rightarrow> string \<Rightarrow> preview_session \<Rightarrow> string option \<times> preview_session" where
  "claimAttach d identity replyTo s =
     (if px_state s = stateEnded then (Some ''session_ended'', s)
      else if \<not> px_openPending s then (Some ''request_not_waiting'', s)
      else if replyTo = [] \<or> replyTo \<noteq> px_pendingOpenID s then (Some ''stale_attach'', s)
      else if \<not> px_bound s then (Some ''control_not_bound'', s)
      else if cy_ConnectorID identity \<noteq> px_connectorID s then (Some ''wrong_connector'', s)
      else if cy_CredentialID identity \<noteq> px_credentialID s then (Some ''wrong_credential'', s)
      else (None, s\<lparr>px_state := (if px_state s = statePending then stateAttached else px_state s), px_data := Some d\<rparr>))"

text \<open>With the channel that is closed, if there is one.\<close>

definition setTunnel :: "nat \<Rightarrow> preview_session \<Rightarrow> (bool \<times> nat option) \<times> preview_session" where
  "setTunnel t s =
     (if px_state s = stateEnded then ((False, None), s)
      else ((True, px_tunnelReady s),
            s\<lparr>px_tunnel := Some t, px_tunnelDialed := False, px_openPending := False, px_pendingOpenID := [],
              px_attached := True, px_tunnelReady := None\<rparr>))"

definition clearTunnel :: "nat \<Rightarrow> preview_session \<Rightarrow> preview_session" where
  "clearTunnel t s = (if px_tunnel s = Some t then s\<lparr>px_tunnel := None, px_tunnelDialed := False\<rparr> else s)"

definition activate ::
  "(string \<Rightarrow> string) \<Rightarrow> int \<Rightarrow> go_time \<Rightarrow> string \<Rightarrow> preview_session \<Rightarrow> (preview_error + string \<times> go_time) \<times> preview_session" where
  "activate sha bootstrapTTL now raw s =
     (if px_state s = stateEnded then (Inl PvSessionEnded, s)
      else if px_state s = stateActive then (Inl PvAlreadyActive, s)
      else if px_state s \<noteq> stateAttached \<or> px_tunnel s = None then (Inl PvNotAttached, s)
      else
        (let expiresAt = now + px_ttl s; (credential, digest) = newToken sha raw;
             bootstrapExpires = (if expiresAt < now + bootstrapTTL then expiresAt else now + bootstrapTTL) in
         (Inr (credential, expiresAt),
          s\<lparr>px_expiresAt := Some expiresAt, px_bootstrapDigest := digest, px_bootstrapExpires := bootstrapExpires,
            px_proxy := True, px_state := stateActive, px_activated := True\<rparr>)))"

text \<open>\<^verbatim>\<open>now.Before(s.expiresAt)\<close>; nothing is before the zero time.\<close>

definition not_expired :: "go_time \<Rightarrow> preview_session \<Rightarrow> bool" where
  "not_expired now s \<longleftrightarrow> (case px_expiresAt s of None \<Rightarrow> False | Some t \<Rightarrow> now < t)"

definition exchange ::
  "(string \<Rightarrow> string) \<Rightarrow> go_time \<Rightarrow> string \<Rightarrow> string \<Rightarrow> preview_session \<Rightarrow> (string \<times> go_time) option \<times> preview_session" where
  "exchange sha now raw presented s =
     (if px_state s \<noteq> stateActive \<or> \<not> not_expired now s \<or> px_bootstrapUsed s \<or> \<not> now < px_bootstrapExpires s then (None, s)
      else if previewTokenDigest sha presented \<noteq> Some (px_bootstrapDigest s) then (None, s)
      else
        (let (token, digest) = newToken sha raw in
         (Some (token, the (px_expiresAt s)),
          s\<lparr>px_bootstrapUsed := True, px_cookieDigest := digest, px_cookieIssued := True\<rparr>)))"

definition authenticate :: "(string \<Rightarrow> string) \<Rightarrow> go_time \<Rightarrow> string \<Rightarrow> preview_session \<Rightarrow> bool" where
  "authenticate sha now presented s \<longleftrightarrow>
     px_state s = stateActive \<and> not_expired now s \<and> px_cookieIssued s
     \<and> previewTokenDigest sha presented = Some (px_cookieDigest s)"

definition active_session :: "go_time \<Rightarrow> preview_session \<Rightarrow> bool" where
  "active_session now s \<longleftrightarrow> px_state s = stateActive \<and> not_expired now s"

text \<open>The two critical sections of \<open>dial\<close>: before a new tunnel is opened, and after.\<close>

datatype dial_first = DialClosed | DialConn nat | DialOpen

definition dial_begin :: "preview_session \<Rightarrow> dial_first \<times> preview_session" where
  "dial_begin s =
     (if px_state s \<noteq> stateActive then (DialClosed, s)
      else case px_tunnel s of
          Some t \<Rightarrow> if \<not> px_tunnelDialed s then (DialConn t, s\<lparr>px_tunnelDialed := True\<rparr>) else (DialOpen, s)
        | None \<Rightarrow> (DialOpen, s))"

definition dial_end :: "preview_session \<Rightarrow> (preview_error + nat) \<times> preview_session" where
  "dial_end s =
     (case px_tunnel s of
        Some t \<Rightarrow> if px_state s \<noteq> stateActive \<or> px_tunnelDialed s then (Inl PvTunnelClosed, s)
                  else (Inr t, s\<lparr>px_tunnelDialed := True\<rparr>)
      | None \<Rightarrow> (Inl PvTunnelClosed, s))"

record Info =
  pi_SessionID :: string
  pi_OwnerID :: string
  pi_OrganizationID :: string
  pi_ConnectorID :: uuid
  pi_LabInstanceID :: string
  pi_Generation :: int
  pi_TargetVMKey :: string
  pi_ProviderServerID :: string
  pi_TargetPort :: int
  pi_Ended :: bool
  pi_EndReason :: string
  pi_ExpiresAt :: "go_time option"
  pi_ControlSessionID :: uuid

definition info :: "preview_session \<Rightarrow> Info" where
  "info s =
     \<lparr>pi_SessionID = px_id s, pi_OwnerID = px_ownerID s, pi_OrganizationID = px_orgID s, pi_ConnectorID = px_connectorID s,
      pi_LabInstanceID = px_labInstanceID s, pi_Generation = px_generation s, pi_TargetVMKey = px_vmKey s,
      pi_ProviderServerID = px_serverID s, pi_TargetPort = px_port s, pi_Ended = (px_state s = stateEnded),
      pi_EndReason = en_Reason (px_end s), pi_ExpiresAt = px_expiresAt s, pi_ControlSessionID = px_controlSession s\<rparr>"

definition boundCredential :: "preview_session \<Rightarrow> uuid" where
  "boundCredential s = (if px_bound s then px_credentialID s else uuid_Nil)"

definition boundControlSession :: "preview_session \<Rightarrow> uuid" where
  "boundControlSession s = (if px_bound s then px_controlSession s else uuid_Nil)"

text \<open>The critical section of \<open>endSession\<close>; \<open>endSession\<close> itself is below.\<close>

definition mark_ended :: "EndNotice \<Rightarrow> preview_session \<Rightarrow> preview_session" where
  "mark_ended e s =
     s\<lparr>px_state := stateEnded, px_end := e, px_endedChan := True, px_openPending := False, px_pendingOpenID := [],
       px_tunnelReady := None, px_bootstrapUsed := True, px_cookieIssued := False, px_tunnel := None, px_data := None,
       px_proxy := False\<rparr>"

section \<open>The gateway\<close>

definition EndSessionClosed :: string where "EndSessionClosed = ''SESSION_CLOSED''"
definition EndSessionExpired :: string where "EndSessionExpired = ''SESSION_EXPIRED''"
definition EndLabReset :: string where "EndLabReset = ''LAB_RESET''"
definition EndLabCleanup :: string where "EndLabCleanup = ''LAB_CLEANUP''"
definition EndServiceRestarting :: string where "EndServiceRestarting = ''SERVICE_RESTARTING''"
definition EndProtocolViolation :: string where "EndProtocolViolation = ''PROTOCOL_VIOLATION''"
definition EndTunnelClosed :: string where "EndTunnelClosed = ''TUNNEL_CLOSED''"
definition EndCredentialRevoked :: string where "EndCredentialRevoked = ''CREDENTIAL_REVOKED''"
definition EndControlReplaced :: string where "EndControlReplaced = ''CONTROL_REPLACED''"

lemmas end_reasons = EndSessionClosed_def EndSessionExpired_def EndLabReset_def EndLabCleanup_def EndServiceRestarting_def
  EndProtocolViolation_def EndTunnelClosed_def EndCredentialRevoked_def EndControlReplaced_def

definition closeNormal :: nat where "closeNormal = 1000"
definition closeGoingAway :: nat where "closeGoingAway = 1001"
definition closePolicy :: nat where "closePolicy = 1008"
definition closeCredentialRevoked :: nat where "closeCredentialRevoked = 4001"
definition closeControlReplaced :: nat where "closeControlReplaced = 4002"

record tunnelCause =
  tu_Reason :: string
  tu_Notify :: bool

text \<open>A connection keeps the close frame that was sent first; a tunnel the cause of its first shutdown.\<close>

record dataConn =
  dc_identity :: ConnectorIdentity
  dc_bound :: bool
  dc_closed :: "(nat \<times> string) option"

record tunnel =
  tn_ws :: nat
  tn_cause :: "tunnelCause option"

record Ended =
  ed_SessionID :: string
  ed_ConnectorID :: uuid
  ed_LabInstanceID :: string
  ed_Generation :: int
  ed_RequestID :: string
  ed_Reason :: string
  ed_NotifyConnector :: bool
  ed_ControlSessionID :: uuid

datatype timer_action = ExpireSession nat | DropSession nat

record gateway =
  gw_origin :: OriginTemplate
  gw_bootstrapTTL :: int
  gw_heap :: "preview_session list"
  gw_sessions :: "string \<rightharpoonup> nat"
  gw_closed :: bool
  gw_lifecycle :: bool
  gw_conns :: "dataConn list"
  gw_tunnels :: "tunnel list"
  gw_chans :: "bool list"
  gw_timers :: "(go_time \<times> timer_action) list"
  gw_notices :: "Ended list"

definition NewGateway :: "OriginTemplate \<Rightarrow> int \<Rightarrow> gateway" where
  "NewGateway origin bootstrapTTL =
     \<lparr>gw_origin = origin, gw_bootstrapTTL = bootstrapTTL, gw_heap = [], gw_sessions = (\<lambda>_. None), gw_closed = False,
      gw_lifecycle = True, gw_conns = [], gw_tunnels = [], gw_chans = [], gw_timers = [], gw_notices = []\<rparr>"

definition at_session :: "nat \<Rightarrow> (preview_session \<Rightarrow> 'a \<times> preview_session) \<Rightarrow> gateway \<Rightarrow> 'a \<times> gateway" where
  "at_session p f g = (case f (gw_heap g ! p) of (r, s) \<Rightarrow> (r, g\<lparr>gw_heap := (gw_heap g)[p := s]\<rparr>))"

definition close_chan :: "nat option \<Rightarrow> gateway \<Rightarrow> gateway" where
  "close_chan ch g = (case ch of None \<Rightarrow> g | Some c \<Rightarrow> g\<lparr>gw_chans := (gw_chans g)[c := True]\<rparr>)"

definition close_conn :: "nat \<Rightarrow> string \<Rightarrow> nat \<Rightarrow> gateway \<Rightarrow> gateway" where
  "close_conn code txt d g =
     g\<lparr>gw_conns := (gw_conns g)[d := (let c = gw_conns g ! d in
        c\<lparr>dc_closed := (case dc_closed c of None \<Rightarrow> Some (code, txt) | Some x \<Rightarrow> Some x)\<rparr>)]\<rparr>"

text \<open>\<open>shutdown\<close> does its work once; the close of the local end makes the connection fail.\<close>

definition tunnel_shutdown :: "nat \<Rightarrow> string \<Rightarrow> tunnelCause \<Rightarrow> nat \<Rightarrow> gateway \<Rightarrow> gateway" where
  "tunnel_shutdown code txt cause t g =
     (let u = gw_tunnels g ! t in
      if tn_cause u \<noteq> None then g
      else close_conn code txt (tn_ws u) (g\<lparr>gw_tunnels := (gw_tunnels g)[t := u\<lparr>tn_cause := Some cause\<rparr>]\<rparr>))"

definition tunnel_close :: "nat \<Rightarrow> string \<Rightarrow> nat \<Rightarrow> gateway \<Rightarrow> gateway" where
  "tunnel_close code txt = tunnel_shutdown code txt \<lparr>tu_Reason = EndTunnelClosed, tu_Notify = False\<rparr>"

definition lookup :: "string \<Rightarrow> gateway \<Rightarrow> nat option" where
  "lookup i g = gw_sessions g i"

definition removeSession :: "nat \<Rightarrow> gateway \<Rightarrow> gateway" where
  "removeSession p g =
     (let i = px_id (gw_heap g ! p) in
      if gw_sessions g i = Some p then g\<lparr>gw_sessions := (gw_sessions g)(i := None)\<rparr> else g)"

definition notifyEnded :: "Ended \<Rightarrow> gateway \<Rightarrow> gateway" where
  "notifyEnded e g = (if gw_lifecycle g then g\<lparr>gw_notices := gw_notices g @ [e]\<rparr> else g)"

definition end_notice :: "EndNotice \<Rightarrow> preview_session \<Rightarrow> Ended" where
  "end_notice e s =
     \<lparr>ed_SessionID = px_id s, ed_ConnectorID = px_connectorID s, ed_LabInstanceID = px_labInstanceID s,
      ed_Generation = px_generation s, ed_RequestID = px_requestID s, ed_Reason = en_Reason e,
      ed_NotifyConnector = en_NotifyConnector e, ed_ControlSessionID = px_controlSession s\<rparr>"

definition close_peer :: "nat \<Rightarrow> string \<Rightarrow> preview_session \<Rightarrow> gateway \<Rightarrow> gateway" where
  "close_peer code txt s g =
     (case px_tunnel s of Some t \<Rightarrow> tunnel_close code txt t g
      | None \<Rightarrow> (case px_data s of Some d \<Rightarrow> close_conn code txt d g | None \<Rightarrow> g))"

definition endSession :: "go_time \<Rightarrow> nat \<Rightarrow> EndNotice \<Rightarrow> nat \<Rightarrow> string \<Rightarrow> bool \<Rightarrow> gateway \<Rightarrow> bool \<times> gateway" where
  "endSession now p e code txt silent g =
     (let s = gw_heap g ! p in
      if px_state s = stateEnded then (False, g)
      else
        (let g1 = close_chan (px_tunnelReady s) (snd (at_session p (\<lambda>s. ((), mark_ended e s)) g));
             g2 = close_peer code txt s g1 in
         (True,
          if px_activated s \<and> \<not> silent
          then notifyEnded (end_notice e s) (g2\<lparr>gw_timers := gw_timers g2 @ [(now + px_ttl s, DropSession p)]\<rparr>)
          else removeSession p g2)))"

section \<open>Calls\<close>

definition Expected_valid :: "Expected \<Rightarrow> bool" where
  "Expected_valid e \<longleftrightarrow>
     validLabel (pe_SessionID e) \<and> pe_OwnerID e \<noteq> [] \<and> pe_OrganizationID e \<noteq> [] \<and> pe_ConnectorID e \<noteq> uuid_Nil
     \<and> pe_LabInstanceID e \<noteq> [] \<and> 1 \<le> pe_Generation e \<and> pe_TargetVMKey e \<noteq> [] \<and> pe_ProviderServerID e \<noteq> []
     \<and> 1 \<le> pe_TargetPort e \<and> pe_TargetPort e \<le> 65535 \<and> 0 < pe_TTL e"

definition Expect :: "Expected \<Rightarrow> gateway \<Rightarrow> (preview_error + unit) \<times> gateway" where
  "Expect e g =
     (if \<not> Expected_valid e then (Inl PvInvalidSession, g)
      else if gw_closed g then (Inl PvClosed, g)
      else if gw_sessions g (pe_SessionID e) \<noteq> None then (Inl PvDuplicateSession, g)
      else (Inr (), g\<lparr>gw_heap := gw_heap g @ [newSession e],
                      gw_sessions := (gw_sessions g)(pe_SessionID e \<mapsto> length (gw_heap g))\<rparr>))"

definition Bind :: "string \<Rightarrow> Binding \<Rightarrow> gateway \<Rightarrow> (preview_error + unit) \<times> gateway" where
  "Bind i b g = (case lookup i g of None \<Rightarrow> (Inl PvUnknownSession, g) | Some p \<Rightarrow> at_session p (bind_session b) g)"

definition PrepareTunnel :: "string \<Rightarrow> string \<Rightarrow> gateway \<Rightarrow> (preview_error + nat) \<times> gateway" where
  "PrepareTunnel i openMessageID g =
     (case lookup i g of None \<Rightarrow> (Inl PvUnknownSession, g)
      | Some p \<Rightarrow> at_session p (prepareTunnel openMessageID (length (gw_chans g))) (g\<lparr>gw_chans := gw_chans g @ [False]\<rparr>))"

definition CancelTunnel :: "string \<Rightarrow> string \<Rightarrow> gateway \<Rightarrow> gateway" where
  "CancelTunnel i openMessageID g =
     (case lookup i g of None \<Rightarrow> g | Some p \<Rightarrow> snd (at_session p (\<lambda>s. ((), cancelTunnel openMessageID s)) g))"

definition BootstrapPath :: string where
  "BootstrapPath = ''/__labbit/bootstrap''"

definition Activate ::
  "(string \<Rightarrow> string) \<Rightarrow> go_time \<Rightarrow> string \<Rightarrow> string \<Rightarrow> gateway \<Rightarrow> (preview_error + string \<times> go_time) \<times> gateway" where
  "Activate sha now raw i g =
     (case lookup i g of None \<Rightarrow> (Inl PvUnknownSession, g)
      | Some p \<Rightarrow>
          (case at_session p (activate sha (gw_bootstrapTTL g) now raw) g of
             (Inl e, g') \<Rightarrow> (Inl e, g')
           | (Inr (credential, expiresAt), g') \<Rightarrow>
               (Inr (Origin (gw_origin g) i @ BootstrapPath @ ''#'' @ credential, expiresAt),
                g'\<lparr>gw_timers := gw_timers g' @ [(expiresAt, ExpireSession p)]\<rparr>)))"

definition Info_of :: "string \<Rightarrow> gateway \<Rightarrow> Info option" where
  "Info_of i g = map_option (\<lambda>p. info (gw_heap g ! p)) (lookup i g)"

text \<open>
  Where Go ranges over the map of sessions, \<open>order\<close> lists the sessions in the order in which the range visits them.
\<close>

definition SessionsForLab :: "nat list \<Rightarrow> string \<Rightarrow> gateway \<Rightarrow> string list" where
  "SessionsForLab order lab g =
     map px_id (filter (\<lambda>s. px_labInstanceID s = lab \<and> px_state s \<noteq> stateEnded) (map (\<lambda>p. gw_heap g ! p) order))"

definition Terminate :: "go_time \<Rightarrow> string \<Rightarrow> EndNotice \<Rightarrow> gateway \<Rightarrow> bool \<times> gateway" where
  "Terminate now i e g =
     (case lookup i g of None \<Rightarrow> (False, g) | Some p \<Rightarrow> endSession now p e closeNormal ''session ended'' False g)"

definition Forget :: "go_time \<Rightarrow> string \<Rightarrow> gateway \<Rightarrow> gateway" where
  "Forget now i g =
     (case lookup i g of None \<Rightarrow> g
      | Some p \<Rightarrow> removeSession p
          (snd (endSession now p \<lparr>en_Reason = ''OPEN_FAILED'', en_NotifyConnector = False\<rparr> closeNormal ''open failed'' True g)))"

fun end_each :: "go_time \<Rightarrow> (preview_session \<Rightarrow> bool) \<Rightarrow> EndNotice \<Rightarrow> nat \<Rightarrow> string \<Rightarrow> nat list \<Rightarrow> gateway \<Rightarrow> gateway" where
  "end_each now match e code txt [] g = g"
| "end_each now match e code txt (p # ps) g =
     end_each now match e code txt ps
       (if match (gw_heap g ! p) then snd (endSession now p e code txt False g) else g)"

definition Close_gateway :: "go_time \<Rightarrow> nat list \<Rightarrow> gateway \<Rightarrow> gateway" where
  "Close_gateway now order g =
     (if gw_closed g then g
      else end_each now (\<lambda>_. True) \<lparr>en_Reason = EndServiceRestarting, en_NotifyConnector = True\<rparr> closeGoingAway
             ''server shutting down'' order (g\<lparr>gw_closed := True\<rparr>))"

definition CredentialRevoked :: "go_time \<Rightarrow> nat list \<Rightarrow> uuid \<Rightarrow> gateway \<Rightarrow> gateway" where
  "CredentialRevoked now order c =
     end_each now (\<lambda>s. boundCredential s = c) \<lparr>en_Reason = EndCredentialRevoked, en_NotifyConnector = False\<rparr>
       closeCredentialRevoked ''credential revoked'' order"

definition ConnectorRevoked :: "go_time \<Rightarrow> nat list \<Rightarrow> uuid \<Rightarrow> gateway \<Rightarrow> gateway" where
  "ConnectorRevoked now order c =
     end_each now (\<lambda>s. px_connectorID s = c) \<lparr>en_Reason = EndCredentialRevoked, en_NotifyConnector = False\<rparr>
       closeCredentialRevoked ''credential revoked'' order"

definition ControlSessionEnded :: "go_time \<Rightarrow> nat list \<Rightarrow> uuid \<Rightarrow> bool \<Rightarrow> gateway \<Rightarrow> gateway" where
  "ControlSessionEnded now order c replaced =
     (if replaced
      then end_each now (\<lambda>s. boundControlSession s = c) \<lparr>en_Reason = EndControlReplaced, en_NotifyConnector = False\<rparr>
             closeControlReplaced ''control session replaced'' order
      else end_each now (\<lambda>s. boundControlSession s = c) \<lparr>en_Reason = EndCredentialRevoked, en_NotifyConnector = False\<rparr>
             closeCredentialRevoked ''credential revoked'' order)"

section \<open>The Data endpoint\<close>

record attachFrame =
  af_MessageID :: string
  af_ReplyToMessageID :: string
  af_PreviewSessionID :: string
  af_LabInstanceID :: string
  af_Generation :: int
  af_TargetVMKey :: string
  af_ProviderServerID :: string
  af_TargetPort :: int

text \<open>The connection after the upgrade; the authenticated identity is the one of the credential.\<close>

definition accept_conn :: "ConnectorIdentity \<Rightarrow> gateway \<Rightarrow> nat option \<times> gateway" where
  "accept_conn identity g =
     (if gw_closed g then (None, g)
      else (Some (length (gw_conns g)),
            g\<lparr>gw_conns := gw_conns g @ [\<lparr>dc_identity = identity, dc_bound = False, dc_closed = None\<rparr>]\<rparr>))"

definition attach_checks :: "ConnectorIdentity \<Rightarrow> attachFrame \<Rightarrow> preview_session \<Rightarrow> string option" where
  "attach_checks identity f s =
     (if px_connectorID s \<noteq> cy_ConnectorID identity then Some ''wrong_connector''
      else if px_labInstanceID s \<noteq> af_LabInstanceID f then Some ''wrong_lab_instance''
      else if px_generation s \<noteq> af_Generation f then Some ''wrong_generation''
      else if px_vmKey s \<noteq> af_TargetVMKey f \<or> px_serverID s \<noteq> af_ProviderServerID f then Some ''wrong_workspace_vm''
      else if px_port s \<noteq> af_TargetPort f then Some ''wrong_target_port''
      else None)"

text \<open>The claim of an attach by the connection \<open>d\<close>; the answer is the session it is bound to.\<close>

definition attach :: "nat \<Rightarrow> attachFrame \<Rightarrow> gateway \<Rightarrow> (string + nat) \<times> gateway" where
  "attach d f g =
     (let identity = dc_identity (gw_conns g ! d);
          reject = (\<lambda>reason g. (Inl reason, close_conn closePolicy ''attach rejected'' d g)) in
      case lookup (af_PreviewSessionID f) g of None \<Rightarrow> reject ''unknown_session'' g
      | Some p \<Rightarrow>
          (case attach_checks identity f (gw_heap g ! p) of Some r \<Rightarrow> reject r g
           | None \<Rightarrow>
               (case at_session p (claimAttach d identity (af_ReplyToMessageID f)) g of
                  (Some r, g') \<Rightarrow> reject r g'
                | (None, g') \<Rightarrow> (Inr p, g'\<lparr>gw_conns := (gw_conns g')[d := (gw_conns g' ! d)\<lparr>dc_bound := True\<rparr>]\<rparr>))))"

text \<open>The acknowledgement could not be written.\<close>

definition ack_failed :: "go_time \<Rightarrow> nat \<Rightarrow> nat \<Rightarrow> gateway \<Rightarrow> gateway" where
  "ack_failed now p d g =
     (if \<not> px_activated (gw_heap g ! p)
      then snd (endSession now p \<lparr>en_Reason = EndTunnelClosed, en_NotifyConnector = False\<rparr> closeNormal ''attach failed'' False g)
      else close_conn closeNormal ''attach failed'' d g)"

text \<open>The acknowledgement was written: the tunnel is made and set; the answer is the tunnel.\<close>

definition ack_written :: "nat \<Rightarrow> nat \<Rightarrow> gateway \<Rightarrow> nat \<times> gateway" where
  "ack_written p d g =
     (let t = length (gw_tunnels g); g1 = g\<lparr>gw_tunnels := gw_tunnels g @ [\<lparr>tn_ws = d, tn_cause = None\<rparr>]\<rparr> in
      case at_session p (setTunnel t) g1 of
        ((False, ch), g2) \<Rightarrow> (t, tunnel_close closeNormal ''session ended'' t g2)
      | ((True, ch), g2) \<Rightarrow> (t, close_chan ch g2))"

text \<open>The tunnel \<open>t\<close> has been shut down and its goroutine goes on.\<close>

definition tunnel_done :: "go_time \<Rightarrow> nat \<Rightarrow> nat \<Rightarrow> gateway \<Rightarrow> gateway" where
  "tunnel_done now p t g =
     (case tn_cause (gw_tunnels g ! t) of None \<Rightarrow> g
      | Some cause \<Rightarrow>
          if tu_Reason cause = EndTunnelClosed then snd (at_session p (\<lambda>s. ((), clearTunnel t s)) g)
          else snd (endSession now p \<lparr>en_Reason = tu_Reason cause, en_NotifyConnector = tu_Notify cause\<rparr> closeNormal
                      ''tunnel closed'' False g))"

definition fire :: "go_time \<Rightarrow> timer_action \<Rightarrow> gateway \<Rightarrow> gateway" where
  "fire now a g =
     (case a of
        ExpireSession p \<Rightarrow>
          snd (endSession now p \<lparr>en_Reason = EndSessionExpired, en_NotifyConnector = True\<rparr> closeNormal ''session expired'' False g)
      | DropSession p \<Rightarrow> removeSession p g)"

text \<open>The goroutine of a connection sees that the gateway is closing.\<close>

definition done_seen :: "nat \<Rightarrow> gateway \<Rightarrow> gateway" where
  "done_seen d g =
     (if gw_closed g \<and> \<not> dc_bound (gw_conns g ! d) then close_conn closeGoingAway ''server shutting down'' d g else g)"

end
