(* ===== verification/Preview_Runs.thy ===== *)
theory Preview_Runs
  imports Preview_Gateway
begin

text \<open>
  The gateway under concurrent callers. A step is one critical section of a session or of the gateway; the end of a
  session is one step, because nothing else acts on a session once it is marked. A call first looks a session
  up and then acts on what it has found, so the steps name sessions, connections and tunnels by their position and
  may come in any order: a run may hold everything that goroutines can do, and more. Only an ended session is taken
  out of the map: its callers are \<open>endSession\<close>, the timer that \<open>endSession\<close> starts, and \<open>Forget\<close>.
\<close>

section \<open>Steps\<close>

datatype gw_event =
    GExpect Expected
  | GBind nat Binding
  | GPrepare nat string
  | GCancel nat string
  | GActivate go_time string nat
  | GExchange go_time string string nat
  | GDialBegin nat
  | GDialEnd nat
  | GEnd go_time nat EndNotice nat string bool
  | GRemove nat
  | GShut
  | GConn ConnectorIdentity
  | GClaim nat nat attachFrame
  | GReject nat
  | GAckFailed go_time nat nat
  | GAck nat nat
  | GTunnelDown nat string tunnelCause nat
  | GTunnelDone go_time nat nat
  | GDone nat

definition known :: "nat \<Rightarrow> gateway \<Rightarrow> bool" where
  "known p g \<longleftrightarrow> p < length (gw_heap g)"

fun gw_exec :: "(string \<Rightarrow> string) \<Rightarrow> gw_event \<Rightarrow> gateway \<Rightarrow> gateway" where
  "gw_exec sha (GExpect e) g = snd (Expect e g)"
| "gw_exec sha (GBind p b) g = (if known p g then snd (at_session p (bind_session b) g) else g)"
| "gw_exec sha (GPrepare p m) g =
     (if known p g then snd (at_session p (prepareTunnel m (length (gw_chans g))) (g\<lparr>gw_chans := gw_chans g @ [False]\<rparr>)) else g)"
| "gw_exec sha (GCancel p m) g = (if known p g then snd (at_session p (\<lambda>s. ((), cancelTunnel m s)) g) else g)"
| "gw_exec sha (GActivate now raw p) g =
     (if known p g
      then (case at_session p (activate sha (gw_bootstrapTTL g) now raw) g of
              (Inl e, g') \<Rightarrow> g' | (Inr (c, x), g') \<Rightarrow> g'\<lparr>gw_timers := gw_timers g' @ [(x, ExpireSession p)]\<rparr>)
      else g)"
| "gw_exec sha (GExchange now raw presented p) g = (if known p g then snd (at_session p (exchange sha now raw presented) g) else g)"
| "gw_exec sha (GDialBegin p) g = (if known p g then snd (at_session p dial_begin g) else g)"
| "gw_exec sha (GDialEnd p) g = (if known p g then snd (at_session p dial_end g) else g)"
| "gw_exec sha (GEnd now p e code txt silent) g = (if known p g then snd (endSession now p e code txt silent g) else g)"
| "gw_exec sha (GRemove p) g = (if known p g \<and> px_state (gw_heap g ! p) = stateEnded then removeSession p g else g)"
| "gw_exec sha GShut g = g\<lparr>gw_closed := True\<rparr>"
| "gw_exec sha (GConn identity) g = snd (accept_conn identity g)"
| "gw_exec sha (GClaim d p f) g =
     (if known p g \<and> d < length (gw_conns g) \<and> attach_checks (dc_identity (gw_conns g ! d)) f (gw_heap g ! p) = None
      then (case at_session p (claimAttach d (dc_identity (gw_conns g ! d)) (af_ReplyToMessageID f)) g of
              (Some r, g') \<Rightarrow> close_conn closePolicy ''attach rejected'' d g'
            | (None, g') \<Rightarrow> g'\<lparr>gw_conns := (gw_conns g')[d := (gw_conns g' ! d)\<lparr>dc_bound := True\<rparr>]\<rparr>)
      else g)"
| "gw_exec sha (GReject d) g = (if d < length (gw_conns g) then close_conn closePolicy ''attach rejected'' d g else g)"
| "gw_exec sha (GAckFailed now p d) g = (if known p g then ack_failed now p d g else g)"
| "gw_exec sha (GAck p d) g = (if known p g then snd (ack_written p d g) else g)"
| "gw_exec sha (GTunnelDown code txt cause t) g =
     (if t < length (gw_tunnels g) then tunnel_shutdown code txt cause t g else g)"
| "gw_exec sha (GTunnelDone now p t) g = (if known p g \<and> t < length (gw_tunnels g) then tunnel_done now p t g else g)"
| "gw_exec sha (GDone d) g = (if d < length (gw_conns g) then done_seen d g else g)"

section \<open>What a step does to one session\<close>

text \<open>The session functions that a step may apply, without the gateway around them.\<close>

definition session_step :: "(string \<Rightarrow> string) \<Rightarrow> int \<Rightarrow> nat \<Rightarrow> gw_event \<Rightarrow> nat \<Rightarrow> preview_session \<Rightarrow> preview_session \<Rightarrow> bool" where
  "session_step sha ttl n ev p s s' \<longleftrightarrow>
     s' = s
     \<or> (\<exists>b. ev = GBind p b \<and> s' = snd (bind_session b s))
     \<or> (\<exists>m ch. ev = GPrepare p m \<and> s' = snd (prepareTunnel m ch s))
     \<or> (\<exists>m. ev = GCancel p m \<and> s' = cancelTunnel m s)
     \<or> (\<exists>now raw. ev = GActivate now raw p \<and> s' = snd (activate sha ttl now raw s))
     \<or> (\<exists>now raw presented. ev = GExchange now raw presented p \<and> s' = snd (exchange sha now raw presented s))
     \<or> s' = snd (dial_begin s) \<or> s' = snd (dial_end s)
     \<or> (\<exists>e. s' = mark_ended e s)
     \<or> (\<exists>d identity reply. s' = snd (claimAttach d identity reply s))
     \<or> (\<exists>d. ev = GAck p d \<and> s' = snd (setTunnel n s)) \<or> (\<exists>t. s' = clearTunnel t s)"

lemma at_session_heap: "gw_heap (snd (at_session p f g)) = (gw_heap g)[p := snd (f (gw_heap g ! p))]"
  by (simp add: at_session_def split: prod.split)

lemma at_session_other [simp]:
  "gw_sessions (snd (at_session p f g)) = gw_sessions g" "gw_conns (snd (at_session p f g)) = gw_conns g"
  "gw_tunnels (snd (at_session p f g)) = gw_tunnels g" "gw_bootstrapTTL (snd (at_session p f g)) = gw_bootstrapTTL g"
  "gw_notices (snd (at_session p f g)) = gw_notices g"
  by (simp_all add: at_session_def split: prod.split)

lemma heap_frames [simp]:
  "gw_heap (close_chan ch g) = gw_heap g" "gw_heap (close_conn c x d g) = gw_heap g" "gw_heap (tunnel_shutdown c x u t g) = gw_heap g"
  "gw_heap (tunnel_close c x t g) = gw_heap g" "gw_heap (removeSession p g) = gw_heap g" "gw_heap (notifyEnded n g) = gw_heap g"
  "gw_heap (close_peer c x s g) = gw_heap g" "gw_heap (snd (accept_conn i g)) = gw_heap g" "gw_heap (done_seen d g) = gw_heap g"
  by (simp_all add: close_chan_def close_conn_def tunnel_shutdown_def tunnel_close_def removeSession_def notifyEnded_def close_peer_def
      accept_conn_def done_seen_def Let_def split: option.split)

lemma ttl_frames [simp]:
  "gw_bootstrapTTL (close_chan ch g) = gw_bootstrapTTL g" "gw_bootstrapTTL (close_conn c x d g) = gw_bootstrapTTL g"
  "gw_bootstrapTTL (tunnel_shutdown c x u t g) = gw_bootstrapTTL g" "gw_bootstrapTTL (tunnel_close c x t g) = gw_bootstrapTTL g"
  "gw_bootstrapTTL (removeSession p g) = gw_bootstrapTTL g" "gw_bootstrapTTL (notifyEnded n g) = gw_bootstrapTTL g"
  "gw_bootstrapTTL (close_peer c x s g) = gw_bootstrapTTL g" "gw_bootstrapTTL (snd (accept_conn i g)) = gw_bootstrapTTL g"
  "gw_bootstrapTTL (done_seen d g) = gw_bootstrapTTL g"
  by (simp_all add: close_chan_def close_conn_def tunnel_shutdown_def tunnel_close_def removeSession_def notifyEnded_def close_peer_def
      accept_conn_def done_seen_def Let_def split: option.split)

lemma endSession_heap:
  "gw_heap (snd (endSession now p e c x silent g)) =
     (if px_state (gw_heap g ! p) = stateEnded then gw_heap g else (gw_heap g)[p := mark_ended e (gw_heap g ! p)])"
  by (simp add: endSession_def Let_def at_session_heap)

lemma endSession_ttl [simp]: "gw_bootstrapTTL (snd (endSession now p e c x silent g)) = gw_bootstrapTTL g"
  by (simp add: endSession_def Let_def)

lemma pair_snd: "(case z of (a, b) \<Rightarrow> f b) = f (snd z)"
  by (cases z) simp

lemma gw_exec_ttl [simp]: "gw_bootstrapTTL (gw_exec sha ev g) = gw_bootstrapTTL g"
  by (cases ev)
    (auto simp: Expect_def ack_failed_def ack_written_def tunnel_done_def Let_def at_session_def
      split: prod.split sum.split option.split bool.split)

lemma gw_exec_length: "length (gw_heap g) \<le> length (gw_heap (gw_exec sha ev g))"
  by (cases ev)
    (auto simp: Expect_def ack_failed_def ack_written_def tunnel_done_def Let_def at_session_def endSession_heap
      split: prod.split sum.split option.split bool.split)

lemma known_exec: "known p g \<Longrightarrow> known p (gw_exec sha ev g)"
  using gw_exec_length [of g sha ev] by (simp add: known_def)

lemma session_steps:
  "session_step sha ttl n ev p s s"
  "session_step sha ttl n (GBind p b) p s (snd (bind_session b s))"
  "session_step sha ttl n (GPrepare p m) p s (snd (prepareTunnel m ch s))"
  "session_step sha ttl n (GCancel p m) p s (cancelTunnel m s)"
  "session_step sha ttl n (GActivate now raw p) p s (snd (activate sha ttl now raw s))"
  "session_step sha ttl n (GExchange now raw presented p) p s (snd (exchange sha now raw presented s))"
  "session_step sha ttl n ev p s (snd (dial_begin s))"
  "session_step sha ttl n ev p s (snd (dial_end s))"
  "session_step sha ttl n ev p s (mark_ended e s)"
  "session_step sha ttl n ev p s (snd (claimAttach d identity reply s))"
  "session_step sha ttl n (GAck p d) p s (snd (setTunnel n s))"
  "session_step sha ttl n ev p s (clearTunnel t s)"
  unfolding session_step_def by blast+

lemma at_session_step:
  assumes "known p g" "\<And>s. q = p \<Longrightarrow> session_step sha ttl n ev p s (snd (f s))"
  shows "session_step sha ttl n ev p (gw_heap g ! p) (gw_heap (snd (at_session q f g)) ! p)"
  using assms by (cases "q = p") (simp_all add: at_session_heap known_def session_steps(1))

lemma heap_updates [simp]: "known p (gw_chans_update f g) = known p g" "known p (gw_tunnels_update f2 g) = known p g"
  by (simp_all add: known_def)

lemma endSession_step:
  assumes "known p g"
  shows "session_step sha ttl n ev p (gw_heap g ! p) (gw_heap (snd (endSession now q e c x silent g)) ! p)"
  using assms by (cases "q = p") (simp_all add: endSession_heap known_def session_steps)

lemma ack_written_heap:
  "gw_heap (snd (ack_written q d g)) = (gw_heap g)[q := snd (setTunnel (length (gw_tunnels g)) (gw_heap g ! q))]"
  by (auto simp: ack_written_def Let_def at_session_def split: prod.split bool.split)

lemma gw_exec_session:
  assumes "known p g"
  shows "session_step sha (gw_bootstrapTTL g) (length (gw_tunnels g)) ev p (gw_heap g ! p) (gw_heap (gw_exec sha ev g) ! p)"
proof (cases ev)
  case (GExpect e)
  with assms show ?thesis by (simp add: Expect_def known_def nth_append session_steps(1))
next
  case (GBind q b)
  then show ?thesis by (auto intro!: at_session_step assms session_steps)
next
  case (GPrepare q m)
  with at_session_step [of p "g\<lparr>gw_chans := gw_chans g @ [False]\<rparr>" q sha "gw_bootstrapTTL g" "length (gw_tunnels g)" ev "prepareTunnel m (length (gw_chans g))"]
  show ?thesis using assms by (auto intro: session_steps)
next
  case (GCancel q m)
  then show ?thesis by (auto intro!: at_session_step assms session_steps)
next
  case (GActivate now raw q)
  have "gw_heap (gw_exec sha ev g) = (if known q g then gw_heap (snd (at_session q (activate sha (gw_bootstrapTTL g) now raw) g)) else gw_heap g)"
    using GActivate by (auto simp: at_session_def split: prod.split sum.split)
  then show ?thesis using GActivate by (auto intro!: at_session_step assms session_steps)
next
  case (GExchange now raw presented q)
  then show ?thesis by (auto intro!: at_session_step assms session_steps)
next
  case (GDialBegin q)
  then show ?thesis by (auto intro!: at_session_step assms session_steps)
next
  case (GDialEnd q)
  then show ?thesis by (auto intro!: at_session_step assms session_steps)
next
  case (GEnd now q e c x silent)
  then show ?thesis using endSession_step [OF assms] by (simp add: session_steps(1))
next
  case (GClaim d q f)
  let ?claim = "claimAttach d (dc_identity (gw_conns g ! d)) (af_ReplyToMessageID f)"
  have "gw_heap (gw_exec sha ev g) = gw_heap g \<or> gw_heap (gw_exec sha ev g) = gw_heap (snd (at_session q ?claim g))"
    using GClaim by (auto simp: at_session_def split: prod.split option.split)
  moreover have "session_step sha (gw_bootstrapTTL g) (length (gw_tunnels g)) ev p (gw_heap g ! p) (gw_heap (snd (at_session q ?claim g)) ! p)"
    by (rule at_session_step [OF assms]) (rule session_steps(10))
  ultimately show ?thesis using session_steps(1) by auto
next
  case (GAckFailed now q d)
  then show ?thesis using endSession_step [OF assms] by (simp add: ack_failed_def session_steps(1))
next
  case (GAck q d)
  with assms show ?thesis by (cases "q = p") (simp_all add: ack_written_heap known_def session_steps)
next
  case (GTunnelDone now q t)
  then show ?thesis using endSession_step [OF assms] at_session_step [OF assms, of q sha "gw_bootstrapTTL g" "length (gw_tunnels g)" ev "\<lambda>s. ((), clearTunnel t s)"]
    by (auto simp: tunnel_done_def session_steps split: option.split)
qed (simp_all add: session_steps(1))

section \<open>The life of a session\<close>

text \<open>What holds of every session, and what no step takes back.\<close>

definition session_inv :: "preview_session \<Rightarrow> bool" where
  "session_inv s \<longleftrightarrow>
     (px_cookieIssued s \<longrightarrow> px_bootstrapUsed s \<and> px_state s = stateActive)
     \<and> (px_state s = stateActive \<longrightarrow> px_activated s \<and> px_expiresAt s \<noteq> None)
     \<and> (px_bootstrapUsed s \<longrightarrow> px_state s = stateActive \<or> px_state s = stateEnded)
     \<and> (px_activated s \<longrightarrow> px_state s = stateActive \<or> px_state s = stateEnded)
     \<and> (px_state s = stateEnded \<longrightarrow> \<not> px_openPending s \<and> px_tunnel s = None \<and> px_data s = None \<and> \<not> px_proxy s)"

definition identity_of :: "preview_session \<Rightarrow> (string \<times> string \<times> string \<times> uuid \<times> string) \<times> int \<times> string \<times> string \<times> int \<times> int" where
  "identity_of s =
     ((px_id s, px_ownerID s, px_orgID s, px_connectorID s, px_labInstanceID s),
      px_generation s, px_vmKey s, px_serverID s, px_port s, px_ttl s)"

definition session_le :: "preview_session \<Rightarrow> preview_session \<Rightarrow> bool" where
  "session_le s s' \<longleftrightarrow>
     identity_of s' = identity_of s
     \<and> (px_state s = stateEnded \<longrightarrow> px_state s' = stateEnded)
     \<and> (px_bootstrapUsed s \<longrightarrow> px_bootstrapUsed s')
     \<and> (px_activated s \<longrightarrow> px_activated s' \<and> px_expiresAt s' = px_expiresAt s \<and> px_bootstrapDigest s' = px_bootstrapDigest s
          \<and> px_bootstrapExpires s' = px_bootstrapExpires s)"

definition kept :: "preview_session \<Rightarrow> preview_session \<Rightarrow> bool" where
  "kept s s' \<longleftrightarrow> session_inv s' \<and> session_le s s'"

lemmas kept_defs = kept_def session_inv_def session_le_def identity_of_def

lemma session_le_refl: "session_le s s"
  by (simp add: session_le_def)

lemma kept_refl: "session_inv s \<Longrightarrow> kept s s"
  by (simp add: kept_def session_le_refl)

lemma kept_bind: "session_inv s \<Longrightarrow> kept s (snd (bind_session b s))"
  by (cases "px_state s = stateEnded"; cases "bd_ConnectorID b = px_connectorID s") (simp_all add: bind_session_def kept_defs)

lemma kept_prepare: "session_inv s \<Longrightarrow> kept s (snd (prepareTunnel m ch s))"
  by (cases "px_state s = stateEnded"; cases "m = []") (simp_all add: prepareTunnel_def kept_defs)

lemma kept_cancel: "session_inv s \<Longrightarrow> kept s (cancelTunnel m s)"
  by (cases "px_state s"; cases "px_openPending s \<and> px_pendingOpenID s = m") (simp_all add: cancelTunnel_def kept_defs)

lemma kept_activate: "session_inv s \<Longrightarrow> kept s (snd (activate sha ttl now raw s))"
  by (cases "px_state s"; cases "px_tunnel s") (simp_all add: activate_def kept_defs newToken_def Let_def)

lemma kept_exchange: "session_inv s \<Longrightarrow> kept s (snd (exchange sha now raw presented s))"
  by (cases "px_state s") (auto simp: exchange_def kept_defs newToken_def Let_def)

lemma kept_dial: "session_inv s \<Longrightarrow> kept s (snd (dial_begin s))" "session_inv s \<Longrightarrow> kept s (snd (dial_end s))"
  by (cases "px_state s"; cases "px_tunnel s"; cases "px_tunnelDialed s"; simp add: dial_begin_def dial_end_def kept_defs)+

lemma kept_end: "session_inv s \<Longrightarrow> kept s (mark_ended e s)"
  by (simp add: mark_ended_def kept_defs)

lemma kept_claim: "session_inv s \<Longrightarrow> kept s (snd (claimAttach d identity reply s))"
  by (cases "px_state s") (simp_all add: claimAttach_def kept_defs)

lemma kept_tunnel: "session_inv s \<Longrightarrow> kept s (snd (setTunnel t s))" "session_inv s \<Longrightarrow> kept s (clearTunnel t s)"
  by (cases "px_state s"; simp add: setTunnel_def clearTunnel_def kept_defs)+

lemma session_step_kept: "session_step sha ttl n ev p s s' \<Longrightarrow> session_inv s \<Longrightarrow> kept s s'"
  unfolding session_step_def
  by (elim disjE exE conjE)
    (simp_all add: kept_refl kept_bind kept_prepare kept_cancel kept_activate kept_exchange kept_dial kept_end kept_claim kept_tunnel)

section \<open>Runs\<close>

definition gw_run :: "(string \<Rightarrow> string) \<Rightarrow> gw_event list \<Rightarrow> gateway \<Rightarrow> gateway" where
  "gw_run sha es g = fold (gw_exec sha) es g"

lemma gw_run_simps [simp]:
  "gw_run sha [] g = g" "gw_run sha (e # es) g = gw_run sha es (gw_exec sha e g)"
  "gw_run sha (es @ es') g = gw_run sha es' (gw_run sha es g)"
  by (simp_all add: gw_run_def)

definition gw_inv :: "gateway \<Rightarrow> bool" where
  "gw_inv g \<longleftrightarrow>
     (\<forall>p. known p g \<longrightarrow> session_inv (gw_heap g ! p) \<and> (\<forall>t. px_tunnel (gw_heap g ! p) = Some t \<longrightarrow> t < length (gw_tunnels g)))"

lemma nth_upd: "xs[i := x] ! j = (if i = j \<and> j < length xs then x else xs ! j)"
  by (cases "i < length xs") (auto simp: nth_list_update list_update_beyond)

lemma tunnels_shutdown: "length (gw_tunnels (tunnel_shutdown c x u t g)) = length (gw_tunnels g)"
  "tn_cause (gw_tunnels g ! k) \<noteq> None \<Longrightarrow> tn_cause (gw_tunnels (tunnel_shutdown c x u t g) ! k) \<noteq> None"
  "t < length (gw_tunnels g) \<Longrightarrow> tn_cause (gw_tunnels (tunnel_shutdown c x u t g) ! t) \<noteq> None"
  by (auto simp: tunnel_shutdown_def close_conn_def Let_def nth_upd)

text \<open>No step makes the list of tunnels shorter or opens a closed tunnel again.\<close>

definition tunnels_le :: "gateway \<Rightarrow> gateway \<Rightarrow> bool" where
  "tunnels_le g g' \<longleftrightarrow> length (gw_tunnels g) \<le> length (gw_tunnels g')
     \<and> (\<forall>k < length (gw_tunnels g). tn_cause (gw_tunnels g ! k) \<noteq> None \<longrightarrow> tn_cause (gw_tunnels g' ! k) \<noteq> None)"

lemma tunnels_le_same: "gw_tunnels g' = gw_tunnels g \<Longrightarrow> tunnels_le g g'"
  by (simp add: tunnels_le_def)

lemma tunnels_le_trans: "tunnels_le g g' \<Longrightarrow> tunnels_le g' g'' \<Longrightarrow> tunnels_le g g''"
  by (auto simp: tunnels_le_def)

lemma tunnels_frames [simp]:
  "gw_tunnels (close_chan ch g) = gw_tunnels g" "gw_tunnels (close_conn c x d g) = gw_tunnels g"
  "gw_tunnels (removeSession p g) = gw_tunnels g" "gw_tunnels (notifyEnded m g) = gw_tunnels g"
  "gw_tunnels (snd (accept_conn i g)) = gw_tunnels g" "gw_tunnels (done_seen d g) = gw_tunnels g"
  by (simp_all add: close_chan_def close_conn_def removeSession_def notifyEnded_def accept_conn_def done_seen_def Let_def split: option.split)

lemma tunnels_le_shutdown: "tunnels_le g (tunnel_shutdown c x u t g)" "tunnels_le g (tunnel_close c x t g)"
  by (simp_all add: tunnels_le_def tunnel_close_def tunnels_shutdown)

lemma tunnels_le_peer: "tunnels_le g (close_peer c x s g)"
  by (auto simp: close_peer_def tunnels_le_shutdown tunnels_le_same split: option.split)

lemma endSession_tunnels:
  "gw_tunnels (snd (endSession now p e c x silent g)) =
     (if px_state (gw_heap g ! p) = stateEnded then gw_tunnels g else
      gw_tunnels (close_peer c x (gw_heap g ! p)
        (close_chan (px_tunnelReady (gw_heap g ! p)) (snd (at_session p (\<lambda>s. ((), mark_ended e s)) g)))))"
  by (simp add: endSession_def Let_def)

lemma tunnels_le_end: "tunnels_le g (snd (endSession now p e c x silent g))"
proof (cases "px_state (gw_heap g ! p) = stateEnded")
  case False
  let ?g = "close_chan (px_tunnelReady (gw_heap g ! p)) (snd (at_session p (\<lambda>s. ((), mark_ended e s)) g))"
  have "tunnels_le g ?g" by (rule tunnels_le_same) simp
  with tunnels_le_peer [of ?g c x "gw_heap g ! p"] have "tunnels_le g (close_peer c x (gw_heap g ! p) ?g)"
    by (blast intro: tunnels_le_trans)
  with False show ?thesis by (simp add: tunnels_le_def endSession_tunnels)
qed (simp add: endSession_def tunnels_le_same)

lemma tunnels_le_ack: "tunnels_le g (snd (ack_written p d g))" "length (gw_tunnels (snd (ack_written p d g))) = Suc (length (gw_tunnels g))"
  by (auto simp: ack_written_def Let_def tunnels_le_def tunnel_close_def tunnels_shutdown at_session_def nth_append
      split: prod.split bool.split)
    (auto simp: tunnel_shutdown_def Let_def close_conn_def nth_append nth_upd)

lemma gw_exec_tunnels: "tunnels_le g (gw_exec sha ev g)"
  by (cases ev)
    (auto simp: tunnels_le_shutdown tunnels_le_end tunnels_le_ack Expect_def ack_failed_def tunnel_done_def at_session_def
      intro!: tunnels_le_same split: prod.split sum.split option.split)

lemma tunnel_of_step:
  assumes "session_step sha ttl n ev p s s'" "px_tunnel s' = Some t"
  shows "px_tunnel s = Some t \<or> (\<exists>d. ev = GAck p d \<and> t = n)"
  using assms unfolding session_step_def
  by (elim disjE exE conjE)
    (auto simp: bind_session_def prepareTunnel_def cancelTunnel_def activate_def exchange_def dial_begin_def dial_end_def
      mark_ended_def claimAttach_def setTunnel_def clearTunnel_def Let_def newToken_def split: if_splits option.splits)

lemma gw_exec_new:
  assumes "known p (gw_exec sha ev g)" "\<not> known p g"
  shows "\<exists>e. gw_heap (gw_exec sha ev g) ! p = newSession e"
proof -
  have "\<exists>e. gw_heap (gw_exec sha ev g) = gw_heap g @ [newSession e]"
  proof (cases ev)
    case (GExpect e)
    with assms show ?thesis by (auto simp: Expect_def known_def split: if_splits)
  qed (use assms in \<open>auto simp: known_def ack_failed_def tunnel_done_def at_session_heap endSession_heap ack_written_heap
      at_session_def split: if_splits option.splits prod.splits sum.splits\<close>)
  with assms show ?thesis by (auto simp: known_def nth_append)
qed

lemma gw_inv_exec:
  assumes "gw_inv g"
  shows "gw_inv (gw_exec sha ev g)"
  unfolding gw_inv_def
proof (intro allI impI conjI)
  fix p
  assume k: "known p (gw_exec sha ev g)"
  have tl: "length (gw_tunnels g) \<le> length (gw_tunnels (gw_exec sha ev g))" using gw_exec_tunnels [of g sha ev] by (simp add: tunnels_le_def)
  have "session_inv (gw_heap (gw_exec sha ev g) ! p)
    \<and> (\<forall>t. px_tunnel (gw_heap (gw_exec sha ev g) ! p) = Some t \<longrightarrow> t < length (gw_tunnels (gw_exec sha ev g)))"
  proof (cases "known p g")
    case True
    note st = gw_exec_session [OF True, of sha ev]
    have inv: "session_inv (gw_heap g ! p)" using assms True by (simp add: gw_inv_def)
    have "t < length (gw_tunnels (gw_exec sha ev g))" if "px_tunnel (gw_heap (gw_exec sha ev g) ! p) = Some t" for t
      using tunnel_of_step [OF st that] assms True tl tunnels_le_ack(2) [of p _ g]
      by (auto simp: gw_inv_def)
    with session_step_kept [OF st inv] show ?thesis by (simp add: kept_def)
  next
    case False
    from gw_exec_new [OF k this]
    show ?thesis by (auto simp: newSession_def session_inv_def)
  qed
  then show "session_inv (gw_heap (gw_exec sha ev g) ! p)"
    and "px_tunnel (gw_heap (gw_exec sha ev g) ! p) = Some t \<Longrightarrow> t < length (gw_tunnels (gw_exec sha ev g))" for t by blast+
qed

lemma gw_inv_run: "gw_inv g \<Longrightarrow> gw_inv (gw_run sha es g)"
  by (induction es arbitrary: g) (simp_all add: gw_inv_exec)

lemma gw_inv_new: "gw_inv (NewGateway o1 ttl)"
  by (simp add: gw_inv_def known_def NewGateway_def)

lemma session_le_trans: "session_le s s' \<Longrightarrow> session_le s' s'' \<Longrightarrow> session_le s s''"
  by (auto simp: session_le_def)

lemma run_session_le:
  "gw_inv g \<Longrightarrow> known p g \<Longrightarrow>
     known p (gw_run sha es g) \<and> session_le (gw_heap g ! p) (gw_heap (gw_run sha es g) ! p) \<and> tunnels_le g (gw_run sha es g)"
proof (induction es arbitrary: g)
  case Nil
  then show ?case by (simp add: session_le_refl tunnels_le_same)
next
  case (Cons ev es)
  have "session_inv (gw_heap g ! p)" using Cons.prems by (simp add: gw_inv_def)
  with session_step_kept [OF gw_exec_session [OF Cons.prems(2)]]
  have "session_le (gw_heap g ! p) (gw_heap (gw_exec sha ev g) ! p)" by (simp add: kept_def)
  with Cons.IH [OF gw_inv_exec [OF Cons.prems(1)] known_exec [OF Cons.prems(2)]] show ?case
    using gw_exec_tunnels [of g sha ev] by (auto intro: session_le_trans tunnels_le_trans)
qed

section \<open>The end of a session\<close>

text \<open>The connection that serves a session: its tunnel, or the connection that is attaching.\<close>

lemma endSession_ends:
  assumes "known p g" "px_state (gw_heap g ! p) \<noteq> stateEnded" "endSession now p e code txt silent g = (b, g')"
  shows "b" "gw_heap g' ! p = mark_ended e (gw_heap g ! p)" "\<And>q. q \<noteq> p \<Longrightarrow> gw_heap g' ! q = gw_heap g ! q"
    "px_tunnel (gw_heap g ! p) = Some t \<Longrightarrow> t < length (gw_tunnels g) \<Longrightarrow> tn_cause (gw_tunnels g' ! t) \<noteq> None"
proof -
  have g': "g' = snd (endSession now p e code txt silent g)" using assms(3) by simp
  show b using assms(2,3) by (auto simp: endSession_def Let_def)
  show "gw_heap g' ! p = mark_ended e (gw_heap g ! p)" "\<And>q. q \<noteq> p \<Longrightarrow> gw_heap g' ! q = gw_heap g ! q"
    using assms(1,2) by (simp_all add: g' endSession_heap known_def)
  assume t: "px_tunnel (gw_heap g ! p) = Some t" "t < length (gw_tunnels g)"
  then show "tn_cause (gw_tunnels g' ! t) \<noteq> None"
    using assms(2) tunnels_shutdown(3) [of t "close_chan (px_tunnelReady (gw_heap g ! p)) (snd (at_session p (\<lambda>s. ((), mark_ended e s)) g))"]
    by (simp add: g' endSession_tunnels close_peer_def tunnel_close_def)
qed

text \<open>What an ended session answers to every call.\<close>

definition refuses_all :: "(string \<Rightarrow> string) \<Rightarrow> preview_session \<Rightarrow> bool" where
  "refuses_all sha s \<longleftrightarrow>
     (\<forall>now token. \<not> authenticate sha now token s) \<and> (\<forall>now raw presented. exchange sha now raw presented s = (None, s))
     \<and> (\<forall>now. \<not> active_session now s) \<and> (\<forall>ttl now raw. activate sha ttl now raw s = (Inl PvSessionEnded, s))
     \<and> (\<forall>b. bind_session b s = (Inl PvSessionEnded, s)) \<and> (\<forall>m ch. prepareTunnel m ch s = (Inl PvSessionEnded, s))
     \<and> (\<forall>d identity reply. claimAttach d identity reply s = (Some ''session_ended'', s))
     \<and> (\<forall>t. setTunnel t s = ((False, None), s)) \<and> dial_begin s = (DialClosed, s) \<and> dial_end s = (Inl PvTunnelClosed, s)"

lemma ended_refuses_all: "px_state s = stateEnded \<Longrightarrow> px_tunnel s = None \<Longrightarrow> refuses_all sha s"
  by (simp add: refuses_all_def authenticate_def exchange_def active_session_def activate_def bind_session_def prepareTunnel_def
      claimAttach_def setTunnel_def dial_begin_def dial_end_def)

text \<open>
  C36: The end of a preview session is final. In any run of the gateway, once \<open>endSession\<close> has been applied to a
  session, for whatever reason, then whatever steps follow: the session stays ended, no cookie
  authenticates, the bootstrap credential cannot be exchanged, it is neither bound, attached nor activated again, no
  connection is handed out, ending it again has no effect, and the tunnel it had stays shut down.
\<close>

theorem ended_preview_dead:
  assumes "g = gw_run sha es (NewGateway o1 ttl)" "known p g" "endSession now p e code txt silent g = (b, g1)"
    and "g2 = gw_run sha es2 g1"
  shows "px_state (gw_heap g2 ! p) = stateEnded \<and> refuses_all sha (gw_heap g2 ! p)
    \<and> (\<forall>now' e' c x sl. endSession now' p e' c x sl g2 = (False, g2))
    \<and> (\<forall>t. px_tunnel (gw_heap g ! p) = Some t \<longrightarrow> tn_cause (gw_tunnels g2 ! t) \<noteq> None)"
proof -
  have inv: "gw_inv g" using assms(1) gw_inv_run [OF gw_inv_new] by simp
  have g1: "g1 = gw_exec sha (GEnd now p e code txt silent) g" using assms(2,3) by simp
  have inv1: "gw_inv g1" and k1: "known p g1" unfolding g1 by (rule gw_inv_exec [OF inv], rule known_exec [OF assms(2)])
  have ended: "px_state (gw_heap g1 ! p) = stateEnded"
  proof (cases "px_state (gw_heap g ! p) = stateEnded")
    case False
    then show ?thesis using endSession_ends(2) [OF assms(2) False assms(3)] by (simp add: mark_ended_def)
  qed (use assms(3) in \<open>simp add: endSession_def\<close>)
  have le: "session_le (gw_heap g1 ! p) (gw_heap g2 ! p)" "tunnels_le g1 g2" "known p g2"
    using run_session_le [OF inv1 k1] assms(4) by simp_all
  then have ended2: "px_state (gw_heap g2 ! p) = stateEnded" using ended by (simp add: session_le_def)
  moreover have "gw_inv g2" using assms(4) gw_inv_run [OF inv1] by simp
  then have "px_tunnel (gw_heap g2 ! p) = None" using le(3) ended2 by (simp add: gw_inv_def session_inv_def)
  moreover have "tn_cause (gw_tunnels g2 ! t) \<noteq> None" if t: "px_tunnel (gw_heap g ! p) = Some t" for t
  proof -
    have "px_state (gw_heap g ! p) \<noteq> stateEnded" using inv assms(2) t by (auto simp: gw_inv_def session_inv_def)
    moreover have tl: "t < length (gw_tunnels g)" using inv assms(2) t by (simp add: gw_inv_def)
    ultimately have "tn_cause (gw_tunnels g1 ! t) \<noteq> None" using endSession_ends(4) [OF assms(2) _ assms(3) t] by simp
    moreover have "t < length (gw_tunnels g1)"
      using tl gw_exec_tunnels [of g sha "GEnd now p e code txt silent"] g1 by (simp add: tunnels_le_def)
    ultimately show ?thesis using le(2) by (simp add: tunnels_le_def)
  qed
  ultimately show ?thesis by (simp add: ended_refuses_all endSession_def)
qed

section \<open>The credentials of a session\<close>

lemma credential_frames [simp]:
  "px_cookieIssued (snd (bind_session b s)) = px_cookieIssued s" "px_cookieDigest (snd (bind_session b s)) = px_cookieDigest s"
  "px_activated (snd (bind_session b s)) = px_activated s"
  "px_cookieIssued (snd (prepareTunnel m ch s)) = px_cookieIssued s" "px_cookieDigest (snd (prepareTunnel m ch s)) = px_cookieDigest s"
  "px_activated (snd (prepareTunnel m ch s)) = px_activated s"
  "px_cookieIssued (cancelTunnel m s) = px_cookieIssued s" "px_cookieDigest (cancelTunnel m s) = px_cookieDigest s"
  "px_activated (cancelTunnel m s) = px_activated s"
  "px_cookieIssued (snd (activate sha ttl now raw s)) = px_cookieIssued s"
  "px_cookieDigest (snd (activate sha ttl now raw s)) = px_cookieDigest s"
  "px_activated (snd (exchange sha now raw presented s)) = px_activated s"
  "px_cookieIssued (snd (dial_begin s)) = px_cookieIssued s" "px_cookieDigest (snd (dial_begin s)) = px_cookieDigest s"
  "px_activated (snd (dial_begin s)) = px_activated s"
  "px_cookieIssued (snd (dial_end s)) = px_cookieIssued s" "px_cookieDigest (snd (dial_end s)) = px_cookieDigest s"
  "px_activated (snd (dial_end s)) = px_activated s"
  "px_cookieIssued (mark_ended e s) = False" "px_activated (mark_ended e s) = px_activated s"
  "px_cookieIssued (snd (claimAttach d identity reply s)) = px_cookieIssued s"
  "px_cookieDigest (snd (claimAttach d identity reply s)) = px_cookieDigest s"
  "px_activated (snd (claimAttach d identity reply s)) = px_activated s"
  "px_cookieIssued (snd (setTunnel t s)) = px_cookieIssued s" "px_cookieDigest (snd (setTunnel t s)) = px_cookieDigest s"
  "px_activated (snd (setTunnel t s)) = px_activated s"
  "px_cookieIssued (clearTunnel t s) = px_cookieIssued s" "px_cookieDigest (clearTunnel t s) = px_cookieDigest s"
  "px_activated (clearTunnel t s) = px_activated s"
  by (simp_all add: bind_session_def prepareTunnel_def cancelTunnel_def activate_def exchange_def dial_begin_def dial_end_def
      mark_ended_def claimAttach_def setTunnel_def clearTunnel_def Let_def newToken_def split: option.split)

lemma exchange_cases:
  obtains "exchange sha now raw presented s = (None, s)"
  | "exchange sha now raw presented s = (Some (base64_encode raw, the (px_expiresAt s)),
      s\<lparr>px_bootstrapUsed := True, px_cookieDigest := sha (base64_encode raw), px_cookieIssued := True\<rparr>)"
  unfolding exchange_def newToken_def Let_def prod.case by argo

lemma activate_result:
  assumes "px_activated (snd (activate sha ttl now raw s))" "\<not> px_activated s"
  defines "s' \<equiv> snd (activate sha ttl now raw s)"
  shows "fst (activate sha ttl now raw s) = Inr (base64_encode raw, now + px_ttl s)"
    "px_bootstrapDigest s' = sha (base64_encode raw)" "px_expiresAt s' = Some (now + px_ttl s)"
    "px_bootstrapExpires s' = now + min ttl (px_ttl s)"
  using assms(1,2) unfolding s'_def
  by (cases "px_state s"; cases "px_tunnel s"; simp add: activate_def newToken_def Let_def)+

lemma cookie_step:
  assumes "session_step sha ttl n ev p s s'" "px_cookieIssued s'"
  shows "px_cookieIssued s \<and> px_cookieDigest s' = px_cookieDigest s
    \<or> (\<exists>now raw presented. ev = GExchange now raw presented p \<and> fst (exchange sha now raw presented s) \<noteq> None
        \<and> px_cookieDigest s' = sha (base64_encode raw))"
  using assms(1) unfolding session_step_def
proof (elim disjE exE conjE)
  fix now raw presented
  assume "ev = GExchange now raw presented p" "s' = snd (exchange sha now raw presented s)"
  then show ?thesis using assms(2) by (cases rule: exchange_cases [of sha now raw presented s]) auto
qed (use assms(2) in simp_all)

lemma activate_step:
  assumes "session_step sha ttl n ev p s s'" "px_activated s'" "\<not> px_activated s"
  shows "\<exists>now raw. ev = GActivate now raw p
    \<and> fst (activate sha ttl now raw s) = Inr (base64_encode raw, now + px_ttl s)
    \<and> px_bootstrapDigest s' = sha (base64_encode raw) \<and> px_expiresAt s' = Some (now + px_ttl s)
    \<and> px_bootstrapExpires s' = now + min ttl (px_ttl s)"
  using assms(1) unfolding session_step_def
proof (elim disjE exE conjE)
  fix now raw
  assume "ev = GActivate now raw p" "s' = snd (activate sha ttl now raw s)"
  then show ?thesis using activate_result [of sha ttl now raw s] assms(2,3) by blast
qed (use assms(2,3) in simp_all)

abbreviation started :: "(string \<Rightarrow> string) \<Rightarrow> OriginTemplate \<Rightarrow> int \<Rightarrow> gw_event list \<Rightarrow> gateway" where
  "started sha o1 ttl es \<equiv> gw_run sha es (NewGateway o1 ttl)"

lemma gw_run_ttl [simp]: "gw_bootstrapTTL (gw_run sha es g) = gw_bootstrapTTL g"
  by (induction es arbitrary: g) simp_all

lemma cookie_origin:
  assumes "known p (started sha o1 ttl es)" "px_cookieIssued (gw_heap (started sha o1 ttl es) ! p)"
  shows "\<exists>pre now raw presented post. es = pre @ GExchange now raw presented p # post
    \<and> known p (started sha o1 ttl pre) \<and> fst (exchange sha now raw presented (gw_heap (started sha o1 ttl pre) ! p)) \<noteq> None
    \<and> px_cookieDigest (gw_heap (started sha o1 ttl es) ! p) = sha (base64_encode raw)"
  using assms
proof (induction es rule: rev_induct)
  case Nil
  then show ?case by (simp add: known_def NewGateway_def)
next
  case (snoc ev es)
  let ?g = "started sha o1 ttl es"
  have now: "started sha o1 ttl (es @ [ev]) = gw_exec sha ev ?g" by simp
  show ?case
  proof (cases "known p ?g")
    case False
    with snoc.prems gw_exec_new [of p sha ev ?g] show ?thesis by (auto simp: newSession_def)
  next
    case True
    from snoc.prems(2) have "px_cookieIssued (gw_heap (gw_exec sha ev ?g) ! p)" unfolding now .
    from cookie_step [OF gw_exec_session [OF True, of sha ev] this]
    consider "px_cookieIssued (gw_heap ?g ! p)" "px_cookieDigest (gw_heap (gw_exec sha ev ?g) ! p) = px_cookieDigest (gw_heap ?g ! p)"
      | t raw presented where "ev = GExchange t raw presented p" "fst (exchange sha t raw presented (gw_heap ?g ! p)) \<noteq> None"
        "px_cookieDigest (gw_heap (gw_exec sha ev ?g) ! p) = sha (base64_encode raw)"
      by blast
    then show ?thesis
    proof cases
      case 1
      from snoc.IH [OF True 1(1)] obtain pre t raw presented post where
        "es = pre @ GExchange t raw presented p # post" "known p (started sha o1 ttl pre)"
        "fst (exchange sha t raw presented (gw_heap (started sha o1 ttl pre) ! p)) \<noteq> None"
        "px_cookieDigest (gw_heap ?g ! p) = sha (base64_encode raw)" by blast
      with 1(2) show ?thesis by (intro exI [of _ pre] exI [of _ t] exI [of _ raw] exI [of _ presented] exI [of _ "post @ [ev]"]) simp
    next
      case (2 t raw presented)
      with True now show ?thesis by (intro exI [of _ es] exI [of _ t] exI [of _ raw] exI [of _ presented] exI [of _ "[]"]) simp
    qed
  qed
qed

lemma activation_origin:
  assumes "known p (started sha o1 ttl es)" "px_activated (gw_heap (started sha o1 ttl es) ! p)"
  shows "\<exists>pre now raw post. es = pre @ GActivate now raw p # post \<and> known p (started sha o1 ttl pre)
    \<and> (let s = gw_heap (started sha o1 ttl pre) ! p; s' = gw_heap (started sha o1 ttl es) ! p in
       fst (activate sha ttl now raw s) = Inr (base64_encode raw, now + px_ttl s)
       \<and> px_bootstrapDigest s' = sha (base64_encode raw) \<and> px_expiresAt s' = Some (now + px_ttl s)
       \<and> px_bootstrapExpires s' = now + min ttl (px_ttl s))"
  using assms
proof (induction es rule: rev_induct)
  case Nil
  then show ?case by (simp add: known_def NewGateway_def)
next
  case (snoc ev es)
  let ?g = "started sha o1 ttl es"
  have now: "started sha o1 ttl (es @ [ev]) = gw_exec sha ev ?g" by simp
  have ttl: "gw_bootstrapTTL ?g = ttl" by (simp add: NewGateway_def)
  show ?case
  proof (cases "known p ?g")
    case False
    with snoc.prems gw_exec_new [of p sha ev ?g] show ?thesis by (auto simp: newSession_def)
  next
    case True
    note st = gw_exec_session [OF True, of sha ev]
    show ?thesis
    proof (cases "px_activated (gw_heap ?g ! p)")
      case act: True
      have "session_inv (gw_heap ?g ! p)" using gw_inv_run [OF gw_inv_new] True by (simp add: gw_inv_def)
      from session_step_kept [OF st this] act
      have same: "px_bootstrapDigest (gw_heap (gw_exec sha ev ?g) ! p) = px_bootstrapDigest (gw_heap ?g ! p)"
        "px_expiresAt (gw_heap (gw_exec sha ev ?g) ! p) = px_expiresAt (gw_heap ?g ! p)"
        "px_bootstrapExpires (gw_heap (gw_exec sha ev ?g) ! p) = px_bootstrapExpires (gw_heap ?g ! p)"
        by (simp_all add: kept_def session_le_def)
      from snoc.IH [OF True act] obtain pre t raw post where "es = pre @ GActivate t raw p # post" "known p (started sha o1 ttl pre)"
        "fst (activate sha ttl t raw (gw_heap (started sha o1 ttl pre) ! p))
           = Inr (base64_encode raw, t + px_ttl (gw_heap (started sha o1 ttl pre) ! p))"
        "px_bootstrapDigest (gw_heap ?g ! p) = sha (base64_encode raw)"
        "px_expiresAt (gw_heap ?g ! p) = Some (t + px_ttl (gw_heap (started sha o1 ttl pre) ! p))"
        "px_bootstrapExpires (gw_heap ?g ! p) = t + min ttl (px_ttl (gw_heap (started sha o1 ttl pre) ! p))"
        unfolding Let_def by blast
      with same show ?thesis
        by (intro exI [of _ pre] exI [of _ t] exI [of _ raw] exI [of _ "post @ [ev]"]) (simp add: Let_def)
    next
      case False
      from activate_step [OF st _ False] snoc.prems(2) obtain t raw where "ev = GActivate t raw p"
        "fst (activate sha ttl t raw (gw_heap ?g ! p)) = Inr (base64_encode raw, t + px_ttl (gw_heap ?g ! p))"
        "px_bootstrapDigest (gw_heap (gw_exec sha ev ?g) ! p) = sha (base64_encode raw)"
        "px_expiresAt (gw_heap (gw_exec sha ev ?g) ! p) = Some (t + px_ttl (gw_heap ?g ! p))"
        "px_bootstrapExpires (gw_heap (gw_exec sha ev ?g) ! p) = t + min ttl (px_ttl (gw_heap ?g ! p))"
        unfolding now ttl by blast
      with True now show ?thesis
        by (intro exI [of _ es] exI [of _ t] exI [of _ raw] exI [of _ "[]"]) (simp add: Let_def)
    qed
  qed
qed

text \<open>
  C37: The Preview Cookie opens a session only as it should. If a token authenticates a request at some point of a run,
  then the session was activated at a time \<open>t0\<close>, whoever presented the bootstrap credential made there exchanged it at
  a later step, before it expired, for the token, and the request comes before the session's lifetime is over; the
  bootstrap credential is used up. Tokens are compared by their digests.
\<close>

theorem preview_cookie_lifetime:
  assumes "known p (started sha o1 ttl es)" "authenticate sha now token (gw_heap (started sha o1 ttl es) ! p)"
  shows "\<exists>pre t0 raw0 mid t1 raw1 presented post.
      es = pre @ [GActivate t0 raw0 p] @ mid @ [GExchange t1 raw1 presented p] @ post
      \<and> (let life = px_ttl (gw_heap (started sha o1 ttl pre) ! p) in
         fst (activate sha ttl t0 raw0 (gw_heap (started sha o1 ttl pre) ! p)) = Inr (base64_encode raw0, t0 + life)
         \<and> sha presented = sha (base64_encode raw0) \<and> t1 < t0 + min ttl life
         \<and> sha token = sha (base64_encode raw1) \<and> length token = tokenLength \<and> now < t0 + life)
      \<and> (\<forall>t raw pr. exchange sha t raw pr (gw_heap (started sha o1 ttl es) ! p) = (None, gw_heap (started sha o1 ttl es) ! p))"
proof -
  let ?g = "started sha o1 ttl es"
  let ?s = "gw_heap ?g ! p"
  from assms(2) have a: "px_cookieIssued ?s" "px_state ?s = stateActive" "not_expired now ?s"
    "previewTokenDigest sha token = Some (px_cookieDigest ?s)" by (simp_all add: authenticate_def)
  from cookie_origin [OF assms(1) a(1)] obtain mid0 t1 raw1 presented post where
    c: "es = mid0 @ GExchange t1 raw1 presented p # post" "known p (started sha o1 ttl mid0)"
      "fst (exchange sha t1 raw1 presented (gw_heap (started sha o1 ttl mid0) ! p)) \<noteq> None"
      "px_cookieDigest ?s = sha (base64_encode raw1)" by blast
  let ?m = "started sha o1 ttl mid0"
  from c(3) have x: "px_state (gw_heap ?m ! p) = stateActive" "t1 < px_bootstrapExpires (gw_heap ?m ! p)"
    "previewTokenDigest sha presented = Some (px_bootstrapDigest (gw_heap ?m ! p))"
    by (auto simp: exchange_def split: if_splits)
  have inv: "gw_inv ?g" "gw_inv ?m" by (simp_all add: gw_inv_run gw_inv_new)
  have act: "px_activated (gw_heap ?m ! p)" using inv(2) c(2) x(1) by (simp add: gw_inv_def session_inv_def)
  from activation_origin [OF c(2) act] obtain pre t0 raw0 mid where
    b: "mid0 = pre @ GActivate t0 raw0 p # mid"
      "fst (activate sha ttl t0 raw0 (gw_heap (started sha o1 ttl pre) ! p))
         = Inr (base64_encode raw0, t0 + px_ttl (gw_heap (started sha o1 ttl pre) ! p))"
      "px_bootstrapDigest (gw_heap ?m ! p) = sha (base64_encode raw0)"
      "px_expiresAt (gw_heap ?m ! p) = Some (t0 + px_ttl (gw_heap (started sha o1 ttl pre) ! p))"
      "px_bootstrapExpires (gw_heap ?m ! p) = t0 + min ttl (px_ttl (gw_heap (started sha o1 ttl pre) ! p))"
    unfolding Let_def by blast
  have "?g = gw_run sha (GExchange t1 raw1 presented p # post) ?m" using c(1) by simp
  with run_session_le [OF inv(2) c(2)] have "session_le (gw_heap ?m ! p) ?s" by metis
  then have "px_expiresAt ?s = px_expiresAt (gw_heap ?m ! p)" using act by (simp add: session_le_def)
  with a(3) b(4) have "now < t0 + px_ttl (gw_heap (started sha o1 ttl pre) ! p)" by (simp add: not_expired_def)
  moreover have "sha presented = sha (base64_encode raw0)" using x(3) b(3) by (auto simp: previewTokenDigest_def split: if_splits option.splits)
  moreover have "sha token = sha (base64_encode raw1)" "length token = tokenLength"
    using a(4) c(4) by (auto simp: previewTokenDigest_def split: if_splits option.splits)
  moreover have "px_bootstrapUsed ?s" using inv(1) assms(1) a(1) by (simp add: gw_inv_def session_inv_def)
  then have "exchange sha t raw pr ?s = (None, ?s)" for t raw pr by (simp add: exchange_def)
  moreover have "es = pre @ [GActivate t0 raw0 p] @ mid @ [GExchange t1 raw1 presented p] @ post" using c(1) b(1) by simp
  ultimately show ?thesis using b(2,5) x(2)
    by (intro exI [of _ pre] exI [of _ t0] exI [of _ raw0] exI [of _ mid] exI [of _ t1] exI [of _ raw1] exI [of _ presented]
        exI [of _ post]) (simp add: Let_def)
qed

end
