(* ===== verification/Preview_Ending.thy ===== *)
theory Preview_Ending
  imports Preview_Runs
begin

text \<open>
  What ends preview sessions: the map of the gateway holds every session that has not ended, so that revocations,
  mutations of the lab and the shutdown of the process reach all of them. And what the Data endpoint lets in.
\<close>

section \<open>The map of sessions\<close>

definition map_inv :: "gateway \<Rightarrow> bool" where
  "map_inv g \<longleftrightarrow>
     (\<forall>i p. gw_sessions g i = Some p \<longrightarrow> known p g \<and> px_id (gw_heap g ! p) = i)
     \<and> (\<forall>p. known p g \<and> px_state (gw_heap g ! p) \<noteq> stateEnded \<longrightarrow> gw_sessions g (px_id (gw_heap g ! p)) = Some p)"

lemma sessions_frames [simp]:
  "gw_sessions (close_chan ch g) = gw_sessions g" "gw_sessions (close_conn c x d g) = gw_sessions g"
  "gw_sessions (tunnel_shutdown c x u t g) = gw_sessions g" "gw_sessions (tunnel_close c x t g) = gw_sessions g"
  "gw_sessions (notifyEnded m g) = gw_sessions g" "gw_sessions (close_peer c x s g) = gw_sessions g"
  "gw_sessions (snd (accept_conn i g)) = gw_sessions g" "gw_sessions (done_seen d g) = gw_sessions g"
  "gw_sessions (snd (ack_written p d g)) = gw_sessions g"
  by (simp_all add: close_chan_def close_conn_def tunnel_shutdown_def tunnel_close_def notifyEnded_def close_peer_def
      accept_conn_def done_seen_def Let_def split: option.split)
    (auto simp: ack_written_def Let_def at_session_def tunnel_close_def tunnel_shutdown_def close_conn_def close_chan_def
      split: prod.split bool.split option.split)

lemma map_inv_add:
  assumes inv: "map_inv g" and new: "gw_sessions g (px_id s) = None"
  defines "g' \<equiv> g\<lparr>gw_heap := gw_heap g @ [s], gw_sessions := (gw_sessions g)(px_id s \<mapsto> length (gw_heap g))\<rparr>"
  shows "map_inv g'"
proof -
  have old: "known p g \<Longrightarrow> gw_heap g' ! p = gw_heap g ! p" "known p g' \<longleftrightarrow> known p g \<or> p = length (gw_heap g)" for p
    by (auto simp: g'_def known_def nth_append)
  have last: "gw_heap g' ! length (gw_heap g) = s" by (simp add: g'_def)
  have "known p g' \<and> px_id (gw_heap g' ! p) = i" if "gw_sessions g' i = Some p" for i p
  proof (cases "i = px_id s")
    case True
    with that have "p = length (gw_heap g)" by (simp add: g'_def)
    with True old(2) last show ?thesis by simp
  next
    case False
    with that have "gw_sessions g i = Some p" by (simp add: g'_def)
    with inv old show ?thesis by (simp add: map_inv_def)
  qed
  moreover have "gw_sessions g' (px_id (gw_heap g' ! p)) = Some p" if "known p g'" "px_state (gw_heap g' ! p) \<noteq> stateEnded" for p
  proof (cases "known p g")
    case True
    with that(2) inv old have o1: "gw_sessions g (px_id (gw_heap g ! p)) = Some p" by (simp add: map_inv_def)
    with new have "px_id (gw_heap g ! p) \<noteq> px_id s" by auto
    with o1 True old show ?thesis by (simp add: g'_def)
  next
    case False
    with that(1) old(2) last show ?thesis by (auto simp: g'_def)
  qed
  ultimately show ?thesis by (simp add: map_inv_def)
qed

text \<open>A step that takes nothing out of the map but ended sessions keeps the invariant.\<close>

lemma map_inv_step:
  assumes inv: "map_inv g"
    and same: "\<And>p. known p g \<Longrightarrow> known p g' \<and> px_id (gw_heap g' ! p) = px_id (gw_heap g ! p)
        \<and> (px_state (gw_heap g ! p) = stateEnded \<longrightarrow> px_state (gw_heap g' ! p) = stateEnded)"
    and len: "length (gw_heap g') = length (gw_heap g)"
    and drop: "gw_sessions g' = gw_sessions g
      \<or> (\<exists>q. known q g \<and> px_state (gw_heap g' ! q) = stateEnded \<and> gw_sessions g (px_id (gw_heap g ! q)) = Some q
            \<and> gw_sessions g' = (gw_sessions g)(px_id (gw_heap g ! q) := None))"
  shows "map_inv g'"
proof -
  have k: "known p g' = known p g" for p using len by (simp add: known_def)
  have "known p g' \<and> px_id (gw_heap g' ! p) = i" if "gw_sessions g' i = Some p" for i p
  proof -
    have "gw_sessions g i = Some p" using that drop by (auto split: if_splits)
    then have "known p g" "px_id (gw_heap g ! p) = i" using inv by (simp_all add: map_inv_def)
    with same k show ?thesis by simp
  qed
  moreover have "gw_sessions g' (px_id (gw_heap g' ! p)) = Some p" if p: "known p g'" "px_state (gw_heap g' ! p) \<noteq> stateEnded" for p
  proof -
    have o1: "known p g" "px_id (gw_heap g' ! p) = px_id (gw_heap g ! p)" "px_state (gw_heap g ! p) \<noteq> stateEnded"
      using p k same [of p] by auto
    then have o2: "gw_sessions g (px_id (gw_heap g ! p)) = Some p" using inv by (simp add: map_inv_def)
    from drop show ?thesis
    proof (elim disjE exE conjE)
      fix q
      assume q: "px_state (gw_heap g' ! q) = stateEnded" "gw_sessions g (px_id (gw_heap g ! q)) = Some q"
        "gw_sessions g' = (gw_sessions g)(px_id (gw_heap g ! q) := None)"
      have "p \<noteq> q" using q(1) p(2) by auto
      with q(2) o2 have "px_id (gw_heap g ! p) \<noteq> px_id (gw_heap g ! q)" by auto
      with q(3) o1(2) o2 show ?thesis by simp
    qed (use o1(2) o2 in simp)
  qed
  ultimately show ?thesis by (simp add: map_inv_def)
qed

lemma step_id:
  assumes "gw_inv g" "known p g"
  shows "known p (gw_exec sha ev g) \<and> px_id (gw_heap (gw_exec sha ev g) ! p) = px_id (gw_heap g ! p)
    \<and> (px_state (gw_heap g ! p) = stateEnded \<longrightarrow> px_state (gw_heap (gw_exec sha ev g) ! p) = stateEnded)"
proof -
  have "session_inv (gw_heap g ! p)" using assms by (simp add: gw_inv_def)
  with session_step_kept [OF gw_exec_session [OF assms(2)]] known_exec [OF assms(2)] show ?thesis
    by (auto simp: kept_def session_le_def identity_of_def)
qed

lemma length_end [simp]: "length (gw_heap (snd (endSession now p e c x silent g))) = length (gw_heap g)"
  by (simp add: endSession_heap)

lemma endSession_drop:
  assumes "known p g"
  shows "gw_sessions (snd (endSession now p e c x silent g)) = gw_sessions g
    \<or> (px_state (gw_heap (snd (endSession now p e c x silent g)) ! p) = stateEnded
        \<and> gw_sessions g (px_id (gw_heap g ! p)) = Some p
        \<and> gw_sessions (snd (endSession now p e c x silent g)) = (gw_sessions g)(px_id (gw_heap g ! p) := None))"
  using assms by (auto simp: endSession_def Let_def removeSession_def at_session_heap mark_ended_def known_def)

lemma map_inv_exec:
  assumes "gw_inv g" "map_inv g"
  shows "map_inv (gw_exec sha ev g)"
proof (cases "\<exists>e. ev = GExpect e")
  case True
  then obtain e where ev: "ev = GExpect e" by blast
  show ?thesis
  proof (cases "\<exists>r. fst (Expect e g) = Inl r")
    case True
    then have "gw_exec sha ev g = g" by (auto simp: ev Expect_def split: if_splits)
    with assms(2) show ?thesis by simp
  next
    case False
    then have "gw_exec sha ev g = g\<lparr>gw_heap := gw_heap g @ [newSession e], gw_sessions := (gw_sessions g)(pe_SessionID e \<mapsto> length (gw_heap g))\<rparr>"
      "gw_sessions g (pe_SessionID e) = None" by (auto simp: ev Expect_def split: if_splits)
    with map_inv_add [OF assms(2), of "newSession e"] show ?thesis by (simp add: newSession_def)
  qed
next
  case False
  show ?thesis
  proof (rule map_inv_step [OF assms(2) step_id [OF assms(1)]])
    show "length (gw_heap (gw_exec sha ev g)) = length (gw_heap g)"
      using False by (cases ev) (auto simp: at_session_heap ack_failed_def ack_written_heap tunnel_done_def at_session_def
          split: prod.split sum.split option.split)
    show "gw_sessions (gw_exec sha ev g) = gw_sessions g
      \<or> (\<exists>q. known q g \<and> px_state (gw_heap (gw_exec sha ev g) ! q) = stateEnded \<and> gw_sessions g (px_id (gw_heap g ! q)) = Some q
            \<and> gw_sessions (gw_exec sha ev g) = (gw_sessions g)(px_id (gw_heap g ! q) := None))"
    proof (cases ev)
      case (GRemove q)
      then show ?thesis by (auto simp: removeSession_def Let_def)
    next
      case (GEnd now q e c x silent)
      then show ?thesis using endSession_drop [of q g now e c x silent] by auto
    next
      case (GAckFailed now q d)
      then show ?thesis
        using endSession_drop [of q g now "\<lparr>en_Reason = EndTunnelClosed, en_NotifyConnector = False\<rparr>" closeNormal "''attach failed''" False]
        by (auto simp: ack_failed_def)
    next
      case (GTunnelDone now q t)
      then show ?thesis
        using endSession_drop [of q g now _ closeNormal "''tunnel closed''" False]
        by (auto simp: tunnel_done_def split: option.split)
    qed (use False in \<open>auto simp: at_session_def split: prod.split sum.split option.split\<close>)
  qed
qed

lemma map_inv_started: "map_inv (started sha o1 ttl es) \<and> gw_inv (started sha o1 ttl es)"
proof (induction es rule: rev_induct)
  case Nil
  then show ?case using gw_inv_new by (simp add: map_inv_def known_def NewGateway_def)
qed (simp add: map_inv_exec gw_inv_exec)

section \<open>Ending many sessions\<close>

text \<open>Exactly the sessions that match and have not ended are ended, and their tunnels are shut down.\<close>

definition ended_exactly :: "(preview_session \<Rightarrow> bool) \<Rightarrow> EndNotice \<Rightarrow> gateway \<Rightarrow> gateway \<Rightarrow> bool" where
  "ended_exactly match e g g' \<longleftrightarrow>
     (\<forall>p. known p g \<longrightarrow>
        (let s = gw_heap g ! p in
         gw_heap g' ! p = (if match s \<and> px_state s \<noteq> stateEnded then mark_ended e s else s)
         \<and> (\<forall>t. match s \<and> px_tunnel s = Some t \<longrightarrow> tn_cause (gw_tunnels g' ! t) \<noteq> None)))"

lemma endSession_kept:
  assumes "gw_inv g" "known p g"
  shows "gw_inv (snd (endSession now p e c x sl g))" "known q g \<Longrightarrow> known q (snd (endSession now p e c x sl g))"
  using gw_inv_exec [OF assms(1), of undefined "GEnd now p e c x sl"] known_exec [of q g undefined "GEnd now p e c x sl"] assms(2) by simp_all

lemma end_each_effect:
  fixes match e c x ps g now
  assumes "gw_inv g" "\<forall>p \<in> set ps. known p g"
  defines "g' \<equiv> end_each now match e c x ps g"
  shows "(\<forall>q. known q g \<longrightarrow> gw_heap g' ! q
      = (if q \<in> set ps \<and> match (gw_heap g ! q) \<and> px_state (gw_heap g ! q) \<noteq> stateEnded then mark_ended e (gw_heap g ! q) else gw_heap g ! q))
    \<and> tunnels_le g g'
    \<and> (\<forall>q t. q \<in> set ps \<and> match (gw_heap g ! q) \<and> px_tunnel (gw_heap g ! q) = Some t \<longrightarrow> tn_cause (gw_tunnels g' ! t) \<noteq> None)"
  using assms(1,2) unfolding g'_def
proof (induction ps arbitrary: g)
  case (Cons p ps)
  define g1 where "g1 = (if match (gw_heap g ! p) then snd (endSession now p e c x False g) else g)"
  have kp: "known p g" and kps: "\<forall>q \<in> set ps. known q g" using Cons.prems(2) by simp_all
  have inv1: "gw_inv g1" and k1: "known q g \<Longrightarrow> known q g1" for q
    using endSession_kept [OF Cons.prems(1) kp] Cons.prems(1) by (simp_all add: g1_def)
  have h1: "gw_heap g1 ! q = (if q = p \<and> match (gw_heap g ! q) \<and> px_state (gw_heap g ! q) \<noteq> stateEnded
      then mark_ended e (gw_heap g ! q) else gw_heap g ! q)" if "known q g" for q
    using that by (auto simp: g1_def endSession_heap known_def nth_upd)
  have t1: "tunnels_le g g1" by (simp add: g1_def tunnels_le_end tunnels_le_same)
  have step: "end_each now match e c x (p # ps) g = end_each now match e c x ps g1" by (simp add: g1_def)
  have "\<forall>q \<in> set ps. known q g1" using kps k1 by blast
  note IH = Cons.IH [OF inv1 this] k1 kps
  have ih: "gw_heap (end_each now match e c x ps g1) ! q = (if q \<in> set ps \<and> match (gw_heap g1 ! q) \<and> px_state (gw_heap g1 ! q) \<noteq> stateEnded
      then mark_ended e (gw_heap g1 ! q) else gw_heap g1 ! q)" if "known q g" for q using IH(1) k1 [OF that] by blast
  have ended: "px_state (mark_ended e s) = stateEnded" for s by (simp add: mark_ended_def)
  have heap: "gw_heap (end_each now match e c x (p # ps) g) ! q
      = (if q \<in> set (p # ps) \<and> match (gw_heap g ! q) \<and> px_state (gw_heap g ! q) \<noteq> stateEnded
         then mark_ended e (gw_heap g ! q) else gw_heap g ! q)" if "known q g" for q
    using ih [OF that] h1 [OF that] by (cases "q = p \<and> match (gw_heap g ! q) \<and> px_state (gw_heap g ! q) \<noteq> stateEnded")
      (auto simp: step ended simp del: end_each.simps)
  have tl: "tunnels_le g1 (end_each now match e c x (p # ps) g)" using IH by (simp add: step del: end_each.simps)
  have tun: "tn_cause (gw_tunnels (end_each now match e c x (p # ps) g) ! t) \<noteq> None"
    if q: "q \<in> set (p # ps)" "match (gw_heap g ! q)" "px_tunnel (gw_heap g ! q) = Some t" for q t
  proof (cases "q = p")
    case True
    have live: "px_state (gw_heap g ! p) \<noteq> stateEnded" and len: "t < length (gw_tunnels g)"
      using Cons.prems(1) kp q(3) True by (auto simp: gw_inv_def session_inv_def)
    have "tn_cause (gw_tunnels g1 ! t) \<noteq> None"
      using endSession_ends(4) [OF kp live prod.collapse [symmetric], of t] q(2,3) True len by (simp add: g1_def)
    with tl len t1 show ?thesis by (simp add: tunnels_le_def)
  next
    case False
    with q have "q \<in> set ps" "known q g" using kps by auto
    moreover have "gw_heap g1 ! q = gw_heap g ! q" using h1 [OF \<open>known q g\<close>] False by simp
    ultimately show ?thesis using q(2,3) IH(1) unfolding step by metis
  qed
  have "tunnels_le g (end_each now match e c x (p # ps) g)" using tunnels_le_trans [OF t1 tl] .
  with heap tun show ?case by blast
qed (simp add: tunnels_le_same)

lemma ended_exactly_map:
  assumes "gw_inv g" "map_inv g" "set order = ran (gw_sessions g)"
  shows "ended_exactly match e g (end_each now match e c x order g)"
proof -
  have k: "\<forall>p \<in> set order. known p g" using assms(2,3) by (auto simp: map_inv_def ran_def)
  have live: "known p g \<Longrightarrow> px_state (gw_heap g ! p) \<noteq> stateEnded \<Longrightarrow> p \<in> set order" for p
    using assms(2,3) by (auto simp: map_inv_def ran_def)
  have "px_tunnel (gw_heap g ! p) = Some t \<Longrightarrow> known p g \<Longrightarrow> px_state (gw_heap g ! p) \<noteq> stateEnded" for p t
    using assms(1) by (auto simp: gw_inv_def session_inv_def)
  with end_each_effect [OF assms(1) k, of now match e c x] live show ?thesis
    unfolding ended_exactly_def Let_def by (metis (mono_tags, lifting))
qed

text \<open>
  C38: Losing trust ends every preview at once. In any run, revoking a Credential ends exactly the sessions whose open was
  sent over a control session of that Credential, revoking a Connector exactly the sessions of that Connector, and the end of
  a control session exactly the sessions bound to it; the shutdown of the process ends all. Each of them shuts down the tunnel of
  the sessions it ends and leaves every other session as it was, wherever the map of sessions is ranged over in what order.
\<close>

theorem revocation_ends_previews:
  assumes "g = started sha o1 ttl es" "set order = ran (gw_sessions g)"
  shows "(c \<noteq> uuid_Nil \<longrightarrow>
        ended_exactly (\<lambda>s. px_bound s \<and> px_credentialID s = c) \<lparr>en_Reason = EndCredentialRevoked, en_NotifyConnector = False\<rparr>
          g (CredentialRevoked now order c g)
        \<and> (\<forall>replaced. ended_exactly (\<lambda>s. px_bound s \<and> px_controlSession s = c)
              \<lparr>en_Reason = (if replaced then EndControlReplaced else EndCredentialRevoked), en_NotifyConnector = False\<rparr>
              g (ControlSessionEnded now order c replaced g)))
    \<and> ended_exactly (\<lambda>s. px_connectorID s = c) \<lparr>en_Reason = EndCredentialRevoked, en_NotifyConnector = False\<rparr>
          g (ConnectorRevoked now order c g)
    \<and> (gw_closed g \<or> ended_exactly (\<lambda>s. True) \<lparr>en_Reason = EndServiceRestarting, en_NotifyConnector = True\<rparr>
          g (Close_gateway now order g))"
proof -
  have inv: "gw_inv g" "map_inv g" using map_inv_started assms(1) by blast+
  have m: "(\<lambda>s. boundCredential s = c) = (\<lambda>s. px_bound s \<and> px_credentialID s = c)"
    "(\<lambda>s. boundControlSession s = c) = (\<lambda>s. px_bound s \<and> px_controlSession s = c)" if "c \<noteq> uuid_Nil"
    using that by (auto simp: boundCredential_def boundControlSession_def fun_eq_iff)
  let ?g = "g\<lparr>gw_closed := True\<rparr>"
  have "gw_inv ?g" "map_inv ?g" "set order = ran (gw_sessions ?g)"
    using inv assms(2) by (simp_all add: gw_inv_def map_inv_def known_def)
  from ended_exactly_map [OF this, of "\<lambda>s. True"]
  have "ended_exactly (\<lambda>s. True) \<lparr>en_Reason = EndServiceRestarting, en_NotifyConnector = True\<rparr> g (Close_gateway now order g)"
    if "\<not> gw_closed g" using that by (simp add: ended_exactly_def Close_gateway_def known_def)
  with ended_exactly_map [OF inv assms(2)] show ?thesis
    by (auto simp: CredentialRevoked_def ConnectorRevoked_def ControlSessionEnded_def m)
qed

section \<open>Attaching\<close>

text \<open>
  C39: What the Data endpoint lets in. An attach is accepted exactly when its session is in the map and has not ended, the
  authenticated Connector is the session's, lab, generation, machine and port are the session's, the session is bound to the
  Credential that authenticated the connection, and the frame answers the open that is pending. An accepted attach binds the connection to
  this session and changes no other; a refused one changes no session and closes its own connection only.
\<close>

definition attach_matches :: "ConnectorIdentity \<Rightarrow> attachFrame \<Rightarrow> preview_session \<Rightarrow> bool" where
  "attach_matches identity f s \<longleftrightarrow>
     px_state s \<noteq> stateEnded \<and> cy_ConnectorID identity = px_connectorID s \<and> px_bound s \<and> cy_CredentialID identity = px_credentialID s
     \<and> px_openPending s \<and> af_ReplyToMessageID f = px_pendingOpenID s \<and> af_ReplyToMessageID f \<noteq> []
     \<and> px_labInstanceID s = af_LabInstanceID f \<and> px_generation s = af_Generation f \<and> px_vmKey s = af_TargetVMKey f
     \<and> px_serverID s = af_ProviderServerID f \<and> px_port s = af_TargetPort f"

definition attached_to :: "nat \<Rightarrow> preview_session \<Rightarrow> preview_session" where
  "attached_to d s = s\<lparr>px_state := (if px_state s = statePending then stateAttached else px_state s), px_data := Some d\<rparr>"

lemma claim_cases:
  obtains r where "claimAttach d identity reply s = (Some r, s)"
      "\<not> (px_state s \<noteq> stateEnded \<and> px_openPending s \<and> reply \<noteq> [] \<and> reply = px_pendingOpenID s \<and> px_bound s
          \<and> cy_ConnectorID identity = px_connectorID s \<and> cy_CredentialID identity = px_credentialID s)"
  | "claimAttach d identity reply s = (None, attached_to d s)" "px_state s \<noteq> stateEnded" "px_openPending s" "reply \<noteq> []"
      "reply = px_pendingOpenID s" "px_bound s" "cy_ConnectorID identity = px_connectorID s" "cy_CredentialID identity = px_credentialID s"
proof (cases "px_state s \<noteq> stateEnded \<and> px_openPending s \<and> reply \<noteq> [] \<and> reply = px_pendingOpenID s \<and> px_bound s
    \<and> cy_ConnectorID identity = px_connectorID s \<and> cy_CredentialID identity = px_credentialID s")
  case True
  then show ?thesis by (intro that(2)) (auto simp: claimAttach_def attached_to_def)
next
  case False
  then have "\<exists>r. claimAttach d identity reply s = (Some r, s)"
    by (cases "px_state s = stateEnded"; cases "px_openPending s"; cases "reply = []"; cases "reply = px_pendingOpenID s";
        cases "px_bound s"; cases "cy_ConnectorID identity = px_connectorID s"; simp add: claimAttach_def)
  with False that(1) show ?thesis by blast
qed

lemma attach_matches_iff:
  "attach_matches identity f s \<longleftrightarrow>
     attach_checks identity f s = None \<and> claimAttach d identity (af_ReplyToMessageID f) s = (None, attached_to d s)"
proof -
  have "attach_checks identity f s = None \<longleftrightarrow> px_connectorID s = cy_ConnectorID identity \<and> px_labInstanceID s = af_LabInstanceID f
      \<and> px_generation s = af_Generation f \<and> px_vmKey s = af_TargetVMKey f \<and> px_serverID s = af_ProviderServerID f
      \<and> px_port s = af_TargetPort f"
    by (auto simp: attach_checks_def)
  then show ?thesis
    by (cases rule: claim_cases [of d identity "af_ReplyToMessageID f" s]) (auto simp: attach_matches_def)
qed

lemma attach_cases:
  assumes "d < length (gw_conns g)"
  obtains p where "gw_sessions g (af_PreviewSessionID f) = Some p" "attach_matches (dc_identity (gw_conns g ! d)) f (gw_heap g ! p)"
      "attach d f g = (Inr p, g\<lparr>gw_heap := (gw_heap g)[p := attached_to d (gw_heap g ! p)],
         gw_conns := (gw_conns g)[d := (gw_conns g ! d)\<lparr>dc_bound := True\<rparr>]\<rparr>)"
  | r where "\<And>p. gw_sessions g (af_PreviewSessionID f) = Some p \<Longrightarrow> \<not> attach_matches (dc_identity (gw_conns g ! d)) f (gw_heap g ! p)"
      "attach d f g = (Inl r, close_conn closePolicy ''attach rejected'' d g)"
proof (cases "gw_sessions g (af_PreviewSessionID f)")
  case None
  then show ?thesis by (intro that(2)) (simp_all add: attach_def lookup_def Let_def)
next
  case (Some p)
  let ?id = "dc_identity (gw_conns g ! d)"
  let ?claim = "claimAttach d ?id (af_ReplyToMessageID f)"
  show ?thesis
  proof (cases "attach_matches ?id f (gw_heap g ! p)")
    case True
    with Some show ?thesis
      by (intro that(1)) (simp_all add: attach_def lookup_def Let_def attach_matches_iff [of _ _ _ d] at_session_def)
  next
    case False
    show ?thesis
    proof (cases "attach_checks ?id f (gw_heap g ! p)")
      case (Some r)
      with \<open>gw_sessions g (af_PreviewSessionID f) = Some p\<close> False show ?thesis
        by (intro that(2)) (simp_all add: attach_def lookup_def Let_def)
    next
      case None
      with False obtain r where r: "?claim (gw_heap g ! p) = (Some r, gw_heap g ! p)"
        by (cases rule: claim_cases [of d ?id "af_ReplyToMessageID f" "gw_heap g ! p"]) (auto simp: attach_matches_iff [of _ _ _ d])
      with None Some False show ?thesis
        by (intro that(2)) (simp_all add: attach_def lookup_def Let_def at_session_def)
    qed
  qed
qed

theorem attach_accepted_iff:
  assumes "d < length (gw_conns g)"
  shows "(\<forall>p. fst (attach d f g) = Inr p \<longleftrightarrow>
        gw_sessions g (af_PreviewSessionID f) = Some p \<and> attach_matches (dc_identity (gw_conns g ! d)) f (gw_heap g ! p))
    \<and> (case attach d f g of
        (Inr p, g') \<Rightarrow> gw_heap g' = (gw_heap g)[p := attached_to d (gw_heap g ! p)] \<and> gw_conns g' ! d = (gw_conns g ! d)\<lparr>dc_bound := True\<rparr>
      | (Inl r, g') \<Rightarrow> gw_heap g' = gw_heap g \<and> gw_tunnels g' = gw_tunnels g \<and> dc_closed (gw_conns g' ! d) \<noteq> None
          \<and> (\<forall>k. k \<noteq> d \<longrightarrow> gw_conns g' ! k = gw_conns g ! k))"
  using assms
  by (rule attach_cases [of d g f]) (auto simp: assms close_conn_def Let_def split: option.split)

lemma attach_accept:
  assumes "d < length (gw_conns g)" "gw_sessions g (af_PreviewSessionID f) = Some p"
    "attach_matches (dc_identity (gw_conns g ! d)) f (gw_heap g ! p)"
  shows "attach d f g = (Inr p, g\<lparr>gw_heap := (gw_heap g)[p := attached_to d (gw_heap g ! p)],
         gw_conns := (gw_conns g)[d := (gw_conns g ! d)\<lparr>dc_bound := True\<rparr>]\<rparr>)"
  using attach_cases [OF assms(1), of f] assms(2,3) by (metis option.inject)

lemma ack_written_live:
  assumes "px_state (gw_heap g ! p) \<noteq> stateEnded"
  shows "ack_written p d g =
    (length (gw_tunnels g), close_chan (px_tunnelReady (gw_heap g ! p))
       (g\<lparr>gw_tunnels := gw_tunnels g @ [\<lparr>tn_ws = d, tn_cause = None\<rparr>],
         gw_heap := (gw_heap g)[p := snd (setTunnel (length (gw_tunnels g)) (gw_heap g ! p))]\<rparr>))"
  using assms by (simp add: ack_written_def Let_def at_session_def setTunnel_def)

lemma conns_frames [simp]:
  "gw_conns (close_chan ch g) = gw_conns g" "gw_conns (removeSession p g) = gw_conns g" "gw_conns (notifyEnded m g) = gw_conns g"
  by (simp_all add: close_chan_def removeSession_def notifyEnded_def Let_def split: option.split)

text \<open>The end of a session with a tunnel shuts this tunnel down and closes its connection, and no other.\<close>

lemma endSession_peer:
  fixes now e code msg silent
  assumes "px_state (gw_heap g ! p) \<noteq> stateEnded" "px_tunnel (gw_heap g ! p) = Some t" "t < length (gw_tunnels g)"
  defines "g' \<equiv> snd (endSession now p e code msg silent g)"
  shows "tn_cause (gw_tunnels g' ! t) \<noteq> None" "k \<noteq> t \<Longrightarrow> gw_tunnels g' ! k = gw_tunnels g ! k"
    "d \<noteq> tn_ws (gw_tunnels g ! t) \<Longrightarrow> gw_conns g' ! d = gw_conns g ! d"
  using assms(1-3) unfolding g'_def
  by (auto simp: endSession_def Let_def close_peer_def tunnel_close_def tunnel_shutdown_def close_conn_def nth_upd)

text \<open>
  C40: Two attaches that answer the same open are both accepted when the second comes before the tunnel of the first is set, since the
  open stays pending until then. The session keeps the second tunnel only, so that its end, by a revocation for example, leaves the
  connection and the tunnel of the first attach open.
\<close>

theorem second_attach_survives:
  assumes "attach d1 f g = (Inr p, g1)" "d1 < length (gw_conns g)" "d2 < length (gw_conns g)" "d1 \<noteq> d2" "p < length (gw_heap g)"
    and "dc_identity (gw_conns g ! d2) = dc_identity (gw_conns g ! d1)" "dc_closed (gw_conns g ! d1) = None"
  shows "\<exists>g2 g3 t1 g4 t2. attach d2 f g1 = (Inr p, g2) \<and> ack_written p d1 g2 = (t1, g3) \<and> ack_written p d2 g3 = (t2, g4)
    \<and> px_tunnel (gw_heap g4 ! p) = Some t2
    \<and> (\<forall>now e code msg silent. case endSession now p e code msg silent g4 of (b, g5) \<Rightarrow>
        b \<and> tn_cause (gw_tunnels g5 ! t2) \<noteq> None \<and> tn_ws (gw_tunnels g5 ! t1) = d1
        \<and> tn_cause (gw_tunnels g5 ! t1) = None \<and> dc_closed (gw_conns g5 ! d1) = None)"
proof -
  from assms(1,2) obtain m: "gw_sessions g (af_PreviewSessionID f) = Some p"
      "attach_matches (dc_identity (gw_conns g ! d1)) f (gw_heap g ! p)"
    and g1: "g1 = g\<lparr>gw_heap := (gw_heap g)[p := attached_to d1 (gw_heap g ! p)],
        gw_conns := (gw_conns g)[d1 := (gw_conns g ! d1)\<lparr>dc_bound := True\<rparr>]\<rparr>"
    by (auto elim: attach_cases [of d1 g f])
  let ?s1 = "attached_to d1 (gw_heap g ! p)"
  have s1: "gw_heap g1 ! p = ?s1" "d2 < length (gw_conns g1)" using assms(3,5) by (simp_all add: g1)
  have "attach_matches (dc_identity (gw_conns g1 ! d2)) f ?s1"
    using m(2) assms(4,6) by (auto simp: g1 attach_matches_def attached_to_def)
  with attach_accept [OF s1(2), of f p] m(1) s1(1)
  obtain g2 where at2: "attach d2 f g1 = (Inr p, g2)" and g2: "g2 = g1\<lparr>gw_heap := (gw_heap g1)[p := attached_to d2 ?s1],
        gw_conns := (gw_conns g1)[d2 := (gw_conns g1 ! d2)\<lparr>dc_bound := True\<rparr>]\<rparr>"
    unfolding g1 by simp
  let ?s2 = "attached_to d2 ?s1" and ?t1 = "length (gw_tunnels g)"
  have s2: "gw_heap g2 ! p = ?s2" "px_state ?s2 \<noteq> stateEnded"
    using m(2) assms(5) by (simp_all add: g1 g2 attached_to_def attach_matches_def)
  obtain g3 where k3: "ack_written p d1 g2 = (?t1, g3)" and g3: "g3 = close_chan (px_tunnelReady ?s2)
      (g2\<lparr>gw_tunnels := gw_tunnels g @ [\<lparr>tn_ws = d1, tn_cause = None\<rparr>], gw_heap := (gw_heap g2)[p := snd (setTunnel ?t1 ?s2)]\<rparr>)"
    using ack_written_live [of g2 p d1] s2 by (simp add: g2 g1)
  let ?s3 = "snd (setTunnel ?t1 ?s2)" and ?t2 = "Suc ?t1"
  have s3: "gw_heap g3 ! p = ?s3" "px_state ?s3 \<noteq> stateEnded" "gw_tunnels g3 = gw_tunnels g @ [\<lparr>tn_ws = d1, tn_cause = None\<rparr>]"
    using s2(2) assms(5) by (simp_all add: g3 g2 g1 setTunnel_def)
  obtain g4 where k4: "ack_written p d2 g3 = (?t2, g4)" and g4: "g4 = close_chan (px_tunnelReady ?s3)
      (g3\<lparr>gw_tunnels := gw_tunnels g3 @ [\<lparr>tn_ws = d2, tn_cause = None\<rparr>], gw_heap := (gw_heap g3)[p := snd (setTunnel ?t2 ?s3)]\<rparr>)"
    using ack_written_live [of g3 p d2] s3 by simp
  have len: "length (gw_heap g3) = length (gw_heap g)" by (simp add: g3 g2 g1)
  have s4: "px_state (gw_heap g4 ! p) \<noteq> stateEnded" "px_tunnel (gw_heap g4 ! p) = Some ?t2"
    "gw_tunnels g4 = gw_tunnels g @ [\<lparr>tn_ws = d1, tn_cause = None\<rparr>, \<lparr>tn_ws = d2, tn_cause = None\<rparr>]"
    "dc_closed (gw_conns g4 ! d1) = None"
    using s3 assms(2,4,5,7) len by (simp_all add: g4 setTunnel_def g3 g2 g1 nth_upd)
  have t: "gw_tunnels g4 ! ?t1 = \<lparr>tn_ws = d1, tn_cause = None\<rparr>" "gw_tunnels g4 ! ?t2 = \<lparr>tn_ws = d2, tn_cause = None\<rparr>" "?t2 < length (gw_tunnels g4)"
    by (simp_all add: s4(3) nth_append)
  have last: "case endSession now p e code msg silent g4 of (b, g5) \<Rightarrow>
        b \<and> tn_cause (gw_tunnels g5 ! ?t2) \<noteq> None \<and> tn_ws (gw_tunnels g5 ! ?t1) = d1
        \<and> tn_cause (gw_tunnels g5 ! ?t1) = None \<and> dc_closed (gw_conns g5 ! d1) = None" for now e code msg silent
    using endSession_peer [OF s4(1,2) t(3), where now = now and e = e and code = code and msg = msg and silent = silent] t s4(4) assms(4) s4(1)
    by (cases "endSession now p e code msg silent g4") (auto simp: endSession_def Let_def)
  with at2 k3 k4 s4(2) show ?thesis by blast
qed

end
