(* ===== verification/Preview_Evidence.thy ===== *)
theory Preview_Evidence
  imports Preview_Ending
begin

text \<open>
  The properties of the Preview Gateway on one concrete run: a session is expected, bound and attached, activated and its
  bootstrap credential exchanged. The digest is the identity, and the tokens are encodings of fixed bytes.
\<close>

definition demo_px_expected :: Expected where
  "demo_px_expected =
     \<lparr>pe_SessionID = ''s1'', pe_OwnerID = ''u1'', pe_OrganizationID = ''o1'', pe_ConnectorID = 7, pe_LabInstanceID = ''lab1'',
      pe_Generation = 1, pe_TargetVMKey = ''ws'', pe_ProviderServerID = ''srv1'', pe_TargetPort = 8080, pe_TTL = 100,
      pe_RequestID = ''rq'', pe_OpenMessageID = ''open1''\<rparr>"

definition demo_px_frame :: attachFrame where
  "demo_px_frame =
     \<lparr>af_MessageID = ''m1'', af_ReplyToMessageID = ''open1'', af_PreviewSessionID = ''s1'', af_LabInstanceID = ''lab1'',
      af_Generation = 1, af_TargetVMKey = ''ws'', af_ProviderServerID = ''srv1'', af_TargetPort = 8080\<rparr>"

definition demo_px_identity :: ConnectorIdentity where
  "demo_px_identity = \<lparr>cy_ConnectorID = 7, cy_CredentialID = 9\<rparr>"

definition demo_px_raw :: "char \<Rightarrow> string" where
  "demo_px_raw c = replicate 32 c"

definition demo_px_bound :: "gw_event list" where
  "demo_px_bound =
     [GExpect demo_px_expected, GBind 0 \<lparr>bd_ConnectorID = 7, bd_ControlSessionID = 8, bd_CredentialID = 9\<rparr>, GConn demo_px_identity,
      GConn demo_px_identity]"

definition demo_px_active :: "gw_event list" where
  "demo_px_active =
     demo_px_bound @ [GClaim 0 0 demo_px_frame, GAck 0 0, GActivate 10 (demo_px_raw CHR ''a'') 0,
       GExchange 11 (demo_px_raw CHR ''b'') (base64_encode (demo_px_raw CHR ''a'')) 0]"

lemmas demo_px_defs = demo_px_expected_def demo_px_frame_def demo_px_identity_def demo_px_bound_def demo_px_active_def

text \<open>A token that was made is accepted for its own digest.\<close>

lemma base64_encode_length:
  "length (base64_encode b) = length b div 3 * 4 + (if length b mod 3 = 0 then 0 else Suc (length b mod 3))"
  by (induction b rule: base64_encode.induct) simp_all

lemma new_token_accepted:
  "length raw = tokenBytes \<Longrightarrow> previewTokenDigest sha (base64_encode raw) = Some (sha (base64_encode raw))"
  by (simp add: previewTokenDigest_def base64_encode_length decode_encode tokenBytes_def tokenLength_def)

lemma demo_px_raw_length [simp]: "length (demo_px_raw c) = tokenBytes"
  by (simp add: demo_px_raw_def tokenBytes_def)

lemma demo_label: "validLabel ''s1''"
  by code_simp

lemmas demo_px_exec = demo_px_expected_def demo_px_frame_def demo_px_identity_def NewGateway_def Expect_def Expected_valid_def
  demo_label newSession_def known_def at_session_def bind_session_def accept_conn_def attach_checks_def claimAttach_def
  ack_written_def setTunnel_def close_chan_def activate_def exchange_def newToken_def new_token_accepted not_expired_def Let_def

definition demo_px_run :: "gw_event list \<Rightarrow> gateway" where
  "demo_px_run es = started (\<lambda>b. b) demo_template 60 es"

lemma demo_px_bound_state:
  defines "g \<equiv> demo_px_run demo_px_bound"
  shows "known 0 g" "gw_sessions g = [''s1'' \<mapsto> 0]" "length (gw_conns g) = 2" "dc_identity (gw_conns g ! 0) = demo_px_identity"
    "dc_identity (gw_conns g ! 1) = demo_px_identity" "dc_closed (gw_conns g ! 0) = None"
    "attach_matches demo_px_identity demo_px_frame (gw_heap g ! 0)"
  by (simp_all add: g_def demo_px_run_def demo_px_bound_def demo_px_exec attach_matches_def)

lemma demo_px_active_state:
  defines "g \<equiv> demo_px_run demo_px_active"
  shows "known 0 g" "gw_sessions g = [''s1'' \<mapsto> 0]" "px_tunnel (gw_heap g ! 0) = Some 0"
    "authenticate (\<lambda>b. b) 50 (base64_encode (demo_px_raw CHR ''b'')) (gw_heap g ! 0)" "px_state (gw_heap g ! 0) = stateActive"
    "px_bound (gw_heap g ! 0)" "px_credentialID (gw_heap g ! 0) = 9" "px_connectorID (gw_heap g ! 0) = 7" "\<not> gw_closed g"
  by (simp_all add: g_def demo_px_run_def demo_px_active_def demo_px_bound_def demo_px_exec authenticate_def)

section \<open>Witnesses\<close>

theorem ended_preview_dead_witness:
  "\<exists>b g1. endSession 60 0 \<lparr>en_Reason = EndLabReset, en_NotifyConnector = True\<rparr> closeNormal ''session ended'' False
      (demo_px_run demo_px_active) = (b, g1)
    \<and> (\<forall>es2. refuses_all (\<lambda>b. b) (gw_heap (gw_run (\<lambda>b. b) es2 g1) ! 0)
         \<and> tn_cause (gw_tunnels (gw_run (\<lambda>b. b) es2 g1) ! 0) \<noteq> None)"
proof -
  obtain b g1 where e: "endSession 60 0 \<lparr>en_Reason = EndLabReset, en_NotifyConnector = True\<rparr> closeNormal ''session ended'' False
      (demo_px_run demo_px_active) = (b, g1)" by fastforce
  from ended_preview_dead [OF demo_px_run_def demo_px_active_state(1) e refl] demo_px_active_state(3) e show ?thesis by blast
qed

theorem preview_cookie_lifetime_witness:
  "\<exists>pre t0 raw0 mid t1 raw1 presented post.
     demo_px_active = pre @ [GActivate t0 raw0 0] @ mid @ [GExchange t1 raw1 presented 0] @ post
     \<and> base64_encode (demo_px_raw CHR ''b'') = base64_encode raw1"
proof -
  note a = demo_px_active_state(1,4) [unfolded demo_px_run_def]
  from preview_cookie_lifetime [OF a] show ?thesis unfolding Let_def by blast
qed

theorem revocation_ends_previews_witness:
  "px_state (gw_heap (demo_px_run demo_px_active) ! 0) = stateActive
   \<and> px_state (gw_heap (CredentialRevoked 60 [0] 9 (demo_px_run demo_px_active)) ! 0) = stateEnded
   \<and> px_state (gw_heap (ConnectorRevoked 60 [0] 9 (demo_px_run demo_px_active)) ! 0) = stateActive
   \<and> tn_cause (gw_tunnels (Close_gateway 60 [0] (demo_px_run demo_px_active)) ! 0) \<noteq> None"
proof -
  let ?g = "demo_px_run demo_px_active"
  note st = demo_px_active_state
  have "set [0] = ran (gw_sessions ?g)" by (simp add: st(2))
  from revocation_ends_previews [OF demo_px_run_def this, of 9 60] st(9)
  have "ended_exactly (\<lambda>s. px_bound s \<and> px_credentialID s = 9) \<lparr>en_Reason = EndCredentialRevoked, en_NotifyConnector = False\<rparr>
          ?g (CredentialRevoked 60 [0] 9 ?g)"
    "ended_exactly (\<lambda>s. px_connectorID s = 9) \<lparr>en_Reason = EndCredentialRevoked, en_NotifyConnector = False\<rparr>
          ?g (ConnectorRevoked 60 [0] 9 ?g)"
    "ended_exactly (\<lambda>s. True) \<lparr>en_Reason = EndServiceRestarting, en_NotifyConnector = True\<rparr> ?g (Close_gateway 60 [0] ?g)" by simp_all
  then show ?thesis using st by (simp add: ended_exactly_def Let_def mark_ended_def)
qed

theorem attach_accepted_iff_witness:
  "fst (attach 0 demo_px_frame (demo_px_run demo_px_bound)) = Inr 0
   \<and> (\<exists>r. fst (attach 0 (demo_px_frame\<lparr>af_TargetPort := 22\<rparr>) (demo_px_run demo_px_bound)) = Inl r)"
proof -
  let ?g = "demo_px_run demo_px_bound"
  note st = demo_px_bound_state
  have d: "0 < length (gw_conns ?g)" by (simp add: st(3))
  have "attach_matches demo_px_identity (demo_px_frame\<lparr>af_TargetPort := 22\<rparr>) (gw_heap ?g ! 0) = False"
    using st(7) by (simp add: attach_matches_def demo_px_frame_def)
  with attach_accepted_iff [OF d] st(2,4,7) show ?thesis
    by (cases "fst (attach 0 (demo_px_frame\<lparr>af_TargetPort := 22\<rparr>) ?g)") (auto simp: demo_px_frame_def)
qed

theorem second_attach_survives_witness:
  "\<exists>g1 g2 g3 t1 g4 t2 g5. attach 0 demo_px_frame (demo_px_run demo_px_bound) = (Inr 0, g1)
    \<and> attach 1 demo_px_frame g1 = (Inr 0, g2) \<and> ack_written 0 0 g2 = (t1, g3) \<and> ack_written 0 1 g3 = (t2, g4)
    \<and> endSession 60 0 \<lparr>en_Reason = EndCredentialRevoked, en_NotifyConnector = False\<rparr> closeCredentialRevoked ''credential revoked'' False g4
        = (True, g5)
    \<and> tn_cause (gw_tunnels g5 ! t1) = None \<and> dc_closed (gw_conns g5 ! 0) = None"
proof -
  let ?g = "demo_px_run demo_px_bound"
  note st = demo_px_bound_state
  have "fst (attach 0 demo_px_frame ?g) = Inr 0"
    using attach_accept [of 0 ?g demo_px_frame 0] st(2,3,4,7) by (simp add: demo_px_frame_def)
  then obtain g1 where a: "attach 0 demo_px_frame ?g = (Inr 0, g1)" by (metis prod.collapse)
  have "0 < length (gw_conns ?g)" "1 < length (gw_conns ?g)" "(0::nat) \<noteq> 1" "0 < length (gw_heap ?g)"
    "dc_identity (gw_conns ?g ! 1) = dc_identity (gw_conns ?g ! 0)" "dc_closed (gw_conns ?g ! 0) = None"
    using st(1,3,4,5,6) by (simp_all add: known_def)
  from second_attach_survives [OF a this] obtain g2 g3 t1 g4 t2 where
    r: "attach 1 demo_px_frame g1 = (Inr 0, g2)" "ack_written 0 0 g2 = (t1, g3)" "ack_written 0 1 g3 = (t2, g4)"
    and e: "\<forall>now e code msg silent. case endSession now 0 e code msg silent g4 of (b, g5) \<Rightarrow>
        b \<and> tn_cause (gw_tunnels g5 ! t2) \<noteq> None \<and> tn_ws (gw_tunnels g5 ! t1) = 0
        \<and> tn_cause (gw_tunnels g5 ! t1) = None \<and> dc_closed (gw_conns g5 ! 0) = None" by blast
  obtain b g5 where x: "endSession 60 0 \<lparr>en_Reason = EndCredentialRevoked, en_NotifyConnector = False\<rparr> closeCredentialRevoked
      ''credential revoked'' False g4 = (b, g5)" by fastforce
  have "b = True \<and> tn_cause (gw_tunnels g5 ! t1) = None \<and> dc_closed (gw_conns g5 ! 0) = None"
    using e [rule_format, of 60 "\<lparr>en_Reason = EndCredentialRevoked, en_NotifyConnector = False\<rparr>" closeCredentialRevoked
      "''credential revoked''" False] unfolding x by simp
  with a r x show ?thesis by blast
qed

end
