(* ===== verification/Spec2Isabelle.thy ===== *)
theory Spec2Isabelle
  imports Connector_Sessions Registry_Interleaving Lab_System Browser_Sessions Connector_Enrollment Class_View Executor_Evidence Session_Evidence Preview_Evidence
begin

text \<open>
  A verification library for the Labbit server. Labbit lets an instructor provision a lab (a set of
  virtual machines per student) through a Connector that runs beside the provider; students then use
  terminals, files and previews of their machines. The library models the server's own logic
  (\<^verbatim>\<open>src/internal/server\<close> and \<^verbatim>\<open>src/internal/postgres\<close>): every operation is a HOL function on
  explicit state, in the order of the code's statements, with every early return as a branch.

  \<^bold>\<open>How the parts work together.\<close> A request handler calls a service; a service runs transactions on
  PostgreSQL, sends commands to Connectors through the router, which finds the current control session of
  a Connector in the registry. Accepted requests (\<^verbatim>\<open>labexecution\<close>) register an operation with one item
  per lab instance; workers (\<^verbatim>\<open>operation\<close>, \<^verbatim>\<open>provision\<close>) claim items under leases, command a Connector and
  write what it reports. The session services (\<^verbatim>\<open>terminal\<close>, \<^verbatim>\<open>livesession\<close>, \<^verbatim>\<open>previewsession\<close>) open a
  channel to one machine and must close it when the lab changes.

  \<^bold>\<open>Shared theories.\<close>
  \<^item> \<open>Labbit_Prelude\<close>: identifiers, times, Go's \<^verbatim>\<open>utf8\<close>/\<^verbatim>\<open>strings\<close>/\<^verbatim>\<open>uuid\<close> on byte strings, the generic
    lemmas and the \<open>named_theorems\<close> collections.
  \<^item> \<open>Store_Model\<close>: the tables of \<^verbatim>\<open>db/migrations\<close> as maps in one record, a transaction as a function to
    a result and a new state (\<^verbatim>\<open>inTransaction\<close> of \<^verbatim>\<open>store.go\<close>: an error keeps the old state), the unique
    indexes as failing inserts. \<open>Row_History\<close>: tables whose rows only move along an order.
  \<^item> \<open>Go_Base64\<close>: \<^verbatim>\<open>base64.RawURLEncoding\<close>, strict decoding, and their round trip.

  \<^bold>\<open>Connector side of the server\<close> (\<^verbatim>\<open>server/connector\<close>, \<^verbatim>\<open>server/tracecontext\<close>, \<^verbatim>\<open>connector/protocol\<close>).
  \<^item> \<open>Trace_Context\<close>, \<open>Connector_Protocol\<close>, \<open>Connector_Command\<close>: trace headers, the message types and
    the checks before each outbound command.
  \<^item> \<open>Connector_Registry\<close>: \<^verbatim>\<open>registry.go\<close>; \<open>Registry_Interleaving\<close>: the same code as threads whose steps
    are the critical sections, and what holds under every interleaving (a displaced session is fenced).
  \<^item> \<open>Connector_Router\<close>, \<open>Connector_Sessions\<close>: \<^verbatim>\<open>router.go\<close>, \<^verbatim>\<open>events.go\<close>, \<^verbatim>\<open>terminal.go\<close>, \<^verbatim>\<open>file.go\<close>,
    \<^verbatim>\<open>preview.go\<close>; \<open>Router_Correlation\<close>: the router's pending tables under interleaving: a
    message of a Connector is delivered exactly as an answer to the outstanding request that it names, and
    a sequential call is one of three runs of the interleaved system.
  \<^item> \<open>Connector_Enrollment\<close>: \<^verbatim>\<open>enrollment.go\<close>, \<^verbatim>\<open>auth.go\<close> and their statements.

  \<^bold>\<open>Workers\<close> (\<^verbatim>\<open>internal/postgres/*_worker.go\<close>, \<^verbatim>\<open>reconciliation.go\<close>).
  \<^item> \<open>Worker_Lease\<close>, \<open>Worker_Provision\<close>, \<open>Worker_Mutation\<close>, \<open>Worker_Reconciliation\<close>: the transactions;
    the definitions keep the names of the Go functions.
  \<^item> \<open>Worker_Fencing\<close>: the locale of a fenced transaction, interpreted for each of them, and the system of
    all of them; \<open>Worker_Outcomes\<close>: what a recorded outcome proves about the resources;
    \<open>Worker_Identity\<close>: what no worker changes, and the items that an ended execution strands.
  \<^item> \<open>Operation_Executor\<close>, \<open>Executor_Evidence\<close>: \<^verbatim>\<open>operation/worker.go\<close> and \<^verbatim>\<open>provision\<close>, a turn of the
    worker with its trace; each step of the trace rests on evidence, and a turn ends.

  \<^bold>\<open>Requests\<close> (\<^verbatim>\<open>server/operation\<close>, \<^verbatim>\<open>labexecution\<close>, \<^verbatim>\<open>labspec\<close>, \<^verbatim>\<open>class\<close>, \<^verbatim>\<open>auth\<close>).
  \<^item> \<open>Operation_Register\<close>: durable, idempotent registration and the reads of operations.
  \<^item> \<open>Lab_Snapshot\<close>: resolution of a LabSpec to an immutable snapshot. \<open>Lab_Execution\<close>, \<open>Lab_Acceptance\<close>,
    \<open>Lab_Mutations\<close>: Provision, Reset, Cleanup and the reads, with every outcome of each.
  \<^item> \<open>Lab_System\<close>: requests and workers as one system over the tables, its invariant, and the
    Reset that outlives its execution.
  \<^item> \<open>Lab_Spec\<close>: validation and editing of LabSpecs with revisions. \<open>Class_View\<close>: what a user sees of
    classes. \<open>Browser_Sessions\<close>: login, authentication and logout.

  \<^bold>\<open>Sessions\<close> (\<^verbatim>\<open>server/terminal\<close>, \<^verbatim>\<open>livesession\<close>).
  \<^item> \<open>Terminal_Store\<close>: the statements; \<open>Terminal_Session\<close>: the service; \<open>Terminal_Lifecycle\<close>,
    \<open>Terminal_Creation\<close>, \<open>Terminal_Closing\<close>: attaching, creation and its cleanup, closing, runs of the
    service; \<open>Live_Session\<close>: live sessions; \<open>Session_Evidence\<close>: the concrete runs of the witnesses.

  \<^bold>\<open>Previews\<close> (\<^verbatim>\<open>server/preview\<close>, \<^verbatim>\<open>internal/jsonnum\<close>).
  \<^item> \<open>Json_Number\<close>: the recognition of integers in JSON texts, equal to their value as rationals.
  \<^item> \<open>Preview_Origin\<close>: \<^verbatim>\<open>origin.go\<close>, the hosts of preview sessions and the parsing of the template.
  \<^item> \<open>Preview_Gateway\<close>: sessions, credentials, tunnels and the Data endpoint; \<open>Preview_Runs\<close>: the critical sections
    as steps of a system, and what no run does; \<open>Preview_Ending\<close>: revocations, shutdown, attaching;
    \<open>Preview_Evidence\<close>: the concrete run of the witnesses.

  \<^bold>\<open>Locales.\<close> The interfaces are stated once and interpreted on the model: \<open>fenced_tx\<close>, what every
  transaction of a worker promises; \<open>row_history\<close>, a table whose rows move along an order (sessions,
  credentials, tokens, LabSpecs, terminals, live sessions); \<open>registry_op\<close>, what every operation of the registry
  keeps; \<open>pending_table\<close>, the three tables of pending opens of the router.

  \<^bold>\<open>Parameters.\<close> What is not code of this repository is an argument: SHA-256, the random source (the
  tokens and UUIDs that a call draws), argon2 verification, the clock readings of a call, the JSON
  encoding of a stored text, and the answers of a peer (a write that fails, a Connector's message, a relay
  that refuses). Hypotheses on them are documented behaviour: a digest without collisions on the values
  that occur, a fresh random value, a clock that does not go back where the code relies on it.

  \<^bold>\<open>Bounds and loops.\<close> Integers that the code stores are kept at their width or bounded by the checks the
  code makes (generations and revisions at 32 bits, ports at 16). A loop over rows is structural recursion
  on the list that the query returns; the worker's wait is driven by a script of the cases that its
  \<^verbatim>\<open>select\<close> takes, an exhausted script is \<open>None\<close>, and \<open>worker_turn_ends\<close> shows that a timer or a
  cancellation in the script is enough for a result.

  \<^bold>\<open>Transactions.\<close> A transaction is atomic: the code takes row locks (\<^verbatim>\<open>FOR UPDATE\<close>, \<^verbatim>\<open>FOR SHARE\<close>)
  or relies on unique indexes, and the models commit at one point. Where a call consists of several
  transactions, other commits may come between them, and the properties quantify over those.

  \<^bold>\<open>Not modelled.\<close>
  \<^item> Logging, metrics and tracing spans: they do not feed back into the modelled state.
  \<^item> The HTTP and WSS layers (\<^verbatim>\<open>httpapi\<close>, \<^verbatim>\<open>connectorwss\<close>, \<^verbatim>\<open>app\<close>): decoding of requests, mapping of
    errors to statuses, process wiring, the gorilla connections.
  \<^item> The byte relays (\<^verbatim>\<open>realtime\<close>, \<^verbatim>\<open>filetransport\<close>): they appear by their answers to the services.
  \<^item> Of the Preview Gateway: the reverse proxy, cookie headers, the bootstrap page, \<^verbatim>\<open>ValidateSameSite\<close> (public
    suffix list), and the use case \<^verbatim>\<open>previewsession\<close>.
  \<^item> The Connector program (\<^verbatim>\<open>internal/connector\<close> but for \<^verbatim>\<open>protocol\<close>), its SSH and OpenStack code:
    a peer, whose messages are arbitrary values of the protocol's types.
  \<^item> Failures of the database other than those a transaction reports as an error; deadlocks.
  \<^item> Migrations, tools, fixtures of the documentation, and helpers of tests.
\<close>

end
